(* ===== verification/Prelude.thy ===== *)
theory Prelude
  imports Main
begin

text \<open>
  Shared vocabulary of the development: identifiers and time, the error values the services
  throw, relational tables as lists of rows with the Prisma operations on them
  (\<open>findFirst\<close>, \<open>updateMany\<close>, \<open>create\<close>), the decimal text of numbers, and the
  list and string lemmas that the components use.

  Identifiers (UUIDs, provider ids) are only compared for equality by the code, so they are
  numbers. Instants are epoch milliseconds.
\<close>

type_synonym uuid = nat
type_synonym instant = int
type_synonym paise = int

named_theorems table_simps "rewriting of table operations"
named_theorems ops "the definitions of the modelled operations"
named_theorems frames "what an operation leaves unchanged"

section \<open>Errors\<close>

text \<open>
  The exceptions of the services: the Nest HTTP exceptions with their message, the two
  merchant-commerce errors, Prisma's unique violation (P2002), the payment mismatch of
  \<open>payment-mismatch.error.ts\<close> and any other thrown \<open>Error\<close>.
\<close>

datatype mismatch_reason =
  RazorpayOrderIdMismatch | CurrencyMismatch | AmountMismatch

datatype err =
    BadRequest string
  | Unauthorized string
  | Forbidden string
  | NotFound string
  | Conflict string
  | Unprocessable string
  | PayloadTooLarge string
  | ServiceUnavailable string
  | MerchantPaymentUnavailable
  | PaymentProviderUnavailable
  | UniqueViolation
  | PaymentMismatch mismatch_reason
  | UnresolvedRefundWebhook uuid
  | BillingPeriodUnresolved string
  | InvalidUsage string
  | Thrown string

type_synonym 'a result = "err + 'a"

text \<open>A transaction: it fails and its writes are rolled back, or it returns a value and the
  new state.\<close>

type_synonym ('s, 'a) tx = "'s \<Rightarrow> err + 'a \<times> 's"

definition run_tx :: "('s, 'a) tx \<Rightarrow> 's \<Rightarrow> (err + 'a) \<times> 's" where
  "run_tx t s = (case t s of Inl e \<Rightarrow> (Inl e, s) | Inr (x, s') \<Rightarrow> (Inr x, s'))"

lemma run_tx_rollback: "fst (run_tx t s) = Inl e \<Longrightarrow> snd (run_tx t s) = s"
  by (auto simp: run_tx_def split: sum.splits prod.splits)

lemma run_tx_commit: "t s = Inr (x, s') \<Longrightarrow> run_tx t s = (Inr x, s')"
  by (simp add: run_tx_def)

lemma run_tx_invariant:
  assumes "I s" and "\<And>x s'. t s = Inr (x, s') \<Longrightarrow> I s'"
  shows "I (snd (run_tx t s))"
  using assms by (auto simp: run_tx_def split: sum.splits prod.splits)

text \<open>A name between double quotes in a message.\<close>

definition quoted :: "string \<Rightarrow> string" where
  "quoted s = [CHR 0x22] @ s @ [CHR 0x22]"

text \<open>Sequencing: an error ends the handler, \<open>require\<close> is a guard that throws.\<close>

definition then_do :: "err + 'a \<Rightarrow> ('a \<Rightarrow> err + 'b) \<Rightarrow> err + 'b" where
  "then_do r f = (case r of Inl e \<Rightarrow> Inl e | Inr x \<Rightarrow> f x)"

definition require :: "bool \<Rightarrow> err \<Rightarrow> unit result" where
  "require b e = (if b then Inr () else Inl e)"

definition or_throw :: "'a option \<Rightarrow> err \<Rightarrow> 'a result" where
  "or_throw x e = (case x of None \<Rightarrow> Inl e | Some y \<Rightarrow> Inr y)"

lemma then_do_simps [simp]: "then_do (Inl e) f = Inl e" "then_do (Inr x) f = f x"
  by (simp_all add: then_do_def)

lemma then_do_Inr [simp]: "then_do r f = Inr y \<longleftrightarrow> (\<exists>x. r = Inr x \<and> f x = Inr y)"
  by (cases r) auto

lemma then_do_Inl: "then_do r f = Inl e \<longleftrightarrow> r = Inl e \<or> (\<exists>x. r = Inr x \<and> f x = Inl e)"
  by (cases r) auto

lemma require_Inr [simp]: "require b e = Inr u \<longleftrightarrow> b"
  by (simp add: require_def)

lemma require_Inl [simp]: "require b e = Inl e' \<longleftrightarrow> \<not> b \<and> e' = e"
  by (auto simp: require_def)

lemma or_throw_Inr [simp]: "or_throw x e = Inr y \<longleftrightarrow> x = Some y"
  by (cases x) (auto simp: or_throw_def)

lemma or_throw_Inl [simp]: "or_throw x e = Inl e' \<longleftrightarrow> x = None \<and> e' = e"
  by (cases x) (auto simp: or_throw_def)

text \<open>A loop that stops at the first error.\<close>

fun map_result :: "('a \<Rightarrow> 'b result) \<Rightarrow> 'a list \<Rightarrow> 'b list result" where
  "map_result f [] = Inr []"
| "map_result f (x # xs) = then_do (f x) (\<lambda>y. then_do (map_result f xs) (\<lambda>ys. Inr (y # ys)))"

lemma map_result_Inr: "map_result f xs = Inr ys \<Longrightarrow> list_all2 (\<lambda>x y. f x = Inr y) xs ys"
  by (induction xs arbitrary: ys) auto

lemma map_result_Inr_in: "map_result f xs = Inr ys \<Longrightarrow> x \<in> set xs \<Longrightarrow> \<exists>y \<in> set ys. f x = Inr y"
  by (induction xs arbitrary: ys) auto

lemma map_result_Inr_from: "map_result f xs = Inr ys \<Longrightarrow> y \<in> set ys \<Longrightarrow> \<exists>x \<in> set xs. f x = Inr y"
  by (induction xs arbitrary: ys) auto

lemma map_result_cong: "(\<And>x. x \<in> set xs \<Longrightarrow> f x = g x) \<Longrightarrow> map_result f xs = map_result g xs"
  by (induction xs) auto

fun each :: "('a \<Rightarrow> unit result) \<Rightarrow> 'a list \<Rightarrow> unit result" where
  "each f [] = Inr ()"
| "each f (x # xs) = then_do (f x) (\<lambda>_. each f xs)"

lemma each_Inr [simp]: "each f xs = Inr u \<longleftrightarrow> (\<forall>x \<in> set xs. f x = Inr ())"
  by (induction xs) auto

section \<open>Tables\<close>

text \<open>\<open>updateMany\<close>: how many rows matched, and the table after the update.\<close>

definition update_rows :: "('r \<Rightarrow> bool) \<Rightarrow> ('r \<Rightarrow> 'r) \<Rightarrow> 'r list \<Rightarrow> 'r list" where
  "update_rows p f rs = map (\<lambda>r. if p r then f r else r) rs"

definition hits :: "('r \<Rightarrow> bool) \<Rightarrow> 'r list \<Rightarrow> nat" where
  "hits p rs = length (filter p rs)"

text \<open>\<open>findFirst\<close> with \<open>orderBy: \<open>key\<close> desc\<close>: the matching row with the greatest key.\<close>

fun latest :: "('r \<Rightarrow> int) \<Rightarrow> ('r \<Rightarrow> bool) \<Rightarrow> 'r list \<Rightarrow> 'r option" where
  "latest key p [] = None"
| "latest key p (r # rs) =
     (case latest key p rs of
        None \<Rightarrow> (if p r then Some r else None)
      | Some b \<Rightarrow> if p r \<and> key b < key r then Some r else Some b)"

lemma latest_SomeD: "latest key p rs = Some r \<Longrightarrow> r \<in> set rs \<and> p r"
  by (induction rs arbitrary: r) (auto split: option.splits if_splits)

lemma latest_NoneD: "latest key p rs = None \<Longrightarrow> r \<in> set rs \<Longrightarrow> \<not> p r"
  by (induction rs) (auto split: option.splits if_splits)

lemma find_SomeD: "List.find p rs = Some r \<Longrightarrow> r \<in> set rs \<and> p r"
  by (auto simp: find_Some_iff)

lemma find_NoneD: "List.find p rs = None \<Longrightarrow> r \<in> set rs \<Longrightarrow> \<not> p r"
  by (auto simp: find_None_iff)

lemma update_rows_Nil [simp, table_simps]: "update_rows p f [] = []"
  by (simp add: update_rows_def)

lemma update_rows_Cons [simp, table_simps]:
  "update_rows p f (r # rs) = (if p r then f r else r) # update_rows p f rs"
  by (simp add: update_rows_def)

lemma length_update_rows [simp, table_simps]: "length (update_rows p f rs) = length rs"
  by (simp add: update_rows_def)

lemma update_rows_append [simp]:
  "update_rows p f (xs @ ys) = update_rows p f xs @ update_rows p f ys"
  by (simp add: update_rows_def)

lemma in_update_rows:
  "r \<in> set (update_rows p f rs) \<longleftrightarrow>
     (\<exists>x \<in> set rs. r = (if p x then f x else x))"
  by (auto simp: update_rows_def)

lemma update_rows_cases:
  assumes "x \<in> set (update_rows p f rs)"
  obtains (hit) r where "r \<in> set rs" "p r" "x = f r" | (kept) "x \<in> set rs" "\<not> p x"
  using assms by (auto simp: in_update_rows split: if_splits)

lemma update_rows_keep: "r \<in> set rs \<Longrightarrow> \<not> p r \<Longrightarrow> r \<in> set (update_rows p f rs)"
  by (auto simp: in_update_rows intro!: bexI [of _ r])

lemma map_update_rows:
  "(\<And>r. p r \<Longrightarrow> g (f r) = g r) \<Longrightarrow> map g (update_rows p f rs) = map g rs"
  by (simp add: update_rows_def)

lemma update_rows_none: "(\<And>r. r \<in> set rs \<Longrightarrow> \<not> p r) \<Longrightarrow> update_rows p f rs = rs"
  by (induction rs) auto

lemma hits_0_iff: "hits p rs = 0 \<longleftrightarrow> (\<forall>r \<in> set rs. \<not> p r)"
  by (simp add: hits_def filter_empty_conv)

lemma hits_pos_iff: "0 < hits p rs \<longleftrightarrow> (\<exists>r \<in> set rs. p r)"
  by (simp add: hits_def filter_empty_conv)

lemma update_rows_hits_0: "hits p rs = 0 \<Longrightarrow> update_rows p f rs = rs"
  by (rule update_rows_none) (simp add: hits_0_iff)

lemma hits_Nil [simp]: "hits p [] = 0"
  by (simp add: hits_def)

lemma hits_Cons [simp]: "hits p (r # rs) = (if p r then Suc (hits p rs) else hits p rs)"
  by (simp add: hits_def)

lemma hits_append [simp]: "hits p (xs @ ys) = hits p xs + hits p ys"
  by (simp add: hits_def)

lemma hits_cong: "(\<And>r. r \<in> set rs \<Longrightarrow> p r = q r) \<Longrightarrow> hits p rs = hits q rs"
  by (simp add: hits_def cong: filter_cong)

text \<open>A column that is a key (\<open>@id\<close>, \<open>@unique\<close>) makes lookups and updates by it
  touch one row.\<close>

lemma distinct_key_inj:
  "distinct (map key rs) \<Longrightarrow> x \<in> set rs \<Longrightarrow> y \<in> set rs \<Longrightarrow> key x = key y \<Longrightarrow> x = y"
  by (auto simp: distinct_map inj_on_def)

lemma hits_key_le_1: "distinct (map key rs) \<Longrightarrow> hits (\<lambda>r. key r = k \<and> q r) rs \<le> 1"
  by (induction rs) (auto simp: hits_0_iff image_iff)

lemma hits_key_1_iff:
  assumes "distinct (map key rs)"
  shows "hits (\<lambda>r. key r = k \<and> q r) rs = 1 \<longleftrightarrow> (\<exists>r \<in> set rs. key r = k \<and> q r)"
  using hits_key_le_1 [OF assms, of k q] hits_pos_iff [of "\<lambda>r. key r = k \<and> q r" rs]
  by (metis One_nat_def le_antisym less_numeral_extra(1) Suc_leI)

lemma find_key:
  assumes "distinct (map key rs)" and "r \<in> set rs"
  shows "List.find (\<lambda>x. key x = key r) rs = Some r"
  using assms by (induction rs) (auto simp: image_iff)

lemma find_key_cond:
  assumes "distinct (map key rs)" and "r \<in> set rs" and "q r"
  shows "List.find (\<lambda>x. key x = key r \<and> q x) rs = Some r"
  using assms by (induction rs) (auto simp: image_iff)

lemma find_key_update:
  assumes "\<And>r. p r \<Longrightarrow> key (f r) = key r"
  shows "List.find (\<lambda>x. key x = k) (update_rows p f rs) =
    map_option (\<lambda>r. if p r then f r else r) (List.find (\<lambda>x. key x = k) rs)"
  using assms by (induction rs) auto

lemma find_append:
  "List.find p (xs @ ys) = (case List.find p xs of None \<Rightarrow> List.find p ys | Some r \<Rightarrow> Some r)"
  by (induction xs) auto

section \<open>Text\<close>

text \<open>
  Strings are lists of characters below code point 256. \<open>trim\<close> drops the white space of
  ECMAScript in that range; the case functions are those of ASCII.
\<close>

definition js_space :: "char \<Rightarrow> bool" where
  "js_space c \<longleftrightarrow> of_char c \<in> {9, 10, 11, 12, 13, 32, 160 :: nat}"

definition js_trim :: "string \<Rightarrow> string" where
  "js_trim s = rev (dropWhile js_space (rev (dropWhile js_space s)))"

definition upper_char :: "char \<Rightarrow> char" where
  "upper_char c = (let n = of_char c in if 97 \<le> n \<and> n \<le> (122 :: nat) then char_of (n - 32) else c)"

definition lower_char :: "char \<Rightarrow> char" where
  "lower_char c = (let n = of_char c in if 65 \<le> n \<and> n \<le> (90 :: nat) then char_of (n + 32) else c)"

definition to_upper :: "string \<Rightarrow> string" where
  "to_upper = map upper_char"

definition to_lower :: "string \<Rightarrow> string" where
  "to_lower = map lower_char"

lemma upper_char_idem [simp]: "upper_char (upper_char c) = upper_char c"
  by (auto simp: upper_char_def Let_def)

lemma lower_char_idem [simp]: "lower_char (lower_char c) = lower_char c"
  by (auto simp: lower_char_def Let_def)

lemma to_upper_idem [simp]: "to_upper (to_upper s) = to_upper s"
  by (simp add: to_upper_def)

lemma to_lower_idem [simp]: "to_lower (to_lower s) = to_lower s"
  by (simp add: to_lower_def)

lemma js_space_upper [simp]: "js_space (upper_char c) = js_space c"
  by (auto simp: js_space_def upper_char_def Let_def)

lemma js_space_lower [simp]: "js_space (lower_char c) = js_space c"
  by (auto simp: js_space_def lower_char_def Let_def)

lemma dropWhile_map_same:
  "(\<And>c. p (f c) = p c) \<Longrightarrow> dropWhile p (map f s) = map f (dropWhile p s)"
  by (induction s) auto

lemma dropWhile_idem [simp]: "dropWhile p (dropWhile p s) = dropWhile p s"
  by (induction s) auto

lemma js_trim_to_upper: "js_trim (to_upper s) = to_upper (js_trim s)"
  by (simp add: js_trim_def to_upper_def dropWhile_map_same rev_map flip: map_map)

lemma js_trim_to_lower: "js_trim (to_lower s) = to_lower (js_trim s)"
  by (simp add: js_trim_def to_lower_def dropWhile_map_same rev_map flip: map_map)

lemma dropWhile_rev_dropWhile:
  "dropWhile p (rev (dropWhile p (rev (dropWhile p s)))) = rev (dropWhile p (rev (dropWhile p s)))"
proof (cases "dropWhile p s")
  case Nil
  show ?thesis unfolding Nil by simp
next
  case (Cons c cs)
  then have c: "\<not> p c"
    by (metis hd_dropWhile list.distinct(1) list.sel(1))
  have "rev (dropWhile p (rev (c # cs))) \<noteq> [] \<Longrightarrow> hd (rev (dropWhile p (rev (c # cs)))) = c"
    using c by (simp add: dropWhile_append split: if_splits)
  then show ?thesis
    using c Cons by (cases "rev (dropWhile p (rev (c # cs)))") auto
qed

lemma js_trim_idem [simp]: "js_trim (js_trim s) = js_trim s"
  by (simp add: js_trim_def dropWhile_rev_dropWhile)

lemma js_trim_plain: "(\<And>c. c \<in> set s \<Longrightarrow> \<not> js_space c) \<Longrightarrow> js_trim s = s"
proof -
  assume s: "\<And>c. c \<in> set s \<Longrightarrow> \<not> js_space c"
  have same: "dropWhile js_space xs = xs" if "set xs \<subseteq> set s" for xs
    using that s by (cases xs) auto
  have "dropWhile js_space s = s" "dropWhile js_space (rev s) = rev s"
    by (simp_all add: same)
  then show ?thesis by (simp add: js_trim_def)
qed

text \<open>Decimal digits.\<close>

definition digit :: "nat \<Rightarrow> char" where
  "digit n = char_of (48 + n)"

definition digit_value :: "char \<Rightarrow> nat" where
  "digit_value c = of_char c - 48"

definition is_digit :: "char \<Rightarrow> bool" where
  "is_digit c \<longleftrightarrow> 48 \<le> (of_char c :: nat) \<and> (of_char c :: nat) \<le> 57"

fun nat_text :: "nat \<Rightarrow> string" where
  "nat_text n = (if n < 10 then [digit n] else nat_text (n div 10) @ [digit (n mod 10)])"

declare nat_text.simps [simp del]

definition text_value :: "string \<Rightarrow> nat" where
  "text_value s = foldl (\<lambda>v c. 10 * v + digit_value c) 0 s"

definition pad_start :: "nat \<Rightarrow> string \<Rightarrow> string" where
  "pad_start n s = replicate (n - length s) (digit 0) @ s"

lemma digit_value_digit [simp]: "n < 10 \<Longrightarrow> digit_value (digit n) = n"
  by (simp add: digit_value_def digit_def)

lemma is_digit_digit [simp]: "n < 10 \<Longrightarrow> is_digit (digit n)"
  by (simp add: is_digit_def digit_def)

lemma text_value_snoc [simp]: "text_value (s @ [c]) = 10 * text_value s + digit_value c"
  by (simp add: text_value_def)

lemma text_value_Nil [simp]: "text_value [] = 0"
  by (simp add: text_value_def)

lemma text_value_nat_text [simp]: "text_value (nat_text n) = n"
proof (induction n rule: nat_text.induct)
  case (1 n)
  show ?case
  proof (cases "n < 10")
    case True
    then show ?thesis by (simp add: nat_text.simps [of n] text_value_def)
  next
    case False
    then show ?thesis using 1 by (simp add: nat_text.simps [of n])
  qed
qed

lemma nat_text_inj: "nat_text m = nat_text n \<Longrightarrow> m = n"
  by (metis text_value_nat_text)

lemma nat_text_digits: "c \<in> set (nat_text n) \<Longrightarrow> is_digit c"
proof (induction n rule: nat_text.induct)
  case (1 n)
  then show ?case
    by (cases "n < 10") (auto simp: nat_text.simps [of n])
qed

lemma text_value_zeros [simp]: "text_value (replicate k (digit 0) @ s) = text_value s"
proof -
  have "foldl (\<lambda>v c. 10 * v + digit_value c) 0 (replicate k (digit 0)) = 0"
    by (induction k) simp_all
  then show ?thesis by (simp add: text_value_def)
qed

lemma text_value_pad_start [simp]: "text_value (pad_start n s) = text_value s"
  by (simp add: pad_start_def)

lemma pad_start_inj: "pad_start k (nat_text m) = pad_start k (nat_text n) \<Longrightarrow> m = n"
  by (metis text_value_pad_start text_value_nat_text)

definition int_text :: "int \<Rightarrow> string" where
  "int_text n = (if n < 0 then CHR ''-'' # nat_text (nat (- n)) else nat_text (nat n))"

section \<open>Pages\<close>

text \<open>\<open>skip: (page - 1) * limit, take: limit\<close>, and the page count of the list views.\<close>

definition page_slice :: "nat \<Rightarrow> nat \<Rightarrow> 'a list \<Rightarrow> 'a list" where
  "page_slice page limit xs = take limit (drop ((page - 1) * limit) xs)"

definition total_pages :: "nat \<Rightarrow> nat \<Rightarrow> nat" where
  "total_pages limit n = max 1 ((n + limit - 1) div limit)"

lemma pages_prefix:
  "concat (map (\<lambda>p. page_slice p limit xs) [1..<Suc n]) = take (n * limit) xs"
proof (induction n)
  case 0
  then show ?case by simp
next
  case (Suc n)
  have "take (n * limit) xs @ take limit (drop (n * limit) xs) = take (n * limit + limit) xs"
    by (simp add: take_add)
  then show ?case using Suc by (simp add: page_slice_def add.commute)
qed

lemma pages_cover:
  assumes "0 < limit"
  shows "concat (map (\<lambda>p. page_slice p limit xs) [1..<Suc (total_pages limit (length xs))]) = xs"
proof -
  have "length xs \<le> (length xs + limit - 1) div limit * limit"
  proof -
    have "length xs + limit - 1 = (length xs + limit - 1) div limit * limit + (length xs + limit - 1) mod limit"
      by simp
    moreover have "(length xs + limit - 1) mod limit \<le> limit - 1"
      using mod_less_divisor [OF assms, of "length xs + limit - 1"] by linarith
    ultimately show ?thesis using assms by linarith
  qed
  also have "\<dots> \<le> total_pages limit (length xs) * limit"
    by (simp add: total_pages_def)
  finally show ?thesis by (simp only: pages_prefix take_all)
qed

lemma pages_cover_map:
  assumes "0 < limit"
  shows "concat (map (\<lambda>p. map f (page_slice p limit xs)) [1..<Suc (total_pages limit (length xs))]) =
    map f xs"
proof -
  have "concat (map (\<lambda>p. map f (page_slice p limit xs)) ps) =
      map f (concat (map (\<lambda>p. page_slice p limit xs) ps))" for ps
    by (induction ps) auto
  then show ?thesis by (simp only: pages_cover [OF assms])
qed

end
