(* ===== verification/Money.thy ===== *)
theory Money
  imports Complex_Main Prelude
begin

text \<open>
  Money: \<open>cart/pricing/money.util.ts\<close>, \<open>checkout/pricing/pricing.service.ts\<close> and the
  pure part of \<open>checkout/tax/tax.service.ts\<close>. Prices are \<open>bigint\<close> paise, hence
  \<open>int\<close>; a \<open>Prisma.Decimal\<close> is a coefficient and a number of decimal places.
\<close>

section \<open>Decimals\<close>

text \<open>
  \<open>Dec c n\<close> is the number c / 10^n. The library computes products and sums of such numbers
  exactly up to 20 significant digits; the columns of the schema (\<open>Decimal(10,2)\<close>) and
  the rates (at most 100) stay far below that, so they are exact here. The quotient and the
  parser of the library are parameters (\<open>decimal_lib\<close>).
\<close>

datatype decimal = Dec (coeff: int) (places: nat)

fun dec_value :: "decimal \<Rightarrow> rat" where
  "dec_value (Dec c n) = of_int c / 10 ^ n"

definition dec_times :: "decimal \<Rightarrow> decimal \<Rightarrow> decimal" where
  "dec_times x y = Dec (coeff x * coeff y) (places x + places y)"

definition dec_plus :: "decimal \<Rightarrow> decimal \<Rightarrow> decimal" where
  "dec_plus x y = Dec (coeff x * 10 ^ places y + coeff y * 10 ^ places x) (places x + places y)"

text \<open>\<open>toDecimalPlaces(n, ROUND_HALF_UP)\<close>: to the nearest, ties away from zero.\<close>

definition round_half_up :: "int \<Rightarrow> int \<Rightarrow> int" where
  "round_half_up n d = sgn n * ((2 * \<bar>n\<bar> + d) div (2 * d))"

definition to_places :: "nat \<Rightarrow> decimal \<Rightarrow> decimal" where
  "to_places n x = Dec (round_half_up (coeff x * 10 ^ n) (10 ^ places x)) n"

lemma half_up_div: "0 < d \<Longrightarrow> (2 * (k * d) + d) div (2 * d) = (k :: int)"
proof -
  assume d: "0 < d"
  have "2 * (k * d) + d = (2 * d) * k + d" by simp
  then have "(2 * (k * d) + d) div (2 * d) = k + d div (2 * d)"
    using d by (simp only: div_mult_self4)
  then show ?thesis using d by simp
qed

lemma round_half_up_nonneg:
  assumes "0 \<le> n" and "0 < d"
  shows "round_half_up n d = (2 * n + d) div (2 * d)"
  using assms by (cases "n = 0") (auto simp: round_half_up_def)

lemma round_half_up_exact [simp]: "0 < d \<Longrightarrow> round_half_up (n * d) d = n"
  by (simp add: round_half_up_def abs_mult half_up_div sgn_mult mult_sgn_abs)

lemma round_half_up_1 [simp]: "round_half_up n 1 = n"
  using round_half_up_exact [of 1 n] by simp

lemma round_half_up_near:
  assumes "0 \<le> n" and "0 < d"
  shows "2 * (round_half_up n d * d) \<le> 2 * n + d \<and> 2 * n < 2 * (round_half_up n d * d) + d"
proof -
  define q where "q = (2 * n + d) div (2 * d)"
  define r where "r = (2 * n + d) mod (2 * d)"
  have "q * (2 * d) + r = 2 * n + d" by (simp only: q_def r_def div_mult_mod_eq)
  moreover have "q * (2 * d) = 2 * (q * d)" by simp
  moreover have "0 \<le> r" "r < 2 * d" using assms by (simp_all add: r_def)
  moreover have "round_half_up n d = q" using assms by (simp add: round_half_up_nonneg q_def)
  ultimately show ?thesis by (simp only:) linarith
qed

lemma round_half_up_bounds:
  assumes "0 \<le> n" and "0 < d"
  shows "0 \<le> round_half_up n d" and "n \<le> m * d \<Longrightarrow> round_half_up n d \<le> m"
proof -
  have r: "round_half_up n d = (2 * n + d) div (2 * d)"
    using assms by (rule round_half_up_nonneg)
  show "0 \<le> round_half_up n d"
    using assms by (simp add: r pos_imp_zdiv_nonneg_iff)
  assume "n \<le> m * d"
  then have "(2 * n + d) div (2 * d) \<le> (2 * (m * d) + d) div (2 * d)"
    using assms by (intro zdiv_mono1) auto
  then show "round_half_up n d \<le> m"
    using assms by (simp add: r half_up_div)
qed

section \<open>Paise\<close>

definition decimal_to_paise :: "decimal \<Rightarrow> paise" where
  "decimal_to_paise amount = coeff (to_places 0 (dec_times amount (Dec 100 0)))"

definition paise_to_decimal_string :: "paise \<Rightarrow> string" where
  "paise_to_decimal_string p =
     (let negative = p < 0;
          a = (if negative then - p else p);
          rupees = a div 100;
          cents = a mod 100
      in (if negative then ''-'' else '''') @ nat_text (nat rupees) @ ''.'' @
         pad_start 2 (nat_text (nat cents)))"

text \<open>
  What a \<open>Decimal(10,2)\<close> column holds after the text of \<open>paise_to_decimal_string\<close> was
  written into it: \<open>read_decimal_string\<close> reads an optional minus sign, digits, a point
  and digits.
\<close>

definition money_column :: "paise \<Rightarrow> decimal" where
  "money_column p = Dec p 2"

definition read_decimal_string :: "string \<Rightarrow> decimal" where
  "read_decimal_string s =
     (let negative = (s \<noteq> [] \<and> hd s = CHR ''-'');
          body = (if negative then tl s else s);
          whole = takeWhile (\<lambda>c. c \<noteq> CHR ''.'') body;
          frac = drop (Suc (length whole)) body;
          n = int (text_value (whole @ frac))
      in Dec (if negative then - n else n) (length frac))"

lemma decimal_to_paise_column [simp]: "decimal_to_paise (money_column p) = p"
proof -
  have "round_half_up (p * 100) (10 ^ 2) = p"
    using round_half_up_exact [of 100 p] by simp
  then show ?thesis
    by (simp add: decimal_to_paise_def money_column_def dec_times_def to_places_def)
qed

lemma decimal_to_paise_two_places:
  "places x = 2 \<Longrightarrow> decimal_to_paise x = coeff x"
  using decimal_to_paise_column [of "coeff x"] by (cases x) (simp add: money_column_def)

lemma text_value_append:
  "text_value (s @ t) = text_value s * 10 ^ length t + text_value t"
proof (induction t rule: rev_induct)
  case Nil
  then show ?case by simp
next
  case (snoc c t)
  then show ?case
    by (simp flip: append_assoc)
qed

lemma length_nat_text_lt_100: "n < 100 \<Longrightarrow> length (nat_text n) \<le> 2"
  by (subst nat_text.simps, subst nat_text.simps) auto

lemma pad_two_length: "n < 100 \<Longrightarrow> length (pad_start 2 (nat_text n)) = 2"
  using length_nat_text_lt_100 [of n] by (simp add: pad_start_def)

lemma nat_text_nonempty: "nat_text n \<noteq> []"
  by (subst nat_text.simps) simp

lemma digit_not_point: "is_digit c \<Longrightarrow> c \<noteq> CHR ''.'' \<and> c \<noteq> CHR ''-''"
  by (auto simp: is_digit_def)

lemma takeWhile_digits:
  "\<forall>c \<in> set s. is_digit c \<Longrightarrow> takeWhile (\<lambda>c. c \<noteq> CHR ''.'') (s @ CHR ''.'' # t) = s"
  using digit_not_point by (induction s) auto

lemma drop_past: "drop (Suc (length s)) (s @ c # t) = t"
  by simp

lemma read_negative:
  assumes "\<forall>c \<in> set s. is_digit c"
  shows "read_decimal_string (CHR ''-'' # s @ CHR ''.'' # t) =
    Dec (- int (text_value (s @ t))) (length t)"
  by (simp only: read_decimal_string_def Let_def list.sel list.distinct simp_thms if_True
        takeWhile_digits [OF assms] drop_past not_False_eq_True)

lemma read_unsigned:
  assumes "\<forall>c \<in> set s. is_digit c" and "s \<noteq> []"
  shows "read_decimal_string (s @ CHR ''.'' # t) = Dec (int (text_value (s @ t))) (length t)"
proof -
  have "hd (s @ CHR ''.'' # t) \<noteq> CHR ''-''"
    using assms digit_not_point [of "hd s"] by (cases s) simp_all
  then show ?thesis
    by (simp only: read_decimal_string_def Let_def simp_thms if_False
          takeWhile_digits [OF assms(1)] drop_past)
qed

lemma read_paise_string: "read_decimal_string (paise_to_decimal_string p) = money_column p"
proof -
  define a where "a = nat \<bar>p\<bar>"
  define w where "w = nat_text (a div 100)"
  define f where "f = pad_start 2 (nat_text (a mod 100))"
  have w: "\<forall>c \<in> set w. is_digit c" "w \<noteq> []"
    using nat_text_digits nat_text_nonempty by (auto simp: w_def)
  have len: "length f = 2" by (simp add: f_def pad_two_length)
  have "text_value (w @ f) = a"
    by (simp add: text_value_append len) (simp add: w_def f_def)
  moreover have "paise_to_decimal_string p = (if p < 0 then ''-'' else '''') @ w @ ''.'' @ f"
  proof -
    have "nat (\<bar>p\<bar> div 100) = a div 100" "nat (\<bar>p\<bar> mod 100) = a mod 100"
      by (simp_all add: a_def nat_div_distrib nat_mod_distrib)
    moreover have "(if p < 0 then - p else p) = \<bar>p\<bar>" by simp
    ultimately show ?thesis
      by (simp only: paise_to_decimal_string_def Let_def w_def f_def)
  qed
  ultimately show ?thesis
    using read_unsigned [OF w, of f] read_negative [OF w(1), of f] len
    by (cases "p < 0") (simp_all add: money_column_def a_def)
qed

section \<open>Pricing\<close>

record line_input =
  base_price_paise :: paise
  variant_delta_paise :: paise
  surcharge_paise :: paise
  line_quantity :: int

record line_pricing =
  unit_price_paise :: paise
  line_total_paise :: paise

definition compute_line :: "line_input \<Rightarrow> line_pricing" where
  "compute_line i =
     (let unit = base_price_paise i + variant_delta_paise i + surcharge_paise i
      in \<lparr>unit_price_paise = unit, line_total_paise = unit * line_quantity i\<rparr>)"

definition sum_line_totals :: "line_pricing list \<Rightarrow> paise" where
  "sum_line_totals ls = foldl (\<lambda>s l. s + line_total_paise l) 0 ls"

definition compute_order_total ::
  "paise \<Rightarrow> paise \<Rightarrow> paise option \<Rightarrow> paise option \<Rightarrow> paise" where
  "compute_order_total subtotal shipping_fee discount tax_to_add =
     (let d = (case discount of None \<Rightarrow> 0 | Some d \<Rightarrow> d);
          t = (case tax_to_add of None \<Rightarrow> 0 | Some t \<Rightarrow> t)
      in subtotal - d + shipping_fee + t)"

lemma sum_line_totals_eq: "sum_line_totals ls = sum_list (map line_total_paise ls)"
proof -
  have "foldl (\<lambda>s l. s + line_total_paise l) a ls = a + sum_list (map line_total_paise ls)" for a
    by (induction ls arbitrary: a) auto
  then show ?thesis by (simp add: sum_line_totals_def)
qed

lemma sum_line_totals_nonneg:
  "\<forall>l \<in> set ls. 0 \<le> line_total_paise l \<Longrightarrow> 0 \<le> sum_line_totals ls"
  unfolding sum_line_totals_eq by (rule sum_list_nonneg) auto

section \<open>Tax\<close>

datatype tax_mode = Inclusive | Exclusive

record tax_config =
  tax_enabled :: bool
  tax_pricing_mode :: tax_mode
  tax_rate_percent :: string

record tax_computation =
  taxable_amount_paise :: paise
  tax_amount_paise :: paise
  tax_applied :: bool
  computed_mode :: tax_mode
  tax_rate_snapshot :: "decimal option"

text \<open>
  The parts of decimal.js that are not translated: the constructor on a string (it throws,
  or returns a number with its sign, or a value that is not finite) and the quotient.
\<close>

datatype parsed_decimal = Finite bool decimal | NonFinite

record decimal_lib =
  parse_decimal :: "string \<Rightarrow> parsed_decimal option"
  dec_div :: "decimal \<Rightarrow> decimal \<Rightarrow> decimal"

text \<open>
  The documented quotient: correctly rounded to 20 significant digits. So its relative error
  is at most half a unit of the 20th digit, and a quotient of at most 20 digits (of these at
  most 20 after the point) is exact.
\<close>

definition quotient_20_digits :: "(decimal \<Rightarrow> decimal \<Rightarrow> decimal) \<Rightarrow> bool" where
  "quotient_20_digits q \<longleftrightarrow>
     (\<forall>x y. coeff y \<noteq> 0 \<longrightarrow>
        2 * 10 ^ 19 * \<bar>dec_value (q x y) - dec_value x / dec_value y\<bar>
          \<le> \<bar>dec_value x / dec_value y\<bar>) \<and>
     (\<forall>x y c n. coeff y \<noteq> 0 \<longrightarrow> dec_value x / dec_value y = of_int c / 10 ^ n \<longrightarrow>
        \<bar>c\<bar> < 10 ^ 20 \<longrightarrow> n \<le> 20 \<longrightarrow> dec_value (q x y) = of_int c / 10 ^ n)"

definition tax_mode_key :: string where "tax_mode_key = ''tax.pricingMode''"
definition tax_enabled_key :: string where "tax_enabled_key = ''tax.enabled''"
definition tax_rate_key :: string where "tax_rate_key = ''tax.ratePercent''"

definition get_tax_config :: "(string \<Rightarrow> string option) \<Rightarrow> tax_config" where
  "get_tax_config settings =
     \<lparr>tax_enabled = (settings tax_enabled_key = Some ''true''),
      tax_pricing_mode =
        (if settings tax_mode_key = Some ''EXCLUSIVE'' then Exclusive else Inclusive),
      tax_rate_percent =
        (case settings tax_rate_key of None \<Rightarrow> ''0'' | Some r \<Rightarrow> r)\<rparr>"

definition parse_rate :: "decimal_lib \<Rightarrow> tax_config \<Rightarrow> decimal result" where
  "parse_rate lib cfg =
     (case parse_decimal lib (tax_rate_percent cfg) of
        None \<Rightarrow> Inl (BadRequest (''Invalid tax rate '' @ tax_rate_percent cfg))
      | Some NonFinite \<Rightarrow> Inl (BadRequest ''Tax rate must be between 0 and 100'')
      | Some (Finite negative rate) \<Rightarrow>
          if negative \<or> coeff rate > 100 * 10 ^ places rate
          then Inl (BadRequest ''Tax rate must be between 0 and 100'')
          else Inr rate)"

definition compute_tax :: "decimal_lib \<Rightarrow> paise \<Rightarrow> tax_config \<Rightarrow> tax_computation result" where
  "compute_tax lib base cfg =
     (if base < 0 then Inl (BadRequest ''Tax base cannot be negative'')
      else (case parse_rate lib cfg of
        Inl e \<Rightarrow> Inl e
      | Inr rate \<Rightarrow>
          if \<not> tax_enabled cfg \<or> coeff rate = 0
          then Inr \<lparr>taxable_amount_paise = base, tax_amount_paise = 0, tax_applied = False,
                    computed_mode = tax_pricing_mode cfg, tax_rate_snapshot = None\<rparr>
          else
            let snapshot = to_places 4 (dec_div lib rate (Dec 100 0))
            in (case tax_pricing_mode cfg of
                 Inclusive \<Rightarrow>
                   let net = to_places 0 (dec_div lib (dec_times (Dec base 0) (Dec 100 0))
                                            (dec_plus (Dec 100 0) rate));
                       taxable = coeff net
                   in Inr \<lparr>taxable_amount_paise = taxable, tax_amount_paise = base - taxable,
                           tax_applied = True, computed_mode = Inclusive,
                           tax_rate_snapshot = Some snapshot\<rparr>
               | Exclusive \<Rightarrow>
                   let tax = to_places 0 (dec_div lib (dec_times (Dec base 0) rate) (Dec 100 0))
                   in Inr \<lparr>taxable_amount_paise = base, tax_amount_paise = coeff tax,
                           tax_applied = True, computed_mode = Exclusive,
                           tax_rate_snapshot = Some snapshot\<rparr>)))"

text \<open>\<open>CheckoutService.applyTax\<close>: what an exclusive regime adds on top of the total.\<close>

definition tax_to_add :: "tax_computation \<Rightarrow> paise" where
  "tax_to_add c =
     (if computed_mode c = Exclusive \<and> tax_applied c then tax_amount_paise c else 0)"

section \<open>The two roundings of the tax agree with one exact rounding\<close>

text \<open>
  The library rounds the quotient to 20 digits and the code rounds it again to whole paise.
  For numerators below 10^19 the first rounding cannot move the quotient across a half, so
  the result is the half-up rounding of the exact quotient.
\<close>

lemma round_half_up_unique:
  assumes "0 < d" and "0 \<le> n" and "2 * (m * d) \<le> 2 * n + d" and "2 * n < 2 * (m * d) + d"
  shows "round_half_up n d = m"
proof -
  have "(2 * n + d) div (2 * d) = m"
    using assms by (intro int_div_pos_eq [of _ _ _ "2 * n + d - 2 * (m * d)"]) auto
  then show ?thesis using assms by (simp add: round_half_up_nonneg)
qed

lemma to_places_0_eq:
  assumes "of_int m - 1 / 2 \<le> dec_value z" and "dec_value z < of_int m + 1 / 2"
    and "0 \<le> dec_value z"
  shows "coeff (to_places 0 z) = m"
proof (cases z)
  case (Dec c n)
  have p: "(0 :: rat) < 10 ^ n" by simp
  have c: "0 \<le> c" using assms(3) p by (simp add: Dec zero_le_divide_iff)
  have "(of_int m - 1 / 2) * 10 ^ n \<le> (of_int c :: rat)"
    using assms(1) p by (simp add: Dec pos_le_divide_eq)
  then have "(of_int (2 * (m * 10 ^ n)) :: rat) \<le> of_int (2 * c + 10 ^ n)"
    by (simp add: algebra_simps)
  then have 1: "2 * (m * 10 ^ n) \<le> 2 * c + 10 ^ n"
    by (simp only: of_int_le_iff)
  have "(of_int c :: rat) < (of_int m + 1 / 2) * 10 ^ n"
    using assms(2) p by (simp add: Dec pos_divide_less_eq)
  then have "(of_int (2 * c) :: rat) < of_int (2 * (m * 10 ^ n) + 10 ^ n)"
    by (simp add: algebra_simps)
  then have 2: "2 * c < 2 * (m * 10 ^ n) + 10 ^ n"
    by (simp only: of_int_less_iff)
  show ?thesis
    using round_half_up_unique [of "10 ^ n" c m] c 1 2 by (simp add: Dec to_places_def)
qed

lemma quotient_then_round:
  assumes q: "quotient_20_digits q" and y: "coeff y \<noteq> 0"
    and v: "dec_value x / dec_value y = of_int N / of_int D"
    and N: "0 \<le> N" "N < 10 ^ 19" and D: "0 < D"
  shows "coeff (to_places 0 (q x y)) = round_half_up N D"
proof -
  define m where "m = round_half_up N D"
  define w :: rat where "w = of_int N / of_int D"
  define u where "u = dec_value (q x y)"
  have D': "(0 :: rat) < of_int D" using D by simp
  have Dw: "w * of_int D = of_int N" using D' by (simp add: w_def)
  have w0: "0 \<le> w" using N D by (simp add: w_def)
  have near: "2 * 10 ^ 19 * \<bar>u - w\<bar> \<le> \<bar>w\<bar>"
  proof -
    have "2 * 10 ^ 19 * \<bar>dec_value (q x y) - dec_value x / dec_value y\<bar>
        \<le> \<bar>dec_value x / dec_value y\<bar>"
      using q y unfolding quotient_20_digits_def by blast
    then show ?thesis by (simp only: v u_def w_def)
  qed
  have "(2 * 10 ^ 19 * \<bar>u - w\<bar>) * of_int D \<le> w * of_int D"
    using near w0 D' by (intro mult_right_mono) auto
  then have "2 * 10 ^ 19 * (\<bar>u - w\<bar> * of_int D) \<le> (of_int N :: rat)"
    by (simp only: Dw mult.assoc)
  moreover have "(of_int N :: rat) < of_int (10 ^ 19)" using N by (simp only: of_int_less_iff)
  ultimately have gap: "2 * (\<bar>u - w\<bar> * of_int D) < 1" by simp
  have lo: "2 * (m * D) \<le> 2 * N + D" and hi: "2 * N < 2 * (m * D) + D"
    using round_half_up_near [OF N(1) D] by (simp_all add: m_def)
  have m0: "0 \<le> m" using round_half_up_bounds [OF N(1) D] by (simp add: m_def)
  have below: "of_int m - 1 / 2 \<le> u"
  proof (cases "2 * (m * D) = 2 * N + D")
    case True
    then have "(2 * (of_int m * of_int D) :: rat) = 2 * (w * of_int D) + of_int D"
      unfolding Dw by (metis of_int_add of_int_mult of_int_numeral)
    then have "(2 * of_int m - 1 - 2 * w) * of_int D = (0 :: rat)" by (simp add: algebra_simps)
    then have wm: "w = of_int (10 * m - 5) / 10 ^ 1" using D' by simp
    have "m * D \<le> N + D" using True D by linarith
    then have "(m - 1) * D \<le> N * 1" by (simp add: algebra_simps)
    moreover have "N * 1 \<le> N * D" using N D by (intro mult_left_mono) auto
    ultimately have "(m - 1) * D \<le> N * D" by linarith
    then have "m - 1 \<le> N" using D by simp
    then have "\<bar>10 * m - 5\<bar> < 10 ^ 20" using N m0 by (simp add: abs_less_iff)
    moreover have "dec_value x / dec_value y = of_int (10 * m - 5) / 10 ^ 1"
      using v wm by (simp only: w_def)
    ultimately have "dec_value (q x y) = of_int (10 * m - 5) / 10 ^ 1"
      using q y unfolding quotient_20_digits_def by (metis one_le_numeral)
    then have "u = w" using wm by (simp only: u_def)
    then show ?thesis using wm by simp
  next
    case False
    then have "2 * (m * D) + 1 \<le> 2 * N + D" using lo by linarith
    then have "(of_int (2 * (m * D) + 1) :: rat) \<le> of_int (2 * N + D)"
      by (simp only: of_int_le_iff)
    then have "2 * (of_int m * of_int D) + 1 \<le> 2 * (w * of_int D) + (of_int D :: rat)"
      unfolding Dw by simp
    moreover have "(w - u) * of_int D \<le> \<bar>u - w\<bar> * of_int D"
      using D' by (intro mult_right_mono) auto
    ultimately have "(of_int m - 1 / 2) * of_int D \<le> u * (of_int D :: rat)"
      using gap by (simp add: algebra_simps)
    then show ?thesis using D' by simp
  qed
  have above: "u < of_int m + 1 / 2"
  proof -
    have "2 * N + 1 \<le> 2 * (m * D) + D" using hi by linarith
    then have "(of_int (2 * N + 1) :: rat) \<le> of_int (2 * (m * D) + D)"
      by (simp only: of_int_le_iff)
    then have "2 * (w * of_int D) + 1 \<le> 2 * (of_int m * of_int D) + (of_int D :: rat)"
      unfolding Dw by simp
    moreover have "(u - w) * of_int D \<le> \<bar>u - w\<bar> * of_int D"
      using D' by (intro mult_right_mono) auto
    ultimately have "u * of_int D < (of_int m + 1 / 2) * (of_int D :: rat)"
      using gap by (simp add: algebra_simps)
    then show ?thesis using D' by simp
  qed
  have "0 \<le> u"
  proof (rule ccontr)
    assume "\<not> 0 \<le> u"
    then have "w < \<bar>u - w\<bar>" using w0 by simp
    then show False using near w0 by simp
  qed
  then have "coeff (to_places 0 (q x y)) = m"
    using below above to_places_0_eq [of m "q x y"] by (simp add: u_def)
  then show ?thesis by (simp add: m_def)
qed

section \<open>A quotient with the documented accuracy\<close>

text \<open>
  Long division with 20 places more than the divisor has digits: a concrete function for
  which the documented behaviour holds.
\<close>

definition long_division :: "decimal \<Rightarrow> decimal \<Rightarrow> decimal" where
  "long_division x y =
     (let d = \<bar>coeff y\<bar> * 10 ^ places x;
          k = 20 + length (nat_text (nat d))
      in Dec (round_half_up (sgn (coeff y) * coeff x * 10 ^ places y * 10 ^ k) d) k)"

lemma nat_less_ten_length: "n < 10 ^ length (nat_text n)"
proof (induction n rule: nat_text.induct)
  case (1 n)
  show ?case
  proof (cases "n < 10")
    case True
    then show ?thesis by (simp add: nat_text.simps [of n])
  next
    case False
    then have "n div 10 < 10 ^ length (nat_text (n div 10))" using 1 by simp
    then have "n < 10 * 10 ^ length (nat_text (n div 10))" by linarith
    then show ?thesis using False by (simp add: nat_text.simps [of n])
  qed
qed

lemma round_half_up_minus: "round_half_up (- n) d = - round_half_up n d"
  by (simp add: round_half_up_def sgn_minus)

lemma round_half_up_close:
  assumes "0 < d"
  shows "2 * \<bar>round_half_up n d * d - n\<bar> \<le> d"
proof (cases "0 \<le> n")
  case True
  note near = round_half_up_near [OF True assms]
  show ?thesis using near by (auto simp: abs_if algebra_simps)
next
  case False
  then have "0 \<le> - n" by simp
  note near = round_half_up_near [OF this assms, unfolded round_half_up_minus]
  show ?thesis using near by (auto simp: abs_if algebra_simps)
qed

lemma long_division_value:
  fixes x y :: decimal
  assumes y: "coeff y \<noteq> 0"
  defines "d \<equiv> \<bar>coeff y\<bar> * 10 ^ places x"
    and "N \<equiv> sgn (coeff y) * coeff x * 10 ^ places y"
  defines "k \<equiv> 20 + length (nat_text (nat d))"
  shows "0 < d" and "dec_value x / dec_value y = of_int N / of_int d"
    and "dec_value (long_division x y) = of_int (round_half_up (N * 10 ^ k) d) / 10 ^ k"
    and "d < 10 ^ (k - 20)"
proof -
  show "0 < d" using y by (simp add: d_def)
  show "dec_value x / dec_value y = of_int N / of_int d"
    using y by (cases x; cases y) (auto simp: d_def N_def field_simps sgn_if abs_if)
  show "dec_value (long_division x y) = of_int (round_half_up (N * 10 ^ k) d) / 10 ^ k"
    by (simp add: long_division_def Let_def k_def d_def N_def)
  have "nat d < 10 ^ (k - 20)" using nat_less_ten_length [of "nat d"] by (simp add: k_def)
  then show "d < 10 ^ (k - 20)" using \<open>0 < d\<close> by (simp add: nat_less_iff)
qed

lemma long_division_20_digits: "quotient_20_digits long_division"
  unfolding quotient_20_digits_def
proof (intro conjI allI impI)
  fix x y :: decimal
  assume y: "coeff y \<noteq> 0"
  define d where "d = \<bar>coeff y\<bar> * 10 ^ places x"
  define N where "N = sgn (coeff y) * coeff x * 10 ^ places y"
  define k where "k = 20 + length (nat_text (nat d))"
  define r where "r = round_half_up (N * 10 ^ k) d"
  note v = long_division_value [OF y, of x, folded d_def N_def, folded k_def, folded r_def]
  have d: "(0 :: rat) < of_int d" using v(1) by simp
  have close: "2 * \<bar>r * d - N * 10 ^ k\<bar> \<le> d"
    unfolding r_def using v(1) by (rule round_half_up_close)
  have diff: "dec_value (long_division x y) - dec_value x / dec_value y =
      of_int (r * d - N * 10 ^ k) / (10 ^ k * of_int d)"
    unfolding v(2,3) using d by (simp add: field_simps)
  show "2 * 10 ^ 19 * \<bar>dec_value (long_division x y) - dec_value x / dec_value y\<bar>
      \<le> \<bar>dec_value x / dec_value y\<bar>"
  proof (cases "N = 0")
    case True
    then have "r = 0" by (simp add: r_def round_half_up_def)
    then show ?thesis using diff True by simp
  next
    case False
    have "2 * \<bar>(of_int (r * d - N * 10 ^ k) :: rat)\<bar> \<le> of_int d"
    proof -
      have "(of_int (2 * \<bar>r * d - N * 10 ^ k\<bar>) :: rat) \<le> of_int d"
        using close by (simp only: of_int_le_iff)
      then show ?thesis by (simp only: of_int_mult of_int_numeral of_int_abs)
    qed
    then have "2 * \<bar>of_int (r * d - N * 10 ^ k) / (10 ^ k * of_int d) :: rat\<bar> \<le> 1 / 10 ^ k"
      using d by (simp add: abs_mult field_simps)
    then have "2 * 10 ^ 19 * \<bar>dec_value (long_division x y) - dec_value x / dec_value y\<bar>
        \<le> 10 ^ 19 * (1 / 10 ^ k)"
      unfolding diff mult.assoc mult.left_commute [of 2] by (rule mult_left_mono) simp
    also have "\<dots> \<le> 1 / 10 ^ (k - 20)"
      by (simp add: k_def power_add field_simps)
    also have "\<dots> \<le> 1 / of_int d"
    proof -
      have "(of_int d :: rat) < of_int (10 ^ (k - 20))" using v(4) by (simp only: of_int_less_iff)
      then have "(of_int d :: rat) \<le> 10 ^ (k - 20)" by simp
      then show ?thesis using d by (intro divide_left_mono) auto
    qed
    also have "\<dots> \<le> \<bar>of_int N / of_int d :: rat\<bar>"
    proof -
      have "1 \<le> \<bar>N\<bar>" using False by simp
      then have "(of_int 1 :: rat) \<le> of_int \<bar>N\<bar>" by (simp only: of_int_le_iff)
      then have "1 / of_int d \<le> of_int \<bar>N\<bar> / (of_int d :: rat)"
        using d by (intro divide_right_mono) auto
      then show ?thesis using d by (simp add: abs_divide)
    qed
    finally show ?thesis by (simp only: v(2))
  qed
next
  fix x y :: decimal and c :: int and n :: nat
  assume y: "coeff y \<noteq> 0" and e: "dec_value x / dec_value y = of_int c / 10 ^ n" and n: "n \<le> 20"
  define d where "d = \<bar>coeff y\<bar> * 10 ^ places x"
  define N where "N = sgn (coeff y) * coeff x * 10 ^ places y"
  define k where "k = 20 + length (nat_text (nat d))"
  note v = long_division_value [OF y, of x, folded d_def N_def, folded k_def]
  have d: "(0 :: rat) < of_int d" using v(1) by simp
  have nk: "n \<le> k" using n by (simp add: k_def)
  have "of_int N * 10 ^ n = (of_int c * of_int d :: rat)"
    using e d unfolding v(2) by (simp add: field_simps)
  then have "(of_int (N * 10 ^ n) :: rat) = of_int (c * d)" by simp
  then have "N * 10 ^ n = c * d" by (simp only: of_int_eq_iff)
  then have "N * 10 ^ k = c * 10 ^ (k - n) * d"
    using nk by (metis (no_types, lifting) le_add_diff_inverse mult.assoc mult.commute power_add)
  then have "round_half_up (N * 10 ^ k) d = c * 10 ^ (k - n)"
    using v(1) by (metis round_half_up_exact)
  moreover have "(10 :: rat) ^ k = 10 ^ (k - n) * 10 ^ n"
    using nk by (simp flip: power_add)
  ultimately show "dec_value (long_division x y) = of_int c / 10 ^ n"
    unfolding v(3) by simp
qed

end
