(* ===== verification/MoneyProperties.thy ===== *)
theory MoneyProperties
  imports Money
begin

text \<open>What the money and tax functions promise.\<close>

text \<open>
  Writing an amount of paise as the decimal string of a column or response and reading it
  back gives the same amount, for every amount, negative ones included.
\<close>

theorem paise_string_roundtrip:
  "decimal_to_paise (read_decimal_string (paise_to_decimal_string p)) = p"
  by (simp add: read_paise_string)

lemma parse_rate_Inr:
  assumes "parse_rate lib cfg = Inr rate"
  shows "parse_decimal lib (tax_rate_percent cfg) = Some (Finite False rate) \<and>
    coeff rate \<le> 100 * 10 ^ places rate"
  using assms by (auto simp: parse_rate_def split: option.splits parsed_decimal.splits if_splits)

lemma inclusive_quotient:
  assumes "quotient_20_digits (dec_div lib)" and "0 \<le> coeff rate" and "0 \<le> base"
    and "base * 100 * 10 ^ places rate < 10 ^ 19"
  shows "coeff (to_places 0 (dec_div lib (dec_times (Dec base 0) (Dec 100 0)) (dec_plus (Dec 100 0) rate))) =
    round_half_up (base * 100 * 10 ^ places rate) (100 * 10 ^ places rate + coeff rate)"
proof (rule quotient_then_round [OF assms(1)])
  have pos: "(0 :: int) < 100 * 10 ^ places rate + coeff rate"
    using assms(2) by (simp add: add_pos_nonneg)
  then show "coeff (dec_plus (Dec 100 0) rate) \<noteq> 0" by (simp add: dec_plus_def)
  have "(0 :: rat) < of_int (100 * 10 ^ places rate + coeff rate)" using pos by (simp only: of_int_0_less_iff)
  then show "dec_value (dec_times (Dec base 0) (Dec 100 0)) / dec_value (dec_plus (Dec 100 0) rate) =
      of_int (base * 100 * 10 ^ places rate) / of_int (100 * 10 ^ places rate + coeff rate)"
    by (simp add: dec_times_def dec_plus_def field_simps)
  show "0 < 100 * 10 ^ places rate + coeff rate" by (rule pos)
qed (use assms in simp_all)

lemma exclusive_quotient:
  assumes "quotient_20_digits (dec_div lib)" and "0 \<le> coeff rate" and "0 \<le> base"
    and "base * coeff rate < 10 ^ 19"
  shows "coeff (to_places 0 (dec_div lib (dec_times (Dec base 0) rate) (Dec 100 0))) =
    round_half_up (base * coeff rate) (100 * 10 ^ places rate)"
proof (rule quotient_then_round [OF assms(1)])
  show "dec_value (dec_times (Dec base 0) rate) / dec_value (Dec 100 0) =
      of_int (base * coeff rate) / of_int (100 * 10 ^ places rate)"
    by (simp add: dec_times_def)
qed (use assms in simp_all)

text \<open>
  C29. The tax split of a price: net and tax add up to the base plus exactly what an exclusive
  regime adds to the total, both parts are between zero and the base, an inclusive tax is
  what remains of the base after the net price rounded half up from the exact quotient
  base * 100 / (100 + rate), and an exclusive tax is base * rate / 100 rounded half up.
\<close>

theorem tax_split_exact:
  assumes c: "compute_tax lib base cfg = Inr t" and q: "quotient_20_digits (dec_div lib)"
    and rate: "parse_decimal lib (tax_rate_percent cfg) = Some (Finite False (Dec r n))" "0 \<le> r"
    and bound: "base * 100 * 10 ^ n < 10 ^ 19"
  shows "taxable_amount_paise t + tax_amount_paise t = base + tax_to_add t \<and>
    0 \<le> taxable_amount_paise t \<and> taxable_amount_paise t \<le> base \<and>
    0 \<le> tax_amount_paise t \<and> tax_amount_paise t \<le> base \<and>
    taxable_amount_paise t =
      (if tax_applied t \<and> computed_mode t = Inclusive
       then round_half_up (base * 100 * 10 ^ n) (100 * 10 ^ n + r) else base) \<and>
    (tax_applied t \<and> computed_mode t = Exclusive \<longrightarrow>
       tax_amount_paise t = round_half_up (base * r) (100 * 10 ^ n))"
proof -
  have base: "0 \<le> base" and p: "parse_rate lib cfg = Inr (Dec r n)"
    using c rate by (auto simp: compute_tax_def parse_rate_def split: if_splits)
  have r100: "r \<le> 100 * 10 ^ n" using parse_rate_Inr [OF p] by simp
  have pos: "(0 :: int) < 10 ^ n" by simp
  have "base * r \<le> base * (100 * 10 ^ n)" using base r100 by (rule mult_left_mono [rotated])
  then have b2: "base * r < 10 ^ 19" using bound by (simp add: mult.assoc)
  let ?net = "round_half_up (base * 100 * 10 ^ n) (100 * 10 ^ n + r)"
  let ?tax = "round_half_up (base * r) (100 * 10 ^ n)"
  have d: "(0 :: int) < 100 * 10 ^ n + r" using rate(2) pos by (intro add_pos_nonneg) auto
  have "base * 100 * 10 ^ n \<le> base * (100 * 10 ^ n + r)"
    using base rate(2) by (simp add: algebra_simps)
  then have net: "0 \<le> ?net" "?net \<le> base"
    using base by (auto intro!: round_half_up_bounds d)
  have tax: "0 \<le> ?tax" "?tax \<le> base"
    using base rate(2) \<open>base * r \<le> base * (100 * 10 ^ n)\<close>
    by (auto intro!: round_half_up_bounds)
  show ?thesis
  proof (cases "tax_enabled cfg \<and> r \<noteq> 0")
    case False
    then have "t = \<lparr>taxable_amount_paise = base, tax_amount_paise = 0, tax_applied = False,
        computed_mode = tax_pricing_mode cfg, tax_rate_snapshot = None\<rparr>"
      using c base p by (auto simp: compute_tax_def)
    then show ?thesis using base by (simp add: tax_to_add_def)
  next
    case True
    show ?thesis
    proof (cases "tax_pricing_mode cfg")
      case Inclusive
      then have "taxable_amount_paise t = ?net \<and> tax_amount_paise t = base - ?net \<and> tax_applied t \<and>
          computed_mode t = Inclusive"
        using c base p True inclusive_quotient [OF q, of "Dec r n" base] rate(2) bound
        by (auto simp: compute_tax_def Let_def)
      then show ?thesis using net by (simp add: tax_to_add_def)
    next
      case Exclusive
      then have "taxable_amount_paise t = base \<and> tax_amount_paise t = ?tax \<and> tax_applied t \<and>
          computed_mode t = Exclusive"
        using c base p True exclusive_quotient [OF q, of "Dec r n" base] rate(2) b2
        by (auto simp: compute_tax_def Let_def)
      then show ?thesis using tax base by (simp add: tax_to_add_def)
    qed
  qed
qed

text \<open>18 percent, inclusive, on 1000 rupees; \<open>long_division\<close> is a quotient of the
  documented accuracy.\<close>

definition sample_lib :: decimal_lib where
  "sample_lib = \<lparr>parse_decimal = (\<lambda>s. if s = ''18'' then Some (Finite False (Dec 18 0)) else None),
     dec_div = long_division\<rparr>"

definition sample_tax :: tax_config where
  "sample_tax = \<lparr>tax_enabled = True, tax_pricing_mode = Inclusive, tax_rate_percent = ''18''\<rparr>"

theorem tax_split_exact_witness:
  "\<exists>t. compute_tax sample_lib 100000 sample_tax = Inr t \<and>
     taxable_amount_paise t = 84746 \<and> taxable_amount_paise t + tax_amount_paise t = 100000"
proof -
  obtain t where t: "compute_tax sample_lib 100000 sample_tax = Inr t" "tax_applied t"
    "computed_mode t = Inclusive"
    by (simp add: compute_tax_def parse_rate_def sample_lib_def sample_tax_def Let_def)
  have "taxable_amount_paise t + tax_amount_paise t = 100000 + tax_to_add t \<and>
      taxable_amount_paise t = round_half_up (100000 * 100 * 10 ^ 0) (100 * 10 ^ 0 + 18)"
    using tax_split_exact [OF t(1), of 18 0] t(2,3) long_division_20_digits
    by (simp add: sample_lib_def sample_tax_def)
  then show ?thesis using t by (simp add: round_half_up_def tax_to_add_def)
qed

end
