(* ===== verification/Machines.thy ===== *)
theory Machines
  imports Prelude
begin

text \<open>
  The two contracts that the state machines of the backend share. A \<^emph>\<open>transition table\<close>
  (orders, subscriptions, payment accounts) is a constant lookup of the allowed next states.
  A \<^emph>\<open>logged status\<close> is a status column that is only written by a compare-and-swap which
  also appends a row to a history table (\<open>order_status_history\<close>,
  \<open>subscription_events\<close>): then the history replays to the current status.
  A \<^emph>\<open>bounded retry\<close> is the failure path of the three pollers.
\<close>

section \<open>Replaying a history\<close>

text \<open>
  A history entry is the status before (absent for the row written at creation) and the
  status after. Replaying starts from no status and fails at the first entry that does not
  continue the previous one by an allowed transition.
\<close>

fun replay ::
  "('s \<Rightarrow> 's \<Rightarrow> bool) \<Rightarrow> ('s \<Rightarrow> bool) \<Rightarrow> 's option \<Rightarrow> ('s option \<times> 's) list \<Rightarrow> 's option option"
where
  "replay allowed initial cur [] = Some cur"
| "replay allowed initial cur ((from, to) # es) =
     (if from = cur \<and> (case cur of None \<Rightarrow> initial to | Some s \<Rightarrow> allowed s to)
      then replay allowed initial (Some to) es else None)"

lemma replay_append:
  "replay allowed initial cur (xs @ ys) =
     (case replay allowed initial cur xs of None \<Rightarrow> None
      | Some c \<Rightarrow> replay allowed initial c ys)"
  by (induction allowed initial cur xs rule: replay.induct) auto

lemma replay_steps_allowed:
  "replay allowed initial cur es = Some c \<Longrightarrow> (Some s, t) \<in> set es \<Longrightarrow> allowed s t"
  by (induction allowed initial cur es rule: replay.induct) (auto split: if_splits)

lemma replay_last:
  "replay allowed initial cur es = Some c \<Longrightarrow> es \<noteq> [] \<Longrightarrow> c = Some (snd (last es))"
proof (induction es rule: rev_induct)
  case Nil
  then show ?case by simp
next
  case (snoc e es)
  then show ?case
    by (cases e) (auto simp: replay_append split: option.splits if_splits)
qed

definition log_matches ::
  "('s \<Rightarrow> 's \<Rightarrow> bool) \<Rightarrow> ('s \<Rightarrow> bool) \<Rightarrow> 's option \<Rightarrow> ('s option \<times> 's) list \<Rightarrow> bool" where
  "log_matches allowed initial status log =
     (case status of None \<Rightarrow> True
      | Some s \<Rightarrow> replay allowed initial None log = Some (Some s))"

section \<open>Transition tables\<close>

locale transition_table =
  fixes transitions :: "'s \<Rightarrow> 's list"
    and allowed :: "'s \<Rightarrow> 's \<Rightarrow> bool"
  assumes allowed_iff: "allowed s t \<longleftrightarrow> t \<in> set (transitions s)"
begin

lemma terminal_stuck: "transitions s = [] \<Longrightarrow> \<not> allowed s t"
  by (simp add: allowed_iff)

lemma replay_from_terminal:
  assumes "transitions s = []" and "replay allowed initial (Some s) es = Some c"
  shows "es = [] \<and> c = Some s"
  using assms by (cases es) (auto simp: terminal_stuck split: if_splits)

lemma replay_tranclp:
  "replay allowed initial (Some s) es = Some (Some t) \<Longrightarrow> allowed\<^sup>*\<^sup>* s t"
proof (induction es arbitrary: s)
  case Nil
  then show ?case by simp
next
  case (Cons e es)
  then show ?case
    by (cases e) (auto split: if_splits intro: converse_rtranclp_into_rtranclp)
qed

end

section \<open>A status column with a log, written by compare-and-swap\<close>

text \<open>
  \<open>fires db k a\<close>: the further conditions of the update's \<open>WHERE\<close> clause, over the columns
  besides the status, hold for the row.
\<close>

locale logged_status = transition_table transitions allowed
  for transitions :: "'s \<Rightarrow> 's list" and allowed :: "'s \<Rightarrow> 's \<Rightarrow> bool" +
  fixes initial :: "'s \<Rightarrow> bool"
    and status_of :: "'db \<Rightarrow> 'k \<Rightarrow> 's option"
    and log_of :: "'db \<Rightarrow> 'k \<Rightarrow> ('s option \<times> 's) list"
    and cas :: "'k \<Rightarrow> 's \<Rightarrow> 's \<Rightarrow> 'a \<Rightarrow> 'db \<Rightarrow> 'db"
    and fires :: "'db \<Rightarrow> 'k \<Rightarrow> 'a \<Rightarrow> bool"
    and wf :: "'db \<Rightarrow> bool"
  assumes cas_hit_status: "wf db \<Longrightarrow> status_of db k = Some s \<Longrightarrow> fires db k a \<Longrightarrow>
      status_of (cas k s t a db) k = Some t"
    and cas_hit_log: "wf db \<Longrightarrow> status_of db k = Some s \<Longrightarrow> fires db k a \<Longrightarrow>
      log_of (cas k s t a db) k = log_of db k @ [(Some s, t)]"
    and cas_miss: "wf db \<Longrightarrow> status_of db k \<noteq> Some s \<or> \<not> fires db k a \<Longrightarrow> cas k s t a db = db"
    and cas_other: "wf db \<Longrightarrow> k' \<noteq> k \<Longrightarrow>
      status_of (cas k s t a db) k' = status_of db k' \<and> log_of (cas k s t a db) k' = log_of db k'"
    and cas_wf: "wf db \<Longrightarrow> wf (cas k s t a db)"
begin

lemma cas_log_matches:
  assumes "wf db" and "allowed s t"
    and "log_matches allowed initial (status_of db k') (log_of db k')"
  shows "log_matches allowed initial (status_of (cas k s t a db) k') (log_of (cas k s t a db) k')"
proof (cases "k' = k \<and> status_of db k = Some s \<and> fires db k a")
  case True
  then show ?thesis
    using assms by (simp add: log_matches_def cas_hit_status cas_hit_log replay_append)
next
  case False
  then have "status_of (cas k s t a db) k' = status_of db k'
      \<and> log_of (cas k s t a db) k' = log_of db k'"
    using assms(1) cas_other cas_miss by (cases "k' = k") auto
  then show ?thesis using assms(3) by simp
qed

text \<open>A transition that is delivered twice is applied once.\<close>

lemma cas_again:
  assumes "wf db" and "s \<noteq> t" and "status_of db k = Some s" and "fires db k a"
  shows "cas k s t' a' (cas k s t a db) = cas k s t a db"
  using assms by (intro cas_miss) (auto simp: cas_wf cas_hit_status)

text \<open>Of two writers that read the same status, only the first one transitions.\<close>

lemma cas_lost_race:
  assumes "wf db" and "status_of db k = Some s" and "fires db k a" and "s \<noteq> t"
  shows "status_of (cas k s u b (cas k s t a db)) k = Some t"
  using assms cas_again cas_hit_status by simp

lemma terminal_status_kept:
  assumes "wf db" and "status_of db k = Some z" and "transitions z = []" and "allowed s t"
  shows "status_of (cas k' s t a db) k = Some z"
proof -
  have "s \<noteq> z" using assms(3,4) by (auto simp: allowed_iff)
  then show ?thesis
    using assms cas_miss cas_other by (cases "k = k'") auto
qed

end

section \<open>Bounded retry\<close>

text \<open>
  Every poller counts failures per row: below \<open>max_attempts\<close> the row stays eligible and
  its next attempt is delayed by the entry of a backoff table, at \<open>max_attempts\<close> the row
  becomes a dead letter. \<open>fail\<close> is the poller's failure branch, \<open>attempts\<close> and
  \<open>dead\<close> read the row.
\<close>

definition backoff :: "instant list \<Rightarrow> nat \<Rightarrow> instant" where
  "backoff delays n = delays ! min (n - 1) (length delays - 1)"

fun iterate :: "('x \<Rightarrow> 'r \<Rightarrow> 'r) \<Rightarrow> 'x list \<Rightarrow> 'r \<Rightarrow> 'r" where
  "iterate f [] r = r"
| "iterate f (x # xs) r = iterate f xs (f x r)"

locale bounded_retry =
  fixes fail :: "'x \<Rightarrow> 'r \<Rightarrow> 'r"
    and attempts :: "'r \<Rightarrow> nat"
    and dead :: "'r \<Rightarrow> bool"
    and max_attempts :: nat
  assumes max_pos: "0 < max_attempts"
    and fail_counts: "\<not> dead r \<Longrightarrow> attempts (fail x r) = Suc (attempts r)"
    and fail_dead_iff: "\<not> dead r \<Longrightarrow> dead (fail x r) \<longleftrightarrow> max_attempts \<le> Suc (attempts r)"
    and dead_stays: "dead r \<Longrightarrow> fail x r = r"
begin

lemma dead_iterate: "dead r \<Longrightarrow> iterate fail xs r = r"
  by (induction xs) (auto simp: dead_stays)

lemma retries_end:
  assumes "\<not> dead r" and "attempts r < max_attempts"
  shows "dead (iterate fail xs r) \<longleftrightarrow> max_attempts \<le> attempts r + length xs"
  using assms
proof (induction xs arbitrary: r)
  case Nil
  then show ?case by simp
next
  case (Cons x xs)
  show ?case
  proof (cases "max_attempts \<le> Suc (attempts r)")
    case True
    then show ?thesis
      using Cons.prems fail_dead_iff [of r x] by (simp add: dead_iterate)
  next
    case False
    then have "\<not> dead (fail x r)" and "attempts (fail x r) = Suc (attempts r)"
      using Cons.prems by (simp_all add: fail_dead_iff fail_counts)
    then show ?thesis
      using Cons.IH [of "fail x r"] False by simp
  qed
qed

lemma attempts_bounded:
  assumes "\<not> dead r" and "attempts r < max_attempts"
  shows "attempts (iterate fail xs r) \<le> max_attempts"
  using assms
proof (induction xs arbitrary: r)
  case Nil
  then show ?case by simp
next
  case (Cons x xs)
  show ?case
  proof (cases "dead (fail x r)")
    case True
    then show ?thesis using Cons.prems by (simp add: dead_iterate fail_counts)
  next
    case False
    then show ?thesis
      using Cons.prems Cons.IH [of "fail x r"] by (simp add: fail_dead_iff fail_counts)
  qed
qed

end

end
