(* ===== verification/OrderMachine.thy ===== *)
theory OrderMachine
  imports Machines
begin

text \<open>
  The order state machine, \<open>orders/state-machine/order-state-machine.ts\<close>, and the pure
  helpers on it, \<open>orders/order-lifecycle.util.ts\<close>.
\<close>

datatype order_status =
  PendingPayment | PaymentFailed | Paid | Confirmed | InProduction | Shipped | Delivered
  | Cancelled | Refunded

datatype attempt_status = Initiated | Captured | AttemptFailed | Abandoned

text \<open>The names the source prints.\<close>

fun order_status_name :: "order_status \<Rightarrow> string" where
  "order_status_name PendingPayment = ''PENDING_PAYMENT''"
| "order_status_name PaymentFailed = ''PAYMENT_FAILED''"
| "order_status_name Paid = ''PAID''"
| "order_status_name Confirmed = ''CONFIRMED''"
| "order_status_name InProduction = ''IN_PRODUCTION''"
| "order_status_name Shipped = ''SHIPPED''"
| "order_status_name Delivered = ''DELIVERED''"
| "order_status_name Cancelled = ''CANCELLED''"
| "order_status_name Refunded = ''REFUNDED''"

fun order_state_transitions :: "order_status \<Rightarrow> order_status list" where
  "order_state_transitions PendingPayment = [Paid, PaymentFailed]"
| "order_state_transitions PaymentFailed = [PendingPayment]"
| "order_state_transitions Paid = [Cancelled, Confirmed, Refunded]"
| "order_state_transitions Confirmed = [Cancelled, InProduction, Refunded]"
| "order_state_transitions InProduction = [Shipped, Refunded]"
| "order_state_transitions Shipped = [Delivered, Refunded]"
| "order_state_transitions Delivered = [Refunded]"
| "order_state_transitions Cancelled = [Refunded]"
| "order_state_transitions Refunded = []"

definition is_transition_allowed :: "order_status \<Rightarrow> order_status \<Rightarrow> bool" where
  "is_transition_allowed from to \<longleftrightarrow> to \<in> set (order_state_transitions from)"

definition is_order_cancellable :: "order_status \<Rightarrow> bool" where
  "is_order_cancellable s \<longleftrightarrow> is_transition_allowed s Cancelled"

definition order_needs_refund :: "attempt_status option \<Rightarrow> bool" where
  "order_needs_refund captured_attempt \<longleftrightarrow> captured_attempt = Some Captured"

definition assert_transition_allowed :: "order_status \<Rightarrow> order_status \<Rightarrow> unit result" where
  "assert_transition_allowed from to =
     (if is_transition_allowed from to then Inr ()
      else Inl (Conflict (''Illegal order transition: '' @ order_status_name from @ '' -> '' @
                          order_status_name to)))"

interpretation order_table: transition_table order_state_transitions is_transition_allowed
  by unfold_locales (simp add: is_transition_allowed_def)

text \<open>An order whose payment has gone through: every status but the two before payment.\<close>

definition past_payment :: "order_status \<Rightarrow> bool" where
  "past_payment s \<longleftrightarrow> s \<noteq> PendingPayment \<and> s \<noteq> PaymentFailed"

lemma allowed_to_Paid: "is_transition_allowed s Paid \<longleftrightarrow> s = PendingPayment"
  by (cases s) (simp_all add: is_transition_allowed_def)

lemma allowed_to_PaymentFailed: "is_transition_allowed s PaymentFailed \<longleftrightarrow> s = PendingPayment"
  by (cases s) (simp_all add: is_transition_allowed_def)

lemma allowed_to_PendingPayment: "is_transition_allowed s PendingPayment \<longleftrightarrow> s = PaymentFailed"
  by (cases s) (simp_all add: is_transition_allowed_def)

lemma not_self_transition: "\<not> is_transition_allowed s s"
  by (cases s) (simp_all add: is_transition_allowed_def)

lemma past_payment_kept: "is_transition_allowed s t \<Longrightarrow> past_payment s \<Longrightarrow> past_payment t"
  by (cases s) (auto simp: is_transition_allowed_def past_payment_def)

lemma past_payment_entry:
  "is_transition_allowed s t \<Longrightarrow> \<not> past_payment s \<Longrightarrow> past_payment t \<Longrightarrow> t = Paid"
  by (cases s) (auto simp: is_transition_allowed_def past_payment_def)

lemmas order_transition_simps =
  allowed_to_Paid allowed_to_PaymentFailed allowed_to_PendingPayment not_self_transition

text \<open>How far an order is from the end of its life, once it is paid.\<close>

fun remaining_steps :: "order_status \<Rightarrow> nat" where
  "remaining_steps PendingPayment = 7"
| "remaining_steps PaymentFailed = 7"
| "remaining_steps Paid = 5"
| "remaining_steps Confirmed = 4"
| "remaining_steps InProduction = 3"
| "remaining_steps Shipped = 2"
| "remaining_steps Delivered = 1"
| "remaining_steps Cancelled = 1"
| "remaining_steps Refunded = 0"

lemma remaining_decreases:
  "is_transition_allowed s t \<Longrightarrow> past_payment s \<Longrightarrow> remaining_steps t < remaining_steps s"
  by (cases s) (auto simp: is_transition_allowed_def past_payment_def)

end
