(* ===== verification/Tenancy.thy ===== *)
theory Tenancy
  imports Prelude
begin

text \<open>
  What every tenant-facing service shares: the tenant context of a request
  (\<open>common/tenant/tenant-context.ts\<close>), the attribution of an audit row
  (\<open>common/audit/tenant-actor-attribution.ts\<close>, \<open>common/audit/audit.service.ts\<close>) and
  the object check \<open>common/tenant/object-auth.ts\<close>.
\<close>

text \<open>The resolved tenant, and the support session when the caller acts through one.\<close>

record tenant_context =
  tc_tenant :: uuid
  tc_session :: "uuid option"

text \<open>An audit row, without its JSON metadata. Exactly one of membership and session names
  the actor, or none when the actor is no member any more.\<close>

record audit_row =
  au_tenant :: uuid
  au_membership :: "uuid option"
  au_session :: "uuid option"
  au_action :: string
  au_target :: uuid

text \<open>\<open>memberships user tenant\<close> is the membership row's id.\<close>

definition resolve_tenant_audit_actor ::
  "tenant_context \<Rightarrow> uuid \<Rightarrow> (uuid \<Rightarrow> uuid \<Rightarrow> uuid option) \<Rightarrow> uuid option \<times> uuid option" where
  "resolve_tenant_audit_actor ctx actor memberships =
     (case tc_session ctx of
        Some s \<Rightarrow> (None, Some s)
      | None \<Rightarrow> (memberships actor (tc_tenant ctx), None))"

definition tenant_audit_row ::
  "tenant_context \<Rightarrow> uuid \<Rightarrow> (uuid \<Rightarrow> uuid \<Rightarrow> uuid option) \<Rightarrow> string \<Rightarrow> uuid \<Rightarrow> audit_row" where
  "tenant_audit_row ctx actor memberships action target =
     (let attribution = resolve_tenant_audit_actor ctx actor memberships
      in \<lparr>au_tenant = tc_tenant ctx, au_membership = fst attribution,
          au_session = snd attribution, au_action = action, au_target = target\<rparr>)"

text \<open>A row of another tenant, or no row, is not found.\<close>

definition assert_object_in_tenant :: "uuid option \<Rightarrow> uuid \<Rightarrow> unit result" where
  "assert_object_in_tenant owner tenant =
     (if owner = Some tenant then Inr () else Inl (NotFound ''Not Found''))"

lemma assert_object_in_tenant_Inr [simp]:
  "assert_object_in_tenant owner tenant = Inr u \<longleftrightarrow> owner = Some tenant"
  by (auto simp: assert_object_in_tenant_def)

lemma tenant_audit_row_tenant [simp]:
  "au_tenant (tenant_audit_row ctx actor ms action target) = tc_tenant ctx"
  "au_action (tenant_audit_row ctx actor ms action target) = action"
  "au_target (tenant_audit_row ctx actor ms action target) = target"
  by (simp_all add: tenant_audit_row_def Let_def)

end
