(* ===== verification/Shop.thy ===== *)
theory Shop
  imports OrderMachine Money Tenancy
begin

text \<open>
  The database of the commerce side: the tables of \<open>prisma/schema.prisma\<close> that orders,
  payments, refunds and notifications read and write, as lists of rows in insertion order,
  with the unique indexes of the schema checked by the writes. Tables are fields of one
  record \<open>shop\<close>; a statement of a service is a function on it.
\<close>

section \<open>Rows\<close>

record shipping_snapshot =
  recipient_name :: string
  phone :: string
  address_line1 :: string
  address_line2 :: "string option"
  city :: string
  region :: string
  postal_code :: string
  country :: string

record order_row =
  o_id :: uuid
  o_number :: string
  o_user :: uuid
  o_status :: order_status
  o_subtotal :: decimal
  o_shipping_fee :: decimal
  o_total :: decimal
  o_discount :: decimal
  o_tax_mode :: tax_mode
  o_taxable :: decimal
  o_tax :: decimal
  o_tax_rate :: "decimal option"
  o_coupon :: "uuid option"
  o_coupon_code :: "string option"
  o_currency :: string
  o_razorpay :: "uuid option"
  o_account :: "uuid option"
  o_tenant :: uuid
  o_store :: "uuid option"
  o_shipping :: shipping_snapshot
  o_created :: instant

record order_item =
  i_id :: uuid
  i_order :: uuid
  i_product :: uuid
  i_name :: string
  i_variant_label :: "string option"
  i_unit_price :: decimal
  i_quantity :: int
  i_line_total :: decimal
  i_customizations :: "(string \<times> string option \<times> uuid option) list"
  i_tenant :: uuid

record attempt_row =
  a_id :: uuid
  a_order :: uuid
  a_razorpay_order :: uuid
  a_payment :: "uuid option"
  a_amount :: paise
  a_currency :: string
  a_status :: attempt_status
  a_failure_code :: "string option"
  a_failure_reason :: "string option"
  a_method :: "string option"
  a_tenant :: uuid
  a_account :: "uuid option"
  a_created :: instant
  a_captured_at :: "instant option"

datatype refund_status = RefundPending | RefundProcessed | RefundFailed

record refund_row =
  r_id :: uuid
  r_attempt :: uuid
  r_razorpay :: "uuid option"
  r_amount :: paise
  r_status :: refund_status
  r_reason :: "string option"
  r_failure :: "string option"
  r_tenant :: uuid
  r_account :: "uuid option"

record history_row =
  h_order :: uuid
  h_from :: "order_status option"
  h_to :: order_status
  h_by :: "uuid option"
  h_note :: string
  h_tenant :: uuid

text \<open>
  Outbox events. The unique \<open>eventKey\<close> is the text \<open>ORDER_PAID:<order>\<close> or
  \<open>ORDER_STATUS_CHANGED:<order>:<status>\<close>; as identifiers and statuses contain no colon,
  the text determines its parts and the key is a datatype here.
\<close>

datatype event_type = OrderPaid | OrderStatusChanged | PasswordResetRequested

datatype event_key = OrderPaidKey uuid | StatusChangedKey uuid order_status | OtherKey string

datatype outbox_status = OutPending | OutProcessing | OutSent | OutFailed

record outbox_payload =
  x_order :: uuid
  x_order_number :: string
  x_user :: "uuid option"
  x_email :: "string option"
  x_from :: "order_status option"
  x_to :: "order_status option"
  x_refund_pending :: bool
  x_link :: "(string \<times> instant) option"

record outbox_row =
  x_id :: uuid
  x_type :: event_type
  x_key :: event_key
  x_payload :: outbox_payload
  x_status :: outbox_status
  x_attempts :: nat
  x_available :: instant
  x_error :: "string option"
  x_processed :: "instant option"

text \<open>The fields of a Razorpay webhook delivery that the code reads. \<open>None\<close> as an amount
  stands for a value on which \<open>BigInt\<close> throws.\<close>

record payment_entity =
  pe_id :: uuid
  pe_order :: uuid
  pe_amount :: "int option"
  pe_currency :: "string option"
  pe_method :: "string option"
  pe_error_code :: "string option"
  pe_error_description :: "string option"

record refund_entity =
  re_id :: uuid
  re_amount :: "int option"
  re_error_description :: "string option"

record webhook_payload =
  wp_event :: string
  wp_payment :: "payment_entity option"
  wp_refund :: "refund_entity option"
  wp_created_at :: "nat option"

datatype webhook_status = Received | Processed | ProcessingFailed | Ignored | WebhookFailed

record webhook_row =
  w_id :: uuid
  w_event_id :: string
  w_account :: "uuid option"
  w_payload :: webhook_payload
  w_status :: webhook_status
  w_attempts :: nat
  w_available :: instant
  w_error :: "err option"
  w_processed :: "instant option"

section \<open>The database\<close>

text \<open>\<open>next_id\<close> is the source of fresh UUIDs: \<open>@default(uuid())\<close> never returns an
  identifier that is already in use.\<close>

record shop =
  orders :: "order_row list"
  order_items :: "order_item list"
  attempts :: "attempt_row list"
  refunds :: "refund_row list"
  histories :: "history_row list"
  outbox :: "outbox_row list"
  audits :: "audit_row list"
  webhooks :: "webhook_row list"
  user_email :: "uuid \<Rightarrow> string option"
  memberships :: "uuid \<Rightarrow> uuid \<Rightarrow> uuid option"
  order_counter :: "nat option"
  next_id :: uuid

definition find_order :: "shop \<Rightarrow> uuid \<Rightarrow> order_row option" where
  "find_order db i = List.find (\<lambda>r. o_id r = i) (orders db)"

definition find_order_by_razorpay :: "shop \<Rightarrow> uuid \<Rightarrow> order_row option" where
  "find_order_by_razorpay db rp = List.find (\<lambda>r. o_razorpay r = Some rp) (orders db)"

definition find_attempt :: "shop \<Rightarrow> uuid \<Rightarrow> attempt_row option" where
  "find_attempt db i = List.find (\<lambda>r. a_id r = i) (attempts db)"

definition find_attempt_by_payment :: "shop \<Rightarrow> uuid \<Rightarrow> attempt_row option" where
  "find_attempt_by_payment db p = List.find (\<lambda>r. a_payment r = Some p) (attempts db)"

definition captured_attempt :: "shop \<Rightarrow> uuid \<Rightarrow> attempt_row option" where
  "captured_attempt db i = List.find (\<lambda>r. a_order r = i \<and> a_status r = Captured) (attempts db)"

section \<open>Writes and the unique indexes\<close>

text \<open>
  \<open>payment_attempts\<close> has two unique indexes: \<open>razorpayPaymentId\<close> (several rows may have
  none) and the partial one on \<open>orderId WHERE status = 'CAPTURED'\<close>. A write that would
  leave the table in violation of one fails with P2002.
\<close>

definition attempts_unique :: "attempt_row list \<Rightarrow> bool" where
  "attempts_unique as \<longleftrightarrow>
     distinct (map a_payment (filter (\<lambda>a. a_payment a \<noteq> None) as)) \<and>
     distinct (map a_order (filter (\<lambda>a. a_status a = Captured) as))"

definition write_attempts :: "attempt_row list \<Rightarrow> shop \<Rightarrow> shop result" where
  "write_attempts as db =
     (if attempts_unique as then Inr (db\<lparr>attempts := as\<rparr>) else Inl UniqueViolation)"

definition refunds_unique :: "refund_row list \<Rightarrow> bool" where
  "refunds_unique rs \<longleftrightarrow> distinct (map r_razorpay (filter (\<lambda>r. r_razorpay r \<noteq> None) rs))"

definition write_refunds :: "refund_row list \<Rightarrow> shop \<Rightarrow> shop result" where
  "write_refunds rs db =
     (if refunds_unique rs then Inr (db\<lparr>refunds := rs\<rparr>) else Inl UniqueViolation)"

definition orders_unique :: "order_row list \<Rightarrow> bool" where
  "orders_unique os \<longleftrightarrow> distinct (map o_razorpay (filter (\<lambda>r. o_razorpay r \<noteq> None) os))"

definition write_orders :: "order_row list \<Rightarrow> shop \<Rightarrow> shop result" where
  "write_orders os db =
     (if orders_unique os then Inr (db\<lparr>orders := os\<rparr>) else Inl UniqueViolation)"

text \<open>\<open>NotificationsService.enqueueOutboxEvent\<close>: an insert, with \<open>eventKey\<close> unique.\<close>

definition enqueue_outbox_event ::
  "event_type \<Rightarrow> event_key \<Rightarrow> outbox_payload \<Rightarrow> instant \<Rightarrow> shop \<Rightarrow> shop result" where
  "enqueue_outbox_event type key payload now db =
     (if key \<in> set (map x_key (outbox db)) then Inl UniqueViolation
      else Inr (db\<lparr>
        outbox := outbox db @
          [\<lparr>x_id = next_id db, x_type = type, x_key = key, x_payload = payload,
            x_status = OutPending, x_attempts = 0, x_available = now, x_error = None,
            x_processed = None\<rparr>],
        next_id := Suc (next_id db)\<rparr>))"

section \<open>The order's compare-and-swap with its history row\<close>

text \<open>
  Both services that move an order do it with the same two statements: \<open>UPDATE orders SET
  status = to WHERE id = .. AND status = from\<close> and, if a row was hit, an insert into
  \<open>order_status_history\<close>.
\<close>

definition order_hit :: "uuid \<Rightarrow> order_status \<Rightarrow> order_row \<Rightarrow> bool" where
  "order_hit i from r \<longleftrightarrow> o_id r = i \<and> o_status r = from"

definition cas_order ::
  "uuid \<Rightarrow> order_status \<Rightarrow> order_status \<Rightarrow> uuid option \<times> string \<times> uuid \<Rightarrow> shop \<Rightarrow> shop" where
  "cas_order i from to how db =
     (if hits (order_hit i from) (orders db) \<noteq> 1 then db
      else db\<lparr>
        orders := update_rows (order_hit i from) (\<lambda>r. r\<lparr>o_status := to\<rparr>) (orders db),
        histories := histories db @
          [\<lparr>h_order = i, h_from = Some from, h_to = to, h_by = fst how,
            h_note = fst (snd how), h_tenant = snd (snd how)\<rparr>]\<rparr>)"

definition status_of :: "shop \<Rightarrow> uuid \<Rightarrow> order_status option" where
  "status_of db i = map_option o_status (find_order db i)"

definition log_of :: "shop \<Rightarrow> uuid \<Rightarrow> (order_status option \<times> order_status) list" where
  "log_of db i = map (\<lambda>h. (h_from h, h_to h)) (filter (\<lambda>h. h_order h = i) (histories db))"

definition order_keys :: "shop \<Rightarrow> bool" where
  "order_keys db \<longleftrightarrow> distinct (map o_id (orders db))"

abbreviation initial_order_status :: "order_status \<Rightarrow> bool" where
  "initial_order_status s \<equiv> s = PendingPayment"

lemma order_hit_1_iff:
  assumes "order_keys db"
  shows "hits (order_hit i from) (orders db) = 1 \<longleftrightarrow> status_of db i = Some from"
proof -
  have "hits (order_hit i from) (orders db) = 1
      \<longleftrightarrow> (\<exists>r \<in> set (orders db). o_id r = i \<and> o_status r = from)"
    using hits_key_1_iff [of o_id "orders db" i "\<lambda>r. o_status r = from"] assms
    by (simp add: order_hit_def [abs_def] order_keys_def)
  also have "\<dots> \<longleftrightarrow> status_of db i = Some from"
    using assms find_key [of o_id "orders db"]
    by (auto simp: status_of_def find_order_def order_keys_def dest: find_SomeD)
  finally show ?thesis .
qed

lemma find_order_status_update:
  "List.find (\<lambda>r. o_id r = k) (update_rows (order_hit i from) (\<lambda>r. r\<lparr>o_status := to\<rparr>) rs) =
   map_option (\<lambda>r. if order_hit i from r then r\<lparr>o_status := to\<rparr> else r)
     (List.find (\<lambda>r. o_id r = k) rs)"
  by (rule find_key_update) simp

lemma cas_order_hit_status:
  assumes "order_keys db" and "status_of db i = Some from"
  shows "status_of (cas_order i from to how db) i = Some to"
proof -
  obtain r where r: "find_order db i = Some r" "o_status r = from"
    using assms(2) by (auto simp: status_of_def)
  then have "o_id r = i" by (auto simp: find_order_def dest: find_SomeD)
  then show ?thesis
    using r assms order_hit_1_iff [of db i "from"]
    by (simp add: cas_order_def status_of_def find_order_def find_order_status_update order_hit_def)
qed

lemma cas_order_miss:
  assumes "order_keys db" and "status_of db i \<noteq> Some from"
  shows "cas_order i from to how db = db"
  using assms order_hit_1_iff [of db i "from"] by (simp add: cas_order_def)

lemma cas_order_other:
  assumes "k \<noteq> i"
  shows "status_of (cas_order i from to how db) k = status_of db k \<and>
         log_of (cas_order i from to how db) k = log_of db k"
proof -
  have "find_order db k = Some r \<Longrightarrow> o_id r = k" for r
    by (auto simp: find_order_def dest: find_SomeD)
  then show ?thesis
    using assms
    by (cases "find_order db k")
      (auto simp: cas_order_def status_of_def log_of_def find_order_def find_order_status_update
        order_hit_def)
qed

lemma cas_order_hit_log:
  assumes "order_keys db" and "status_of db i = Some from"
  shows "log_of (cas_order i from to how db) i = log_of db i @ [(Some from, to)]"
  using assms order_hit_1_iff [of db i "from"] by (simp add: cas_order_def log_of_def)

lemma cas_order_keys: "order_keys (cas_order i from to how db) = order_keys db"
  by (simp add: cas_order_def order_keys_def map_update_rows)

interpretation order_log: logged_status order_state_transitions is_transition_allowed
  initial_order_status status_of log_of cas_order "\<lambda>_ _ _. True" order_keys
  by unfold_locales
    (simp_all add: cas_order_hit_status cas_order_hit_log cas_order_miss cas_order_other
      cas_order_keys)

lemma cas_order_frames [frames, simp]:
  "attempts (cas_order i from to how db) = attempts db"
  "refunds (cas_order i from to how db) = refunds db"
  "outbox (cas_order i from to how db) = outbox db"
  "audits (cas_order i from to how db) = audits db"
  "webhooks (cas_order i from to how db) = webhooks db"
  "order_items (cas_order i from to how db) = order_items db"
  "user_email (cas_order i from to how db) = user_email db"
  "memberships (cas_order i from to how db) = memberships db"
  "order_counter (cas_order i from to how db) = order_counter db"
  "next_id (cas_order i from to how db) = next_id db"
  by (simp_all add: cas_order_def)

text \<open>The rows of \<open>orders\<close> after the swap differ in the status only.\<close>

lemma cas_order_rows:
  "r \<in> set (orders (cas_order i from to how db)) \<Longrightarrow>
     \<exists>r0 \<in> set (orders db). r = r0\<lparr>o_status := o_status r\<rparr> \<and>
       (o_status r = o_status r0 \<or> o_id r0 = i \<and> o_status r0 = from \<and> o_status r = to)"
  by (auto simp: cas_order_def in_update_rows order_hit_def split: if_splits) force+

lemma cas_order_rowD:
  assumes "r \<in> set (orders (cas_order i from to how db))"
  shows "\<exists>r0 \<in> set (orders db). o_id r = o_id r0 \<and> o_razorpay r = o_razorpay r0 \<and>
    (o_status r = o_status r0 \<or> o_id r0 = i \<and> o_status r0 = from \<and> o_status r = to)"
proof -
  obtain r0 where r0: "r0 \<in> set (orders db)" "r = r0\<lparr>o_status := o_status r\<rparr>"
    "o_status r = o_status r0 \<or> o_id r0 = i \<and> o_status r0 = from \<and> o_status r = to"
    using cas_order_rows [OF assms] by blast
  have "o_id r = o_id r0" "o_razorpay r = o_razorpay r0" by (subst r0(2), simp)+
  then show ?thesis using r0 by blast
qed

lemma cas_order_row_kept:
  "r \<in> set (orders db) \<Longrightarrow>
     \<exists>r' \<in> set (orders (cas_order i from to how db)). o_id r' = o_id r \<and> o_razorpay r' = o_razorpay r"
  by (intro bexI [of _ "if hits (order_hit i from) (orders db) = 1 \<and> order_hit i from r
        then r\<lparr>o_status := to\<rparr> else r"])
    (auto simp: cas_order_def in_update_rows)

lemma cas_order_map_orders:
  assumes "\<And>r s. f (r\<lparr>o_status := s\<rparr>) = f r"
  shows "map f (orders (cas_order i from to how db)) = map f (orders db)"
  using assms by (simp add: cas_order_def map_update_rows)

end
