(* ===== verification/Orders.thy ===== *)
theory Orders
  imports Shop
begin

text \<open>
  \<open>orders/orders.service.ts\<close>: order numbers, the customer and admin reads with their views,
  cancellation, the admin status change and the recording of a manual refund. The services
  read rows first and write them in a transaction later; a transaction is a function of the
  rows read before (they may be stale) and of the database it finds.
\<close>

text \<open>The audit row of an admin's order operation.\<close>

definition log_tenant_action ::
  "tenant_context \<Rightarrow> uuid \<Rightarrow> string \<Rightarrow> uuid \<Rightarrow> shop \<Rightarrow> shop" where
  "log_tenant_action ctx actor action target db =
     db\<lparr>audits := audits db @ [tenant_audit_row ctx actor (memberships db) action target]\<rparr>"

section \<open>Order numbers\<close>

definition format_order_number :: "nat \<Rightarrow> string" where
  "format_order_number counter = ''PF-'' @ pad_start 6 (nat_text counter)"

text \<open>The counter row is \<open>INSERT .. ON CONFLICT DO UPDATE SET value = value::integer + 1\<close>;
  a Postgres integer ends at 2^31 - 1.\<close>

definition generate_order_number :: "(shop, string) tx" where
  "generate_order_number db =
     (let counter = (case order_counter db of None \<Rightarrow> 1 | Some n \<Rightarrow> n + 1)
      in if counter > 2147483647 then Inl (Thrown ''integer out of range'')
         else Inr (format_order_number counter, db\<lparr>order_counter := Some counter\<rparr>))"

text \<open>For evaluation, the bound is compared as a binary integer.\<close>

lemma generate_order_number_code [code]:
  "generate_order_number db =
     (let counter = (case order_counter db of None \<Rightarrow> 1 | Some n \<Rightarrow> n + 1)
      in if int counter > 2147483647 then Inl (Thrown ''integer out of range'')
         else Inr (format_order_number counter, db\<lparr>order_counter := Some counter\<rparr>))"
proof -
  have "int n > 2147483647 \<longleftrightarrow> n > 2147483647" for n by linarith
  then show ?thesis by (simp only: generate_order_number_def Let_def)
qed

section \<open>Creation\<close>

text \<open>The order row and its first history row, as checkout writes them in its transaction.\<close>

definition create_order_row :: "order_row \<Rightarrow> shop \<Rightarrow> shop" where
  "create_order_row r db =
     db\<lparr>orders := orders db @ [r\<lparr>o_id := next_id db, o_status := PendingPayment,
          o_razorpay := None, o_account := None\<rparr>], next_id := Suc (next_id db)\<rparr>"

definition record_creation :: "uuid \<Rightarrow> uuid \<Rightarrow> uuid \<Rightarrow> shop \<Rightarrow> shop" where
  "record_creation i user tenant db =
     db\<lparr>histories := histories db @
          [\<lparr>h_order = i, h_from = None, h_to = PendingPayment, h_by = Some user,
            h_note = ''Order created from cart at checkout'', h_tenant = tenant\<rparr>]\<rparr>"

section \<open>The verified purchase\<close>

definition find_delivered_order_item_for_product ::
  "uuid \<Rightarrow> uuid \<Rightarrow> shop \<Rightarrow> order_item option" where
  "find_delivered_order_item_for_product user product db =
     List.find (\<lambda>i. i_product i = product \<and>
       (case find_order db (i_order i) of None \<Rightarrow> False
        | Some r \<Rightarrow> o_user r = user \<and> o_status r = Delivered)) (order_items db)"

section \<open>Views\<close>

record refund_view =
  rv_id :: uuid
  rv_amount :: string
  rv_status :: refund_status
  rv_reason :: "string option"

record attempt_view =
  av_id :: uuid
  av_status :: attempt_status
  av_amount :: string
  av_method :: "string option"
  av_failure_code :: "string option"
  av_failure_reason :: "string option"
  av_created :: instant
  av_captured_at :: "instant option"
  av_refunds :: "refund_view list"

record item_view =
  iv_id :: uuid
  iv_product :: uuid
  iv_name :: string
  iv_variant_label :: "string option"
  iv_unit_price :: string
  iv_quantity :: int
  iv_line_total :: string
  iv_customizations :: "(string \<times> string option \<times> uuid option) list"

record list_item_view =
  lv_id :: uuid
  lv_number :: string
  lv_status :: order_status
  lv_total :: string
  lv_currency :: string
  lv_item_count :: int
  lv_needs_manual_refund :: bool
  lv_created :: instant

record detail_view = list_item_view +
  dv_subtotal :: string
  dv_shipping_fee :: string
  dv_discount :: string
  dv_taxable :: string
  dv_tax :: string
  dv_tax_mode :: tax_mode
  dv_tax_rate_percent :: "string option"
  dv_coupon_code :: "string option"
  dv_shipping :: shipping_snapshot
  dv_items :: "item_view list"
  dv_history :: "(order_status option \<times> order_status \<times> uuid option \<times> string) list"
  dv_attempts :: "attempt_view list"

definition money_view :: "decimal \<Rightarrow> string" where
  "money_view d = paise_to_decimal_string (decimal_to_paise d)"

text \<open>\<open>new Decimal(rate).mul(100).toFixed(2)\<close>: the digits of a number with two places.\<close>

definition tax_rate_view :: "decimal \<Rightarrow> string" where
  "tax_rate_view r = paise_to_decimal_string (coeff (to_places 2 (dec_times r (Dec 100 0))))"

definition items_of :: "shop \<Rightarrow> uuid \<Rightarrow> order_item list" where
  "items_of db i = filter (\<lambda>it. i_order it = i) (order_items db)"

definition attempts_of :: "shop \<Rightarrow> uuid \<Rightarrow> attempt_row list" where
  "attempts_of db i = sort_key a_created (filter (\<lambda>a. a_order a = i) (attempts db))"

definition refunds_of :: "shop \<Rightarrow> uuid \<Rightarrow> refund_row list" where
  "refunds_of db a = filter (\<lambda>r. r_attempt r = a) (refunds db)"

definition needs_manual_refund :: "shop \<Rightarrow> uuid \<Rightarrow> bool" where
  "needs_manual_refund db i =
     list_ex (\<lambda>a. list_ex (\<lambda>r. r_status r = RefundPending) (refunds_of db (a_id a)))
       (attempts_of db i)"

definition to_list_item_view :: "shop \<Rightarrow> order_row \<Rightarrow> list_item_view" where
  "to_list_item_view db r =
     \<lparr>lv_id = o_id r, lv_number = o_number r, lv_status = o_status r,
      lv_total = money_view (o_total r), lv_currency = o_currency r,
      lv_item_count = sum_list (map i_quantity (items_of db (o_id r))),
      lv_needs_manual_refund = needs_manual_refund db (o_id r),
      lv_created = o_created r\<rparr>"

definition to_refund_view :: "refund_row \<Rightarrow> refund_view" where
  "to_refund_view r =
     \<lparr>rv_id = r_id r, rv_amount = int_text (r_amount r), rv_status = r_status r,
      rv_reason = r_reason r\<rparr>"

definition to_attempt_view :: "shop \<Rightarrow> attempt_row \<Rightarrow> attempt_view" where
  "to_attempt_view db a =
     \<lparr>av_id = a_id a, av_status = a_status a, av_amount = int_text (a_amount a),
      av_method = a_method a, av_failure_code = a_failure_code a,
      av_failure_reason = a_failure_reason a, av_created = a_created a,
      av_captured_at = a_captured_at a,
      av_refunds = map to_refund_view (refunds_of db (a_id a))\<rparr>"

definition to_item_view :: "order_item \<Rightarrow> item_view" where
  "to_item_view it =
     \<lparr>iv_id = i_id it, iv_product = i_product it, iv_name = i_name it,
      iv_variant_label = i_variant_label it, iv_unit_price = money_view (i_unit_price it),
      iv_quantity = i_quantity it, iv_line_total = money_view (i_line_total it),
      iv_customizations = i_customizations it\<rparr>"

definition to_detail_view :: "shop \<Rightarrow> order_row \<Rightarrow> detail_view" where
  "to_detail_view db r =
     \<lparr>lv_id = o_id r, lv_number = o_number r, lv_status = o_status r,
      lv_total = money_view (o_total r), lv_currency = o_currency r,
      lv_item_count = sum_list (map i_quantity (items_of db (o_id r))),
      lv_needs_manual_refund = needs_manual_refund db (o_id r),
      lv_created = o_created r,
      dv_subtotal = money_view (o_subtotal r),
      dv_shipping_fee = money_view (o_shipping_fee r),
      dv_discount = money_view (o_discount r),
      dv_taxable = money_view (o_taxable r),
      dv_tax = money_view (o_tax r),
      dv_tax_mode = o_tax_mode r,
      dv_tax_rate_percent = map_option tax_rate_view (o_tax_rate r),
      dv_coupon_code = o_coupon_code r,
      dv_shipping = o_shipping r,
      dv_items = map to_item_view (sort_key i_id (items_of db (o_id r))),
      dv_history = map (\<lambda>h. (h_from h, h_to h, h_by h, h_note h))
        (filter (\<lambda>h. h_order h = o_id r) (histories db)),
      dv_attempts = map (to_attempt_view db) (attempts_of db (o_id r))\<rparr>"

section \<open>Lists\<close>

text \<open>The fields of the list queries; the admin lists add the caller's tenant.\<close>

record order_query =
  q_status :: "order_status option"
  q_user :: "uuid option"
  q_from :: "instant option"
  q_to :: "instant option"
  q_page :: nat
  q_limit :: nat

record page_meta =
  pm_page :: nat
  pm_limit :: nat
  pm_total :: nat
  pm_total_pages :: nat

definition paginated_list ::
  "(order_row \<Rightarrow> bool) \<Rightarrow> nat \<Rightarrow> nat \<Rightarrow> shop \<Rightarrow> list_item_view list \<times> page_meta" where
  "paginated_list cond page limit db =
     (let matching = sort_key (\<lambda>r. - o_created r) (filter cond (orders db));
          n = length matching
      in (map (to_list_item_view db) (page_slice page limit matching),
          \<lparr>pm_page = page, pm_limit = limit, pm_total = n,
           pm_total_pages = total_pages limit n\<rparr>))"

definition user_where :: "uuid \<Rightarrow> order_status option \<Rightarrow> order_row \<Rightarrow> bool" where
  "user_where user status r \<longleftrightarrow>
     o_user r = user \<and> (case status of None \<Rightarrow> True | Some s \<Rightarrow> o_status r = s)"

definition admin_where :: "uuid \<Rightarrow> order_query \<Rightarrow> order_row \<Rightarrow> bool" where
  "admin_where tenant q r \<longleftrightarrow>
     o_tenant r = tenant \<and>
     (case q_status q of None \<Rightarrow> True | Some s \<Rightarrow> o_status r = s) \<and>
     (case q_user q of None \<Rightarrow> True | Some u \<Rightarrow> o_user r = u) \<and>
     (case q_from q of None \<Rightarrow> True | Some t \<Rightarrow> t \<le> o_created r) \<and>
     (case q_to q of None \<Rightarrow> True | Some t \<Rightarrow> o_created r \<le> t)"

definition list_orders_for_user where
  "list_orders_for_user user status page limit db =
     paginated_list (user_where user status) page limit db"

definition admin_list_orders_for_customer where
  "admin_list_orders_for_customer ctx user page limit db =
     paginated_list (\<lambda>r. o_user r = user \<and> o_tenant r = tc_tenant ctx) page limit db"

definition admin_list_orders where
  "admin_list_orders ctx q db =
     paginated_list (admin_where (tc_tenant ctx) q) (q_page q) (q_limit q) db"

definition admin_recent_orders :: "tenant_context \<Rightarrow> nat \<Rightarrow> shop \<Rightarrow> list_item_view list" where
  "admin_recent_orders ctx limit db =
     map (to_list_item_view db)
       (take limit (sort_key (\<lambda>r. - o_created r)
         (filter (\<lambda>r. o_tenant r = tc_tenant ctx) (orders db))))"

section \<open>Single orders\<close>

definition find_order_or_throw :: "uuid \<Rightarrow> shop \<Rightarrow> order_row result" where
  "find_order_or_throw i db =
     (case find_order db i of None \<Rightarrow> Inl (NotFound ''Order not found'') | Some r \<Rightarrow> Inr r)"

definition assert_owned_by :: "order_row \<Rightarrow> uuid \<Rightarrow> unit result" where
  "assert_owned_by r user =
     (if o_user r \<noteq> user then Inl (Forbidden ''You do not have access to this order'') else Inr ())"

definition get_order_detail_for_user :: "uuid \<Rightarrow> uuid \<Rightarrow> shop \<Rightarrow> detail_view result" where
  "get_order_detail_for_user user i db =
     (case find_order_or_throw i db of Inl e \<Rightarrow> Inl e
      | Inr r \<Rightarrow> (case assert_owned_by r user of Inl e \<Rightarrow> Inl e
                | Inr _ \<Rightarrow> Inr (to_detail_view db r)))"

definition admin_get_order_detail :: "tenant_context \<Rightarrow> uuid \<Rightarrow> shop \<Rightarrow> detail_view result" where
  "admin_get_order_detail ctx i db =
     (case find_order_or_throw i db of Inl e \<Rightarrow> Inl e
      | Inr r \<Rightarrow> (case assert_object_in_tenant (Some (o_tenant r)) (tc_tenant ctx) of Inl e \<Rightarrow> Inl e
                | Inr _ \<Rightarrow> Inr (to_detail_view db r)))"

section \<open>Transitions\<close>

datatype actor_role = CustomerRole | AdminRole

fun role_name :: "actor_role \<Rightarrow> string" where
  "role_name CustomerRole = ''CUSTOMER''"
| "role_name AdminRole = ''ADMIN''"

text \<open>\<open>reason?.trim() || defaultNote\<close>; the dash of the source's text is written \<open>-\<close>.\<close>

definition transition_note :: "actor_role \<Rightarrow> order_status \<Rightarrow> string option \<Rightarrow> bool \<Rightarrow> string" where
  "transition_note role to reason refund_pending =
     (let default_note = ''Order '' @ to_lower (order_status_name to) @
            (if refund_pending then '' - refund pending manual processing'' else '''');
          given = (case reason of None \<Rightarrow> '''' | Some r \<Rightarrow> js_trim r)
      in ''['' @ role_name role @ ''] '' @ (if given = '''' then default_note else given))"

definition transition_order_with_history ::
  "order_row \<Rightarrow> order_status \<Rightarrow> actor_role \<Rightarrow> uuid \<Rightarrow> string option \<Rightarrow> bool \<Rightarrow> instant
     \<Rightarrow> (shop, unit) tx" where
  "transition_order_with_history r to role actor reason refund_pending now db =
     (case assert_transition_allowed (o_status r) to of Inl e \<Rightarrow> Inl e
      | Inr _ \<Rightarrow>
         if hits (order_hit (o_id r) (o_status r)) (orders db) \<noteq> 1 then Inr ((), db)
         else
           (let db1 = cas_order (o_id r) (o_status r) to
                  (Some actor, transition_note role to reason refund_pending, o_tenant r) db
            in case user_email db1 (o_user r) of
                 None \<Rightarrow> Inl (Thrown ''No User found'')
               | Some email \<Rightarrow>
                   (case enqueue_outbox_event OrderStatusChanged (StatusChangedKey (o_id r) to)
                       \<lparr>x_order = o_id r, x_order_number = o_number r, x_user = Some (o_user r),
                        x_email = Some email, x_from = Some (o_status r), x_to = Some to,
                        x_refund_pending = refund_pending, x_link = None\<rparr> now db1 of
                      Inl e \<Rightarrow> Inl e
                    | Inr db2 \<Rightarrow> Inr ((), db2))))"

text \<open>
  \<open>performCancellation\<close>: the captured attempt is read before the transaction. The audit
  argument is present for the admin path only.
\<close>

definition perform_cancellation_tx ::
  "attempt_row option \<Rightarrow> order_row \<Rightarrow> actor_role \<Rightarrow> uuid \<Rightarrow> string option
     \<Rightarrow> (tenant_context \<times> uuid) option \<Rightarrow> instant \<Rightarrow> (shop, unit) tx" where
  "perform_cancellation_tx captured r role actor reason tenant_audit now db =
     (let needs_refund = order_needs_refund (map_option a_status captured);
          step1 =
            (case captured of
               Some a \<Rightarrow>
                 if needs_refund then
                   write_refunds (refunds db @
                     [\<lparr>r_id = next_id db, r_attempt = a_id a, r_razorpay = None,
                       r_amount = a_amount a, r_status = RefundPending, r_reason = reason,
                       r_failure = None, r_tenant = o_tenant r, r_account = None\<rparr>])
                     (db\<lparr>next_id := Suc (next_id db)\<rparr>)
                 else Inr db
             | None \<Rightarrow> Inr db)
      in case step1 of Inl e \<Rightarrow> Inl e
       | Inr db1 \<Rightarrow>
          (case transition_order_with_history r Cancelled role actor reason needs_refund now db1 of
             Inl e \<Rightarrow> Inl e
           | Inr (_, db2) \<Rightarrow>
               Inr ((), case tenant_audit of None \<Rightarrow> db2
                        | Some (ctx, admin) \<Rightarrow>
                            log_tenant_action ctx admin ''order.cancel'' (o_id r) db2)))"

definition perform_refund_recording_tx ::
  "order_row \<Rightarrow> actor_role \<Rightarrow> uuid \<Rightarrow> string option \<Rightarrow> (tenant_context \<times> uuid) option \<Rightarrow> instant
     \<Rightarrow> (shop, unit) tx" where
  "perform_refund_recording_tx r role actor reason tenant_audit now db =
     (let of_order = (\<lambda>rf. r_status rf = RefundPending \<and>
              list_ex (\<lambda>a. a_id a = r_attempt rf \<and> a_order a = o_id r) (attempts db));
          db1 = db\<lparr>refunds :=
            update_rows of_order (\<lambda>rf. rf\<lparr>r_status := RefundProcessed\<rparr>) (refunds db)\<rparr>
      in case transition_order_with_history r Refunded role actor reason False now db1 of
           Inl e \<Rightarrow> Inl e
         | Inr (_, db2) \<Rightarrow>
             Inr ((), case tenant_audit of None \<Rightarrow> db2
                      | Some (ctx, admin) \<Rightarrow>
                          log_tenant_action ctx admin ''order.refund_record'' (o_id r) db2))"

definition status_change_tx ::
  "order_row \<Rightarrow> order_status \<Rightarrow> uuid \<Rightarrow> string option \<Rightarrow> tenant_context \<Rightarrow> instant
     \<Rightarrow> (shop, unit) tx" where
  "status_change_tx r to admin reason ctx now db =
     (case transition_order_with_history r to AdminRole admin reason False now db of
        Inl e \<Rightarrow> Inl e
      | Inr (_, db1) \<Rightarrow> Inr ((), log_tenant_action ctx admin ''order.status_change'' (o_id r) db1))"

definition cancel_order ::
  "uuid \<Rightarrow> uuid \<Rightarrow> string option \<Rightarrow> instant \<Rightarrow> (shop, detail_view) tx" where
  "cancel_order user i reason now db =
     (case find_order_or_throw i db of Inl e \<Rightarrow> Inl e
      | Inr r \<Rightarrow>
        (case assert_owned_by r user of Inl e \<Rightarrow> Inl e
         | Inr _ \<Rightarrow>
           if o_status r = Cancelled then
             map_sum id (\<lambda>v. (v, db)) (get_order_detail_for_user user i db)
           else
             (case assert_transition_allowed (o_status r) Cancelled of Inl e \<Rightarrow> Inl e
              | Inr _ \<Rightarrow>
                (case perform_cancellation_tx (captured_attempt db (o_id r)) r CustomerRole user
                        reason None now db of
                   Inl e \<Rightarrow> Inl e
                 | Inr (_, db') \<Rightarrow>
                     map_sum id (\<lambda>v. (v, db')) (get_order_detail_for_user user i db')))))"

definition admin_transition_status ::
  "tenant_context \<Rightarrow> uuid \<Rightarrow> uuid \<Rightarrow> order_status \<Rightarrow> string option \<Rightarrow> instant
     \<Rightarrow> (shop, detail_view) tx" where
  "admin_transition_status ctx admin i to reason now db =
     (case find_order_or_throw i db of Inl e \<Rightarrow> Inl e
      | Inr r \<Rightarrow>
        (case assert_object_in_tenant (Some (o_tenant r)) (tc_tenant ctx) of Inl e \<Rightarrow> Inl e
         | Inr _ \<Rightarrow>
           if o_status r = to then
             map_sum id (\<lambda>v. (v, db)) (admin_get_order_detail ctx i db)
           else
             (case assert_transition_allowed (o_status r) to of Inl e \<Rightarrow> Inl e
              | Inr _ \<Rightarrow>
                (case
                   (if to = Cancelled then
                      perform_cancellation_tx (captured_attempt db (o_id r)) r AdminRole admin
                        reason (Some (ctx, admin)) now db
                    else if to = Refunded then
                      perform_refund_recording_tx r AdminRole admin reason (Some (ctx, admin)) now db
                    else status_change_tx r to admin reason ctx now db) of
                   Inl e \<Rightarrow> Inl e
                 | Inr (_, db') \<Rightarrow>
                     map_sum id (\<lambda>v. (v, db')) (admin_get_order_detail ctx i db')))))"

end
