(* ===== verification/Accounts.thy ===== *)
theory Accounts
  imports Machines Tenancy
begin

text \<open>
  Merchant payment accounts, \<open>payments/payment-accounts/\<close>: the status machine, the
  service (create, list, read, activate, disable, store credentials), the resolution of the
  account an order's payment runs through, the connection flow and the readiness report.
\<close>

section \<open>Rows\<close>

datatype account_status = AccountPending | AccountActive | AccountDisabled

datatype provider = Razorpay

datatype account_mode = TestMode | LiveMode

text \<open>An encrypted credential blob is opaque.\<close>

type_synonym blob = nat

record account_row =
  pa_id :: uuid
  pa_tenant :: uuid
  pa_store :: uuid
  pa_provider :: provider
  pa_status :: account_status
  pa_mode :: account_mode
  pa_name :: "string option"
  pa_credentials :: "blob option"
  pa_credentials_at :: "instant option"
  pa_connected :: "instant option"
  pa_disabled :: "instant option"
  pa_disabled_reason :: "string option"
  pa_created :: instant

record store_row =
  st_id :: uuid
  st_tenant :: uuid
  st_name :: string
  st_status :: string
  st_primary :: bool

record accounts_db =
  accounts :: "account_row list"
  stores :: "store_row list"
  acc_audits :: "audit_row list"
  acc_memberships :: "uuid \<Rightarrow> uuid \<Rightarrow> uuid option"
  acc_next :: uuid

definition find_account :: "accounts_db \<Rightarrow> uuid \<Rightarrow> account_row option" where
  "find_account db i = List.find (\<lambda>a. pa_id a = i) (accounts db)"

definition find_store_account :: "accounts_db \<Rightarrow> uuid \<Rightarrow> provider \<Rightarrow> account_row option" where
  "find_store_account db st p = List.find (\<lambda>a. pa_store a = st \<and> pa_provider a = p) (accounts db)"

text \<open>\<open>@@unique([storeId, provider])\<close>.\<close>

definition accounts_unique :: "account_row list \<Rightarrow> bool" where
  "accounts_unique as \<longleftrightarrow> distinct (map (\<lambda>a. (pa_store a, pa_provider a)) as)"

definition write_account_audit ::
  "tenant_context \<Rightarrow> uuid \<Rightarrow> string \<Rightarrow> uuid \<Rightarrow> accounts_db \<Rightarrow> accounts_db" where
  "write_account_audit ctx actor action target db =
     db\<lparr>acc_audits := acc_audits db @ [tenant_audit_row ctx actor (acc_memberships db) action target]\<rparr>"

section \<open>The status machine\<close>

fun account_status_name :: "account_status \<Rightarrow> string" where
  "account_status_name AccountPending = ''PENDING''"
| "account_status_name AccountActive = ''ACTIVE''"
| "account_status_name AccountDisabled = ''DISABLED''"

fun payment_account_transitions :: "account_status \<Rightarrow> account_status list" where
  "payment_account_transitions AccountPending = [AccountActive, AccountDisabled]"
| "payment_account_transitions AccountActive = [AccountDisabled]"
| "payment_account_transitions AccountDisabled = [AccountActive]"

definition is_payment_account_transition_allowed :: "account_status \<Rightarrow> account_status \<Rightarrow> bool" where
  "is_payment_account_transition_allowed from to \<longleftrightarrow> to \<in> set (payment_account_transitions from)"

interpretation account_table:
  transition_table payment_account_transitions is_payment_account_transition_allowed
  by unfold_locales (simp add: is_payment_account_transition_allowed_def)

section \<open>Stores\<close>

text \<open>The tenant-scoped client adds the tenant to every \<open>where\<close> on \<open>stores\<close>.\<close>

definition assert_store_in_tenant :: "uuid \<Rightarrow> uuid \<Rightarrow> accounts_db \<Rightarrow> uuid result" where
  "assert_store_in_tenant tenant st db =
     (if list_ex (\<lambda>s. st_id s = st \<and> st_tenant s = tenant) (stores db) then Inr st
      else Inl (NotFound ''Store not found for this tenant''))"

definition resolve_primary_store_id :: "uuid \<Rightarrow> accounts_db \<Rightarrow> uuid result" where
  "resolve_primary_store_id tenant db =
     (case List.find (\<lambda>s. st_primary s \<and> st_tenant s = tenant) (stores db) of
        None \<Rightarrow> Inl (NotFound ''This tenant has no primary store configured'')
      | Some s \<Rightarrow> Inr (st_id s))"

section \<open>The service\<close>

record account_view =
  vw_id :: uuid
  vw_store :: uuid
  vw_provider :: provider
  vw_status :: account_status
  vw_mode :: account_mode
  vw_name :: "string option"
  vw_connected :: "instant option"
  vw_disabled :: "instant option"
  vw_disabled_reason :: "string option"
  vw_created :: instant

definition to_account_view :: "account_row \<Rightarrow> account_view" where
  "to_account_view a =
     \<lparr>vw_id = pa_id a, vw_store = pa_store a, vw_provider = pa_provider a,
      vw_status = pa_status a, vw_mode = pa_mode a, vw_name = pa_name a,
      vw_connected = pa_connected a, vw_disabled = pa_disabled a,
      vw_disabled_reason = pa_disabled_reason a, vw_created = pa_created a\<rparr>"

definition duplicate_account :: err where
  "duplicate_account = Conflict ''This store already has a RAZORPAY payment account''"

text \<open>
  \<open>create\<close>: the friendly check reads before the transaction; the insert itself fails on the
  unique index, which is caught outside and answered with the same conflict.
\<close>

definition insert_account_tx ::
  "tenant_context \<Rightarrow> uuid \<Rightarrow> uuid \<Rightarrow> provider \<Rightarrow> account_mode \<Rightarrow> string option \<Rightarrow> instant
     \<Rightarrow> (accounts_db, account_view) tx" where
  "insert_account_tx ctx actor st p mode name now db =
     (let a = \<lparr>pa_id = acc_next db, pa_tenant = tc_tenant ctx, pa_store = st, pa_provider = p,
               pa_status = AccountPending, pa_mode = mode, pa_name = name, pa_credentials = None,
               pa_credentials_at = None, pa_connected = None, pa_disabled = None,
               pa_disabled_reason = None, pa_created = now\<rparr>;
          as = accounts db @ [a]
      in if accounts_unique as
         then Inr (to_account_view a,
           write_account_audit ctx actor ''payment_account.create'' (pa_id a)
             (db\<lparr>accounts := as, acc_next := Suc (acc_next db)\<rparr>))
         else Inl UniqueViolation)"

definition create_account ::
  "tenant_context \<Rightarrow> uuid \<Rightarrow> uuid option \<Rightarrow> provider \<Rightarrow> account_mode \<Rightarrow> string option \<Rightarrow> instant
     \<Rightarrow> (accounts_db, account_view) tx" where
  "create_account ctx actor store_arg p mode name now db =
     (case (case store_arg of Some st \<Rightarrow> assert_store_in_tenant (tc_tenant ctx) st db
            | None \<Rightarrow> resolve_primary_store_id (tc_tenant ctx) db) of
        Inl e \<Rightarrow> Inl e
      | Inr st \<Rightarrow>
          if find_store_account db st p \<noteq> None then Inl duplicate_account
          else (case insert_account_tx ctx actor st p mode name now db of
                  Inl e \<Rightarrow> Inl (if e = UniqueViolation then duplicate_account else e)
                | Inr v \<Rightarrow> Inr v))"

definition list_accounts :: "uuid \<Rightarrow> nat \<Rightarrow> nat \<Rightarrow> accounts_db \<Rightarrow> account_view list \<times> nat \<times> nat" where
  "list_accounts tenant page limit db =
     (let rows = sort_key pa_created (filter (\<lambda>a. pa_tenant a = tenant) (accounts db))
      in (map to_account_view (page_slice page limit rows), length rows,
          total_pages limit (length rows)))"

text \<open>\<open>findUnique\<close> followed by \<open>assertObjectInTenant\<close>.\<close>

definition account_in_tenant :: "uuid \<Rightarrow> uuid \<Rightarrow> accounts_db \<Rightarrow> account_row result" where
  "account_in_tenant tenant i db =
     (case find_account db i of
        None \<Rightarrow> Inl (NotFound ''Not Found'')
      | Some a \<Rightarrow> (case assert_object_in_tenant (Some (pa_tenant a)) tenant of
                   Inl e \<Rightarrow> Inl e | Inr _ \<Rightarrow> Inr a))"

definition get_account :: "uuid \<Rightarrow> uuid \<Rightarrow> accounts_db \<Rightarrow> account_view result" where
  "get_account tenant i db = map_sum id to_account_view (account_in_tenant tenant i db)"

definition account_timestamps :: "account_status \<Rightarrow> instant \<Rightarrow> account_row \<Rightarrow> account_row" where
  "account_timestamps to now a =
     (if to = AccountActive
      then a\<lparr>pa_connected := Some now, pa_disabled := None, pa_disabled_reason := None\<rparr>
      else a\<lparr>pa_disabled := Some now\<rparr>)"

text \<open>The transition, given the row that the transaction read first.\<close>

definition transition_read_account ::
  "account_row \<Rightarrow> tenant_context \<Rightarrow> uuid \<Rightarrow> account_status \<Rightarrow> string \<Rightarrow> instant
     \<Rightarrow> (accounts_db, account_view) tx" where
  "transition_read_account target ctx actor to action now db =
     (if \<not> is_payment_account_transition_allowed (pa_status target) to
      then Inl (Conflict (''Cannot transition a '' @ account_status_name (pa_status target) @
                          '' payment account to '' @ account_status_name to))
      else
        let hit = (\<lambda>a. pa_id a = pa_id target \<and> pa_status a = pa_status target)
        in if hits hit (accounts db) \<noteq> 1
           then Inl (Conflict ''Payment account status changed concurrently - retry'')
           else
             let db1 = db\<lparr>accounts := update_rows hit
                   (\<lambda>a. account_timestamps to now (a\<lparr>pa_status := to\<rparr>)) (accounts db)\<rparr>;
                 db2 = write_account_audit ctx actor action (pa_id target) db1
             in (case find_account db2 (pa_id target) of
                   None \<Rightarrow> Inl (Thrown ''No PaymentAccount found'')
                 | Some a \<Rightarrow> Inr (to_account_view a, db2)))"

definition transition_account ::
  "tenant_context \<Rightarrow> uuid \<Rightarrow> uuid \<Rightarrow> account_status \<Rightarrow> string \<Rightarrow> instant
     \<Rightarrow> (accounts_db, account_view) tx" where
  "transition_account ctx actor i to action now db =
     (case account_in_tenant (tc_tenant ctx) i db of
        Inl e \<Rightarrow> Inl e
      | Inr target \<Rightarrow> transition_read_account target ctx actor to action now db)"

definition activate_account ::
  "tenant_context \<Rightarrow> uuid \<Rightarrow> uuid \<Rightarrow> instant \<Rightarrow> (accounts_db, account_view) tx" where
  "activate_account ctx actor i now =
     transition_account ctx actor i AccountActive ''payment_account.activate'' now"

definition disable_account ::
  "tenant_context \<Rightarrow> uuid \<Rightarrow> uuid \<Rightarrow> instant \<Rightarrow> (accounts_db, account_view) tx" where
  "disable_account ctx actor i now =
     transition_account ctx actor i AccountDisabled ''payment_account.disable'' now"

definition configure_credentials ::
  "tenant_context \<Rightarrow> uuid \<Rightarrow> uuid \<Rightarrow> blob \<Rightarrow> instant \<Rightarrow> (accounts_db, unit) tx" where
  "configure_credentials ctx actor i encrypted now db =
     (case account_in_tenant (tc_tenant ctx) i db of
        Inl e \<Rightarrow> Inl e
      | Inr _ \<Rightarrow> Inr ((),
          write_account_audit ctx actor ''payment_account.credentials_configured'' i
            (db\<lparr>accounts := update_rows (\<lambda>a. pa_id a = i)
               (\<lambda>a. a\<lparr>pa_credentials := Some encrypted, pa_credentials_at := Some now\<rparr>)
               (accounts db)\<rparr>)))"

definition get_encrypted_credentials :: "uuid \<Rightarrow> uuid \<Rightarrow> accounts_db \<Rightarrow> blob option result" where
  "get_encrypted_credentials tenant i db = map_sum id pa_credentials (account_in_tenant tenant i db)"

definition find_active_account_for_store ::
  "uuid \<Rightarrow> uuid \<Rightarrow> provider \<Rightarrow> accounts_db \<Rightarrow> account_view option" where
  "find_active_account_for_store tenant st p db =
     (case find_store_account db st p of
        None \<Rightarrow> None
      | Some a \<Rightarrow> if pa_tenant a \<noteq> tenant then None
          else if pa_status a \<noteq> AccountActive then None
          else Some (to_account_view a))"

section \<open>Resolution\<close>

text \<open>\<open>PaymentAccountResolutionService\<close>. The adapter registry has one provider, so the
  lookup of the adapter does not fail.\<close>

datatype resolution_error =
  StoreNotFound | NoActiveAccount | InactiveAccount | UnknownAccount | AccountTenantMismatch

definition resolve_for_store ::
  "uuid \<Rightarrow> uuid \<Rightarrow> provider \<Rightarrow> accounts_db \<Rightarrow> resolution_error + uuid" where
  "resolve_for_store tenant st p db =
     (if \<not> list_ex (\<lambda>s. st_id s = st \<and> st_tenant s = tenant) (stores db) then Inl StoreNotFound
      else (case find_store_account db st p of
              None \<Rightarrow> Inl NoActiveAccount
            | Some a \<Rightarrow>
                if pa_tenant a \<noteq> tenant then Inl AccountTenantMismatch
                else if pa_status a \<noteq> AccountActive then Inl InactiveAccount
                else Inr (pa_id a)))"

definition resolve_for_bound_account ::
  "uuid \<Rightarrow> uuid \<Rightarrow> accounts_db \<Rightarrow> resolution_error + uuid" where
  "resolve_for_bound_account tenant i db =
     (case find_account db i of
        None \<Rightarrow> Inl AccountTenantMismatch
      | Some a \<Rightarrow> if pa_tenant a \<noteq> tenant then Inl AccountTenantMismatch else Inr (pa_id a))"

definition resolve_for_webhook :: "uuid \<Rightarrow> accounts_db \<Rightarrow> resolution_error + (uuid \<times> uuid)" where
  "resolve_for_webhook i db =
     (case find_account db i of
        None \<Rightarrow> Inl UnknownAccount
      | Some a \<Rightarrow> Inr (pa_id a, pa_tenant a))"

section \<open>Connecting\<close>

record razorpay_credentials =
  key_id :: string
  key_secret :: string
  webhook_secret :: "string option"

text \<open>
  Outside the repository: the cipher (\<open>encrypt\<close>, of the JSON text) and Razorpay's answer to
  one authenticated call, for given and for stored credentials.
\<close>

record connection_env =
  encrypt :: "razorpay_credentials \<Rightarrow> blob"
  credentials_accepted :: "razorpay_credentials \<Rightarrow> bool"
  stored_accepted :: "blob \<Rightarrow> bool"

definition verification_failed :: err where
  "verification_failed = Unprocessable ''Razorpay credential verification failed - check the key id and secret.''"

text \<open>
  \<open>connect\<close> as its three parts: what is checked before anything is written, the writes of
  fresh credentials, and the activation. A later part keeps what an earlier one committed.
\<close>

definition store_verified_credentials ::
  "connection_env \<Rightarrow> tenant_context \<Rightarrow> uuid \<Rightarrow> uuid \<Rightarrow> string option \<Rightarrow> string option
     \<Rightarrow> string option \<Rightarrow> instant \<Rightarrow> (accounts_db, unit) tx" where
  "store_verified_credentials env ctx actor i kid secret hook now db =
     (if kid \<noteq> None \<or> secret \<noteq> None then
        (case (kid, secret) of
           (Some k, Some sec) \<Rightarrow>
             if k = '''' \<or> sec = '''' then
               Inl (BadRequest ''keyId and keySecret must both be provided together'')
             else
               (let c = \<lparr>key_id = k, key_secret = sec, webhook_secret = hook\<rparr>
                in if \<not> credentials_accepted env c then Inl verification_failed
                   else configure_credentials ctx actor i (encrypt env c) now db)
         | _ \<Rightarrow> Inl (BadRequest ''keyId and keySecret must both be provided together''))
      else
        (case get_encrypted_credentials (tc_tenant ctx) i db of
           Inl e \<Rightarrow> Inl e
         | Inr None \<Rightarrow> Inl (BadRequest ''No Razorpay credentials configured for this payment account yet - submit keyId and keySecret to connect.'')
         | Inr (Some b) \<Rightarrow>
             if stored_accepted env b then Inr ((), db) else Inl verification_failed))"

definition connect_account ::
  "connection_env \<Rightarrow> tenant_context \<Rightarrow> uuid \<Rightarrow> uuid \<Rightarrow> string option \<Rightarrow> string option
     \<Rightarrow> string option \<Rightarrow> instant \<Rightarrow> accounts_db \<Rightarrow> account_view result \<times> accounts_db" where
  "connect_account env ctx actor i kid secret hook now db =
     (case get_account (tc_tenant ctx) i db of
        Inl e \<Rightarrow> (Inl e, db)
      | Inr account \<Rightarrow>
          (case store_verified_credentials env ctx actor i kid secret hook now db of
             Inl e \<Rightarrow> (Inl e, db)
           | Inr (_, db1) \<Rightarrow>
               if vw_status account \<noteq> AccountActive then
                 (case activate_account ctx actor i now db1 of
                    Inl e \<Rightarrow> (Inl e, db1)
                  | Inr (_, db2) \<Rightarrow> (get_account (tc_tenant ctx) i db2, db2))
               else (get_account (tc_tenant ctx) i db1, db1)))"

section \<open>Readiness\<close>

record store_readiness =
  sr_tenant :: uuid
  sr_store :: uuid
  sr_name :: string
  sr_store_status :: string
  sr_account_status :: "account_status option"
  sr_account :: "uuid option"
  sr_orders :: nat

text \<open>\<open>checkPaymentAccountReadiness\<close>; a missing account is \<open>None\<close>, the number of orders of
  a store is read from the orders table.\<close>

definition store_readiness :: "(uuid \<Rightarrow> nat) \<Rightarrow> accounts_db \<Rightarrow> store_row \<Rightarrow> store_readiness" where
  "store_readiness order_count db st =
     (let account = List.find (\<lambda>a. pa_store a = st_id st \<and> pa_provider a = Razorpay) (accounts db)
      in \<lparr>sr_tenant = st_tenant st, sr_store = st_id st, sr_name = st_name st,
          sr_store_status = st_status st, sr_account_status = map_option pa_status account,
          sr_account = map_option pa_id account, sr_orders = order_count (st_id st)\<rparr>)"

definition check_payment_account_readiness ::
  "(uuid \<Rightarrow> nat) \<Rightarrow> accounts_db
     \<Rightarrow> store_readiness list \<times> store_readiness list \<times> store_readiness list" where
  "check_payment_account_readiness order_count db =
     (let all = map (store_readiness order_count db) (stores db);
          at_risk = filter (\<lambda>s. sr_account_status s \<noteq> Some AccountActive) all
      in (all, at_risk, filter (\<lambda>s. sr_orders s > 0) at_risk))"

section \<open>Well-formed account tables\<close>

definition accounts_wf :: "accounts_db \<Rightarrow> bool" where
  "accounts_wf db \<longleftrightarrow>
     distinct (map pa_id (accounts db)) \<and> accounts_unique (accounts db) \<and>
     distinct (map st_id (stores db)) \<and>
     (\<forall>a \<in> set (accounts db). pa_id a < acc_next db \<and>
        (\<exists>st \<in> set (stores db). st_id st = pa_store a \<and> st_tenant st = pa_tenant a))"

lemma find_accountD: "find_account db i = Some a \<Longrightarrow> a \<in> set (accounts db) \<and> pa_id a = i"
  by (auto simp: find_account_def dest: find_SomeD)

lemma account_in_tenant_eq:
  "account_in_tenant tenant i db =
     (case find_account db i of
        None \<Rightarrow> Inl (NotFound ''Not Found'')
      | Some a \<Rightarrow> if pa_tenant a = tenant then Inr a else Inl (NotFound ''Not Found''))"
  by (auto simp: account_in_tenant_def assert_object_in_tenant_def split: option.splits)

lemma account_in_tenant_Inr:
  "account_in_tenant tenant i db = Inr a \<longleftrightarrow> find_account db i = Some a \<and> pa_tenant a = tenant"
  by (auto simp: account_in_tenant_eq split: option.splits)

lemma write_account_audit_frames [simp, frames]:
  "accounts (write_account_audit ctx actor action i db) = accounts db"
  "stores (write_account_audit ctx actor action i db) = stores db"
  "acc_next (write_account_audit ctx actor action i db) = acc_next db"
  by (simp_all add: write_account_audit_def)

lemma account_timestamps_keys [simp]:
  "pa_id (account_timestamps to now a) = pa_id a"
  "pa_tenant (account_timestamps to now a) = pa_tenant a"
  "pa_store (account_timestamps to now a) = pa_store a"
  "pa_provider (account_timestamps to now a) = pa_provider a"
  "pa_status (account_timestamps to now a) = pa_status a"
  "pa_credentials (account_timestamps to now a) = pa_credentials a"
  by (simp_all add: account_timestamps_def)

lemma find_account_update:
  assumes "\<And>a. pa_id (f a) = pa_id a" and "accounts db' = update_rows p f (accounts db)"
  shows "find_account db' i = map_option (\<lambda>a. if p a then f a else a) (find_account db i)"
  using assms by (simp add: find_account_def find_key_update)

lemma accounts_wf_update:
  assumes wf: "accounts_wf db" and rows: "accounts db' = update_rows p f (accounts db)"
    and same: "stores db' = stores db" "acc_next db' = acc_next db"
    and keys: "\<And>a. pa_id (f a) = pa_id a" "\<And>a. pa_tenant (f a) = pa_tenant a"
      "\<And>a. pa_store (f a) = pa_store a" "\<And>a. pa_provider (f a) = pa_provider a"
  shows "accounts_wf db'"
  using wf
  by (auto simp: accounts_wf_def accounts_unique_def rows same in_update_rows map_update_rows keys)

text \<open>A successful write of fresh or confirmation of stored credentials.\<close>

lemma configure_credentials_rows:
  assumes "configure_credentials ctx actor i b now db = Inr (u, db')"
  shows "accounts db' = update_rows (\<lambda>a. pa_id a = i)
      (\<lambda>a. a\<lparr>pa_credentials := Some b, pa_credentials_at := Some now\<rparr>) (accounts db)"
    and "stores db' = stores db" and "acc_next db' = acc_next db"
    and "\<exists>a. find_account db i = Some a \<and> pa_tenant a = tc_tenant ctx"
  using assms
  by (auto simp: configure_credentials_def account_in_tenant_eq split: option.splits if_splits)

definition credentials_confirmed :: "connection_env \<Rightarrow> account_row \<Rightarrow> bool" where
  "credentials_confirmed env a \<longleftrightarrow>
     (\<exists>b. pa_credentials a = Some b \<and>
        (stored_accepted env b \<or> (\<exists>c. credentials_accepted env c \<and> b = encrypt env c)))"

lemma store_verified_confirms:
  assumes "store_verified_credentials env ctx actor i kid secret hook now db = Inr (u, db')"
  shows "\<exists>a. find_account db' i = Some a \<and> pa_tenant a = tc_tenant ctx \<and>
    credentials_confirmed env a"
proof (cases "kid \<noteq> None \<or> secret \<noteq> None")
  case True
  then obtain c where c: "credentials_accepted env c"
    and conf: "configure_credentials ctx actor i (encrypt env c) now db = Inr (u, db')"
    using assms
    by (auto simp: store_verified_credentials_def Let_def split: option.splits if_splits)
  note rows = configure_credentials_rows [OF conf]
  have "find_account db' i =
      map_option (\<lambda>a. if pa_id a = i
        then a\<lparr>pa_credentials := Some (encrypt env c), pa_credentials_at := Some now\<rparr> else a)
      (find_account db i)"
    by (rule find_account_update [OF _ rows(1)]) simp
  then show ?thesis
    using rows(4) c by (force simp: credentials_confirmed_def dest: find_accountD)
next
  case False
  then obtain b where b: "get_encrypted_credentials (tc_tenant ctx) i db = Inr (Some b)"
    and "stored_accepted env b" and "db' = db"
    using assms
    by (auto simp: store_verified_credentials_def split: sum.splits option.splits if_splits)
  then show ?thesis
    by (auto simp: get_encrypted_credentials_def credentials_confirmed_def account_in_tenant_eq
        split: option.splits if_splits)
qed

lemma store_verified_status:
  assumes "store_verified_credentials env ctx actor i kid secret hook now db = Inr (u, db')"
  shows "map_option pa_status (find_account db' k) = map_option pa_status (find_account db k)"
proof (cases "db' = db")
  case False
  then obtain b where conf: "configure_credentials ctx actor i b now db = Inr (u, db')"
    using assms
    by (auto simp: store_verified_credentials_def Let_def split: option.splits if_splits sum.splits)
  have "find_account db' k =
      map_option (\<lambda>a. if pa_id a = i
        then a\<lparr>pa_credentials := Some b, pa_credentials_at := Some now\<rparr> else a)
      (find_account db k)"
    by (rule find_account_update [OF _ configure_credentials_rows(1) [OF conf]]) simp
  then show ?thesis by (cases "find_account db k") auto
qed simp

lemma transition_read_account_rows:
  assumes "transition_read_account t ctx actor to action now db = Inr (v, db')"
  shows "accounts db' = update_rows (\<lambda>a. pa_id a = pa_id t \<and> pa_status a = pa_status t)
      (\<lambda>a. account_timestamps to now (a\<lparr>pa_status := to\<rparr>)) (accounts db)"
    and "stores db' = stores db" and "acc_next db' = acc_next db"
    and "is_payment_account_transition_allowed (pa_status t) to"
  using assms
  by (auto simp: transition_read_account_def Let_def split: if_splits option.splits)

lemma transition_account_result:
  assumes "transition_account ctx actor i to action now db = Inr (v, db')"
  shows "\<exists>a. find_account db i = Some a \<and> pa_tenant a = tc_tenant ctx \<and>
    find_account db' i = Some (account_timestamps to now (a\<lparr>pa_status := to\<rparr>))"
proof -
  obtain a where a: "find_account db i = Some a" "pa_tenant a = tc_tenant ctx"
    and step: "transition_read_account a ctx actor to action now db = Inr (v, db')"
    using assms
    by (auto simp: transition_account_def account_in_tenant_eq split: option.splits if_splits)
  have "find_account db' i =
      map_option (\<lambda>x. if pa_id x = pa_id a \<and> pa_status x = pa_status a
        then account_timestamps to now (x\<lparr>pa_status := to\<rparr>) else x) (find_account db i)"
    by (rule find_account_update [OF _ transition_read_account_rows(1) [OF step]]) simp
  then show ?thesis using a by simp
qed

lemma get_account_Inr:
  "get_account tenant i db = Inr v \<longleftrightarrow>
     (\<exists>a. find_account db i = Some a \<and> pa_tenant a = tenant \<and> v = to_account_view a)"
  by (auto simp: get_account_def account_in_tenant_eq split: option.splits)

text \<open>
  A successful \<open>connect\<close> leaves the account active with credentials that Razorpay
  accepted in this call: an account never goes live on unverified credentials.
\<close>

theorem connect_confirms_credentials:
  assumes "connect_account env ctx actor i kid secret hook now db = (Inr v, db')"
  shows "\<exists>a. find_account db' i = Some a \<and> pa_tenant a = tc_tenant ctx \<and>
    pa_status a = AccountActive \<and> credentials_confirmed env a \<and> v = to_account_view a"
proof -
  obtain w db1 where w: "get_account (tc_tenant ctx) i db = Inr w"
    and s: "store_verified_credentials env ctx actor i kid secret hook now db = Inr ((), db1)"
    using assms by (auto simp: connect_account_def split: sum.splits prod.splits)
  obtain a where a: "find_account db1 i = Some a" "pa_tenant a = tc_tenant ctx"
    "credentials_confirmed env a"
    using store_verified_confirms [OF s] by auto
  show ?thesis
  proof (cases "vw_status w = AccountActive")
    case False
    then obtain u where act: "activate_account ctx actor i now db1 = Inr (u, db')"
      and v: "get_account (tc_tenant ctx) i db' = Inr v"
      using assms w s by (auto simp: connect_account_def split: sum.splits prod.splits)
    show ?thesis
      using transition_account_result [OF act [unfolded activate_account_def]] a v
      by (auto simp: get_account_Inr credentials_confirmed_def)
  next
    case True
    then have "db' = db1" and v: "get_account (tc_tenant ctx) i db1 = Inr v"
      using assms w s by (auto simp: connect_account_def)
    moreover have "pa_status a = AccountActive"
      using True w a(1) store_verified_status [OF s, of i] by (auto simp: get_account_Inr to_account_view_def)
    ultimately show ?thesis using a by (auto simp: get_account_Inr)
  qed
qed

text \<open>
  The readiness report is exact: a store is reported at risk if and only if resolving the
  account for a new payment of that store fails.
\<close>

theorem readiness_predicts_resolution:
  assumes wf: "accounts_wf db" and st: "st \<in> set (stores db)"
  shows "store_readiness order_count db st
        \<in> set (fst (snd (check_payment_account_readiness order_count db))) \<longleftrightarrow>
      (\<forall>i. resolve_for_store (st_tenant st) (st_id st) Razorpay db \<noteq> Inr i)"
proof -
  have own: "list_ex (\<lambda>s. st_id s = st_id st \<and> st_tenant s = st_tenant st) (stores db)"
    using st by (auto simp: list_ex_iff)
  have ten: "pa_tenant a = st_tenant st" if "find_store_account db (st_id st) Razorpay = Some a" for a
  proof -
    have "a \<in> set (accounts db)" "pa_store a = st_id st"
      using that by (auto simp: find_store_account_def dest: find_SomeD)
    then show ?thesis
      using wf st distinct_key_inj [of st_id "stores db"] by (fastforce simp: accounts_wf_def)
  qed
  have "store_readiness order_count db st
        \<in> set (fst (snd (check_payment_account_readiness order_count db))) \<longleftrightarrow>
      map_option pa_status (find_store_account db (st_id st) Razorpay) \<noteq> Some AccountActive"
    using st
    by (auto simp: check_payment_account_readiness_def store_readiness_def Let_def
        find_store_account_def)
  also have "\<dots> \<longleftrightarrow> (\<forall>i. resolve_for_store (st_tenant st) (st_id st) Razorpay db \<noteq> Inr i)"
    using own ten
    by (cases "find_store_account db (st_id st) Razorpay") (auto simp: resolve_for_store_def)
  finally show ?thesis .
qed

definition other_accounts :: "uuid \<Rightarrow> accounts_db \<Rightarrow> account_row list" where
  "other_accounts tenant db = filter (\<lambda>a. pa_tenant a \<noteq> tenant) (accounts db)"

lemma other_accounts_update:
  assumes "distinct (map pa_id (accounts db))" and "a0 \<in> set (accounts db)"
    and "pa_tenant a0 = tenant" and "\<And>a. p a \<Longrightarrow> pa_id a = pa_id a0"
    and "\<And>a. pa_tenant (f a) = pa_tenant a" and "accounts db' = update_rows p f (accounts db)"
  shows "other_accounts tenant db' = other_accounts tenant db"
proof -
  have own: "pa_tenant a = tenant" if "a \<in> set (accounts db)" "p a" for a
    using that assms(1-4) distinct_key_inj by metis
  have "filter (\<lambda>a. pa_tenant a \<noteq> tenant) (update_rows p f rs) =
      filter (\<lambda>a. pa_tenant a \<noteq> tenant) rs" if "set rs \<subseteq> set (accounts db)" for rs
    using that own by (induction rs) (auto simp: assms(5))
  then show ?thesis by (simp add: other_accounts_def assms(6))
qed

lemma configure_other_accounts:
  assumes "accounts_wf db" and "configure_credentials ctx actor i b now db = Inr (u, db')"
  shows "other_accounts (tc_tenant ctx) db' = other_accounts (tc_tenant ctx) db"
proof -
  note rows = configure_credentials_rows [OF assms(2)]
  then obtain a where "a \<in> set (accounts db)" "pa_id a = i" "pa_tenant a = tc_tenant ctx"
    by (auto dest: find_accountD)
  then show ?thesis
    using assms(1) by (intro other_accounts_update [OF _ _ _ _ _ rows(1)]) (auto simp: accounts_wf_def)
qed

lemma configure_wf:
  assumes "accounts_wf db" and "configure_credentials ctx actor i b now db = Inr (u, db')"
  shows "accounts_wf db'"
  by (rule accounts_wf_update [OF assms(1) configure_credentials_rows(1-3) [OF assms(2)]]) simp_all

lemma transition_read_account_wf:
  assumes "accounts_wf db" and "transition_read_account t ctx actor to action now db = Inr (v, db')"
  shows "accounts_wf db'"
  by (rule accounts_wf_update [OF assms(1) transition_read_account_rows(1-3) [OF assms(2)]]) simp_all

lemma transition_other_accounts:
  assumes "accounts_wf db" and "transition_account ctx actor i to action now db = Inr (v, db')"
  shows "other_accounts (tc_tenant ctx) db' = other_accounts (tc_tenant ctx) db"
proof -
  obtain a where a: "a \<in> set (accounts db)" "pa_tenant a = tc_tenant ctx"
    and step: "transition_read_account a ctx actor to action now db = Inr (v, db')"
    using assms(2)
    by (auto simp: transition_account_def account_in_tenant_eq split: option.splits if_splits
        dest: find_accountD)
  show ?thesis
    using assms(1) a
    by (intro other_accounts_update [OF _ a _ _ transition_read_account_rows(1) [OF step]])
      (auto simp: accounts_wf_def)
qed

lemma store_verified_other_accounts:
  assumes "accounts_wf db"
    and "store_verified_credentials env ctx actor i kid secret hook now db = Inr (u, db')"
  shows "other_accounts (tc_tenant ctx) db' = other_accounts (tc_tenant ctx) db \<and> accounts_wf db'"
  using assms
  by (auto simp: store_verified_credentials_def Let_def split: option.splits if_splits sum.splits
      dest: configure_other_accounts configure_wf)

text \<open>
  Whatever an admin of one tenant does with payment accounts, the accounts of every other
  tenant stay as they were, credentials included.
\<close>

theorem account_operations_stay_in_tenant:
  assumes wf: "accounts_wf db"
  shows "other_accounts (tc_tenant ctx)
        (snd (connect_account env ctx actor i kid secret hook now db)) =
      other_accounts (tc_tenant ctx) db \<and>
    other_accounts (tc_tenant ctx) (snd (run_tx (disable_account ctx actor i now) db)) =
      other_accounts (tc_tenant ctx) db \<and>
    other_accounts (tc_tenant ctx)
        (snd (run_tx (create_account ctx actor store_arg p mode name now) db)) =
      other_accounts (tc_tenant ctx) db"
  (is "?connect \<and> ?disable \<and> ?create")
proof (intro conjI)
  show ?connect
    using store_verified_other_accounts [OF wf] transition_other_accounts
    by (fastforce simp: connect_account_def activate_account_def split: sum.splits)
  show ?disable
    using transition_other_accounts [OF wf]
    by (auto simp: run_tx_def disable_account_def split: sum.splits)
  show ?create
    by (auto simp: run_tx_def create_account_def insert_account_tx_def Let_def other_accounts_def
        split: sum.splits if_splits option.splits)
qed

text \<open>A tenant with one connected store.\<close>

definition sample_accounts :: accounts_db where
  "sample_accounts =
     \<lparr>accounts = [\<lparr>pa_id = 0, pa_tenant = 1, pa_store = 5, pa_provider = Razorpay,
        pa_status = AccountPending, pa_mode = TestMode, pa_name = None, pa_credentials = None,
        pa_credentials_at = None, pa_connected = None, pa_disabled = None,
        pa_disabled_reason = None, pa_created = 0\<rparr>],
      stores = [\<lparr>st_id = 5, st_tenant = 1, st_name = ''Shop'', st_status = ''ACTIVE'', st_primary = True\<rparr>],
      acc_audits = [], acc_memberships = (\<lambda>_ _. None), acc_next = 1\<rparr>"

definition sample_connection :: connection_env where
  "sample_connection =
     \<lparr>encrypt = (\<lambda>c. length (key_id c)), credentials_accepted = (\<lambda>c. key_secret c = ''s''),
      stored_accepted = (\<lambda>_. False)\<rparr>"

lemmas account_ops =
  connect_account_def store_verified_credentials_def get_account_def account_in_tenant_eq
  find_account_def configure_credentials_def activate_account_def transition_account_def
  transition_read_account_def is_payment_account_transition_allowed_def account_timestamps_def
  write_account_audit_def tenant_audit_row_def resolve_tenant_audit_actor_def
  to_account_view_def get_encrypted_credentials_def

theorem connect_confirms_credentials_witness:
  "\<exists>v db'. connect_account sample_connection \<lparr>tc_tenant = 1, tc_session = None\<rparr> 9 0 (Some ''k'')
       (Some ''s'') None 7 sample_accounts = (Inr v, db') \<and>
     (\<exists>a. find_account db' 0 = Some a \<and> pa_status a = AccountActive \<and>
        credentials_confirmed sample_connection a)"
proof -
  obtain v db' where r: "connect_account sample_connection \<lparr>tc_tenant = 1, tc_session = None\<rparr> 9 0
      (Some ''k'') (Some ''s'') None 7 sample_accounts = (Inr v, db')"
    by (simp add: account_ops sample_accounts_def sample_connection_def Let_def)
  from connect_confirms_credentials [OF this] r show ?thesis by blast
qed

lemma sample_accounts_wf: "accounts_wf sample_accounts"
  by (simp add: accounts_wf_def sample_accounts_def accounts_unique_def)

theorem readiness_predicts_resolution_witness:
  "store_readiness (\<lambda>_. 0) sample_accounts (hd (stores sample_accounts))
     \<in> set (fst (snd (check_payment_account_readiness (\<lambda>_. 0) sample_accounts)))"
  by (subst readiness_predicts_resolution [OF sample_accounts_wf])
    (simp_all add: sample_accounts_def resolve_for_store_def find_store_account_def)

theorem account_operations_stay_in_tenant_witness:
  "other_accounts 2 (snd (connect_account sample_connection \<lparr>tc_tenant = 2, tc_session = None\<rparr> 9 0
     (Some ''k'') (Some ''s'') None 7 sample_accounts)) = other_accounts 2 sample_accounts"
  using account_operations_stay_in_tenant
    [OF sample_accounts_wf, of "\<lparr>tc_tenant = 2, tc_session = None\<rparr>"] by simp

end
