(* ===== verification/Payments.thy ===== *)
theory Payments
  imports Orders Accounts
begin

text \<open>
  \<open>payments/payments.service.ts\<close>: initiating a payment, the client's verify call, the two
  webhook endpoints and the application of their events, and the two operations that
  reconciliation uses. Statements inside one \<open>$transaction\<close> form one function of type
  \<open>tx\<close>; \<open>initiatePayment\<close> has no transaction, so its statements are separate functions,
  each of which takes the order row as it was read before.
\<close>

section \<open>The provider\<close>

text \<open>
  The Razorpay adapter of an account, on its encrypted credentials. An answer \<open>None\<close> is a
  \<open>PaymentProviderError\<close>; a signature check may throw on credentials it cannot decrypt.
\<close>

record provider_payment =
  pp_id :: uuid
  pp_order :: uuid
  pp_amount :: paise
  pp_currency :: string
  pp_status :: string
  pp_captured :: bool
  pp_method :: "string option"

record payment_adapter =
  create_provider_order :: "blob \<Rightarrow> paise \<Rightarrow> string \<Rightarrow> string \<Rightarrow> uuid option"
  public_key_id :: "blob \<Rightarrow> string"
  verify_payment_signature :: "blob \<Rightarrow> uuid \<Rightarrow> uuid \<Rightarrow> string \<Rightarrow> bool"
  verify_webhook_signature :: "blob \<Rightarrow> string \<Rightarrow> string \<Rightarrow> bool option"
  fetch_order_payments :: "blob \<Rightarrow> uuid \<Rightarrow> provider_payment list option"

definition default_currency :: string where "default_currency = ''INR''"

section \<open>Shared helpers\<close>

text \<open>\<open>transitionOrder\<close>: the order with its new status, or nothing if the row was no longer
  in the status that was read.\<close>

definition transition_order ::
  "order_row \<Rightarrow> order_status \<Rightarrow> uuid option \<Rightarrow> string \<Rightarrow> (shop, order_row option) tx" where
  "transition_order r to changed_by note db =
     (if \<not> is_transition_allowed (o_status r) to
      then Inl (Conflict (''Illegal order transition '' @ order_status_name (o_status r) @ '' -> '' @
                          order_status_name to))
      else if hits (order_hit (o_id r) (o_status r)) (orders db) \<noteq> 1 then Inr (None, db)
      else Inr (Some (r\<lparr>o_status := to\<rparr>),
                cas_order (o_id r) (o_status r) to (changed_by, note, o_tenant r) db))"

definition insert_outbox_event ::
  "event_type \<Rightarrow> order_row \<Rightarrow> order_status option \<Rightarrow> instant \<Rightarrow> shop \<Rightarrow> shop result" where
  "insert_outbox_event type r to now db =
     (let key = (case (type, to) of
          (OrderPaid, _) \<Rightarrow> OrderPaidKey (o_id r)
        | (_, Some s) \<Rightarrow> StatusChangedKey (o_id r) s
        | (_, None) \<Rightarrow> OtherKey (''ORDER_STATUS_CHANGED:'' @ nat_text (o_id r) @ '':undefined''))
      in enqueue_outbox_event type key
           \<lparr>x_order = o_id r, x_order_number = o_number r, x_user = Some (o_user r),
            x_email = None, x_from = None, x_to = to, x_refund_pending = False, x_link = None\<rparr> now db)"

definition resolve_bound_account_or_fail :: "uuid \<Rightarrow> uuid \<Rightarrow> accounts_db \<Rightarrow> uuid result" where
  "resolve_bound_account_or_fail tenant i acc =
     (case resolve_for_bound_account tenant i acc of
        Inl _ \<Rightarrow> Inl MerchantPaymentUnavailable
      | Inr a \<Rightarrow> Inr a)"

definition find_order_or_fail :: "uuid \<Rightarrow> shop \<Rightarrow> order_row result" where
  "find_order_or_fail i db =
     (case find_order db i of None \<Rightarrow> Inl (Thrown ''No Order found'') | Some r \<Rightarrow> Inr r)"

section \<open>Initiating a payment\<close>

record initiate_view =
  ip_attempt :: uuid
  ip_razorpay_order :: uuid
  ip_key :: string
  ip_amount :: string
  ip_currency :: string

definition payable_order :: "uuid \<Rightarrow> uuid \<Rightarrow> shop \<Rightarrow> order_row result" where
  "payable_order user i db =
     (case find_order db i of
        None \<Rightarrow> Inl (NotFound ''Order not found'')
      | Some r \<Rightarrow> if o_user r \<noteq> user then Inl (NotFound ''Order not found'') else Inr r)"

text \<open>A failed order is put back to pending first.\<close>

definition retry_failed_order :: "order_row \<Rightarrow> uuid \<Rightarrow> (shop, order_row) tx" where
  "retry_failed_order r user db =
     (if o_status r = PaymentFailed then
        (case transition_order r PendingPayment (Some user) ''Customer retrying payment'' db of
           Inl e \<Rightarrow> Inl e
         | Inr (Some r', db') \<Rightarrow> Inr (r', db')
         | Inr (None, db') \<Rightarrow> map_sum id (\<lambda>r'. (r', db')) (find_order_or_fail (o_id r) db'))
      else Inr (r, db))"

text \<open>The account is bound once: the update hits only while the column is null.\<close>

definition account_unbound :: "uuid \<Rightarrow> order_row \<Rightarrow> bool" where
  "account_unbound i r \<longleftrightarrow> o_id r = i \<and> o_account r = None"

definition bind_payment_account ::
  "accounts_db \<Rightarrow> order_row \<Rightarrow> (shop, order_row \<times> uuid) tx" where
  "bind_payment_account acc r db =
     (case o_account r of
        Some a \<Rightarrow> map_sum id (\<lambda>a'. ((r, a'), db)) (resolve_bound_account_or_fail (o_tenant r) a acc)
      | None \<Rightarrow>
          (case o_store r of
             None \<Rightarrow> Inl MerchantPaymentUnavailable
           | Some st \<Rightarrow>
               (case resolve_for_store (o_tenant r) st Razorpay acc of
                  Inl _ \<Rightarrow> Inl MerchantPaymentUnavailable
                | Inr a \<Rightarrow>
                    if hits (account_unbound (o_id r)) (orders db) = 1 then
                      Inr ((r\<lparr>o_account := Some a\<rparr>, a),
                        db\<lparr>orders := update_rows (account_unbound (o_id r))
                             (\<lambda>x. x\<lparr>o_account := Some a\<rparr>) (orders db)\<rparr>)
                    else
                      (case find_order_or_fail (o_id r) db of
                         Inl e \<Rightarrow> Inl e
                       | Inr fresh \<Rightarrow>
                           (case o_account fresh of
                              None \<Rightarrow> Inl (Thrown ''paymentAccountId is null'')
                            | Some w \<Rightarrow> map_sum id (\<lambda>a'. ((r\<lparr>o_account := Some w\<rparr>, a'), db))
                                (resolve_bound_account_or_fail (o_tenant r) w acc))))))"

text \<open>The Razorpay order is created once, too. The column is unique.\<close>

definition razorpay_unset :: "uuid \<Rightarrow> order_row \<Rightarrow> bool" where
  "razorpay_unset i r \<longleftrightarrow> o_id r = i \<and> o_razorpay r = None"

definition associate_razorpay_order :: "order_row \<Rightarrow> uuid \<Rightarrow> (shop, uuid) tx" where
  "associate_razorpay_order r rp db =
     (if hits (razorpay_unset (o_id r)) (orders db) = 1 then
        map_sum id (\<lambda>db'. (rp, db'))
          (write_orders (update_rows (razorpay_unset (o_id r))
             (\<lambda>x. x\<lparr>o_razorpay := Some rp\<rparr>) (orders db)) db)
      else
        (case find_order_or_fail (o_id r) db of
           Inl e \<Rightarrow> Inl e
         | Inr fresh \<Rightarrow>
             (case o_razorpay fresh of
                None \<Rightarrow> Inl (Thrown ''razorpayOrderId is null'')
              | Some rp' \<Rightarrow> Inr (rp', db))))"

definition provider_order_for ::
  "payment_adapter \<Rightarrow> blob \<Rightarrow> order_row \<Rightarrow> (shop, uuid) tx" where
  "provider_order_for adapter cred r db =
     (case o_razorpay r of
        Some rp \<Rightarrow> Inr (rp, db)
      | None \<Rightarrow>
          (case create_provider_order adapter cred (decimal_to_paise (o_total r)) (o_currency r)
                  (o_number r) of
             None \<Rightarrow> Inl PaymentProviderUnavailable
           | Some rp \<Rightarrow> associate_razorpay_order r rp db))"

definition create_attempt ::
  "order_row \<Rightarrow> uuid \<Rightarrow> uuid \<Rightarrow> instant \<Rightarrow> (shop, attempt_row) tx" where
  "create_attempt r rp account now db =
     (let a = \<lparr>a_id = next_id db, a_order = o_id r, a_razorpay_order = rp, a_payment = None,
               a_amount = decimal_to_paise (o_total r), a_currency = o_currency r,
               a_status = Initiated, a_failure_code = None, a_failure_reason = None,
               a_method = None, a_tenant = o_tenant r, a_account = Some account,
               a_created = now, a_captured_at = None\<rparr>
      in map_sum id (\<lambda>db'. (a, db'))
           (write_attempts (attempts db @ [a]) (db\<lparr>next_id := Suc (next_id db)\<rparr>)))"

definition initiate_bound_payment ::
  "payment_adapter \<Rightarrow> accounts_db \<Rightarrow> order_row \<Rightarrow> uuid \<Rightarrow> instant \<Rightarrow> shop
     \<Rightarrow> initiate_view result \<times> shop" where
  "initiate_bound_payment adapter acc r account now db =
     (case get_encrypted_credentials (o_tenant r) account acc of
        Inl e \<Rightarrow> (Inl e, db)
      | Inr None \<Rightarrow> (Inl MerchantPaymentUnavailable, db)
      | Inr (Some cred) \<Rightarrow>
          (case provider_order_for adapter cred r db of
             Inl e \<Rightarrow> (Inl e, db)
           | Inr (rp, db1) \<Rightarrow>
               (case create_attempt r rp account now db1 of
                  Inl e \<Rightarrow> (Inl e, db1)
                | Inr (a, db2) \<Rightarrow>
                    (Inr \<lparr>ip_attempt = a_id a, ip_razorpay_order = rp,
                          ip_key = public_key_id adapter cred,
                          ip_amount = int_text (a_amount a), ip_currency = o_currency r\<rparr>, db2))))"

definition initiate_payment ::
  "payment_adapter \<Rightarrow> accounts_db \<Rightarrow> uuid \<Rightarrow> uuid \<Rightarrow> instant \<Rightarrow> shop
     \<Rightarrow> initiate_view result \<times> shop" where
  "initiate_payment adapter acc user i now db =
     (case payable_order user i db of
        Inl e \<Rightarrow> (Inl e, db)
      | Inr r \<Rightarrow>
          (case retry_failed_order r user db of
             Inl e \<Rightarrow> (Inl e, db)
           | Inr (r1, db1) \<Rightarrow>
               if o_status r1 \<noteq> PendingPayment then
                 (Inl (Conflict (''Order is not payable in its current status ('' @
                        order_status_name (o_status r1) @ '')'')), db1)
               else
                 (case bind_payment_account acc r1 db1 of
                    Inl e \<Rightarrow> (Inl e, db1)
                  | Inr ((r2, account), db2) \<Rightarrow>
                      initiate_bound_payment adapter acc r2 account now db2)))"

section \<open>Verify\<close>

record verify_dto =
  v_order :: uuid
  v_payment :: uuid
  v_signature :: string

text \<open>What is checked before the capture: the order, its bound account, the signature. The
  attempt that already carries the payment id is read here, outside the transaction.\<close>

definition verify_checks ::
  "payment_adapter \<Rightarrow> accounts_db \<Rightarrow> uuid \<Rightarrow> verify_dto \<Rightarrow> shop
     \<Rightarrow> (order_row \<times> attempt_row option) result" where
  "verify_checks adapter acc user dto db =
     (case find_order_by_razorpay db (v_order dto) of
        None \<Rightarrow> Inl (NotFound ''Order not found for this payment'')
      | Some r \<Rightarrow>
          if o_user r \<noteq> user then Inl (NotFound ''Order not found for this payment'')
          else
            (case o_account r of
               None \<Rightarrow> Inl MerchantPaymentUnavailable
             | Some a \<Rightarrow>
                 (case resolve_bound_account_or_fail (o_tenant r) a acc of
                    Inl e \<Rightarrow> Inl e
                  | Inr account \<Rightarrow>
                      (case get_encrypted_credentials (o_tenant r) account acc of
                         Inl e \<Rightarrow> Inl e
                       | Inr None \<Rightarrow> Inl MerchantPaymentUnavailable
                       | Inr (Some cred) \<Rightarrow>
                           if \<not> verify_payment_signature adapter cred (v_order dto) (v_payment dto)
                                 (v_signature dto)
                           then Inl (BadRequest ''Invalid payment signature'')
                           else Inr (r, find_attempt_by_payment db (v_payment dto))))))"

definition not_captured :: "uuid \<Rightarrow> attempt_row \<Rightarrow> bool" where
  "not_captured i a \<longleftrightarrow> a_id a = i \<and> a_status a \<noteq> Captured"

definition open_attempt :: "uuid \<Rightarrow> uuid \<Rightarrow> attempt_row \<Rightarrow> bool" where
  "open_attempt order rp a \<longleftrightarrow> a_order a = order \<and> a_razorpay_order a = rp \<and> a_status a = Initiated"

definition verify_capture_tx ::
  "order_row \<Rightarrow> attempt_row option \<Rightarrow> uuid \<Rightarrow> verify_dto \<Rightarrow> instant
     \<Rightarrow> (shop, uuid \<times> order_status) tx" where
  "verify_capture_tx r existing user dto now db =
     (case (case existing of Some a \<Rightarrow> Some a
            | None \<Rightarrow> latest a_created (open_attempt (o_id r) (v_order dto)) (attempts db)) of
        None \<Rightarrow> Inl (Conflict ''No pending payment attempt found for this order'')
      | Some a \<Rightarrow>
          (case
             (if hits (not_captured (a_id a)) (attempts db) \<noteq> 1 then Inr db
              else
                (case write_attempts (update_rows (not_captured (a_id a))
                     (\<lambda>x. x\<lparr>a_status := Captured, a_payment := Some (v_payment dto),
                            a_captured_at := Some now\<rparr>) (attempts db)) db of
                   Inl e \<Rightarrow> Inl e
                 | Inr db1 \<Rightarrow>
                     (case transition_order r Paid (Some user) ''Payment verified (client callback)'' db1 of
                        Inl e \<Rightarrow> Inl e
                      | Inr (_, db2) \<Rightarrow> insert_outbox_event OrderPaid r None now db2))) of
             Inl e \<Rightarrow> Inl e
           | Inr db3 \<Rightarrow>
               map_sum id (\<lambda>f. ((o_id f, o_status f), db3)) (find_order_or_fail (o_id r) db3)))"

definition order_and_status :: "uuid \<Rightarrow> shop \<Rightarrow> (uuid \<times> order_status) result" where
  "order_and_status i db = map_sum id (\<lambda>f. (o_id f, o_status f)) (find_order_or_fail i db)"

definition verify_capture ::
  "order_row \<Rightarrow> attempt_row option \<Rightarrow> uuid \<Rightarrow> verify_dto \<Rightarrow> instant \<Rightarrow> shop
     \<Rightarrow> (uuid \<times> order_status) result \<times> shop" where
  "verify_capture r existing user dto now db =
     (if map_option a_status existing = Some Captured then (order_and_status (o_id r) db, db)
      else
        (case run_tx (verify_capture_tx r existing user dto now) db of
           (Inl UniqueViolation, db') \<Rightarrow> (order_and_status (o_id r) db', db')
         | (res, db') \<Rightarrow> (res, db')))"

definition verify_payment ::
  "payment_adapter \<Rightarrow> accounts_db \<Rightarrow> uuid \<Rightarrow> verify_dto \<Rightarrow> instant \<Rightarrow> shop
     \<Rightarrow> (uuid \<times> order_status) result \<times> shop" where
  "verify_payment adapter acc user dto now db =
     (case verify_checks adapter acc user dto db of
        Inl e \<Rightarrow> (Inl e, db)
      | Inr (r, existing) \<Rightarrow> verify_capture r existing user dto now db)"

section \<open>Receiving a webhook\<close>

text \<open>
  \<open>extractWebhookEventId\<close>: the header, or an id made of the payload. Inserting is idempotent
  on that id (\<open>ON CONFLICT DO NOTHING\<close>). The signature check and the JSON parser
  are parameters.
\<close>

definition fallback_event_id :: "webhook_payload \<Rightarrow> uuid option \<Rightarrow> string" where
  "fallback_event_id payload scope =
     (case scope of None \<Rightarrow> '''' | Some a \<Rightarrow> nat_text a @ '':'') @ wp_event payload @ '':'' @
     (case wp_payment payload of None \<Rightarrow> ''unknown'' | Some p \<Rightarrow> nat_text (pe_id p)) @ '':'' @
     (case wp_created_at payload of None \<Rightarrow> '''' | Some t \<Rightarrow> nat_text t)"

definition extract_webhook_event_id ::
  "string option \<Rightarrow> webhook_payload \<Rightarrow> uuid option \<Rightarrow> string" where
  "extract_webhook_event_id header payload scope =
     (case header of
        Some h \<Rightarrow> if js_trim h \<noteq> [] then js_trim h else fallback_event_id payload scope
      | None \<Rightarrow> fallback_event_id payload scope)"

definition receive_event ::
  "string \<Rightarrow> uuid option \<Rightarrow> webhook_payload \<Rightarrow> instant \<Rightarrow> shop \<Rightarrow> shop" where
  "receive_event event_id account payload now db =
     (if event_id \<in> set (map w_event_id (webhooks db)) then db
      else db\<lparr>
        webhooks := webhooks db @
          [\<lparr>w_id = next_id db, w_event_id = event_id, w_account = account, w_payload = payload,
            w_status = Received, w_attempts = 0, w_available = now, w_error = None,
            w_processed = None\<rparr>],
        next_id := Suc (next_id db)\<rparr>)"

definition receive_webhook ::
  "(string \<Rightarrow> string \<Rightarrow> bool) \<Rightarrow> (string \<Rightarrow> webhook_payload option) \<Rightarrow> string \<Rightarrow> string
     \<Rightarrow> string option \<Rightarrow> instant \<Rightarrow> (shop, unit) tx" where
  "receive_webhook signature_ok parse_json raw signature header now db =
     (if \<not> signature_ok raw signature then Inl (BadRequest ''Invalid webhook signature'')
      else (case parse_json raw of
              None \<Rightarrow> Inl (BadRequest ''Malformed webhook payload'')
            | Some payload \<Rightarrow>
                Inr ((), receive_event (extract_webhook_event_id header payload None) None payload
                       now db)))"

definition receive_merchant_webhook ::
  "payment_adapter \<Rightarrow> accounts_db \<Rightarrow> (string \<Rightarrow> webhook_payload option) \<Rightarrow> uuid \<Rightarrow> string
     \<Rightarrow> string \<Rightarrow> string option \<Rightarrow> instant \<Rightarrow> (shop, unit) tx" where
  "receive_merchant_webhook adapter acc parse_json path_account raw signature header now db =
     (case resolve_for_webhook path_account acc of
        Inl _ \<Rightarrow> Inl (BadRequest ''Invalid webhook signature'')
      | Inr (account, tenant) \<Rightarrow>
          (case get_encrypted_credentials tenant account acc of
             Inl e \<Rightarrow> Inl e
           | Inr cred \<Rightarrow>
               if (case cred of None \<Rightarrow> True
                   | Some c \<Rightarrow> verify_webhook_signature adapter c raw signature \<noteq> Some True)
               then Inl (BadRequest ''Invalid webhook signature'')
               else (case parse_json raw of
                       None \<Rightarrow> Inl (BadRequest ''Malformed webhook payload'')
                     | Some payload \<Rightarrow>
                         Inr ((), receive_event
                           (extract_webhook_event_id header payload (Some account))
                           (Some account) payload now db))))"

end
