(* ===== verification/PaymentEvents.thy ===== *)
theory PaymentEvents
  imports Payments
begin

text \<open>
  The second phase of webhooks and the reconciliation operations of
  \<open>payments/payments.service.ts\<close>: applying a stored event inside the processor's
  transaction, and applying what reconciliation learned from Razorpay.
\<close>

datatype event_outcome = OutcomeProcessed | OutcomeIgnored

definition captured_event :: string where "captured_event = ''payment.captured''"
definition failed_event :: string where "failed_event = ''payment.failed''"
definition refund_processed_event :: string where "refund_processed_event = ''refund.processed''"
definition refund_failed_event :: string where "refund_failed_event = ''refund.failed''"

text \<open>\<open>BigInt(amount)\<close>.\<close>

definition big_int :: "int option \<Rightarrow> int result" where
  "big_int a = (case a of None \<Rightarrow> Inl (Thrown ''Cannot convert to a BigInt'') | Some n \<Rightarrow> Inr n)"

section \<open>Finding the attempt\<close>

text \<open>
  \<open>findOrCreateAttempt\<close> and \<open>findOrCreateMerchantAttempt\<close>: by payment id, else the latest
  open attempt of the order, which then carries the payment id, else a new row. They differ
  in the account of the new row.
\<close>

definition find_or_create_with ::
  "uuid option \<Rightarrow> order_row \<Rightarrow> payment_entity \<Rightarrow> instant \<Rightarrow> (shop, attempt_row) tx" where
  "find_or_create_with account r pe now db =
     (case find_attempt_by_payment db (pe_id pe) of
        Some a \<Rightarrow> Inr (a, db)
      | None \<Rightarrow>
          (case latest a_created (open_attempt (o_id r) (pe_order pe)) (attempts db) of
             Some a \<Rightarrow>
               map_sum id (\<lambda>db'. (a\<lparr>a_payment := Some (pe_id pe)\<rparr>, db'))
                 (write_attempts (update_rows (\<lambda>x. a_id x = a_id a)
                    (\<lambda>x. x\<lparr>a_payment := Some (pe_id pe)\<rparr>) (attempts db)) db)
           | None \<Rightarrow>
               (case big_int (pe_amount pe) of
                  Inl e \<Rightarrow> Inl e
                | Inr amount \<Rightarrow>
                    let a = \<lparr>a_id = next_id db, a_order = o_id r, a_razorpay_order = pe_order pe,
                             a_payment = Some (pe_id pe), a_amount = amount,
                             a_currency = default_currency, a_status = Initiated,
                             a_failure_code = None, a_failure_reason = None, a_method = None,
                             a_tenant = o_tenant r, a_account = account, a_created = now,
                             a_captured_at = None\<rparr>
                    in map_sum id (\<lambda>db'. (a, db'))
                         (write_attempts (attempts db @ [a]) (db\<lparr>next_id := Suc (next_id db)\<rparr>)))))"

definition find_or_create_attempt ::
  "order_row \<Rightarrow> payment_entity \<Rightarrow> instant \<Rightarrow> (shop, attempt_row) tx" where
  "find_or_create_attempt = find_or_create_with None"

definition find_or_create_merchant_attempt ::
  "uuid \<Rightarrow> order_row \<Rightarrow> payment_entity \<Rightarrow> instant \<Rightarrow> (shop, attempt_row) tx" where
  "find_or_create_merchant_attempt account = find_or_create_with (Some account)"

section \<open>Captured and failed\<close>

record captured_payment =
  cp_id :: uuid
  cp_order :: uuid
  cp_amount :: paise
  cp_currency :: string
  cp_method :: "string option"

definition assert_captured_payment_matches_order ::
  "order_row \<Rightarrow> uuid \<Rightarrow> paise \<Rightarrow> string \<Rightarrow> unit result" where
  "assert_captured_payment_matches_order r rp amount currency =
     (if o_razorpay r \<noteq> None \<and> o_razorpay r \<noteq> Some rp
      then Inl (PaymentMismatch RazorpayOrderIdMismatch)
      else if currency \<noteq> (if o_currency r = '''' then default_currency else o_currency r)
      then Inl (PaymentMismatch CurrencyMismatch)
      else if amount \<noteq> decimal_to_paise (o_total r)
      then Inl (PaymentMismatch AmountMismatch)
      else Inr ())"

definition set_captured ::
  "uuid \<Rightarrow> (string option \<Rightarrow> string option) \<Rightarrow> instant \<Rightarrow> attempt_row \<Rightarrow> attempt_row" where
  "set_captured payment method now a =
     a\<lparr>a_status := Captured, a_payment := Some payment, a_method := method (a_method a),
       a_captured_at := Some now\<rparr>"

text \<open>An absent method (\<open>undefined\<close>) leaves the column.\<close>

definition keep_if_absent :: "string option \<Rightarrow> string option \<Rightarrow> string option" where
  "keep_if_absent new old = (case new of None \<Rightarrow> old | Some m \<Rightarrow> Some m)"

definition apply_captured ::
  "order_row \<Rightarrow> attempt_row \<Rightarrow> payment_entity \<Rightarrow> instant \<Rightarrow> (shop, unit) tx" where
  "apply_captured r a pe now db =
     (case big_int (pe_amount pe) of
        Inl e \<Rightarrow> Inl e
      | Inr amount \<Rightarrow>
          (case assert_captured_payment_matches_order r (pe_order pe) amount
                  (case pe_currency pe of None \<Rightarrow> default_currency | Some c \<Rightarrow> c) of
             Inl e \<Rightarrow> Inl e
           | Inr _ \<Rightarrow>
               if hits (not_captured (a_id a)) (attempts db) \<noteq> 1 then Inr ((), db)
               else
                 (case write_attempts (update_rows (not_captured (a_id a))
                         (set_captured (pe_id pe) (keep_if_absent (pe_method pe)) now)
                         (attempts db)) db of
                    Inl e \<Rightarrow> Inl e
                  | Inr db1 \<Rightarrow>
                      if \<not> is_transition_allowed (o_status r) Paid then Inr ((), db1)
                      else
                        (case transition_order r Paid None ''Payment captured (webhook)'' db1 of
                           Inl e \<Rightarrow> Inl e
                         | Inr (None, db2) \<Rightarrow> Inr ((), db2)
                         | Inr (Some _, db2) \<Rightarrow>
                             map_sum id (\<lambda>db3. ((), db3))
                               (insert_outbox_event OrderPaid r None now db2)))))"

definition not_final :: "uuid \<Rightarrow> attempt_row \<Rightarrow> bool" where
  "not_final i a \<longleftrightarrow> a_id a = i \<and> a_status a \<noteq> Captured \<and> a_status a \<noteq> AttemptFailed"

definition fail_order_tx ::
  "order_row \<Rightarrow> string \<Rightarrow> instant \<Rightarrow> (shop, bool) tx" where
  "fail_order_tx r note now db =
     (case transition_order r PaymentFailed None note db of
        Inl e \<Rightarrow> Inl e
      | Inr (None, db1) \<Rightarrow> Inr (False, db1)
      | Inr (Some _, db1) \<Rightarrow>
          map_sum id (\<lambda>db2. (True, db2))
            (insert_outbox_event OrderStatusChanged r (Some PaymentFailed) now db1))"

definition apply_failed ::
  "order_row \<Rightarrow> attempt_row \<Rightarrow> payment_entity \<Rightarrow> instant \<Rightarrow> (shop, unit) tx" where
  "apply_failed r a pe now db =
     (if hits (not_final (a_id a)) (attempts db) \<noteq> 1 then Inr ((), db)
      else
        (case write_attempts (update_rows (not_final (a_id a))
                (\<lambda>x. x\<lparr>a_status := AttemptFailed, a_payment := Some (pe_id pe),
                       a_failure_code := pe_error_code pe,
                       a_failure_reason := pe_error_description pe,
                       a_method := keep_if_absent (pe_method pe) (a_method x)\<rparr>) (attempts db)) db of
           Inl e \<Rightarrow> Inl e
         | Inr db1 \<Rightarrow>
             map_sum id (\<lambda>x. ((), snd x)) (fail_order_tx r ''Payment failed (webhook)'' now db1)))"

section \<open>Applying an event\<close>

definition apply_payment_entity ::
  "uuid option \<Rightarrow> bool \<Rightarrow> order_row \<Rightarrow> payment_entity \<Rightarrow> instant \<Rightarrow> (shop, event_outcome) tx" where
  "apply_payment_entity account is_capture r pe now db =
     (case find_or_create_with account r pe now db of
        Inl e \<Rightarrow> Inl e
      | Inr (a, db1) \<Rightarrow>
          map_sum id (\<lambda>x. (OutcomeProcessed, snd x))
            (if is_capture then apply_captured r a pe now db1 else apply_failed r a pe now db1))"

definition apply_webhook_event :: "webhook_payload \<Rightarrow> instant \<Rightarrow> (shop, event_outcome) tx" where
  "apply_webhook_event payload now db =
     (case wp_payment payload of
        None \<Rightarrow> Inr (OutcomeIgnored, db)
      | Some pe \<Rightarrow>
          if wp_event payload \<noteq> captured_event \<and> wp_event payload \<noteq> failed_event
          then Inr (OutcomeIgnored, db)
          else
            (case find_order_by_razorpay db (pe_order pe) of
               None \<Rightarrow> Inr (OutcomeIgnored, db)
             | Some r \<Rightarrow> apply_payment_entity None (wp_event payload = captured_event) r pe now db))"

definition apply_refund_webhook_event ::
  "uuid \<Rightarrow> webhook_payload \<Rightarrow> (shop, event_outcome) tx" where
  "apply_refund_webhook_event account payload db =
     (case wp_refund payload of
        None \<Rightarrow> Inr (OutcomeIgnored, db)
      | Some re \<Rightarrow>
          (case List.find (\<lambda>r. r_razorpay r = Some (re_id re)) (refunds db) of
             None \<Rightarrow> Inl (UnresolvedRefundWebhook (re_id re))
           | Some rf \<Rightarrow>
               if r_account rf \<noteq> Some account then Inr (OutcomeIgnored, db)
               else if wp_event payload = refund_failed_event then
                 Inr (OutcomeProcessed, db\<lparr>refunds :=
                   update_rows (\<lambda>x. r_id x = r_id rf \<and> r_status x = RefundPending)
                     (\<lambda>x. x\<lparr>r_status := RefundFailed,
                            r_failure := Some (case re_error_description re of
                              None \<Rightarrow> ''Refund failed'' | Some d \<Rightarrow> d)\<rparr>) (refunds db)\<rparr>)
               else
                 (case big_int (re_amount re) of
                    Inl e \<Rightarrow> Inl e
                  | Inr amount \<Rightarrow>
                      if amount \<noteq> r_amount rf then Inl (PaymentMismatch AmountMismatch)
                      else Inr (OutcomeProcessed, db\<lparr>refunds :=
                        update_rows (\<lambda>x. r_id x = r_id rf \<and> r_status x = RefundPending)
                          (\<lambda>x. x\<lparr>r_status := RefundProcessed\<rparr>) (refunds db)\<rparr>))))"

definition apply_merchant_webhook_event ::
  "accounts_db \<Rightarrow> uuid \<Rightarrow> webhook_payload \<Rightarrow> instant \<Rightarrow> (shop, event_outcome) tx" where
  "apply_merchant_webhook_event acc account payload now db =
     (if wp_event payload = refund_processed_event \<or> wp_event payload = refund_failed_event
      then apply_refund_webhook_event account payload db
      else
        (case wp_payment payload of
           None \<Rightarrow> Inr (OutcomeIgnored, db)
         | Some pe \<Rightarrow>
             if wp_event payload \<noteq> captured_event \<and> wp_event payload \<noteq> failed_event
             then Inr (OutcomeIgnored, db)
             else
               (case find_order_by_razorpay db (pe_order pe) of
                  None \<Rightarrow> Inr (OutcomeIgnored, db)
                | Some r \<Rightarrow>
                    if o_account r \<noteq> Some account then Inr (OutcomeIgnored, db)
                    else
                      (case resolve_for_bound_account (o_tenant r) account acc of
                         Inl _ \<Rightarrow> Inr (OutcomeIgnored, db)
                       | Inr _ \<Rightarrow>
                           apply_payment_entity (Some account) (wp_event payload = captured_event)
                             r pe now db))))"

section \<open>Reconciliation\<close>

datatype reconcile_result = ReconcilePaid | AlreadyTerminal | ReconcileMismatch

definition order_pending :: "uuid \<Rightarrow> shop \<Rightarrow> bool" where
  "order_pending i db \<longleftrightarrow> map_option o_status (find_order db i) = Some PendingPayment"

text \<open>
  The attempt reconciliation uses. An order without Razorpay id passes \<open>undefined\<close> as the
  filter's value, which Prisma drops.
\<close>

definition reconcilable_attempt :: "order_row \<Rightarrow> uuid \<Rightarrow> attempt_row \<Rightarrow> bool" where
  "reconcilable_attempt r payment a \<longleftrightarrow>
     a_order a = o_id r \<and>
     (a_payment a = Some payment \<or>
      (case o_razorpay r of None \<Rightarrow> True | Some rp \<Rightarrow> a_razorpay_order a = rp) \<and>
      a_status a = Initiated)"

definition reconcile_attempt ::
  "order_row \<Rightarrow> captured_payment \<Rightarrow> instant \<Rightarrow> (shop, uuid) tx" where
  "reconcile_attempt r cp now db =
     (case latest a_created (reconcilable_attempt r (cp_id cp)) (attempts db) of
        Some a \<Rightarrow> Inr (a_id a, db)
      | None \<Rightarrow>
          let a = \<lparr>a_id = next_id db, a_order = o_id r,
                   a_razorpay_order = (case o_razorpay r of None \<Rightarrow> cp_order cp | Some rp \<Rightarrow> rp),
                   a_payment = None, a_amount = cp_amount cp, a_currency = cp_currency cp,
                   a_status = Initiated, a_failure_code = None, a_failure_reason = None,
                   a_method = None, a_tenant = o_tenant r, a_account = None, a_created = now,
                   a_captured_at = None\<rparr>
          in map_sum id (\<lambda>db'. (a_id a, db'))
               (write_attempts (attempts db @ [a]) (db\<lparr>next_id := Suc (next_id db)\<rparr>)))"

definition reconcile_tx ::
  "order_row \<Rightarrow> captured_payment \<Rightarrow> instant \<Rightarrow> (shop, reconcile_result) tx" where
  "reconcile_tx r cp now db =
     (if \<not> order_pending (o_id r) db then Inr (AlreadyTerminal, db)
      else if captured_attempt db (o_id r) \<noteq> None then Inr (AlreadyTerminal, db)
      else
        (case reconcile_attempt r cp now db of
           Inl e \<Rightarrow> Inl e
         | Inr (i, db1) \<Rightarrow>
             if hits (not_captured i) (attempts db1) \<noteq> 1 then Inr (AlreadyTerminal, db1)
             else
               (case write_attempts (update_rows (not_captured i)
                       (set_captured (cp_id cp) (\<lambda>_. cp_method cp) now) (attempts db1)) db1 of
                  Inl e \<Rightarrow> Inl e
                | Inr db2 \<Rightarrow>
                    (case transition_order (r\<lparr>o_status := PendingPayment\<rparr>) Paid None
                            ''Payment captured (reconciliation)'' db2 of
                       Inl e \<Rightarrow> Inl e
                     | Inr (None, db3) \<Rightarrow> Inr (ReconcilePaid, db3)
                     | Inr (Some _, db3) \<Rightarrow>
                         map_sum id (\<lambda>db4. (ReconcilePaid, db4))
                           (insert_outbox_event OrderPaid r None now db3)))))"

definition reconcile_captured_payment ::
  "order_row \<Rightarrow> captured_payment \<Rightarrow> instant \<Rightarrow> shop \<Rightarrow> reconcile_result result \<times> shop" where
  "reconcile_captured_payment r cp now db =
     (case assert_captured_payment_matches_order r (cp_order cp) (cp_amount cp) (cp_currency cp) of
        Inl (PaymentMismatch _) \<Rightarrow> (Inr ReconcileMismatch, db)
      | Inl e \<Rightarrow> (Inl e, db)
      | Inr _ \<Rightarrow>
          (case run_tx (reconcile_tx r cp now) db of
             (Inl UniqueViolation, db') \<Rightarrow> (Inr AlreadyTerminal, db')
           | (res, db') \<Rightarrow> (res, db')))"

definition fail_stale_tx :: "order_row \<Rightarrow> instant \<Rightarrow> (shop, bool) tx" where
  "fail_stale_tx r now db =
     (if \<not> order_pending (o_id r) db then Inr (False, db)
      else if captured_attempt db (o_id r) \<noteq> None then Inr (False, db)
      else
        (case write_attempts (update_rows (\<lambda>a. a_order a = o_id r \<and> a_status a = Initiated)
                (\<lambda>a. a\<lparr>a_status := Abandoned\<rparr>) (attempts db)) db of
           Inl e \<Rightarrow> Inl e
         | Inr db1 \<Rightarrow>
             fail_order_tx (r\<lparr>o_status := PendingPayment\<rparr>)
               ''Payment not completed - order expired by reconciliation (no captured Razorpay payment)''
               now db1))"

definition fail_stale_pending_order :: "order_row \<Rightarrow> instant \<Rightarrow> shop \<Rightarrow> bool result \<times> shop" where
  "fail_stale_pending_order r now db =
     (case run_tx (fail_stale_tx r now) db of
        (Inl UniqueViolation, db') \<Rightarrow> (Inr False, db')
      | (res, db') \<Rightarrow> (res, db'))"

end
