(* ===== verification/Refunds.thy ===== *)
theory Refunds
  imports PaymentEvents
begin

text \<open>
  \<open>payments/refunds/refunds.service.ts\<close>: reserving a refund under the lock of its payment
  attempt, the provider call outside the transaction, and the settlement of the row.
\<close>

section \<open>Reserving\<close>

text \<open>
  The requested amount is the text the DTO lets through (an optional sign, digits, possibly
  a fraction); \<open>BigInt\<close> accepts it when it has no fraction. Absent means the captured amount.
\<close>

definition read_integer :: "string \<Rightarrow> int option" where
  "read_integer s =
     (let negative = (s \<noteq> [] \<and> hd s = CHR ''-'');
          body = (if s \<noteq> [] \<and> (hd s = CHR ''-'' \<or> hd s = CHR ''+'') then tl s else s);
          n = int (text_value body)
      in if body = [] \<or> list_ex (\<lambda>c. \<not> is_digit c) body then None
         else Some (if negative then - n else n))"

definition resolve_requested_amount :: "string option \<Rightarrow> paise \<Rightarrow> paise result" where
  "resolve_requested_amount input captured =
     (case input of
        None \<Rightarrow> Inr captured
      | Some s \<Rightarrow> (case read_integer s of
            None \<Rightarrow> Inl (BadRequest ''amountPaise must be a valid integer'')
          | Some n \<Rightarrow> Inr n))"

definition reserving :: "refund_status \<Rightarrow> bool" where
  "reserving s \<longleftrightarrow> s = RefundPending \<or> s = RefundProcessed"

definition reserved_amount :: "uuid \<Rightarrow> refund_row list \<Rightarrow> paise" where
  "reserved_amount attempt rs =
     sum_list (map r_amount (filter (\<lambda>r. r_attempt r = attempt \<and> reserving (r_status r)) rs))"

definition attempt_status_name :: "attempt_status \<Rightarrow> string" where
  "attempt_status_name s = (case s of Initiated \<Rightarrow> ''INITIATED'' | Captured \<Rightarrow> ''CAPTURED''
     | AttemptFailed \<Rightarrow> ''FAILED'' | Abandoned \<Rightarrow> ''ABANDONED'')"

text \<open>Phase 1, one transaction that locks the attempt.\<close>

definition reserve_refund_tx ::
  "tenant_context \<Rightarrow> uuid \<Rightarrow> uuid \<Rightarrow> string option \<Rightarrow> string option
     \<Rightarrow> (shop, refund_row \<times> uuid \<times> uuid) tx" where
  "reserve_refund_tx ctx actor attempt_id amount_input reason db =
     (case find_attempt db attempt_id of
        None \<Rightarrow> Inl (NotFound ''Not Found'')
      | Some a \<Rightarrow>
         (case assert_object_in_tenant (Some (a_tenant a)) (tc_tenant ctx) of
            Inl e \<Rightarrow> Inl e
          | Inr _ \<Rightarrow>
             if a_status a \<noteq> Captured then
               Inl (Conflict (''Payment attempt is not in a refundable state ('' @
                      attempt_status_name (a_status a) @ '')''))
             else
               (case a_payment a of
                  None \<Rightarrow> Inl (Conflict ''Payment attempt has no provider payment id to refund'')
                | Some payment \<Rightarrow>
                   (case a_account a of
                      None \<Rightarrow> Inl MerchantPaymentUnavailable
                    | Some account \<Rightarrow>
                       (case resolve_requested_amount amount_input (a_amount a) of
                          Inl e \<Rightarrow> Inl e
                        | Inr amount \<Rightarrow>
                           if amount \<le> 0 then Inl (BadRequest ''Refund amount must be positive'')
                           else
                             let remaining = a_amount a - reserved_amount attempt_id (refunds db)
                             in if amount > remaining then
                                  Inl (Conflict (''Refund amount exceeds refundable balance ('' @
                                    int_text remaining @ '' paise remaining)''))
                                else
                                  let rf = \<lparr>r_id = next_id db, r_attempt = attempt_id,
                                        r_razorpay = None, r_amount = amount,
                                        r_status = RefundPending, r_reason = reason,
                                        r_failure = None, r_tenant = a_tenant a,
                                        r_account = Some account\<rparr>
                                  in map_sum id
                                       (\<lambda>db1. ((rf, payment, account),
                                          log_tenant_action ctx actor ''refund.requested'' (r_id rf) db1))
                                       (write_refunds (refunds db @ [rf])
                                          (db\<lparr>next_id := Suc (next_id db)\<rparr>)))))))"

section \<open>Settling\<close>

datatype provider_refund_status = ProviderProcessed | ProviderPending | ProviderFailed

text \<open>\<open>createRefund\<close> of the adapter: nothing (a provider error), or the refund's id and
  status.\<close>

type_synonym refund_call = "blob \<Rightarrow> uuid \<Rightarrow> paise \<Rightarrow> string option
  \<Rightarrow> (uuid \<times> provider_refund_status) option"

definition pending_refund :: "uuid \<Rightarrow> refund_row \<Rightarrow> bool" where
  "pending_refund i r \<longleftrightarrow> r_id r = i \<and> r_status r = RefundPending"

definition mark_failed :: "uuid \<Rightarrow> string \<Rightarrow> uuid option \<Rightarrow> (shop, refund_row) tx" where
  "mark_failed i why rp db =
     (case write_refunds (update_rows (pending_refund i)
             (\<lambda>r. r\<lparr>r_status := RefundFailed, r_failure := Some why,
                    r_razorpay := (case rp of None \<Rightarrow> r_razorpay r | Some x \<Rightarrow> Some x)\<rparr>)
             (refunds db)) db of
        Inl e \<Rightarrow> Inl e
      | Inr db1 \<Rightarrow>
          (case List.find (\<lambda>r. r_id r = i) (refunds db1) of
             None \<Rightarrow> Inl (Thrown ''No Refund found'')
           | Some r \<Rightarrow> Inr (r, db1)))"

definition settle_refund ::
  "uuid \<Rightarrow> uuid \<Rightarrow> provider_refund_status \<Rightarrow> (shop, refund_row) tx" where
  "settle_refund i rp status db =
     (if status = ProviderFailed
      then mark_failed i ''Provider reported the refund as failed'' (Some rp) db
      else
        (case write_refunds (update_rows (pending_refund i)
                (\<lambda>r. if status = ProviderProcessed
                     then r\<lparr>r_status := RefundProcessed, r_razorpay := Some rp\<rparr>
                     else r\<lparr>r_razorpay := Some rp\<rparr>) (refunds db)) db of
           Inl e \<Rightarrow> Inl e
         | Inr db1 \<Rightarrow>
             (case List.find (\<lambda>r. r_id r = i) (refunds db1) of
                None \<Rightarrow> Inl (Thrown ''No Refund found'')
              | Some r \<Rightarrow> Inr (r, db1))))"

text \<open>A failed branch marks the row and then throws: the mark stays.\<close>

definition fail_and_throw :: "uuid \<Rightarrow> string \<Rightarrow> err \<Rightarrow> shop \<Rightarrow> refund_view result \<times> shop" where
  "fail_and_throw i why e db =
     (case mark_failed i why None db of Inl e' \<Rightarrow> (Inl e', db) | Inr (_, db1) \<Rightarrow> (Inl e, db1))"

definition call_provider_and_settle ::
  "refund_call \<Rightarrow> accounts_db \<Rightarrow> uuid \<Rightarrow> refund_row \<Rightarrow> uuid \<Rightarrow> uuid \<Rightarrow> shop
     \<Rightarrow> refund_view result \<times> shop" where
  "call_provider_and_settle call acc tenant rf payment account db =
     (case resolve_for_bound_account tenant account acc of
        Inl _ \<Rightarrow> fail_and_throw (r_id rf) ''Merchant payment account unavailable''
                   MerchantPaymentUnavailable db
      | Inr acct \<Rightarrow>
         (case get_encrypted_credentials tenant acct acc of
            Inl e \<Rightarrow> (Inl e, db)
          | Inr None \<Rightarrow> fail_and_throw (r_id rf)
                ''Merchant payment account has no credentials configured''
                MerchantPaymentUnavailable db
          | Inr (Some cred) \<Rightarrow>
             (case call cred payment (r_amount rf) (r_reason rf) of
                None \<Rightarrow> fail_and_throw (r_id rf) ''Provider refund call failed''
                    PaymentProviderUnavailable db
              | Some (rp, status) \<Rightarrow>
                  (case settle_refund (r_id rf) rp status db of
                     Inl e \<Rightarrow> (Inl e, db)
                   | Inr (r, db1) \<Rightarrow> (Inr (to_refund_view r), db1)))))"

definition create_refund ::
  "refund_call \<Rightarrow> accounts_db \<Rightarrow> tenant_context \<Rightarrow> uuid \<Rightarrow> uuid \<Rightarrow> string option
     \<Rightarrow> string option \<Rightarrow> shop \<Rightarrow> refund_view result \<times> shop" where
  "create_refund call acc ctx actor attempt_id amount_input reason db =
     (case reserve_refund_tx ctx actor attempt_id amount_input reason db of
        Inl e \<Rightarrow> (Inl e, db)
      | Inr ((rf, payment, account), db1) \<Rightarrow>
          call_provider_and_settle call acc (tc_tenant ctx) rf payment account db1)"

end
