(* ===== verification/Pollers.thy ===== *)
theory Pollers
  imports Refunds
begin

text \<open>
  The three scheduled jobs of the commerce side: \<open>payments/webhooks/webhook-processor.service.ts\<close>,
  \<open>notifications/outbox/outbox.poller.ts\<close> and \<open>payments/payment-reconciliation.service.ts\<close>.
\<close>

section \<open>The webhook processor\<close>

definition webhook_max_attempts :: nat where "webhook_max_attempts = 6"

definition webhook_backoff :: "instant list" where
  "webhook_backoff = [30000, 120000, 600000, 1800000, 3600000, 7200000]"

definition webhook_batch :: nat where "webhook_batch = 20"

definition webhook_open :: "webhook_row \<Rightarrow> bool" where
  "webhook_open w \<longleftrightarrow> w_status w = Received \<or> w_status w = ProcessingFailed"

text \<open>The row after a failed attempt, for an error that is neither a unique violation nor a
  mismatch, and the row after a mismatch.\<close>

definition webhook_failure :: "err \<times> instant \<Rightarrow> webhook_row \<Rightarrow> webhook_row" where
  "webhook_failure x w =
     (let n = Suc (w_attempts w)
      in if \<not> webhook_open w then w
         else if n \<ge> webhook_max_attempts
         then w\<lparr>w_status := WebhookFailed, w_attempts := n, w_error := Some (fst x),
                w_processed := Some (snd x)\<rparr>
         else w\<lparr>w_status := ProcessingFailed, w_attempts := n, w_error := Some (fst x),
                w_available := snd x + backoff webhook_backoff n\<rparr>)"

definition webhook_mismatch :: "err \<times> instant \<Rightarrow> webhook_row \<Rightarrow> webhook_row" where
  "webhook_mismatch x w =
     w\<lparr>w_status := WebhookFailed, w_attempts := Suc (w_attempts w), w_error := Some (fst x),
       w_processed := Some (snd x)\<rparr>"

definition outcome_status :: "event_outcome \<Rightarrow> webhook_status" where
  "outcome_status out = (case out of OutcomeProcessed \<Rightarrow> Processed | OutcomeIgnored \<Rightarrow> Ignored)"

definition update_webhook :: "uuid \<Rightarrow> (webhook_row \<Rightarrow> webhook_row) \<Rightarrow> shop \<Rightarrow> shop" where
  "update_webhook i f db = db\<lparr>webhooks := update_rows (\<lambda>w. w_id w = i) f (webhooks db)\<rparr>"

definition apply_stored_event ::
  "accounts_db \<Rightarrow> webhook_row \<Rightarrow> instant \<Rightarrow> (shop, event_outcome) tx" where
  "apply_stored_event acc w now =
     (case w_account w of
        Some account \<Rightarrow> apply_merchant_webhook_event acc account (w_payload w) now
      | None \<Rightarrow> apply_webhook_event (w_payload w) now)"

definition process_webhook :: "accounts_db \<Rightarrow> instant \<Rightarrow> uuid \<Rightarrow> shop \<Rightarrow> shop" where
  "process_webhook acc now i db =
     (case List.find (\<lambda>w. w_id w = i \<and> webhook_open w) (webhooks db) of
        None \<Rightarrow> db
      | Some w \<Rightarrow>
          (case apply_stored_event acc w now db of
             Inr (out, db') \<Rightarrow>
               update_webhook i
                 (\<lambda>x. x\<lparr>w_status := outcome_status out, w_processed := Some now\<rparr>) db'
           | Inl UniqueViolation \<Rightarrow>
               update_webhook i (\<lambda>x. x\<lparr>w_status := Processed, w_processed := Some now\<rparr>) db
           | Inl (PaymentMismatch m) \<Rightarrow>
               update_webhook i (webhook_mismatch (PaymentMismatch m, now)) db
           | Inl e \<Rightarrow> update_webhook i (webhook_failure (e, now)) db))"

definition due_webhooks :: "instant \<Rightarrow> shop \<Rightarrow> uuid list" where
  "due_webhooks now db =
     map w_id (take webhook_batch (sort_key w_available
       (filter (\<lambda>w. webhook_open w \<and> w_available w \<le> now) (webhooks db))))"

definition process_received_webhooks :: "accounts_db \<Rightarrow> instant \<Rightarrow> shop \<Rightarrow> shop" where
  "process_received_webhooks acc now db =
     foldl (\<lambda>d i. process_webhook acc now i d) db (due_webhooks now db)"

text \<open>The failure branch is a bounded retry.\<close>

interpretation webhook_retry: bounded_retry webhook_failure w_attempts
  "\<lambda>w. \<not> webhook_open w" webhook_max_attempts
  by unfold_locales
    (auto simp: webhook_failure_def webhook_open_def webhook_max_attempts_def Let_def)

section \<open>The outbox poller\<close>

definition outbox_max_attempts :: nat where "outbox_max_attempts = 5"

definition outbox_backoff :: "instant list" where
  "outbox_backoff = [60000, 300000, 1800000, 7200000]"

definition outbox_batch :: nat where "outbox_batch = 20"

text \<open>\<open>templates/outbox-email.templates.ts\<close>: the subject; the body is static text around the
  same values. Every event type of the schema has a template.\<close>

fun split_on :: "char \<Rightarrow> string \<Rightarrow> string list" where
  "split_on c [] = [[]]"
| "split_on c (x # xs) =
     (if x = c then [] # split_on c xs
      else (case split_on c xs of [] \<Rightarrow> [[x]] | w # ws \<Rightarrow> (x # w) # ws))"

fun join_with :: "string \<Rightarrow> string list \<Rightarrow> string" where
  "join_with sep [] = []"
| "join_with sep [w] = w"
| "join_with sep (w # ws) = w @ sep @ join_with sep ws"

definition capitalise :: "string \<Rightarrow> string" where
  "capitalise w = (case w of [] \<Rightarrow> [] | c # cs \<Rightarrow> upper_char c # cs)"

definition format_status :: "string \<Rightarrow> string" where
  "format_status s = join_with '' '' (map capitalise (split_on (CHR ''_'') (to_lower s)))"

definition email_subject :: "event_type \<Rightarrow> outbox_payload \<Rightarrow> string" where
  "email_subject type p =
     (case type of
        PasswordResetRequested \<Rightarrow> ''Reset your PrintForge password''
      | OrderPaid \<Rightarrow> ''Order '' @ x_order_number p @ '' confirmed''
      | OrderStatusChanged \<Rightarrow>
          ''Order '' @ x_order_number p @ '' update: '' @
          format_status (case x_to p of None \<Rightarrow> '''' | Some s \<Rightarrow> order_status_name s))"

definition resolve_recipient_email :: "shop \<Rightarrow> outbox_payload \<Rightarrow> string option" where
  "resolve_recipient_email db p =
     (case x_email p of
        Some (c # cs) \<Rightarrow> Some (c # cs)
      | _ \<Rightarrow> (case x_user p of None \<Rightarrow> None | Some u \<Rightarrow> user_email db u))"

definition claim_event :: "uuid \<Rightarrow> shop \<Rightarrow> (outbox_row \<times> shop) option" where
  "claim_event i db =
     (case List.find (\<lambda>x. x_id x = i \<and> x_status x = OutPending) (outbox db) of
        None \<Rightarrow> None
      | Some x \<Rightarrow> Some (x, db\<lparr>outbox :=
          update_rows (\<lambda>y. x_id y = i) (\<lambda>y. y\<lparr>x_status := OutProcessing\<rparr>) (outbox db)\<rparr>))"

text \<open>The claimed row after the mail service threw: \<open>n\<close> is its count when it was claimed.\<close>

definition fail_or_retry :: "string \<times> instant \<Rightarrow> nat \<Rightarrow> outbox_row \<Rightarrow> outbox_row" where
  "fail_or_retry x n y =
     (if Suc n \<ge> outbox_max_attempts
      then y\<lparr>x_status := OutFailed, x_attempts := Suc n, x_error := Some (fst x),
             x_processed := Some (snd x)\<rparr>
      else y\<lparr>x_status := OutPending, x_attempts := Suc n, x_error := Some (fst x),
             x_available := snd x + backoff outbox_backoff (Suc n)\<rparr>)"

text \<open>What one failing delivery does to a row: claim it and put it back.\<close>

definition event_failure :: "string \<times> instant \<Rightarrow> outbox_row \<Rightarrow> outbox_row" where
  "event_failure x y =
     (if x_status y = OutPending
      then fail_or_retry x (x_attempts y) (y\<lparr>x_status := OutProcessing\<rparr>) else y)"

interpretation outbox_retry: bounded_retry event_failure x_attempts
  "\<lambda>y. x_status y \<noteq> OutPending" outbox_max_attempts
  by unfold_locales (auto simp: event_failure_def fail_or_retry_def outbox_max_attempts_def)

text \<open>\<open>send recipient subject\<close> is the mail service: the message of the error it throws, or
  nothing.\<close>

definition process_event ::
  "(string \<Rightarrow> string \<Rightarrow> string option) \<Rightarrow> instant \<Rightarrow> uuid \<Rightarrow> shop \<Rightarrow> shop" where
  "process_event send now i db =
     (case claim_event i db of
        None \<Rightarrow> db
      | Some (claimed, db1) \<Rightarrow>
          let put = (\<lambda>f. db1\<lparr>outbox := update_rows (\<lambda>y. x_id y = i) f (outbox db1)\<rparr>)
          in (case resolve_recipient_email db1 (x_payload claimed) of
                None \<Rightarrow> put (\<lambda>y. y\<lparr>x_status := OutFailed,
                    x_error := Some ''No recipient email in payload and no matching user'',
                    x_processed := Some now\<rparr>)
              | Some to \<Rightarrow>
                  (case send to (email_subject (x_type claimed) (x_payload claimed)) of
                     None \<Rightarrow> put (\<lambda>y. y\<lparr>x_status := OutSent, x_processed := Some now\<rparr>)
                   | Some why \<Rightarrow> put (fail_or_retry (why, now) (x_attempts claimed)))))"

definition due_events :: "instant \<Rightarrow> shop \<Rightarrow> uuid list" where
  "due_events now db =
     map x_id (take outbox_batch (sort_key x_available
       (filter (\<lambda>x. x_status x = OutPending \<and> x_available x \<le> now) (outbox db))))"

definition process_pending_events ::
  "(string \<Rightarrow> string \<Rightarrow> string option) \<Rightarrow> instant \<Rightarrow> shop \<Rightarrow> shop" where
  "process_pending_events send now db =
     foldl (\<lambda>d i. process_event send now i d) db (due_events now db)"

section \<open>Reconciliation\<close>

definition reconcile_after_minutes :: int where "reconcile_after_minutes = 15"
definition reconcile_max_age_days :: int where "reconcile_max_age_days = 7"
definition fail_stale_after_minutes :: int where "fail_stale_after_minutes = 180"
definition reconcile_batch :: nat where "reconcile_batch = 20"

definition reconcile_candidate :: "instant \<Rightarrow> shop \<Rightarrow> order_row \<Rightarrow> bool" where
  "reconcile_candidate now db r \<longleftrightarrow>
     o_status r = PendingPayment \<and> o_razorpay r \<noteq> None \<and>
     o_created r \<le> now - reconcile_after_minutes * 60000 \<and>
     now - reconcile_max_age_days * 86400000 \<le> o_created r \<and>
     captured_attempt db (o_id r) = None"

definition find_reconcile_candidates :: "instant \<Rightarrow> shop \<Rightarrow> order_row list" where
  "find_reconcile_candidates now db =
     take reconcile_batch (sort_key o_created (filter (reconcile_candidate now db) (orders db)))"

text \<open>The payments of an order: through its bound account, or through the global service
  (\<open>None\<close> when it is not configured or fails) for an order without account.\<close>

definition fetch_payments ::
  "payment_adapter \<Rightarrow> accounts_db \<Rightarrow> (uuid \<Rightarrow> provider_payment list option) \<Rightarrow> order_row \<Rightarrow> uuid
     \<Rightarrow> provider_payment list option result" where
  "fetch_payments adapter acc global_fetch r rp =
     (case o_account r of
        None \<Rightarrow> Inr (global_fetch rp)
      | Some account \<Rightarrow>
          (case resolve_for_bound_account (o_tenant r) account acc of
             Inl _ \<Rightarrow> Inr None
           | Inr a \<Rightarrow>
               (case get_encrypted_credentials (o_tenant r) a acc of
                  Inl e \<Rightarrow> Inl e
                | Inr None \<Rightarrow> Inr None
                | Inr (Some cred) \<Rightarrow> Inr (fetch_order_payments adapter cred rp))))"

definition is_captured_payment :: "provider_payment \<Rightarrow> bool" where
  "is_captured_payment p \<longleftrightarrow> pp_status p = ''captured'' \<or> pp_captured p"

definition is_authorized_payment :: "provider_payment \<Rightarrow> bool" where
  "is_authorized_payment p \<longleftrightarrow> pp_status p = ''authorized'' \<and> \<not> pp_captured p"

definition maybe_fail_stale :: "order_row \<Rightarrow> instant \<Rightarrow> shop \<Rightarrow> shop" where
  "maybe_fail_stale r now db =
     (if now - o_created r < fail_stale_after_minutes * 60000 then db
      else snd (fail_stale_pending_order r now db))"

text \<open>An error of one order is logged and the next one is tried.\<close>

definition reconcile_one ::
  "payment_adapter \<Rightarrow> accounts_db \<Rightarrow> (uuid \<Rightarrow> provider_payment list option) \<Rightarrow> instant
     \<Rightarrow> order_row \<Rightarrow> shop \<Rightarrow> shop" where
  "reconcile_one adapter acc global_fetch now r db =
     (case o_razorpay r of
        None \<Rightarrow> db
      | Some rp \<Rightarrow>
          (case fetch_payments adapter acc global_fetch r rp of
             Inl _ \<Rightarrow> db
           | Inr None \<Rightarrow> db
           | Inr (Some payments) \<Rightarrow>
               (case List.find is_captured_payment payments of
                  Some p \<Rightarrow>
                    snd (reconcile_captured_payment r
                      \<lparr>cp_id = pp_id p, cp_order = pp_order p, cp_amount = pp_amount p,
                       cp_currency = pp_currency p, cp_method = pp_method p\<rparr> now db)
                | None \<Rightarrow>
                    if list_ex is_authorized_payment payments then db
                    else maybe_fail_stale r now db)))"

definition stale_without_razorpay :: "instant \<Rightarrow> shop \<Rightarrow> order_row list" where
  "stale_without_razorpay now db =
     take reconcile_batch (sort_key o_created (filter
       (\<lambda>r. o_status r = PendingPayment \<and> o_razorpay r = None \<and>
            o_created r \<le> now - fail_stale_after_minutes * 60000) (orders db)))"

definition fail_stale_orders_without_razorpay_order :: "instant \<Rightarrow> shop \<Rightarrow> shop" where
  "fail_stale_orders_without_razorpay_order now db =
     foldl (\<lambda>d r. maybe_fail_stale r now d) db (stale_without_razorpay now db)"

definition reconcile ::
  "payment_adapter \<Rightarrow> accounts_db \<Rightarrow> (uuid \<Rightarrow> provider_payment list option) \<Rightarrow> instant
     \<Rightarrow> shop \<Rightarrow> shop" where
  "reconcile adapter acc global_fetch now db =
     (let db1 = fail_stale_orders_without_razorpay_order now db
      in foldl (\<lambda>d r. reconcile_one adapter acc global_fetch now r d) db1
           (find_reconcile_candidates now db1))"

end
