(* ===== verification/ShopInvariants.thy ===== *)
theory ShopInvariants
  imports Pollers
begin

text \<open>
  The invariants of orders, payment attempts and events, each statement of the services
  preserving them, and the reachable states of the shop: any interleaving of the services'
  transactions and statements, each of which may work on rows that were read earlier.
\<close>

section \<open>The invariant\<close>

text \<open>\<open>payment_order p\<close> is the Razorpay order that the payment \<open>p\<close> belongs to; Razorpay
  assigns it when the payment is made.\<close>

definition paid :: "shop \<Rightarrow> uuid \<Rightarrow> bool" where
  "paid db i \<longleftrightarrow> (\<exists>a \<in> set (attempts db). a_order a = i \<and> a_status a = Captured)"

definition announced :: "shop \<Rightarrow> uuid \<Rightarrow> bool" where
  "announced db i \<longleftrightarrow> OrderPaidKey i \<in> set (map x_key (outbox db))"

text \<open>An admin may move an order to paid by hand; the history row says so.\<close>

definition admin_tag :: string where "admin_tag = ''[ADMIN] ''"

definition marked_paid_by_admin :: "shop \<Rightarrow> uuid \<Rightarrow> bool" where
  "marked_paid_by_admin db i \<longleftrightarrow>
     (\<exists>h \<in> set (histories db). h_order h = i \<and> h_to h = Paid \<and> take 8 (h_note h) = admin_tag)"

definition attempts_ok :: "(uuid \<Rightarrow> uuid) \<Rightarrow> shop \<Rightarrow> bool" where
  "attempts_ok payment_order db \<longleftrightarrow>
     attempts_unique (attempts db) \<and> distinct (map a_id (attempts db)) \<and>
     (\<forall>a \<in> set (attempts db).
        a_id a < next_id db \<and>
        (\<exists>r \<in> set (orders db). o_id r = a_order a \<and> o_razorpay r = Some (a_razorpay_order a)) \<and>
        (\<forall>p. a_payment a = Some p \<longrightarrow> payment_order p = a_razorpay_order a))"

definition history_ok :: "shop \<Rightarrow> bool" where
  "history_ok db \<longleftrightarrow>
     (\<forall>i. log_matches is_transition_allowed initial_order_status (status_of db i) (log_of db i)) \<and>
     (\<forall>h \<in> set (histories db). h_order h < next_id db)"

definition orders_ok :: "shop \<Rightarrow> bool" where
  "orders_ok db \<longleftrightarrow>
     order_keys db \<and> orders_unique (orders db) \<and> (\<forall>r \<in> set (orders db). o_id r < next_id db)"

text \<open>\<open>X\<close> are the orders whose transition to paid has been written and whose event is about
  to be written by the same transaction.\<close>

definition paid_ok :: "uuid set \<Rightarrow> shop \<Rightarrow> bool" where
  "paid_ok X db \<longleftrightarrow>
     (\<forall>r \<in> set (orders db). past_payment (o_status r) \<longrightarrow>
        paid db (o_id r) \<and> (announced db (o_id r) \<or> o_id r \<in> X) \<or>
        marked_paid_by_admin db (o_id r))"

definition shop_inv :: "(uuid \<Rightarrow> uuid) \<Rightarrow> uuid set \<Rightarrow> shop \<Rightarrow> bool" where
  "shop_inv payment_order X db \<longleftrightarrow>
     orders_ok db \<and> attempts_ok payment_order db \<and> history_ok db \<and> paid_ok X db"

lemma attempts_unique_captured:
  assumes "attempts_unique as" and "a \<in> set as" "b \<in> set as"
    and "a_status a = Captured" "a_status b = Captured" and "a_order a = a_order b"
  shows "a = b"
proof -
  have "distinct (map a_order (filter (\<lambda>a. a_status a = Captured) as))"
    using assms(1) by (simp add: attempts_unique_def)
  from distinct_key_inj [OF this, of a b] show ?thesis using assms by simp
qed

lemma orders_unique_razorpay:
  assumes "orders_unique os" and "r \<in> set os" "s \<in> set os"
    and "o_razorpay r = Some rp" "o_razorpay s = Some rp"
  shows "r = s"
proof -
  have "distinct (map o_razorpay (filter (\<lambda>r. o_razorpay r \<noteq> None) os))"
    using assms(1) by (simp add: orders_unique_def)
  from distinct_key_inj [OF this, of r s] show ?thesis using assms by simp
qed

section \<open>Statements that touch none of the invariant's tables\<close>

lemma shop_inv_same:
  assumes "shop_inv po X db"
    and "orders db' = orders db" "attempts db' = attempts db" "histories db' = histories db"
    and "map x_key (outbox db') = map x_key (outbox db)" "next_id db \<le> next_id db'"
  shows "shop_inv po X db'"
proof -
  have "status_of db' = status_of db" "log_of db' = log_of db"
    using assms(2,4) by (auto simp: status_of_def find_order_def log_of_def fun_eq_iff)
  then show ?thesis
    using assms
    by (fastforce simp: shop_inv_def orders_ok_def order_keys_def attempts_ok_def history_ok_def
        paid_ok_def paid_def announced_def marked_paid_by_admin_def)
qed

lemma shop_inv_refunds [simp]: "shop_inv po X (db\<lparr>refunds := rs\<rparr>) = shop_inv po X db"
  by (rule iffI; erule shop_inv_same; simp)

lemma shop_inv_webhooks [simp]: "shop_inv po X (db\<lparr>webhooks := ws\<rparr>) = shop_inv po X db"
  by (rule iffI; erule shop_inv_same; simp)

lemma shop_inv_next_id: "shop_inv po X db \<Longrightarrow> shop_inv po X (db\<lparr>next_id := Suc (next_id db)\<rparr>)"
  by (erule shop_inv_same) simp_all

lemma shop_inv_audit [simp]: "shop_inv po X (log_tenant_action ctx u s i db) = shop_inv po X db"
  by (rule iffI; erule shop_inv_same; simp add: log_tenant_action_def)

lemma shop_inv_write_refunds:
  "write_refunds rs db = Inr db' \<Longrightarrow> shop_inv po X db \<Longrightarrow> shop_inv po X db'"
  by (auto simp: write_refunds_def split: if_splits)

lemma write_refunds_next_id:
  "write_refunds rs (db\<lparr>next_id := Suc (next_id db)\<rparr>) = Inr db' \<Longrightarrow> shop_inv po X db
     \<Longrightarrow> shop_inv po X db'"
  using shop_inv_write_refunds shop_inv_next_id by blast

section \<open>Attempts\<close>

lemma write_attempts_Inr:
  "write_attempts as db = Inr db' \<longleftrightarrow> attempts_unique as \<and> db' = db\<lparr>attempts := as\<rparr>"
  by (auto simp: write_attempts_def)

lemma attempts_change:
  assumes "shop_inv po X db" and "db' = db\<lparr>next_id := n, attempts := as\<rparr>" and "next_id db \<le> n"
    and "attempts_ok po db'" and "\<And>i. paid db i \<Longrightarrow> paid db' i"
  shows "shop_inv po X db'"
proof -
  have st: "status_of db' = status_of db" "log_of db' = log_of db"
    by (simp_all add: assms(2) status_of_def find_order_def log_of_def fun_eq_iff)
  have "history_ok db'"
    unfolding history_ok_def st using assms(1,3)
    by (auto simp: shop_inv_def history_ok_def assms(2) intro: less_le_trans)
  moreover have "orders_ok db'"
    using assms(1,3)
    by (auto simp: shop_inv_def orders_ok_def order_keys_def assms(2) intro: less_le_trans)
  moreover have "paid_ok X db'"
    using assms(1,5)
    by (auto simp: shop_inv_def paid_ok_def announced_def marked_paid_by_admin_def assms(2))
  ultimately show ?thesis using assms(4) by (simp add: shop_inv_def)
qed

lemma update_attempts:
  assumes inv: "shop_inv po X db" and w: "write_attempts (update_rows p f (attempts db)) db = Inr db'"
    and keys: "\<And>a. a_id (f a) = a_id a" "\<And>a. a_order (f a) = a_order a"
      "\<And>a. a_razorpay_order (f a) = a_razorpay_order a"
    and kept: "\<And>a. p a \<Longrightarrow> a_status a = Captured \<Longrightarrow> a_status (f a) = Captured"
    and pay: "\<And>a q. a \<in> set (attempts db) \<Longrightarrow> p a \<Longrightarrow> a_payment (f a) = Some q \<Longrightarrow>
      a_payment a \<noteq> Some q \<Longrightarrow> po q = a_razorpay_order a"
  shows "shop_inv po X db'"
proof -
  have db': "db' = db\<lparr>attempts := update_rows p f (attempts db)\<rparr>"
    and u: "attempts_unique (update_rows p f (attempts db))"
    using w by (simp_all add: write_attempts_Inr)
  have mono: "paid db' i" if yes: "paid db i" for i
  proof -
    obtain a where a: "a \<in> set (attempts db)" "a_order a = i" "a_status a = Captured"
      using yes by (auto simp: paid_def)
    then show ?thesis unfolding paid_def
      using kept keys by (intro bexI [of _ "if p a then f a else a"]) (auto simp: db' in_update_rows)
  qed
  have "attempts_ok po db'"
    unfolding attempts_ok_def
  proof (intro conjI ballI)
    fix b assume "b \<in> set (attempts db')"
    then obtain a where a: "a \<in> set (attempts db)" "b = (if p a then f a else a)"
      by (auto simp: db' in_update_rows)
    have old: "a_id a < next_id db"
      "\<exists>r \<in> set (orders db). o_id r = a_order a \<and> o_razorpay r = Some (a_razorpay_order a)"
      "\<forall>q. a_payment a = Some q \<longrightarrow> po q = a_razorpay_order a"
      using inv a(1) by (auto simp: shop_inv_def attempts_ok_def)
    show "a_id b < next_id db'" using old(1) keys a(2) by (simp add: db')
    show "\<exists>r \<in> set (orders db'). o_id r = a_order b \<and> o_razorpay r = Some (a_razorpay_order b)"
      using old(2) keys a(2) by (simp add: db')
    show "\<forall>q. a_payment b = Some q \<longrightarrow> po q = a_razorpay_order b"
      using old(3) pay [OF a(1)] keys a(2) by auto
  qed (use inv u keys in \<open>simp_all add: shop_inv_def attempts_ok_def db' map_update_rows\<close>)
  then show ?thesis
    using mono by (intro attempts_change [OF inv, where n = "next_id db"]) (simp_all add: db')
qed

lemma append_attempt:
  assumes inv: "shop_inv po X db"
    and w: "write_attempts (attempts db @ [a]) (db\<lparr>next_id := Suc (next_id db)\<rparr>) = Inr db'"
    and new: "a_id a = next_id db"
    and own: "\<exists>r \<in> set (orders db). o_id r = a_order a \<and> o_razorpay r = Some (a_razorpay_order a)"
    and pay: "\<And>q. a_payment a = Some q \<Longrightarrow> po q = a_razorpay_order a"
  shows "shop_inv po X db'"
proof -
  have db': "db' = db\<lparr>next_id := Suc (next_id db), attempts := attempts db @ [a]\<rparr>"
    and u: "attempts_unique (attempts db @ [a])"
    using w by (simp_all add: write_attempts_Inr)
  have old: "b \<in> set (attempts db) \<Longrightarrow> a_id b < next_id db" for b
    using inv by (auto simp: shop_inv_def attempts_ok_def)
  have "attempts_ok po db'"
    unfolding attempts_ok_def
  proof (intro conjI ballI)
    show "distinct (map a_id (attempts db'))"
      using inv old new by (fastforce simp: shop_inv_def attempts_ok_def db')
    fix b assume "b \<in> set (attempts db')"
    then have b: "b \<in> set (attempts db) \<or> b = a" by (auto simp: db')
    then show "a_id b < next_id db'" using old new by (auto simp: db' less_Suc_eq)
    show "\<exists>r \<in> set (orders db'). o_id r = a_order b \<and> o_razorpay r = Some (a_razorpay_order b)"
      using b own inv by (auto simp: db' shop_inv_def attempts_ok_def)
    show "\<forall>q. a_payment b = Some q \<longrightarrow> po q = a_razorpay_order b"
      using b pay inv by (auto simp: shop_inv_def attempts_ok_def)
  qed (use u in \<open>simp add: db'\<close>)
  moreover have "paid db i \<Longrightarrow> paid db' i" for i by (auto simp: paid_def db')
  ultimately show ?thesis
    by (intro attempts_change [OF inv, where n = "Suc (next_id db)"]) (simp_all add: db')
qed

section \<open>Orders\<close>

lemma cas_order_next_id_histories:
  "h \<in> set (histories (cas_order i from to how db)) \<Longrightarrow> h \<in> set (histories db) \<or> h_order h = i"
  by (auto simp: cas_order_def split: if_splits)

lemma status_of_NoneD: "status_of db i = None \<Longrightarrow> r \<in> set (orders db) \<Longrightarrow> o_id r \<noteq> i"
  by (auto simp: status_of_def find_order_def dest: find_NoneD)

lemma cas_order_inv:
  assumes inv: "shop_inv po X db" and ok: "is_transition_allowed from to"
    and captured: "to = Paid \<Longrightarrow> paid db i \<or> take 8 (fst (snd how)) = admin_tag"
  shows "shop_inv po (if to = Paid then insert i X else X) (cas_order i from to how db)"
proof -
  let ?db = "cas_order i from to how db"
  have keys: "order_keys db" using inv by (simp add: shop_inv_def orders_ok_def)
  have "orders_ok ?db"
  proof -
    have "map o_id (orders ?db) = map o_id (orders db)"
      "map o_razorpay (filter (\<lambda>r. o_razorpay r \<noteq> None) (orders ?db)) =
       map o_razorpay (filter (\<lambda>r. o_razorpay r \<noteq> None) (orders db))"
    proof -
      show "map o_id (orders ?db) = map o_id (orders db)"
        by (rule cas_order_map_orders) simp
      have "map o_razorpay (filter (\<lambda>r. o_razorpay r \<noteq> None)
          (update_rows p (\<lambda>r. r\<lparr>o_status := to\<rparr>) rs)) =
        map o_razorpay (filter (\<lambda>r. o_razorpay r \<noteq> None) rs)" for p and rs :: "order_row list"
        by (induction rs) auto
      then show "map o_razorpay (filter (\<lambda>r. o_razorpay r \<noteq> None) (orders ?db)) =
         map o_razorpay (filter (\<lambda>r. o_razorpay r \<noteq> None) (orders db))"
        by (simp add: cas_order_def)
    qed
    moreover have "o_id r < next_id db" if "r \<in> set (orders ?db)" for r
      using cas_order_rowD [OF that] inv by (auto simp: shop_inv_def orders_ok_def)
    ultimately show ?thesis
      using inv by (simp add: shop_inv_def orders_ok_def order_keys_def orders_unique_def)
  qed
  moreover have "attempts_ok po ?db"
  proof -
    have "\<exists>r \<in> set (orders ?db). o_id r = a_order a \<and> o_razorpay r = Some (a_razorpay_order a)"
      if a: "a \<in> set (attempts db)" for a
    proof -
      obtain r where "r \<in> set (orders db)" "o_id r = a_order a" "o_razorpay r = Some (a_razorpay_order a)"
        using inv a by (auto simp: shop_inv_def attempts_ok_def)
      then show ?thesis using cas_order_row_kept [of r db i "from" to how] by auto
    qed
    then show ?thesis using inv by (simp add: shop_inv_def attempts_ok_def)
  qed
  moreover have "history_ok ?db"
  proof -
    have "h_order h < next_id db" if "h \<in> set (histories ?db)" for h
    proof (cases "hits (order_hit i from) (orders db) = 1")
      case True
      then obtain r where "r \<in> set (orders db)" "o_id r = i"
        using hits_pos_iff [of "order_hit i from" "orders db"] by (auto simp: order_hit_def)
      then show ?thesis
        using that inv cas_order_next_id_histories [OF that]
        by (auto simp: shop_inv_def orders_ok_def history_ok_def)
    next
      case False
      then show ?thesis
        using that inv by (auto simp: cas_order_def shop_inv_def history_ok_def)
    qed
    then show ?thesis
      using inv order_log.cas_log_matches [OF keys ok]
      by (auto simp: shop_inv_def history_ok_def)
  qed
  moreover have "paid_ok (if to = Paid then insert i X else X) ?db"
    unfolding paid_ok_def
  proof (intro ballI impI)
    fix r assume r: "r \<in> set (orders ?db)" and past: "past_payment (o_status r)"
    obtain r0 where r0: "r0 \<in> set (orders db)" and id: "o_id r = o_id r0"
      and how: "o_status r = o_status r0 \<or> o_id r0 = i \<and> o_status r0 = from \<and> o_status r = to"
      using cas_order_rowD [OF r] by blast
    have same: "paid ?db k = paid db k" "announced ?db k = announced db k" for k
      by (simp_all add: paid_def announced_def)
    have kept: "marked_paid_by_admin db k \<Longrightarrow> marked_paid_by_admin ?db k" for k
      by (auto simp: marked_paid_by_admin_def cas_order_def)
    show "paid ?db (o_id r) \<and>
        (announced ?db (o_id r) \<or> o_id r \<in> (if to = Paid then insert i X else X)) \<or>
        marked_paid_by_admin ?db (o_id r)"
    proof (cases "past_payment (o_status r0)")
      case True
      then have "paid db (o_id r0) \<and> (announced db (o_id r0) \<or> o_id r0 \<in> X) \<or>
          marked_paid_by_admin db (o_id r0)"
        using inv r0 by (simp add: shop_inv_def paid_ok_def)
      then show ?thesis unfolding same id using kept by auto
    next
      case False
      then have "o_status r = to" "o_id r0 = i" "o_status r0 = from" using how past by auto
      moreover have "to = Paid" using past_payment_entry [OF ok] False past calculation by simp
      moreover have "marked_paid_by_admin ?db i"
        if "take 8 (fst (snd how)) = admin_tag" "o_status r0 = from" "o_id r0 = i" "to = Paid"
      proof -
        have "status_of db i = Some from"
          using that r0 keys find_key [of o_id "orders db" r0]
          by (simp add: status_of_def find_order_def order_keys_def)
        then show ?thesis
          using that order_hit_1_iff [OF keys, of i "from"]
          by (simp add: marked_paid_by_admin_def cas_order_def)
      qed
      ultimately show ?thesis
        unfolding same using captured id by auto
    qed
  qed
  ultimately show ?thesis by (simp add: shop_inv_def)
qed

lemma cas_order_admin_inv:
  assumes inv: "shop_inv po {} db" and "is_transition_allowed from Paid"
    and "take 8 (fst (snd how)) = admin_tag"
  shows "shop_inv po {} (cas_order i from Paid how db)"
proof -
  let ?db = "cas_order i from Paid how db"
  have I: "shop_inv po {i} ?db" using cas_order_inv [OF inv assms(2)] assms(3) by simp
  have "paid_ok {} ?db"
    unfolding paid_ok_def
  proof (intro ballI impI)
    fix r assume r: "r \<in> set (orders ?db)" and past: "past_payment (o_status r)"
    show "paid ?db (o_id r) \<and> (announced ?db (o_id r) \<or> o_id r \<in> {}) \<or>
        marked_paid_by_admin ?db (o_id r)"
    proof (cases "hits (order_hit i from) (orders db) = 1 \<and> o_id r = i")
      case True
      then show ?thesis using assms(3) by (auto simp: marked_paid_by_admin_def cas_order_def)
    next
      case False
      then consider "o_id r \<noteq> i" | "?db = db" by (auto simp: cas_order_def)
      then show ?thesis
        using I inv r past by cases (auto simp: shop_inv_def paid_ok_def)
    qed
  qed
  then show ?thesis using I by (simp add: shop_inv_def)
qed

text \<open>The rows of an order keep their identity and their Razorpay order; a column that is
  still null may be set.\<close>

lemma set_order_column:
  assumes inv: "shop_inv po X db"
    and keys: "\<And>r. o_id (f r) = o_id r" "\<And>r. o_status (f r) = o_status r"
    and rp: "\<And>r. p r \<Longrightarrow> o_razorpay r \<noteq> None \<Longrightarrow> o_razorpay (f r) = o_razorpay r"
    and u: "orders_unique (update_rows p f (orders db))"
  shows "shop_inv po X (db\<lparr>orders := update_rows p f (orders db)\<rparr>)"
proof -
  let ?db = "db\<lparr>orders := update_rows p f (orders db)\<rparr>"
  have "map_option o_status (List.find (\<lambda>r. o_id r = k) (update_rows p f (orders db))) =
      map_option o_status (List.find (\<lambda>r. o_id r = k) (orders db))" for k
    using keys by (subst find_key_update) (auto simp: option.map_comp comp_def if_distrib cong: if_cong)
  then have st: "status_of ?db = status_of db" "log_of ?db = log_of db"
    by (auto simp: status_of_def find_order_def log_of_def fun_eq_iff)
  have "attempts_ok po ?db"
    unfolding attempts_ok_def
  proof (intro conjI ballI)
    fix a assume a: "a \<in> set (attempts ?db)"
    then obtain r where r: "r \<in> set (orders db)" "o_id r = a_order a"
      "o_razorpay r = Some (a_razorpay_order a)"
      using inv by (auto simp: shop_inv_def attempts_ok_def)
    have "o_razorpay (if p r then f r else r) = Some (a_razorpay_order a)" using rp r(3) by simp
    then show "\<exists>r \<in> set (orders ?db). o_id r = a_order a \<and> o_razorpay r = Some (a_razorpay_order a)"
      using r keys
      by (intro bexI [of _ "if p r then f r else r"]) (auto simp: in_update_rows)
  qed (use inv in \<open>auto simp: shop_inv_def attempts_ok_def\<close>)
  moreover have "orders_ok ?db"
    using inv u keys
    by (auto simp: shop_inv_def orders_ok_def order_keys_def map_update_rows in_update_rows)
  moreover have "history_ok ?db"
    using inv by (simp add: shop_inv_def history_ok_def st)
  moreover have "paid_ok X ?db"
    unfolding paid_ok_def
  proof (intro ballI impI)
    fix r assume "r \<in> set (orders ?db)" and past: "past_payment (o_status r)"
    then obtain r0 where r0: "r0 \<in> set (orders db)" "o_id r = o_id r0" "o_status r = o_status r0"
      using keys by (auto simp: in_update_rows)
    then have "paid db (o_id r0) \<and> (announced db (o_id r0) \<or> o_id r0 \<in> X) \<or>
        marked_paid_by_admin db (o_id r0)"
      using inv past by (auto simp: shop_inv_def paid_ok_def)
    then show "paid ?db (o_id r) \<and> (announced ?db (o_id r) \<or> o_id r \<in> X) \<or>
        marked_paid_by_admin ?db (o_id r)"
      using r0 by (simp add: paid_def announced_def marked_paid_by_admin_def)
  qed
  ultimately show ?thesis by (simp add: shop_inv_def)
qed

section \<open>Events\<close>

lemma enqueue_Inr:
  "enqueue_outbox_event ty key payload now db = Inr db' \<Longrightarrow>
     map x_key (outbox db') = map x_key (outbox db) @ [key] \<and> orders db' = orders db \<and>
     attempts db' = attempts db \<and> histories db' = histories db \<and> next_id db' = Suc (next_id db)
     \<and> refunds db' = refunds db \<and> user_email db' = user_email db \<and> memberships db' = memberships db"
  by (auto simp: enqueue_outbox_event_def split: if_splits)

lemma enqueue_inv:
  assumes inv: "shop_inv po X db" and e: "enqueue_outbox_event ty key payload now db = Inr db'"
  shows "shop_inv po (X - {i. key = OrderPaidKey i}) db'"
proof -
  note f = enqueue_Inr [OF e]
  have "status_of db' = status_of db" "log_of db' = log_of db"
    using f by (auto simp: status_of_def find_order_def log_of_def fun_eq_iff)
  then show ?thesis
    using inv f
    by (fastforce simp: shop_inv_def orders_ok_def order_keys_def attempts_ok_def history_ok_def
        paid_ok_def paid_def announced_def marked_paid_by_admin_def)
qed

lemma shop_inv_mono: "shop_inv po X db \<Longrightarrow> X \<subseteq> Y \<Longrightarrow> shop_inv po Y db"
  by (auto simp: shop_inv_def paid_ok_def)

section \<open>The helpers of the services\<close>

lemma transition_order_Inr:
  assumes "transition_order r to who note db = Inr (x, db')"
  shows "is_transition_allowed (o_status r) to"
    and "db' = cas_order (o_id r) (o_status r) to (who, note, o_tenant r) db"
    and "x \<noteq> None \<longleftrightarrow> hits (order_hit (o_id r) (o_status r)) (orders db) = 1"
  using assms by (auto simp: transition_order_def cas_order_def split: if_splits)

lemma transition_order_inv:
  assumes "transition_order r to who note db = Inr (x, db')" and "shop_inv po {} db"
    and "to \<noteq> Paid"
  shows "shop_inv po {} db'"
  using cas_order_inv [OF assms(2) transition_order_Inr(1) [OF assms(1)]]
    transition_order_Inr(2) [OF assms(1)] assms(3) by simp

lemma insert_outbox_inv:
  assumes "insert_outbox_event ty r to now db = Inr db'" and "shop_inv po X db"
  shows "shop_inv po (if ty = OrderPaid then X - {o_id r} else X) db'"
  using assms(1) enqueue_inv [OF assms(2)] shop_inv_mono
  by (fastforce simp: insert_outbox_event_def Let_def split: event_type.splits option.splits)

text \<open>The transition to paid and its event, in one transaction.\<close>

lemma pay_order_inv:
  assumes t: "transition_order r Paid who note db = Inr (x, db1)"
    and e: "insert_outbox_event OrderPaid r' None now db1 = Inr db2" and "o_id r' = o_id r"
    and inv: "shop_inv po {} db" and "paid db (o_id r)"
  shows "shop_inv po {} db2"
proof -
  have "shop_inv po {o_id r} db1"
    using cas_order_inv [OF inv transition_order_Inr(1) [OF t], of "o_id r"]
      transition_order_Inr(2) [OF t] assms(5) by simp
  then show ?thesis using insert_outbox_inv [OF e] assms(3) by fastforce
qed

text \<open>No transition happened, so there is nothing to announce.\<close>

lemma pay_order_lost_inv:
  assumes t: "transition_order r Paid who note db = Inr (None, db1)" and inv: "shop_inv po {} db"
  shows "shop_inv po {} db1"
proof -
  have "db1 = db" using transition_order_Inr [OF t] by (simp add: cas_order_def)
  then show ?thesis using inv by simp
qed

lemma fail_order_inv:
  assumes "fail_order_tx r note now db = Inr (b, db')" and "shop_inv po {} db"
  shows "shop_inv po {} db'"
proof -
  obtain x db1 where t: "transition_order r PaymentFailed None note db = Inr (x, db1)"
    and rest: "db' = db1 \<or>
      insert_outbox_event OrderStatusChanged r (Some PaymentFailed) now db1 = Inr db'"
    using assms(1)
    by (auto simp: fail_order_tx_def map_sum_def split: sum.splits option.splits)
  have "shop_inv po {} db1" using transition_order_inv [OF t assms(2)] by simp
  then show ?thesis using rest insert_outbox_inv by fastforce
qed

lemma transition_note_admin: "take 8 (transition_note AdminRole to reason b) = admin_tag"
  by (simp add: transition_note_def admin_tag_def Let_def)

lemma transition_with_history_inv:
  assumes t: "transition_order_with_history r to role actor reason b now db = Inr (u, db')"
    and inv: "shop_inv po {} db" and to: "to \<noteq> Paid \<or> role = AdminRole"
  shows "shop_inv po {} db'"
proof -
  let ?db1 = "cas_order (o_id r) (o_status r) to
    (Some actor, transition_note role to reason b, o_tenant r) db"
  have ok: "is_transition_allowed (o_status r) to"
    using t by (auto simp: transition_order_with_history_def assert_transition_allowed_def
        split: if_splits)
  have hit: "shop_inv po {} db1"
    if "to = Paid" and "db1 = ?db1" for db1
  proof -
    have past: "shop_inv po {} (cas_order (o_id r) (o_status r) Paid
      (Some actor, transition_note AdminRole Paid reason b, o_tenant r) db)"
      using cas_order_admin_inv [OF inv] ok that(1) transition_note_admin by simp
    then show ?thesis using that to by simp
  qed
  have db1: "shop_inv po {} ?db1"
    using hit cas_order_inv [OF inv ok] to by (cases "to = Paid") auto
  consider "db' = db" | email where "enqueue_outbox_event OrderStatusChanged
      (StatusChangedKey (o_id r) to) email now ?db1 = Inr db'"
    using t ok
    by (auto simp: transition_order_with_history_def assert_transition_allowed_def Let_def
        split: if_splits option.splits sum.splits)
  then show ?thesis
    using enqueue_inv [OF db1] inv by cases auto
qed

end
