(* ===== verification/ShopReach.thy ===== *)
theory ShopReach
  imports ShopInvariants
begin

text \<open>
  Every operation of orders, payments, refunds and the pollers preserves the invariant of
  ShopInvariants, and the states that any interleaving of them reaches.
\<close>

section \<open>Rows read earlier\<close>

text \<open>
  A service may hold a row it read before other transactions committed. Of such a row only
  what never changes is known: its identity, its order, and its Razorpay order once set.
\<close>

definition bound_to :: "shop \<Rightarrow> order_row \<Rightarrow> uuid \<Rightarrow> bool" where
  "bound_to db r rp \<longleftrightarrow> (\<exists>x \<in> set (orders db). o_id x = o_id r \<and> o_razorpay x = Some rp)"

definition attempt_known :: "shop \<Rightarrow> attempt_row \<Rightarrow> uuid \<Rightarrow> bool" where
  "attempt_known db a rp \<longleftrightarrow>
     (\<exists>x \<in> set (attempts db). a_id x = a_id a \<and> a_razorpay_order x = rp)"

lemma attempt_order:
  assumes inv: "shop_inv po X db" and b: "bound_to db r rp"
    and y: "y \<in> set (attempts db)" "a_razorpay_order y = rp"
  shows "a_order y = o_id r"
proof -
  obtain x where x: "x \<in> set (orders db)" "o_id x = o_id r" "o_razorpay x = Some rp"
    using b by (auto simp: bound_to_def)
  obtain z where z: "z \<in> set (orders db)" "o_id z = a_order y" "o_razorpay z = Some rp"
    using inv y by (auto simp: shop_inv_def attempts_ok_def)
  have "orders_unique (orders db)" using inv by (simp add: shop_inv_def orders_ok_def)
  then have "x = z" using x z orders_unique_razorpay by metis
  then show ?thesis using x z by simp
qed

lemma attempt_id_inj:
  "shop_inv po X db \<Longrightarrow> a \<in> set (attempts db) \<Longrightarrow> b \<in> set (attempts db) \<Longrightarrow> a_id a = a_id b \<Longrightarrow> a = b"
  using distinct_key_inj [of a_id "attempts db" a b] by (simp add: shop_inv_def attempts_ok_def)

section \<open>Capturing\<close>

lemma capture_inv:
  assumes inv: "shop_inv po {} db"
    and w: "write_attempts (update_rows (not_captured i) f (attempts db)) db = Inr db'"
    and h: "hits (not_captured i) (attempts db) = 1"
    and f: "\<And>a. a_id (f a) = a_id a" "\<And>a. a_order (f a) = a_order a"
      "\<And>a. a_razorpay_order (f a) = a_razorpay_order a" "\<And>a. a_status (f a) = Captured"
      "\<And>a. a_payment (f a) = Some q"
    and y: "y \<in> set (attempts db)" "a_id y = i" "a_razorpay_order y = po q"
  shows "shop_inv po {} db' \<and> paid db' (a_order y) \<and> orders db' = orders db"
proof -
  have "shop_inv po {} db'"
  proof (rule update_attempts [OF inv w])
    fix a p assume a: "a \<in> set (attempts db)" "not_captured i a" "a_payment (f a) = Some p"
    then have "a = y" using attempt_id_inj [OF inv a(1) y(1)] y(2) by (simp add: not_captured_def)
    then show "po p = a_razorpay_order a" using a(3) f(5) y(3) by simp
  qed (simp_all add: f)
  moreover have "paid db' (a_order y)"
  proof -
    obtain z where z: "z \<in> set (attempts db)" "not_captured i z"
      using h hits_pos_iff [of "not_captured i" "attempts db"] by auto
    then have "z = y" using attempt_id_inj [OF inv z(1) y(1)] y(2) by (simp add: not_captured_def)
    then have "f y \<in> set (attempts db')"
      using w z by (auto simp: write_attempts_Inr in_update_rows)
    then show ?thesis using f(2,4) unfolding paid_def by (intro bexI [of _ "f y"]) simp_all
  qed
  moreover have "orders db' = orders db" using w by (auto simp: write_attempts_Inr)
  ultimately show ?thesis by simp
qed

lemma find_or_create_cases:
  assumes f: "find_or_create_with account r pe now db = Inr (a, db')"
  obtains (payment) "find_attempt_by_payment db (pe_id pe) = Some a" "db' = db"
    | (opened) a0 where "latest a_created (open_attempt (o_id r) (pe_order pe)) (attempts db) = Some a0"
        "a_id a = a_id a0"
        "write_attempts (update_rows (\<lambda>x. a_id x = a_id a0)
           (\<lambda>x. x\<lparr>a_payment := Some (pe_id pe)\<rparr>) (attempts db)) db = Inr db'"
    | (created) "write_attempts (attempts db @ [a]) (db\<lparr>next_id := Suc (next_id db)\<rparr>) = Inr db'"
        "a_id a = next_id db" "a_order a = o_id r" "a_razorpay_order a = pe_order pe"
        "a_payment a = Some (pe_id pe)" "a_status a = Initiated"
  using f
  by (auto simp: find_or_create_with_def map_sum_def Let_def
      split: option.splits sum.splits if_splits)

lemma stamped_attempt:
  assumes "latest a_created (open_attempt order rp) (attempts db) = Some a0"
    and "write_attempts (update_rows (\<lambda>x. a_id x = a_id a0)
      (\<lambda>x. x\<lparr>a_payment := Some p\<rparr>) (attempts db)) db = Inr db'"
  shows "a0\<lparr>a_payment := Some p\<rparr> \<in> set (attempts db') \<and> a_status a0 = Initiated"
  using latest_SomeD [OF assms(1)] assms(2)
  by (auto simp: write_attempts_Inr in_update_rows open_attempt_def)

lemma find_or_create_inv:
  assumes inv: "shop_inv po {} db" and b: "bound_to db r (pe_order pe)"
    and po: "po (pe_id pe) = pe_order pe"
    and f: "find_or_create_with account r pe now db = Inr (a, db')"
  shows "shop_inv po {} db' \<and> orders db' = orders db \<and>
    (\<exists>y \<in> set (attempts db'). a_id y = a_id a \<and> a_order y = o_id r \<and>
       a_razorpay_order y = pe_order pe)"
proof -
  from f show ?thesis
  proof (cases rule: find_or_create_cases)
    case payment
    then have a: "a \<in> set (attempts db)" "a_payment a = Some (pe_id pe)"
      by (auto simp: find_attempt_by_payment_def dest: find_SomeD)
    then have "a_razorpay_order a = pe_order pe"
      using inv po by (auto simp: shop_inv_def attempts_ok_def)
    then show ?thesis using a attempt_order [OF inv b a(1)] inv payment by auto
  next
    case (opened a0)
    have a0: "a0 \<in> set (attempts db)" "a_order a0 = o_id r" "a_razorpay_order a0 = pe_order pe"
      using latest_SomeD [OF opened(1)] by (auto simp: open_attempt_def)
    have "shop_inv po {} db'"
    proof (rule update_attempts [OF inv opened(3)])
      fix x q assume x: "x \<in> set (attempts db)" "a_id x = a_id a0"
        and q: "a_payment (x\<lparr>a_payment := Some (pe_id pe)\<rparr>) = Some q"
      have "x = a0" using attempt_id_inj [OF inv x(1) a0(1) x(2)] .
      then show "po q = a_razorpay_order x" using q po a0 by simp
    qed simp_all
    moreover have "a0\<lparr>a_payment := Some (pe_id pe)\<rparr> \<in> set (attempts db')"
      using opened(3) a0(1) by (auto simp: write_attempts_Inr in_update_rows)
    ultimately show ?thesis
      using opened a0 by (auto simp: write_attempts_Inr intro!: bexI [of _ "a0\<lparr>a_payment := Some (pe_id pe)\<rparr>"])
  next
    case created
    have "shop_inv po {} db'"
      using append_attempt [OF inv created(1) created(2)] b created po by (auto simp: bound_to_def)
    then show ?thesis using created by (auto simp: write_attempts_Inr)
  qed
qed

lemma apply_captured_inv:
  assumes inv: "shop_inv po {} db" and po: "po (pe_id pe) = pe_order pe"
    and y: "y \<in> set (attempts db)" "a_id y = a_id a" "a_order y = o_id r"
      "a_razorpay_order y = pe_order pe"
    and c: "apply_captured r a pe now db = Inr (u, db')"
  shows "shop_inv po {} db'"
proof (cases "hits (not_captured (a_id a)) (attempts db) = 1")
  case False
  then have "db' = db" using c by (auto simp: apply_captured_def split: sum.splits)
  then show ?thesis using inv by simp
next
  case True
  then obtain db1 where
    w: "write_attempts (update_rows (not_captured (a_id a))
        (set_captured (pe_id pe) (keep_if_absent (pe_method pe)) now) (attempts db)) db = Inr db1"
    and rest: "db' = db1 \<or>
      transition_order r Paid None ''Payment captured (webhook)'' db1 = Inr (None, db') \<or>
      (\<exists>x db2. transition_order r Paid None ''Payment captured (webhook)'' db1 = Inr (x, db2) \<and>
         insert_outbox_event OrderPaid r None now db2 = Inr db')"
    using c
    by (auto simp: apply_captured_def map_sum_def split: sum.splits option.splits if_splits)
  have 1: "shop_inv po {} db1 \<and> paid db1 (o_id r)"
    using capture_inv [OF inv w True _ _ _ _ _ y(1,2)] y po by (simp add: set_captured_def)
  with rest show ?thesis
    using pay_order_inv [of r None _ db1 _ _ r now db' po] pay_order_lost_inv by blast
qed

lemma apply_failed_inv:
  assumes inv: "shop_inv po {} db" and po: "po (pe_id pe) = pe_order pe"
    and y: "y \<in> set (attempts db)" "a_id y = a_id a" "a_razorpay_order y = pe_order pe"
    and c: "apply_failed r a pe now db = Inr (u, db')"
  shows "shop_inv po {} db'"
proof (cases "hits (not_final (a_id a)) (attempts db) = 1")
  case False
  then have "db' = db" using c by (auto simp: apply_failed_def)
  then show ?thesis using inv by simp
next
  case True
  let ?f = "\<lambda>x. x\<lparr>a_status := AttemptFailed, a_payment := Some (pe_id pe),
                       a_failure_code := pe_error_code pe,
                       a_failure_reason := pe_error_description pe,
                       a_method := keep_if_absent (pe_method pe) (a_method x)\<rparr>"
  from True obtain db1 b where
    w: "write_attempts (update_rows (not_final (a_id a)) ?f (attempts db)) db = Inr db1"
    and rest: "fail_order_tx r ''Payment failed (webhook)'' now db1 = Inr (b, db')"
    using c by (auto simp: apply_failed_def map_sum_def split: sum.splits)
  have "shop_inv po {} db1"
  proof (rule update_attempts [OF inv w])
    fix x q assume x: "x \<in> set (attempts db)" "not_final (a_id a) x" and q: "a_payment (?f x) = Some q"
    then have "x = y" using attempt_id_inj [OF inv x(1) y(1)] y(2) by (simp add: not_final_def)
    then show "po q = a_razorpay_order x" using q po y by simp
  qed (simp_all add: not_final_def)
  then show ?thesis using fail_order_inv [OF rest] by blast
qed

lemma apply_payment_entity_inv:
  assumes inv: "shop_inv po {} db" and b: "bound_to db r (pe_order pe)"
    and po: "po (pe_id pe) = pe_order pe"
    and c: "apply_payment_entity account is_capture r pe now db = Inr (x, db')"
  shows "shop_inv po {} db'"
proof -
  obtain a db1 u where f: "find_or_create_with account r pe now db = Inr (a, db1)"
    and s: "(if is_capture then apply_captured r a pe now db1 else apply_failed r a pe now db1)
       = Inr (u, db')"
    using c by (auto simp: apply_payment_entity_def map_sum_def split: sum.splits)
  note i = find_or_create_inv [OF inv b po f]
  then obtain y where y: "y \<in> set (attempts db1)" "a_id y = a_id a" "a_order y = o_id r"
    "a_razorpay_order y = pe_order pe" by blast
  have inv1: "shop_inv po {} db1" using i by simp
  show ?thesis
  proof (cases is_capture)
    case True
    then have "apply_captured r a pe now db1 = Inr (u, db')" using s by simp
    then show ?thesis using apply_captured_inv [of po db1 pe] inv1 po y by blast
  next
    case False
    then have "apply_failed r a pe now db1 = Inr (u, db')" using s by simp
    then show ?thesis using apply_failed_inv [of po db1 pe] inv1 po y by blast
  qed
qed

lemma find_order_by_razorpay_bound:
  "find_order_by_razorpay db rp = Some r \<Longrightarrow> bound_to db r rp"
  by (auto simp: find_order_by_razorpay_def bound_to_def dest!: find_SomeD)

section \<open>Verify and reconciliation\<close>

lemma verify_capture_tx_inv:
  assumes inv: "shop_inv po {} db" and b: "bound_to db r (v_order dto)"
    and po: "po (v_payment dto) = v_order dto"
    and known: "\<And>a. existing = Some a \<Longrightarrow> attempt_known db a (v_order dto)"
    and c: "verify_capture_tx r existing user dto now db = Inr (x, db')"
  shows "shop_inv po {} db'"
proof -
  obtain a where a: "(case existing of Some a \<Rightarrow> Some a
      | None \<Rightarrow> latest a_created (open_attempt (o_id r) (v_order dto)) (attempts db)) = Some a"
    using c by (auto simp: verify_capture_tx_def split: option.splits)
  obtain y where y: "y \<in> set (attempts db)" "a_id y = a_id a" "a_razorpay_order y = v_order dto"
  proof (cases existing)
    case None
    then show ?thesis using a latest_SomeD that by (fastforce simp: open_attempt_def)
  next
    case (Some e)
    then show ?thesis using known [OF Some] a that by (auto simp: attempt_known_def)
  qed
  show ?thesis
  proof (cases "hits (not_captured (a_id a)) (attempts db) = 1")
    case False
    then have "db' = db" using c a
      by (auto simp: verify_capture_tx_def map_sum_def split: sum.splits option.splits)
    then show ?thesis using inv by simp
  next
    case True
    let ?f = "\<lambda>x. x\<lparr>a_status := Captured, a_payment := Some (v_payment dto), a_captured_at := Some now\<rparr>"
    from True obtain db1 z db2 where
      w: "write_attempts (update_rows (not_captured (a_id a)) ?f (attempts db)) db = Inr db1"
      and t: "transition_order r Paid (Some user) ''Payment verified (client callback)'' db1
        = Inr (z, db2)"
      and e: "insert_outbox_event OrderPaid r None now db2 = Inr db'"
      using c a
      by (auto simp: verify_capture_tx_def map_sum_def split: sum.splits option.splits)
    have "shop_inv po {} db1 \<and> paid db1 (o_id r)"
      using capture_inv [OF inv w True _ _ _ _ _ y(1,2)] y po attempt_order [OF inv b y(1,3)] by simp
    then show ?thesis using pay_order_inv [OF t e] by simp
  qed
qed

lemma reconcile_attempt_inv:
  assumes inv: "shop_inv po {} db" and b: "bound_to db r rp" and rp: "o_razorpay r = Some rp"
    and po: "po (cp_id cp) = rp" and c: "reconcile_attempt r cp now db = Inr (i, db')"
  shows "shop_inv po {} db' \<and>
    (\<exists>y \<in> set (attempts db'). a_id y = i \<and> a_order y = o_id r \<and> a_razorpay_order y = rp)"
proof (cases "latest a_created (reconcilable_attempt r (cp_id cp)) (attempts db)")
  case None
  let ?a = "\<lparr>a_id = next_id db, a_order = o_id r, a_razorpay_order = rp,
                   a_payment = None, a_amount = cp_amount cp, a_currency = cp_currency cp,
                   a_status = Initiated, a_failure_code = None, a_failure_reason = None,
                   a_method = None, a_tenant = o_tenant r, a_account = None, a_created = now,
                   a_captured_at = None\<rparr>"
  have w: "write_attempts (attempts db @ [?a]) (db\<lparr>next_id := Suc (next_id db)\<rparr>) = Inr db'"
    and i: "i = next_id db"
    using c None rp by (auto simp: reconcile_attempt_def Let_def map_sum_def split: sum.splits)
  have "shop_inv po {} db'" using append_attempt [OF inv w] b by (simp add: bound_to_def)
  then show ?thesis using w i by (auto simp: write_attempts_Inr)
next
  case (Some a)
  then have a: "a \<in> set (attempts db)" "a_order a = o_id r" and db: "db' = db" "i = a_id a"
    and m: "a_payment a = Some (cp_id cp) \<or> a_razorpay_order a = rp"
    using c latest_SomeD [OF Some] rp by (auto simp: reconcile_attempt_def reconcilable_attempt_def)
  have "a_razorpay_order a = rp"
    using m inv a(1) po by (auto simp: shop_inv_def attempts_ok_def)
  then show ?thesis using a db inv by auto
qed

lemma reconcile_tx_inv:
  assumes inv: "shop_inv po {} db" and b: "bound_to db r rp" and rp: "o_razorpay r = Some rp"
    and po: "po (cp_id cp) = rp" and c: "reconcile_tx r cp now db = Inr (x, db')"
  shows "shop_inv po {} db'"
proof (cases "reconcile_attempt r cp now db")
  case (Inl e)
  then have "db' = db" using c by (auto simp: reconcile_tx_def split: if_splits)
  then show ?thesis using inv by simp
next
  case (Inr q)
  then obtain i db1 where r: "reconcile_attempt r cp now db = Inr (i, db1)" by (cases q) auto
  have inv1: "shop_inv po {} db1" using reconcile_attempt_inv [OF inv b rp po r] by simp
  obtain y where y: "y \<in> set (attempts db1)" "a_id y = i" "a_order y = o_id r"
    "a_razorpay_order y = po (cp_id cp)" using reconcile_attempt_inv [OF inv b rp po r] po by auto
  consider "db' = db" | "db' = db1"
    | db2 where "hits (not_captured i) (attempts db1) = 1"
      "write_attempts (update_rows (not_captured i)
         (set_captured (cp_id cp) (\<lambda>_. cp_method cp) now) (attempts db1)) db1 = Inr db2"
      "transition_order (r\<lparr>o_status := PendingPayment\<rparr>) Paid None
         ''Payment captured (reconciliation)'' db2 = Inr (None, db')"
    | db2 z db3 where "hits (not_captured i) (attempts db1) = 1"
      "write_attempts (update_rows (not_captured i)
         (set_captured (cp_id cp) (\<lambda>_. cp_method cp) now) (attempts db1)) db1 = Inr db2"
      "transition_order (r\<lparr>o_status := PendingPayment\<rparr>) Paid None
         ''Payment captured (reconciliation)'' db2 = Inr (z, db3)"
      "insert_outbox_event OrderPaid r None now db3 = Inr db'"
    using c r
    by (auto simp: reconcile_tx_def map_sum_def split: sum.splits option.splits if_splits)
  then show ?thesis
  proof cases
    case 3
    have "shop_inv po {} db2"
      using capture_inv [OF inv1 3(2,1) _ _ _ _ _ y(1,2)] y(4) by (simp add: set_captured_def)
    then show ?thesis using pay_order_lost_inv [OF 3(3)] by simp
  next
    case 4
    have "shop_inv po {} db2 \<and> paid db2 (o_id r)"
      using capture_inv [OF inv1 4(2,1) _ _ _ _ _ y(1,2)] y(3,4) by (simp add: set_captured_def)
    then show ?thesis using pay_order_inv [OF 4(3,4)] by simp
  qed (use inv inv1 in auto)
qed

lemma fail_stale_tx_inv:
  assumes inv: "shop_inv po {} db" and c: "fail_stale_tx r now db = Inr (x, db')"
  shows "shop_inv po {} db'"
proof -
  consider "db' = db" | db1 where
      "write_attempts (update_rows (\<lambda>a. a_order a = o_id r \<and> a_status a = Initiated)
         (\<lambda>a. a\<lparr>a_status := Abandoned\<rparr>) (attempts db)) db = Inr db1"
      "fail_order_tx (r\<lparr>o_status := PendingPayment\<rparr>)
         ''Payment not completed - order expired by reconciliation (no captured Razorpay payment)''
         now db1 = Inr (x, db')"
    using c by (auto simp: fail_stale_tx_def split: sum.splits if_splits)
  then show ?thesis
  proof cases
    case 2
    have "shop_inv po {} db1" by (rule update_attempts [OF inv 2(1)]) simp_all
    then show ?thesis using fail_order_inv [OF 2(2)] by simp
  qed (use inv in simp)
qed

section \<open>Initiating\<close>

lemma retry_failed_order_inv:
  assumes "shop_inv po {} db" and "retry_failed_order r user db = Inr (x, db')"
  shows "shop_inv po {} db'"
proof -
  consider "db' = db" | y where "transition_order r PendingPayment (Some user)
      ''Customer retrying payment'' db = Inr (y, db')"
    using assms(2)
    by (auto simp: retry_failed_order_def map_sum_def split: if_splits sum.splits option.splits)
  then show ?thesis using assms(1) transition_order_inv by cases auto
qed

lemma account_update_razorpay:
  "map o_razorpay (filter (\<lambda>r. o_razorpay r \<noteq> None) (update_rows p (\<lambda>x. x\<lparr>o_account := a\<rparr>) rs)) =
   map o_razorpay (filter (\<lambda>r. o_razorpay r \<noteq> None) (rs :: order_row list))"
  by (induction rs) auto

lemma bind_payment_account_inv:
  assumes inv: "shop_inv po {} db" and c: "bind_payment_account acc r db = Inr (x, db')"
  shows "shop_inv po {} db'"
proof -
  consider "db' = db" | a where "db' = db\<lparr>orders := update_rows (account_unbound (o_id r))
      (\<lambda>x. x\<lparr>o_account := Some a\<rparr>) (orders db)\<rparr>"
    using c
    by (auto simp: bind_payment_account_def map_sum_def split: option.splits sum.splits if_splits)
  then show ?thesis
  proof cases
    case 2
    have "orders_unique (update_rows (account_unbound (o_id r)) (\<lambda>x. x\<lparr>o_account := Some a\<rparr>) (orders db))"
      using inv by (simp only: orders_unique_def account_update_razorpay shop_inv_def orders_ok_def)
    then show ?thesis unfolding 2 by (intro set_order_column [OF inv]) simp_all
  qed (use inv in simp)
qed

lemma associate_razorpay_order_inv:
  assumes inv: "shop_inv po {} db" and c: "associate_razorpay_order r rp db = Inr (x, db')"
  shows "shop_inv po {} db'"
proof -
  consider "db' = db" | "write_orders (update_rows (razorpay_unset (o_id r))
      (\<lambda>x. x\<lparr>o_razorpay := Some rp\<rparr>) (orders db)) db = Inr db'"
    using c
    by (auto simp: associate_razorpay_order_def map_sum_def split: option.splits sum.splits if_splits)
  then show ?thesis
  proof cases
    case 2
    then have u: "orders_unique (update_rows (razorpay_unset (o_id r))
        (\<lambda>x. x\<lparr>o_razorpay := Some rp\<rparr>) (orders db))"
      and db': "db' = db\<lparr>orders := update_rows (razorpay_unset (o_id r))
        (\<lambda>x. x\<lparr>o_razorpay := Some rp\<rparr>) (orders db)\<rparr>"
      by (auto simp: write_orders_def split: if_splits)
    show ?thesis
      unfolding db' by (rule set_order_column [OF inv]) (use u in \<open>auto simp: razorpay_unset_def\<close>)
  qed (use inv in simp)
qed

lemma create_attempt_inv:
  assumes inv: "shop_inv po {} db" and b: "bound_to db r rp"
    and c: "create_attempt r rp account now db = Inr (a, db')"
  shows "shop_inv po {} db'"
proof -
  have w: "write_attempts (attempts db @ [a]) (db\<lparr>next_id := Suc (next_id db)\<rparr>) = Inr db'"
    and a: "a_id a = next_id db" "a_order a = o_id r" "a_razorpay_order a = rp" "a_payment a = None"
    using c by (auto simp: create_attempt_def Let_def map_sum_def split: sum.splits)
  show ?thesis by (rule append_attempt [OF inv w]) (use a b in \<open>auto simp: bound_to_def\<close>)
qed

section \<open>Orders, refunds and stored events\<close>

lemma place_order_inv:
  assumes inv: "shop_inv po {} db"
  shows "shop_inv po {} (record_creation (next_id db) user tenant (create_order_row r db))"
    (is "shop_inv po {} ?db")
proof -
  have fresh: "find_order db (next_id db) = None"
  proof (rule ccontr)
    assume "find_order db (next_id db) \<noteq> None"
    then obtain x where "x \<in> set (orders db)" "o_id x = next_id db"
      by (auto simp: find_order_def dest: find_SomeD)
    then show False using inv by (force simp: shop_inv_def orders_ok_def)
  qed
  have nolog: "log_of db (next_id db) = []"
    using inv by (force simp: log_of_def shop_inv_def history_ok_def filter_empty_conv)
  have st: "status_of ?db i = (if i = next_id db then Some PendingPayment else status_of db i)" for i
    using fresh
    by (auto simp: status_of_def find_order_def create_order_row_def record_creation_def find_append
        split: option.splits)
  have lg: "log_of ?db i = (if i = next_id db then [(None, PendingPayment)] else log_of db i)" for i
    using nolog by (auto simp: log_of_def create_order_row_def record_creation_def)
  have "history_ok ?db"
    using inv
    by (auto simp: history_ok_def st lg log_matches_def shop_inv_def)
      (auto simp: create_order_row_def record_creation_def less_Suc_eq)
  moreover have "orders_ok ?db"
    using inv
    by (force simp: orders_ok_def order_keys_def orders_unique_def shop_inv_def create_order_row_def
        record_creation_def less_Suc_eq)
  moreover have "attempts_ok po ?db"
    using inv
    by (fastforce simp: attempts_ok_def shop_inv_def create_order_row_def record_creation_def
        less_Suc_eq)
  moreover have "paid_ok {} ?db"
    using inv
    by (auto simp: paid_ok_def shop_inv_def create_order_row_def record_creation_def past_payment_def
        paid_def announced_def marked_paid_by_admin_def)
  ultimately show ?thesis by (simp add: shop_inv_def)
qed

lemma perform_cancellation_inv:
  assumes "perform_cancellation_tx captured r role actor reason audit now db = Inr (u, db')"
    and inv: "shop_inv po {} db"
  shows "shop_inv po {} db'"
proof -
  obtain db1 b db2 where
    s: "db1 = db \<or> (\<exists>rs. write_refunds rs (db\<lparr>next_id := Suc (next_id db)\<rparr>) = Inr db1)"
    and t: "transition_order_with_history r Cancelled role actor reason b now db1 = Inr ((), db2)"
    and l: "db' = db2 \<or> (\<exists>ctx admin. db' = log_tenant_action ctx admin ''order.cancel'' (o_id r) db2)"
    using assms(1)
    by (auto simp: perform_cancellation_tx_def Let_def split: sum.splits option.splits if_splits)
      blast+
  have "shop_inv po {} db1" using s inv write_refunds_next_id by blast
  then have "shop_inv po {} db2" using transition_with_history_inv [OF t] by simp
  then show ?thesis using l by auto
qed

lemma perform_refund_recording_inv:
  assumes "perform_refund_recording_tx r role actor reason audit now db = Inr (u, db')"
    and inv: "shop_inv po {} db"
  shows "shop_inv po {} db'"
proof -
  obtain rs db2 where
    t: "transition_order_with_history r Refunded role actor reason False now
      (db\<lparr>refunds := rs\<rparr>) = Inr ((), db2)"
    and l: "db' = (case audit of None \<Rightarrow> db2
      | Some (ctx, admin) \<Rightarrow> log_tenant_action ctx admin ''order.refund_record'' (o_id r) db2)"
    using assms(1) by (auto simp: perform_refund_recording_tx_def Let_def split: sum.splits)
  have "shop_inv po {} db2" using transition_with_history_inv [OF t] inv by simp
  then show ?thesis using l by (auto split: option.splits)
qed

lemma status_change_inv:
  assumes "status_change_tx r to admin reason ctx now db = Inr (u, db')" and "shop_inv po {} db"
  shows "shop_inv po {} db'"
  using assms transition_with_history_inv
  by (fastforce simp: status_change_tx_def split: sum.splits)

lemma reserve_refund_inv:
  assumes "reserve_refund_tx ctx actor i amount reason db = Inr (x, db')" and inv: "shop_inv po {} db"
  shows "shop_inv po {} db'"
proof -
  obtain rs db1 where "write_refunds rs (db\<lparr>next_id := Suc (next_id db)\<rparr>) = Inr db1"
    and "\<exists>j. db' = log_tenant_action ctx actor ''refund.requested'' j db1"
    using assms(1)
    by (auto simp: reserve_refund_tx_def Let_def map_sum_def
        split: option.splits sum.splits if_splits)
  then show ?thesis using write_refunds_next_id inv by auto
qed

lemma mark_failed_inv:
  assumes "mark_failed i why rp db = Inr (x, db')" and "shop_inv po {} db"
  shows "shop_inv po {} db'"
  using assms shop_inv_write_refunds
  by (fastforce simp: mark_failed_def split: sum.splits option.splits)

lemma settle_refund_inv:
  assumes "settle_refund i rp status db = Inr (x, db')" and "shop_inv po {} db"
  shows "shop_inv po {} db'"
proof (cases "status = ProviderFailed")
  case True
  then show ?thesis using assms mark_failed_inv by (simp add: settle_refund_def)
next
  case False
  then show ?thesis
    using assms shop_inv_write_refunds
    by (fastforce simp: settle_refund_def split: sum.splits option.splits)
qed

lemma apply_refund_webhook_inv:
  assumes "apply_refund_webhook_event account payload db = Inr (x, db')" and "shop_inv po {} db"
  shows "shop_inv po {} db'"
  using assms
  by (auto simp: apply_refund_webhook_event_def split: option.splits sum.splits if_splits)

definition payload_genuine :: "(uuid \<Rightarrow> uuid) \<Rightarrow> webhook_payload \<Rightarrow> bool" where
  "payload_genuine po payload \<longleftrightarrow>
     (\<forall>pe. wp_payment payload = Some pe \<longrightarrow> po (pe_id pe) = pe_order pe)"

lemma apply_stored_event_inv:
  assumes "apply_stored_event acc w now db = Inr (x, db')" and inv: "shop_inv po {} db"
    and g: "payload_genuine po (w_payload w)"
  shows "shop_inv po {} db'"
proof -
  consider "db' = db"
    | account where "apply_refund_webhook_event account (w_payload w) db = Inr (x, db')"
    | pe r account cap where "wp_payment (w_payload w) = Some pe"
      "find_order_by_razorpay db (pe_order pe) = Some r"
      "apply_payment_entity account cap r pe now db = Inr (x, db')"
    using assms(1)
    by (auto simp: apply_stored_event_def apply_webhook_event_def apply_merchant_webhook_event_def
        split: option.splits if_splits sum.splits)
  then show ?thesis
  proof cases
    case 3
    then show ?thesis
      using apply_payment_entity_inv [OF inv find_order_by_razorpay_bound] g
      by (auto simp: payload_genuine_def)
  qed (use inv apply_refund_webhook_inv in auto)
qed

section \<open>Reachable states\<close>

text \<open>
  One step is one committed transaction or one single statement of a service, on whatever
  rows the service holds. \<open>po\<close> is the provider's assignment of payments to orders: a
  verified signature and a genuine webhook or API answer name a payment with its own order.
\<close>

inductive shop_step :: "(uuid \<Rightarrow> uuid) \<Rightarrow> shop \<Rightarrow> shop \<Rightarrow> bool" for po where
  place: "shop_step po db (record_creation (next_id db) user tenant (create_order_row r db))"
| numbering: "generate_order_number db = Inr (x, db') \<Longrightarrow> shop_step po db db'"
| retry: "retry_failed_order r user db = Inr (x, db') \<Longrightarrow> shop_step po db db'"
| bind: "bind_payment_account acc r db = Inr (x, db') \<Longrightarrow> shop_step po db db'"
| associate: "associate_razorpay_order r rp db = Inr (x, db') \<Longrightarrow> shop_step po db db'"
| attempt: "bound_to db r rp \<Longrightarrow> create_attempt r rp account now db = Inr (x, db') \<Longrightarrow>
    shop_step po db db'"
| verify: "bound_to db r (v_order dto) \<Longrightarrow> po (v_payment dto) = v_order dto \<Longrightarrow>
    (\<And>a. existing = Some a \<Longrightarrow> attempt_known db a (v_order dto)) \<Longrightarrow>
    verify_capture_tx r existing user dto now db = Inr (x, db') \<Longrightarrow> shop_step po db db'"
| receive: "shop_step po db (receive_event event_id account payload now db)"
| event: "payload_genuine po (w_payload w) \<Longrightarrow> apply_stored_event acc w now db = Inr (x, db') \<Longrightarrow>
    shop_step po db db'"
| webhook_row: "shop_step po db (update_webhook i f db)"
| reconciled: "bound_to db r rp \<Longrightarrow> o_razorpay r = Some rp \<Longrightarrow> po (cp_id cp) = rp \<Longrightarrow>
    reconcile_tx r cp now db = Inr (x, db') \<Longrightarrow> shop_step po db db'"
| stale: "fail_stale_tx r now db = Inr (x, db') \<Longrightarrow> shop_step po db db'"
| cancel: "perform_cancellation_tx captured r role actor reason audit now db = Inr (u, db') \<Longrightarrow>
    shop_step po db db'"
| refunded: "perform_refund_recording_tx r role actor reason audit now db = Inr (u, db') \<Longrightarrow>
    shop_step po db db'"
| status: "status_change_tx r to admin reason ctx now db = Inr (u, db') \<Longrightarrow> shop_step po db db'"
| reserve: "reserve_refund_tx ctx actor i amount reason db = Inr (x, db') \<Longrightarrow> shop_step po db db'"
| settle: "settle_refund i rp answer db = Inr (x, db') \<Longrightarrow> shop_step po db db'"
| failed: "mark_failed i why rp db = Inr (x, db') \<Longrightarrow> shop_step po db db'"
| mail: "(\<And>x. x_key (f x) = x_key x) \<Longrightarrow>
    shop_step po db (db\<lparr>outbox := update_rows p f (outbox db)\<rparr>)"
| lines: "shop_step po db (db\<lparr>order_items := order_items db @ its, next_id := next_id db + n\<rparr>)"
| audited: "shop_step po db (log_tenant_action ctx actor action target db)"

inductive shop_reachable :: "(uuid \<Rightarrow> uuid) \<Rightarrow> shop \<Rightarrow> bool" for po where
  start: "orders db = [] \<Longrightarrow> attempts db = [] \<Longrightarrow> histories db = [] \<Longrightarrow> shop_reachable po db"
| step: "shop_reachable po db \<Longrightarrow> shop_step po db db' \<Longrightarrow> shop_reachable po db'"

lemma start_inv:
  "orders db = [] \<Longrightarrow> attempts db = [] \<Longrightarrow> histories db = [] \<Longrightarrow> shop_inv po {} db"
  by (simp add: shop_inv_def orders_ok_def order_keys_def orders_unique_def attempts_ok_def
      attempts_unique_def history_ok_def log_matches_def status_of_def find_order_def paid_ok_def)

lemma shop_step_inv:
  assumes "shop_step po db db'" and inv: "shop_inv po {} db"
  shows "shop_inv po {} db'"
  using assms(1)
proof cases
  case (numbering x)
  then show ?thesis
    using inv by (elim shop_inv_same) (auto simp: generate_order_number_def Let_def split: if_splits)
next
  case (receive event_id account payload now)
  then show ?thesis using inv by (elim shop_inv_same) (auto simp: receive_event_def)
next
  case (webhook_row i f)
  then show ?thesis using inv by (simp add: update_webhook_def)
next
  case (mail f p)
  then have "map x_key (outbox db') = map x_key (outbox db)" by (simp add: map_update_rows)
  then show ?thesis using inv mail by (elim shop_inv_same) simp_all
next
  case (lines its n)
  then show ?thesis using inv by (elim shop_inv_same) simp_all
next
  case (audited ctx actor action target)
  then show ?thesis using inv by simp
next
  case (place user tenant r)
  then show ?thesis using place_order_inv [OF inv] by simp
next
  case (retry r user x)
  then show ?thesis by (rule retry_failed_order_inv [OF inv])
next
  case (bind acc r x)
  then show ?thesis by (rule bind_payment_account_inv [OF inv])
next
  case (associate r rp x)
  then show ?thesis by (rule associate_razorpay_order_inv [OF inv])
next
  case (attempt r rp account now x)
  then show ?thesis by (rule create_attempt_inv [OF inv])
next
  case (verify r dto existing user now x)
  then show ?thesis by (rule verify_capture_tx_inv [OF inv])
next
  case (event w acc now x)
  then show ?thesis using apply_stored_event_inv inv by blast
next
  case (reconciled r rp cp now x)
  then show ?thesis by (rule reconcile_tx_inv [OF inv])
next
  case (stale r now x)
  then show ?thesis by (rule fail_stale_tx_inv [OF inv])
next
  case (cancel captured r role actor reason audit now u)
  then show ?thesis using perform_cancellation_inv inv by blast
next
  case (refunded r role actor reason audit now u)
  then show ?thesis using perform_refund_recording_inv inv by blast
next
  case (status r to admin reason ctx now u)
  then show ?thesis using status_change_inv inv by blast
next
  case (reserve ctx actor i amount reason x)
  then show ?thesis using reserve_refund_inv inv by blast
next
  case (settle i rp answer x)
  then show ?thesis using settle_refund_inv inv by blast
next
  case (failed i why rp x)
  then show ?thesis using mark_failed_inv inv by blast
qed

lemma shop_reachable_inv: "shop_reachable po db \<Longrightarrow> shop_inv po {} db"
  by (induction rule: shop_reachable.induct) (auto intro: start_inv shop_step_inv)


text \<open>
  C2. In every reachable state, an order that is past payment (paid, and everything after) was
  paid: exactly one of its payment attempts is captured and its ORDER_PAID event is in the
  outbox, unless the history records that an admin moved it to paid by hand.
\<close>

theorem paid_orders_are_paid:
  assumes "shop_reachable po db" and "r \<in> set (orders db)" and "past_payment (o_status r)"
  shows "(\<exists>!a. a \<in> set (attempts db) \<and> a_order a = o_id r \<and> a_status a = Captured) \<and>
      OrderPaidKey (o_id r) \<in> set (map x_key (outbox db)) \<or>
    marked_paid_by_admin db (o_id r)"
proof -
  have inv: "shop_inv po {} db" by (rule shop_reachable_inv [OF assms(1)])
  then have "paid db (o_id r) \<and> announced db (o_id r) \<or> marked_paid_by_admin db (o_id r)"
    using assms(2,3) by (auto simp: shop_inv_def paid_ok_def)
  moreover have "\<exists>!a. a \<in> set (attempts db) \<and> a_order a = o_id r \<and> a_status a = Captured"
    if "paid db (o_id r)"
  proof -
    have u: "attempts_unique (attempts db)" using inv by (simp add: shop_inv_def attempts_ok_def)
    obtain a where "a \<in> set (attempts db)" "a_order a = o_id r" "a_status a = Captured"
      using \<open>paid db (o_id r)\<close> unfolding paid_def by blast
    then show ?thesis using attempts_unique_captured [OF u] by (intro ex1I [of _ a]) auto
  qed
  ultimately show ?thesis by (auto simp: announced_def)
qed

text \<open>
  C4. In every reachable state, an attempt that carries a payment belongs to the order the
  customer paid for: the provider's order of that payment is the one the attempt's order is
  bound to, and no other order is bound to it.
\<close>

theorem payments_stay_with_their_order:
  assumes "shop_reachable po db" and "a \<in> set (attempts db)" and "a_payment a = Some p"
  shows "\<exists>!r. r \<in> set (orders db) \<and> o_razorpay r = Some (po p) \<and> o_id r = a_order a"
proof -
  have inv: "shop_inv po {} db" by (rule shop_reachable_inv [OF assms(1)])
  then obtain r where "r \<in> set (orders db)" "o_id r = a_order a" "o_razorpay r = Some (po p)"
    using assms(2,3) by (auto simp: shop_inv_def attempts_ok_def)
  moreover have "orders_unique (orders db)" using inv by (simp add: shop_inv_def orders_ok_def)
  ultimately show ?thesis using orders_unique_razorpay by blast
qed

section \<open>A paid order\<close>

text \<open>One customer checks out, opens the payment and verifies it: the state after each step.\<close>

definition empty_shop :: shop where
  "empty_shop = \<lparr>orders = [], order_items = [], attempts = [], refunds = [], histories = [],
     outbox = [], audits = [], webhooks = [], user_email = (\<lambda>_. Some ''a@b.c''),
     memberships = (\<lambda>_ _. None), order_counter = None, next_id = 0\<rparr>"

definition sample_order :: order_row where
  "sample_order = \<lparr>o_id = 0, o_number = ''PF-000001'', o_user = 9, o_status = PendingPayment,
     o_subtotal = Dec 10000 2, o_shipping_fee = Dec 0 2, o_total = Dec 10000 2, o_discount = Dec 0 2,
     o_tax_mode = Inclusive, o_taxable = Dec 10000 2, o_tax = Dec 0 2, o_tax_rate = None,
     o_coupon = None, o_coupon_code = None, o_currency = ''INR'', o_razorpay = None,
     o_account = None, o_tenant = 1, o_store = Some 5,
     o_shipping = \<lparr>recipient_name = ''A'', phone = ''1'', address_line1 = ''X'', address_line2 = None,
       city = ''C'', region = ''R'', postal_code = ''1'', country = ''IN''\<rparr>, o_created = 0\<rparr>"

definition sample_placed :: shop where
  "sample_placed = record_creation 0 9 1 (create_order_row sample_order empty_shop)"

definition sample_bound :: shop where
  "sample_bound = snd (run_tx (associate_razorpay_order sample_order 77) sample_placed)"

definition sample_opened :: shop where
  "sample_opened =
     snd (run_tx (create_attempt (sample_order\<lparr>o_razorpay := Some 77\<rparr>) 77 3 10) sample_bound)"

definition sample_dto :: verify_dto where
  "sample_dto = \<lparr>v_order = 77, v_payment = 88, v_signature = ''s''\<rparr>"

definition sample_paid :: shop where
  "sample_paid = snd (run_tx
     (verify_capture_tx (sample_order\<lparr>o_razorpay := Some 77\<rparr>) None 9 sample_dto 20) sample_opened)"

lemmas sample_defs =
  empty_shop_def sample_order_def sample_placed_def sample_bound_def sample_opened_def
  sample_dto_def sample_paid_def record_creation_def create_order_row_def
  associate_razorpay_order_def razorpay_unset_def write_orders_def orders_unique_def run_tx_def
  create_attempt_def write_attempts_def attempts_unique_def verify_capture_tx_def
  open_attempt_def not_captured_def transition_order_def order_hit_def cas_order_def
  insert_outbox_event_def enqueue_outbox_event_def find_order_or_fail_def find_order_def
  is_transition_allowed_def Let_def

lemma sample_placed_reachable: "shop_reachable (\<lambda>_. 77) sample_placed"
proof -
  have "shop_reachable (\<lambda>_. 77) empty_shop"
    by (rule shop_reachable.start) (simp_all add: empty_shop_def)
  moreover have "shop_step (\<lambda>_. 77) empty_shop sample_placed"
    using shop_step.place [of "\<lambda>_. 77" empty_shop 9 1 sample_order]
    by (simp add: sample_placed_def empty_shop_def)
  ultimately show ?thesis by (rule shop_reachable.step)
qed

lemma sample_bound_reachable: "shop_reachable (\<lambda>_. 77) sample_bound"
proof -
  have "associate_razorpay_order sample_order 77 sample_placed = Inr (77, sample_bound)"
    by (simp add: sample_defs)
  then show ?thesis using sample_placed_reachable shop_reachable.step shop_step.associate by blast
qed

lemma sample_opened_reachable: "shop_reachable (\<lambda>_. 77) sample_opened"
proof -
  have "\<exists>a. create_attempt (sample_order\<lparr>o_razorpay := Some 77\<rparr>) 77 3 10 sample_bound =
      Inr (a, sample_opened)"
    by (simp add: sample_defs)
  moreover have "bound_to sample_bound (sample_order\<lparr>o_razorpay := Some 77\<rparr>) 77"
    by (simp add: bound_to_def sample_defs)
  ultimately show ?thesis
    using sample_bound_reachable shop_reachable.step shop_step.attempt by blast
qed

lemma sample_paid_reachable: "shop_reachable (\<lambda>_. 77) sample_paid"
proof -
  have "\<exists>x. verify_capture_tx (sample_order\<lparr>o_razorpay := Some 77\<rparr>) None 9 sample_dto 20 sample_opened =
      Inr (x, sample_paid)"
    by (simp add: sample_defs)
  moreover have "bound_to sample_opened (sample_order\<lparr>o_razorpay := Some 77\<rparr>) (v_order sample_dto)"
    by (simp add: bound_to_def sample_defs)
  ultimately have "shop_step (\<lambda>_. 77) sample_opened sample_paid"
    using shop_step.verify [where existing = None and dto = sample_dto]
    by (auto simp: sample_dto_def)
  then show ?thesis using sample_opened_reachable shop_reachable.step by blast
qed

lemma sample_paid_order: "map o_status (orders sample_paid) = [Paid]"
  by (simp add: sample_defs)


theorem paid_orders_are_paid_witness:
  "\<exists>r \<in> set (orders sample_paid). past_payment (o_status r) \<and>
     \<not> marked_paid_by_admin sample_paid (o_id r) \<and>
     (\<exists>!a. a \<in> set (attempts sample_paid) \<and> a_order a = o_id r \<and> a_status a = Captured)"
proof -
  obtain r where r: "r \<in> set (orders sample_paid)" "o_status r = Paid"
    by (simp add: sample_defs)
  have "\<not> marked_paid_by_admin sample_paid (o_id r)"
    by (simp add: marked_paid_by_admin_def admin_tag_def sample_defs)
  moreover have "past_payment (o_status r)" using r by (simp add: past_payment_def)
  ultimately show ?thesis
    using paid_orders_are_paid [OF sample_paid_reachable r(1)] r(1) by blast
qed

theorem payments_stay_with_their_order_witness:
  "\<exists>a \<in> set (attempts sample_paid). a_payment a = Some 88 \<and>
     (\<exists>!r. r \<in> set (orders sample_paid) \<and> o_razorpay r = Some 77 \<and> o_id r = a_order a)"
proof -
  obtain a where a: "a \<in> set (attempts sample_paid)" "a_payment a = Some 88"
    by (simp add: sample_defs)
  then show ?thesis using payments_stay_with_their_order [OF sample_paid_reachable a] by blast
qed

end
