(* ===== verification/ShopProperties.thy ===== *)
theory ShopProperties
  imports ShopReach
begin

text \<open>
  What the operations of orders, payments, refunds and the pollers promise, branch by branch,
  and the places where the code does something its comments do not say.
\<close>

section \<open>Order lists and tenants\<close>

text \<open>
  The pages of an admin's order list, one after the other up to the reported page count,
  show every order of the admin's tenant that matches the filters exactly once, newest first,
  and no order of another tenant.
\<close>

theorem admin_pages_cover_tenant_orders:
  assumes "0 < q_limit q"
  shows "concat (map (\<lambda>p. fst (admin_list_orders ctx (q\<lparr>q_page := p\<rparr>) db))
        [1..<Suc (pm_total_pages (snd (admin_list_orders ctx q db)))]) =
      map (to_list_item_view db)
        (sort_key (\<lambda>r. - o_created r) (filter (admin_where (tc_tenant ctx) q) (orders db))) \<and>
    (\<forall>r \<in> set (filter (admin_where (tc_tenant ctx) q) (orders db)). o_tenant r = tc_tenant ctx)"
proof -
  have w: "admin_where (tc_tenant ctx) (q\<lparr>q_page := p\<rparr>) = admin_where (tc_tenant ctx) q" for p
    by (simp add: admin_where_def fun_eq_iff)
  let ?rows = "sort_key (\<lambda>r. - o_created r) (filter (admin_where (tc_tenant ctx) q) (orders db))"
  have "concat (map (\<lambda>p. map (to_list_item_view db) (page_slice p (q_limit q) ?rows))
      [1..<Suc (total_pages (q_limit q) (length ?rows))]) = map (to_list_item_view db) ?rows"
    by (rule pages_cover_map [OF assms])
  then show ?thesis
    by (simp add: admin_list_orders_def paginated_list_def Let_def w) (simp add: admin_where_def)
qed

definition sample_query :: order_query where
  "sample_query = \<lparr>q_status = None, q_user = None, q_from = None, q_to = None, q_page = 1, q_limit = 2\<rparr>"

theorem admin_pages_cover_tenant_orders_witness:
  "concat (map (\<lambda>p. fst (admin_list_orders \<lparr>tc_tenant = 1, tc_session = None\<rparr>
        (sample_query\<lparr>q_page := p\<rparr>) sample_paid))
      [1..<Suc (pm_total_pages (snd (admin_list_orders \<lparr>tc_tenant = 1, tc_session = None\<rparr>
        sample_query sample_paid)))]) =
    map (to_list_item_view sample_paid) (sort_key (\<lambda>r. - o_created r)
      (filter (admin_where 1 sample_query) (orders sample_paid)))"
  using admin_pages_cover_tenant_orders [of sample_query "\<lparr>tc_tenant = 1, tc_session = None\<rparr>" sample_paid]
  by (simp add: sample_query_def)

text \<open>What a transition leaves of the other orders.\<close>

lemma cas_order_others:
  "\<forall>k. k \<noteq> i \<longrightarrow> status_of (cas_order i from to how db) k = status_of db k \<and>
     log_of (cas_order i from to how db) k = log_of db k"
  by (simp add: cas_order_other)

definition only_order :: "uuid \<Rightarrow> shop \<Rightarrow> shop \<Rightarrow> bool" where
  "only_order i db db' \<longleftrightarrow>
     (\<forall>k. k \<noteq> i \<longrightarrow> status_of db' k = status_of db k \<and> log_of db' k = log_of db k)"

lemma only_order_cas: "only_order i db (cas_order i from to how db)"
  by (simp add: only_order_def cas_order_other)

lemma only_order_same:
  "orders db' = orders db1 \<Longrightarrow> histories db' = histories db1 \<Longrightarrow> only_order i db db1 \<Longrightarrow> only_order i db db'"
  by (simp add: only_order_def status_of_def find_order_def log_of_def)

lemma only_order_frame:
  "orders db1 = orders db \<Longrightarrow> histories db1 = histories db \<Longrightarrow> only_order i db1 db' \<Longrightarrow> only_order i db db'"
  by (simp add: only_order_def status_of_def find_order_def log_of_def)

lemma only_order_refl [simp]: "only_order i db db"
  by (simp add: only_order_def)

lemma log_tenant_action_frames [simp, frames]:
  "orders (log_tenant_action ctx u s i db) = orders db"
  "histories (log_tenant_action ctx u s i db) = histories db"
  "attempts (log_tenant_action ctx u s i db) = attempts db"
  "refunds (log_tenant_action ctx u s i db) = refunds db"
  "outbox (log_tenant_action ctx u s i db) = outbox db"
  by (simp_all add: log_tenant_action_def)

lemma write_refunds_frames:
  "write_refunds rs db = Inr db' \<Longrightarrow> orders db' = orders db \<and> histories db' = histories db \<and>
     attempts db' = attempts db \<and> outbox db' = outbox db \<and> refunds db' = rs \<and>
     user_email db' = user_email db"
  by (auto simp: write_refunds_def split: if_splits)

lemma transition_with_history_result:
  assumes "transition_order_with_history r to role actor reason b now db = Inr (u, db')"
  shows "is_transition_allowed (o_status r) to \<and> attempts db' = attempts db \<and>
    refunds db' = refunds db \<and>
    orders db' = orders (cas_order (o_id r) (o_status r) to
      (Some actor, transition_note role to reason b, o_tenant r) db) \<and>
    histories db' = histories (cas_order (o_id r) (o_status r) to
      (Some actor, transition_note role to reason b, o_tenant r) db)"
proof -
  have ok: "is_transition_allowed (o_status r) to"
    using assms by (auto simp: transition_order_with_history_def assert_transition_allowed_def
        split: if_splits)
  let ?c = "cas_order (o_id r) (o_status r) to
      (Some actor, transition_note role to reason b, o_tenant r) db"
  consider "db' = db" "?c = db" | email where "enqueue_outbox_event OrderStatusChanged
      (StatusChangedKey (o_id r) to) email now ?c = Inr db'"
    using assms ok
    by (auto simp: transition_order_with_history_def assert_transition_allowed_def Let_def
        cas_order_def split: if_splits option.splits sum.splits)
  then show ?thesis using ok by cases (auto dest: enqueue_Inr)
qed

lemma transition_with_history_only:
  "transition_order_with_history r to role actor reason b now db = Inr (u, db') \<Longrightarrow>
     only_order (o_id r) db db'"
  by (drule transition_with_history_result) (auto intro: only_order_same [OF _ _ only_order_cas])

lemma perform_cancellation_only:
  assumes "perform_cancellation_tx captured r role actor reason audit now db = Inr (u, db')"
  shows "only_order (o_id r) db db'"
proof -
  obtain db1 b db2 where
    s: "db1 = db \<or> (\<exists>rs. write_refunds rs (db\<lparr>next_id := Suc (next_id db)\<rparr>) = Inr db1)"
    and t: "transition_order_with_history r Cancelled role actor reason b now db1 = Inr ((), db2)"
    and l: "db' = (case audit of None \<Rightarrow> db2
      | Some (ctx, admin) \<Rightarrow> log_tenant_action ctx admin ''order.cancel'' (o_id r) db2)"
    using assms by (auto simp: perform_cancellation_tx_def Let_def split: sum.splits)
      (auto split: option.splits if_splits)
  have "orders db1 = orders db" "histories db1 = histories db"
    using s by (auto dest: write_refunds_frames)
  then have "only_order (o_id r) db db2"
    using only_order_frame transition_with_history_only [OF t] by blast
  then show ?thesis using l by (auto intro: only_order_same split: option.splits)
qed

lemma perform_refund_recording_only:
  assumes "perform_refund_recording_tx r role actor reason audit now db = Inr (u, db')"
  shows "only_order (o_id r) db db'"
proof -
  obtain rs db2 where
    t: "transition_order_with_history r Refunded role actor reason False now
      (db\<lparr>refunds := rs\<rparr>) = Inr ((), db2)"
    and l: "db' = (case audit of None \<Rightarrow> db2
      | Some (ctx, admin) \<Rightarrow> log_tenant_action ctx admin ''order.refund_record'' (o_id r) db2)"
    using assms by (auto simp: perform_refund_recording_tx_def Let_def split: sum.splits)
  have "only_order (o_id r) db db2"
    by (rule only_order_frame [OF _ _ transition_with_history_only [OF t]]) simp_all
  then show ?thesis using l by (auto intro: only_order_same split: option.splits)
qed

lemma status_change_only:
  assumes "status_change_tx r to admin reason ctx now db = Inr (u, db')"
  shows "only_order (o_id r) db db'"
  using assms transition_with_history_only
  by (fastforce simp: status_change_tx_def intro: only_order_same split: sum.splits)

text \<open>
  An admin's status change that succeeds was made on an order of the admin's own tenant,
  and no other order changed its status or its history. On an order of another tenant it is
  "not found".
\<close>

theorem admin_transition_stays_in_tenant:
  "case run_tx (admin_transition_status ctx admin i to reason now) db of
     (Inr v, db') \<Rightarrow> (\<exists>r. find_order db i = Some r \<and> o_tenant r = tc_tenant ctx) \<and>
       (\<forall>k. k \<noteq> i \<longrightarrow> status_of db' k = status_of db k \<and> log_of db' k = log_of db k)
   | (Inl e, db') \<Rightarrow> db' = db \<and>
       ((\<exists>r. find_order db i = Some r \<and> o_tenant r \<noteq> tc_tenant ctx) \<longrightarrow> e = NotFound ''Not Found'')"
proof (cases "admin_transition_status ctx admin i to reason now db")
  case (Inl e)
  then show ?thesis
    by (auto simp: run_tx_def admin_transition_status_def find_order_or_throw_def
        assert_object_in_tenant_def split: if_splits)
next
  case (Inr q)
  then obtain v db' where q: "admin_transition_status ctx admin i to reason now db = Inr (v, db')"
    by (cases q) auto
  then obtain r where r: "find_order db i = Some r" "o_tenant r = tc_tenant ctx"
    by (auto simp: admin_transition_status_def find_order_or_throw_def assert_object_in_tenant_def
        split: option.splits if_splits)
  then have id: "o_id r = i" by (auto simp: find_order_def dest: find_SomeD)
  consider "db' = db"
    | c u where "perform_cancellation_tx c r AdminRole admin reason (Some (ctx, admin)) now db = Inr (u, db')"
    | u where "perform_refund_recording_tx r AdminRole admin reason (Some (ctx, admin)) now db = Inr (u, db')"
    | u where "status_change_tx r to admin reason ctx now db = Inr (u, db')"
    using q r
    by (auto simp: admin_transition_status_def find_order_or_throw_def assert_object_in_tenant_def
        map_sum_def split: if_splits sum.splits)
  then have "only_order i db db'"
    using perform_cancellation_only perform_refund_recording_only status_change_only id
    by cases auto
  then show ?thesis using r q by (simp add: run_tx_def only_order_def)
qed

theorem admin_transition_stays_in_tenant_witness:
  "fst (run_tx (admin_transition_status \<lparr>tc_tenant = 2, tc_session = None\<rparr> 4 0 Confirmed None 30)
     sample_paid) = Inl (NotFound ''Not Found'')"
proof -
  have "find_order sample_paid 0 = Some (hd (orders sample_paid))"
    "o_tenant (hd (orders sample_paid)) = 1"
    by (simp_all add: sample_defs)
  then show ?thesis
    using admin_transition_stays_in_tenant
      [where ctx = "\<lparr>tc_tenant = 2, tc_session = None\<rparr>" and admin = 4 and i = 0
        and to = Confirmed and reason = None and now = 30 and db = sample_paid]
    by (auto split: prod.splits sum.splits)
qed

section \<open>Order numbers\<close>

text \<open>
  Two order numbers that were generated one after the other, with any other work in
  between that does not move the counter back, are different texts.
\<close>

theorem order_numbers_distinct:
  assumes "generate_order_number db1 = Inr (x, db2)" and "generate_order_number db3 = Inr (y, db4)"
    and "\<exists>m n. order_counter db2 = Some m \<and> order_counter db3 = Some n \<and> m \<le> n"
  shows "x \<noteq> y"
proof -
  obtain m n where "order_counter db2 = Some m" "order_counter db3 = Some n" "m \<le> n"
    using assms(3) by blast
  then have "x = format_order_number m" "y = format_order_number (Suc n)"
    using assms(1,2) by (auto simp: generate_order_number_def Let_def split: if_splits)
  then show ?thesis using \<open>m \<le> n\<close> pad_start_inj [of 6 m "Suc n"] by (auto simp: format_order_number_def)
qed

theorem order_numbers_distinct_witness:
  "\<exists>x y db1 db2. generate_order_number empty_shop = Inr (x, db1) \<and>
     generate_order_number db1 = Inr (y, db2) \<and> x \<noteq> y"
proof -
  obtain x db1 where 1: "generate_order_number empty_shop = Inr (x, db1)" "order_counter db1 = Some 1"
    by (simp add: generate_order_number_def empty_shop_def)
  moreover obtain y db2 where 2: "generate_order_number db1 = Inr (y, db2)"
    using 1(2) by (simp add: generate_order_number_def)
  ultimately show ?thesis using order_numbers_distinct [OF 1(1) 2] by auto
qed

section \<open>Webhooks\<close>

definition capture_matches :: "order_row \<Rightarrow> payment_entity \<Rightarrow> bool" where
  "capture_matches r pe \<longleftrightarrow>
     (\<exists>amount. pe_amount pe = Some amount \<and>
        assert_captured_payment_matches_order r (pe_order pe) amount
          (case pe_currency pe of None \<Rightarrow> default_currency | Some c \<Rightarrow> c) = Inr ())"

lemma assert_captured_cases:
  "assert_captured_payment_matches_order r rp amount currency = Inr () \<or>
   (\<exists>m. assert_captured_payment_matches_order r rp amount currency = Inl (PaymentMismatch m))"
  by (simp add: assert_captured_payment_matches_order_def)

lemma stamp_payment_distinct:
  assumes "distinct (map a_payment (filter (\<lambda>a. a_payment a \<noteq> None) as))"
    and "distinct (map a_id as)" and "\<forall>a \<in> set as. a_payment a \<noteq> Some q"
  shows "distinct (map a_payment (filter (\<lambda>a. a_payment a \<noteq> None)
    (update_rows (\<lambda>x. a_id x = i) (\<lambda>x. x\<lparr>a_payment := Some q\<rparr>) (as :: attempt_row list))))"
  using assms
proof (induction as)
  case (Cons a as)
  have sub: "x \<in> set (update_rows (\<lambda>x. a_id x = i) (\<lambda>x. x\<lparr>a_payment := Some q\<rparr>) as) \<Longrightarrow>
      a_payment x = Some q \<or> x \<in> set as" for x
    by (auto simp: in_update_rows split: if_splits)
  show ?case
  proof (cases "a_id a = i")
    case True
    then have "update_rows (\<lambda>x. a_id x = i) (\<lambda>x. x\<lparr>a_payment := Some q\<rparr>) as = as"
      using Cons.prems(2) by (intro update_rows_none) (auto simp: image_iff)
    then show ?thesis using Cons.prems True by (auto split: if_splits)
  next
    case False
    then have IH: "distinct (map a_payment (filter (\<lambda>a. a_payment a \<noteq> None)
        (update_rows (\<lambda>x. a_id x = i) (\<lambda>x. x\<lparr>a_payment := Some q\<rparr>) as)))"
      using Cons by (auto split: if_splits)
    have "a_payment a \<notin> a_payment ` set (filter (\<lambda>a. a_payment a \<noteq> None)
        (update_rows (\<lambda>x. a_id x = i) (\<lambda>x. x\<lparr>a_payment := Some q\<rparr>) as))" if "a_payment a \<noteq> None"
      using that Cons.prems(1,3) sub by (auto simp: image_iff split: if_splits) force
    then show ?thesis using IH False by simp
  qed
qed simp

lemma find_or_create_succeeds:
  assumes inv: "shop_inv po X db" and amount: "pe_amount pe = Some n"
  shows "\<exists>a db'. find_or_create_with account r pe now db = Inr (a, db')"
proof (cases "find_attempt_by_payment db (pe_id pe)")
  case (Some a)
  then show ?thesis by (simp add: find_or_create_with_def)
next
  case None
  then have none: "\<forall>a \<in> set (attempts db). a_payment a \<noteq> Some (pe_id pe)"
    by (auto simp: find_attempt_by_payment_def dest: find_NoneD)
  have u: "attempts_unique (attempts db)" "distinct (map a_id (attempts db))"
    using inv by (simp_all add: shop_inv_def attempts_ok_def)
  have "map a_order (filter (\<lambda>a. a_status a = Captured)
      (update_rows p (\<lambda>x. x\<lparr>a_payment := v\<rparr>) as)) =
    map a_order (filter (\<lambda>a. a_status a = Captured) (as :: attempt_row list))" for p v as
    by (induction as) auto
  then have up: "attempts_unique (update_rows (\<lambda>x. a_id x = i)
      (\<lambda>x. x\<lparr>a_payment := Some (pe_id pe)\<rparr>) (attempts db))" for i
    using u stamp_payment_distinct [OF _ u(2) none] by (simp add: attempts_unique_def)
  have "attempts_unique (attempts db @ [a])"
    if "a_payment a = Some (pe_id pe)" "a_status a = Initiated" for a
    using u(1) that none by (auto simp: attempts_unique_def)
  then show ?thesis
    using None amount up
    by (auto simp: find_or_create_with_def big_int_def Let_def write_attempts_def
        split: option.splits)
qed


lemma fail_order_result:
  assumes "fail_order_tx r note now db = Inr (b, db')"
  shows "only_order (o_id r) db db' \<and> map o_account (orders db') = map o_account (orders db)"
proof -
  obtain x db1 where t: "transition_order r PaymentFailed None note db = Inr (x, db1)"
    and rest: "db' = db1 \<or>
      insert_outbox_event OrderStatusChanged r (Some PaymentFailed) now db1 = Inr db'"
    using assms by (auto simp: fail_order_tx_def map_sum_def split: sum.splits option.splits)
  have "orders db' = orders db1" "histories db' = histories db1"
    using rest by (auto simp: insert_outbox_event_def Let_def dest!: enqueue_Inr)
  then show ?thesis
    using transition_order_Inr(2) [OF t] only_order_same [OF _ _ only_order_cas]
    by (simp add: cas_order_map_orders)
qed

lemma write_attempts_frames:
  "write_attempts as db = Inr db' \<Longrightarrow> orders db' = orders db \<and> histories db' = histories db"
  by (auto simp: write_attempts_Inr)

lemma find_or_create_frames:
  "find_or_create_with account r pe now db = Inr (a, db') \<Longrightarrow>
     orders db' = orders db \<and> histories db' = histories db"
  by (auto simp: find_or_create_with_def map_sum_def Let_def
      split: option.splits sum.splits dest!: write_attempts_frames)

lemma apply_captured_only:
  assumes "apply_captured r a pe now db = Inr (u, db')"
  shows "only_order (o_id r) db db'"
proof -
  consider "db' = db"
    | as where "write_attempts as db = Inr db'"
    | as db1 x db2 where "write_attempts as db = Inr db1"
        "transition_order r Paid None ''Payment captured (webhook)'' db1 = Inr (x, db2)"
        "db' = db2 \<or> insert_outbox_event OrderPaid r None now db2 = Inr db'"
    using assms
    by (auto simp: apply_captured_def map_sum_def split: sum.splits option.splits if_splits)
  then show ?thesis
  proof cases
    case 2
    then show ?thesis using only_order_same [OF _ _ only_order_refl] write_attempts_frames by blast
  next
    case 3
    have "orders db' = orders db2" "histories db' = histories db2"
      using 3(3) by (auto simp: insert_outbox_event_def Let_def dest!: enqueue_Inr)
    moreover have "only_order (o_id r) db1 db2"
      using transition_order_Inr(2) [OF 3(2)] only_order_cas by simp
    ultimately show ?thesis
      using only_order_frame [of db1 db] only_order_same write_attempts_frames [OF 3(1)] by blast
  qed simp
qed

lemma apply_failed_only:
  assumes "apply_failed r a pe now db = Inr (u, db')"
  shows "only_order (o_id r) db db'"
proof (cases "hits (not_final (a_id a)) (attempts db) = 1")
  case False
  then show ?thesis using assms by (auto simp: apply_failed_def)
next
  case True
  then obtain as db1 b where w: "write_attempts as db = Inr db1"
    and f: "fail_order_tx r ''Payment failed (webhook)'' now db1 = Inr (b, db')"
    using assms by (auto simp: apply_failed_def map_sum_def split: sum.splits)
  show ?thesis
    using only_order_frame write_attempts_frames [OF w] fail_order_result [OF f] by blast
qed

lemma apply_payment_entity_only:
  assumes "apply_payment_entity account is_capture r pe now db = Inr (x, db')"
  shows "only_order (o_id r) db db'"
proof -
  obtain a db1 u where f: "find_or_create_with account r pe now db = Inr (a, db1)"
    and s: "(if is_capture then apply_captured r a pe now db1 else apply_failed r a pe now db1)
       = Inr (u, db')"
    using assms by (auto simp: apply_payment_entity_def map_sum_def split: sum.splits)
  have "only_order (o_id r) db1 db'"
    using s apply_captured_only apply_failed_only by (cases is_capture) auto
  then show ?thesis using only_order_frame find_or_create_frames [OF f] by blast
qed

text \<open>
  A merchant's webhook, whatever it says, leaves every order alone that is not bound to the
  account whose secret signed it: such an order keeps its status and its history.
\<close>

theorem merchant_webhook_stays_in_account:
  assumes keys: "order_keys db" and k: "find_order db k = Some r" "o_account r \<noteq> Some account"
    and c: "apply_merchant_webhook_event acc account payload now db = Inr (x, db')"
  shows "status_of db' k = status_of db k \<and> log_of db' k = log_of db k"
proof -
  consider (refund) "apply_refund_webhook_event account payload db = Inr (x, db')"
    | (ignored) "db' = db"
    | (payment) pe r' cap where "find_order_by_razorpay db (pe_order pe) = Some r'"
      "o_account r' = Some account"
      "apply_payment_entity (Some account) cap r' pe now db = Inr (x, db')"
    using c
    by (simp add: apply_merchant_webhook_event_def split: option.splits if_splits sum.splits)
  then show ?thesis
  proof cases
    case refund
    then have "orders db' = orders db" "histories db' = histories db"
      by (auto simp: apply_refund_webhook_event_def split: option.splits if_splits sum.splits)
    then show ?thesis by (simp add: status_of_def find_order_def log_of_def)
  next
    case ignored
    then show ?thesis by simp
  next
    case payment
    have r': "r' \<in> set (orders db)"
      using payment(1) by (simp add: find_order_by_razorpay_def find_SomeD)
    have r: "r \<in> set (orders db)" "o_id r = k"
      using k(1) find_SomeD unfolding find_order_def by fast+
    have "o_id r' \<noteq> k"
    proof
      assume "o_id r' = k"
      then have "r = r'" using distinct_key_inj [of o_id "orders db" r r'] keys r r'
        by (simp add: order_keys_def)
      then show False using k(2) payment(2) by simp
    qed
    then show ?thesis
      using apply_payment_entity_only [OF payment(3)] by (simp add: only_order_def)
  qed
qed

text \<open>A webhook of the sample's payment with a wrong amount, and one with the right one.\<close>

definition sample_event :: "int \<Rightarrow> webhook_payload" where
  "sample_event amount =
     \<lparr>wp_event = captured_event,
      wp_payment = Some \<lparr>pe_id = 88, pe_order = 77, pe_amount = Some amount,
        pe_currency = Some ''INR'', pe_method = None, pe_error_code = None,
        pe_error_description = None\<rparr>,
      wp_refund = None, wp_created_at = Some 5\<rparr>"

definition sample_received :: "int \<Rightarrow> shop" where
  "sample_received amount =
     receive_event ''evt_1'' None (sample_event amount) 30 sample_opened"

definition no_accounts :: accounts_db where
  "no_accounts = \<lparr>accounts = [], stores = [], acc_audits = [], acc_memberships = (\<lambda>_ _. None), acc_next = 0\<rparr>"

lemma sample_received_reachable: "shop_reachable (\<lambda>_. 77) (sample_received n)"
  using sample_opened_reachable shop_reachable.step shop_step.receive
  by (fastforce simp: sample_received_def)

lemma sample_received_webhooks:
  "webhooks (sample_received n) = [\<lparr>w_id = 2, w_event_id = ''evt_1'', w_account = None,
     w_payload = sample_event n, w_status = Received, w_attempts = 0, w_available = 30,
     w_error = None, w_processed = None\<rparr>]"
  by (simp add: sample_received_def receive_event_def sample_defs)

lemma sample_received_order:
  "find_order_by_razorpay (sample_received n) 77 = Some (hd (orders sample_opened))"
  by (simp add: sample_received_def receive_event_def find_order_by_razorpay_def sample_defs)


definition sample_account :: accounts_db where
  "sample_account = \<lparr>accounts = [\<lparr>pa_id = 3, pa_tenant = 1, pa_store = 5, pa_provider = Razorpay,
        pa_status = AccountActive, pa_mode = TestMode, pa_name = None, pa_credentials = Some 0,
        pa_credentials_at = None, pa_connected = None, pa_disabled = None,
        pa_disabled_reason = None, pa_created = 0\<rparr>],
      stores = [], acc_audits = [], acc_memberships = (\<lambda>_ _. None), acc_next = 4\<rparr>"

theorem merchant_webhook_stays_in_account_witness:
  "\<exists>x db'. apply_merchant_webhook_event sample_account 3 (sample_event 10000) 40 sample_opened =
       Inr (x, db') \<and> status_of db' 0 = Some PendingPayment"
proof -
  obtain x db' where r: "apply_merchant_webhook_event sample_account 3 (sample_event 10000) 40
      sample_opened = Inr (x, db')"
    by (simp add: apply_merchant_webhook_event_def sample_event_def refund_processed_event_def
        refund_failed_event_def captured_event_def failed_event_def find_order_by_razorpay_def
        sample_defs)
  have "order_keys sample_opened" by (simp add: order_keys_def sample_defs)
  moreover obtain o1 where "find_order sample_opened 0 = Some o1" "o_account o1 \<noteq> Some 3"
    "o_status o1 = PendingPayment"
    by (simp add: sample_defs)
  ultimately show ?thesis
    using merchant_webhook_stays_in_account [OF _ _ _ r] r by (fastforce simp: status_of_def)
qed

section \<open>Retries\<close>

text \<open>
  A stored webhook that fails with a retryable error is tried at most six times: a fresh
  row is a dead letter after exactly six failures and not before, its counter never passes
  six, and each delay is at least as long as the one before.
\<close>

theorem webhook_retries_bounded:
  assumes "w_status w = Received" and "w_attempts w = 0"
  shows "(\<not> webhook_open (iterate webhook_failure xs w) \<longleftrightarrow> 6 \<le> length xs) \<and>
    w_attempts (iterate webhook_failure xs w) \<le> 6 \<and>
    sorted (map (backoff webhook_backoff) [1..<6])"
  using assms webhook_retry.retries_end [of w xs] webhook_retry.attempts_bounded [of w xs]
  by (simp add: webhook_open_def webhook_max_attempts_def backoff_def webhook_backoff_def upt_rec)

theorem webhook_retries_bounded_witness:
  "\<not> webhook_open (iterate webhook_failure (replicate 6 (Thrown ''timeout'', 0))
     (hd (webhooks (sample_received 1))))"
  using webhook_retries_bounded [of "hd (webhooks (sample_received 1))"
      "replicate 6 (Thrown ''timeout'', 0)"]
  by (simp add: sample_received_webhooks)

text \<open>
  An outbox event whose mail keeps failing is tried five times and then given up, and each
  delay is at least as long as the one before.
\<close>

theorem outbox_retries_bounded:
  assumes "x_status y = OutPending" and "x_attempts y = 0"
  shows "(x_status (iterate event_failure xs y) \<noteq> OutPending \<longleftrightarrow> 5 \<le> length xs) \<and>
    x_attempts (iterate event_failure xs y) \<le> 5 \<and>
    sorted (map (backoff outbox_backoff) [1..<5])"
  using assms outbox_retry.retries_end [of y xs] outbox_retry.attempts_bounded [of y xs]
  by (simp add: outbox_max_attempts_def backoff_def outbox_backoff_def upt_rec)

theorem outbox_retries_bounded_witness:
  "x_status (iterate event_failure (replicate 5 (''smtp'', 0)) (hd (outbox sample_paid))) \<noteq> OutPending"
  using outbox_retries_bounded [of "hd (outbox sample_paid)" "replicate 5 (''smtp'', 0)"]
  by (simp add: sample_defs)

lemma process_event_processing:
  assumes "y \<in> set (outbox db)" and "x_status y = OutProcessing"
    and "distinct (map x_id (outbox db))"
  shows "y \<in> set (outbox (process_event send now i db)) \<and>
    distinct (map x_id (outbox (process_event send now i db)))"
proof (cases "claim_event i db")
  case None
  then show ?thesis using assms by (simp add: process_event_def)
next
  case (Some p)
  then obtain c db1 where c: "claim_event i db = Some (c, db1)" by (cases p) auto
  then have out: "outbox db1 = update_rows (\<lambda>y. x_id y = i) (\<lambda>y. y\<lparr>x_status := OutProcessing\<rparr>) (outbox db)"
    and claimed: "c \<in> set (outbox db)" "x_id c = i" "x_status c = OutPending"
    by (auto simp: claim_event_def dest!: find_SomeD split: option.splits)
  have other: "x_id y \<noteq> i"
    using distinct_key_inj [OF assms(3) assms(1) claimed(1)] assms(2) claimed by auto
  have keep: "y \<in> set (outbox (db1\<lparr>outbox := update_rows (\<lambda>y. x_id y = i) f (outbox db1)\<rparr>))" for f
    using assms(1) other by (simp add: out update_rows_keep)
  have ids: "map x_id (outbox (db1\<lparr>outbox := update_rows (\<lambda>y. x_id y = i) f (outbox db1)\<rparr>)) =
      map x_id (outbox db)" if "\<And>y. x_id (f y) = x_id y" for f
    using that by (simp add: out map_update_rows)
  show ?thesis
    using c keep ids assms(3)
    by (auto simp: process_event_def Let_def fail_or_retry_def simp del: map_update_rows
        split: option.splits)
qed

text \<open>
  C31. An event that was claimed and not finished (the process stopped between the claim and
  its outcome) is never sent: no later run of the poller touches a row in PROCESSING.
\<close>

theorem unfinished_event_is_never_sent:
  assumes "y \<in> set (outbox db)" and "x_status y = OutProcessing"
    and "distinct (map x_id (outbox db))"
  shows "y \<in> set (outbox (process_pending_events send now db))"
proof -
  have "y \<in> set (outbox (foldl (\<lambda>d i. process_event send now i d) db is)) \<and>
      distinct (map x_id (outbox (foldl (\<lambda>d i. process_event send now i d) db is)))" for "is"
    using assms process_event_processing [of y _ send now]
    by (induction "is" arbitrary: db) auto
  then show ?thesis by (simp add: process_pending_events_def)
qed

text \<open>The first event of \<open>sample_paid\<close>, claimed.\<close>

definition sample_claimed :: shop where
  "sample_claimed = sample_paid\<lparr>outbox := map (x_status_update (\<lambda>_. OutProcessing)) (outbox sample_paid)\<rparr>"

theorem unfinished_event_is_never_sent_witness:
  "\<forall>send now. hd (outbox sample_claimed) \<in> set (outbox (process_pending_events send now sample_claimed))"
proof (intro allI)
  fix send now
  show "hd (outbox sample_claimed) \<in> set (outbox (process_pending_events send now sample_claimed))"
    by (rule unfinished_event_is_never_sent) (simp_all add: sample_claimed_def sample_defs)
qed

end
