(* ===== verification/RefundProperties.thy ===== *)
theory RefundProperties
  imports ShopProperties
begin

text \<open>
  Refunds and cancellation: what is reserved never exceeds what was captured as long as
  refunds are made in the application, what cancelling does, and where cancelling breaks
  the balance.
\<close>

section \<open>The refundable balance\<close>

definition refunds_within :: "shop \<Rightarrow> bool" where
  "refunds_within db \<longleftrightarrow>
     (\<forall>a \<in> set (attempts db). reserved_amount (a_id a) (refunds db) \<le> a_amount a) \<and>
     (\<forall>r \<in> set (refunds db). 0 \<le> r_amount r)"

lemma reserved_amount_append [simp]:
  "reserved_amount i (rs @ ss) = reserved_amount i rs + reserved_amount i ss"
  by (simp add: reserved_amount_def)

lemma reserved_amount_update:
  assumes "\<And>r. p r \<Longrightarrow> r_attempt (f r) = r_attempt r \<and> r_amount (f r) = r_amount r \<and>
      (reserving (r_status (f r)) \<longrightarrow> reserving (r_status r))"
    and "\<forall>r \<in> set rs. 0 \<le> r_amount r"
  shows "reserved_amount i (update_rows p f rs) \<le> reserved_amount i rs"
  using assms(2)
proof (induction rs)
  case (Cons r rs)
  then show ?case using assms(1) [of r] by (auto simp: reserved_amount_def)
qed (simp add: reserved_amount_def)

lemma refunds_within_update:
  assumes ok: "refunds_within db" and w: "write_refunds (update_rows p f (refunds db)) db = Inr db'"
    and f: "\<And>r. p r \<Longrightarrow> r_attempt (f r) = r_attempt r \<and> r_amount (f r) = r_amount r \<and>
      (reserving (r_status (f r)) \<longrightarrow> reserving (r_status r))"
  shows "refunds_within db'"
proof -
  note fr = write_refunds_frames [OF w]
  have nonneg: "\<forall>r \<in> set (refunds db). 0 \<le> r_amount r" using ok by (simp add: refunds_within_def)
  have "reserved_amount i (refunds db') \<le> reserved_amount i (refunds db)" for i
    using reserved_amount_update [OF f nonneg] fr by simp
  moreover have "\<forall>r \<in> set (refunds db'). 0 \<le> r_amount r"
    using nonneg f fr by (auto elim!: update_rows_cases)
  ultimately show ?thesis
    using ok fr unfolding refunds_within_def by (metis order_trans)
qed

lemma reserve_refund_result:
  assumes "reserve_refund_tx ctx actor i input reason db = Inr ((rf, payment, account), db')"
  shows "\<exists>a. find_attempt db i = Some a \<and> a_tenant a = tc_tenant ctx \<and> a_status a = Captured \<and>
    a_payment a = Some payment \<and> a_account a = Some account \<and>
    0 < r_amount rf \<and> r_amount rf \<le> a_amount a - reserved_amount i (refunds db) \<and>
    r_attempt rf = i \<and> r_status rf = RefundPending \<and>
    refunds db' = refunds db @ [rf] \<and> attempts db' = attempts db"
  using assms
  by (auto simp: reserve_refund_tx_def Let_def map_sum_def assert_object_in_tenant_def
      split: option.splits sum.splits if_splits dest!: write_refunds_frames)

lemma reserve_refund_within:
  assumes ok: "refunds_within db" and ids: "distinct (map a_id (attempts db))"
    and r: "reserve_refund_tx ctx actor i input reason db = Inr ((rf, payment, account), db')"
  shows "refunds_within db'"
proof -
  obtain a where a: "find_attempt db i = Some a"
    "0 < r_amount rf" "r_amount rf \<le> a_amount a - reserved_amount i (refunds db)"
    "r_attempt rf = i" "r_status rf = RefundPending"
    "refunds db' = refunds db @ [rf]" "attempts db' = attempts db"
    using reserve_refund_result [OF r] by blast
  have mem: "a \<in> set (attempts db)" "a_id a = i"
    using a(1) find_SomeD unfolding find_attempt_def by fast+
  have "reserved_amount (a_id b) (refunds db') \<le> a_amount b" if b: "b \<in> set (attempts db)" for b
  proof (cases "a_id b = i")
    case True
    then have "b = a" using distinct_key_inj [OF ids b mem(1)] mem(2) by simp
    then show ?thesis using a mem(2) by (simp add: reserved_amount_def reserving_def)
  next
    case False
    then show ?thesis using a ok b by (simp add: reserved_amount_def refunds_within_def)
  qed
  then show ?thesis using a ok by (auto simp: refunds_within_def)
qed

lemma mark_failed_within:
  assumes "refunds_within db" and "mark_failed i why rp db = Inr (x, db')"
  shows "refunds_within db'"
proof -
  obtain f where w: "write_refunds (update_rows (pending_refund i) f (refunds db)) db = Inr db'"
    and f: "\<And>r. r_attempt (f r) = r_attempt r \<and> r_amount (f r) = r_amount r \<and>
      r_status (f r) = RefundFailed"
    using assms(2) by (auto simp: mark_failed_def split: sum.splits option.splits)
  show ?thesis by (rule refunds_within_update [OF assms(1) w]) (simp add: f reserving_def)
qed

lemma settle_refund_within:
  assumes "refunds_within db" and "settle_refund i rp status db = Inr (x, db')"
  shows "refunds_within db'"
proof (cases "status = ProviderFailed")
  case True
  then show ?thesis using assms mark_failed_within by (auto simp: settle_refund_def)
next
  case False
  let ?f = "\<lambda>r. if status = ProviderProcessed
      then r\<lparr>r_status := RefundProcessed, r_razorpay := Some rp\<rparr> else r\<lparr>r_razorpay := Some rp\<rparr>"
  from False have w: "write_refunds (update_rows (pending_refund i) ?f (refunds db)) db = Inr db'"
    using assms(2) by (auto simp: settle_refund_def split: sum.splits option.splits)
  show ?thesis
    by (rule refunds_within_update [OF assms(1) w]) (simp add: pending_refund_def reserving_def)
qed

lemma fail_and_throw_within:
  "refunds_within db \<Longrightarrow> refunds_within (snd (fail_and_throw i why e db))"
  using mark_failed_within by (auto simp: fail_and_throw_def split: sum.splits)

lemma call_provider_within:
  "refunds_within db \<Longrightarrow> refunds_within (snd (call_provider_and_settle call acc t rf p account db))"
  using settle_refund_within fail_and_throw_within
  by (auto simp: call_provider_and_settle_def split: sum.splits option.splits)

text \<open>
  C3. Refunds made in the application never give back more than was captured: if for every
  attempt the pending and processed refunds are within the captured amount, they still are
  after any refund request, whatever amount is asked for and whatever the provider answers.
\<close>

theorem refunds_never_exceed_capture:
  assumes "refunds_within db" and "distinct (map a_id (attempts db))"
  shows "refunds_within (snd (create_refund call acc ctx actor i input reason db))"
proof (cases "reserve_refund_tx ctx actor i input reason db")
  case (Inl e)
  then show ?thesis using assms by (simp add: create_refund_def)
next
  case (Inr q)
  then obtain rf payment account db1 where
    r: "reserve_refund_tx ctx actor i input reason db = Inr ((rf, payment, account), db1)"
    by (cases q) auto
  then show ?thesis
    using call_provider_within [OF reserve_refund_within [OF assms r]]
    by (simp add: create_refund_def)
qed

definition sample_refundable :: shop where
  "sample_refundable = sample_paid\<lparr>refunds := [\<lparr>r_id = 50, r_attempt = 1, r_razorpay = Some 60,
     r_amount = 4000, r_status = RefundProcessed, r_reason = None, r_failure = None, r_tenant = 1,
     r_account = Some 3\<rparr>]\<rparr>"

lemma sample_paid_attempts:
  "attempts sample_paid = [\<lparr>a_id = 1, a_order = 0, a_razorpay_order = 77, a_payment = Some 88,
     a_amount = 10000, a_currency = ''INR'', a_status = Captured, a_failure_code = None,
     a_failure_reason = None, a_method = None, a_tenant = 1, a_account = Some 3, a_created = 10,
     a_captured_at = Some 20\<rparr>]"
  using decimal_to_paise_two_places [of "Dec 10000 2"] by (simp add: sample_defs)

theorem refunds_never_exceed_capture_witness:
  "refunds_within (snd (create_refund (\<lambda>_ _ _ _. Some (61, ProviderPending)) sample_account
     \<lparr>tc_tenant = 1, tc_session = None\<rparr> 4 1 (Some ''6000'') None sample_refundable))"
  by (rule refunds_never_exceed_capture)
    (simp_all add: refunds_within_def sample_refundable_def sample_paid_attempts reserved_amount_def
      reserving_def)

text \<open>
  A refund request without an amount asks for the whole captured amount, not for what is
  left: once anything has been refunded it is refused.
\<close>

theorem full_refund_after_partial_refused:
  assumes "find_attempt db i = Some a" and "a_tenant a = tc_tenant ctx" and "a_status a = Captured"
    and "a_payment a = Some p" and "a_account a = Some acct" and "0 < a_amount a"
    and "0 < reserved_amount i (refunds db)"
  shows "\<exists>message. reserve_refund_tx ctx actor i None reason db = Inl (Conflict message)"
  using assms by (simp add: reserve_refund_tx_def assert_object_in_tenant_def resolve_requested_amount_def)

theorem full_refund_after_partial_refused_witness:
  "\<exists>message. reserve_refund_tx \<lparr>tc_tenant = 1, tc_session = None\<rparr> 4 1 None None sample_refundable =
     Inl (Conflict message)"
  by (rule full_refund_after_partial_refused
      [where a = "hd (attempts sample_paid)" and p = 88 and acct = 3])
    (simp_all add: find_attempt_def sample_refundable_def sample_paid_attempts reserved_amount_def
      reserving_def)

section \<open>Cancelling\<close>

lemma perform_cancellation_refunds:
  assumes "perform_cancellation_tx (Some a) r role actor reason audit now db = Inr (u, db')"
    and "a_status a = Captured"
  shows "refunds db' = refunds db @
    [\<lparr>r_id = next_id db, r_attempt = a_id a, r_razorpay = None, r_amount = a_amount a,
      r_status = RefundPending, r_reason = reason, r_failure = None, r_tenant = o_tenant r,
      r_account = None\<rparr>]"
  using assms
  by (auto simp: perform_cancellation_tx_def Let_def order_needs_refund_def
      split: sum.splits option.splits dest!: write_refunds_frames transition_with_history_result)

text \<open>
  Cancelling books a pending refund of the whole captured amount on top of what was
  already refunded: after a partial refund the refunds exceed the capture.
\<close>

theorem cancelling_after_partial_refund_exceeds_capture:
  assumes "perform_cancellation_tx (Some a) r role actor reason audit now db = Inr (u, db')"
    and "a_status a = Captured" and "0 < reserved_amount (a_id a) (refunds db)"
  shows "a_amount a < reserved_amount (a_id a) (refunds db')"
  using perform_cancellation_refunds [OF assms(1,2)] assms(3)
  by (simp add: reserved_amount_def reserving_def)

theorem cancelling_after_partial_refund_exceeds_capture_witness:
  "\<exists>db'. perform_cancellation_tx (Some (hd (attempts sample_refundable)))
       (hd (orders sample_refundable)) CustomerRole 9 None None 30 sample_refundable = Inr ((), db') \<and>
     10000 < reserved_amount 1 (refunds db')"
proof -
  have a: "hd (attempts sample_refundable) = hd (attempts sample_paid)"
    by (simp add: sample_refundable_def)
  obtain db' where r: "perform_cancellation_tx (Some (hd (attempts sample_refundable)))
      (hd (orders sample_refundable)) CustomerRole 9 None None 30 sample_refundable = Inr ((), db')"
    by (simp add: perform_cancellation_tx_def order_needs_refund_def sample_refundable_def
        sample_paid_attempts write_refunds_def refunds_unique_def
        transition_order_with_history_def assert_transition_allowed_def sample_defs)
  then show ?thesis
    using cancelling_after_partial_refund_exceeds_capture [OF r]
    by (simp add: a sample_paid_attempts) (simp add: sample_refundable_def reserved_amount_def reserving_def)
qed

text \<open>
  A cancellation that lost the race for the order (its status moved after it was read)
  reports success and leaves the order alone, but its pending refund row is committed.
\<close>

theorem lost_cancellation_leaves_refund_row:
  assumes "order_keys db" and "status_of db (o_id r) \<noteq> Some (o_status r)"
    and "is_transition_allowed (o_status r) Cancelled" and "a_status a = Captured"
    and "refunds_unique (refunds db)"
  shows "\<exists>db'. perform_cancellation_tx (Some a) r CustomerRole user reason None now db = Inr ((), db') \<and>
    orders db' = orders db \<and> histories db' = histories db \<and> outbox db' = outbox db \<and>
    (\<exists>rf. refunds db' = refunds db @ [rf] \<and> r_attempt rf = a_id a \<and> r_amount rf = a_amount a \<and>
      r_status rf = RefundPending)"
proof -
  have "hits (order_hit (o_id r) (o_status r)) (orders db) \<noteq> 1"
    using order_hit_1_iff [OF assms(1)] assms(2) by simp
  then show ?thesis
    using assms(3-5)
    by (simp add: perform_cancellation_tx_def order_needs_refund_def write_refunds_def
        refunds_unique_def transition_order_with_history_def assert_transition_allowed_def)
qed

theorem lost_cancellation_leaves_refund_row_witness:
  "\<exists>db'. perform_cancellation_tx (Some (hd (attempts sample_paid)))
       ((hd (orders sample_paid))\<lparr>o_status := Confirmed\<rparr>) CustomerRole 9 None None 30 sample_paid
       = Inr ((), db') \<and>
     orders db' = orders sample_paid \<and> length (refunds db') = 1"
proof -
  have k: "order_keys sample_paid" "refunds_unique (refunds sample_paid)"
    "status_of sample_paid (o_id ((hd (orders sample_paid))\<lparr>o_status := Confirmed\<rparr>)) \<noteq> Some Confirmed"
    "a_status (hd (attempts sample_paid)) = Captured" "refunds sample_paid = []"
    by (simp_all add: order_keys_def refunds_unique_def status_of_def sample_defs)
  then show ?thesis
    using lost_cancellation_leaves_refund_row
      [of sample_paid "(hd (orders sample_paid))\<lparr>o_status := Confirmed\<rparr>" "hd (attempts sample_paid)"
        9 None 30]
    by (auto simp: is_transition_allowed_def)
qed

text \<open>
  C30. A customer's cancellation of a paid or confirmed order: the order becomes cancelled, its
  history gains that entry, a captured payment is booked as a pending refund of the captured
  amount (an unpaid order books none), and the customer sees the order as cancelled.
\<close>

theorem cancel_order_cancels:
  assumes keys: "order_keys db" and r: "find_order db i = Some r" and own: "o_user r = user"
    and st: "o_status r = Paid \<or> o_status r = Confirmed" and mail: "user_email db user = Some email"
    and new: "StatusChangedKey i Cancelled \<notin> set (map x_key (outbox db))"
    and ru: "refunds_unique (refunds db)"
  shows "\<exists>v db'. cancel_order user i reason now db = Inr (v, db') \<and>
    status_of db' i = Some Cancelled \<and> lv_status v = Cancelled \<and>
    log_of db' i = log_of db i @ [(Some (o_status r), Cancelled)] \<and>
    map (\<lambda>rf. (r_attempt rf, r_amount rf, r_status rf)) (refunds db') =
      map (\<lambda>rf. (r_attempt rf, r_amount rf, r_status rf)) (refunds db) @
      (case captured_attempt db i of None \<Rightarrow> []
       | Some a \<Rightarrow> [(a_id a, a_amount a, RefundPending)])"
proof -
  have id: "o_id r = i" using r find_SomeD unfolding find_order_def by fast
  have st': "status_of db i = Some (o_status r)" using r by (simp add: status_of_def)
  have ok: "is_transition_allowed (o_status r) Cancelled" "o_status r \<noteq> Cancelled"
    using st by (auto simp: is_transition_allowed_def)
  define rows where "rows = (case captured_attempt db i of None \<Rightarrow> []
       | Some a \<Rightarrow> [\<lparr>r_id = next_id db, r_attempt = a_id a, r_razorpay = None, r_amount = a_amount a,
           r_status = RefundPending, r_reason = reason, r_failure = None, r_tenant = o_tenant r,
           r_account = None\<rparr>])"
  define db1 where "db1 = (case captured_attempt db i of None \<Rightarrow> db
       | Some a \<Rightarrow> db\<lparr>next_id := Suc (next_id db), refunds := refunds db @ rows\<rparr>)"
  have f1: "orders db1 = orders db" "histories db1 = histories db" "outbox db1 = outbox db"
    "user_email db1 = user_email db" "refunds db1 = refunds db @ rows"
    by (simp_all add: db1_def rows_def split: option.splits)
  have h: "hits (order_hit i (o_status r)) (orders db1) = 1"
    using order_hit_1_iff [OF keys] st' by (simp add: f1)
  define how where "how = (Some user, transition_note CustomerRole Cancelled reason
      (order_needs_refund (map_option a_status (captured_attempt db i))), o_tenant r)"
  obtain db2 where e: "enqueue_outbox_event OrderStatusChanged (StatusChangedKey i Cancelled)
      \<lparr>x_order = i, x_order_number = o_number r, x_user = Some user, x_email = Some email,
       x_from = Some (o_status r), x_to = Some Cancelled,
       x_refund_pending = order_needs_refund (map_option a_status (captured_attempt db i)), x_link = None\<rparr> now
      (cas_order i (o_status r) Cancelled how db1) = Inr db2"
    using new by (simp add: enqueue_outbox_event_def f1)
  note e' = enqueue_Inr [OF e]
  have cap: "a_status a = Captured" if "captured_attempt db i = Some a" for a
    using that by (auto simp: captured_attempt_def dest: find_SomeD)
  have "perform_cancellation_tx (captured_attempt db i) r CustomerRole user reason None now db =
      Inr ((), db2)"
    using e h ok own mail id f1(4) ru
    by (auto simp: perform_cancellation_tx_def transition_order_with_history_def
        assert_transition_allowed_def Let_def write_refunds_def refunds_unique_def rows_def
        db1_def how_def order_needs_refund_def cap
        split: option.splits)
  moreover have same: "status_of db2 i = Some Cancelled"
    "log_of db2 i = log_of db i @ [(Some (o_status r), Cancelled)]"
  proof -
    have k1: "order_keys db1" "status_of db1 i = Some (o_status r)" "log_of db1 i = log_of db i"
      using keys st' by (simp_all add: order_keys_def status_of_def find_order_def log_of_def f1)
    show "status_of db2 i = Some Cancelled"
      using cas_order_hit_status [OF k1(1,2), of Cancelled how] e'
      by (simp add: status_of_def find_order_def)
    show "log_of db2 i = log_of db i @ [(Some (o_status r), Cancelled)]"
      using cas_order_hit_log [OF k1(1,2), of Cancelled how] e' k1(3) by (simp add: log_of_def)
  qed
  moreover obtain r2 where r2: "find_order db2 i = Some r2" "o_status r2 = Cancelled"
    using same(1) by (auto simp: status_of_def)
  moreover have "o_user r2 = user"
    using r2(1) e' own r
    by (auto simp: find_order_def cas_order_def find_order_status_update f1 split: if_splits)
  moreover have "refunds db2 = refunds db @ rows" using e' f1 by simp
  ultimately show ?thesis
    using r own ok id
    by (auto simp: cancel_order_def find_order_or_throw_def assert_owned_by_def
        assert_transition_allowed_def get_order_detail_for_user_def to_detail_view_def rows_def
        split: option.splits)
qed

theorem cancel_order_cancels_witness:
  "\<exists>v db'. cancel_order 9 0 None 30 sample_paid = Inr (v, db') \<and> lv_status v = Cancelled \<and>
     map (\<lambda>rf. (r_attempt rf, r_amount rf, r_status rf)) (refunds db') = [(1, 10000, RefundPending)]"
proof -
  have "captured_attempt sample_paid 0 = Some (hd (attempts sample_paid))"
    "refunds sample_paid = []" "order_keys sample_paid"
    "find_order sample_paid 0 = Some (hd (orders sample_paid))"
    "o_user (hd (orders sample_paid)) = 9" "o_status (hd (orders sample_paid)) = Paid"
    "user_email sample_paid 9 = Some ''a@b.c''"
    "map x_key (outbox sample_paid) = [OrderPaidKey 0]"
    by (simp_all add: captured_attempt_def order_keys_def sample_defs)
  then show ?thesis
    using cancel_order_cancels [of sample_paid 0 "hd (orders sample_paid)" 9 "''a@b.c''" None 30]
    by (auto simp: refunds_unique_def sample_paid_attempts)
qed

end
