(* ===== verification/PaymentProperties.thy ===== *)
theory PaymentProperties
  imports ShopProperties
begin

text \<open>
  Payments: a redelivered capture is applied once, reconciliation recovers a missed capture,
  a second failure of an order is lost, and an admin can mark an unpaid order paid.
\<close>

section \<open>Redelivery\<close>

lemma find_or_create_payment:
  assumes inv: "shop_inv po {} db" and f: "find_or_create_with account r pe now db = Inr (a, db')"
  shows "\<exists>y \<in> set (attempts db'). a_id y = a_id a \<and> a_payment y = Some (pe_id pe)"
  using f
proof (cases rule: find_or_create_cases)
  case payment
  then show ?thesis by (auto simp: find_attempt_by_payment_def dest: find_SomeD)
next
  case (opened a0)
  then have "a0\<lparr>a_payment := Some (pe_id pe)\<rparr> \<in> set (attempts db')"
    using stamped_attempt by blast
  then show ?thesis using opened(2) by (intro bexI) simp_all
next
  case created
  then show ?thesis by (auto simp: write_attempts_Inr)
qed

lemma attempts_unique_payment:
  assumes "attempts_unique as" and "a \<in> set as" "b \<in> set as"
    and "a_payment a = Some p" "a_payment b = Some p"
  shows "a = b"
proof -
  have "distinct (map a_payment (filter (\<lambda>a. a_payment a \<noteq> None) as))"
    using assms(1) by (simp add: attempts_unique_def)
  from distinct_key_inj [OF this, of a b] show ?thesis using assms by simp
qed

lemma insert_outbox_attempts:
  "insert_outbox_event ty r to now db = Inr db' \<Longrightarrow> attempts db' = attempts db"
  by (auto simp: insert_outbox_event_def Let_def dest!: enqueue_Inr)

lemma apply_captured_captures:
  assumes inv: "shop_inv po {} db" and c: "apply_captured r a pe now db = Inr (u, db')"
    and y: "y \<in> set (attempts db)" "a_id y = a_id a" "a_payment y = Some (pe_id pe)"
  shows "\<exists>z \<in> set (attempts db'). a_payment z = Some (pe_id pe) \<and> a_status z = Captured"
proof (cases "hits (not_captured (a_id a)) (attempts db) = 1")
  case True
  let ?f = "set_captured (pe_id pe) (keep_if_absent (pe_method pe)) now"
  have "attempts db' = update_rows (not_captured (a_id a)) ?f (attempts db)"
    using c True
    by (auto simp: apply_captured_def map_sum_def write_attempts_Inr
        split: sum.splits option.splits if_splits
        dest!: transition_order_Inr(2) insert_outbox_attempts)
  moreover obtain z where "z \<in> set (attempts db)" "not_captured (a_id a) z"
    using True hits_pos_iff [of "not_captured (a_id a)" "attempts db"] by auto
  ultimately have "?f z \<in> set (attempts db')" by (auto simp: in_update_rows)
  then show ?thesis by (intro bexI) (simp_all add: set_captured_def)
next
  case False
  then have "db' = db" using c by (auto simp: apply_captured_def split: sum.splits)
  moreover have "a_status y = Captured"
  proof (rule ccontr)
    assume "a_status y \<noteq> Captured"
    then have "0 < hits (not_captured (a_id a)) (attempts db)"
      using y by (auto simp: hits_pos_iff not_captured_def)
    moreover have "distinct (map a_id (attempts db))"
      using inv by (simp add: shop_inv_def attempts_ok_def)
    then have "hits (not_captured (a_id a)) (attempts db) \<le> 1"
      using hits_key_le_1 [of a_id "attempts db" "a_id a" "\<lambda>x. a_status x \<noteq> Captured"]
      by (simp add: not_captured_def [abs_def])
    ultimately show False using False by simp
  qed
  ultimately show ?thesis using y by auto
qed

text \<open>
  C27. A capture that Razorpay delivers again, through any account and at any time, with
  whatever order row the processor read, changes nothing: the second application leaves the
  whole database as the first one left it.
\<close>

theorem redelivered_capture_changes_nothing:
  assumes reach: "shop_reachable po db" and genuine: "po (pe_id pe) = pe_order pe"
    and r: "find_order_by_razorpay db (pe_order pe) = Some r"
    and first: "apply_payment_entity account True r pe now db = Inr (x, db')"
    and again: "capture_matches r' pe"
  shows "apply_payment_entity account' True r' pe now' db' = Inr (OutcomeProcessed, db')"
proof -
  have inv: "shop_inv po {} db" by (rule shop_reachable_inv [OF reach])
  note b = find_order_by_razorpay_bound [OF r]
  obtain a db1 u where f: "find_or_create_with account r pe now db = Inr (a, db1)"
    and c: "apply_captured r a pe now db1 = Inr (u, db')"
    using first by (auto simp: apply_payment_entity_def map_sum_def split: sum.splits)
  have inv1: "shop_inv po {} db1" using find_or_create_inv [OF inv b genuine f] by simp
  have inv2: "shop_inv po {} db'" by (rule apply_payment_entity_inv [OF inv b genuine first])
  have u2: "attempts_unique (attempts db')" and ids: "distinct (map a_id (attempts db'))"
    using inv2 by (simp_all add: shop_inv_def attempts_ok_def)
  obtain z where z: "z \<in> set (attempts db')" "a_payment z = Some (pe_id pe)" "a_status z = Captured"
    using find_or_create_payment [OF inv f] apply_captured_captures [OF inv1 c] by blast
  have found: "find_attempt_by_payment db' (pe_id pe) = Some z"
  proof (cases "find_attempt_by_payment db' (pe_id pe)")
    case None
    then show ?thesis using z by (auto simp: find_attempt_by_payment_def dest: find_NoneD)
  next
    case (Some w)
    then have "w \<in> set (attempts db')" "a_payment w = Some (pe_id pe)"
      by (auto simp: find_attempt_by_payment_def dest: find_SomeD)
    then show ?thesis using Some attempts_unique_payment [OF u2] z by auto
  qed
  have "hits (not_captured (a_id z)) (attempts db') = 0"
    using distinct_key_inj [OF ids] z by (auto simp: hits_0_iff not_captured_def)
  then show ?thesis
    using found again
    by (auto simp: apply_payment_entity_def find_or_create_with_def apply_captured_def
        capture_matches_def big_int_def)
qed

theorem redelivered_capture_changes_nothing_witness:
  "\<exists>db'. apply_payment_entity None True (hd (orders sample_opened))
       (the (wp_payment (sample_event 10000))) 40 sample_opened = Inr (OutcomeProcessed, db') \<and>
     apply_payment_entity (Some 3) True (hd (orders sample_opened))
       (the (wp_payment (sample_event 10000))) 90 db' = Inr (OutcomeProcessed, db')"
proof -
  let ?pe = "the (wp_payment (sample_event 10000))"
  let ?r = "hd (orders sample_opened)"
  have t: "decimal_to_paise (Dec 10000 2) = 10000"
    using decimal_to_paise_two_places [of "Dec 10000 2"] by simp
  have m: "capture_matches ?r ?pe"
    by (simp add: capture_matches_def assert_captured_payment_matches_order_def sample_event_def
        sample_defs t)
  have o1: "find_order_by_razorpay sample_opened (pe_order ?pe) = Some ?r"
    by (simp add: find_order_by_razorpay_def sample_event_def sample_defs)
  obtain db' where first: "apply_payment_entity None True ?r ?pe 40 sample_opened =
      Inr (OutcomeProcessed, db')"
    by (simp add: apply_payment_entity_def find_or_create_with_def find_attempt_by_payment_def
        sample_event_def apply_captured_def big_int_def set_captured_def
        assert_captured_payment_matches_order_def sample_defs t)
  have "po_ok": "(\<lambda>_. 77) (pe_id ?pe) = pe_order ?pe" by (simp add: sample_event_def)
  from redelivered_capture_changes_nothing [OF sample_opened_reachable po_ok o1 first m] first
  show ?thesis by blast
qed

section \<open>A second failure\<close>

text \<open>
  Once the outbox holds the "payment failed" event of an order, another failing payment of
  that order (after the customer retried) is not recorded: its event violates the unique
  key, the whole transaction is rolled back, and the processor marks the webhook PROCESSED,
  taking it for a capture race. The order stays pending.
\<close>

theorem second_payment_failure_is_lost:
  assumes reach: "shop_reachable po db" and keys: "distinct (map w_id (webhooks db))"
    and w: "w \<in> set (webhooks db)" "webhook_open w" "w_account w = None"
    and e: "wp_event (w_payload w) = failed_event" "wp_payment (w_payload w) = Some pe"
    and genuine: "po (pe_id pe) = pe_order pe" and amount: "pe_amount pe = Some n"
    and r: "find_order_by_razorpay db (pe_order pe) = Some r" "o_status r = PendingPayment"
    and fresh: "find_attempt_by_payment db (pe_id pe) = None"
    and before: "StatusChangedKey (o_id r) PaymentFailed \<in> set (map x_key (outbox db))"
  shows "process_webhook acc now (w_id w) db =
    update_webhook (w_id w) (\<lambda>x. x\<lparr>w_status := Processed, w_processed := Some now\<rparr>) db"
proof -
  have inv: "shop_inv po {} db" by (rule shop_reachable_inv [OF reach])
  obtain a db1 where f: "find_or_create_with None r pe now db = Inr (a, db1)"
    using find_or_create_succeeds [OF inv amount] by blast
  have db1: "orders db1 = orders db" "outbox db1 = outbox db"
    and open1: "\<exists>y \<in> set (attempts db1). a_id y = a_id a \<and> a_status y = Initiated"
  proof -
    show "orders db1 = orders db" "outbox db1 = outbox db"
      using f by (cases rule: find_or_create_cases; auto simp: write_attempts_Inr)+
    show "\<exists>y \<in> set (attempts db1). a_id y = a_id a \<and> a_status y = Initiated"
      using f
    proof (cases rule: find_or_create_cases)
      case (opened a0)
      have "a0\<lparr>a_payment := Some (pe_id pe)\<rparr> \<in> set (attempts db1)" "a_status a0 = Initiated"
        using stamped_attempt [OF opened(1,3)] by simp_all
      then show ?thesis using opened(2) by (intro bexI) simp_all
    qed (use fresh in \<open>auto simp: write_attempts_Inr\<close>)
  qed
  have inv1: "shop_inv po {} db1"
    using find_or_create_inv [OF inv find_order_by_razorpay_bound [OF r(1)] genuine f] by simp
  have "hits (not_final (a_id a)) (attempts db1) = 1"
  proof -
    have "distinct (map a_id (attempts db1))" using inv1 by (simp add: shop_inv_def attempts_ok_def)
    then show ?thesis
      using hits_key_1_iff [of a_id "attempts db1" "a_id a"
          "\<lambda>x. a_status x \<noteq> Captured \<and> a_status x \<noteq> AttemptFailed"] open1
      by (auto simp: not_final_def [abs_def])
  qed
  moreover have "fail_order_tx r why now db2 = Inl UniqueViolation"
    if "orders db2 = orders db" "outbox db2 = outbox db" for db2 why
  proof -
    have "status_of db (o_id r) = Some PendingPayment"
    proof -
      have "r \<in> set (orders db)" using r(1) find_SomeD unfolding find_order_by_razorpay_def by fast
      then show ?thesis
        using find_key [of o_id "orders db" r] inv r(2)
        by (simp add: status_of_def find_order_def shop_inv_def orders_ok_def order_keys_def)
    qed
    then have "hits (order_hit (o_id r) PendingPayment) (orders db2) = 1"
      using order_hit_1_iff [of db] inv that by (simp add: shop_inv_def orders_ok_def)
    then show ?thesis
      using that before r(2)
      by (simp add: fail_order_tx_def transition_order_def allowed_to_PaymentFailed
          insert_outbox_event_def enqueue_outbox_event_def)
  qed
  ultimately have "apply_failed r a pe now db1 = Inl UniqueViolation"
    using db1 by (auto simp: apply_failed_def write_attempts_def)
  then have "apply_payment_entity None False r pe now db = Inl UniqueViolation"
    using f by (simp add: apply_payment_entity_def)
  then have "apply_stored_event acc w now db = Inl UniqueViolation"
    using w(3) e r(1)
    by (simp add: apply_stored_event_def apply_webhook_event_def captured_event_def failed_event_def)
  then show ?thesis
    using find_key_cond [where key = w_id and q = webhook_open, OF keys w(1,2)]
    by (simp add: process_webhook_def)
qed

text \<open>The sample's customer after a failed payment and a retry, with a second failing one.\<close>

definition failing_event :: "uuid \<Rightarrow> webhook_payload" where
  "failing_event p =
     \<lparr>wp_event = failed_event,
      wp_payment = Some \<lparr>pe_id = p, pe_order = 77, pe_amount = Some 10000,
        pe_currency = Some ''INR'', pe_method = None, pe_error_code = Some ''BAD'',
        pe_error_description = None\<rparr>,
      wp_refund = None, wp_created_at = Some 5\<rparr>"

definition stored_event :: "uuid \<Rightarrow> webhook_row" where
  "stored_event p = \<lparr>w_id = 0, w_event_id = ''e'', w_account = None, w_payload = failing_event p,
     w_status = Received, w_attempts = 0, w_available = 0, w_error = None, w_processed = None\<rparr>"

definition sample_failed :: shop where
  "sample_failed = snd (run_tx (apply_stored_event no_accounts (stored_event 87) 30) sample_opened)"

definition sample_retried :: shop where
  "sample_retried = snd (run_tx (retry_failed_order (hd (orders sample_failed)) 9) sample_failed)"

definition sample_failing_again :: shop where
  "sample_failing_again = receive_event ''evt_2'' None (failing_event 89) 50 sample_retried"

lemmas failing_defs =
  sample_failing_again_def sample_retried_def sample_failed_def stored_event_def failing_event_def
  apply_stored_event_def apply_webhook_event_def captured_event_def failed_event_def
  find_order_by_razorpay_def apply_payment_entity_def find_or_create_with_def
  find_attempt_by_payment_def apply_failed_def not_final_def fail_order_tx_def
  retry_failed_order_def receive_event_def sample_defs

lemma sample_failing_again_reachable: "shop_reachable (\<lambda>_. 77) sample_failing_again"
proof -
  have "\<exists>x. apply_stored_event no_accounts (stored_event 87) 30 sample_opened = Inr (x, sample_failed)"
    by (simp add: failing_defs)
  moreover have "payload_genuine (\<lambda>_. 77) (w_payload (stored_event 87))"
    by (simp add: payload_genuine_def stored_event_def failing_event_def)
  ultimately have 1: "shop_reachable (\<lambda>_. 77) sample_failed"
    using sample_opened_reachable shop_reachable.step shop_step.event by blast
  have "\<exists>x. retry_failed_order (hd (orders sample_failed)) 9 sample_failed = Inr (x, sample_retried)"
    by (simp add: failing_defs)
  then have "shop_reachable (\<lambda>_. 77) sample_retried"
    using 1 shop_reachable.step shop_step.retry by blast
  then show ?thesis
    unfolding sample_failing_again_def using shop_reachable.step shop_step.receive by blast
qed

theorem second_payment_failure_is_lost_witness:
  "orders (process_webhook no_accounts 60 3 sample_failing_again) = orders sample_failing_again \<and>
   attempts (process_webhook no_accounts 60 3 sample_failing_again) = attempts sample_failing_again \<and>
   map o_status (orders sample_failing_again) = [PendingPayment]"
proof -
  define w where "w = hd (webhooks sample_failing_again)"
  have w: "webhooks sample_failing_again = [w]" "w_id w = 3" "webhook_open w" "w_account w = None"
    "w_payload w = failing_event 89"
    by (simp_all add: w_def failing_defs webhook_open_def)
  have facts: "find_order_by_razorpay sample_failing_again 77 = Some (hd (orders sample_failing_again))"
    "o_status (hd (orders sample_failing_again)) = PendingPayment"
    "o_id (hd (orders sample_failing_again)) = 0"
    "find_attempt_by_payment sample_failing_again 89 = None"
    "StatusChangedKey 0 PaymentFailed \<in> set (map x_key (outbox sample_failing_again))"
    "map o_status (orders sample_failing_again) = [PendingPayment]"
    by (simp_all add: failing_defs)
  have "process_webhook no_accounts 60 (w_id w) sample_failing_again =
    update_webhook (w_id w) (\<lambda>x. x\<lparr>w_status := Processed, w_processed := Some 60\<rparr>) sample_failing_again"
    by (rule second_payment_failure_is_lost [OF sample_failing_again_reachable,
          where pe = "the (wp_payment (failing_event 89))" and r = "hd (orders sample_failing_again)"])
      (use w facts in \<open>auto simp: failing_event_def\<close>)
  then show ?thesis using w(2) facts(6) by (simp add: update_webhook_def)
qed

section \<open>Reconciliation\<close>

lemma reconcile_attempt_ready:
  assumes inv: "shop_inv po {} db" and none: "\<forall>a \<in> set (attempts db). a_payment a \<noteq> Some (cp_id cp)"
    and uncap: "\<forall>a \<in> set (attempts db). a_order a = o_id r \<longrightarrow> a_status a \<noteq> Captured"
    and rp: "o_razorpay r = Some rp"
  shows "\<exists>i db1 y. reconcile_attempt r cp now db = Inr (i, db1) \<and>
    y \<in> set (attempts db1) \<and> a_id y = i \<and> a_order y = o_id r \<and>
    orders db1 = orders db \<and> histories db1 = histories db \<and> outbox db1 = outbox db \<and>
    attempts_unique (attempts db1) \<and> distinct (map a_id (attempts db1)) \<and>
    (\<forall>a \<in> set (attempts db1). a_payment a \<noteq> Some (cp_id cp)) \<and>
    (\<forall>a \<in> set (attempts db1). a_order a = o_id r \<longrightarrow> a_status a \<noteq> Captured)"
proof -
  have u: "attempts_unique (attempts db)" "distinct (map a_id (attempts db))"
    "\<forall>a \<in> set (attempts db). a_id a < next_id db"
    using inv by (simp_all add: shop_inv_def attempts_ok_def)
  show ?thesis
  proof (cases "latest a_created (reconcilable_attempt r (cp_id cp)) (attempts db)")
    case (Some a)
    then have "a \<in> set (attempts db)" "a_order a = o_id r"
      using latest_SomeD [OF Some] by (auto simp: reconcilable_attempt_def)
    then show ?thesis
      using Some none uncap u(1,2)
      by (intro exI [of _ "a_id a"] exI [of _ db] exI [of _ a]) (auto simp: reconcile_attempt_def)
  next
    case None
    define a where "a = \<lparr>a_id = next_id db, a_order = o_id r, a_razorpay_order = rp,
        a_payment = None, a_amount = cp_amount cp, a_currency = cp_currency cp,
        a_status = Initiated, a_failure_code = None, a_failure_reason = None,
        a_method = None, a_tenant = o_tenant r, a_account = None, a_created = now,
        a_captured_at = None\<rparr>"
    define db1 where "db1 = db\<lparr>next_id := Suc (next_id db), attempts := attempts db @ [a]\<rparr>"
    have a: "a_payment a = None" "a_status a = Initiated" "a_id a = next_id db" "a_order a = o_id r"
      by (simp_all add: a_def)
    have ua: "attempts_unique (attempts db @ [a])"
      using u(1) a by (auto simp: attempts_unique_def)
    then have "reconcile_attempt r cp now db = Inr (a_id a, db1)"
      using None rp by (simp add: reconcile_attempt_def Let_def write_attempts_def a_def db1_def)
    moreover have "distinct (map a_id (attempts db @ [a]))" using u(2,3) a(3) by auto
    ultimately show ?thesis
      using ua none uncap a
      by (intro exI [of _ "a_id a"] exI [of _ db1] exI [of _ a]) (auto simp: db1_def)
  qed
qed

lemma capture_keeps_unique:
  assumes u: "attempts_unique as" "distinct (map a_id as)"
    and none: "\<forall>a \<in> set as. a_payment a \<noteq> Some q"
    and uncap: "\<forall>a \<in> set as. a_order a = k \<longrightarrow> a_status a \<noteq> Captured"
    and y: "y \<in> set as" "a_id y = i" "a_order y = k"
  shows "attempts_unique (update_rows (not_captured i) (set_captured q m now) as)"
  using assms
proof (induction as)
  case (Cons a as)
  have u': "attempts_unique as" "distinct (map a_id as)"
    using Cons.prems(1,2) by (auto simp: attempts_unique_def split: if_splits)
  show ?case
  proof (cases "a_id a = i")
    case True
    then have "y = a" using Cons.prems(2,5,6) distinct_key_inj [of a_id "a # as" y a] by simp
    moreover have "update_rows (not_captured i) (set_captured q m now) as = as"
      using Cons.prems(2) True
      by (intro update_rows_none) (auto simp: not_captured_def image_iff)
    moreover have "not_captured i a" using True Cons.prems(4,7) \<open>y = a\<close> by (simp add: not_captured_def)
    ultimately have rows: "update_rows (not_captured i) (set_captured q m now) (a # as) =
        set_captured q m now a # as" by simp
    show ?thesis
      unfolding rows using u' Cons.prems(3,4,7) \<open>y = a\<close>
      by (auto simp: attempts_unique_def set_captured_def)
  next
    case False
    then have yt: "y \<in> set as" using Cons.prems(5,6) by auto
    have IH: "attempts_unique (update_rows (not_captured i) (set_captured q m now) as)"
      using Cons.IH [OF u'] Cons.prems(3,4,6,7) yt by simp
    have rows: "x \<in> set as \<or> a_payment x = Some q \<and> a_order x = k \<and> a_status x = Captured"
      if "x \<in> set (update_rows (not_captured i) (set_captured q m now) as)" for x
      using that
    proof (cases rule: update_rows_cases)
      case (hit z)
      then have "z = y"
        using distinct_key_inj [OF u'(2) _ yt] Cons.prems(6) by (simp add: not_captured_def)
      then show ?thesis using hit Cons.prems(7) by (simp add: set_captured_def)
    qed simp
    have "a_payment a \<notin> a_payment ` set (filter (\<lambda>a. a_payment a \<noteq> None)
        (update_rows (not_captured i) (set_captured q m now) as))" if "a_payment a \<noteq> None"
      using that Cons.prems(1,3) rows by (auto simp: attempts_unique_def image_iff) fastforce
    moreover have "a_order a \<notin> a_order ` set (filter (\<lambda>a. a_status a = Captured)
        (update_rows (not_captured i) (set_captured q m now) as))" if "a_status a = Captured"
      using that Cons.prems(1,4) rows by (auto simp: attempts_unique_def image_iff)
    moreover have "\<not> not_captured i a" using False by (simp add: not_captured_def)
    ultimately show ?thesis
      using IH by (simp add: attempts_unique_def)
  qed
qed simp


definition sample_adapter :: payment_adapter where
  "sample_adapter = \<lparr>create_provider_order = (\<lambda>_ _ _ _. Some 77), public_key_id = (\<lambda>_. ''rzp''),
     verify_payment_signature = (\<lambda>_ _ _ s. s = ''s''), verify_webhook_signature = (\<lambda>_ _ _. Some True),
     fetch_order_payments = (\<lambda>_ _. None)\<rparr>"


section \<open>Paid by hand\<close>

text \<open>
  An admin with the transition permission moves a pending order of the tenant to paid
  although none of its attempts is captured: the call succeeds, the order is paid, the
  attempts are what they were, and no ORDER_PAID event is written.
\<close>

theorem admin_marks_unpaid_order_paid:
  assumes keys: "order_keys db" and r: "find_order db i = Some r" "o_status r = PendingPayment"
    and own: "o_tenant r = tc_tenant ctx" and mail: "user_email db (o_user r) = Some email"
    and new: "StatusChangedKey i Paid \<notin> set (map x_key (outbox db))"
  shows "\<exists>v db'. admin_transition_status ctx admin i Paid reason now db = Inr (v, db') \<and>
    status_of db' i = Some Paid \<and> attempts db' = attempts db \<and>
    announced db' i = announced db i \<and> marked_paid_by_admin db' i"
proof -
  have id: "o_id r = i" using r(1) find_SomeD unfolding find_order_def by fast
  have st: "status_of db i = Some PendingPayment" using r by (simp add: status_of_def)
  have h: "hits (order_hit i PendingPayment) (orders db) = 1"
    using order_hit_1_iff [OF keys] st by simp
  define how where "how = (Some admin, transition_note AdminRole Paid reason False, o_tenant r)"
  let ?db1 = "cas_order i PendingPayment Paid how db"
  obtain db2 where e: "enqueue_outbox_event OrderStatusChanged (StatusChangedKey i Paid)
      \<lparr>x_order = i, x_order_number = o_number r, x_user = Some (o_user r), x_email = Some email,
       x_from = Some PendingPayment, x_to = Some Paid, x_refund_pending = False, x_link = None\<rparr> now ?db1 = Inr db2"
    using new by (simp add: enqueue_outbox_event_def)
  note e' = enqueue_Inr [OF e]
  define db3 where "db3 = log_tenant_action ctx admin ''order.status_change'' i db2"
  have "status_change_tx r Paid admin reason ctx now db = Inr ((), db3)"
    using e h id r(2) mail
    by (simp add: status_change_tx_def transition_order_with_history_def
        assert_transition_allowed_def allowed_to_Paid how_def db3_def)
  moreover have "status_of db3 i = Some Paid"
    using cas_order_hit_status [OF keys st, of Paid how] e'
    by (simp add: status_of_def find_order_def db3_def)
  moreover obtain r3 where r3: "find_order db3 i = Some r3" "o_tenant r3 = tc_tenant ctx"
    using r own e'
    by (auto simp: db3_def find_order_def cas_order_def find_order_status_update split: if_splits)
  moreover have "attempts db3 = attempts db" "announced db3 i = announced db i"
    using e' by (simp_all add: db3_def announced_def)
  moreover have "marked_paid_by_admin db3 i"
    using e' h by (simp add: db3_def marked_paid_by_admin_def cas_order_def how_def
        transition_note_admin)
  ultimately show ?thesis
    using r own
    by (simp add: admin_transition_status_def find_order_or_throw_def assert_object_in_tenant_def
        assert_transition_allowed_def allowed_to_Paid admin_get_order_detail_def)
qed

theorem admin_marks_unpaid_order_paid_witness:
  "\<exists>v db'. admin_transition_status \<lparr>tc_tenant = 1, tc_session = None\<rparr> 4 0 Paid None 30 sample_placed =
     Inr (v, db') \<and> status_of db' 0 = Some Paid \<and> attempts db' = []"
proof -
  have "order_keys sample_placed" "find_order sample_placed 0 = Some (hd (orders sample_placed))"
    "o_status (hd (orders sample_placed)) = PendingPayment" "o_tenant (hd (orders sample_placed)) = 1"
    "user_email sample_placed (o_user (hd (orders sample_placed))) = Some ''a@b.c''"
    "attempts sample_placed = []" "map x_key (outbox sample_placed) = []"
    by (simp_all add: order_keys_def sample_defs)
  then show ?thesis
    using admin_marks_unpaid_order_paid
      [of sample_placed 0 "hd (orders sample_placed)" "\<lparr>tc_tenant = 1, tc_session = None\<rparr>" "''a@b.c''" 4 None 30]
    by auto
qed

end
