(* ===== verification/SubscriptionMachine.thy ===== *)
theory SubscriptionMachine
  imports Machines
begin

text \<open>
  \<open>subscriptions/state-machine/subscription-state-machine.ts\<close>: the statuses of a SaaS
  subscription, the table of allowed transitions and its guard.
\<close>

datatype sub_status =
  SubPending | Trialing | SubActive | PastDue | Paused | SubCancelled | Expired

fun sub_status_name :: "sub_status \<Rightarrow> string" where
  "sub_status_name SubPending = ''PENDING''"
| "sub_status_name Trialing = ''TRIALING''"
| "sub_status_name SubActive = ''ACTIVE''"
| "sub_status_name PastDue = ''PAST_DUE''"
| "sub_status_name Paused = ''PAUSED''"
| "sub_status_name SubCancelled = ''CANCELLED''"
| "sub_status_name Expired = ''EXPIRED''"

fun subscription_state_transitions :: "sub_status \<Rightarrow> sub_status list" where
  "subscription_state_transitions SubPending = [Trialing, SubActive]"
| "subscription_state_transitions Trialing = [SubActive, PastDue]"
| "subscription_state_transitions SubActive = [SubActive, PastDue, SubCancelled]"
| "subscription_state_transitions PastDue = [SubActive, Paused, SubCancelled]"
| "subscription_state_transitions Paused = [SubActive, SubCancelled, Expired]"
| "subscription_state_transitions SubCancelled = [SubActive, Expired]"
| "subscription_state_transitions Expired = []"

definition is_subscription_transition_allowed :: "sub_status \<Rightarrow> sub_status \<Rightarrow> bool" where
  "is_subscription_transition_allowed from to \<longleftrightarrow> to \<in> set (subscription_state_transitions from)"

definition assert_subscription_transition_allowed :: "sub_status \<Rightarrow> sub_status \<Rightarrow> unit result" where
  "assert_subscription_transition_allowed from to =
     (if is_subscription_transition_allowed from to then Inr ()
      else Inl (Conflict (''Illegal subscription transition: '' @ sub_status_name from @ '' -> '' @
             sub_status_name to)))"

interpretation subscription_table:
  transition_table subscription_state_transitions is_subscription_transition_allowed
  by unfold_locales (simp add: is_subscription_transition_allowed_def)

lemma allowed_from_simps [simp]:
  "is_subscription_transition_allowed SubPending t \<longleftrightarrow> t = Trialing \<or> t = SubActive"
  "is_subscription_transition_allowed Trialing t \<longleftrightarrow> t = SubActive \<or> t = PastDue"
  "is_subscription_transition_allowed SubActive t \<longleftrightarrow> t = SubActive \<or> t = PastDue \<or> t = SubCancelled"
  "is_subscription_transition_allowed PastDue t \<longleftrightarrow> t = SubActive \<or> t = Paused \<or> t = SubCancelled"
  "is_subscription_transition_allowed Paused t \<longleftrightarrow> t = SubActive \<or> t = SubCancelled \<or> t = Expired"
  "is_subscription_transition_allowed SubCancelled t \<longleftrightarrow> t = SubActive \<or> t = Expired"
  "\<not> is_subscription_transition_allowed Expired t"
  by (auto simp: is_subscription_transition_allowed_def)

lemma assert_allowed_Inr:
  "assert_subscription_transition_allowed s t = Inr u \<longleftrightarrow> is_subscription_transition_allowed s t"
  by (simp add: assert_subscription_transition_allowed_def)

text \<open>Which statuses each target can be entered from.\<close>

lemma allowed_into_simps:
  "is_subscription_transition_allowed s PastDue \<longleftrightarrow> s = Trialing \<or> s = SubActive"
  "is_subscription_transition_allowed s Paused \<longleftrightarrow> s = PastDue"
  "is_subscription_transition_allowed s SubCancelled \<longleftrightarrow> s = SubActive \<or> s = PastDue \<or> s = Paused"
  "is_subscription_transition_allowed s Expired \<longleftrightarrow> s = Paused \<or> s = SubCancelled"
  "is_subscription_transition_allowed s SubActive \<longleftrightarrow> s \<noteq> Expired"
  by (cases s; simp)+

end
