(* ===== verification/Idempotency.thy ===== *)
theory Idempotency
  imports Prelude
begin

text \<open>
  \<open>checkout/idempotency/idempotency.service.ts\<close>: the table of claimed \<open>Idempotency-Key\<close>
  values that checkout and the subscription endpoints share, and the contract of claiming.
\<close>

section \<open>The contract\<close>

locale key_store =
  fixes find :: "'s \<Rightarrow> 'k \<Rightarrow> 'r option"
    and row :: "'k \<Rightarrow> 'a \<Rightarrow> 'r"
    and claim :: "'k \<Rightarrow> 'a \<Rightarrow> 's \<Rightarrow> 's option"
  assumes claim_free: "find s k = None \<Longrightarrow> \<exists>s'. claim k r s = Some s'"
    and claim_taken: "find s k \<noteq> None \<Longrightarrow> claim k r s = None"
    and find_claimed: "claim k r s = Some s' \<Longrightarrow> find s' k = Some (row k r)"
    and find_other: "claim k r s = Some s' \<Longrightarrow> k' \<noteq> k \<Longrightarrow> find s' k' = find s k'"
begin

lemma claim_iff: "claim k r s \<noteq> None \<longleftrightarrow> find s k = None"
  using claim_free [of s k r] claim_taken [of s k r] by (cases "find s k") auto

lemma second_claim_fails: "claim k r s = Some s' \<Longrightarrow> claim k r' s' = None"
  by (rule claim_taken) (simp add: find_claimed)

text \<open>Nothing that is claimed later takes a claimed key over.\<close>

lemma claimed_stays:
  assumes "find s k = Some r" and "claim k' r' s = Some s'"
  shows "find s' k = Some r"
proof (cases "k' = k")
  case True
  then show ?thesis using assms claim_taken [of s k r'] by simp
next
  case False
  then show ?thesis using assms find_other by simp
qed

end

section \<open>The table\<close>

record idem_row =
  ik_id :: uuid
  ik_key :: string
  ik_user :: uuid
  ik_endpoint :: string
  ik_result :: "uuid option"
  ik_tenant :: uuid

definition find_existing :: "idem_row list \<Rightarrow> string \<Rightarrow> idem_row option" where
  "find_existing ks k = List.find (\<lambda>r. ik_key r = k) ks"

text \<open>\<open>INSERT .. ON CONFLICT (key) DO NOTHING RETURNING id\<close>. What is claimed: the row's id,
  the user, the endpoint and the tenant.\<close>

definition claim_row :: "string \<Rightarrow> uuid \<times> uuid \<times> string \<times> uuid \<Rightarrow> idem_row" where
  "claim_row k p = (case p of (i, user, endpoint, tenant) \<Rightarrow>
     \<lparr>ik_id = i, ik_key = k, ik_user = user, ik_endpoint = endpoint, ik_result = None,
      ik_tenant = tenant\<rparr>)"

definition claim_key ::
  "string \<Rightarrow> uuid \<times> uuid \<times> string \<times> uuid \<Rightarrow> idem_row list \<Rightarrow> idem_row list option" where
  "claim_key k p ks = (if k \<in> set (map ik_key ks) then None else Some (ks @ [claim_row k p]))"

definition record_result :: "uuid \<Rightarrow> uuid \<Rightarrow> idem_row list \<Rightarrow> idem_row list" where
  "record_result i order ks = update_rows (\<lambda>r. ik_id r = i) (\<lambda>r. r\<lparr>ik_result := Some order\<rparr>) ks"

lemma claim_row_key [simp]: "ik_key (claim_row k p) = k"
  by (cases p) (simp add: claim_row_def)

lemma find_existing_None: "find_existing ks k = None \<longleftrightarrow> k \<notin> set (map ik_key ks)"
  by (auto simp: find_existing_def find_None_iff)

lemma find_existing_append:
  "find_existing (ks @ [r]) k =
     (case find_existing ks k of None \<Rightarrow> if ik_key r = k then Some r else None | Some x \<Rightarrow> Some x)"
  by (simp add: find_existing_def find_append split: option.split)

interpretation idem_keys: key_store find_existing claim_row claim_key
  by unfold_locales
    (auto simp: claim_key_def find_existing_append find_existing_None [symmetric]
      split: if_splits option.splits simp del: set_map)

end
