(* ===== verification/Subscriptions.thy ===== *)
theory Subscriptions
  imports SubscriptionMachine Idempotency
begin

text \<open>
  \<open>subscriptions/subscription.service.ts\<close>: the one writer of the subscription row and of
  its event log. Every method is a guarded update of the row that was read (\<open>updateMany\<close>
  with the columns the method depends on in its \<open>where\<close>), followed by one event and a
  re-read. Provider ids are opaque texts.
\<close>

section \<open>State\<close>

record subscription =
  su_id :: uuid
  su_tenant :: uuid
  su_plan :: uuid
  su_status :: sub_status
  su_period_start :: "instant option"
  su_period_end :: "instant option"
  su_customer :: "string option"
  su_provider :: "string option"
  su_cancel_at_end :: "bool option"
  su_trial_ends :: "instant option"
  su_pending_plan :: "uuid option"
  su_grace_ends :: "instant option"
  su_retention_ends :: "instant option"
  su_updated :: "instant option"

datatype sub_event_type =
    Created | Activated | Upgraded | DowngradeScheduled | DowngradeApplied | PaymentFailedEvent
  | PausedEvent | Resumed | Cancelled_ev | Expired_ev | Reactivated

text \<open>The \<open>metadata\<close> of an event: empty, or the one flag that is set.\<close>

datatype event_note = NoNote | Renewal | Scheduled | Unscheduled

record sub_event =
  ev_sub :: uuid
  ev_tenant :: uuid
  ev_type :: sub_event_type
  ev_from :: "sub_status option"
  ev_to :: sub_status
  ev_from_plan :: "uuid option"
  ev_to_plan :: "uuid option"
  ev_provider_event :: "string option"
  ev_note :: event_note

record plan_row =
  pl_id :: uuid
  pl_key :: string
  pl_name :: string
  pl_public :: bool
  pl_active :: "bool option"
  pl_sort :: "int option"
  pl_enterprise :: "bool option"
  pl_created :: instant

record billing_db =
  subs :: "subscription list"
  sub_events :: "sub_event list"
  plans :: "plan_row list"
  bd_idem :: "idem_row list"
  bd_next :: uuid

definition find_subscription :: "billing_db \<Rightarrow> uuid \<Rightarrow> subscription option" where
  "find_subscription db i = List.find (\<lambda>s. su_id s = i) (subs db)"

definition plan_exists :: "uuid \<Rightarrow> billing_db \<Rightarrow> bool" where
  "plan_exists p db \<longleftrightarrow> p \<in> set (map pl_id (plans db))"

text \<open>The unique columns: tenant, provider customer, provider subscription.\<close>

definition given :: "'a option list \<Rightarrow> 'a option list" where
  "given xs = filter (\<lambda>x. x \<noteq> None) xs"

definition subs_unique :: "subscription list \<Rightarrow> bool" where
  "subs_unique ss \<longleftrightarrow> distinct (map su_tenant ss) \<and>
     distinct (given (map su_customer ss)) \<and> distinct (given (map su_provider ss))"

section \<open>Reads\<close>

definition find_subscription_for_tenant :: "uuid \<Rightarrow> billing_db \<Rightarrow> subscription option" where
  "find_subscription_for_tenant t db = List.find (\<lambda>s. su_tenant s = t) (subs db)"

definition get_subscription_for_tenant :: "uuid \<Rightarrow> billing_db \<Rightarrow> subscription result" where
  "get_subscription_for_tenant t db =
     (case find_subscription_for_tenant t db of
        None \<Rightarrow> Inl (NotFound ''Subscription not found'') | Some s \<Rightarrow> Inr s)"

definition find_by_provider_subscription :: "string \<Rightarrow> billing_db \<Rightarrow> subscription option" where
  "find_by_provider_subscription p db = List.find (\<lambda>s. su_provider s = Some p) (subs db)"

definition find_by_provider_customer :: "string \<Rightarrow> billing_db \<Rightarrow> subscription option" where
  "find_by_provider_customer c db = List.find (\<lambda>s. su_customer s = Some c) (subs db)"

text \<open>A null column matches no \<open>lte\<close> filter.\<close>

definition reached :: "instant option \<Rightarrow> instant \<Rightarrow> bool" where
  "reached t now = (case t of None \<Rightarrow> False | Some x \<Rightarrow> x \<le> now)"

definition due_by :: "(subscription \<Rightarrow> instant option) \<Rightarrow> (subscription \<Rightarrow> bool) \<Rightarrow> instant \<Rightarrow> nat
    \<Rightarrow> billing_db \<Rightarrow> subscription list" where
  "due_by col p now limit db =
     take limit (sort_key (\<lambda>s. the (col s)) (filter (\<lambda>s. p s \<and> reached (col s) now) (subs db)))"

definition find_grace_exhausted_subscriptions :: "instant \<Rightarrow> nat \<Rightarrow> billing_db \<Rightarrow> subscription list" where
  "find_grace_exhausted_subscriptions = due_by su_grace_ends (\<lambda>s. su_status s = PastDue)"

definition find_subscriptions_needing_period_reconciliation ::
  "instant \<Rightarrow> nat \<Rightarrow> billing_db \<Rightarrow> subscription list" where
  "find_subscriptions_needing_period_reconciliation =
     due_by su_period_end (\<lambda>s. su_status s = SubActive \<and> su_provider s \<noteq> None)"

definition find_expirable_cancelled_subscriptions :: "instant \<Rightarrow> nat \<Rightarrow> billing_db \<Rightarrow> subscription list" where
  "find_expirable_cancelled_subscriptions =
     due_by su_retention_ends (\<lambda>s. su_status s = SubCancelled)"

section \<open>The guarded update\<close>

text \<open>
  What a method writes: the extra columns of its \<open>where\<close>, the \<open>data\<close> it sets besides the
  status, and its event. The id and the tenant are never part of the data.
\<close>

record change =
  ch_guard :: "subscription \<Rightarrow> bool"
  ch_data :: "subscription \<Rightarrow> subscription"
  ch_type :: sub_event_type
  ch_from_plan :: "uuid option"
  ch_to_plan :: "uuid option"
  ch_provider_event :: "string option"
  ch_note :: event_note

definition status_change :: "sub_event_type \<Rightarrow> string option \<Rightarrow> change" where
  "status_change type pe = \<lparr>ch_guard = (\<lambda>_. True), ch_data = id, ch_type = type,
     ch_from_plan = None, ch_to_plan = None, ch_provider_event = pe, ch_note = NoNote\<rparr>"

definition change_event :: "uuid \<Rightarrow> uuid \<Rightarrow> sub_status \<Rightarrow> sub_status \<Rightarrow> change \<Rightarrow> sub_event" where
  "change_event i tenant from to c =
     \<lparr>ev_sub = i, ev_tenant = tenant, ev_type = ch_type c, ev_from = Some from,
      ev_to = to, ev_from_plan = ch_from_plan c, ev_to_plan = ch_to_plan c,
      ev_provider_event = ch_provider_event c, ev_note = ch_note c\<rparr>"

definition sub_hit :: "uuid \<Rightarrow> sub_status \<Rightarrow> change \<Rightarrow> subscription \<Rightarrow> bool" where
  "sub_hit i from c r \<longleftrightarrow> su_id r = i \<and> su_status r = from \<and> ch_guard c r"

definition write_change :: "sub_status \<Rightarrow> change \<Rightarrow> instant \<Rightarrow> subscription \<Rightarrow> subscription" where
  "write_change to c now r =
     (ch_data c r)\<lparr>su_id := su_id r, su_tenant := su_tenant r, su_status := to,
       su_updated := Some now\<rparr>"

text \<open>The update and the event.\<close>

definition cas_subscription ::
  "uuid \<Rightarrow> sub_status \<Rightarrow> sub_status \<Rightarrow> change \<times> uuid \<times> instant \<Rightarrow> billing_db \<Rightarrow> billing_db" where
  "cas_subscription i from to a db =
     (case a of (c, tenant, now) \<Rightarrow>
        if hits (sub_hit i from c) (subs db) \<noteq> 1 then db
        else db\<lparr>
          subs := update_rows (sub_hit i from c) (write_change to c now) (subs db),
          sub_events := sub_events db @ [change_event i tenant from to c]\<rparr>)"

record transition_result =
  applied :: bool
  tr_sub :: subscription
  tr_event :: "sub_event_type option"

definition unapplied :: "subscription \<Rightarrow> transition_result" where
  "unapplied s = \<lparr>applied = False, tr_sub = s, tr_event = None\<rparr>"

definition transition_subscription ::
  "subscription \<Rightarrow> sub_status \<Rightarrow> change \<Rightarrow> instant \<Rightarrow> (billing_db, transition_result) tx" where
  "transition_subscription s to c now db =
     (if hits (sub_hit (su_id s) (su_status s) c) (subs db) \<noteq> 1 then Inr (unapplied s, db)
      else
        let db' = cas_subscription (su_id s) (su_status s) to (c, su_tenant s, now) db
        in if \<not> subs_unique (subs db') then Inl UniqueViolation
           else (case find_subscription db' (su_id s) of
                   None \<Rightarrow> Inl (Thrown ''No Subscription found'')
                 | Some r \<Rightarrow> Inr (\<lparr>applied = True, tr_sub = r, tr_event = Some (ch_type c)\<rparr>, db')))"

text \<open>A method that moves the status: the replayed target is answered first, then the table
  is asked.\<close>

definition guarded_transition ::
  "subscription \<Rightarrow> sub_status \<Rightarrow> change \<Rightarrow> instant \<Rightarrow> (billing_db, transition_result) tx" where
  "guarded_transition s to c now db =
     (if su_status s = to then Inr (unapplied s, db)
      else (case assert_subscription_transition_allowed (su_status s) to of
              Inl e \<Rightarrow> Inl e
            | Inr _ \<Rightarrow> transition_subscription s to c now db))"

definition assert_currently_active :: "subscription \<Rightarrow> unit result" where
  "assert_currently_active s =
     (if su_status s = SubActive then Inr ()
      else Inl (Conflict (''Subscription must be ACTIVE for this operation (currently '' @
             sub_status_name (su_status s) @ '')'')))"

definition active_change :: "subscription \<Rightarrow> change \<Rightarrow> instant \<Rightarrow> (billing_db, transition_result) tx" where
  "active_change s c now db =
     (case assert_currently_active s of
        Inl e \<Rightarrow> Inl e | Inr _ \<Rightarrow> transition_subscription s (su_status s) c now db)"

section \<open>The methods\<close>

definition create_pending_subscription ::
  "uuid \<Rightarrow> uuid \<Rightarrow> instant \<Rightarrow> (billing_db, subscription) tx" where
  "create_pending_subscription tenant plan now db =
     (let s = \<lparr>su_id = bd_next db, su_tenant = tenant, su_plan = plan, su_status = SubPending,
               su_period_start = None, su_period_end = None, su_customer = None,
               su_provider = None, su_cancel_at_end = None, su_trial_ends = None,
               su_pending_plan = None, su_grace_ends = None, su_retention_ends = None,
               su_updated = Some now\<rparr>;
          e = \<lparr>ev_sub = su_id s, ev_tenant = tenant, ev_type = Created, ev_from = None,
               ev_to = SubPending, ev_from_plan = None, ev_to_plan = Some plan,
               ev_provider_event = None, ev_note = NoNote\<rparr>
      in if \<not> subs_unique (subs db @ [s]) then Inl UniqueViolation
         else Inr (s, db\<lparr>subs := subs db @ [s], sub_events := sub_events db @ [e],
                        bd_next := Suc (bd_next db)\<rparr>))"

text \<open>\<open>undefined\<close> in \<open>data\<close> leaves the column.\<close>

definition or_keep :: "'a option \<Rightarrow> 'a option \<Rightarrow> 'a option" where
  "or_keep new old = (case new of None \<Rightarrow> old | Some x \<Rightarrow> Some x)"

record activation =
  ac_to :: sub_status
  ac_start :: instant
  ac_end :: instant
  ac_customer :: "string option"
  ac_provider :: "string option"
  ac_trial :: "instant option"
  ac_event :: "string option"

definition confirm_activation ::
  "subscription \<Rightarrow> activation \<Rightarrow> instant \<Rightarrow> (billing_db, transition_result) tx" where
  "confirm_activation s x =
     guarded_transition s (ac_to x)
       ((status_change Activated (ac_event x))\<lparr>
          ch_data := \<lambda>r. r\<lparr>su_period_start := Some (ac_start x), su_period_end := Some (ac_end x),
            su_customer := or_keep (ac_customer x) (su_customer r),
            su_provider := or_keep (ac_provider x) (su_provider r),
            su_trial_ends := or_keep (ac_trial x) (su_trial_ends r)\<rparr>,
          ch_to_plan := Some (su_plan s)\<rparr>)"

definition record_payment_failure ::
  "subscription \<Rightarrow> instant \<Rightarrow> string option \<Rightarrow> instant \<Rightarrow> (billing_db, transition_result) tx" where
  "record_payment_failure s grace pe =
     guarded_transition s PastDue
       ((status_change PaymentFailedEvent pe)\<lparr>ch_data := \<lambda>r. r\<lparr>su_grace_ends := Some grace\<rparr>\<rparr>)"

definition recover_payment ::
  "subscription \<Rightarrow> string option \<Rightarrow> instant \<Rightarrow> (billing_db, transition_result) tx" where
  "recover_payment s pe =
     guarded_transition s SubActive
       ((status_change Resumed pe)\<lparr>ch_data := \<lambda>r. r\<lparr>su_grace_ends := None\<rparr>\<rparr>)"

definition exhaust_grace ::
  "subscription \<Rightarrow> string option \<Rightarrow> instant \<Rightarrow> (billing_db, transition_result) tx" where
  "exhaust_grace s pe = guarded_transition s Paused (status_change PausedEvent pe)"

text \<open>The checks of the next two come between the replay and the update.\<close>

definition assert_plan_exists :: "uuid \<Rightarrow> billing_db \<Rightarrow> unit result" where
  "assert_plan_exists p db = (if plan_exists p db then Inr () else Inl (NotFound ''Plan not found''))"

definition active_plan_change ::
  "subscription \<Rightarrow> uuid \<Rightarrow> change \<Rightarrow> instant \<Rightarrow> (billing_db, transition_result) tx" where
  "active_plan_change s plan c now db =
     (case assert_currently_active s of
        Inl e \<Rightarrow> Inl e
      | Inr _ \<Rightarrow>
          (case assert_plan_exists plan db of
             Inl e \<Rightarrow> Inl e
           | Inr _ \<Rightarrow> transition_subscription s (su_status s) c now db))"

definition confirm_upgrade ::
  "subscription \<Rightarrow> uuid \<Rightarrow> string option \<Rightarrow> instant \<Rightarrow> (billing_db, transition_result) tx" where
  "confirm_upgrade s to pe now db =
     (if su_plan s = to then Inr (unapplied s, db)
      else active_plan_change s to
        ((status_change Upgraded pe)\<lparr>
           ch_guard := \<lambda>r. su_plan r = su_plan s, ch_data := \<lambda>r. r\<lparr>su_plan := to\<rparr>,
           ch_from_plan := Some (su_plan s), ch_to_plan := Some to\<rparr>) now db)"

definition schedule_downgrade ::
  "subscription \<Rightarrow> uuid \<Rightarrow> instant \<Rightarrow> (billing_db, transition_result) tx" where
  "schedule_downgrade s to now db =
     (if su_pending_plan s = Some to then Inr (unapplied s, db)
      else active_plan_change s to
        ((status_change DowngradeScheduled None)\<lparr>
           ch_guard := \<lambda>r. su_pending_plan r = su_pending_plan s,
           ch_data := \<lambda>r. r\<lparr>su_pending_plan := Some to\<rparr>,
           ch_from_plan := Some (su_plan s), ch_to_plan := Some to\<rparr>) now db)"

definition apply_scheduled_downgrade ::
  "subscription \<Rightarrow> instant \<Rightarrow> instant \<Rightarrow> string option \<Rightarrow> instant \<Rightarrow> (billing_db, transition_result) tx" where
  "apply_scheduled_downgrade s start until pe now db =
     (case su_pending_plan s of
        None \<Rightarrow> Inr (unapplied s, db)
      | Some p \<Rightarrow> active_change s
          ((status_change DowngradeApplied pe)\<lparr>
             ch_guard := \<lambda>r. su_pending_plan r = su_pending_plan s,
             ch_data := \<lambda>r. r\<lparr>su_plan := p, su_pending_plan := None,
               su_period_start := Some start, su_period_end := Some until\<rparr>,
             ch_from_plan := Some (su_plan s), ch_to_plan := Some p\<rparr>) now db)"

definition confirm_renewal ::
  "subscription \<Rightarrow> instant \<Rightarrow> instant \<Rightarrow> string option \<Rightarrow> instant \<Rightarrow> (billing_db, transition_result) tx" where
  "confirm_renewal s start until pe now db =
     (if su_period_start s = Some start then Inr (unapplied s, db)
      else active_change s
        ((status_change Activated pe)\<lparr>
           ch_guard := \<lambda>r. su_period_start r = su_period_start s,
           ch_data := \<lambda>r. r\<lparr>su_period_start := Some start, su_period_end := Some until\<rparr>,
           ch_note := Renewal\<rparr>) now db)"

definition schedule_cancellation ::
  "subscription \<Rightarrow> instant \<Rightarrow> (billing_db, transition_result) tx" where
  "schedule_cancellation s now db =
     (if su_cancel_at_end s = Some True then Inr (unapplied s, db)
      else active_change s
        ((status_change Cancelled_ev None)\<lparr>
           ch_guard := \<lambda>r. su_cancel_at_end r = su_cancel_at_end s,
           ch_data := \<lambda>r. r\<lparr>su_cancel_at_end := Some True\<rparr>, ch_note := Scheduled\<rparr>) now db)"

definition unschedule_cancellation ::
  "subscription \<Rightarrow> instant \<Rightarrow> (billing_db, transition_result) tx" where
  "unschedule_cancellation s now db =
     (if su_cancel_at_end s \<noteq> Some True then Inr (unapplied s, db)
      else active_change s
        ((status_change Cancelled_ev None)\<lparr>
           ch_guard := \<lambda>r. su_cancel_at_end r = su_cancel_at_end s,
           ch_data := \<lambda>r. r\<lparr>su_cancel_at_end := Some False\<rparr>, ch_note := Unscheduled\<rparr>) now db)"

definition ms_per_day :: instant where "ms_per_day = 24 * 60 * 60 * 1000"
definition cancellation_retention_days :: instant where "cancellation_retention_days = 30"
definition grace_period_days :: instant where "grace_period_days = 7"

definition cancel_subscription ::
  "subscription \<Rightarrow> string option \<Rightarrow> instant \<Rightarrow> (billing_db, transition_result) tx" where
  "cancel_subscription s pe now =
     guarded_transition s SubCancelled
       ((status_change Cancelled_ev pe)\<lparr>
          ch_data := \<lambda>r. r\<lparr>su_retention_ends := Some (now + cancellation_retention_days * ms_per_day)\<rparr>\<rparr>)
       now"

definition reactivate ::
  "subscription \<Rightarrow> string option \<Rightarrow> instant \<Rightarrow> (billing_db, transition_result) tx" where
  "reactivate s pe = guarded_transition s SubActive (status_change Reactivated pe)"

definition expire ::
  "subscription \<Rightarrow> string option \<Rightarrow> instant \<Rightarrow> (billing_db, transition_result) tx" where
  "expire s pe = guarded_transition s Expired (status_change Expired_ev pe)"

definition apply_billing_webhook_event ::
  "subscription \<Rightarrow> string \<Rightarrow> string \<Rightarrow> instant \<Rightarrow> (billing_db, transition_result) tx" where
  "apply_billing_webhook_event s type event_id now db =
     (if type = ''payment_failed''
      then record_payment_failure s (now + grace_period_days * ms_per_day) (Some event_id) now db
      else if type = ''recovered'' then recover_payment s (Some event_id) now db
      else if type = ''cancelled'' then cancel_subscription s (Some event_id) now db
      else Inr (unapplied s, db))"

definition can_transition :: "sub_status \<Rightarrow> sub_status \<Rightarrow> bool" where
  "can_transition from to = is_subscription_transition_allowed from to"

section \<open>The log\<close>

definition sub_status_of :: "billing_db \<Rightarrow> uuid \<Rightarrow> sub_status option" where
  "sub_status_of db i = map_option su_status (find_subscription db i)"

definition sub_log_of :: "billing_db \<Rightarrow> uuid \<Rightarrow> (sub_status option \<times> sub_status) list" where
  "sub_log_of db i = map (\<lambda>e. (ev_from e, ev_to e)) (filter (\<lambda>e. ev_sub e = i) (sub_events db))"

definition sub_keys :: "billing_db \<Rightarrow> bool" where
  "sub_keys db \<longleftrightarrow> distinct (map su_id (subs db))"

definition change_fires :: "billing_db \<Rightarrow> uuid \<Rightarrow> change \<times> uuid \<times> instant \<Rightarrow> bool" where
  "change_fires db i a = list_ex (\<lambda>r. su_id r = i \<and> ch_guard (fst a) r) (subs db)"

lemma write_change_simps [simp]:
  "su_id (write_change to c now r) = su_id r"
  "su_tenant (write_change to c now r) = su_tenant r"
  "su_status (write_change to c now r) = to"
  "su_updated (write_change to c now r) = Some now"
  by (simp_all add: write_change_def)

lemma find_subscriptionD: "find_subscription db i = Some r \<Longrightarrow> r \<in> set (subs db) \<and> su_id r = i"
  by (auto simp: find_subscription_def dest: find_SomeD)

lemma find_subscription_in:
  "sub_keys db \<Longrightarrow> r \<in> set (subs db) \<Longrightarrow> find_subscription db (su_id r) = Some r"
  unfolding find_subscription_def sub_keys_def by (rule find_key)

lemma sub_hit_1_iff:
  assumes "sub_keys db"
  shows "hits (sub_hit i from c) (subs db) = 1 \<longleftrightarrow>
    (\<exists>r. find_subscription db i = Some r \<and> su_status r = from \<and> ch_guard c r)"
proof -
  have "hits (sub_hit i from c) (subs db) = 1 \<longleftrightarrow>
      (\<exists>r \<in> set (subs db). su_id r = i \<and> su_status r = from \<and> ch_guard c r)"
    using hits_key_1_iff [of su_id "subs db" i "\<lambda>r. su_status r = from \<and> ch_guard c r"] assms
    by (simp add: sub_hit_def [abs_def] sub_keys_def)
  then show ?thesis
    by (auto dest: find_subscriptionD intro: find_subscription_in [OF assms])
qed

lemma change_fires_iff:
  assumes "sub_keys db"
  shows "change_fires db i a \<longleftrightarrow> (\<exists>r. find_subscription db i = Some r \<and> ch_guard (fst a) r)"
  unfolding change_fires_def list_ex_iff
  by (auto dest: find_subscriptionD intro: find_subscription_in [OF assms])

lemma sub_cas_iff:
  assumes "sub_keys db"
  shows "hits (sub_hit i from (fst a)) (subs db) = 1 \<longleftrightarrow>
    sub_status_of db i = Some from \<and> change_fires db i a"
  using sub_hit_1_iff [OF assms] change_fires_iff [OF assms]
  by (auto simp: sub_status_of_def)

lemma find_subscription_write:
  "List.find (\<lambda>r. su_id r = k) (update_rows p (write_change to c now) rs) =
     map_option (\<lambda>r. if p r then write_change to c now r else r) (List.find (\<lambda>r. su_id r = k) rs)"
  by (rule find_key_update) simp

lemma cas_subscription_miss:
  "hits (sub_hit i from (fst a)) (subs db) \<noteq> 1 \<Longrightarrow> cas_subscription i from to a db = db"
  by (cases a) (simp add: cas_subscription_def)

lemma cas_subscription_find:
  assumes "sub_keys db"
  shows "find_subscription (cas_subscription i from to a db) k =
    map_option (\<lambda>r. if sub_hit i from (fst a) r then write_change to (fst a) (snd (snd a)) r else r)
      (find_subscription db k)"
proof (cases "hits (sub_hit i from (fst a)) (subs db) = 1")
  case True
  obtain c tn nw where a: "a = (c, tn, nw)" by (cases a)
  show ?thesis
    using True unfolding a fst_conv snd_conv
    by (simp add: cas_subscription_def find_subscription_def find_subscription_write)
next
  case False
  have "\<not> sub_hit i from (fst a) r" if f: "find_subscription db k = Some r" for r
  proof
    assume "sub_hit i from (fst a) r"
    then have "\<exists>r. find_subscription db i = Some r \<and> su_status r = from \<and> ch_guard (fst a) r"
      using f find_subscriptionD [OF f] by (auto simp: sub_hit_def)
    then show False using False sub_hit_1_iff [OF assms] by simp
  qed
  then have "map_option (\<lambda>r. if sub_hit i from (fst a) r then write_change to (fst a) (snd (snd a)) r else r)
      (find_subscription db k) = find_subscription db k"
    by (cases "find_subscription db k") auto
  then show ?thesis using False by (simp add: cas_subscription_miss)
qed

lemma cas_subscription_keys: "sub_keys (cas_subscription i from to a db) = sub_keys db"
  by (simp add: cas_subscription_def sub_keys_def map_update_rows split: prod.splits)

lemma cas_subscription_log:
  "sub_log_of (cas_subscription i from to a db) k =
     sub_log_of db k @
       (if k = i \<and> hits (sub_hit i from (fst a)) (subs db) = 1 then [(Some from, to)] else [])"
  by (auto simp: cas_subscription_def sub_log_of_def change_event_def split: prod.splits)

interpretation sub_log: logged_status subscription_state_transitions
  is_subscription_transition_allowed "\<lambda>s. s = SubPending" sub_status_of sub_log_of
  cas_subscription change_fires sub_keys
proof unfold_locales
  fix db i s a and t :: sub_status
  assume wf: "sub_keys db"
  note iff = sub_cas_iff [OF wf, of i s a]
  show "sub_keys (cas_subscription i s t a db)" using wf by (simp add: cas_subscription_keys)
  show "cas_subscription i s t a db = db" if "sub_status_of db i \<noteq> Some s \<or> \<not> change_fires db i a"
    using that iff by (auto simp: cas_subscription_miss)
  assume st: "sub_status_of db i = Some s" and f: "change_fires db i a"
  show "sub_log_of (cas_subscription i s t a db) i = sub_log_of db i @ [(Some s, t)]"
    using iff st f by (simp add: cas_subscription_log)
  obtain r where r: "find_subscription db i = Some r" "ch_guard (fst a) r"
    using f change_fires_iff [OF wf] by auto
  then have "sub_hit i s (fst a) r"
    using st find_subscriptionD [OF r(1)] by (simp add: sub_status_of_def sub_hit_def)
  then show "sub_status_of (cas_subscription i s t a db) i = Some t"
    using r by (simp add: sub_status_of_def cas_subscription_find [OF wf])
next
  fix db and i k :: uuid and s t and a :: "change \<times> uuid \<times> instant"
  assume "sub_keys db" and "k \<noteq> i"
  then show "sub_status_of (cas_subscription i s t a db) k = sub_status_of db k \<and>
      sub_log_of (cas_subscription i s t a db) k = sub_log_of db k"
    by (cases "find_subscription db k")
      (auto simp: sub_status_of_def cas_subscription_find cas_subscription_log sub_hit_def
        dest: find_subscriptionD)
qed

end
