(* ===== verification/Billing.thy ===== *)
theory Billing
  imports Subscriptions
begin

text \<open>
  Who calls the subscription service: the tenant's requests
  (\<open>subscription-orchestration.service.ts\<close>, provider first, local write second), the
  billing webhooks (\<open>billing-webhook-ingestion.service.ts\<close> and
  \<open>billing-webhook-processor.service.ts\<close>) and the scheduler
  (\<open>subscription-scheduler.service.ts\<close>). The billing provider is outside the repository's
  control: its answers are a parameter.
\<close>

section \<open>The provider\<close>

text \<open>\<open>billing-provider.errors.ts\<close>: a timeout says nothing about the outcome, a rejection
  carries a message for the user, everything else is an outage.\<close>

datatype 'a answer = Answer 'a | TimedOut | Rejected string | Down

record provider_sub =
  ps_id :: string
  ps_start :: instant
  ps_end :: instant
  ps_trial :: "instant option"
  ps_plan :: "uuid option"

datatype when_mode = Immediate | AtPeriodEnd

record billing_provider =
  bp_create_customer :: "uuid \<Rightarrow> string answer"
  bp_create_subscription :: "string \<Rightarrow> uuid \<Rightarrow> provider_sub answer"
  bp_change :: "string \<Rightarrow> uuid \<Rightarrow> when_mode \<Rightarrow> provider_sub answer"
  bp_cancel :: "string \<Rightarrow> when_mode \<Rightarrow> unit answer"
  bp_unschedule :: "string \<Rightarrow> provider_sub answer"
  bp_resume :: "string \<Rightarrow> provider_sub answer"
  bp_get :: "string \<Rightarrow> provider_sub answer"

definition provider_unavailable :: err where
  "provider_unavailable = ServiceUnavailable ''Billing provider is currently unavailable; please retry shortly''"

text \<open>\<open>classifyProviderError\<close>; no caller passes a timeout.\<close>

definition classify_provider_error :: "string option \<Rightarrow> err" where
  "classify_provider_error rejection =
     (case rejection of Some m \<Rightarrow> Conflict m | None \<Rightarrow> provider_unavailable)"

definition provider_link :: "subscription \<Rightarrow> string option" where
  "provider_link s = (case su_provider s of Some p \<Rightarrow> if p = '''' then None else Some p | None \<Rightarrow> None)"

definition assert_has_provider_link :: "subscription \<Rightarrow> string result" where
  "assert_has_provider_link s =
     (case provider_link s of
        None \<Rightarrow> Inl (Conflict ''Subscription has no linked billing-provider record'')
      | Some p \<Rightarrow> Inr p)"

definition attempt_reconciliation_read :: "billing_provider \<Rightarrow> subscription \<Rightarrow> provider_sub result" where
  "attempt_reconciliation_read bp s =
     (case provider_link s of
        None \<Rightarrow> Inl (ServiceUnavailable
          ''Billing provider reconciliation unavailable - no linked provider subscription'')
      | Some p \<Rightarrow> (case bp_get bp p of Answer x \<Rightarrow> Inr x | _ \<Rightarrow> Inl provider_unavailable))"

section \<open>Flows\<close>

text \<open>
  A flow is not a transaction: it answers, and leaves what it has written. A single service
  call is atomic.
\<close>

type_synonym flow = "billing_db \<Rightarrow> subscription result \<times> billing_db"

definition settle :: "(billing_db, transition_result) tx \<Rightarrow> flow" where
  "settle t db = (case run_tx t db of (r, db') \<Rightarrow> (map_sum id tr_sub r, db'))"

definition refuse :: "err \<Rightarrow> flow" where
  "refuse e db = (Inl e, db)"

text \<open>The three ways a provider call ends: accepted, timed out (the flow's own branch), or an
  error.\<close>

definition on_answer :: "'a answer \<Rightarrow> flow \<Rightarrow> flow \<Rightarrow> flow" where
  "on_answer a accepted timed_out =
     (case a of
        Answer _ \<Rightarrow> accepted
      | TimedOut \<Rightarrow> timed_out
      | Rejected m \<Rightarrow> refuse (classify_provider_error (Some m))
      | Down \<Rightarrow> refuse (classify_provider_error None))"

text \<open>After a timeout of a call whose outcome the provider cannot show.\<close>

definition unconfirmed :: "string \<Rightarrow> billing_provider \<Rightarrow> subscription \<Rightarrow> flow" where
  "unconfirmed what bp s =
     (case attempt_reconciliation_read bp s of
        Inl e \<Rightarrow> refuse e
      | Inr _ \<Rightarrow> refuse (ServiceUnavailable (''Could not confirm the '' @ what @
          '' with the billing provider; no local change was made - please retry'')))"

definition must_be_active :: "string \<Rightarrow> subscription \<Rightarrow> unit result" where
  "must_be_active what s =
     (if su_status s = SubActive then Inr ()
      else Inl (Conflict (''Subscription must be ACTIVE to '' @ what @ '' (currently '' @
             sub_status_name (su_status s) @ '')'')))"

definition reconcile_upgrade_timeout ::
  "billing_provider \<Rightarrow> subscription \<Rightarrow> uuid \<Rightarrow> instant \<Rightarrow> flow" where
  "reconcile_upgrade_timeout bp s to now =
     (case attempt_reconciliation_read bp s of
        Inl e \<Rightarrow> refuse e
      | Inr x \<Rightarrow>
          if ps_plan x = Some to then settle (confirm_upgrade s to None now)
          else refuse (ServiceUnavailable ''Could not confirm the upgrade with the billing provider; no local change was made - please retry''))"

definition upgrade_flow :: "billing_provider \<Rightarrow> uuid \<Rightarrow> uuid \<Rightarrow> instant \<Rightarrow> flow" where
  "upgrade_flow bp tenant to now db =
     (case get_subscription_for_tenant tenant db of
        Inl e \<Rightarrow> (Inl e, db)
      | Inr s \<Rightarrow>
          if su_plan s = to then (Inr s, db)
          else (case assert_plan_exists to db of
                  Inl e \<Rightarrow> (Inl e, db)
                | Inr _ \<Rightarrow> (case assert_has_provider_link s of
                    Inl e \<Rightarrow> (Inl e, db)
                  | Inr p \<Rightarrow> (case must_be_active ''upgrade'' s of
                      Inl e \<Rightarrow> (Inl e, db)
                    | Inr _ \<Rightarrow> on_answer (bp_change bp p to Immediate)
                        (settle (confirm_upgrade s to None now))
                        (reconcile_upgrade_timeout bp s to now) db))))"

definition downgrade_flow :: "billing_provider \<Rightarrow> uuid \<Rightarrow> uuid \<Rightarrow> instant \<Rightarrow> flow" where
  "downgrade_flow bp tenant to now db =
     (case get_subscription_for_tenant tenant db of
        Inl e \<Rightarrow> (Inl e, db)
      | Inr s \<Rightarrow>
          if su_pending_plan s = Some to then (Inr s, db)
          else (case assert_plan_exists to db of
                  Inl e \<Rightarrow> (Inl e, db)
                | Inr _ \<Rightarrow> (case assert_has_provider_link s of
                    Inl e \<Rightarrow> (Inl e, db)
                  | Inr p \<Rightarrow> (case must_be_active ''schedule a downgrade'' s of
                      Inl e \<Rightarrow> (Inl e, db)
                    | Inr _ \<Rightarrow> on_answer (bp_change bp p to AtPeriodEnd)
                        (settle (schedule_downgrade s to now))
                        (unconfirmed ''downgrade schedule'' bp s) db))))"

definition immediate_cancellation_flow :: "billing_provider \<Rightarrow> subscription \<Rightarrow> instant \<Rightarrow> flow" where
  "immediate_cancellation_flow bp s now =
     (if su_status s = SubCancelled then Pair (Inr s)
      else if su_status s \<notin> {SubActive, PastDue, Paused}
      then refuse (Conflict (''Subscription cannot be cancelled from '' @ sub_status_name (su_status s)))
      else (case assert_has_provider_link s of
              Inl e \<Rightarrow> refuse e
            | Inr p \<Rightarrow> on_answer (bp_cancel bp p Immediate)
                (settle (cancel_subscription s None now)) (unconfirmed ''cancellation'' bp s)))"

definition schedule_cancellation_flow :: "billing_provider \<Rightarrow> subscription \<Rightarrow> instant \<Rightarrow> flow" where
  "schedule_cancellation_flow bp s now =
     (if su_cancel_at_end s = Some True then Pair (Inr s)
      else (case must_be_active ''schedule a cancellation'' s of
              Inl e \<Rightarrow> refuse e
            | Inr _ \<Rightarrow> (case assert_has_provider_link s of
                Inl e \<Rightarrow> refuse e
              | Inr p \<Rightarrow> on_answer (bp_cancel bp p AtPeriodEnd)
                  (settle (schedule_cancellation s now)) (unconfirmed ''cancellation'' bp s))))"

definition cancel_flow :: "billing_provider \<Rightarrow> uuid \<Rightarrow> bool \<Rightarrow> instant \<Rightarrow> flow" where
  "cancel_flow bp tenant at_period_end now db =
     (case get_subscription_for_tenant tenant db of
        Inl e \<Rightarrow> (Inl e, db)
      | Inr s \<Rightarrow> (if at_period_end then schedule_cancellation_flow bp s now db
                  else immediate_cancellation_flow bp s now db))"

definition unschedule_flow :: "billing_provider \<Rightarrow> uuid \<Rightarrow> instant \<Rightarrow> flow" where
  "unschedule_flow bp tenant now db =
     (case get_subscription_for_tenant tenant db of
        Inl e \<Rightarrow> (Inl e, db)
      | Inr s \<Rightarrow>
          if su_cancel_at_end s \<noteq> Some True then (Inr s, db)
          else (case must_be_active ''unschedule a cancellation'' s of
                  Inl e \<Rightarrow> (Inl e, db)
                | Inr _ \<Rightarrow> (case assert_has_provider_link s of
                    Inl e \<Rightarrow> (Inl e, db)
                  | Inr p \<Rightarrow> on_answer (bp_unschedule bp p)
                      (settle (unschedule_cancellation s now)) (unconfirmed ''unscheduling'' bp s) db)))"

definition apply_resume_transition :: "subscription \<Rightarrow> instant \<Rightarrow> flow" where
  "apply_resume_transition s now =
     (if su_status s = PastDue \<or> su_status s = Paused then settle (recover_payment s None now)
      else settle (reactivate s None now))"

definition reconcile_resume_timeout :: "billing_provider \<Rightarrow> subscription \<Rightarrow> instant \<Rightarrow> flow" where
  "reconcile_resume_timeout bp s now =
     (case attempt_reconciliation_read bp s of
        Inl e \<Rightarrow> refuse e | Inr _ \<Rightarrow> apply_resume_transition s now)"

definition resume_flow :: "billing_provider \<Rightarrow> uuid \<Rightarrow> instant \<Rightarrow> flow" where
  "resume_flow bp tenant now db =
     (case get_subscription_for_tenant tenant db of
        Inl e \<Rightarrow> (Inl e, db)
      | Inr s \<Rightarrow>
          if su_status s = SubActive then (Inr s, db)
          else if su_status s = Expired
          then (Inl (Conflict ''Subscription is EXPIRED and cannot be resumed''), db)
          else if su_status s = SubPending \<or> su_status s = Trialing
          then (Inl (Conflict (''Subscription is '' @ sub_status_name (su_status s) @
                  '' - nothing to resume'')), db)
          else (case assert_has_provider_link s of
                  Inl e \<Rightarrow> (Inl e, db)
                | Inr p \<Rightarrow> on_answer (bp_resume bp p) (apply_resume_transition s now)
                    (reconcile_resume_timeout bp s now) db))"

section \<open>Creation\<close>

definition create_at_provider ::
  "billing_provider \<Rightarrow> uuid \<Rightarrow> uuid \<Rightarrow> (string \<times> provider_sub) answer" where
  "create_at_provider bp tenant plan =
     (case bp_create_customer bp tenant of
        Answer c \<Rightarrow> (case bp_create_subscription bp c plan of
            Answer x \<Rightarrow> Answer (c, x) | TimedOut \<Rightarrow> TimedOut | Rejected m \<Rightarrow> Rejected m | Down \<Rightarrow> Down)
      | TimedOut \<Rightarrow> TimedOut | Rejected m \<Rightarrow> Rejected m | Down \<Rightarrow> Down)"

text \<open>The pending row and its activation are two commits.\<close>

definition activate_new :: "uuid \<Rightarrow> uuid \<Rightarrow> string \<Rightarrow> provider_sub \<Rightarrow> instant \<Rightarrow> flow" where
  "activate_new tenant plan customer x now db =
     (case create_pending_subscription tenant plan now db of
        Inl e \<Rightarrow> (Inl e, db)
      | Inr (s, db1) \<Rightarrow>
          settle (confirm_activation s
            \<lparr>ac_to = (if ps_trial x \<noteq> None then Trialing else SubActive),
             ac_start = ps_start x, ac_end = ps_end x, ac_customer = Some customer,
             ac_provider = Some (ps_id x), ac_trial = ps_trial x, ac_event = None\<rparr> now) db1)"

definition create_subscription :: "billing_provider \<Rightarrow> uuid \<Rightarrow> uuid \<Rightarrow> instant \<Rightarrow> flow" where
  "create_subscription bp tenant plan now db =
     (if find_subscription_for_tenant tenant db \<noteq> None
      then (Inl (Conflict ''Tenant already has a subscription''), db)
      else (case assert_plan_exists plan db of
              Inl e \<Rightarrow> (Inl e, db)
            | Inr _ \<Rightarrow>
                (case create_at_provider bp tenant plan of
                   TimedOut \<Rightarrow> (Inl (ServiceUnavailable ''Could not confirm subscription creation with the billing provider; please retry''), db)
                 | Rejected m \<Rightarrow> (Inl (classify_provider_error (Some m)), db)
                 | Down \<Rightarrow> (Inl (classify_provider_error None), db)
                 | Answer (c, x) \<Rightarrow> activate_new tenant plan c x now db)))"

end
