(* ===== verification/BillingJobs.thy ===== *)
theory BillingJobs
  imports Billing
begin

text \<open>
  The entry points over the flows of \<open>Billing\<close>: the idempotent HTTP operations, the period
  reconciliation, the webhook ingestion and its processor, and the three scheduled jobs.
\<close>

section \<open>Views and idempotent requests\<close>

record sub_view =
  sv_status :: sub_status
  sv_plan :: "string \<times> string"
  sv_pending :: "uuid option"
  sv_start :: "instant option"
  sv_end :: "instant option"
  sv_cancel :: bool
  sv_grace :: "instant option"
  sv_trial :: "instant option"

definition to_sub_view :: "subscription \<Rightarrow> billing_db \<Rightarrow> sub_view result" where
  "to_sub_view s db =
     (case List.find (\<lambda>p. pl_id p = su_plan s) (plans db) of
        None \<Rightarrow> Inl (Thrown ''No Plan found'')
      | Some p \<Rightarrow> Inr \<lparr>sv_status = su_status s, sv_plan = (pl_key p, pl_name p),
          sv_pending = su_pending_plan s, sv_start = su_period_start s, sv_end = su_period_end s,
          sv_cancel = (case su_cancel_at_end s of None \<Rightarrow> False | Some b \<Rightarrow> b),
          sv_grace = su_grace_ends s, sv_trial = su_trial_ends s\<rparr>)"

definition view_of :: "subscription result \<times> billing_db \<Rightarrow> sub_view result \<times> billing_db" where
  "view_of r = (case r of (Inl e, db) \<Rightarrow> (Inl e, db) | (Inr s, db) \<Rightarrow> (to_sub_view s db, db))"

definition current_view :: "uuid \<Rightarrow> billing_db \<Rightarrow> sub_view result \<times> billing_db" where
  "current_view tenant db = view_of (get_subscription_for_tenant tenant db, db)"

text \<open>Who asks, for which endpoint, with which key.\<close>

record sub_request =
  rq_tenant :: uuid
  rq_user :: uuid
  rq_endpoint :: string
  rq_key :: string

text \<open>The claim is its own transaction; \<open>db\<close> may hold the key although the read before did
  not see it.\<close>

definition claim_and_proceed :: "sub_request \<Rightarrow> flow \<Rightarrow> billing_db \<Rightarrow> sub_view result \<times> billing_db" where
  "claim_and_proceed rq proceed db =
     (case claim_key (rq_key rq) (bd_next db, rq_user rq, rq_endpoint rq, rq_tenant rq) (bd_idem db) of
        None \<Rightarrow> current_view (rq_tenant rq) db
      | Some ks \<Rightarrow> view_of (proceed (db\<lparr>bd_idem := ks, bd_next := Suc (bd_next db)\<rparr>)))"

definition with_idempotency :: "sub_request \<Rightarrow> flow \<Rightarrow> billing_db \<Rightarrow> sub_view result \<times> billing_db" where
  "with_idempotency rq proceed db =
     (case find_existing (bd_idem db) (rq_key rq) of
        Some r \<Rightarrow>
          if ik_tenant r \<noteq> rq_tenant rq then (Inl (Conflict ''Idempotency key already in use''), db)
          else current_view (rq_tenant rq) db
      | None \<Rightarrow> claim_and_proceed rq proceed db)"

definition sub_request_of :: "string \<Rightarrow> uuid \<Rightarrow> uuid \<Rightarrow> string \<Rightarrow> sub_request" where
  "sub_request_of endpoint tenant user key =
     \<lparr>rq_tenant = tenant, rq_user = user, rq_endpoint = endpoint, rq_key = key\<rparr>"

definition upgrade ::
  "billing_provider \<Rightarrow> uuid \<Rightarrow> uuid \<Rightarrow> uuid \<Rightarrow> string \<Rightarrow> instant \<Rightarrow> billing_db \<Rightarrow> sub_view result \<times> billing_db" where
  "upgrade bp tenant user to key now =
     with_idempotency (sub_request_of ''subscription:upgrade'' tenant user key)
       (upgrade_flow bp tenant to now)"

definition downgrade ::
  "billing_provider \<Rightarrow> uuid \<Rightarrow> uuid \<Rightarrow> uuid \<Rightarrow> string \<Rightarrow> instant \<Rightarrow> billing_db \<Rightarrow> sub_view result \<times> billing_db" where
  "downgrade bp tenant user to key now =
     with_idempotency (sub_request_of ''subscription:downgrade'' tenant user key)
       (downgrade_flow bp tenant to now)"

definition cancel_request ::
  "billing_provider \<Rightarrow> uuid \<Rightarrow> uuid \<Rightarrow> bool \<Rightarrow> string \<Rightarrow> instant \<Rightarrow> billing_db \<Rightarrow> sub_view result \<times> billing_db" where
  "cancel_request bp tenant user at_end key now =
     with_idempotency (sub_request_of ''subscription:cancel'' tenant user key)
       (cancel_flow bp tenant at_end now)"

definition unschedule_request ::
  "billing_provider \<Rightarrow> uuid \<Rightarrow> uuid \<Rightarrow> string \<Rightarrow> instant \<Rightarrow> billing_db \<Rightarrow> sub_view result \<times> billing_db" where
  "unschedule_request bp tenant user key now =
     with_idempotency (sub_request_of ''subscription:unschedule-cancellation'' tenant user key)
       (unschedule_flow bp tenant now)"

definition resume ::
  "billing_provider \<Rightarrow> uuid \<Rightarrow> uuid \<Rightarrow> string \<Rightarrow> instant \<Rightarrow> billing_db \<Rightarrow> sub_view result \<times> billing_db" where
  "resume bp tenant user key now =
     with_idempotency (sub_request_of ''subscription:resume'' tenant user key)
       (resume_flow bp tenant now)"

section \<open>The period boundary\<close>

definition boundary_reached :: "subscription \<Rightarrow> provider_sub \<Rightarrow> bool" where
  "boundary_reached s x = (case su_period_end s of None \<Rightarrow> False | Some e \<Rightarrow> e \<le> ps_start x)"

text \<open>The scheduled cancellation: \<open>Inl\<close> a row means that the provider refused and the row is
  answered as it is.\<close>

definition cancel_at_boundary ::
  "billing_provider \<Rightarrow> subscription \<Rightarrow> instant \<Rightarrow> billing_db \<Rightarrow> err + (subscription \<times> bool) \<times> billing_db" where
  "cancel_at_boundary bp s now db =
     (case assert_has_provider_link s of
        Inl e \<Rightarrow> Inl e
      | Inr p \<Rightarrow>
          (case bp_cancel bp p Immediate of
             Answer _ \<Rightarrow> map_sum id (\<lambda>(r, db'). ((tr_sub r, True), db')) (cancel_subscription s None now db)
           | _ \<Rightarrow> Inr ((s, False), db)))"

definition roll_period ::
  "billing_provider \<Rightarrow> subscription \<Rightarrow> provider_sub \<Rightarrow> bool \<Rightarrow> instant \<Rightarrow> flow" where
  "roll_period bp s x downgraded now db =
     (if su_status s = SubActive \<and> su_cancel_at_end s = Some True then
        (case cancel_at_boundary bp s now db of
           Inl e \<Rightarrow> (Inl e, db)
         | Inr ((s', _), db') \<Rightarrow> (Inr s', db'))
      else if \<not> downgraded \<and> su_status s = SubActive
      then settle (confirm_renewal s (ps_start x) (ps_end x) None now) db
      else (Inr s, db))"

definition reconcile_period_flow :: "billing_provider \<Rightarrow> uuid \<Rightarrow> instant \<Rightarrow> flow" where
  "reconcile_period_flow bp tenant now db =
     (case get_subscription_for_tenant tenant db of
        Inl e \<Rightarrow> (Inl e, db)
      | Inr s \<Rightarrow>
          if su_status s \<noteq> SubActive \<or> provider_link s = None then (Inr s, db)
          else (case attempt_reconciliation_read bp s of
                  Inl e \<Rightarrow> (Inl e, db)
                | Inr x \<Rightarrow>
                    if \<not> boundary_reached s x then (Inr s, db)
                    else if su_pending_plan s = None then roll_period bp s x False now db
                    else (case apply_scheduled_downgrade s (ps_start x) (ps_end x) None now db of
                            Inl e \<Rightarrow> (Inl e, db)
                          | Inr (r, db') \<Rightarrow> roll_period bp (tr_sub r) x True now db')))"

definition reconcile_period ::
  "billing_provider \<Rightarrow> uuid \<Rightarrow> instant \<Rightarrow> billing_db \<Rightarrow> sub_view result \<times> billing_db" where
  "reconcile_period bp tenant now db = view_of (reconcile_period_flow bp tenant now db)"

section \<open>Scheduled jobs\<close>

definition scheduler_batch :: nat where "scheduler_batch = 20"

text \<open>Each row was read once for the whole run, and an error of one row does not stop the
  run.\<close>

definition exhaust_one :: "instant \<Rightarrow> subscription \<Rightarrow> billing_db \<Rightarrow> billing_db" where
  "exhaust_one now s db = snd (run_tx (exhaust_grace s None now) db)"

definition run_grace_exhaustion :: "instant \<Rightarrow> billing_db \<Rightarrow> billing_db" where
  "run_grace_exhaustion now db =
     fold (exhaust_one now) (find_grace_exhausted_subscriptions now scheduler_batch db) db"

definition run_period_reconciliation :: "billing_provider \<Rightarrow> instant \<Rightarrow> billing_db \<Rightarrow> billing_db" where
  "run_period_reconciliation bp now db =
     fold (\<lambda>s d. snd (reconcile_period bp (su_tenant s) now d))
       (find_subscriptions_needing_period_reconciliation now scheduler_batch db) db"

definition expire_one :: "instant \<Rightarrow> subscription \<Rightarrow> billing_db \<Rightarrow> billing_db" where
  "expire_one now s db = snd (run_tx (expire s None now) db)"

definition run_cancellation_expiration :: "instant \<Rightarrow> billing_db \<Rightarrow> billing_db" where
  "run_cancellation_expiration now db =
     fold (expire_one now) (find_expirable_cancelled_subscriptions now scheduler_batch db) db"

section \<open>Billing webhooks\<close>

text \<open>A date text of a payload: \<open>new Date\<close> of it is an instant or invalid.\<close>

datatype js_date = At instant | InvalidDate

datatype hook_status = HookReceived | HookProcessed | HookRetry | HookIgnored | HookFailed

text \<open>The normalised event with its envelope; a field of another type, or an empty text, is
  absent.\<close>

record billing_event =
  be_id :: string
  be_type :: string
  be_subscription :: "string option"
  be_customer :: "string option"
  be_occurred :: "js_date option"
  be_start :: "js_date option"
  be_end :: "js_date option"

record hook_row =
  hk_id :: uuid
  hk_event :: billing_event
  hk_status :: hook_status
  hk_attempts :: nat
  hk_available :: instant
  hk_error :: "string option"
  hk_processed :: "instant option"
  hk_created :: instant

definition receive_billing_webhook ::
  "(string \<Rightarrow> string \<Rightarrow> bool) \<Rightarrow> (string \<Rightarrow> string option \<Rightarrow> billing_event option) \<Rightarrow> string \<Rightarrow> string
     \<Rightarrow> string option \<Rightarrow> instant \<Rightarrow> uuid \<Rightarrow> hook_row list \<Rightarrow> err + hook_row list" where
  "receive_billing_webhook verify parse raw signature header now i hooks =
     (if \<not> verify raw signature then Inl (BadRequest ''Invalid billing webhook signature'')
      else (case parse raw header of
              None \<Rightarrow> Inl (BadRequest ''Malformed billing webhook payload'')
            | Some e \<Rightarrow>
                if be_id e = '''' then Inl (BadRequest ''Billing webhook event missing providerEventId'')
                else if be_id e \<in> set (map (\<lambda>h. be_id (hk_event h)) hooks) then Inr hooks
                else Inr (hooks @
                  [\<lparr>hk_id = i, hk_event = e, hk_status = HookReceived, hk_attempts = 0,
                    hk_available = now, hk_error = None, hk_processed = None, hk_created = now\<rparr>])))"

definition hook_open :: "hook_row \<Rightarrow> bool" where
  "hook_open h \<longleftrightarrow> hk_status h = HookReceived \<or> hk_status h = HookRetry"

definition hook_max_attempts :: nat where "hook_max_attempts = 6"

definition hook_backoff :: "instant list" where
  "hook_backoff = [30000, 120000, 600000, 1800000, 3600000, 7200000]"

definition hook_batch :: nat where "hook_batch = 20"

definition resolve_subscription :: "billing_event \<Rightarrow> billing_db \<Rightarrow> subscription option" where
  "resolve_subscription e db =
     (case (case be_subscription e of None \<Rightarrow> None | Some p \<Rightarrow> find_by_provider_subscription p db) of
        Some s \<Rightarrow> Some s
      | None \<Rightarrow> (case be_customer e of None \<Rightarrow> None | Some c \<Rightarrow> find_by_provider_customer c db))"

text \<open>A comparison with an invalid date is false.\<close>

definition stale_event :: "hook_row \<Rightarrow> subscription \<Rightarrow> bool" where
  "stale_event h s =
     (let updated = (case su_updated s of None \<Rightarrow> 0 | Some t \<Rightarrow> t)
      in case be_occurred (hk_event h) of
           None \<Rightarrow> hk_created h \<le> updated
         | Some (At t) \<Rightarrow> t \<le> updated
         | Some InvalidDate \<Rightarrow> False)"

text \<open>\<open>confirmRenewal\<close> on the dates of the payload: an invalid one is refused by the database
  client, after the service's own checks.\<close>

definition renew_from_dates ::
  "subscription \<Rightarrow> js_date \<Rightarrow> js_date \<Rightarrow> string \<Rightarrow> instant \<Rightarrow> (billing_db, transition_result) tx" where
  "renew_from_dates s start until pe now db =
     (case (start, until) of
        (At a, At b) \<Rightarrow> confirm_renewal s a b (Some pe) now db
      | _ \<Rightarrow>
          if (case start of At a \<Rightarrow> su_period_start s = Some a | InvalidDate \<Rightarrow> False)
          then Inr (unapplied s, db)
          else (case assert_currently_active s of
                  Inl e \<Rightarrow> Inl e | Inr _ \<Rightarrow> Inl (Thrown ''Invalid Date'')))"

definition apply_hook_event ::
  "subscription \<Rightarrow> billing_event \<Rightarrow> instant \<Rightarrow> (billing_db, transition_result) tx" where
  "apply_hook_event s e now =
     (case (be_type e = ''renewed'', be_start e, be_end e) of
        (True, Some a, Some b) \<Rightarrow>
          if su_status s = PastDue then recover_payment s (Some (be_id e)) now
          else renew_from_dates s a b (be_id e) now
      | _ \<Rightarrow> apply_billing_webhook_event s (be_type e) (be_id e) now)"

text \<open>The transaction for one locked row: its new status, its error text, and the writes.\<close>

definition process_hook_tx ::
  "hook_row \<Rightarrow> instant \<Rightarrow> (billing_db, hook_status \<times> string option) tx" where
  "process_hook_tx h now db =
     (case resolve_subscription (hk_event h) db of
        None \<Rightarrow> Inr ((HookIgnored, Some ''no matching local subscription for providerSubscriptionId/providerCustomerId''), db)
      | Some s \<Rightarrow>
          if stale_event h s
          then Inr ((HookIgnored, Some ''stale: event timestamp not newer than current subscription state''), db)
          else map_sum id (\<lambda>(_, db'). ((HookProcessed, hk_error h), db'))
            (apply_hook_event s (hk_event h) now db))"

text \<open>The message of an error, for \<open>lastError\<close>.\<close>

fun err_message :: "err \<Rightarrow> string" where
  "err_message (BadRequest m) = m"
| "err_message (Forbidden m) = m"
| "err_message (NotFound m) = m"
| "err_message (Conflict m) = m"
| "err_message (Unprocessable m) = m"
| "err_message (ServiceUnavailable m) = m"
| "err_message (BillingPeriodUnresolved m) = m"
| "err_message (InvalidUsage m) = m"
| "err_message (Thrown m) = m"
| "err_message _ = ''''"

text \<open>A conflict is final at once, any other error is retried with growing delays.\<close>

definition hook_dead :: "string \<times> instant \<Rightarrow> hook_row \<Rightarrow> hook_row" where
  "hook_dead x h = h\<lparr>hk_status := HookFailed, hk_attempts := Suc (hk_attempts h),
     hk_error := Some (fst x), hk_processed := Some (snd x)\<rparr>"

definition hook_failure :: "string \<times> instant \<Rightarrow> hook_row \<Rightarrow> hook_row" where
  "hook_failure x h =
     (let n = Suc (hk_attempts h)
      in if \<not> hook_open h then h
         else if n \<ge> hook_max_attempts then hook_dead x h
         else h\<lparr>hk_status := HookRetry, hk_attempts := n, hk_error := Some (fst x),
                hk_available := snd x + backoff hook_backoff n\<rparr>)"

interpretation hook_retry: bounded_retry hook_failure hk_attempts "\<lambda>h. \<not> hook_open h" hook_max_attempts
  by unfold_locales
    (auto simp: hook_failure_def hook_dead_def hook_open_def hook_max_attempts_def Let_def)

definition process_hook :: "instant \<Rightarrow> uuid \<Rightarrow> hook_row list \<times> billing_db \<Rightarrow> hook_row list \<times> billing_db" where
  "process_hook now i st =
     (case st of (hooks, db) \<Rightarrow>
       (case List.find (\<lambda>h. hk_id h = i \<and> hook_open h) hooks of
          None \<Rightarrow> (hooks, db)
        | Some h \<Rightarrow>
            (let put = (\<lambda>f. update_rows (\<lambda>x. hk_id x = i) f hooks)
             in case process_hook_tx h now db of
                  Inr ((status, why), db') \<Rightarrow>
                    (put (\<lambda>x. x\<lparr>hk_status := status, hk_error := why, hk_processed := Some now\<rparr>), db')
                | Inl (Conflict m) \<Rightarrow> (put (hook_dead (m, now)), db)
                | Inl e \<Rightarrow> (put (hook_failure (err_message e, now)), db))))"

definition due_hooks :: "instant \<Rightarrow> hook_row list \<Rightarrow> uuid list" where
  "due_hooks now hooks =
     map hk_id (take hook_batch (sort_key hk_available
       (filter (\<lambda>h. hook_open h \<and> hk_available h \<le> now) hooks)))"

definition process_received_billing_webhooks ::
  "instant \<Rightarrow> hook_row list \<times> billing_db \<Rightarrow> hook_row list \<times> billing_db" where
  "process_received_billing_webhooks now st = fold (process_hook now) (due_hooks now (fst st)) st"

end
