(* ===== verification/BillingInvariants.thy ===== *)
theory BillingInvariants
  imports BillingJobs
begin

text \<open>
  Every write of the subscription tables is a call of the subscription service, on a row that
  may have been read long before. \<open>sub_step\<close> is one such call; the flows, the webhook
  processor and the jobs are sequences of them. What one call preserves therefore holds in
  every reachable state, whatever the interleaving.
\<close>

section \<open>Service calls\<close>

datatype service_call =
    Activation activation
  | PaymentFailure instant "string option"
  | Recovery "string option"
  | GraceExhaustion "string option"
  | Upgrade uuid "string option"
  | DowngradeSchedule uuid
  | DowngradeApplication instant instant "string option"
  | RenewalConfirmation instant instant "string option"
  | CancellationSchedule
  | CancellationUnschedule
  | Cancellation "string option"
  | Reactivation "string option"
  | Expiration "string option"

fun run_call :: "service_call \<Rightarrow> subscription \<Rightarrow> instant \<Rightarrow> (billing_db, transition_result) tx" where
  "run_call (Activation x) s now = confirm_activation s x now"
| "run_call (PaymentFailure g pe) s now = record_payment_failure s g pe now"
| "run_call (Recovery pe) s now = recover_payment s pe now"
| "run_call (GraceExhaustion pe) s now = exhaust_grace s pe now"
| "run_call (Upgrade p pe) s now = confirm_upgrade s p pe now"
| "run_call (DowngradeSchedule p) s now = schedule_downgrade s p now"
| "run_call (DowngradeApplication a b pe) s now = apply_scheduled_downgrade s a b pe now"
| "run_call (RenewalConfirmation a b pe) s now = confirm_renewal s a b pe now"
| "run_call CancellationSchedule s now = schedule_cancellation s now"
| "run_call CancellationUnschedule s now = unschedule_cancellation s now"
| "run_call (Cancellation pe) s now = cancel_subscription s pe now"
| "run_call (Reactivation pe) s now = reactivate s pe now"
| "run_call (Expiration pe) s now = expire s pe now"

text \<open>The status a call moves to, and what it writes besides.\<close>

fun call_target :: "service_call \<Rightarrow> subscription \<Rightarrow> sub_status" where
  "call_target (Activation x) s = ac_to x"
| "call_target (PaymentFailure g pe) s = PastDue"
| "call_target (Recovery pe) s = SubActive"
| "call_target (GraceExhaustion pe) s = Paused"
| "call_target (Cancellation pe) s = SubCancelled"
| "call_target (Reactivation pe) s = SubActive"
| "call_target (Expiration pe) s = Expired"
| "call_target _ s = su_status s"

fun call_writes :: "service_call \<Rightarrow> instant \<Rightarrow> subscription \<Rightarrow> bool" where
  "call_writes (PaymentFailure g pe) now r \<longleftrightarrow> su_grace_ends r = Some g"
| "call_writes (Cancellation pe) now r \<longleftrightarrow>
     su_retention_ends r = Some (now + cancellation_retention_days * ms_per_day)"
| "call_writes _ now r \<longleftrightarrow> True"

text \<open>The type of \<open>ConfirmActivationInput.toStatus\<close>.\<close>

fun call_typed :: "service_call \<Rightarrow> bool" where
  "call_typed (Activation x) \<longleftrightarrow> ac_to x = Trialing \<or> ac_to x = SubActive"
| "call_typed _ \<longleftrightarrow> True"

lemma status_change_simps [simp]:
  "ch_guard (status_change t pe) = (\<lambda>_. True)"
  "ch_data (status_change t pe) = id"
  "ch_type (status_change t pe) = t"
  by (simp_all add: status_change_def)

lemmas service_defs =
  confirm_activation_def record_payment_failure_def recover_payment_def exhaust_grace_def
  confirm_upgrade_def schedule_downgrade_def apply_scheduled_downgrade_def confirm_renewal_def
  schedule_cancellation_def unschedule_cancellation_def cancel_subscription_def reactivate_def
  expire_def

text \<open>Every call is the guarded update of one row or does nothing.\<close>

lemma guarded_transition_Inr:
  assumes "guarded_transition s to c now db = Inr (r, db')"
  shows "(r = unapplied s \<and> db' = db) \<or>
    (is_subscription_transition_allowed (su_status s) to \<and> su_status s \<noteq> to \<and>
     transition_subscription s to c now db = Inr (r, db'))"
  using assms
  by (auto simp: guarded_transition_def assert_subscription_transition_allowed_def split: if_splits)

lemma active_change_Inr:
  assumes "active_change s c now db = Inr (r, db')"
  shows "su_status s = SubActive \<and> transition_subscription s (su_status s) c now db = Inr (r, db')"
  using assms by (auto simp: active_change_def assert_currently_active_def split: if_splits)

lemma active_plan_change_Inr:
  assumes "active_plan_change s p c now db = Inr (r, db')"
  shows "su_status s = SubActive \<and> plan_exists p db \<and>
    transition_subscription s (su_status s) c now db = Inr (r, db')"
  using assms
  by (auto simp: active_plan_change_def assert_currently_active_def assert_plan_exists_def
      split: if_splits)

lemma transition_subscription_Inr:
  assumes "transition_subscription s to c now db = Inr (r, db')"
  shows "(r = unapplied s \<and> db' = db) \<or>
    (hits (sub_hit (su_id s) (su_status s) c) (subs db) = 1 \<and>
     db' = cas_subscription (su_id s) (su_status s) to (c, su_tenant s, now) db \<and>
     subs_unique (subs db') \<and> applied r \<and> find_subscription db' (su_id s) = Some (tr_sub r))"
  using assms
  by (auto simp: transition_subscription_def Let_def split: if_splits option.splits)

lemma run_call_Inr:
  assumes "run_call k s now db = Inr (r, db')"
  shows "(r = unapplied s \<and> db' = db) \<or>
    (\<exists>c. is_subscription_transition_allowed (su_status s) (call_target k s) \<and>
       (\<forall>x. call_writes k now (write_change (call_target k s) c now x)) \<and>
       transition_subscription s (call_target k s) c now db = Inr (r, db'))"
proof (cases k)
  case (PaymentFailure g pe)
  then show ?thesis
    using assms
    by (auto simp: service_defs write_change_def dest!: guarded_transition_Inr
        intro!: exI [of _ "(status_change PaymentFailedEvent pe)\<lparr>ch_data := su_grace_ends_update (\<lambda>_. Some g)\<rparr>"])
next
  case (Cancellation pe)
  then show ?thesis
    using assms
    by (auto simp: service_defs write_change_def dest!: guarded_transition_Inr
        intro!: exI [of _ "(status_change Cancelled_ev pe)\<lparr>ch_data := su_retention_ends_update
          (\<lambda>_. Some (now + cancellation_retention_days * ms_per_day))\<rparr>"])
qed (use assms in \<open>auto simp: service_defs split: if_splits option.splits
      dest!: guarded_transition_Inr active_change_Inr active_plan_change_Inr\<close>)

text \<open>Only a cancellation cancels and only a payment failure makes past due.\<close>

lemma call_target_special:
  assumes "call_typed k" and "run_call k s now db = Inr (r, db')" and "applied r"
  shows "call_target k s = SubCancelled \<Longrightarrow> \<exists>pe. k = Cancellation pe"
    and "call_target k s = PastDue \<Longrightarrow> \<exists>g pe. k = PaymentFailure g pe"
    and "call_target k s = Expired \<Longrightarrow> \<exists>pe. k = Expiration pe"
  using assms
  by (cases k; auto simp: service_defs unapplied_def split: if_splits option.splits
      dest!: active_change_Inr active_plan_change_Inr)+

section \<open>Steps\<close>

text \<open>A row that was read: it is still there, whatever its columns are by now.\<close>

definition sub_seen :: "billing_db \<Rightarrow> subscription \<Rightarrow> bool" where
  "sub_seen db s \<longleftrightarrow> (\<exists>r \<in> set (subs db). su_id r = su_id s \<and> su_tenant r = su_tenant s)"

inductive sub_step :: "billing_db \<Rightarrow> billing_db \<Rightarrow> bool" where
  created: "create_pending_subscription tenant plan now db = Inr (s, db') \<Longrightarrow> sub_step db db'"
| called: "sub_seen db s \<Longrightarrow> call_typed k \<Longrightarrow> run_call k s now db = Inr (r, db') \<Longrightarrow> sub_step db db'"
| key_claimed: "sub_step db (db\<lparr>bd_idem := ks, bd_next := Suc (bd_next db)\<rparr>)"

abbreviation sub_steps :: "billing_db \<Rightarrow> billing_db \<Rightarrow> bool" where
  "sub_steps \<equiv> sub_step\<^sup>*\<^sup>*"

text \<open>One call, as the update of one row.\<close>

lemma sub_step_cases:
  assumes "sub_step db db'"
  obtains (created) tenant plan now s where
      "create_pending_subscription tenant plan now db = Inr (s, db')"
  | (same) "db' = db"
  | (changed) s k c now r where "sub_seen db s" and "call_typed k"
      and "run_call k s now db = Inr (r, db')" and "applied r"
      and "is_subscription_transition_allowed (su_status s) (call_target k s)"
      and "\<And>x. call_writes k now (write_change (call_target k s) c now x)"
      and "db' = cas_subscription (su_id s) (su_status s) (call_target k s) (c, su_tenant s, now) db"
      and "subs_unique (subs db')"
  | (key) ks where "db' = db\<lparr>bd_idem := ks, bd_next := Suc (bd_next db)\<rparr>"
  using assms
proof (cases rule: sub_step.cases)
  case (called s k now r)
  from run_call_Inr [OF called(3)] show ?thesis
  proof
    assume "r = unapplied s \<and> db' = db"
    then show ?thesis using same by blast
  next
    assume "\<exists>c. is_subscription_transition_allowed (su_status s) (call_target k s) \<and>
       (\<forall>x. call_writes k now (write_change (call_target k s) c now x)) \<and>
       transition_subscription s (call_target k s) c now db = Inr (r, db')"
    then obtain c where c: "is_subscription_transition_allowed (su_status s) (call_target k s)"
      "\<And>x. call_writes k now (write_change (call_target k s) c now x)"
      "transition_subscription s (call_target k s) c now db = Inr (r, db')" by blast
    from transition_subscription_Inr [OF c(3)] show ?thesis
      using same changed [OF called _ c(1,2)] by blast
  qed
qed (use created key in blast)+

section \<open>What every call preserves\<close>

text \<open>
  Keys: ids are fresh and unique, so are the unique columns; the log of every row replays to
  its status; every event is one of a row of its own tenant.
\<close>

definition events_owned :: "billing_db \<Rightarrow> bool" where
  "events_owned db \<longleftrightarrow>
     (\<forall>e \<in> set (sub_events db). \<exists>r \<in> set (subs db). su_id r = ev_sub e \<and> su_tenant r = ev_tenant e)"

definition billing_inv :: "billing_db \<Rightarrow> bool" where
  "billing_inv db \<longleftrightarrow>
     sub_keys db \<and> subs_unique (subs db) \<and> (\<forall>r \<in> set (subs db). su_id r < bd_next db) \<and>
     (\<forall>i. log_matches is_subscription_transition_allowed (\<lambda>s. s = SubPending)
        (sub_status_of db i) (sub_log_of db i)) \<and>
     events_owned db"

lemma billing_invD:
  assumes "billing_inv db"
  shows "sub_keys db" and "subs_unique (subs db)" and "r \<in> set (subs db) \<Longrightarrow> su_id r < bd_next db"
    and "log_matches is_subscription_transition_allowed (\<lambda>s. s = SubPending)
        (sub_status_of db i) (sub_log_of db i)"
    and "events_owned db"
  using assms by (auto simp: billing_inv_def)

lemma cas_subscription_subs:
  "subs (cas_subscription i from to (c, t, now) db) = subs db \<or>
   subs (cas_subscription i from to (c, t, now) db) =
     update_rows (sub_hit i from c) (write_change to c now) (subs db)"
  by (simp add: cas_subscription_def)

lemma cas_subscription_frames [simp]:
  "bd_next (cas_subscription i from to a db) = bd_next db"
  "bd_idem (cas_subscription i from to a db) = bd_idem db"
  "plans (cas_subscription i from to a db) = plans db"
  by (cases a; simp add: cas_subscription_def)+

lemma cas_subscription_row_kept:
  assumes "r \<in> set (subs db)"
  shows "\<exists>x \<in> set (subs (cas_subscription i from to (c, t, now) db)).
    su_id x = su_id r \<and> su_tenant x = su_tenant r"
proof (cases "hits (sub_hit i from c) (subs db) = 1")
  case True
  then show ?thesis
    using assms
    by (intro bexI [of _ "if sub_hit i from c r then write_change to c now r else r"])
      (auto simp: cas_subscription_def in_update_rows)
next
  case False
  then show ?thesis using assms by (auto simp: cas_subscription_def)
qed

lemma cas_subscription_rowD:
  assumes "x \<in> set (subs (cas_subscription i from to (c, t, now) db))"
  shows "x \<in> set (subs db) \<or> (\<exists>r \<in> set (subs db). sub_hit i from c r \<and> x = write_change to c now r)"
  using assms by (auto simp: cas_subscription_def in_update_rows split: if_splits)

lemma cas_subscription_events:
  "e \<in> set (sub_events (cas_subscription i from to (c, t, now) db)) \<Longrightarrow>
     e \<in> set (sub_events db) \<or> e = change_event i t from to c"
  by (auto simp: cas_subscription_def split: if_splits)

lemma create_pending_subscription_inv:
  assumes inv: "billing_inv db" and c: "create_pending_subscription tenant plan now db = Inr (s, db')"
  shows "billing_inv db'"
proof -
  note D = billing_invD [OF inv]
  have s: "su_id s = bd_next db" "su_status s = SubPending" "su_tenant s = tenant"
    and uniq: "subs_unique (subs db')"
    and db': "subs db' = subs db @ [s]" "bd_next db' = Suc (bd_next db)"
      "sub_events db' = sub_events db @ [\<lparr>ev_sub = su_id s, ev_tenant = tenant, ev_type = Created,
        ev_from = None, ev_to = SubPending, ev_from_plan = None, ev_to_plan = Some plan,
        ev_provider_event = None, ev_note = NoNote\<rparr>]"
    using c by (auto simp: create_pending_subscription_def Let_def split: if_splits)
  have fresh: "su_id r \<noteq> bd_next db" if "r \<in> set (subs db)" for r
    using D(3) [OF that] by simp
  have no_events: "filter (\<lambda>e. ev_sub e = bd_next db) (sub_events db) = []"
    using D(5) fresh by (auto simp: events_owned_def filter_empty_conv)
  have find: "find_subscription db' i = (if i = bd_next db then Some s else find_subscription db i)" for i
    by (cases "List.find (\<lambda>s. su_id s = i) (subs db)")
      (use fresh s in \<open>auto simp: find_subscription_def db' find_append dest: find_SomeD\<close>)
  have "log_matches is_subscription_transition_allowed (\<lambda>s. s = SubPending)
      (sub_status_of db' i) (sub_log_of db' i)" for i
  proof (cases "i = bd_next db")
    case True
    then show ?thesis
      using s no_events by (simp add: sub_status_of_def find sub_log_of_def db' log_matches_def)
  next
    case False
    then have "sub_status_of db' i = sub_status_of db i" "sub_log_of db' i = sub_log_of db i"
      using s by (simp_all add: sub_status_of_def find sub_log_of_def db')
    then show ?thesis using D(4) by simp
  qed
  moreover have "bd_next db \<notin> su_id ` set (subs db)" using fresh by (metis imageE)
  then have "sub_keys db'" using D(1) s by (simp add: sub_keys_def db')
  moreover have "events_owned db'" using D(5) s by (auto simp: events_owned_def db')
  moreover have "\<forall>r \<in> set (subs db'). su_id r < bd_next db'" using D(3) s by (auto simp: db' less_Suc_eq)
  ultimately show ?thesis using uniq by (simp add: billing_inv_def)
qed

lemma changed_inv:
  assumes inv: "billing_inv db" and seen: "sub_seen db s"
    and ok: "is_subscription_transition_allowed (su_status s) to"
    and db': "db' = cas_subscription (su_id s) (su_status s) to (c, su_tenant s, now) db"
    and uniq: "subs_unique (subs db')"
  shows "billing_inv db'"
proof -
  note D = billing_invD [OF inv]
  have "log_matches is_subscription_transition_allowed (\<lambda>s. s = SubPending)
      (sub_status_of db' i) (sub_log_of db' i)" for i
    unfolding db' by (rule sub_log.cas_log_matches [OF D(1) ok D(4)])
  moreover have "events_owned db'"
    unfolding events_owned_def
  proof
    fix e
    assume "e \<in> set (sub_events db')"
    then have "\<exists>r \<in> set (subs db). su_id r = ev_sub e \<and> su_tenant r = ev_tenant e"
      using cas_subscription_events [of e "su_id s" "su_status s" to c "su_tenant s" now db] D(5) seen
      by (auto simp: db' events_owned_def sub_seen_def change_event_def)
    then show "\<exists>r \<in> set (subs db'). su_id r = ev_sub e \<and> su_tenant r = ev_tenant e"
      using cas_subscription_row_kept unfolding db' by metis
  qed
  moreover have "\<forall>r \<in> set (subs db'). su_id r < bd_next db'"
    using D(3) cas_subscription_rowD unfolding db' by fastforce
  ultimately show ?thesis
    using uniq D(1) by (simp add: billing_inv_def db' cas_subscription_keys)
qed

lemma sub_step_inv: "sub_step db db' \<Longrightarrow> billing_inv db \<Longrightarrow> billing_inv db'"
proof (erule sub_step_cases)
  fix ks
  assume "billing_inv db" and "db' = db\<lparr>bd_idem := ks, bd_next := Suc (bd_next db)\<rparr>"
  then show "billing_inv db'"
    by (auto simp: billing_inv_def sub_keys_def events_owned_def sub_status_of_def
        find_subscription_def sub_log_of_def less_Suc_eq)
qed (auto intro: create_pending_subscription_inv changed_inv)

lemma sub_steps_inv: "sub_steps db db' \<Longrightarrow> billing_inv db \<Longrightarrow> billing_inv db'"
  by (induction rule: rtranclp_induct) (auto intro: sub_step_inv)

lemma sub_step_seen: "sub_step db db' \<Longrightarrow> sub_seen db s \<Longrightarrow> sub_seen db' s"
proof (erule sub_step_cases)
  fix tenant plan now x
  assume "sub_seen db s" and "create_pending_subscription tenant plan now db = Inr (x, db')"
  then show "sub_seen db' s"
    by (auto simp: create_pending_subscription_def Let_def sub_seen_def split: if_splits)
next
  fix x k c now
  assume "sub_seen db s"
    and "db' = cas_subscription (su_id x) (su_status x) (call_target k x) (c, su_tenant x, now) db"
  then show "sub_seen db' s"
    unfolding sub_seen_def using cas_subscription_row_kept by metis
qed (auto simp: sub_seen_def)

lemma sub_steps_seen: "sub_steps db db' \<Longrightarrow> sub_seen db s \<Longrightarrow> sub_seen db' s"
  by (induction rule: rtranclp_induct) (auto intro: sub_step_seen)

text \<open>An expired row stays as it is.\<close>

lemma sub_step_expired:
  assumes step: "sub_step db db'" and inv: "billing_inv db"
    and r: "find_subscription db i = Some r" and e: "su_status r = Expired"
  shows "find_subscription db' i = Some r"
  using step
proof (cases rule: sub_step_cases)
  case (created tenant plan now s)
  then show ?thesis
    using r by (auto simp: create_pending_subscription_def Let_def find_subscription_def find_append
        split: if_splits)
next
  case (changed s k c now x)
  have "\<not> sub_hit (su_id s) (su_status s) c r"
    using changed(5) e by (cases "su_status s") (auto simp: sub_hit_def)
  then show ?thesis
    using r unfolding changed(7) by (simp add: cas_subscription_find [OF billing_invD(1) [OF inv]])
next
  case (key ks)
  then show ?thesis using r by (simp add: find_subscription_def)
qed (use r in simp)

section \<open>Dates\<close>

text \<open>A cancelled row knows when its retention ends and a past-due row when its grace ends.\<close>

definition row_dates_ok :: "subscription \<Rightarrow> bool" where
  "row_dates_ok r \<longleftrightarrow>
     (su_status r = SubCancelled \<longrightarrow> su_retention_ends r \<noteq> None) \<and>
     (su_status r = PastDue \<longrightarrow> su_grace_ends r \<noteq> None)"

definition dates_ok :: "billing_db \<Rightarrow> bool" where
  "dates_ok db \<longleftrightarrow> (\<forall>r \<in> set (subs db). row_dates_ok r)"

lemma sub_step_dates:
  assumes "sub_step db db'" and ok: "dates_ok db"
  shows "dates_ok db'"
  using assms(1)
proof (cases rule: sub_step_cases)
  case (created tenant plan now s)
  then show ?thesis
    using ok by (auto simp: create_pending_subscription_def Let_def dates_ok_def row_dates_ok_def
        split: if_splits)
next
  case (changed s k c now r)
  have "row_dates_ok (write_change (call_target k s) c now x)" for x
    using call_target_special [OF changed(2-4)] changed(6) [of x]
    by (auto simp: row_dates_ok_def)
  then show ?thesis
    using ok cas_subscription_rowD unfolding changed(7) dates_ok_def by metis
qed (use ok in \<open>auto simp: dates_ok_def\<close>)

lemma sub_steps_dates: "sub_steps db db' \<Longrightarrow> dates_ok db \<Longrightarrow> dates_ok db'"
  by (induction rule: rtranclp_induct) (auto intro: sub_step_dates)

lemma sub_steps_expired:
  assumes "sub_steps db db'" and "billing_inv db" and "find_subscription db i = Some r"
    and "su_status r = Expired"
  shows "find_subscription db' i = Some r"
  using assms
  by (induction rule: rtranclp_induct) (auto intro: sub_step_expired sub_steps_inv)

section \<open>Flows are sequences of calls\<close>

definition flow_ok :: "billing_db \<Rightarrow> flow \<Rightarrow> bool" where
  "flow_ok db f \<longleftrightarrow> sub_steps db (snd (f db)) \<and>
     (\<forall>s. fst (f db) = Inr s \<longrightarrow> sub_seen (snd (f db)) s)"

named_theorems flows "composition of flows"

lemma call_seen:
  assumes "run_call k s now db = Inr (r, db')" and "sub_seen db s" and "call_typed k"
  shows "sub_step db db' \<and> sub_seen db' (tr_sub r)"
proof
  show step: "sub_step db db'" using assms by (blast intro: sub_step.called)
  show "sub_seen db' (tr_sub r)"
    using run_call_Inr [OF assms(1)]
  proof
    assume "r = unapplied s \<and> db' = db"
    then show ?thesis using assms(2) by (simp add: unapplied_def)
  next
    assume "\<exists>c. is_subscription_transition_allowed (su_status s) (call_target k s) \<and>
       (\<forall>x. call_writes k now (write_change (call_target k s) c now x)) \<and>
       transition_subscription s (call_target k s) c now db = Inr (r, db')"
    then obtain c where "transition_subscription s (call_target k s) c now db = Inr (r, db')" by blast
    from transition_subscription_Inr [OF this] show ?thesis
      using assms(2) by (auto simp: unapplied_def sub_seen_def dest: find_subscriptionD)
  qed
qed

lemma settle_call [flows]:
  assumes "sub_seen db s" and "call_typed k"
  shows "flow_ok db (settle (run_call k s now))"
proof (cases "run_call k s now db")
  case (Inr a)
  then obtain r db' where "run_call k s now db = Inr (r, db')" by (cases a) auto
  then show ?thesis
    using call_seen [OF _ assms] by (auto simp: flow_ok_def settle_def run_tx_def)
qed (auto simp: flow_ok_def settle_def run_tx_def)

lemma refuse_ok [flows]: "flow_ok db (refuse e)"
  by (simp add: flow_ok_def refuse_def)

lemma Pair_ok [flows]: "sub_seen db s \<Longrightarrow> flow_ok db (Pair (Inr s))"
  by (simp add: flow_ok_def)

lemma on_answer_ok [flows]: "flow_ok db f \<Longrightarrow> flow_ok db g \<Longrightarrow> flow_ok db (on_answer a f g)"
  by (cases a) (auto simp: on_answer_def intro: flows)

lemma unconfirmed_ok [flows]: "flow_ok db (unconfirmed what bp s)"
  by (auto simp: unconfirmed_def intro: flows split: sum.splits)

lemma flow_okI: "f db = g db \<Longrightarrow> flow_ok db g \<Longrightarrow> flow_ok db f"
  by (simp add: flow_ok_def)

lemma tenant_row_seen: "get_subscription_for_tenant t db = Inr s \<Longrightarrow> sub_seen db s \<and> su_tenant s = t"
  by (auto simp: get_subscription_for_tenant_def find_subscription_for_tenant_def sub_seen_def
      split: option.splits dest!: find_SomeD)

lemmas settle_calls [flows] =
  settle_call [where k = "Upgrade p pe" for p pe, simplified]
  settle_call [where k = "DowngradeSchedule p" for p, simplified]
  settle_call [where k = "Cancellation pe" for pe, simplified]
  settle_call [where k = "CancellationSchedule", simplified]
  settle_call [where k = "CancellationUnschedule", simplified]
  settle_call [where k = "Recovery pe" for pe, simplified]
  settle_call [where k = "Reactivation pe" for pe, simplified]
  settle_call [where k = "RenewalConfirmation a b pe" for a b pe, simplified]

lemma reconcile_upgrade_timeout_ok [flows]:
  "sub_seen db s \<Longrightarrow> flow_ok db (reconcile_upgrade_timeout bp s to now)"
  by (auto simp: reconcile_upgrade_timeout_def intro: flows split: sum.splits)

lemma apply_resume_transition_ok [flows]:
  "sub_seen db s \<Longrightarrow> flow_ok db (apply_resume_transition s now)"
  by (auto simp: apply_resume_transition_def intro: flows)

lemma reconcile_resume_timeout_ok [flows]:
  "sub_seen db s \<Longrightarrow> flow_ok db (reconcile_resume_timeout bp s now)"
  by (auto simp: reconcile_resume_timeout_def intro: flows split: sum.splits)

end
