(* ===== verification/BillingReach.thy ===== *)
theory BillingReach
  imports BillingInvariants
begin

text \<open>
  The entry points as steps, in any order and with any answers of the provider, and what holds
  in every state they reach.
\<close>

section \<open>The entry points are sequences of service calls\<close>

lemmas flow_defs = upgrade_flow_def downgrade_flow_def cancel_flow_def unschedule_flow_def
  resume_flow_def immediate_cancellation_flow_def schedule_cancellation_flow_def

lemma flow_okD: "flow_ok db f \<Longrightarrow> sub_steps db (snd (f db))"
  by (simp add: flow_ok_def)

lemma flow_ok_apply:
  "(\<And>s. get_subscription_for_tenant t db = Inr s \<Longrightarrow> sub_seen db s \<Longrightarrow> sub_steps db (snd (g s))) \<Longrightarrow>
   sub_steps db (snd (case get_subscription_for_tenant t db of Inl e \<Rightarrow> (Inl e, db) | Inr s \<Rightarrow> g s))"
  by (auto split: sum.splits dest: tenant_row_seen)

lemma upgrade_flow_steps: "sub_steps db (snd (upgrade_flow bp t to now db))"
  unfolding upgrade_flow_def
  by (rule flow_ok_apply) (auto intro!: flow_okD flows split: sum.splits)

lemma downgrade_flow_steps: "sub_steps db (snd (downgrade_flow bp t to now db))"
  unfolding downgrade_flow_def
  by (rule flow_ok_apply) (auto intro!: flow_okD flows split: sum.splits)

lemma cancel_flow_steps: "sub_steps db (snd (cancel_flow bp t at_end now db))"
  unfolding cancel_flow_def immediate_cancellation_flow_def schedule_cancellation_flow_def
  by (rule flow_ok_apply) (auto intro!: flow_okD flows split: sum.splits)

lemma unschedule_flow_steps: "sub_steps db (snd (unschedule_flow bp t now db))"
  unfolding unschedule_flow_def
  by (rule flow_ok_apply) (auto intro!: flow_okD flows split: sum.splits)

lemma resume_flow_steps: "sub_steps db (snd (resume_flow bp t now db))"
  unfolding resume_flow_def
  by (rule flow_ok_apply) (auto intro!: flow_okD flows split: sum.splits)

lemma snd_view_of [simp]: "snd (view_of r) = snd r"
  by (auto simp: view_of_def split: prod.splits sum.splits)

lemma snd_current_view [simp]: "snd (current_view t db) = db"
  by (simp add: current_view_def)

lemma with_idempotency_steps:
  assumes "\<And>db. sub_steps db (snd (f db))"
  shows "sub_steps db (snd (with_idempotency rq f db))"
proof -
  have "sub_steps db (snd (f (db\<lparr>bd_idem := ks, bd_next := Suc (bd_next db)\<rparr>)))" for ks
    by (rule converse_rtranclp_into_rtranclp [OF key_claimed assms])
  then show ?thesis
    by (auto simp: with_idempotency_def claim_and_proceed_def split: option.splits)
qed

lemma roll_period_steps:
  assumes seen: "sub_seen db s"
  shows "sub_steps db (snd (roll_period bp s x downgraded now db))"
proof -
  have "sub_steps db db'" if "cancel_at_boundary bp s now db = Inr (y, db')" for y db'
  proof (cases "cancel_subscription s None now db")
    case (Inl e)
    then show ?thesis
      using that by (auto simp: cancel_at_boundary_def split: sum.splits answer.splits)
  next
    case (Inr a)
    then obtain r d where a: "run_call (Cancellation None) s now db = Inr (r, d)" by (cases a) auto
    then have "sub_step db d" using call_seen [OF a seen] by simp
    then show ?thesis
      using that a by (auto simp: cancel_at_boundary_def split: sum.splits answer.splits)
  qed
  moreover have "sub_steps db (snd (settle (confirm_renewal s a b None now) db))" for a b
    by (rule flow_okD) (intro flows seen)
  ultimately show ?thesis
    by (auto simp: roll_period_def split: sum.splits prod.splits)
qed

lemma reconcile_period_steps: "sub_steps db (snd (reconcile_period_flow bp t now db))"
  unfolding reconcile_period_flow_def
proof (rule flow_ok_apply)
  fix s
  assume seen: "sub_seen db s"
  have "sub_steps db (snd (roll_period bp (tr_sub r) x True now db'))"
    if a: "apply_scheduled_downgrade s (ps_start x) (ps_end x) None now db = Inr (r, db')" for x r db'
  proof -
    have "sub_step db db' \<and> sub_seen db' (tr_sub r)"
      using call_seen [of "DowngradeApplication (ps_start x) (ps_end x) None" s now db r db'] a seen
      by simp
    then show ?thesis
      using roll_period_steps [of db' "tr_sub r"] by (blast intro: converse_rtranclp_into_rtranclp)
  qed
  then show "sub_steps db (snd
      (if su_status s \<noteq> SubActive \<or> provider_link s = None then (Inr s, db)
       else case attempt_reconciliation_read bp s of
              Inl e \<Rightarrow> (Inl e, db)
            | Inr x \<Rightarrow>
                if \<not> boundary_reached s x then (Inr s, db)
                else if su_pending_plan s = None then roll_period bp s x False now db
                else (case apply_scheduled_downgrade s (ps_start x) (ps_end x) None now db of
                        Inl e \<Rightarrow> (Inl e, db)
                      | Inr (r, db') \<Rightarrow> roll_period bp (tr_sub r) x True now db')))"
    using roll_period_steps [OF seen] by (auto split: sum.splits prod.splits)
qed

lemma run_call_steps:
  assumes "sub_seen db s" and "call_typed k"
  shows "sub_steps db (snd (run_tx (run_call k s now) db))"
  using assms call_seen [OF _ assms] by (auto simp: run_tx_def split: sum.splits)

lemma fold_steps:
  assumes "\<And>s d. s \<in> set ss \<Longrightarrow> sub_seen d s \<Longrightarrow> sub_steps d (f s d)"
    and "\<And>s. s \<in> set ss \<Longrightarrow> sub_seen db s"
  shows "sub_steps db (fold f ss db)"
  using assms
proof (induction ss arbitrary: db)
  case (Cons s ss)
  have one: "sub_steps db (f s db)" by (rule Cons.prems(1)) (simp_all add: Cons.prems(2))
  have later: "sub_seen (f s db) x" if "x \<in> set ss" for x
    using sub_steps_seen [OF one Cons.prems(2)] that by simp
  have "sub_steps (f s db) (fold f ss (f s db))"
    by (rule Cons.IH) (simp_all add: Cons.prems(1) later)
  then show ?case using one by simp
qed simp

lemma due_by_seen: "s \<in> set (due_by col p now limit db) \<Longrightarrow> s \<in> set (subs db) \<and> p s \<and> reached (col s) now"
  by (auto simp: due_by_def dest: in_set_takeD)

lemma in_table_seen: "s \<in> set (subs db) \<Longrightarrow> sub_seen db s"
  by (auto simp: sub_seen_def)

lemmas due_defs = find_grace_exhausted_subscriptions_def find_expirable_cancelled_subscriptions_def
  find_subscriptions_needing_period_reconciliation_def

lemma jobs_steps:
  "sub_steps db (run_grace_exhaustion now db)"
  "sub_steps db (run_cancellation_expiration now db)"
  "sub_steps db (run_period_reconciliation bp now db)"
proof -
  have g: "sub_steps d (exhaust_one now s d)" if "sub_seen d s" for s d
    using run_call_steps [OF that, of "GraceExhaustion None"] by (simp add: exhaust_one_def)
  have e: "sub_steps d (expire_one now s d)" if "sub_seen d s" for s d
    using run_call_steps [OF that, of "Expiration None"] by (simp add: expire_one_def)
  show "sub_steps db (run_grace_exhaustion now db)"
    unfolding run_grace_exhaustion_def due_defs
    by (rule fold_steps) (auto intro: g dest!: due_by_seen intro!: in_table_seen)
  show "sub_steps db (run_cancellation_expiration now db)"
    unfolding run_cancellation_expiration_def due_defs
    by (rule fold_steps) (auto intro: e dest!: due_by_seen intro!: in_table_seen)
  show "sub_steps db (run_period_reconciliation bp now db)"
    unfolding run_period_reconciliation_def due_defs reconcile_period_def
    by (rule fold_steps)
      (auto intro: reconcile_period_steps dest!: due_by_seen intro!: in_table_seen)
qed

lemma resolve_seen: "resolve_subscription e db = Some s \<Longrightarrow> sub_seen db s"
  by (auto simp: resolve_subscription_def find_by_provider_subscription_def
      find_by_provider_customer_def split: option.splits dest!: find_SomeD intro: in_table_seen)

text \<open>What a webhook event calls.\<close>

definition called_or_not :: "subscription \<Rightarrow> instant \<Rightarrow> billing_db \<Rightarrow> transition_result \<times> billing_db \<Rightarrow> bool" where
  "called_or_not s now db y \<longleftrightarrow>
     y = (unapplied s, db) \<or> (\<exists>k. call_typed k \<and> run_call k s now db = Inr y)"

lemma calledI: "call_typed k \<Longrightarrow> run_call k s now db = Inr y \<Longrightarrow> called_or_not s now db y"
  by (auto simp: called_or_not_def)

lemma renew_from_dates_call:
  assumes "renew_from_dates s a b pe now db = Inr y"
  shows "called_or_not s now db y"
proof (cases "\<exists>m n. a = At m \<and> b = At n")
  case True
  then obtain m n where "a = At m" "b = At n" by blast
  then show ?thesis
    using assms by (intro calledI [of "RenewalConfirmation m n (Some pe)"]) (simp_all add: renew_from_dates_def)
next
  case False
  then show ?thesis
    using assms
    by (cases a; cases b)
      (auto simp: renew_from_dates_def called_or_not_def split: if_splits sum.splits)
qed

lemma apply_billing_webhook_event_call:
  assumes "apply_billing_webhook_event s type pe now db = Inr y"
  shows "called_or_not s now db y"
  using assms
    calledI [of "PaymentFailure (now + grace_period_days * ms_per_day) (Some pe)" s now db y]
    calledI [of "Recovery (Some pe)" s now db y] calledI [of "Cancellation (Some pe)" s now db y]
  by (auto simp: apply_billing_webhook_event_def called_or_not_def split: if_splits)

lemma apply_hook_event_call:
  assumes "apply_hook_event s e now db = Inr y"
  shows "called_or_not s now db y"
  using assms calledI [of "Recovery (Some (be_id e))" s now db y]
  by (auto simp: apply_hook_event_def split: option.splits bool.splits if_splits
      dest: renew_from_dates_call apply_billing_webhook_event_call)

lemma called_or_not_steps: "called_or_not s now db (r, db') \<Longrightarrow> sub_seen db s \<Longrightarrow> sub_steps db db'"
  by (auto simp: called_or_not_def intro: sub_step.called)

lemma process_hook_tx_steps:
  assumes "process_hook_tx h now db = Inr (out, db')"
  shows "sub_steps db db'"
proof (cases "resolve_subscription (hk_event h) db")
  case (Some s)
  show ?thesis
  proof (cases "apply_hook_event s (hk_event h) now db")
    case (Inr a)
    then show ?thesis
      using assms Some called_or_not_steps [OF apply_hook_event_call, of s "hk_event h" now db "fst a" "snd a"]
      by (cases a) (auto simp: process_hook_tx_def resolve_seen split: if_splits)
  qed (use assms Some in \<open>auto simp: process_hook_tx_def split: if_splits\<close>)
qed (use assms in \<open>simp add: process_hook_tx_def\<close>)

lemma process_hook_steps: "sub_steps db (snd (process_hook now i (hooks, db)))"
  using process_hook_tx_steps
  by (auto simp: process_hook_def Let_def split: option.splits sum.splits err.splits)

lemma create_subscription_steps: "sub_steps db (snd (create_subscription bp t p now db))"
proof -
  have "sub_steps db (snd (activate_new t p c x now db))" for c x
  proof (cases "create_pending_subscription t p now db")
    case (Inr a)
    then obtain s db1 where a: "create_pending_subscription t p now db = Inr (s, db1)" by (cases a) auto
    then have seen: "sub_seen db1 s"
      by (auto simp: create_pending_subscription_def Let_def sub_seen_def split: if_splits)
    have "flow_ok db1 (settle (run_call (Activation y) s now))"
      if "ac_to y = Trialing \<or> ac_to y = SubActive" for y
      using that by (intro settle_call seen) simp
    then have "sub_steps db1 (snd (activate_new t p c x now db))"
      using a by (auto simp: activate_new_def intro!: flow_okD)
    then show ?thesis using sub_step.created [OF a] by (rule converse_rtranclp_into_rtranclp [rotated])
  qed (simp add: activate_new_def)
  then show ?thesis
    by (auto simp: create_subscription_def split: sum.splits answer.splits)
qed

section \<open>Reachable states\<close>

inductive billing_step :: "billing_db \<Rightarrow> billing_db \<Rightarrow> bool" where
  signing_up: "billing_step db (snd (create_subscription bp t p now db))"
| upgrading: "billing_step db (snd (upgrade bp t u to key now db))"
| downgrading: "billing_step db (snd (downgrade bp t u to key now db))"
| cancelling: "billing_step db (snd (cancel_request bp t u at_end key now db))"
| unscheduling: "billing_step db (snd (unschedule_request bp t u key now db))"
| resuming: "billing_step db (snd (resume bp t u key now db))"
| reconciling: "billing_step db (snd (reconcile_period bp t now db))"
| period_job: "billing_step db (run_period_reconciliation bp now db)"
| grace_job: "billing_step db (run_grace_exhaustion now db)"
| expiry_job: "billing_step db (run_cancellation_expiration now db)"
| webhook: "billing_step db (snd (process_hook now i (hooks, db)))"
| stale_call: "sub_seen db s \<Longrightarrow> call_typed k \<Longrightarrow> billing_step db (snd (run_tx (run_call k s now) db))"

inductive_simps billing_step_simps: "billing_step db db'"

lemma billing_step_steps: "billing_step db db' \<Longrightarrow> sub_steps db db'"
  by (induction rule: billing_step.induct)
    (auto simp: upgrade_def downgrade_def cancel_request_def unschedule_request_def resume_def
      reconcile_period_def
      intro: create_subscription_steps upgrade_flow_steps downgrade_flow_steps cancel_flow_steps
        unschedule_flow_steps resume_flow_steps with_idempotency_steps reconcile_period_steps
        jobs_steps process_hook_steps run_call_steps)

text \<open>A deployment starts with plans and no subscriptions.\<close>

definition billing_start :: "billing_db \<Rightarrow> bool" where
  "billing_start db \<longleftrightarrow> subs db = [] \<and> sub_events db = []"

definition billing_reachable :: "billing_db \<Rightarrow> bool" where
  "billing_reachable db \<longleftrightarrow> (\<exists>db0. billing_start db0 \<and> billing_step\<^sup>*\<^sup>* db0 db)"

lemma billing_steps_steps: "billing_step\<^sup>*\<^sup>* db db' \<Longrightarrow> sub_steps db db'"
  by (induction rule: rtranclp_induct) (auto dest: billing_step_steps)

lemma billing_start_inv: "billing_start db \<Longrightarrow> billing_inv db \<and> dates_ok db"
  by (simp add: billing_start_def billing_inv_def dates_ok_def sub_keys_def subs_unique_def given_def
      events_owned_def log_matches_def sub_status_of_def find_subscription_def)

lemma billing_reachable_inv: "billing_reachable db \<Longrightarrow> billing_inv db \<and> dates_ok db"
  unfolding billing_reachable_def
  using billing_start_inv billing_steps_steps sub_steps_inv sub_steps_dates by blast

section \<open>A concrete history\<close>

text \<open>One tenant signs up, asks to cancel at the period end, and the period ends.\<close>

definition sample_period :: provider_sub where
  "sample_period = \<lparr>ps_id = ''sub'', ps_start = 100, ps_end = 200, ps_trial = None, ps_plan = Some 1\<rparr>"

definition sample_provider :: billing_provider where
  "sample_provider = \<lparr>bp_create_customer = (\<lambda>_. Answer ''cus''),
     bp_create_subscription = (\<lambda>_ p. Answer \<lparr>ps_id = ''sub'', ps_start = 0, ps_end = 100,
       ps_trial = None, ps_plan = Some p\<rparr>),
     bp_change = (\<lambda>_ _ _. Answer sample_period), bp_cancel = (\<lambda>_ _. Answer ()),
     bp_unschedule = (\<lambda>_. Answer sample_period), bp_resume = (\<lambda>_. Answer sample_period),
     bp_get = (\<lambda>_. Answer sample_period)\<rparr>"

definition sample_plans :: billing_db where
  "sample_plans = \<lparr>subs = [], sub_events = [],
     plans = [\<lparr>pl_id = 1, pl_key = ''basic'', pl_name = ''Basic'', pl_public = True, pl_active = Some True,
                pl_sort = Some 0, pl_enterprise = Some False, pl_created = 0\<rparr>,
              \<lparr>pl_id = 2, pl_key = ''pro'', pl_name = ''Pro'', pl_public = True, pl_active = Some True,
                pl_sort = Some 1, pl_enterprise = Some False, pl_created = 0\<rparr>],
     bd_idem = [], bd_next = 10\<rparr>"

definition sample_subscribed :: billing_db where
  "sample_subscribed = snd (create_subscription sample_provider 7 1 5 sample_plans)"

definition sample_leaving :: billing_db where
  "sample_leaving = snd (cancel_request sample_provider 7 3 True ''key'' 6 sample_subscribed)"

definition sample_left :: billing_db where
  "sample_left = snd (reconcile_period sample_provider 7 100 sample_leaving)"

definition sample_row :: subscription where
  "sample_row = \<lparr>su_id = 10, su_tenant = 7, su_plan = 1, su_status = SubActive,
     su_period_start = Some 0, su_period_end = Some 100, su_customer = Some ''cus'',
     su_provider = Some ''sub'', su_cancel_at_end = None, su_trial_ends = None,
     su_pending_plan = None, su_grace_ends = None, su_retention_ends = None, su_updated = Some 5\<rparr>"

lemma sample_billing_rows:
  "subs sample_subscribed = [sample_row]"
  "subs sample_left = [sample_row\<lparr>su_status := SubCancelled, su_cancel_at_end := Some True,
     su_retention_ends := Some 2592000100, su_updated := Some 100\<rparr>]"
  by code_simp+

lemma sample_billing_reachable:
  "billing_reachable sample_subscribed" "billing_reachable sample_left"
proof -
  have 1: "billing_step sample_plans sample_subscribed"
    unfolding sample_subscribed_def by (rule signing_up)
  have 2: "billing_step sample_subscribed sample_leaving"
    unfolding sample_leaving_def by (rule cancelling)
  have 3: "billing_step sample_leaving sample_left"
    unfolding sample_left_def by (rule reconciling)
  have start: "billing_start sample_plans" by (simp add: billing_start_def sample_plans_def)
  show "billing_reachable sample_subscribed"
    unfolding billing_reachable_def using start 1 by blast
  show "billing_reachable sample_left"
    unfolding billing_reachable_def using start 1 2 3
    by (blast intro: rtranclp.rtrancl_into_rtrancl)
qed

definition sample_left_row :: subscription where
  "sample_left_row = sample_row\<lparr>su_status := SubCancelled, su_cancel_at_end := Some True,
     su_retention_ends := Some 2592000100, su_updated := Some 100\<rparr>"

definition sample_expired :: billing_db where
  "sample_expired = run_cancellation_expiration 2592000100 sample_left"

lemma sample_found:
  "find_subscription sample_subscribed 10 = Some sample_row"
  "find_subscription sample_left 10 = Some sample_left_row"
  "find_subscription sample_expired 10 =
     Some (sample_left_row\<lparr>su_status := Expired, su_updated := Some 2592000100\<rparr>)"
  by code_simp+

lemma sample_expired_reachable: "billing_reachable sample_expired"
proof -
  have "billing_step sample_left sample_expired"
    unfolding sample_expired_def by (rule expiry_job)
  then show ?thesis
    using sample_billing_reachable(2) unfolding billing_reachable_def
    by (blast intro: rtranclp.rtrancl_into_rtrancl)
qed

end
