(* ===== verification/BillingProperties.thy ===== *)
theory BillingProperties
  imports BillingReach
begin

text \<open>What the subscription side promises, and where it does not keep it.\<close>

section \<open>Every reachable state\<close>


text \<open>
  An expired subscription is final: no request, webhook, job or stale call, in any order,
  changes any column of its row.
\<close>

theorem expired_subscription_is_final:
  assumes "billing_reachable db" and "find_subscription db i = Some r" and "su_status r = Expired"
    and "billing_step\<^sup>*\<^sup>* db db'"
  shows "find_subscription db' i = Some r"
  using sub_steps_expired [OF billing_steps_steps [OF assms(4)]] billing_reachable_inv assms by blast

section \<open>Expiry\<close>

lemma expire_one_find:
  assumes keys: "sub_keys db" and r: "find_subscription db i = Some r"
    and s: "su_id s = i \<Longrightarrow> su_status s = SubCancelled"
  shows "sub_keys (expire_one now s db) \<and>
    (find_subscription (expire_one now s db) i = Some r \<or>
     su_id s = i \<and> su_status r = SubCancelled \<and>
     find_subscription (expire_one now s db) i = Some (r\<lparr>su_status := Expired, su_updated := Some now\<rparr>))"
proof (cases "expire s None now db")
  case (Inr a)
  then obtain y db' where y: "expire s None now db = Inr (y, db')" by (cases a) auto
  then have e: "expire_one now s db = db'" by (simp add: expire_one_def run_tx_def)
  consider "db' = db"
    | "db' = cas_subscription (su_id s) (su_status s) Expired
         (status_change Expired_ev None, su_tenant s, now) db"
    using y by (auto simp: expire_def dest!: guarded_transition_Inr transition_subscription_Inr)
  then show ?thesis
  proof cases
    case 2
    show ?thesis
    proof (cases "su_id s = i \<and> su_status s = su_status r")
      case True
      then show ?thesis
        using r s find_subscriptionD [OF r]
        by (auto simp: e 2 cas_subscription_keys keys cas_subscription_find [OF keys] sub_hit_def
            write_change_def)
    next
      case False
      then show ?thesis
        using r find_subscriptionD [OF r]
        by (auto simp: e 2 cas_subscription_keys keys cas_subscription_find [OF keys] sub_hit_def)
    qed
  qed (use keys r e in simp)
qed (use keys r in \<open>simp add: expire_one_def run_tx_def\<close>)

lemma fold_expire_find:
  assumes "sub_keys db" and "find_subscription db i = Some r"
    and "\<And>s. s \<in> set ss \<Longrightarrow> su_id s = i \<Longrightarrow> su_status s = SubCancelled"
  shows "find_subscription (fold (expire_one now) ss db) i = Some r \<or>
    (\<exists>s \<in> set ss. su_id s = i) \<and> su_status r = SubCancelled \<and>
    find_subscription (fold (expire_one now) ss db) i = Some (r\<lparr>su_status := Expired, su_updated := Some now\<rparr>)"
  using assms
proof (induction ss arbitrary: db r)
  case (Cons s ss)
  let ?x = "r\<lparr>su_status := Expired, su_updated := Some now\<rparr>"
  note one = expire_one_find [OF Cons.prems(1,2), of s now]
  have hyp: "su_id s = i \<Longrightarrow> su_status s = SubCancelled" by (simp add: Cons.prems(3))
  have ih: "\<lbrakk>find_subscription (expire_one now s db) i = Some y\<rbrakk> \<Longrightarrow>
      find_subscription (fold (expire_one now) ss (expire_one now s db)) i = Some y \<or>
      (\<exists>s \<in> set ss. su_id s = i) \<and> su_status y = SubCancelled \<and>
      find_subscription (fold (expire_one now) ss (expire_one now s db)) i =
        Some (y\<lparr>su_status := Expired, su_updated := Some now\<rparr>)" for y
    using one hyp by (intro Cons.IH) (auto simp: Cons.prems(3))
  from one [OF hyp] ih [of r] ih [of ?x] show ?case by auto
qed simp

text \<open>
  The expiration job expires a subscription only after its retention: if the row changes,
  it was cancelled, its retention end, thirty days after the cancellation, has passed, and
  nothing but the status and the update time changes. All other rows stay as they are.
\<close>

theorem expiry_waits_for_retention:
  assumes "billing_reachable db" and "find_subscription db i = Some r"
    and "find_subscription (run_cancellation_expiration now db) i \<noteq> Some r"
  shows "su_status r = SubCancelled \<and>
    (\<exists>t. su_retention_ends r = Some t \<and> t \<le> now) \<and>
    find_subscription (run_cancellation_expiration now db) i =
      Some (r\<lparr>su_status := Expired, su_updated := Some now\<rparr>)"
proof -
  let ?ss = "find_expirable_cancelled_subscriptions now scheduler_batch db"
  have keys: "sub_keys db"
    using billing_reachable_inv [OF assms(1)] by (auto simp: billing_inv_def)
  have ss: "s \<in> set (subs db) \<and> su_status s = SubCancelled \<and> reached (su_retention_ends s) now"
    if "s \<in> set ?ss" for s
    using due_by_seen that unfolding due_defs by blast
  obtain s where s: "s \<in> set ?ss" "su_id s = i" "su_status r = SubCancelled"
    "find_subscription (run_cancellation_expiration now db) i =
      Some (r\<lparr>su_status := Expired, su_updated := Some now\<rparr>)"
    using fold_expire_find [OF keys assms(2), of ?ss now] ss assms(3)
    unfolding run_cancellation_expiration_def by blast
  have "s = r"
    using distinct_key_inj [of su_id "subs db" s r] keys ss [OF s(1)] s(2) find_subscriptionD [OF assms(2)]
    by (simp add: sub_keys_def)
  then show ?thesis
    using s(3,4) ss [OF s(1)] by (auto simp: reached_def split: option.splits)
qed

section \<open>Replays\<close>

text \<open>
  Every operation of the subscription service is idempotent: called again, at any time, on
  the row it returned, an applied operation changes nothing, writes no event and says so.
\<close>

theorem applied_call_replays_as_noop:
  assumes "run_call k s now db = Inr (r, db')" and "applied r" and "call_typed k"
    and "sub_keys db"
  shows "run_call k (tr_sub r) now' db' = Inr (unapplied (tr_sub r), db')"
proof -
  have *: "P (tr_sub r)" if t: "transition_subscription s to c now db = Inr (r, db')"
      and P: "\<And>x. P (write_change to c now x)" for to c P
  proof -
    from transition_subscription_Inr [OF t]
    have h: "hits (sub_hit (su_id s) (su_status s) c) (subs db) = 1"
      and db': "db' = cas_subscription (su_id s) (su_status s) to (c, su_tenant s, now) db"
      and f: "find_subscription db' (su_id s) = Some (tr_sub r)"
      using assms(2) by (auto simp: unapplied_def)
    from h obtain x where "find_subscription db (su_id s) = Some x" "sub_hit (su_id s) (su_status s) c x"
      using sub_hit_1_iff [OF assms(4)] find_subscriptionD by (auto simp: sub_hit_def)
    then have "tr_sub r = write_change to c now x"
      using f by (simp add: db' cas_subscription_find [OF assms(4)])
    then show ?thesis using P by simp
  qed
  have u: "\<not> applied (unapplied s)" by (simp add: unapplied_def)
  have g: "su_status (tr_sub r) = to" if "guarded_transition s to c now db = Inr (r, db')" for to c
    using guarded_transition_Inr [OF that] *[of to c "\<lambda>x. su_status x = to"] assms(2) u by auto
  have a: "P (tr_sub r)"
    if "active_change s c now db = Inr (r, db')" "\<And>x. P (write_change SubActive c now x)" for c P
    using active_change_Inr [OF that(1)] *[of SubActive c P] that(2) by auto
  have p: "P (tr_sub r)"
    if "active_plan_change s q c now db = Inr (r, db')" "\<And>x. P (write_change SubActive c now x)" for q c P
    using active_plan_change_Inr [OF that(1)] *[of SubActive c P] that(2) by auto
  show ?thesis
  proof (cases k)
    case (Upgrade q pe)
    have "su_plan (tr_sub r) = q"
      using assms(1,2) u Upgrade
      by (auto simp: confirm_upgrade_def split: if_splits
          dest!: p [where P = "\<lambda>x. su_plan x = q"]) (simp add: write_change_def)
    then show ?thesis by (simp add: Upgrade confirm_upgrade_def)
  next
    case (DowngradeSchedule q)
    have "su_pending_plan (tr_sub r) = Some q"
      using assms(1,2) u DowngradeSchedule
      by (auto simp: schedule_downgrade_def split: if_splits
          dest!: p [where P = "\<lambda>x. su_pending_plan x = Some q"]) (simp add: write_change_def)
    then show ?thesis by (simp add: DowngradeSchedule schedule_downgrade_def)
  next
    case (DowngradeApplication b e pe)
    have "su_pending_plan (tr_sub r) = None"
      using assms(1,2) u DowngradeApplication
      by (auto simp: apply_scheduled_downgrade_def split: option.splits
          dest!: a [where P = "\<lambda>x. su_pending_plan x = None"]) (simp add: write_change_def)
    then show ?thesis by (simp add: DowngradeApplication apply_scheduled_downgrade_def)
  next
    case (RenewalConfirmation b e pe)
    have "su_period_start (tr_sub r) = Some b"
      using assms(1,2) u RenewalConfirmation
      by (auto simp: confirm_renewal_def split: if_splits
          dest!: a [where P = "\<lambda>x. su_period_start x = Some b"]) (simp add: write_change_def)
    then show ?thesis by (simp add: RenewalConfirmation confirm_renewal_def)
  next
    case CancellationSchedule
    have "su_cancel_at_end (tr_sub r) = Some True"
      using assms(1,2) u CancellationSchedule
      by (auto simp: schedule_cancellation_def split: if_splits
          dest!: a [where P = "\<lambda>x. su_cancel_at_end x = Some True"]) (simp add: write_change_def)
    then show ?thesis by (simp add: CancellationSchedule schedule_cancellation_def)
  next
    case CancellationUnschedule
    have "su_cancel_at_end (tr_sub r) = Some False"
      using assms(1,2) u CancellationUnschedule
      by (auto simp: unschedule_cancellation_def split: if_splits
          dest!: a [where P = "\<lambda>x. su_cancel_at_end x = Some False"]) (simp add: write_change_def)
    then show ?thesis by (simp add: CancellationUnschedule unschedule_cancellation_def)
  qed (use assms(1) in \<open>auto simp: service_defs guarded_transition_def [of "tr_sub r"] dest!: g\<close>)
qed

section \<open>The plan\<close>

text \<open>The events that decide the plan: creation, a confirmed upgrade, an applied downgrade. A
  scheduled downgrade also names a plan.\<close>

definition plan_event :: "sub_event \<Rightarrow> bool" where
  "plan_event e \<longleftrightarrow> ev_type e \<in> {Created, Upgraded, DowngradeApplied}"

definition plan_log :: "billing_db \<Rightarrow> uuid \<Rightarrow> uuid option list" where
  "plan_log db i = map ev_to_plan (filter (\<lambda>e. ev_sub e = i \<and> plan_event e) (sub_events db))"

definition plans_logged :: "billing_db \<Rightarrow> bool" where
  "plans_logged db \<longleftrightarrow> (\<forall>r \<in> set (subs db).
     plan_log db (su_id r) \<noteq> [] \<and> last (plan_log db (su_id r)) = Some (su_plan r))"

definition plan_change_ok :: "change \<Rightarrow> bool" where
  "plan_change_ok c \<longleftrightarrow> ch_type c \<noteq> Created \<and>
     (if ch_type c \<in> {Upgraded, DowngradeApplied}
      then \<forall>x. Some (su_plan (ch_data c x)) = ch_to_plan c
      else \<forall>x. su_plan (ch_data c x) = su_plan x)"

lemma run_call_plan:
  assumes "run_call k s now db = Inr (r, db')" and app: "applied r"
  shows "\<exists>to c. plan_change_ok c \<and> transition_subscription s to c now db = Inr (r, db')"
proof -
  have G: ?thesis if "guarded_transition s to c now db = Inr (r, db')" "plan_change_ok c" for to c
    using guarded_transition_Inr [OF that(1)] that(2) app by (auto simp: unapplied_def)
  have A: ?thesis if "active_change s c now db = Inr (r, db')" "plan_change_ok c" for c
    using active_change_Inr [OF that(1)] that(2) by blast
  have P: ?thesis if "active_plan_change s p c now db = Inr (r, db')" "plan_change_ok c" for p c
    using active_plan_change_Inr [OF that(1)] that(2) by blast
  show ?thesis
    using assms
    by (cases k) (auto simp: service_defs unapplied_def split: if_splits option.splits
        elim!: G A P, auto simp: plan_change_ok_def status_change_def)
qed

lemma plan_log_cas:
  assumes ok: "plan_change_ok c" and h: "hits (sub_hit i from c) (subs db) = 1"
  shows "plan_log (cas_subscription i from to (c, t, now) db) k =
    plan_log db k @ (if k = i \<and> ch_type c \<in> {Upgraded, DowngradeApplied} then [ch_to_plan c] else [])"
  using ok h
  by (auto simp: plan_log_def cas_subscription_def change_event_def plan_event_def plan_change_ok_def)

lemma cas_plans_logged:
  assumes keys: "sub_keys db" and ok: "plan_change_ok c" and logged: "plans_logged db"
    and h: "hits (sub_hit i from c) (subs db) = 1"
  shows "plans_logged (cas_subscription i from to (c, t, now) db)"
  unfolding plans_logged_def
proof
  fix x
  assume "x \<in> set (subs (cas_subscription i from to (c, t, now) db))"
  then have "x \<in> set (subs db) \<and> \<not> sub_hit i from c x \<or>
      (\<exists>r \<in> set (subs db). sub_hit i from c r \<and> x = write_change to c now r)"
    using h by (auto simp: cas_subscription_def in_update_rows split: if_splits)
  then show "plan_log (cas_subscription i from to (c, t, now) db) (su_id x) \<noteq> [] \<and>
      last (plan_log (cas_subscription i from to (c, t, now) db) (su_id x)) = Some (su_plan x)"
  proof (elim disjE conjE bexE)
    fix r
    assume r: "r \<in> set (subs db)" "sub_hit i from c r" "x = write_change to c now r"
    then have "su_id r = i" by (simp add: sub_hit_def)
    then show ?thesis
      using r logged ok unfolding plan_log_cas [OF ok h]
      by (auto simp: plans_logged_def plan_change_ok_def write_change_def split: if_splits)
  next
    assume x: "x \<in> set (subs db)" "\<not> sub_hit i from c x"
    obtain r where "r \<in> set (subs db)" "sub_hit i from c r"
      using h hits_pos_iff [of "sub_hit i from c" "subs db"] by auto
    then have "su_id x \<noteq> i"
      using distinct_key_inj [of su_id "subs db" x r] keys x by (auto simp: sub_keys_def sub_hit_def)
    then show ?thesis
      using x logged unfolding plan_log_cas [OF ok h] by (simp add: plans_logged_def)
  qed
qed

lemma sub_step_plans:
  assumes "sub_step db db'" and inv: "billing_inv db" and logged: "plans_logged db"
  shows "plans_logged db'"
  using assms(1)
proof (cases rule: sub_step_cases)
  case (created tenant plan now s)
  have "plan_log db' k = plan_log db k @ (if k = bd_next db then [Some plan] else [])" for k
    using created by (auto simp: plan_log_def create_pending_subscription_def Let_def plan_event_def
        split: if_splits)
  moreover have "subs db' = subs db @ [s]" "su_id s = bd_next db" "su_plan s = plan"
    using created by (auto simp: create_pending_subscription_def Let_def split: if_splits)
  ultimately show ?thesis
    using logged by (auto simp: plans_logged_def dest!: billing_invD(3) [OF inv])
next
  case (changed s k c now r)
  from run_call_plan [OF changed(3,4)] obtain to c' where ok: "plan_change_ok c'"
    and t: "transition_subscription s to c' now db = Inr (r, db')" by blast
  from transition_subscription_Inr [OF t] changed(4) show ?thesis
    using cas_plans_logged [OF billing_invD(1) [OF inv] ok logged]
    by (auto simp: unapplied_def)
next
  case (key ks)
  then show ?thesis using logged by (simp add: plans_logged_def plan_log_def)
qed (use logged in simp)

lemma sub_steps_plans:
  "sub_steps db db' \<Longrightarrow> billing_inv db \<Longrightarrow> plans_logged db \<Longrightarrow> plans_logged db'"
  by (induction rule: rtranclp_induct) (auto intro: sub_step_plans sub_steps_inv)

text \<open>
  The plan of a tenant only ever changes with an event: in every reachable state it is the
  plan named by the last creation, confirmed upgrade or applied downgrade in the log. Asking
  for a change, scheduling one, a payment failure, a cancellation or a renewal leave it.
\<close>

theorem plan_follows_confirmed_events:
  assumes "billing_reachable db" and "find_subscription db i = Some r"
  shows "plan_log db i \<noteq> [] \<and> last (plan_log db i) = Some (su_plan r)"
proof -
  obtain db0 where 0: "billing_start db0" "sub_steps db0 db"
    using assms(1) billing_steps_steps by (auto simp: billing_reachable_def)
  then have "plans_logged db"
    using sub_steps_plans billing_start_inv by (auto simp: plans_logged_def billing_start_def)
  then show ?thesis using find_subscriptionD [OF assms(2)] by (auto simp: plans_logged_def)
qed

section \<open>The properties on the concrete history\<close>


theorem expired_subscription_is_final_witness:
  "find_subscription (run_grace_exhaustion 0 sample_expired) 10 =
     Some (sample_left_row\<lparr>su_status := Expired, su_updated := Some 2592000100\<rparr>)"
  by (rule expired_subscription_is_final [OF sample_expired_reachable sample_found(3)])
    (simp_all add: grace_job r_into_rtranclp)

theorem expiry_waits_for_retention_witness:
  "su_status sample_left_row = SubCancelled \<and>
   find_subscription (run_cancellation_expiration 2592000100 sample_left) 10 =
     Some (sample_left_row\<lparr>su_status := Expired, su_updated := Some 2592000100\<rparr>)"
  using expiry_waits_for_retention [OF sample_billing_reachable(2) sample_found(2), of 2592000100]
    sample_found(3)
  by (simp add: sample_expired_def sample_left_row_def)

definition sample_cancellation :: "transition_result \<times> billing_db" where
  "sample_cancellation = (case cancel_subscription sample_row None 50 sample_subscribed of
     Inr y \<Rightarrow> y | Inl _ \<Rightarrow> (unapplied sample_row, sample_subscribed))"

lemma sample_cancellation_call:
  "run_call (Cancellation None) sample_row 50 sample_subscribed =
     Inr (fst sample_cancellation, snd sample_cancellation)"
  "applied (fst sample_cancellation)"
  by code_simp+

theorem applied_call_replays_as_noop_witness:
  "run_call (Cancellation None) (tr_sub (fst sample_cancellation)) 60 (snd sample_cancellation) =
     Inr (unapplied (tr_sub (fst sample_cancellation)), snd sample_cancellation)"
proof -
  have "sub_keys sample_subscribed" by (simp add: sub_keys_def sample_billing_rows)
  then show ?thesis
    by (rule applied_call_replays_as_noop [OF sample_cancellation_call, rotated]) simp
qed

theorem plan_follows_confirmed_events_witness:
  "last (plan_log sample_left 10) = Some 1"
  using plan_follows_confirmed_events [OF sample_billing_reachable(2) sample_found(2)]
  by (simp add: sample_left_row_def sample_row_def)

end
