(* ===== verification/BillingScenarios.thy ===== *)
theory BillingScenarios
  imports BillingProperties
begin

text \<open>
  Requests that the provider does not confirm, and three sequences of requests and ticks whose
  outcome is not the documented one.
\<close>

section \<open>Requests without a confirmation\<close>

definition confirms :: "'a answer \<Rightarrow> bool" where
  "confirms a \<longleftrightarrow> (case a of Answer _ \<Rightarrow> True | _ \<Rightarrow> False)"

text \<open>The provider confirms nothing it is asked, and cannot be read either.\<close>

definition confirms_nothing :: "billing_provider \<Rightarrow> bool" where
  "confirms_nothing bp \<longleftrightarrow>
     (\<forall>p q m. \<not> confirms (bp_change bp p q m)) \<and> (\<forall>p m. \<not> confirms (bp_cancel bp p m)) \<and>
     (\<forall>p. \<not> confirms (bp_unschedule bp p)) \<and> (\<forall>p. \<not> confirms (bp_resume bp p)) \<and>
     (\<forall>p. \<not> confirms (bp_get bp p))"

lemma unread: "\<not> confirms (bp_get bp p) \<Longrightarrow> provider_link s = Some p \<Longrightarrow>
    attempt_reconciliation_read bp s = Inl provider_unavailable"
  by (auto simp: attempt_reconciliation_read_def confirms_def split: answer.splits)

lemma unread_Inl:
  assumes "confirms_nothing bp"
  shows "\<exists>e. attempt_reconciliation_read bp s = Inl e"
proof (cases "provider_link s")
  case None
  then show ?thesis by (simp add: attempt_reconciliation_read_def)
next
  case (Some p)
  then show ?thesis using unread [of bp p s] assms by (simp add: confirms_nothing_def)
qed

text \<open>The parts of a flow that only answer.\<close>

definition writes_nothing :: "flow \<Rightarrow> bool" where
  "writes_nothing f \<longleftrightarrow> (\<forall>db. snd (f db) = db)"

named_theorems quiet "flows that write nothing"

lemma refuse_quiet [quiet]: "writes_nothing (refuse e)"
  by (simp add: writes_nothing_def refuse_def)

lemma Pair_quiet [quiet]: "writes_nothing (Pair r)"
  by (simp add: writes_nothing_def)

lemma on_answer_quiet [quiet]:
  "\<not> confirms a \<Longrightarrow> writes_nothing g \<Longrightarrow> writes_nothing (on_answer a f g)"
  by (cases a) (auto simp: on_answer_def confirms_def intro: quiet)

lemma unconfirmed_quiet [quiet]: "writes_nothing (unconfirmed what bp s)"
  by (auto simp: unconfirmed_def intro: quiet split: sum.splits)

lemma timeouts_quiet [quiet]:
  assumes "confirms_nothing bp"
  shows "writes_nothing (reconcile_upgrade_timeout bp s to now)"
    and "writes_nothing (reconcile_resume_timeout bp s now)"
  using unread_Inl [OF assms, of s]
  by (auto simp: reconcile_upgrade_timeout_def reconcile_resume_timeout_def intro: quiet)

lemma quietD: "writes_nothing f \<Longrightarrow> snd (f db) = db"
  by (simp add: writes_nothing_def)

lemma flows_quiet:
  assumes "confirms_nothing bp"
  shows "snd (upgrade_flow bp t to now db) = db" and "snd (downgrade_flow bp t to now db) = db"
    and "snd (cancel_flow bp t at_end now db) = db" and "snd (unschedule_flow bp t now db) = db"
    and "snd (resume_flow bp t now db) = db"
  using assms
  by (auto simp: flow_defs confirms_nothing_def split: sum.splits intro!: quietD quiet
      timeouts_quiet [OF assms])

lemma with_idempotency_quiet:
  assumes "\<And>db. snd (f db) = db"
  shows "subs (snd (with_idempotency rq f db)) = subs db \<and>
    sub_events (snd (with_idempotency rq f db)) = sub_events db"
  using assms by (auto simp: with_idempotency_def claim_and_proceed_def split: option.splits)

text \<open>
  Nothing is written before the provider confirms: when it confirms neither the change
  nor, after a timeout, the read, none of the five tenant requests changes a subscription or
  writes an event.
\<close>

theorem unconfirmed_request_changes_nothing:
  assumes "confirms_nothing bp"
  shows "\<forall>request \<in> {upgrade bp t u to key now, downgrade bp t u to key now,
      cancel_request bp t u at_end key now, unschedule_request bp t u key now,
      resume bp t u key now}.
    subs (snd (request db)) = subs db \<and> sub_events (snd (request db)) = sub_events db"
  using with_idempotency_quiet flows_quiet [OF assms]
  by (simp add: upgrade_def downgrade_def cancel_request_def unschedule_request_def resume_def)

text \<open>
  A request that failed cannot be retried with its key: the key was claimed before the
  provider was asked and stays claimed, so the retry of an upgrade that answered "please
  retry" is taken for a replay. It answers with success and the old plan, and never asks the
  provider, however often it is sent.
\<close>

theorem failed_upgrade_retries_as_success:
  assumes "find_existing (bd_idem db) key = None" and "get_subscription_for_tenant t db = Inr s"
    and "su_status s = SubActive" and "provider_link s = Some p" and "su_plan s \<noteq> to"
    and "plan_exists to db" and "List.find (\<lambda>q. pl_id q = su_plan s) (plans db) = Some q"
    and "confirms_nothing bp"
  shows "\<exists>e v db'. upgrade bp t u to key now db = (Inl e, db') \<and>
    (\<forall>bp' now'. upgrade bp' t u to key now' db' = (Inr v, db')) \<and>
    sv_plan v = (pl_key q, pl_name q)"
proof -
  let ?p = "(bd_next db, u, ''subscription:upgrade'', t)"
  obtain ks where ks: "claim_key key ?p (bd_idem db) = Some ks"
    using idem_keys.claim_free [OF assms(1)] by blast
  let ?db = "db\<lparr>bd_idem := ks, bd_next := Suc (bd_next db)\<rparr>"
  have s: "get_subscription_for_tenant t ?db = Inr s"
    using assms(2) by (simp add: get_subscription_for_tenant_def find_subscription_for_tenant_def)
  have no: "\<not> confirms (bp_change bp p to Immediate)" "\<not> confirms (bp_get bp p)"
    using assms(8) by (simp_all add: confirms_nothing_def)
  have "\<exists>e. on_answer (bp_change bp p to Immediate) f (reconcile_upgrade_timeout bp s to now) ?db = (Inl e, ?db)" for f
    using no(1) unread [OF no(2) assms(4)]
    by (cases "bp_change bp p to Immediate")
      (auto simp: on_answer_def confirms_def refuse_def reconcile_upgrade_timeout_def)
  then have "\<exists>e. upgrade_flow bp t to now ?db = (Inl e, ?db)"
    using s assms by (simp add: upgrade_flow_def assert_plan_exists_def plan_exists_def
        assert_has_provider_link_def must_be_active_def)
  then obtain e where "upgrade_flow bp t to now ?db = (Inl e, ?db)" ..
  then have first: "upgrade bp t u to key now db = (Inl e, ?db)"
    using assms(1) ks
    by (simp add: upgrade_def sub_request_of_def with_idempotency_def claim_and_proceed_def view_of_def)
  have "find_existing ks key = Some (claim_row key ?p)" by (rule idem_keys.find_claimed [OF ks])
  moreover obtain v where "to_sub_view s ?db = Inr v" "sv_plan v = (pl_key q, pl_name q)"
    using assms(7) by (simp add: to_sub_view_def)
  ultimately have "upgrade bp' t u to key now' ?db = (Inr v, ?db)" for bp' now'
    using s by (simp add: upgrade_def sub_request_of_def with_idempotency_def current_view_def
        view_of_def claim_row_def)
  then show ?thesis using first \<open>sv_plan v = (pl_key q, pl_name q)\<close> by blast
qed

section \<open>Resuming a subscription that was cancelled at its period end\<close>

lemma settle_transition:
  assumes keys: "sub_keys db" and u: "subs_unique (subs (cas_subscription (su_id s) (su_status s) to (c, su_tenant s, now) db))"
    and s: "find_subscription db (su_id s) = Some s" and g: "ch_guard c s"
  shows "transition_subscription s to c now db =
    Inr (\<lparr>applied = True, tr_sub = write_change to c now s, tr_event = Some (ch_type c)\<rparr>,
      cas_subscription (su_id s) (su_status s) to (c, su_tenant s, now) db)"
proof -
  have hit: "sub_hit (su_id s) (su_status s) c s" using g by (simp add: sub_hit_def)
  have "hits (sub_hit (su_id s) (su_status s) c) (subs db) = 1"
    using sub_hit_1_iff [OF keys] s g by blast
  then show ?thesis
    using u s hit by (simp add: transition_subscription_def Let_def cas_subscription_find [OF keys])
qed

lemma map_write_change:
  "(\<And>x. f (write_change to c now x) = f x) \<Longrightarrow>
     map f (subs (cas_subscription i from to (c, t, now) db)) = map f (subs db)"
  by (simp add: cas_subscription_def map_update_rows)

lemma cas_keeps_unique:
  assumes "\<And>x. su_customer (ch_data c x) = su_customer x" and "\<And>x. su_provider (ch_data c x) = su_provider x"
  shows "subs_unique (subs (cas_subscription i from to (c, t, now) db)) = subs_unique (subs db)"
  using assms map_write_change [of su_tenant to c now i "from" t db]
    map_write_change [of su_customer to c now i "from" t db]
    map_write_change [of su_provider to c now i "from" t db]
  by (simp add: subs_unique_def write_change_def)

lemma find_tenant_cas:
  assumes inv: "billing_inv db" and s: "find_subscription_for_tenant t db = Some s"
    and g: "ch_guard c s"
  shows "find_subscription db (su_id s) = Some s"
    and "get_subscription_for_tenant t
      (cas_subscription (su_id s) (su_status s) to (c, su_tenant s, now) db) =
      Inr (write_change to c now s)"
proof -
  have in_s: "s \<in> set (subs db)" "su_tenant s = t"
    using s by (auto simp: find_subscription_for_tenant_def dest: find_SomeD)
  show f: "find_subscription db (su_id s) = Some s"
    using find_subscription_in [OF billing_invD(1) [OF inv] in_s(1)] .
  have "hits (sub_hit (su_id s) (su_status s) c) (subs db) = 1"
    using sub_hit_1_iff [OF billing_invD(1) [OF inv]] f g by blast
  then have "find_subscription_for_tenant t
      (cas_subscription (su_id s) (su_status s) to (c, su_tenant s, now) db) = Some (write_change to c now s)"
    using s g
    by (simp add: find_subscription_for_tenant_def cas_subscription_def find_key_update sub_hit_def)
  then show "get_subscription_for_tenant t
      (cas_subscription (su_id s) (su_status s) to (c, su_tenant s, now) db) = Inr (write_change to c now s)"
    by (simp add: get_subscription_for_tenant_def)
qed

text \<open>A call on the current row of a tenant, with data that leaves the provider ids.\<close>

definition plain_change :: "change \<Rightarrow> bool" where
  "plain_change c \<longleftrightarrow> (\<forall>x. su_customer (ch_data c x) = su_customer x \<and> su_provider (ch_data c x) = su_provider x)"

lemma tenant_transition:
  assumes inv: "billing_inv db" and s: "get_subscription_for_tenant t db = Inr s"
    and g: "ch_guard c s" and plain: "plain_change c"
  shows "transition_subscription s to c now db =
      Inr (\<lparr>applied = True, tr_sub = write_change to c now s, tr_event = Some (ch_type c)\<rparr>,
        cas_subscription (su_id s) (su_status s) to (c, su_tenant s, now) db) \<and>
    get_subscription_for_tenant t (cas_subscription (su_id s) (su_status s) to (c, su_tenant s, now) db) =
      Inr (write_change to c now s)"
proof -
  have f: "find_subscription_for_tenant t db = Some s"
    using s by (simp add: get_subscription_for_tenant_def split: option.splits)
  note F = find_tenant_cas [OF inv f g]
  have u: "subs_unique (subs (cas_subscription (su_id s) (su_status s) to (c, su_tenant s, now) db))"
    using cas_keeps_unique [of c "su_id s" "su_status s" to "su_tenant s" now db] plain
      billing_invD(2) [OF inv] by (simp add: plain_change_def)
  show ?thesis
    using settle_transition [OF billing_invD(1) [OF inv] u F(1) g] F(2) by blast
qed

lemma tenant_transition_inv:
  assumes "billing_inv db" and "get_subscription_for_tenant t db = Inr s"
    and "is_subscription_transition_allowed (su_status s) to"
    and "transition_subscription s to c now db = Inr (r, db')" and "applied r"
  shows "billing_inv db'"
  using transition_subscription_Inr [OF assms(4)] assms(5) tenant_row_seen [OF assms(2)]
    changed_inv [OF assms(1) _ assms(3)] by (auto simp: unapplied_def)

text \<open>
  Resuming does not withdraw the cancellation: a subscription that was cancelled at its
  period end and is then resumed (and paid) keeps its cancellation flag and its old period, so
  the next period reconciliation cancels it again, at the provider too.
\<close>

theorem resumed_subscription_is_cancelled_again:
  assumes reach: "billing_reachable db" and s: "get_subscription_for_tenant t db = Inr s"
    and st: "su_status s = SubCancelled" "su_cancel_at_end s = Some True" "su_pending_plan s = None"
    and link: "provider_link s = Some p" and e: "su_period_end s = Some e" "e \<le> ps_start x"
    and bp: "bp_resume bp p = Answer y" "bp_get bp p = Answer x" "bp_cancel bp p Immediate = Answer ()"
  shows "\<exists>r1 db1 r2 db2. resume_flow bp t now db = (Inr r1, db1) \<and> su_status r1 = SubActive \<and>
    reconcile_period_flow bp t now' db1 = (Inr r2, db2) \<and> su_status r2 = SubCancelled"
proof -
  have inv: "billing_inv db" using billing_reachable_inv [OF reach] by simp
  let ?c = "status_change Reactivated None"
  let ?r = "write_change SubActive ?c now s"
  let ?db1 = "cas_subscription (su_id s) (su_status s) SubActive (?c, su_tenant s, now) db"
  have T: "transition_subscription s SubActive ?c now db =
      Inr (\<lparr>applied = True, tr_sub = ?r, tr_event = Some Reactivated\<rparr>, ?db1)"
    "get_subscription_for_tenant t ?db1 = Inr ?r"
    using tenant_transition [OF inv s, of ?c SubActive now] by (simp_all add: plain_change_def)
  have inv1: "billing_inv ?db1"
    by (rule tenant_transition_inv [OF inv s _ T(1)]) (simp_all add: st)
  have r: "?r = s\<lparr>su_status := SubActive, su_updated := Some now\<rparr>"
    by (simp add: write_change_def)
  have resumed: "resume_flow bp t now db = (Inr ?r, ?db1)"
    using s st link bp T(1)
    by (simp add: resume_flow_def assert_has_provider_link_def on_answer_def apply_resume_transition_def
        settle_def run_tx_def reactivate_def guarded_transition_def
        assert_subscription_transition_allowed_def)
  let ?c2 = "(status_change Cancelled_ev None)\<lparr>ch_data := \<lambda>r. r\<lparr>su_retention_ends :=
    Some (now' + cancellation_retention_days * ms_per_day)\<rparr>\<rparr>"
  obtain db2 where T2: "transition_subscription ?r SubCancelled ?c2 now' ?db1 =
      Inr (\<lparr>applied = True, tr_sub = write_change SubCancelled ?c2 now' ?r, tr_event = Some Cancelled_ev\<rparr>, db2)"
    using tenant_transition [OF inv1 T(2), of ?c2 SubCancelled now'] by (auto simp: plain_change_def)
  have "provider_link ?r = Some p" "su_status ?r = SubActive" "su_cancel_at_end ?r = Some True"
    "su_pending_plan ?r = None" "su_period_end ?r = Some e"
    using link st e by (simp_all add: r provider_link_def)
  then have "reconcile_period_flow bp t now' ?db1 =
      (Inr (write_change SubCancelled ?c2 now' ?r), db2)"
    using T(2) T2 bp e
    by (simp add: reconcile_period_flow_def attempt_reconciliation_read_def boundary_reached_def
        roll_period_def cancel_at_boundary_def assert_has_provider_link_def cancel_subscription_def
        guarded_transition_def assert_subscription_transition_allowed_def)
  then show ?thesis using resumed by (intro exI [of _ ?r] exI) auto
qed

text \<open>
  A cancellation that fails at the period boundary is not retried at the next tick when a
  downgrade was due at the same boundary: the downgrade has moved the recorded period on, so
  until the new period ends no reconciliation, whatever the provider answers, asks for the
  cancellation again, and the job does not even pick the row.
\<close>

theorem failed_boundary_cancellation_waits_a_period:
  assumes reach: "billing_reachable db" and s: "get_subscription_for_tenant t db = Inr s"
    and st: "su_status s = SubActive" "su_cancel_at_end s = Some True" "su_pending_plan s = Some q"
    and link: "provider_link s = Some p" and e: "su_period_end s = Some e" "e \<le> ps_start x"
    and x: "ps_start x < ps_end x"
    and bp: "bp_get bp p = Answer x" "\<not> confirms (bp_cancel bp p Immediate)"
  shows "\<exists>r db1. reconcile_period_flow bp t now db = (Inr r, db1) \<and>
    su_status r = SubActive \<and> su_cancel_at_end r = Some True \<and> su_plan r = q \<and>
    (\<forall>bp' now'. bp_get bp' p = Answer x \<longrightarrow> reconcile_period_flow bp' t now' db1 = (Inr r, db1)) \<and>
    (\<forall>now' limit. now' < ps_end x \<longrightarrow>
       r \<notin> set (find_subscriptions_needing_period_reconciliation now' limit db1))"
proof -
  have inv: "billing_inv db" using billing_reachable_inv [OF reach] by simp
  let ?c = "(status_change DowngradeApplied None)\<lparr>ch_guard := \<lambda>r. su_pending_plan r = su_pending_plan s,
    ch_data := \<lambda>r. r\<lparr>su_plan := q, su_pending_plan := None, su_period_start := Some (ps_start x),
      su_period_end := Some (ps_end x)\<rparr>,
    ch_from_plan := Some (su_plan s), ch_to_plan := Some q\<rparr>"
  let ?r = "write_change SubActive ?c now s"
  obtain db1 where T: "transition_subscription s SubActive ?c now db =
      Inr (\<lparr>applied = True, tr_sub = ?r, tr_event = Some DowngradeApplied\<rparr>, db1)"
    "get_subscription_for_tenant t db1 = Inr ?r"
    using tenant_transition [OF inv s, of ?c SubActive now] by (auto simp: plain_change_def)
  have app: "apply_scheduled_downgrade s (ps_start x) (ps_end x) None now db =
      Inr (\<lparr>applied = True, tr_sub = ?r, tr_event = Some DowngradeApplied\<rparr>, db1)"
    using T(1) st by (simp add: apply_scheduled_downgrade_def active_change_def assert_currently_active_def)
  have r: "su_status ?r = SubActive" "su_cancel_at_end ?r = Some True" "su_plan ?r = q"
    "provider_link ?r = Some p" "su_period_end ?r = Some (ps_end x)"
    using st link by (simp_all add: write_change_def provider_link_def)
  have "cancel_at_boundary bp ?r now db1 = Inr ((?r, False), db1)"
    using bp(2) r by (cases "bp_cancel bp p Immediate")
      (simp_all add: cancel_at_boundary_def assert_has_provider_link_def confirms_def)
  then have "reconcile_period_flow bp t now db = (Inr ?r, db1)"
    using s st link e bp(1) app r
    by (simp add: reconcile_period_flow_def attempt_reconciliation_read_def boundary_reached_def
        roll_period_def)
  moreover have "reconcile_period_flow bp' t now' db1 = (Inr ?r, db1)" if "bp_get bp' p = Answer x" for bp' now'
    using T(2) r x that
    by (simp add: reconcile_period_flow_def attempt_reconciliation_read_def boundary_reached_def)
  moreover have "?r \<notin> set (find_subscriptions_needing_period_reconciliation now' limit db1)"
    if "now' < ps_end x" for now' limit
    using that r by (auto simp: due_defs reached_def dest!: due_by_seen)
  ultimately show ?thesis using r by blast
qed

section \<open>The scenarios on the concrete history\<close>

definition sample_outage :: billing_provider where
  "sample_outage = \<lparr>bp_create_customer = (\<lambda>_. Down), bp_create_subscription = (\<lambda>_ _. Down),
     bp_change = (\<lambda>_ _ _. TimedOut), bp_cancel = (\<lambda>_ _. TimedOut), bp_unschedule = (\<lambda>_. Down),
     bp_resume = (\<lambda>_. Down), bp_get = (\<lambda>_. Down)\<rparr>"

lemma sample_outage_confirms: "confirms_nothing sample_outage"
  by (simp add: confirms_nothing_def confirms_def sample_outage_def)

theorem unconfirmed_request_changes_nothing_witness:
  "subs (snd (upgrade sample_outage 7 3 2 ''k'' 9 sample_subscribed)) = [sample_row]"
  using unconfirmed_request_changes_nothing [OF sample_outage_confirms, of 7 3 2 "''k''" 9 True sample_subscribed]
  by (simp add: sample_billing_rows)

lemma sample_tenant_rows:
  "get_subscription_for_tenant 7 sample_subscribed = Inr sample_row"
  "get_subscription_for_tenant 7 sample_left = Inr sample_left_row"
  by code_simp+

theorem failed_upgrade_retries_as_success_witness:
  "\<exists>e v db'. upgrade sample_outage 7 3 2 ''k'' 9 sample_subscribed = (Inl e, db') \<and>
     (\<forall>bp' now'. upgrade bp' 7 3 2 ''k'' now' db' = (Inr v, db')) \<and> sv_plan v = (''basic'', ''Basic'')"
proof -
  let ?q = "\<lparr>pl_id = 1, pl_key = ''basic'', pl_name = ''Basic'', pl_public = True, pl_active = Some True,
     pl_sort = Some 0, pl_enterprise = Some False, pl_created = 0\<rparr>"
  have 1: "find_existing (bd_idem sample_subscribed) ''k'' = None"
    and 2: "plan_exists 2 sample_subscribed"
    and 3: "List.find (\<lambda>q. pl_id q = su_plan sample_row) (plans sample_subscribed) = Some ?q"
    by code_simp+
  show ?thesis
    using failed_upgrade_retries_as_success [OF 1 sample_tenant_rows(1) _ _ _ 2 3 sample_outage_confirms,
        of "''sub''" 3 9]
    by (simp add: sample_row_def provider_link_def)
qed

theorem resumed_subscription_is_cancelled_again_witness:
  "\<exists>r1 db1 r2 db2. resume_flow sample_provider 7 150 sample_left = (Inr r1, db1) \<and>
    su_status r1 = SubActive \<and>
    reconcile_period_flow sample_provider 7 160 db1 = (Inr r2, db2) \<and> su_status r2 = SubCancelled"
  by (rule resumed_subscription_is_cancelled_again [OF sample_billing_reachable(2) sample_tenant_rows(2),
        where p = "''sub''" and e = 100 and x = sample_period and y = sample_period])
    (simp_all add: sample_left_row_def sample_row_def provider_link_def sample_provider_def sample_period_def)

text \<open>Both a downgrade and a cancellation are due, and the provider is down for the
  cancellation.\<close>

definition sample_due :: billing_db where
  "sample_due = snd (downgrade sample_provider 7 3 2 ''key2'' 7 sample_leaving)"

definition sample_due_row :: subscription where
  "sample_due_row = sample_row\<lparr>su_cancel_at_end := Some True, su_pending_plan := Some 2,
     su_updated := Some 7\<rparr>"

lemma sample_due_found: "get_subscription_for_tenant 7 sample_due = Inr sample_due_row"
  by code_simp

lemma sample_due_reachable: "billing_reachable sample_due"
proof -
  have "billing_step sample_subscribed sample_leaving" "billing_step sample_leaving sample_due"
    unfolding sample_leaving_def sample_due_def by (rule cancelling, rule downgrading)
  then show ?thesis
    using sample_billing_reachable(1) unfolding billing_reachable_def
    by (blast intro: rtranclp.rtrancl_into_rtrancl)
qed

theorem failed_boundary_cancellation_waits_a_period_witness:
  "\<exists>r db1. reconcile_period_flow (sample_provider\<lparr>bp_cancel := \<lambda>_ _. Down\<rparr>) 7 110 sample_due = (Inr r, db1) \<and>
    su_status r = SubActive \<and> su_cancel_at_end r = Some True \<and> su_plan r = 2 \<and>
    (\<forall>bp' now'. bp_get bp' ''sub'' = Answer sample_period \<longrightarrow>
       reconcile_period_flow bp' 7 now' db1 = (Inr r, db1)) \<and>
    (\<forall>now' limit. now' < ps_end sample_period \<longrightarrow>
       r \<notin> set (find_subscriptions_needing_period_reconciliation now' limit db1))"
  by (rule failed_boundary_cancellation_waits_a_period [OF sample_due_reachable sample_due_found,
        where e = 100])
    (simp_all add: sample_due_row_def sample_row_def provider_link_def sample_provider_def
      sample_period_def confirms_def)

end
