(* ===== verification/Quota.thy ===== *)
theory Quota
  imports Subscriptions
begin

text \<open>
  Entitlements and usage: \<open>platform/platform-plans/catalogue.constants.ts\<close>,
  \<open>entitlements/entitlement.service.ts\<close> (what a tenant's plan and overrides allow),
  \<open>usage/usage.service.ts\<close> (the counters) and \<open>limits/limit-enforcement.service.ts\<close> (the
  two together).
\<close>

section \<open>The catalogue\<close>

datatype feature_key = Coupons | TeamMembersFeature | CustomDomain | CustomStorefront | CustomBranding
  | AdvancedAnalytics | ApiAccess

datatype limit_key = Products | TeamMembers | OrdersPerMonth | StorageMb | CustomDomains

fun feature_key_name :: "feature_key \<Rightarrow> string" where
  "feature_key_name Coupons = ''coupons''"
| "feature_key_name TeamMembersFeature = ''team_members''"
| "feature_key_name CustomDomain = ''custom_domain''"
| "feature_key_name CustomStorefront = ''custom_storefront''"
| "feature_key_name CustomBranding = ''custom_branding''"
| "feature_key_name AdvancedAnalytics = ''advanced_analytics''"
| "feature_key_name ApiAccess = ''api_access''"

fun limit_key_name :: "limit_key \<Rightarrow> string" where
  "limit_key_name Products = ''products''"
| "limit_key_name TeamMembers = ''team_members''"
| "limit_key_name OrdersPerMonth = ''orders_per_month''"
| "limit_key_name StorageMb = ''storage_mb''"
| "limit_key_name CustomDomains = ''custom_domains''"

definition feature_keys :: "feature_key list" where
  "feature_keys = [Coupons, TeamMembersFeature, CustomDomain, CustomStorefront, CustomBranding,
     AdvancedAnalytics, ApiAccess]"

definition limit_keys :: "limit_key list" where
  "limit_keys = [Products, TeamMembers, OrdersPerMonth, StorageMb, CustomDomains]"

text \<open>A stored key is a text; one outside the catalogue is no key.\<close>

definition is_feature_key :: "string \<Rightarrow> feature_key option" where
  "is_feature_key s = List.find (\<lambda>k. feature_key_name k = s) feature_keys"

definition is_limit_key :: "string \<Rightarrow> limit_key option" where
  "is_limit_key s = List.find (\<lambda>k. limit_key_name k = s) limit_keys"

datatype limit_period = Persistent | BillingPeriod

fun limit_key_periods :: "limit_key \<Rightarrow> limit_period" where
  "limit_key_periods OrdersPerMonth = BillingPeriod"
| "limit_key_periods _ = Persistent"

section \<open>Entitlements\<close>

record plan_feature =
  pf_id :: uuid
  pf_plan :: uuid
  pf_key :: string
  pf_enabled :: bool

record plan_limit =
  pm_id :: uuid
  pm_plan :: uuid
  pm_key :: string
  pm_value :: "int option"
  pm_period :: limit_period

record override_row =
  ov_id :: uuid
  ov_tenant :: uuid
  ov_feature :: "string option"
  ov_limit :: "string option"
  ov_bool :: "bool option"
  ov_int :: "int option"
  ov_reason :: string
  ov_by :: uuid
  ov_revoked_at :: "instant option"
  ov_revoked_by :: "uuid option"
  ov_created :: instant

abbreviation ov_revoked :: "override_row \<Rightarrow> bool" where
  "ov_revoked ov \<equiv> ov_revoked_at ov \<noteq> None"

record catalogue =
  cat_features :: "plan_feature list"
  cat_limits :: "plan_limit list"
  cat_overrides :: "override_row list"

text \<open>\<open>null\<close> is unlimited.\<close>

record limit_value =
  lv_value :: "int option"
  lv_period :: limit_period

record entitlements =
  en_features :: "feature_key \<Rightarrow> bool"
  en_limits :: "limit_key \<Rightarrow> limit_value"

definition fallback_plan_key :: string where "fallback_plan_key = ''free''"

definition full_plan_statuses :: "sub_status list" where
  "full_plan_statuses = [Trialing, SubActive, PastDue]"

definition resolve_effective_plan_id :: "billing_db \<Rightarrow> uuid \<Rightarrow> uuid option" where
  "resolve_effective_plan_id db tenant =
     (case find_subscription_for_tenant tenant db of
        Some s \<Rightarrow>
          if su_status s \<in> set full_plan_statuses then Some (su_plan s)
          else map_option pl_id (List.find (\<lambda>p. pl_key p = fallback_plan_key) (plans db))
      | None \<Rightarrow> map_option pl_id (List.find (\<lambda>p. pl_key p = fallback_plan_key) (plans db)))"

definition deny_by_default_features :: "feature_key \<Rightarrow> bool" where
  "deny_by_default_features = (\<lambda>_. False)"

definition deny_by_default_limits :: "limit_key \<Rightarrow> limit_value" where
  "deny_by_default_limits = (\<lambda>k. \<lparr>lv_value = Some 0, lv_period = limit_key_periods k\<rparr>)"

definition set_limit :: "limit_key \<Rightarrow> int option \<Rightarrow> (limit_key \<Rightarrow> limit_value) \<Rightarrow> limit_key \<Rightarrow> limit_value" where
  "set_limit k v limits = limits(k := \<lparr>lv_value = v, lv_period = limit_key_periods k\<rparr>)"

definition resolve_plan_features :: "catalogue \<Rightarrow> uuid option \<Rightarrow> feature_key \<Rightarrow> bool" where
  "resolve_plan_features cat plan =
     (case plan of
        None \<Rightarrow> deny_by_default_features
      | Some p \<Rightarrow>
          fold (\<lambda>row fs. case is_feature_key (pf_key row) of None \<Rightarrow> fs | Some k \<Rightarrow> fs(k := pf_enabled row))
            (filter (\<lambda>row. pf_plan row = p) (cat_features cat)) deny_by_default_features)"

definition resolve_plan_limits :: "catalogue \<Rightarrow> uuid option \<Rightarrow> limit_key \<Rightarrow> limit_value" where
  "resolve_plan_limits cat plan =
     (case plan of
        None \<Rightarrow> deny_by_default_limits
      | Some p \<Rightarrow>
          fold (\<lambda>row ls. case is_limit_key (pm_key row) of None \<Rightarrow> ls | Some k \<Rightarrow> set_limit k (pm_value row) ls)
            (filter (\<lambda>row. pm_plan row = p) (cat_limits cat)) deny_by_default_limits)"

definition apply_override :: "override_row \<Rightarrow> entitlements \<Rightarrow> entitlements" where
  "apply_override ov en =
     (case ov_feature ov of
        Some f \<Rightarrow>
          (case (is_feature_key f, ov_bool ov) of
             (Some k, Some b) \<Rightarrow> en\<lparr>en_features := (en_features en)(k := b)\<rparr>
           | _ \<Rightarrow> en)
      | None \<Rightarrow>
          (case ov_limit ov of
             None \<Rightarrow> en
           | Some l \<Rightarrow> (case is_limit_key l of
               None \<Rightarrow> en
             | Some k \<Rightarrow> en\<lparr>en_limits := set_limit k (ov_int ov) (en_limits en)\<rparr>)))"

text \<open>The active overrides of a tenant, oldest first.\<close>

definition active_overrides :: "catalogue \<Rightarrow> uuid \<Rightarrow> override_row list" where
  "active_overrides cat tenant =
     sort_key ov_created (filter (\<lambda>ov. ov_tenant ov = tenant \<and> \<not> ov_revoked ov) (cat_overrides cat))"

definition resolve_entitlements :: "catalogue \<Rightarrow> billing_db \<Rightarrow> uuid \<Rightarrow> entitlements" where
  "resolve_entitlements cat db tenant =
     (let plan = resolve_effective_plan_id db tenant
      in fold apply_override (active_overrides cat tenant)
           \<lparr>en_features = resolve_plan_features cat plan, en_limits = resolve_plan_limits cat plan\<rparr>)"

section \<open>The contract of a counter store\<close>

datatype reservation = Reserved int | LimitExceeded int int

definition fits :: "int \<Rightarrow> int option \<Rightarrow> int \<Rightarrow> bool" where
  "fits amount limit count = (case limit of None \<Rightarrow> True | Some l \<Rightarrow> count + amount \<le> l)"

text \<open>What a counter per key promises, as functions on \<open>'k \<Rightarrow> int\<close>.\<close>

datatype 'k counter_call = Take 'k int "int option" | Give 'k int

fun call_amount :: "'k counter_call \<Rightarrow> int" where
  "call_amount (Take _ n _) = n"
| "call_amount (Give _ n) = n"

fun count_call :: "'k counter_call \<Rightarrow> ('k \<Rightarrow> int) \<Rightarrow> (reservation + int) \<times> ('k \<Rightarrow> int)" where
  "count_call (Take k n l) c =
     (if fits n l (c k) then (Inl (Reserved (c k + n)), c(k := c k + n))
      else (Inl (LimitExceeded (c k) (case l of None \<Rightarrow> 0 | Some l \<Rightarrow> l)), c))"
| "count_call (Give k n) c = (Inr (max (c k - n) 0), c(k := max (c k - n) 0))"

fun run_calls :: "('c \<Rightarrow> 's \<Rightarrow> 'o \<times> 's) \<Rightarrow> 'c list \<Rightarrow> 's \<Rightarrow> 'o list \<times> 's" where
  "run_calls step [] s = ([], s)"
| "run_calls step (c # cs) s =
     (let (x, s1) = step c s; (xs, s2) = run_calls step cs s1 in (x # xs, s2))"

lemma run_calls_simulation:
  assumes "ok s" and "\<And>c s. ok s \<Longrightarrow> c \<in> set cs \<Longrightarrow>
      ok (snd (f c s)) \<and> g c (view s) = (fst (f c s), view (snd (f c s)))"
  shows "run_calls g cs (view s) = (fst (run_calls f cs s), view (snd (run_calls f cs s)))
    \<and> ok (snd (run_calls f cs s))"
  using assms
proof (induction cs arbitrary: s)
  case Nil
  then show ?case by simp
next
  case (Cons c cs)
  have "ok (snd (f c s))" and "g c (view s) = (fst (f c s), view (snd (f c s)))"
    using Cons.prems by auto
  moreover have "run_calls g cs (view (snd (f c s))) =
      (fst (run_calls f cs (snd (f c s))), view (snd (run_calls f cs (snd (f c s)))))
      \<and> ok (snd (run_calls f cs (snd (f c s))))"
    using Cons.prems by (intro Cons.IH) auto
  ultimately show ?case by (simp add: case_prod_beta)
qed

text \<open>A call that takes at most what a bound leaves keeps the counter within the bound.\<close>

fun bounded_call :: "'k \<Rightarrow> int \<Rightarrow> 'k counter_call \<Rightarrow> bool" where
  "bounded_call k b (Take k' n l) =
     (0 \<le> n \<and> (k' = k \<longrightarrow> (case l of None \<Rightarrow> False | Some l' \<Rightarrow> l' \<le> b)))"
| "bounded_call k b (Give k' n) = (0 \<le> n)"

lemma count_call_bounded:
  "bounded_call k b c \<Longrightarrow> 0 \<le> b \<Longrightarrow> m k \<le> b \<Longrightarrow> snd (count_call c m) k \<le> b"
  by (cases c) (auto simp: fits_def split: option.splits)

locale counter_store =
  fixes count :: "'s \<Rightarrow> 'k \<Rightarrow> int"
    and take :: "'k \<Rightarrow> int \<Rightarrow> int option \<Rightarrow> 's \<Rightarrow> reservation \<times> 's"
    and give :: "'k \<Rightarrow> int \<Rightarrow> 's \<Rightarrow> 's"
    and wf :: "'s \<Rightarrow> bool"
  assumes take_fits: "wf s \<Longrightarrow> fits n l (count s k) \<Longrightarrow>
      fst (take k n l s) = Reserved (count s k + n)
      \<and> count (snd (take k n l s)) = (count s)(k := count s k + n)"
    and take_full: "wf s \<Longrightarrow> \<not> fits n l (count s k) \<Longrightarrow>
      fst (take k n l s) = LimitExceeded (count s k) (case l of None \<Rightarrow> 0 | Some l \<Rightarrow> l)
      \<and> count (snd (take k n l s)) = count s"
    and give_counts: "wf s \<Longrightarrow> 0 \<le> n \<Longrightarrow>
      count (give k n s) = (count s)(k := max (count s k - n) 0)"
    and take_wf: "wf s \<Longrightarrow> wf (snd (take k n l s))"
    and give_wf: "wf s \<Longrightarrow> wf (give k n s)"
begin

lemma take_counts: "wf s \<Longrightarrow>
    count_call (Take k n l) (count s) =
      (Inl (fst (take k n l s)), count (snd (take k n l s)))"
  using take_fits [of s n l k] take_full [of s n l k] by (cases "fits n l (count s k)") auto

lemma give_step: "wf s \<Longrightarrow> 0 \<le> n \<Longrightarrow>
    count_call (Give k n) (count s) = (Inr (count (give k n s) k), count (give k n s))"
  by (simp add: give_counts)

lemma take_bounded:
  assumes "wf s" and "0 \<le> b" and "count s k \<le> b" and "bounded_call k b (Take k' n l)"
  shows "count (snd (take k' n l s)) k \<le> b"
  using count_call_bounded [of k b "Take k' n l" "count s"] assms take_counts [OF assms(1), of k' n l]
  by simp

lemma take_succeeds_iff: "wf s \<Longrightarrow> (\<exists>m. fst (take k n l s) = Reserved m) \<longleftrightarrow> fits n l (count s k)"
  using take_fits [of s n l k] take_full [of s n l k] by (cases "fits n l (count s k)") auto

end

section \<open>Usage\<close>

record usage_row =
  us_tenant :: uuid
  us_key :: string
  us_period :: string
  us_count :: int

type_synonym usage_id = "uuid \<times> string \<times> string"

definition usage_id :: "usage_row \<Rightarrow> usage_id" where
  "usage_id u = (us_tenant u, us_key u, us_period u)"

definition persistent_period :: string where "persistent_period = ''persistent''"

definition validate_key_and_period :: "string \<Rightarrow> string \<Rightarrow> unit result" where
  "validate_key_and_period key period =
     (if is_limit_key key = None
      then Inl (InvalidUsage (''Invalid usage limit key: \"'' @ key @ ''\"''))
      else if period = ''''
      then Inl (InvalidUsage ''Invalid usage period:  (must be a non-empty string)'')
      else Inr ())"

definition validate_amount :: "int \<Rightarrow> unit result" where
  "validate_amount amount =
     (if amount < 0
      then Inl (InvalidUsage (''Invalid usage amount: '' @ int_text amount @ '' (must be a non-negative integer)''))
      else Inr ())"

definition validate_limit :: "int option \<Rightarrow> unit result" where
  "validate_limit limit =
     (case limit of
        None \<Rightarrow> Inr ()
      | Some l \<Rightarrow> if l < 0
          then Inl (InvalidUsage (''Invalid usage limit: '' @ int_text l @ '' (must be null or a non-negative integer)''))
          else Inr ())"

definition usage_count :: "usage_row list \<Rightarrow> usage_id \<Rightarrow> int" where
  "usage_count us k = (case List.find (\<lambda>u. usage_id u = k) us of None \<Rightarrow> 0 | Some u \<Rightarrow> us_count u)"

definition get_usage :: "usage_id \<Rightarrow> usage_row list \<Rightarrow> int result" where
  "get_usage k us =
     (case validate_key_and_period (fst (snd k)) (snd (snd k)) of
        Inl e \<Rightarrow> Inl e | Inr _ \<Rightarrow> Inr (usage_count us k))"

text \<open>Step 1, an insert that does nothing on a conflict.\<close>

definition ensure_row :: "usage_id \<Rightarrow> usage_row list \<Rightarrow> usage_row list" where
  "ensure_row k us =
     (if k \<in> set (map usage_id us) then us
      else us @ [\<lparr>us_tenant = fst k, us_key = fst (snd k), us_period = snd (snd k), us_count = 0\<rparr>])"

text \<open>Step 2, the conditional increment.\<close>

definition increment_hit :: "usage_id \<Rightarrow> int \<Rightarrow> int option \<Rightarrow> usage_row \<Rightarrow> bool" where
  "increment_hit k amount limit u \<longleftrightarrow> usage_id u = k \<and> fits amount limit (us_count u)"

definition increment_rows :: "usage_id \<Rightarrow> int \<Rightarrow> int option \<Rightarrow> usage_row list \<Rightarrow> usage_row list" where
  "increment_rows k amount limit us =
     update_rows (increment_hit k amount limit) (\<lambda>u. u\<lparr>us_count := us_count u + amount\<rparr>) us"

definition reserve_checked ::
  "usage_id \<Rightarrow> int \<Rightarrow> int option \<Rightarrow> usage_row list \<Rightarrow> reservation \<times> usage_row list" where
  "reserve_checked k amount limit us =
     (let us1 = ensure_row k us
      in if hits (increment_hit k amount limit) us1 = 1
         then (let us2 = increment_rows k amount limit us1
               in (Reserved (usage_count us2 k), us2))
         else (LimitExceeded (usage_count us1 k) (case limit of None \<Rightarrow> 0 | Some l \<Rightarrow> l), us1))"

definition reserve ::
  "usage_id \<Rightarrow> int \<Rightarrow> int option \<Rightarrow> (usage_row list, reservation) tx" where
  "reserve k amount limit us =
     (case validate_key_and_period (fst (snd k)) (snd (snd k)) of
        Inl e \<Rightarrow> Inl e
      | Inr _ \<Rightarrow> (case validate_amount amount of
          Inl e \<Rightarrow> Inl e
        | Inr _ \<Rightarrow> (case validate_limit limit of
            Inl e \<Rightarrow> Inl e
          | Inr _ \<Rightarrow> Inr (reserve_checked k amount limit us))))"

definition decrement_checked :: "usage_id \<Rightarrow> int \<Rightarrow> usage_row list \<Rightarrow> usage_row list" where
  "decrement_checked k amount us =
     update_rows (\<lambda>u. usage_id u = k) (\<lambda>u. u\<lparr>us_count := max (us_count u - amount) 0\<rparr>) us"

definition decrement :: "usage_id \<Rightarrow> int \<Rightarrow> (usage_row list, int) tx" where
  "decrement k amount us =
     (case validate_key_and_period (fst (snd k)) (snd (snd k)) of
        Inl e \<Rightarrow> Inl e
      | Inr _ \<Rightarrow> (case validate_amount amount of
          Inl e \<Rightarrow> Inl e
        | Inr _ \<Rightarrow> (let us' = decrement_checked k amount us in Inr (usage_count us' k, us'))))"

section \<open>The table is a counter store\<close>

definition usage_wf :: "usage_row list \<Rightarrow> bool" where
  "usage_wf us \<longleftrightarrow> distinct (map usage_id us)"

lemma usage_id_count [simp]: "usage_id (u\<lparr>us_count := n\<rparr>) = usage_id u"
  by (simp add: usage_id_def)

lemma usage_id_new [simp]:
  "usage_id \<lparr>us_tenant = fst k, us_key = fst (snd k), us_period = snd (snd k), us_count = n\<rparr> = k"
  by (simp add: usage_id_def)

lemma usage_count_ensure [simp]: "usage_count (ensure_row k us) = usage_count us"
  by (rule ext) (auto simp: usage_count_def ensure_row_def find_append split: option.splits)

lemma ensure_row_wf: "usage_wf us \<Longrightarrow> usage_wf (ensure_row k us)"
  by (auto simp: usage_wf_def ensure_row_def)

lemma ensure_row_has: "\<exists>u \<in> set (ensure_row k us). usage_id u = k"
  by (auto simp: ensure_row_def)

lemma increment_rows_wf: "usage_wf us \<Longrightarrow> usage_wf (increment_rows k n l us)"
  by (simp add: usage_wf_def increment_rows_def map_update_rows)

lemma decrement_wf: "usage_wf us \<Longrightarrow> usage_wf (decrement_checked k n us)"
  by (simp add: usage_wf_def decrement_checked_def map_update_rows)

lemma find_usage: "usage_wf us \<Longrightarrow> u \<in> set us \<Longrightarrow> usage_id u = k \<Longrightarrow>
    List.find (\<lambda>u. usage_id u = k) us = Some u"
  using find_key [of usage_id us u] by (simp add: usage_wf_def)

lemma increment_hits_iff:
  assumes "usage_wf us" and "u \<in> set us" and "usage_id u = k"
  shows "hits (increment_hit k n l) us = 1 \<longleftrightarrow> fits n l (usage_count us k)"
proof -
  have "hits (increment_hit k n l) us = hits (\<lambda>u. usage_id u = k \<and> fits n l (us_count u)) us"
    by (rule hits_cong) (simp add: increment_hit_def)
  also have "\<dots> = 1 \<longleftrightarrow> (\<exists>u \<in> set us. usage_id u = k \<and> fits n l (us_count u))"
    using assms(1) by (intro hits_key_1_iff) (simp add: usage_wf_def)
  also have "\<dots> \<longleftrightarrow> fits n l (us_count u)"
    using assms distinct_key_inj [of usage_id us] by (auto simp: usage_wf_def)
  finally show ?thesis
    using find_usage [OF assms] by (simp add: usage_count_def)
qed

lemma usage_count_increment:
  assumes "usage_wf us" and "u \<in> set us" and "usage_id u = k" and "fits n l (usage_count us k)"
  shows "usage_count (increment_rows k n l us) = (usage_count us)(k := usage_count us k + n)"
proof
  fix k'
  have "List.find (\<lambda>x. usage_id x = k') (increment_rows k n l us) =
      map_option (\<lambda>u. if increment_hit k n l u then u\<lparr>us_count := us_count u + n\<rparr> else u)
        (List.find (\<lambda>x. usage_id x = k') us)"
    unfolding increment_rows_def by (rule find_key_update) simp
  then show "usage_count (increment_rows k n l us) k' = ((usage_count us)(k := usage_count us k + n)) k'"
    using assms(4) find_usage [OF assms(1-3)]
    by (auto simp: usage_count_def increment_hit_def dest: find_SomeD split: option.splits)
qed

lemma usage_count_decrement:
  assumes "usage_wf us" and "0 \<le> n"
  shows "usage_count (decrement_checked k n us) = (usage_count us)(k := max (usage_count us k - n) 0)"
proof
  fix k'
  have "List.find (\<lambda>x. usage_id x = k') (decrement_checked k n us) =
      map_option (\<lambda>u. if usage_id u = k then u\<lparr>us_count := max (us_count u - n) 0\<rparr> else u)
        (List.find (\<lambda>x. usage_id x = k') us)"
    unfolding decrement_checked_def by (rule find_key_update) simp
  then show "usage_count (decrement_checked k n us) k' =
      ((usage_count us)(k := max (usage_count us k - n) 0)) k'"
    using assms(2) by (auto simp: usage_count_def dest: find_SomeD split: option.splits)
qed

lemma reserve_checked_fits:
  assumes "usage_wf us" and "fits n l (usage_count us k)"
  shows "fst (reserve_checked k n l us) = Reserved (usage_count us k + n)
    \<and> usage_count (snd (reserve_checked k n l us)) = (usage_count us)(k := usage_count us k + n)"
proof -
  obtain u where u: "u \<in> set (ensure_row k us)" "usage_id u = k"
    using ensure_row_has by blast
  note wf = ensure_row_wf [OF assms(1)]
  show ?thesis
    using increment_hits_iff [OF wf u, of n l] usage_count_increment [OF wf u, of n l] assms(2)
    by (simp add: reserve_checked_def Let_def)
qed

lemma reserve_checked_full:
  assumes "usage_wf us" and "\<not> fits n l (usage_count us k)"
  shows "fst (reserve_checked k n l us) =
      LimitExceeded (usage_count us k) (case l of None \<Rightarrow> 0 | Some l \<Rightarrow> l)
    \<and> usage_count (snd (reserve_checked k n l us)) = usage_count us"
proof -
  obtain u where u: "u \<in> set (ensure_row k us)" "usage_id u = k"
    using ensure_row_has by blast
  show ?thesis
    using increment_hits_iff [OF ensure_row_wf [OF assms(1)] u, of n l] assms(2)
    by (simp add: reserve_checked_def Let_def)
qed

lemma reserve_checked_wf: "usage_wf us \<Longrightarrow> usage_wf (snd (reserve_checked k n l us))"
  by (simp add: reserve_checked_def Let_def ensure_row_wf increment_rows_wf)

interpretation usage_table: counter_store usage_count reserve_checked decrement_checked usage_wf
  by unfold_locales
    (simp_all add: reserve_checked_fits reserve_checked_full usage_count_decrement
      reserve_checked_wf decrement_wf)

section \<open>Enforcement\<close>

text \<open>\<open>assertLimit\<close>: the limit is read first, outside the caller's transaction.\<close>

definition assert_limit ::
  "entitlements \<Rightarrow> uuid \<Rightarrow> limit_key \<Rightarrow> int \<Rightarrow> string option \<Rightarrow> (usage_row list, unit) tx" where
  "assert_limit en tenant key amount period us =
     (let limit = en_limits en key
      in case (if lv_period limit = BillingPeriod
               then (case period of
                       None \<Rightarrow> Inl (BillingPeriodUnresolved (limit_key_name key))
                     | Some p \<Rightarrow> if p = '''' then Inl (BillingPeriodUnresolved (limit_key_name key)) else Inr p)
               else Inr persistent_period) of
           Inl e \<Rightarrow> Inl e
         | Inr p \<Rightarrow>
             (case reserve (tenant, limit_key_name key, p) amount (lv_value limit) us of
                Inl e \<Rightarrow> Inl e
              | Inr (LimitExceeded _ _, us') \<Rightarrow> Inl (Forbidden ''limit_exceeded'')
              | Inr (Reserved _, us') \<Rightarrow> Inr ((), us')))"

definition release_limit :: "uuid \<Rightarrow> limit_key \<Rightarrow> int \<Rightarrow> (usage_row list, unit) tx" where
  "release_limit tenant key amount us =
     map_sum id (\<lambda>(_, us'). ((), us')) (decrement (tenant, limit_key_name key, persistent_period) amount us)"

end
