(* ===== verification/QuotaProperties.thy ===== *)
theory QuotaProperties
  imports Quota
begin

text \<open>
  What the quota services promise: the usage table is a counter per key, no interleaving of
  their statements exceeds a limit, and an entitlement is what the latest active override says,
  then the plan, then nothing.
\<close>

section \<open>The usage service refines counters\<close>

fun usage_service ::
  "usage_id counter_call \<Rightarrow> usage_row list \<Rightarrow> (err + (reservation + int)) \<times> usage_row list" where
  "usage_service (Take k n l) us =
     run_tx (\<lambda>us. map_sum id (\<lambda>(r, us'). (Inl r, us')) (reserve k n l us)) us"
| "usage_service (Give k n) us =
     run_tx (\<lambda>us. map_sum id (\<lambda>(r, us'). (Inr r, us')) (decrement k n us)) us"

fun call_check :: "usage_id counter_call \<Rightarrow> unit result" where
  "call_check (Take (t, key, period) n l) =
     (case validate_key_and_period key period of
        Inl e \<Rightarrow> Inl e
      | Inr _ \<Rightarrow> (case validate_amount n of Inl e \<Rightarrow> Inl e | Inr _ \<Rightarrow> validate_limit l))"
| "call_check (Give (t, key, period) n) =
     (case validate_key_and_period key period of Inl e \<Rightarrow> Inl e | Inr _ \<Rightarrow> validate_amount n)"

definition counter_spec ::
  "usage_id counter_call \<Rightarrow> (usage_id \<Rightarrow> int) \<Rightarrow> (err + (reservation + int)) \<times> (usage_id \<Rightarrow> int)" where
  "counter_spec c m =
     (case call_check c of
        Inl e \<Rightarrow> (Inl e, m)
      | Inr _ \<Rightarrow> (let (x, m') = count_call c m in (Inr x, m')))"

lemma usage_service_step:
  assumes "usage_wf us"
  shows "usage_wf (snd (usage_service c us)) \<and>
    counter_spec c (usage_count us) = (fst (usage_service c us), usage_count (snd (usage_service c us)))"
proof (cases c)
  case (Take k n l)
  then show ?thesis
    using assms usage_table.take_counts [OF assms, of k n l] reserve_checked_wf [OF assms, of k n l]
    by (cases k) (auto simp: counter_spec_def reserve_def run_tx_def case_prod_beta split: sum.splits)
next
  case (Give k n)
  then show ?thesis
    using assms usage_table.give_step [OF assms, of n k] decrement_wf [OF assms, of k n]
    by (cases k) (auto simp: counter_spec_def decrement_def run_tx_def validate_amount_def Let_def
        split: sum.splits if_splits)
qed

text \<open>
  C36. The usage service is a map of counters: any sequence of reservations and decrements, valid
  or not, answers each call, errors included, exactly as a function from (tenant, key, period) to
  a number would, and leaves the counts that function would leave.
\<close>

theorem usage_service_refines_counters:
  assumes "usage_wf us"
  shows "run_calls counter_spec calls (usage_count us) =
    (fst (run_calls usage_service calls us), usage_count (snd (run_calls usage_service calls us)))"
  using run_calls_simulation [where ok = usage_wf and f = usage_service and g = counter_spec
      and view = usage_count, OF assms] usage_service_step by blast

theorem usage_service_refines_counters_witness:
  "run_calls counter_spec
     [Take (1, ''orders_per_month'', ''p'') 2 (Some 3), Take (1, ''orders_per_month'', ''p'') 2 (Some 3),
      Give (1, ''orders_per_month'', ''p'') 5] (usage_count []) =
   (fst (run_calls usage_service
     [Take (1, ''orders_per_month'', ''p'') 2 (Some 3), Take (1, ''orders_per_month'', ''p'') 2 (Some 3),
      Give (1, ''orders_per_month'', ''p'') 5] []),
    usage_count (snd (run_calls usage_service
     [Take (1, ''orders_per_month'', ''p'') 2 (Some 3), Take (1, ''orders_per_month'', ''p'') 2 (Some 3),
      Give (1, ''orders_per_month'', ''p'') 5] [])))"
  by (rule usage_service_refines_counters) (simp add: usage_wf_def)

section \<open>Interleaved statements\<close>

text \<open>
  Each call is one or two SQL statements, each atomic. Concurrent transactions interleave at the
  level of these statements.
\<close>

datatype usage_statement =
    InsertRow usage_id
  | IncrementRow usage_id int "int option"
  | DecrementRow usage_id int

fun exec_statement :: "usage_statement \<Rightarrow> usage_row list \<Rightarrow> usage_row list" where
  "exec_statement (InsertRow k) us = ensure_row k us"
| "exec_statement (IncrementRow k n l) us = increment_rows k n l us"
| "exec_statement (DecrementRow k n) us = decrement_checked k n us"

fun statement_limited :: "usage_id \<Rightarrow> int \<Rightarrow> usage_statement \<Rightarrow> bool" where
  "statement_limited k b (IncrementRow k' n l) =
     (0 \<le> n \<and> (k' = k \<longrightarrow> (case l of None \<Rightarrow> False | Some l' \<Rightarrow> l' \<le> b)))"
| "statement_limited k b (DecrementRow k' n) = (0 \<le> n)"
| "statement_limited k b (InsertRow k') = True"

lemma reserve_is_statements:
  "snd (reserve_checked k n l us) =
     (if hits (increment_hit k n l) (ensure_row k us) = 1
      then fold exec_statement [InsertRow k, IncrementRow k n l] us
      else exec_statement (InsertRow k) us)"
  by (simp add: reserve_checked_def Let_def)

lemma usage_count_increment_le:
  assumes "usage_wf us"
  shows "usage_count (increment_rows k' n l us) k =
    (if k' = k \<and> fits n l (usage_count us k) \<and> k \<in> set (map usage_id us)
     then usage_count us k + n else usage_count us k)"
proof (cases "k' \<in> set (map usage_id us)")
  case True
  then obtain u where u: "u \<in> set us" "usage_id u = k'" by auto
  show ?thesis
  proof (cases "fits n l (usage_count us k')")
    case True
    then show ?thesis using usage_count_increment [OF assms u True] u by auto
  next
    case False
    then have "hits (increment_hit k' n l) us = 0"
      using u assms distinct_key_inj [of usage_id us] find_usage [OF assms u]
      by (auto simp: hits_0_iff increment_hit_def usage_wf_def usage_count_def)
    then show ?thesis using False by (auto simp: increment_rows_def update_rows_hits_0)
  qed
next
  case False
  then have "increment_rows k' n l us = us"
    unfolding increment_rows_def by (intro update_rows_none) (auto simp: increment_hit_def)
  then show ?thesis using False by auto
qed

lemma statement_step:
  assumes "usage_wf us" and "statement_limited k b x" and "0 \<le> b" and "usage_count us k \<le> b"
  shows "usage_wf (exec_statement x us) \<and> usage_count (exec_statement x us) k \<le> b"
proof (cases x)
  case (InsertRow k')
  then show ?thesis using assms by (simp add: ensure_row_wf)
next
  case (IncrementRow k' n l)
  then show ?thesis
    using assms increment_rows_wf [OF assms(1)] usage_count_increment_le [OF assms(1), of k' n l k]
    by (auto simp: fits_def split: option.splits if_splits)
next
  case (DecrementRow k' n)
  then show ?thesis
    using assms decrement_wf [OF assms(1)] usage_count_decrement [OF assms(1), of n k'] by auto
qed

text \<open>
  C16. No interleaving of concurrent reservations and releases takes a counter over its limit:
  whatever the order in which the statements of any number of transactions run, if every
  increment of the key carries a limit of at most b, the stored count never exceeds b.
\<close>

theorem interleaved_reservations_within_limit:
  assumes "usage_wf us" and "0 \<le> b" and "usage_count us k \<le> b"
    and "\<And>x. x \<in> set statements \<Longrightarrow> statement_limited k b x"
  shows "usage_count (fold exec_statement statements us) k \<le> b"
  using assms
proof (induction statements arbitrary: us)
  case Nil
  then show ?case by simp
next
  case (Cons x xs)
  then show ?case using statement_step [of us k b x] by simp
qed

theorem interleaved_reservations_within_limit_witness:
  "usage_count (fold exec_statement
     [InsertRow (1, ''products'', ''persistent''), InsertRow (1, ''products'', ''persistent''),
      IncrementRow (1, ''products'', ''persistent'') 2 (Some 3),
      IncrementRow (1, ''products'', ''persistent'') 2 (Some 3)] [])
     (1, ''products'', ''persistent'') \<le> 3"
  by (rule interleaved_reservations_within_limit)
    (auto simp: usage_wf_def usage_count_def)

section \<open>Entitlements\<close>

lemma is_limit_key_iff: "is_limit_key s = Some k \<longleftrightarrow> s = limit_key_name k"
  by (cases k) (auto simp: is_limit_key_def limit_keys_def)

lemma is_feature_key_iff: "is_feature_key s = Some k \<longleftrightarrow> s = feature_key_name k"
  by (cases k) (auto simp: is_feature_key_def feature_keys_def)

lemma is_limit_key_name [simp]: "is_limit_key (limit_key_name k) = Some k"
  by (simp add: is_limit_key_iff)

lemma is_feature_key_name [simp]: "is_feature_key (feature_key_name k) = Some k"
  by (simp add: is_feature_key_iff)

lemma limit_key_name_inj: "limit_key_name k = limit_key_name k' \<longleftrightarrow> k = k'"
  by (cases k; cases k') auto

lemma feature_key_name_inj: "feature_key_name k = feature_key_name k' \<longleftrightarrow> k = k'"
  by (cases k; cases k') auto

text \<open>A loop that overwrites an entry leaves the value of the last write.\<close>

lemma fold_last_write:
  assumes "\<And>x s. proj (f x s) = (if p x then v x else proj s)"
  shows "proj (fold f xs s) = (case List.find p (rev xs) of None \<Rightarrow> proj s | Some x \<Rightarrow> v x)"
  by (induction xs rule: rev_induct) (auto simp: assms)

lemma find_rev_filter: "List.find p (rev (filter q xs)) = List.find (\<lambda>x. q x \<and> p x) (rev xs)"
proof -
  have "List.find p (filter q ys) = List.find (\<lambda>x. q x \<and> p x) ys" for ys
    by (induction ys) auto
  then show ?thesis by (simp add: rev_filter)
qed

lemma find_rev_insort:
  "sorted (map key ys) \<Longrightarrow> List.find p (rev (insort_key key x ys)) =
     (case List.find p (rev ys) of
        None \<Rightarrow> if p x then Some x else None
      | Some b \<Rightarrow> if p x \<and> key b < key x then Some x else Some b)"
proof (induction ys)
  case Nil
  then show ?case by simp
next
  case (Cons y ys)
  have le: "List.find p (rev ys) = Some b \<Longrightarrow> key y \<le> key b" for b
    using Cons.prems find_SomeD [of p "rev ys" b] by auto
  show ?case
    using Cons le by (auto simp: find_append not_less split: option.splits)
qed

lemma find_rev_sort: "List.find p (rev (sort_key key rs)) = latest key p rs"
  by (induction rs) (auto simp: find_rev_insort split: option.splits)

lemma latest_filter: "latest key p (filter q rs) = latest key (\<lambda>r. q r \<and> p r) rs"
  by (induction rs) (auto split: option.splits)

lemma find_active_override:
  "List.find p (rev (active_overrides cat t)) =
     latest ov_created (\<lambda>ov. (ov_tenant ov = t \<and> \<not> ov_revoked ov) \<and> p ov) (cat_overrides cat)"
  by (simp add: active_overrides_def find_rev_sort latest_filter)

definition limit_override :: "limit_key \<Rightarrow> override_row \<Rightarrow> bool" where
  "limit_override k ov \<longleftrightarrow> ov_feature ov = None \<and> ov_limit ov = Some (limit_key_name k)"

definition feature_override :: "feature_key \<Rightarrow> override_row \<Rightarrow> bool" where
  "feature_override k ov \<longleftrightarrow> ov_feature ov = Some (feature_key_name k) \<and> ov_bool ov \<noteq> None"

lemma apply_override_limit:
  "en_limits (apply_override ov en) k =
     (if limit_override k ov then \<lparr>lv_value = ov_int ov, lv_period = limit_key_periods k\<rparr>
      else en_limits en k)"
proof (cases "ov_feature ov")
  case None
  then show ?thesis
    by (auto simp: apply_override_def limit_override_def set_limit_def is_limit_key_iff
        limit_key_name_inj split: option.splits)
next
  case (Some f)
  then show ?thesis by (auto simp: apply_override_def limit_override_def split: option.splits)
qed

lemma apply_override_feature:
  "en_features (apply_override ov en) k =
     (if feature_override k ov then the (ov_bool ov) else en_features en k)"
proof (cases "ov_feature ov")
  case None
  then show ?thesis
    by (auto simp: apply_override_def feature_override_def split: option.splits)
next
  case (Some f)
  then show ?thesis
    by (auto simp: apply_override_def feature_override_def is_feature_key_iff
        feature_key_name_inj split: option.splits)
qed

lemma resolve_plan_limits_find:
  "resolve_plan_limits cat (Some p) k =
     \<lparr>lv_value = (case List.find (\<lambda>row. pm_plan row = p \<and> pm_key row = limit_key_name k) (rev (cat_limits cat))
                   of None \<Rightarrow> Some 0 | Some row \<Rightarrow> pm_value row),
      lv_period = limit_key_periods k\<rparr>"
proof -
  let ?f = "\<lambda>(row :: plan_limit) ls. case is_limit_key (pm_key row) of None \<Rightarrow> ls | Some k \<Rightarrow> set_limit k (pm_value row) ls"
  have "?f row ls k = (if pm_key row = limit_key_name k
      then \<lparr>lv_value = pm_value row, lv_period = limit_key_periods k\<rparr> else ls k)" for row ls
    by (auto simp: set_limit_def is_limit_key_iff limit_key_name_inj split: option.splits)
  from fold_last_write [where proj = "\<lambda>ls. ls k" and f = ?f, OF this] show ?thesis
    by (auto simp: resolve_plan_limits_def find_rev_filter deny_by_default_limits_def split: option.split)
qed

lemma resolve_plan_features_find:
  "resolve_plan_features cat (Some p) k =
     (case List.find (\<lambda>row. pf_plan row = p \<and> pf_key row = feature_key_name k) (rev (cat_features cat))
        of None \<Rightarrow> False | Some row \<Rightarrow> pf_enabled row)"
proof -
  let ?f = "\<lambda>(row :: plan_feature) fs. case is_feature_key (pf_key row) of None \<Rightarrow> fs | Some k \<Rightarrow> fs(k := pf_enabled row)"
  have "?f row fs k = (if pf_key row = feature_key_name k then pf_enabled row else fs k)" for row fs
    by (auto simp: is_feature_key_iff feature_key_name_inj split: option.splits)
  from fold_last_write [where proj = "\<lambda>fs. fs k" and f = ?f, OF this] show ?thesis
    by (auto simp: resolve_plan_features_def find_rev_filter deny_by_default_features_def
        split: option.split)
qed

text \<open>The precedence the documentation states, without a loop: override, plan, denied.\<close>

definition effective_limit :: "catalogue \<Rightarrow> billing_db \<Rightarrow> uuid \<Rightarrow> limit_key \<Rightarrow> int option" where
  "effective_limit cat db t k =
     (case latest ov_created (\<lambda>ov. (ov_tenant ov = t \<and> \<not> ov_revoked ov) \<and> limit_override k ov)
             (cat_overrides cat) of
        Some ov \<Rightarrow> ov_int ov
      | None \<Rightarrow> (case resolve_effective_plan_id db t of
          None \<Rightarrow> Some 0
        | Some p \<Rightarrow>
            (case List.find (\<lambda>row. pm_plan row = p \<and> pm_key row = limit_key_name k) (rev (cat_limits cat)) of
               None \<Rightarrow> Some 0 | Some row \<Rightarrow> pm_value row)))"

definition effective_feature :: "catalogue \<Rightarrow> billing_db \<Rightarrow> uuid \<Rightarrow> feature_key \<Rightarrow> bool" where
  "effective_feature cat db t k =
     (case latest ov_created (\<lambda>ov. (ov_tenant ov = t \<and> \<not> ov_revoked ov) \<and> feature_override k ov)
             (cat_overrides cat) of
        Some ov \<Rightarrow> the (ov_bool ov)
      | None \<Rightarrow> (case resolve_effective_plan_id db t of
          None \<Rightarrow> False
        | Some p \<Rightarrow>
            (case List.find (\<lambda>row. pf_plan row = p \<and> pf_key row = feature_key_name k) (rev (cat_features cat)) of
               None \<Rightarrow> False | Some row \<Rightarrow> pf_enabled row)))"

lemma resolved_limit:
  "en_limits (resolve_entitlements cat db t) k =
     \<lparr>lv_value = effective_limit cat db t k, lv_period = limit_key_periods k\<rparr>"
  using fold_last_write [where proj = "\<lambda>en. en_limits en k" and f = apply_override, OF apply_override_limit]
  by (auto simp: resolve_entitlements_def Let_def find_active_override effective_limit_def
      resolve_plan_limits_find split: option.split)
    (simp_all add: resolve_plan_limits_def deny_by_default_limits_def)

lemma resolved_feature: "en_features (resolve_entitlements cat db t) k = effective_feature cat db t k"
  using fold_last_write [where proj = "\<lambda>en. en_features en k" and f = apply_override, OF apply_override_feature]
  by (auto simp: resolve_entitlements_def Let_def find_active_override effective_feature_def
      resolve_plan_features_find split: option.split)
    (simp_all add: resolve_plan_features_def deny_by_default_features_def)

text \<open>
  The loops of the entitlement service compute the documented precedence: the newest override
  of the tenant that is not revoked decides, else the row of the effective plan, else the feature
  is denied and the limit is zero.
\<close>

theorem entitlements_follow_precedence:
  "resolve_entitlements cat db t =
     \<lparr>en_features = effective_feature cat db t,
      en_limits = (\<lambda>k. \<lparr>lv_value = effective_limit cat db t k, lv_period = limit_key_periods k\<rparr>)\<rparr>"
  using ext [of "en_features (resolve_entitlements cat db t)", OF resolved_feature]
    ext [of "en_limits (resolve_entitlements cat db t)", OF resolved_limit]
  by (cases "resolve_entitlements cat db t") auto

section \<open>The period limit of a tenant\<close>

text \<open>
  The calls of the enforcement service, in the order they commit: an assertion with the catalogue
  and the subscriptions as they were when its limit was read, or a release.
\<close>

datatype limit_call =
    AssertLimit catalogue billing_db uuid limit_key int "string option"
  | ReleaseLimit uuid limit_key int

fun limit_service :: "limit_call \<Rightarrow> usage_row list \<Rightarrow> (err + unit) \<times> usage_row list" where
  "limit_service (AssertLimit cat db t key n period) us =
     run_tx (assert_limit (resolve_entitlements cat db t) t key n period) us"
| "limit_service (ReleaseLimit t key n) us = run_tx (release_limit t key n) us"

text \<open>The units of a tenant's period that the accepted calls took.\<close>

fun taken :: "uuid \<Rightarrow> string \<Rightarrow> limit_call \<times> (err + unit) \<Rightarrow> int" where
  "taken t p (AssertLimit _ _ t' OrdersPerMonth n p', Inr _) = (if t' = t \<and> p' = Some p then n else 0)"
| "taken t p _ = 0"

fun limit_call_within :: "uuid \<Rightarrow> int \<Rightarrow> limit_call \<Rightarrow> bool" where
  "limit_call_within t b (AssertLimit cat db t' key n period) =
     (t' = t \<and> key = OrdersPerMonth \<longrightarrow>
       (case effective_limit cat db t key of None \<Rightarrow> False | Some l \<Rightarrow> l \<le> b))"
| "limit_call_within t b (ReleaseLimit t' key n) = True"

lemma assert_limit_cases:
  assumes "usage_wf us" and "p \<noteq> persistent_period" and "limit_call_within t b c"
    and "usage_count us (t, ''orders_per_month'', p) \<le> b"
  shows "usage_wf (snd (limit_service c us)) \<and>
    usage_count (snd (limit_service c us)) (t, ''orders_per_month'', p) =
      usage_count us (t, ''orders_per_month'', p) + taken t p (c, fst (limit_service c us)) \<and>
    usage_count (snd (limit_service c us)) (t, ''orders_per_month'', p) \<le> b"
proof (cases c)
  case (AssertLimit cat db t' key n period)
  define q where "q = (if limit_key_periods key = BillingPeriod then the period else persistent_period)"
  let ?k = "(t', limit_key_name key, q)" and ?l = "effective_limit cat db t' key"
  show ?thesis
  proof (cases "fst (limit_service c us)")
    case (Inl e)
    then show ?thesis
      using assms AssertLimit run_tx_rollback [of "assert_limit (resolve_entitlements cat db t') t' key n period" us e]
      by (cases key) auto
  next
    case (Inr x)
    have "snd (limit_service c us) = snd (reserve_checked ?k n ?l us) \<and> 0 \<le> n \<and>
        (\<exists>m. fst (reserve_checked ?k n ?l us) = Reserved m) \<and>
        (limit_key_periods key = BillingPeriod \<longrightarrow> period \<noteq> None)"
      using Inr AssertLimit
      by (cases key; cases period)
        (auto simp: run_tx_def assert_limit_def resolved_limit reserve_def Let_def q_def
          validate_amount_def validate_key_and_period_def
          split: sum.splits prod.splits if_splits reservation.splits)
    moreover from this have "fits n ?l (usage_count us ?k)"
      using usage_table.take_succeeds_iff [OF assms(1), of ?k n ?l] by simp
    ultimately show ?thesis
      using AssertLimit Inr assms reserve_checked_fits [OF assms(1), of n ?l ?k]
        reserve_checked_wf [OF assms(1), of ?k n ?l]
      by (cases key) (auto simp: q_def fits_def split: option.splits)
  qed
next
  case (ReleaseLimit t' key n)
  then show ?thesis
    using assms decrement_wf [OF assms(1)] usage_count_decrement [OF assms(1)]
    by (auto simp: run_tx_def release_limit_def decrement_def validate_amount_def Let_def
        split: sum.splits if_splits)
qed

text \<open>
  Quota of orders: over any sequence of assertions and releases by all tenants, with plans,
  overrides and subscriptions changing between the calls, the orders accepted for a tenant in a
  billing period, added to what the period had used before, do not exceed the largest limit in
  force at those calls.
\<close>

theorem accepted_orders_within_limit:
  assumes "usage_wf us" and "p \<noteq> persistent_period"
    and "usage_count us (t, ''orders_per_month'', p) \<le> b"
    and "\<And>c. c \<in> set calls \<Longrightarrow> limit_call_within t b c"
  shows "usage_count us (t, ''orders_per_month'', p) +
    sum_list (map (taken t p) (zip calls (fst (run_calls limit_service calls us)))) \<le> b"
  using assms
proof (induction calls arbitrary: us)
  case Nil
  then show ?case by simp
next
  case (Cons c cs)
  have "usage_wf (snd (limit_service c us)) \<and>
    usage_count (snd (limit_service c us)) (t, ''orders_per_month'', p) =
      usage_count us (t, ''orders_per_month'', p) + taken t p (c, fst (limit_service c us)) \<and>
    usage_count (snd (limit_service c us)) (t, ''orders_per_month'', p) \<le> b"
    using Cons.prems by (intro assert_limit_cases) auto
  then show ?case
    using Cons.IH [of "snd (limit_service c us)"] Cons.prems by (simp add: case_prod_beta)
qed

definition sample_catalogue :: catalogue where
  "sample_catalogue =
     \<lparr>cat_features = [], cat_limits = [],
      cat_overrides = [\<lparr>ov_id = 1, ov_tenant = 1, ov_feature = None, ov_limit = Some ''orders_per_month'',
        ov_bool = None, ov_int = Some 1, ov_reason = [], ov_by = 9, ov_revoked_at = None, ov_revoked_by = None,
        ov_created = 0\<rparr>]\<rparr>"

definition no_subscriptions :: billing_db where
  "no_subscriptions = \<lparr>subs = [], sub_events = [], plans = [], bd_idem = [], bd_next = 0\<rparr>"

theorem accepted_orders_within_limit_witness:
  "usage_count [] (1, ''orders_per_month'', ''2026-01'') +
    sum_list (map (taken 1 ''2026-01'') (zip
      [AssertLimit sample_catalogue no_subscriptions 1 OrdersPerMonth 1 (Some ''2026-01''),
       AssertLimit sample_catalogue no_subscriptions 1 OrdersPerMonth 1 (Some ''2026-01'')]
      (fst (run_calls limit_service
        [AssertLimit sample_catalogue no_subscriptions 1 OrdersPerMonth 1 (Some ''2026-01''),
         AssertLimit sample_catalogue no_subscriptions 1 OrdersPerMonth 1 (Some ''2026-01'')] [])))) \<le> 1"
  by (rule accepted_orders_within_limit)
    (auto simp: usage_wf_def usage_count_def persistent_period_def effective_limit_def
      sample_catalogue_def limit_override_def)

end
