(* ===== verification/Market.thy ===== *)
theory Market
  imports Orders Quota
begin

text \<open>
  The whole commerce database of a deployment: the \<open>shop\<close> of the order and payment side, the
  catalogue, the carts, the coupons, the usage counters and the subscriptions, with the reads
  that several services share. Settings and the status of tenants are functions of their keys;
  Settings and PlatformPlans write them.
\<close>

lemma map_sum_Inr [simp]: "map_sum f g r = Inr y \<longleftrightarrow> (\<exists>x. r = Inr x \<and> y = g x)"
  by (cases r) auto

section \<open>Catalogue rows\<close>

record category_row =
  cg_id :: uuid
  cg_name :: string
  cg_slug :: string
  cg_parent :: "uuid option"
  cg_active :: bool
  cg_tenant :: uuid
  cg_store :: "uuid option"

record product_row =
  p_id :: uuid
  p_category :: uuid
  p_name :: string
  p_slug :: string
  p_base_price :: decimal
  p_min :: int
  p_max :: "int option"
  p_active :: bool
  p_rating :: "decimal option"
  p_reviews :: nat
  p_tenant :: uuid
  p_store :: "uuid option"
  p_created :: instant

record variant_row =
  va_id :: uuid
  va_product :: uuid
  va_label :: string
  va_delta :: decimal
  va_available :: bool
  va_tenant :: uuid

datatype field_type = TextField | LogoUpload | ImageUpload | DesignFileUpload | ColorSelect | Instructions

datatype surcharge_type = NoSurcharge | FlatSurcharge | PerCharacter

text \<open>
  The JSON column \<open>constraints\<close>: null or a value that is no object, or an object with the
  keys the code reads.
\<close>

record field_constraints =
  max_length :: "int option"
  allowed_formats :: "string list option"
  max_file_size_mb :: "rat option"
  field_options :: "string list option"

datatype json_constraints = NoObject | Constraints field_constraints

record field_row =
  f_id :: uuid
  f_product :: uuid
  f_label :: string
  f_type :: field_type
  f_required :: bool
  f_sort :: int
  f_help :: "string option"
  f_constraints :: json_constraints
  f_surcharge_type :: surcharge_type
  f_surcharge :: decimal
  f_tenant :: uuid

record image_row =
  im_id :: uuid
  im_product :: uuid
  im_public :: string
  im_resource :: string
  im_delivery :: string
  im_sort :: int
  im_primary :: bool
  im_tenant :: uuid

record uploaded_file =
  up_id :: uuid
  up_public :: string
  up_user :: uuid
  up_format :: string
  up_bytes :: int
  up_resource :: string
  up_delivery :: string
  up_tenant :: uuid

section \<open>Cart and coupon rows\<close>

record cart_row =
  c_id :: uuid
  c_user :: uuid
  c_tenant :: uuid

record cart_item =
  ci_id :: uuid
  ci_cart :: uuid
  ci_product :: uuid
  ci_variant :: "uuid option"
  ci_quantity :: int
  ci_tenant :: uuid
  ci_created :: instant

record cart_custom =
  cc_id :: uuid
  cc_item :: uuid
  cc_field :: uuid
  cc_text :: "string option"
  cc_file :: "uuid option"
  cc_tenant :: uuid

datatype coupon_type = Percentage | FlatAmount | FreeShipping

datatype coupon_scope = StoreWide | CategoryScope

record coupon =
  k_id :: uuid
  k_code :: string
  k_type :: coupon_type
  k_percent :: "int option"
  k_flat :: "decimal option"
  k_scope :: coupon_scope
  k_category :: "uuid option"
  k_min_order :: "decimal option"
  k_limit_total :: "int option"
  k_limit_user :: "int option"
  k_used :: int
  k_first_only :: bool
  k_starts :: "instant option"
  k_expires :: "instant option"
  k_active :: bool
  k_description :: "string option"
  k_admin :: uuid
  k_tenant :: uuid
  k_store :: "uuid option"
  k_created :: instant

record coupon_usage =
  ku_coupon :: uuid
  ku_user :: uuid
  ku_order :: uuid
  ku_discount :: decimal
  ku_tenant :: uuid

section \<open>The database\<close>

datatype tenant_status = TenantActive | TenantSuspended | PendingDeletion | TenantDeleted

record storefront =
  sf_id :: uuid
  sf_tenant :: uuid
  sf_primary :: bool

record market =
  mk_shop :: shop
  categories :: "category_row list"
  products :: "product_row list"
  variants :: "variant_row list"
  custom_fields :: "field_row list"
  images :: "image_row list"
  uploads :: "uploaded_file list"
  carts :: "cart_row list"
  cart_items :: "cart_item list"
  cart_customs :: "cart_custom list"
  coupons :: "coupon list"
  coupon_usages :: "coupon_usage list"
  usages :: "usage_row list"
  billing :: billing_db
  entitle :: catalogue
  storefronts :: "storefront list"
  tenant_status_of :: "uuid \<Rightarrow> tenant_status option"
  store_settings :: "uuid \<Rightarrow> string \<Rightarrow> string option"
  tenant_settings :: "uuid \<Rightarrow> string \<Rightarrow> string option"

text \<open>A fresh identifier, and the audit row of an admin's operation.\<close>

abbreviation fresh :: "market \<Rightarrow> uuid" where
  "fresh m \<equiv> next_id (mk_shop m)"

definition take_ids :: "nat \<Rightarrow> market \<Rightarrow> market" where
  "take_ids n m = m\<lparr>mk_shop := (mk_shop m)\<lparr>next_id := next_id (mk_shop m) + n\<rparr>\<rparr>"

definition audit :: "tenant_context \<Rightarrow> uuid \<Rightarrow> string \<Rightarrow> uuid \<Rightarrow> market \<Rightarrow> market" where
  "audit ctx actor action target m =
     m\<lparr>mk_shop := log_tenant_action ctx actor action target (mk_shop m)\<rparr>"

section \<open>Shared reads\<close>

definition find_category :: "uuid \<Rightarrow> market \<Rightarrow> category_row option" where
  "find_category i m = List.find (\<lambda>r. cg_id r = i) (categories m)"

definition find_product :: "uuid \<Rightarrow> market \<Rightarrow> product_row option" where
  "find_product i m = List.find (\<lambda>r. p_id r = i) (products m)"

definition find_variant :: "uuid \<Rightarrow> market \<Rightarrow> variant_row option" where
  "find_variant i m = List.find (\<lambda>r. va_id r = i) (variants m)"

definition find_field :: "uuid \<Rightarrow> market \<Rightarrow> field_row option" where
  "find_field i m = List.find (\<lambda>r. f_id r = i) (custom_fields m)"

definition find_upload_by_id :: "uuid \<Rightarrow> market \<Rightarrow> uploaded_file option" where
  "find_upload_by_id i m = List.find (\<lambda>r. up_id r = i) (uploads m)"

definition find_upload_in_tenant :: "uuid \<Rightarrow> uuid \<Rightarrow> market \<Rightarrow> uploaded_file option" where
  "find_upload_in_tenant i tenant m = List.find (\<lambda>r. up_id r = i \<and> up_tenant r = tenant) (uploads m)"

definition assert_tenant_active :: "uuid \<Rightarrow> string \<Rightarrow> market \<Rightarrow> unit result" where
  "assert_tenant_active tenant msg m =
     require (tenant_status_of m tenant \<noteq> Some TenantSuspended) (Forbidden msg)"

definition primary_store_id_of :: "uuid \<Rightarrow> market \<Rightarrow> uuid result" where
  "primary_store_id_of tenant m =
     map_sum id sf_id
       (or_throw (List.find (\<lambda>s. sf_tenant s = tenant \<and> sf_primary s) (storefronts m))
         (NotFound ''This tenant has no primary store configured''))"

text \<open>The quota check of a resource: the limit is the tenant's entitlement at that moment.\<close>

definition enforce_limit :: "uuid \<Rightarrow> limit_key \<Rightarrow> int \<Rightarrow> string option \<Rightarrow> market \<Rightarrow> market result" where
  "enforce_limit tenant key amount period m =
     map_sum id (\<lambda>(_, us). m\<lparr>usages := us\<rparr>)
       (assert_limit (resolve_entitlements (entitle m) (billing m) tenant) tenant key amount period
          (usages m))"

end
