(* ===== verification/Customization.thy ===== *)
theory Customization
  imports Market
begin

text \<open>
  \<open>products/customizations/customization-validation.util.ts\<close> (the pure part: presence,
  shape, constraints, surcharge) and \<open>customization-validation.service.ts\<close> (the uploaded
  file's tenant, owner, format and size).
\<close>

record submission =
  sb_text :: "string option"
  sb_file :: "uuid option"

record validation =
  vd_error :: "string option"
  vd_surcharge :: paise

definition valid_with :: "paise \<Rightarrow> validation" where
  "valid_with p = \<lparr>vd_error = None, vd_surcharge = p\<rparr>"

definition invalid :: "string \<Rightarrow> validation" where
  "invalid e = \<lparr>vd_error = Some e, vd_surcharge = 0\<rparr>"

fun is_file_field_type :: "field_type \<Rightarrow> bool" where
  "is_file_field_type LogoUpload = True"
| "is_file_field_type ImageUpload = True"
| "is_file_field_type DesignFileUpload = True"
| "is_file_field_type _ = False"

fun parse_field_constraints :: "json_constraints \<Rightarrow> field_constraints" where
  "parse_field_constraints NoObject =
     \<lparr>max_length = None, allowed_formats = None, max_file_size_mb = None, field_options = None\<rparr>"
| "parse_field_constraints (Constraints c) = c"

fun compute_surcharge_paise :: "surcharge_type \<Rightarrow> decimal \<Rightarrow> string option \<Rightarrow> paise" where
  "compute_surcharge_paise NoSurcharge amount text = 0"
| "compute_surcharge_paise FlatSurcharge amount text = decimal_to_paise amount"
| "compute_surcharge_paise PerCharacter amount text =
     decimal_to_paise amount * (case text of None \<Rightarrow> 0 | Some t \<Rightarrow> int (length t))"

definition has_text :: "submission \<Rightarrow> bool" where
  "has_text s = (case sb_text s of None \<Rightarrow> False | Some t \<Rightarrow> js_trim t \<noteq> [])"

definition has_file :: "submission \<Rightarrow> bool" where
  "has_file s = (sb_file s \<noteq> None)"

fun join :: "string \<Rightarrow> string list \<Rightarrow> string" where
  "join sep [] = ''''"
| "join sep [x] = x"
| "join sep (x # xs) = x @ sep @ join sep xs"

definition validate_field_shape :: "field_row \<Rightarrow> submission \<Rightarrow> validation" where
  "validate_field_shape f s =
     (let c = parse_field_constraints (f_constraints f) in
      if \<not> has_text s \<and> \<not> has_file s then
        (if f_required f then invalid (f_label f @ '' is required'') else valid_with 0)
      else if is_file_field_type (f_type f) then
        (if \<not> has_file s then invalid (f_label f @ '' expects an uploaded file'')
         else if has_text s then invalid (f_label f @ '' does not accept a text value'')
         else valid_with (compute_surcharge_paise (f_surcharge_type f) (f_surcharge f) None))
      else if \<not> has_text s then invalid (f_label f @ '' expects a text value'')
      else if has_file s then invalid (f_label f @ '' does not accept an uploaded file'')
      else
        (let t = js_trim (the (sb_text s)) in
         if (case max_length c of None \<Rightarrow> False | Some n \<Rightarrow> int (length t) > n)
         then invalid (f_label f @ '' must be at most '' @ int_text (the (max_length c)) @ '' characters'')
         else if f_type f = ColorSelect \<and>
              (case field_options c of None \<Rightarrow> False | Some os \<Rightarrow> os \<noteq> [] \<and> t \<notin> set os)
         then invalid (f_label f @ '' must be one of: '' @ join '', '' (the (field_options c)))
         else valid_with (compute_surcharge_paise (f_surcharge_type f) (f_surcharge f) (Some t))))"

text \<open>The text of the size limit is JavaScript's number format, a parameter.\<close>

definition validate_field ::
  "(rat \<Rightarrow> string) \<Rightarrow> field_row \<Rightarrow> submission \<Rightarrow> uuid \<Rightarrow> uuid option \<Rightarrow> market \<Rightarrow> validation" where
  "validate_field num f s user tenant m =
     (let shape = validate_field_shape f s in
      if vd_error shape \<noteq> None then shape
      else if \<not> is_file_field_type (f_type f) then shape
      else (case sb_file s of
        None \<Rightarrow> shape
      | Some i \<Rightarrow>
          (case (case tenant of None \<Rightarrow> find_upload_by_id i m
                 | Some t \<Rightarrow> find_upload_in_tenant i t m) of
             None \<Rightarrow> invalid ''Uploaded file not found''
           | Some file \<Rightarrow>
               if up_user file \<noteq> user then invalid ''You do not own this uploaded file''
               else
                 (let c = parse_field_constraints (f_constraints f) in
                  if (case allowed_formats c of None \<Rightarrow> False
                      | Some fs \<Rightarrow> fs \<noteq> [] \<and> up_format file \<notin> set fs)
                  then invalid (f_label f @ '' must be one of: '' @ join '', '' (the (allowed_formats c)))
                  else if (case max_file_size_mb c of None \<Rightarrow> False
                           | Some mb \<Rightarrow> of_int (up_bytes file) > mb * 1024 * 1024)
                  then invalid (f_label f @ '' must be at most '' @ num (the (max_file_size_mb c)) @ ''MB'')
                  else shape))))"

section \<open>Facts\<close>

lemma invalid_simps [simp]: "vd_error (invalid e) = Some e" "vd_surcharge (invalid e) = 0"
  by (simp_all add: invalid_def)

lemma valid_simps [simp]: "vd_error (valid_with p) = None" "vd_surcharge (valid_with p) = p"
  by (simp_all add: valid_with_def)

text \<open>A rejected value never costs anything.\<close>

lemma rejected_costs_nothing:
  "vd_error (validate_field_shape f s) \<noteq> None \<Longrightarrow> vd_surcharge (validate_field_shape f s) = 0"
  by (auto simp: validate_field_shape_def Let_def)

lemma surcharge_nonneg:
  assumes "0 \<le> decimal_to_paise a"
  shows "0 \<le> compute_surcharge_paise t a x"
  using assms by (cases t) (auto split: option.split)

lemma shape_surcharge_nonneg:
  "0 \<le> decimal_to_paise (f_surcharge f) \<Longrightarrow> 0 \<le> vd_surcharge (validate_field_shape f s)"
  by (auto simp: validate_field_shape_def Let_def surcharge_nonneg)

text \<open>What an accepted value looks like: exactly the part the field type asks for.\<close>

lemma accepted_shape:
  assumes "vd_error (validate_field_shape f s) = None" and "has_text s \<or> has_file s"
  shows "has_file s \<longleftrightarrow> is_file_field_type (f_type f)" and "has_text s \<longleftrightarrow> \<not> is_file_field_type (f_type f)"
  using assms by (auto simp: validate_field_shape_def Let_def split: if_splits)

text \<open>The service only refines the shape check: it never changes the surcharge of a value it
  accepts.\<close>

lemma validate_field_cases:
  "validate_field num f s user tenant m = validate_field_shape f s
   \<or> vd_error (validate_field num f s user tenant m) \<noteq> None"
  by (auto simp: validate_field_def Let_def split: option.splits)

lemma validate_field_refines_shape:
  assumes "vd_error (validate_field num f s user tenant m) = None"
  shows "validate_field num f s user tenant m = validate_field_shape f s"
  using validate_field_cases assms by blast

lemma accepted_file_owned:
  assumes "vd_error (validate_field num f s user (Some t) m) = None"
    and "is_file_field_type (f_type f)" and "sb_file s = Some i"
  shows "\<exists>file. find_upload_in_tenant i t m = Some file \<and> up_user file = user \<and> up_tenant file = t"
  using assms
  by (auto simp: validate_field_def Let_def find_upload_in_tenant_def dest: find_SomeD
      split: option.splits if_splits)

end
