(* ===== verification/Carts.thy ===== *)
theory Carts
  imports Customization
begin

text \<open>
  \<open>cart/cart.service.ts\<close>: one cart per user, created on first use, whose lines are priced
  from the current catalogue at every read. The service is not one transaction: the cart is
  created before the checks and stays when they fail, so an operation returns its outcome with
  the database it leaves.
\<close>

section \<open>Lines\<close>

text \<open>A cart item with the relations the queries include.\<close>

record cart_line =
  ln_item :: cart_item
  ln_product :: product_row
  ln_variant :: "variant_row option"
  ln_customs :: "(cart_custom \<times> field_row) list"

abbreviation missing_relation :: err where
  "missing_relation \<equiv> Thrown ''Inconsistent query result''"

definition load_customs :: "market \<Rightarrow> uuid \<Rightarrow> (cart_custom \<times> field_row) list result" where
  "load_customs m item =
     map_result (\<lambda>c. then_do (or_throw (find_field (cc_field c) m) missing_relation) (\<lambda>f. Inr (c, f)))
       (filter (\<lambda>c. cc_item c = item) (cart_customs m))"

definition load_line :: "market \<Rightarrow> cart_item \<Rightarrow> cart_line result" where
  "load_line m it =
     then_do (or_throw (find_product (ci_product it) m) missing_relation) (\<lambda>p.
     then_do (case ci_variant it of
                None \<Rightarrow> Inr None
              | Some v \<Rightarrow> map_sum id Some (or_throw (find_variant v m) missing_relation)) (\<lambda>v.
     then_do (load_customs m (ci_id it)) (\<lambda>cs.
     Inr \<lparr>ln_item = it, ln_product = p, ln_variant = v, ln_customs = cs\<rparr>)))"

text \<open>The items of a cart, oldest first.\<close>

definition items_of_cart :: "market \<Rightarrow> uuid \<Rightarrow> cart_item list" where
  "items_of_cart m cart = sort_key ci_created (filter (\<lambda>it. ci_cart it = cart) (cart_items m))"

definition load_cart :: "market \<Rightarrow> uuid \<Rightarrow> cart_line list result" where
  "load_cart m cart = map_result (load_line m) (items_of_cart m cart)"

definition stored_submission :: "cart_custom \<Rightarrow> submission" where
  "stored_submission c = \<lparr>sb_text = cc_text c, sb_file = cc_file c\<rparr>"

definition custom_surcharge :: "cart_custom \<times> field_row \<Rightarrow> paise" where
  "custom_surcharge cf = vd_surcharge (validate_field_shape (snd cf) (stored_submission (fst cf)))"

section \<open>Pricing and views\<close>

datatype unavailable_reason = ProductInactive | VariantUnavailable

record item_pricing =
  ip_unit :: paise
  ip_total :: paise
  ip_available :: bool
  ip_reason :: "unavailable_reason option"
  ip_customs :: "(uuid \<times> string \<times> string option \<times> uuid option \<times> paise) list"

definition compute_item_pricing :: "cart_line \<Rightarrow> item_pricing" where
  "compute_item_pricing l =
     (let base = decimal_to_paise (p_base_price (ln_product l));
          delta = (case ln_variant l of None \<Rightarrow> 0 | Some v \<Rightarrow> decimal_to_paise (va_delta v));
          surcharge = foldl (\<lambda>s c. s + custom_surcharge c) 0 (ln_customs l);
          unit = base + delta + surcharge;
          inactive = \<not> p_active (ln_product l);
          no_variant = (case ln_variant l of None \<Rightarrow> False | Some v \<Rightarrow> \<not> va_available v)
      in \<lparr>ip_unit = unit, ip_total = unit * ci_quantity (ln_item l),
          ip_available = (\<not> inactive \<and> \<not> no_variant),
          ip_reason = (if inactive then Some ProductInactive
                       else if no_variant then Some VariantUnavailable else None),
          ip_customs = map (\<lambda>(c, f). (cc_field c, f_label f, cc_text c, cc_file c, custom_surcharge (c, f)))
            (ln_customs l)\<rparr>)"

record cart_item_view =
  cv_id :: uuid
  cv_product :: uuid
  cv_name :: string
  cv_variant :: "uuid option"
  cv_variant_label :: "string option"
  cv_quantity :: int
  cv_unit_price :: string
  cv_line_total :: string
  cv_available :: bool
  cv_reason :: "unavailable_reason option"
  cv_customs :: "(uuid \<times> string \<times> string option \<times> uuid option \<times> string) list"

definition build_item_view :: "cart_line \<Rightarrow> item_pricing \<Rightarrow> cart_item_view" where
  "build_item_view l p =
     \<lparr>cv_id = ci_id (ln_item l), cv_product = ci_product (ln_item l), cv_name = p_name (ln_product l),
      cv_variant = ci_variant (ln_item l), cv_variant_label = map_option va_label (ln_variant l),
      cv_quantity = ci_quantity (ln_item l),
      cv_unit_price = paise_to_decimal_string (ip_unit p),
      cv_line_total = paise_to_decimal_string (ip_total p),
      cv_available = ip_available p, cv_reason = ip_reason p,
      cv_customs = map (\<lambda>(i, l, t, u, s). (i, l, t, u, paise_to_decimal_string s)) (ip_customs p)\<rparr>"

definition to_cart_item_view :: "cart_line \<Rightarrow> cart_item_view" where
  "to_cart_item_view l = build_item_view l (compute_item_pricing l)"

record cart_view =
  ct_id :: uuid
  ct_items :: "cart_item_view list"
  ct_count :: int
  ct_subtotal :: string

definition cart_subtotal :: "cart_line list \<Rightarrow> paise" where
  "cart_subtotal ls = foldl (\<lambda>s l. s + ip_total (compute_item_pricing l)) 0 ls"

definition to_cart_view :: "uuid \<Rightarrow> cart_line list \<Rightarrow> cart_view" where
  "to_cart_view cart ls =
     \<lparr>ct_id = cart, ct_items = map to_cart_item_view ls,
      ct_count = foldl (\<lambda>s l. s + ci_quantity (ln_item l)) 0 ls,
      ct_subtotal = paise_to_decimal_string (cart_subtotal ls)\<rparr>"

section \<open>Operations\<close>

definition find_cart_of_user :: "uuid \<Rightarrow> market \<Rightarrow> cart_row option" where
  "find_cart_of_user user m = List.find (\<lambda>c. c_user c = user) (carts m)"

text \<open>The upsert: the tenant is used only when the cart is created.\<close>

definition get_or_create_cart :: "uuid \<Rightarrow> uuid \<Rightarrow> market \<Rightarrow> cart_row \<times> market" where
  "get_or_create_cart user tenant m =
     (case find_cart_of_user user m of
        Some c \<Rightarrow> (c, m)
      | None \<Rightarrow>
          (let c = \<lparr>c_id = fresh m, c_user = user, c_tenant = tenant\<rparr>
           in (c, take_ids 1 (m\<lparr>carts := carts m @ [c]\<rparr>))))"

definition get_cart :: "uuid \<Rightarrow> uuid \<Rightarrow> market \<Rightarrow> cart_view result \<times> market" where
  "get_cart user tenant m =
     (let (c, m1) = get_or_create_cart user tenant m
      in (map_sum id (to_cart_view (c_id c)) (load_cart m1 (c_id c)), m1))"

definition get_cart_totals :: "uuid \<Rightarrow> uuid \<Rightarrow> market \<Rightarrow> (string \<times> int) result \<times> market" where
  "get_cart_totals user tenant m =
     (let (v, m1) = get_cart user tenant m
      in (map_sum id (\<lambda>v. (ct_subtotal v, ct_count v)) v, m1))"

definition get_active_product :: "uuid \<Rightarrow> uuid \<Rightarrow> market \<Rightarrow> product_row result" where
  "get_active_product i tenant m =
     then_do (or_throw (List.find (\<lambda>p. p_id p = i \<and> p_tenant p = tenant) (products m))
       (NotFound ''Product not found'')) (\<lambda>p.
     then_do (require (p_active p) (Conflict ''This product is no longer available'')) (\<lambda>_.
     Inr p))"

definition get_active_variant ::
  "product_row \<Rightarrow> uuid option \<Rightarrow> uuid \<Rightarrow> market \<Rightarrow> variant_row option result" where
  "get_active_variant p variant tenant m =
     (case variant of
        None \<Rightarrow> Inr None
      | Some i \<Rightarrow>
          then_do (or_throw (List.find (\<lambda>v. va_id v = i \<and> va_product v = p_id p \<and> va_tenant v = tenant)
              (variants m)) (NotFound ''Variant not found for this product'')) (\<lambda>v.
          then_do (require (va_available v) (Conflict ''This variant is no longer available'')) (\<lambda>_.
          Inr (Some v))))"

definition platform_default_max_quantity :: int where
  "platform_default_max_quantity = 1000"

definition max_quantity_of :: "product_row \<Rightarrow> int" where
  "max_quantity_of p = (case p_max p of None \<Rightarrow> platform_default_max_quantity | Some n \<Rightarrow> n)"

definition quantity_in_bounds :: "product_row \<Rightarrow> int \<Rightarrow> bool" where
  "quantity_in_bounds p q \<longleftrightarrow> \<not> (q < p_min p \<or> q > max_quantity_of p)"

definition assert_quantity_in_bounds :: "product_row \<Rightarrow> int \<Rightarrow> unit result" where
  "assert_quantity_in_bounds p q =
     require (quantity_in_bounds p q)
       (BadRequest (''Quantity must be between '' @ int_text (p_min p) @ '' and '' @
          int_text (max_quantity_of p) @ '' for this product''))"

text \<open>A submitted value with the field it names.\<close>

type_synonym custom_dto = "uuid \<times> submission"

definition submission_for :: "field_row \<Rightarrow> custom_dto list \<Rightarrow> submission" where
  "submission_for f cs =
     (case List.find (\<lambda>c. fst c = f_id f) cs of
        None \<Rightarrow> \<lparr>sb_text = None, sb_file = None\<rparr> | Some c \<Rightarrow> snd c)"

definition validate_customizations_for_write ::
  "(rat \<Rightarrow> string) \<Rightarrow> uuid \<Rightarrow> custom_dto list \<Rightarrow> uuid \<Rightarrow> uuid \<Rightarrow> market \<Rightarrow> unit result" where
  "validate_customizations_for_write num product cs user tenant m =
     (let fs = filter (\<lambda>f. f_product f = product \<and> f_tenant f = tenant) (custom_fields m) in
      then_do (each (\<lambda>c. require (fst c \<in> set (map f_id fs))
          (BadRequest (''Unknown customization field for this product: '' @ nat_text (fst c)))) cs) (\<lambda>_.
      each (\<lambda>f. case vd_error (validate_field num f (submission_for f cs) user (Some tenant) m) of
                 None \<Rightarrow> Inr () | Some e \<Rightarrow> Inl (BadRequest e)) fs))"

record add_item_dto =
  ad_product :: uuid
  ad_variant :: "uuid option"
  ad_quantity :: int
  ad_customs :: "custom_dto list"

text \<open>The transaction: the item, then its customization rows with fresh ids.\<close>

definition custom_rows :: "uuid \<Rightarrow> uuid \<Rightarrow> uuid \<Rightarrow> custom_dto list \<Rightarrow> cart_custom list" where
  "custom_rows first item tenant cs =
     map (\<lambda>(n, c). \<lparr>cc_id = first + n, cc_item = item, cc_field = fst c, cc_text = sb_text (snd c),
        cc_file = sb_file (snd c), cc_tenant = tenant\<rparr>) (enumerate 0 cs)"

definition new_cart_item :: "cart_row \<Rightarrow> product_row \<Rightarrow> variant_row option \<Rightarrow> int \<Rightarrow> instant \<Rightarrow> market
    \<Rightarrow> cart_item" where
  "new_cart_item c p v quantity now m =
     \<lparr>ci_id = fresh m, ci_cart = c_id c, ci_product = p_id p, ci_variant = map_option va_id v,
      ci_quantity = quantity, ci_tenant = c_tenant c, ci_created = now\<rparr>"

definition insert_item_tx ::
  "cart_row \<Rightarrow> product_row \<Rightarrow> variant_row option \<Rightarrow> add_item_dto \<Rightarrow> instant
     \<Rightarrow> (market, cart_item_view) tx" where
  "insert_item_tx c p v dto now m =
     (let it = new_cart_item c p v (ad_quantity dto) now m;
          m1 = take_ids (1 + length (ad_customs dto))
            (m\<lparr>cart_items := cart_items m @ [it],
               cart_customs := cart_customs m @
                 custom_rows (Suc (fresh m)) (ci_id it) (ci_tenant it) (ad_customs dto)\<rparr>)
      in map_sum id (\<lambda>l. (to_cart_item_view l, m1)) (load_line m1 it))"

definition check_add_item ::
  "(rat \<Rightarrow> string) \<Rightarrow> uuid \<Rightarrow> uuid \<Rightarrow> bool \<Rightarrow> add_item_dto \<Rightarrow> cart_row \<Rightarrow> market
     \<Rightarrow> (product_row \<times> variant_row option) result" where
  "check_add_item num user tenant in_resolved_tenant dto c m =
     then_do (require (\<not> (in_resolved_tenant \<and> c_tenant c \<noteq> tenant)) (NotFound ''Product not found'')) (\<lambda>_.
     then_do (get_active_product (ad_product dto) (c_tenant c) m) (\<lambda>p.
     then_do (get_active_variant p (ad_variant dto) (c_tenant c) m) (\<lambda>v.
     then_do (assert_quantity_in_bounds p (ad_quantity dto)) (\<lambda>_.
     then_do (validate_customizations_for_write num (p_id p) (ad_customs dto) user (c_tenant c) m) (\<lambda>_.
     Inr (p, v))))))"

definition add_item ::
  "(rat \<Rightarrow> string) \<Rightarrow> uuid \<Rightarrow> uuid \<Rightarrow> bool \<Rightarrow> add_item_dto \<Rightarrow> instant \<Rightarrow> market
     \<Rightarrow> cart_item_view result \<times> market" where
  "add_item num user tenant in_resolved_tenant dto now m =
     (let (c, m1) = get_or_create_cart user tenant m in
      case check_add_item num user tenant in_resolved_tenant dto c m1 of
        Inl e \<Rightarrow> (Inl e, m1)
      | Inr (p, v) \<Rightarrow> run_tx (insert_item_tx c p v dto now) m1)"

definition get_owned_item :: "uuid \<Rightarrow> cart_row \<Rightarrow> market \<Rightarrow> cart_item result" where
  "get_owned_item i c m =
     (case List.find (\<lambda>it. ci_id it = i) (cart_items m) of
        None \<Rightarrow> Inl (NotFound ''Cart item not found'')
      | Some it \<Rightarrow> if ci_cart it \<noteq> c_id c then Inl (NotFound ''Cart item not found'') else Inr it)"

abbreviation not_found_error :: err where
  "not_found_error \<equiv> Thrown ''No record was found''"

definition check_update_item :: "uuid \<Rightarrow> int \<Rightarrow> cart_row \<Rightarrow> market \<Rightarrow> unit result" where
  "check_update_item i quantity c m =
     then_do (get_owned_item i c m) (\<lambda>it.
     then_do (or_throw (find_product (ci_product it) m) not_found_error) (\<lambda>p.
     then_do (require (p_active p)
       (Conflict ''This product is no longer available - remove it from your cart'')) (\<lambda>_.
     then_do (case ci_variant it of
        None \<Rightarrow> Inr ()
      | Some i \<Rightarrow>
          then_do (or_throw (find_variant i m) not_found_error) (\<lambda>v.
          require (va_available v)
            (Conflict ''This variant is no longer available - remove it from your cart''))) (\<lambda>_.
     assert_quantity_in_bounds p quantity))))"

definition set_quantity_tx :: "uuid \<Rightarrow> int \<Rightarrow> (market, cart_item_view) tx" where
  "set_quantity_tx i quantity m =
     (let m1 = m\<lparr>cart_items :=
            update_rows (\<lambda>it. ci_id it = i) (\<lambda>it. it\<lparr>ci_quantity := quantity\<rparr>) (cart_items m)\<rparr>
      in case List.find (\<lambda>it. ci_id it = i) (cart_items m1) of
           None \<Rightarrow> Inl not_found_error
         | Some it \<Rightarrow> map_sum id (\<lambda>l. (to_cart_item_view l, m1)) (load_line m1 it))"

definition update_item ::
  "uuid \<Rightarrow> uuid \<Rightarrow> uuid \<Rightarrow> int \<Rightarrow> market \<Rightarrow> cart_item_view result \<times> market" where
  "update_item user tenant i quantity m =
     (let (c, m1) = get_or_create_cart user tenant m in
      case check_update_item i quantity c m1 of
        Inl e \<Rightarrow> (Inl e, m1)
      | Inr _ \<Rightarrow> run_tx (set_quantity_tx i quantity) m1)"

definition delete_items :: "(cart_item \<Rightarrow> bool) \<Rightarrow> market \<Rightarrow> market" where
  "delete_items p m =
     (let ids = map ci_id (filter p (cart_items m))
      in m\<lparr>cart_customs := filter (\<lambda>c. cc_item c \<notin> set ids) (cart_customs m),
           cart_items := filter (\<lambda>it. ci_id it \<notin> set ids) (cart_items m)\<rparr>)"

definition remove_item :: "uuid \<Rightarrow> uuid \<Rightarrow> uuid \<Rightarrow> market \<Rightarrow> unit result \<times> market" where
  "remove_item user tenant i m =
     (let (c, m1) = get_or_create_cart user tenant m in
      case get_owned_item i c m1 of
        Inl e \<Rightarrow> (Inl e, m1)
      | Inr _ \<Rightarrow> (Inr (), delete_items (\<lambda>it. ci_id it = i) m1))"

end
