(* ===== verification/Coupons.thy ===== *)
theory Coupons
  imports Market
begin

text \<open>
  \<open>coupons/coupons.service.ts\<close>: the admin operations, the checks of a code at checkout, the
  discount, the atomic claim of a use and the ledger of uses.
\<close>

section \<open>Discounts\<close>

record coupon_line =
  cl_category :: uuid
  cl_total :: paise

record coupon_params =
  cp_code :: string
  cp_user :: uuid
  cp_subtotal :: paise
  cp_shipping :: paise
  cp_lines :: "coupon_line list"
  cp_tenant :: uuid

text \<open>\<open>bigint\<close> division truncates toward zero.\<close>

definition bigint_div :: "int \<Rightarrow> int \<Rightarrow> int" where
  "bigint_div a b = sgn a * sgn b * (\<bar>a\<bar> div \<bar>b\<bar>)"

text \<open>The discount and the shipping fee that remains.\<close>

definition compute_discount :: "coupon \<Rightarrow> paise \<Rightarrow> paise \<Rightarrow> paise \<times> paise" where
  "compute_discount k scoped shipping =
     (case k_type k of
        Percentage \<Rightarrow>
          (bigint_div (scoped * (case k_percent k of None \<Rightarrow> 0 | Some p \<Rightarrow> p)) 100, shipping)
      | FlatAmount \<Rightarrow>
          (let flat = decimal_to_paise (case k_flat k of None \<Rightarrow> Dec 0 0 | Some d \<Rightarrow> d)
           in (if flat < scoped then flat else scoped, shipping))
      | FreeShipping \<Rightarrow> (0, 0))"

definition scoped_subtotal :: "coupon \<Rightarrow> coupon_params \<Rightarrow> paise" where
  "scoped_subtotal k ps =
     (case k_scope k of
        CategoryScope \<Rightarrow>
          foldl (\<lambda>s l. s + cl_total l) 0 (filter (\<lambda>l. Some (cl_category l) = k_category k) (cp_lines ps))
      | StoreWide \<Rightarrow> cp_subtotal ps)"

section \<open>The checks of a code\<close>

definition normalized_code :: "string \<Rightarrow> string" where
  "normalized_code code = to_upper (js_trim code)"

definition find_coupon_by_code :: "string \<Rightarrow> uuid \<Rightarrow> market \<Rightarrow> coupon option" where
  "find_coupon_by_code code tenant m =
     List.find (\<lambda>k. k_code k = code \<and> k_tenant k = tenant) (coupons m)"

definition coupon_refusal :: "coupon \<Rightarrow> coupon_params \<Rightarrow> instant \<Rightarrow> market \<Rightarrow> unit result" where
  "coupon_refusal k ps now m =
     (let scoped = scoped_subtotal k ps in
      then_do (require (k_active k) (BadRequest ''This coupon is no longer active'')) (\<lambda>_.
      then_do (require (case k_starts k of None \<Rightarrow> True | Some t \<Rightarrow> \<not> now < t)
        (BadRequest ''This coupon is not active yet'')) (\<lambda>_.
      then_do (require (case k_expires k of None \<Rightarrow> True | Some t \<Rightarrow> \<not> now > t)
        (BadRequest ''This coupon has expired'')) (\<lambda>_.
      then_do (require (\<not> (k_scope k = CategoryScope \<and> scoped = 0))
        (BadRequest ''This coupon does not apply to any items in your cart'')) (\<lambda>_.
      then_do (case k_min_order k of
          None \<Rightarrow> Inr ()
        | Some d \<Rightarrow> require (\<not> scoped < decimal_to_paise d)
            (BadRequest (''This coupon requires a minimum order of '' @
               paise_to_decimal_string (decimal_to_paise d)))) (\<lambda>_.
      then_do (require (\<not> (k_first_only k \<and> 0 < hits (\<lambda>r. o_user r = cp_user ps) (orders (mk_shop m))))
        (BadRequest ''This coupon is only valid on your first order'')) (\<lambda>_.
      (case k_limit_user k of
          None \<Rightarrow> Inr ()
        | Some n \<Rightarrow> require
            (\<not> int (hits (\<lambda>u. ku_coupon u = k_id k \<and> ku_user u = cp_user ps) (coupon_usages m)) \<ge> n)
            (BadRequest ''You have already used this coupon the maximum number of times'')))))))))"

definition validate_coupon_core ::
  "coupon_params \<Rightarrow> instant \<Rightarrow> market \<Rightarrow> (coupon \<times> paise) result" where
  "validate_coupon_core ps now m =
     then_do (or_throw (find_coupon_by_code (normalized_code (cp_code ps)) (cp_tenant ps) m)
       (BadRequest ''This coupon code is not valid'')) (\<lambda>k.
     then_do (coupon_refusal k ps now m) (\<lambda>_.
     Inr (k, scoped_subtotal k ps)))"

text \<open>Code, discount and remaining shipping fee.\<close>

definition preview_discount ::
  "coupon_params \<Rightarrow> instant \<Rightarrow> market \<Rightarrow> (string \<times> paise \<times> paise) result" where
  "preview_discount ps now m =
     then_do (validate_coupon_core ps now m) (\<lambda>(k, scoped).
     Inr (k_code k, compute_discount k scoped (cp_shipping ps)))"

text \<open>The conditional increment: how many rows it hit decides.\<close>

definition claim_hit :: "uuid \<Rightarrow> coupon \<Rightarrow> bool" where
  "claim_hit i k \<longleftrightarrow> k_id k = i \<and> (case k_limit_total k of None \<Rightarrow> True | Some n \<Rightarrow> k_used k < n)"

definition claim_use :: "uuid \<Rightarrow> coupon list \<Rightarrow> coupon list" where
  "claim_use i ks = update_rows (claim_hit i) (\<lambda>k. k\<lparr>k_used := k_used k + 1\<rparr>) ks"

record coupon_claim =
  kc_coupon :: coupon
  kc_discount :: paise
  kc_shipping :: paise

definition validate_and_claim ::
  "coupon_params \<Rightarrow> instant \<Rightarrow> (market, coupon_claim) tx" where
  "validate_and_claim ps now m =
     then_do (validate_coupon_core ps now m) (\<lambda>(k, scoped).
     then_do (require (hits (claim_hit (k_id k)) (coupons m) \<noteq> 0)
       (Conflict ''This coupon just reached its usage limit - try again without it, or with a different code''))
     (\<lambda>_.
     let (discount, shipping) = compute_discount k scoped (cp_shipping ps)
     in Inr (\<lparr>kc_coupon = k, kc_discount = discount, kc_shipping = shipping\<rparr>,
             m\<lparr>coupons := claim_use (k_id k) (coupons m)\<rparr>)))"

text \<open>The ledger row; \<open>orderId\<close> is unique.\<close>

definition record_usage ::
  "uuid \<Rightarrow> uuid \<Rightarrow> uuid \<Rightarrow> paise \<Rightarrow> uuid \<Rightarrow> market \<Rightarrow> market result" where
  "record_usage k user order discount tenant m =
     then_do (require (order \<notin> set (map ku_order (coupon_usages m))) UniqueViolation) (\<lambda>_.
     Inr (m\<lparr>coupon_usages := coupon_usages m @
       [\<lparr>ku_coupon = k, ku_user = user, ku_order = order, ku_discount = money_column discount,
         ku_tenant = tenant\<rparr>]\<rparr>))"

section \<open>Administration\<close>

record coupon_view =
  kv_id :: uuid
  kv_code :: string
  kv_type :: coupon_type
  kv_percent :: "int option"
  kv_flat :: "string option"
  kv_scope :: coupon_scope
  kv_category :: "uuid option"
  kv_min_order :: "string option"
  kv_limit_total :: "int option"
  kv_limit_user :: "int option"
  kv_used :: int
  kv_first_only :: bool
  kv_starts :: "instant option"
  kv_expires :: "instant option"
  kv_active :: bool
  kv_description :: "string option"
  kv_admin :: uuid

definition to_coupon_view :: "coupon \<Rightarrow> coupon_view" where
  "to_coupon_view k =
     \<lparr>kv_id = k_id k, kv_code = k_code k, kv_type = k_type k, kv_percent = k_percent k,
      kv_flat = map_option money_view (k_flat k), kv_scope = k_scope k, kv_category = k_category k,
      kv_min_order = map_option money_view (k_min_order k), kv_limit_total = k_limit_total k,
      kv_limit_user = k_limit_user k, kv_used = k_used k, kv_first_only = k_first_only k,
      kv_starts = k_starts k, kv_expires = k_expires k, kv_active = k_active k,
      kv_description = k_description k, kv_admin = k_admin k\<rparr>"

definition coupon_where :: "uuid \<Rightarrow> bool option \<Rightarrow> coupon_type option \<Rightarrow> coupon \<Rightarrow> bool" where
  "coupon_where tenant active type k \<longleftrightarrow> k_tenant k = tenant \<and>
     (case active of None \<Rightarrow> True | Some a \<Rightarrow> k_active k = a) \<and>
     (case type of None \<Rightarrow> True | Some t \<Rightarrow> k_type k = t)"

definition list_coupons ::
  "tenant_context \<Rightarrow> bool option \<Rightarrow> coupon_type option \<Rightarrow> nat \<Rightarrow> nat \<Rightarrow> market
     \<Rightarrow> coupon_view list \<times> page_meta" where
  "list_coupons ctx active type page limit m =
     (let matching = sort_key (\<lambda>k. - k_created k)
            (filter (coupon_where (tc_tenant ctx) active type) (coupons m));
          n = length matching
      in (map to_coupon_view (page_slice page limit matching),
          \<lparr>pm_page = page, pm_limit = limit, pm_total = n, pm_total_pages = total_pages limit n\<rparr>))"

definition find_coupon :: "uuid \<Rightarrow> market \<Rightarrow> coupon option" where
  "find_coupon i m = List.find (\<lambda>k. k_id k = i) (coupons m)"

definition get_coupon :: "tenant_context \<Rightarrow> uuid \<Rightarrow> market \<Rightarrow> coupon_view result" where
  "get_coupon ctx i m =
     then_do (or_throw (find_coupon i m) (NotFound ''Coupon not found'')) (\<lambda>k.
     then_do (assert_object_in_tenant (Some (k_tenant k)) (tc_tenant ctx)) (\<lambda>_.
     Inr (to_coupon_view k)))"

record create_coupon_dto =
  kd_code :: string
  kd_type :: coupon_type
  kd_percent :: "int option"
  kd_flat :: "decimal option"
  kd_scope :: coupon_scope
  kd_category :: "uuid option"
  kd_min_order :: "decimal option"
  kd_limit_total :: "int option"
  kd_limit_user :: "int option"
  kd_first_only :: "bool option"
  kd_starts :: "instant option"
  kd_expires :: "instant option"
  kd_description :: "string option"

definition assert_type_fields_consistent :: "create_coupon_dto \<Rightarrow> unit result" where
  "assert_type_fields_consistent d =
     (case kd_type d of
        Percentage \<Rightarrow>
          then_do (require (kd_percent d \<noteq> None)
            (BadRequest ''percentageOff is required for a PERCENTAGE coupon'')) (\<lambda>_.
          require (kd_flat d = None)
            (BadRequest ''flatAmountOff must not be set for a PERCENTAGE coupon''))
      | FlatAmount \<Rightarrow>
          then_do (require (kd_flat d \<noteq> None)
            (BadRequest ''flatAmountOff is required for a FLAT_AMOUNT coupon'')) (\<lambda>_.
          require (kd_percent d = None)
            (BadRequest ''percentageOff must not be set for a FLAT_AMOUNT coupon''))
      | FreeShipping \<Rightarrow>
          require (kd_percent d = None \<and> kd_flat d = None)
            (BadRequest ''percentageOff/flatAmountOff must not be set for a FREE_SHIPPING coupon''))"

definition assert_scope_fields_consistent ::
  "tenant_context \<Rightarrow> create_coupon_dto \<Rightarrow> market \<Rightarrow> unit result" where
  "assert_scope_fields_consistent ctx d m =
     (case kd_scope d of
        CategoryScope \<Rightarrow>
          then_do (or_throw (kd_category d)
            (BadRequest ''categoryId is required for a CATEGORY-scoped coupon'')) (\<lambda>i.
          then_do (or_throw (find_category i m)
            (BadRequest ''categoryId does not reference an existing category'')) (\<lambda>c.
          require (cg_tenant c = tc_tenant ctx)
            (BadRequest ''categoryId does not reference an existing category'')))
      | StoreWide \<Rightarrow>
          require (kd_category d = None) (BadRequest ''categoryId must not be set for a STORE_WIDE coupon''))"

text \<open>The unique index \<open>(storeId, code)\<close>: rows without a store never conflict.\<close>

definition coupon_codes_unique :: "coupon list \<Rightarrow> bool" where
  "coupon_codes_unique ks \<longleftrightarrow>
     distinct (map (\<lambda>k. (k_store k, k_code k)) (filter (\<lambda>k. k_store k \<noteq> None) ks))"

text \<open>
  The composite foreign key \<open>(storeId, categoryId)\<close>: a coupon with a store and a category
  needs the category's row to carry that store.
\<close>

definition coupon_category_ok :: "coupon \<Rightarrow> market \<Rightarrow> bool" where
  "coupon_category_ok k m =
     (case (k_store k, k_category k) of
        (Some s, Some c) \<Rightarrow> list_ex (\<lambda>r. cg_id r = c \<and> cg_store r = Some s) (categories m)
      | _ \<Rightarrow> True)"

abbreviation foreign_key_error :: err where
  "foreign_key_error \<equiv> Thrown ''Foreign key constraint violated''"

definition new_coupon ::
  "tenant_context \<Rightarrow> uuid \<Rightarrow> uuid \<Rightarrow> create_coupon_dto \<Rightarrow> instant \<Rightarrow> uuid \<Rightarrow> coupon" where
  "new_coupon ctx actor store d now i =
     \<lparr>k_id = i, k_code = normalized_code (kd_code d), k_type = kd_type d,
      k_percent = (if kd_type d = Percentage then kd_percent d else None),
      k_flat = (if kd_type d = FlatAmount then kd_flat d else None),
      k_scope = kd_scope d,
      k_category = (if kd_scope d = CategoryScope then kd_category d else None),
      k_min_order = kd_min_order d, k_limit_total = kd_limit_total d,
      k_limit_user = Some (case kd_limit_user d of None \<Rightarrow> 1 | Some n \<Rightarrow> n), k_used = 0,
      k_first_only = (case kd_first_only d of None \<Rightarrow> False | Some b \<Rightarrow> b),
      k_starts = kd_starts d, k_expires = kd_expires d, k_active = True,
      k_description = kd_description d, k_admin = actor, k_tenant = tc_tenant ctx,
      k_store = Some store, k_created = now\<rparr>"

definition create_coupon ::
  "tenant_context \<Rightarrow> uuid \<Rightarrow> create_coupon_dto \<Rightarrow> instant \<Rightarrow> (market, coupon_view) tx" where
  "create_coupon ctx actor d now m =
     then_do (assert_type_fields_consistent d) (\<lambda>_.
     then_do (assert_scope_fields_consistent ctx d m) (\<lambda>_.
     then_do (primary_store_id_of (tc_tenant ctx) m) (\<lambda>store.
     let k = new_coupon ctx actor store d now (fresh m)
     in then_do (require (coupon_codes_unique (coupons m @ [k]))
          (Conflict ''A coupon with this code already exists'')) (\<lambda>_.
        then_do (require (coupon_category_ok k m) foreign_key_error) (\<lambda>_.
        Inr (to_coupon_view k,
          audit ctx actor ''coupon.create'' (k_id k)
            (take_ids 1 (m\<lparr>coupons := coupons m @ [k]\<rparr>))))))))"

text \<open>An update sets the fields that are given; prices and codes are not among them.\<close>

record update_coupon_dto =
  ku_min_order :: "decimal option"
  ku_limit_total :: "int option"
  ku_limit_user :: "int option"
  ku_first_only :: "bool option"
  ku_starts :: "instant option"
  ku_expires :: "instant option"
  ku_active :: "bool option"
  ku_description :: "string option"

definition given_or :: "'a option \<Rightarrow> 'a \<Rightarrow> 'a" where
  "given_or x old = (case x of None \<Rightarrow> old | Some y \<Rightarrow> y)"

definition given_or_null :: "'a option \<Rightarrow> 'a option \<Rightarrow> 'a option" where
  "given_or_null x old = (case x of None \<Rightarrow> old | Some y \<Rightarrow> Some y)"

definition apply_coupon_update :: "update_coupon_dto \<Rightarrow> coupon \<Rightarrow> coupon" where
  "apply_coupon_update d k =
     k\<lparr>k_min_order := given_or_null (ku_min_order d) (k_min_order k),
       k_limit_total := given_or_null (ku_limit_total d) (k_limit_total k),
       k_limit_user := given_or_null (ku_limit_user d) (k_limit_user k),
       k_first_only := given_or (ku_first_only d) (k_first_only k),
       k_starts := given_or_null (ku_starts d) (k_starts k),
       k_expires := given_or_null (ku_expires d) (k_expires k),
       k_active := given_or (ku_active d) (k_active k),
       k_description := given_or_null (ku_description d) (k_description k)\<rparr>"

definition update_coupon ::
  "tenant_context \<Rightarrow> uuid \<Rightarrow> uuid \<Rightarrow> update_coupon_dto \<Rightarrow> (market, coupon_view) tx" where
  "update_coupon ctx actor i d m =
     then_do (or_throw (find_coupon i m) (NotFound ''Coupon not found'')) (\<lambda>k.
     then_do (assert_object_in_tenant (Some (k_tenant k)) (tc_tenant ctx)) (\<lambda>_.
     Inr (to_coupon_view (apply_coupon_update d k),
       audit ctx actor ''coupon.update'' i
         (m\<lparr>coupons := update_rows (\<lambda>k. k_id k = i) (apply_coupon_update d) (coupons m)\<rparr>))))"

section \<open>Facts\<close>

lemma normalized_code_idem [simp]: "normalized_code (normalized_code c) = normalized_code c"
  by (simp add: normalized_code_def js_trim_to_upper)

text \<open>The codes that the service stores are found again whatever their case and surrounding
  space.\<close>

definition percent_ok :: "coupon \<Rightarrow> bool" where
  "percent_ok k \<longleftrightarrow>
     (case k_percent k of None \<Rightarrow> True | Some p \<Rightarrow> 0 \<le> p \<and> p \<le> 100) \<and>
     (case k_flat k of None \<Rightarrow> True | Some d \<Rightarrow> 0 \<le> decimal_to_paise d)"

lemma decimal_to_paise_zero [simp]: "decimal_to_paise (Dec 0 n) = 0"
  by (simp add: decimal_to_paise_def dec_times_def to_places_def round_half_up_def)

lemma bigint_div_nonneg: "0 \<le> a \<Longrightarrow> 0 < b \<Longrightarrow> bigint_div a b = a div b"
  by (cases "a = 0") (simp_all add: bigint_div_def)

text \<open>A discount takes between nothing and everything of what it applies to.\<close>

lemma discount_bounds:
  assumes "percent_ok k" and "0 \<le> scoped"
  shows "0 \<le> fst (compute_discount k scoped shipping)" and
    "fst (compute_discount k scoped shipping) \<le> scoped"
proof -
  have pct: "0 \<le> scoped * p \<and> scoped * p div 100 \<le> scoped" if p: "0 \<le> p" "p \<le> 100" for p
  proof -
    have "scoped * p \<le> scoped * 100" using p assms(2) by (intro mult_left_mono) auto
    then have "scoped * p div 100 \<le> scoped * 100 div 100" by (intro zdiv_mono1) auto
    then show ?thesis using p assms(2) by simp
  qed
  show "0 \<le> fst (compute_discount k scoped shipping)"
    using assms pct
    by (auto simp: compute_discount_def percent_ok_def bigint_div_nonneg Let_def
        pos_imp_zdiv_nonneg_iff split: coupon_type.splits option.splits)
  show "fst (compute_discount k scoped shipping) \<le> scoped"
    using assms pct
    by (auto simp: compute_discount_def percent_ok_def bigint_div_nonneg Let_def
        split: coupon_type.splits option.splits)
qed

lemma discount_shipping: "snd (compute_discount k scoped shipping) \<in> {0, shipping}"
  by (auto simp: compute_discount_def Let_def split: coupon_type.split)

lemma scoped_subtotal_bounds:
  assumes "\<And>l. l \<in> set (cp_lines ps) \<Longrightarrow> 0 \<le> cl_total l"
    and "cp_subtotal ps = sum_list (map cl_total (cp_lines ps))"
  shows "0 \<le> scoped_subtotal k ps" and "scoped_subtotal k ps \<le> cp_subtotal ps"
proof -
  have fold: "foldl (\<lambda>s l. s + cl_total l) a ls = a + sum_list (map cl_total ls)" for a ls
    by (induction ls arbitrary: a) auto
  have part: "0 \<le> sum_list (map cl_total (filter p ls)) \<and>
      sum_list (map cl_total (filter p ls)) \<le> sum_list (map cl_total ls)"
    if "\<forall>l \<in> set ls. 0 \<le> cl_total l" for p ls
    using that by (induction ls) auto
  have whole: "0 \<le> sum_list (map cl_total (cp_lines ps))"
    using assms(1) by (intro sum_list_nonneg) auto
  show "0 \<le> scoped_subtotal k ps" "scoped_subtotal k ps \<le> cp_subtotal ps"
    using part [of "cp_lines ps" "\<lambda>l. Some (cl_category l) = k_category k"] assms whole
    by (auto simp: scoped_subtotal_def fold split: coupon_scope.split)
qed

lemma claim_use_ids [simp]: "map k_id (claim_use i ks) = map k_id ks"
  by (simp add: claim_use_def map_update_rows)

end
