(* ===== verification/Checkout.thy ===== *)
theory Checkout
  imports Carts Coupons
begin

text \<open>
  \<open>checkout/checkout.service.ts\<close>: the transaction that turns a cart into an order, and the
  preview. It joins the cart, the coupon, the tax, the order number, the quota of the billing
  period and the idempotency key; all of its writes commit together or not at all.
\<close>

section \<open>The steps\<close>

definition checkout_endpoint :: string where
  "checkout_endpoint = ''POST /checkout/orders''"

definition shipping_fee_key :: string where
  "shipping_fee_key = ''shippingFeeFlat''"

text \<open>The setting's text is read by the library's parser; a value that is not finite makes
  \<open>BigInt\<close> throw.\<close>

definition signed :: "bool \<Rightarrow> decimal \<Rightarrow> decimal" where
  "signed negative d = (if negative then Dec (- coeff d) (places d) else d)"

definition get_shipping_fee_paise :: "decimal_lib \<Rightarrow> uuid \<Rightarrow> market \<Rightarrow> paise result" where
  "get_shipping_fee_paise lib store m =
     (case store_settings m store shipping_fee_key of
        None \<Rightarrow> Inr 0
      | Some v \<Rightarrow>
          (case parse_decimal lib v of
             None \<Rightarrow> Inl (Thrown ''Invalid decimal'')
           | Some NonFinite \<Rightarrow> Inl (Thrown ''Cannot convert to a BigInt'')
           | Some (Finite negative d) \<Rightarrow> Inr (decimal_to_paise (signed negative d))))"

definition line_checkoutable :: "cart_line \<Rightarrow> unit result" where
  "line_checkoutable l =
     (let p = ln_product l; q = ci_quantity (ln_item l) in
      then_do (require (p_active p)
        (Conflict (quoted (p_name p) @ '' is no longer available - remove it from your cart before checking out'')))
      (\<lambda>_.
      then_do (require (case ln_variant l of None \<Rightarrow> True | Some v \<Rightarrow> va_available v)
        (Conflict (''The selected option for '' @ quoted (p_name p) @
          '' is no longer available - remove it from your cart before checking out''))) (\<lambda>_.
      then_do (require (quantity_in_bounds p q)
        (BadRequest (''Quantity for '' @ quoted (p_name p) @ '' is no longer valid (must be between '' @
          int_text (p_min p) @ '' and '' @ int_text (max_quantity_of p) @ '')''))) (\<lambda>_.
      each (\<lambda>(c, f). case vd_error (validate_field_shape f (stored_submission c)) of
                       None \<Rightarrow> Inr () | Some e \<Rightarrow> Inl (BadRequest e)) (ln_customs l)))))"

definition assert_items_checkoutable :: "cart_line list \<Rightarrow> unit result" where
  "assert_items_checkoutable = each line_checkoutable"

definition price_item :: "cart_line \<Rightarrow> line_pricing" where
  "price_item l =
     compute_line
       \<lparr>base_price_paise = decimal_to_paise (p_base_price (ln_product l)),
        variant_delta_paise = (case ln_variant l of None \<Rightarrow> 0 | Some v \<Rightarrow> decimal_to_paise (va_delta v)),
        surcharge_paise = foldl (\<lambda>s c. s + custom_surcharge c) 0 (ln_customs l),
        line_quantity = ci_quantity (ln_item l)\<rparr>"

text \<open>The amounts of an order, in paise, with the tax split of \<open>applyTax\<close>.\<close>

record order_amounts =
  am_subtotal :: paise
  am_discount :: paise
  am_shipping :: paise
  am_tax :: tax_computation
  am_total :: paise

definition order_amounts_of ::
  "decimal_lib \<Rightarrow> tax_config \<Rightarrow> paise \<Rightarrow> paise \<Rightarrow> paise \<Rightarrow> order_amounts result" where
  "order_amounts_of lib cfg subtotal discount shipping =
     then_do (compute_tax lib (subtotal - discount) cfg) (\<lambda>tax.
     Inr \<lparr>am_subtotal = subtotal, am_discount = discount, am_shipping = shipping, am_tax = tax,
          am_total = compute_order_total subtotal shipping (Some discount) (Some (tax_to_add tax))\<rparr>)"

definition coupon_params_of ::
  "string \<Rightarrow> uuid \<Rightarrow> uuid \<Rightarrow> paise \<Rightarrow> paise \<Rightarrow> cart_line list \<Rightarrow> coupon_params" where
  "coupon_params_of code user tenant subtotal shipping ls =
     \<lparr>cp_code = code, cp_user = user, cp_subtotal = subtotal, cp_shipping = shipping,
      cp_lines = map (\<lambda>l. \<lparr>cl_category = p_category (ln_product l),
        cl_total = line_total_paise (price_item l)\<rparr>) ls,
      cp_tenant = tenant\<rparr>"

record checkout_dto =
  co_shipping :: shipping_snapshot
  co_coupon :: "string option"

text \<open>The coupon step: nothing is claimed when the request names no coupon (an empty code is
  no code).\<close>

definition given_code :: "string option \<Rightarrow> string option" where
  "given_code c = (if c = Some '''' then None else c)"

definition claim_coupon ::
  "checkout_dto \<Rightarrow> uuid \<Rightarrow> uuid \<Rightarrow> paise \<Rightarrow> paise \<Rightarrow> cart_line list \<Rightarrow> instant
     \<Rightarrow> (market, coupon option \<times> paise \<times> paise) tx" where
  "claim_coupon dto user tenant subtotal shipping ls now m =
     (case given_code (co_coupon dto) of
        None \<Rightarrow> Inr ((None, 0, shipping), m)
      | Some code \<Rightarrow>
          then_do (validate_and_claim (coupon_params_of code user tenant subtotal shipping ls) now m)
            (\<lambda>(c, m1). Inr ((Some (kc_coupon c), kc_discount c, kc_shipping c), m1)))"

section \<open>The order and its rows\<close>

text \<open>The foreign key \<open>(storeId, couponId)\<close> of the order.\<close>

definition new_order ::
  "uuid \<Rightarrow> uuid \<Rightarrow> uuid \<Rightarrow> string \<Rightarrow> order_amounts \<Rightarrow> coupon option \<Rightarrow> shipping_snapshot \<Rightarrow> instant
     \<Rightarrow> order_row" where
  "new_order user tenant store number a k ship now =
     \<lparr>o_id = 0, o_number = number, o_user = user, o_status = PendingPayment,
      o_subtotal = money_column (am_subtotal a), o_shipping_fee = money_column (am_shipping a),
      o_total = money_column (am_total a), o_discount = money_column (am_discount a),
      o_tax_mode = computed_mode (am_tax a),
      o_taxable = money_column (taxable_amount_paise (am_tax a)),
      o_tax = money_column (tax_amount_paise (am_tax a)),
      o_tax_rate = tax_rate_snapshot (am_tax a),
      o_coupon = map_option k_id k, o_coupon_code = map_option k_code k,
      o_currency = ''INR'', o_razorpay = None, o_account = None, o_tenant = tenant,
      o_store = Some store, o_shipping = ship, o_created = now\<rparr>"

definition order_item_of :: "uuid \<Rightarrow> uuid \<Rightarrow> uuid \<Rightarrow> cart_line \<Rightarrow> order_item" where
  "order_item_of i order tenant l =
     \<lparr>i_id = i, i_order = order, i_product = ci_product (ln_item l), i_name = p_name (ln_product l),
      i_variant_label = map_option va_label (ln_variant l),
      i_unit_price = money_column (unit_price_paise (price_item l)),
      i_quantity = ci_quantity (ln_item l),
      i_line_total = money_column (line_total_paise (price_item l)),
      i_customizations = map (\<lambda>(c, f). (f_label f, cc_text c, cc_file c)) (ln_customs l),
      i_tenant = tenant\<rparr>"

definition order_items_of :: "uuid \<Rightarrow> uuid \<Rightarrow> uuid \<Rightarrow> cart_line list \<Rightarrow> order_item list" where
  "order_items_of first order tenant ls =
     map (\<lambda>(n, l). order_item_of (first + n) order tenant l) (enumerate 0 ls)"

definition insert_order_items :: "uuid \<Rightarrow> uuid \<Rightarrow> cart_line list \<Rightarrow> shop \<Rightarrow> shop" where
  "insert_order_items order tenant ls db =
     db\<lparr>order_items := order_items db @ order_items_of (next_id db) order tenant ls,
        next_id := next_id db + length ls\<rparr>"

text \<open>Everything after the pricing: number, quota, order, ledger, lines, history, result, cart.\<close>

definition billing_period_of :: "uuid \<Rightarrow> market \<Rightarrow> instant option" where
  "billing_period_of tenant m =
     Option.bind (find_subscription_for_tenant tenant (billing m)) su_period_start"

definition on_shop :: "(shop \<Rightarrow> shop) \<Rightarrow> market \<Rightarrow> market" where
  "on_shop f m = m\<lparr>mk_shop := f (mk_shop m)\<rparr>"

definition place_order ::
  "(instant \<Rightarrow> string) \<Rightarrow> uuid \<Rightarrow> cart_row \<Rightarrow> uuid \<Rightarrow> checkout_dto \<Rightarrow> order_amounts \<Rightarrow> coupon option
     \<Rightarrow> cart_line list \<Rightarrow> uuid \<Rightarrow> instant \<Rightarrow> (market, uuid) tx" where
  "place_order iso_text user cart store dto a k ls claim_id now m =
     then_do (generate_order_number (mk_shop m)) (\<lambda>(number, db1).
     then_do (or_throw (billing_period_of (c_tenant cart) m)
       (ServiceUnavailable ''billing_period_unavailable'')) (\<lambda>start.
     then_do (enforce_limit (c_tenant cart) OrdersPerMonth 1 (Some (iso_text start))
       (m\<lparr>mk_shop := db1\<rparr>)) (\<lambda>m2.
     then_do (require (case k of None \<Rightarrow> True | Some k \<Rightarrow> k_store k = Some store) foreign_key_error) (\<lambda>_.
     let order = fresh m2;
         m3 = on_shop (create_order_row
                (new_order user (c_tenant cart) store number a k (co_shipping dto) now)) m2
     in then_do (case k of
            None \<Rightarrow> Inr m3
          | Some k \<Rightarrow> record_usage (k_id k) user order (am_discount a) (c_tenant cart) m3) (\<lambda>m4.
        let m5 = on_shop (insert_order_items order (c_tenant cart) ls) m4;
            m6 = on_shop (record_creation order user (c_tenant cart)) m5;
            m7 = m6\<lparr>billing := (billing m6)\<lparr>bd_idem := record_result claim_id order (bd_idem (billing m6))\<rparr>\<rparr>;
            m8 = delete_items (\<lambda>it. ci_id it \<in> set (map (\<lambda>l. ci_id (ln_item l)) ls)) m7
        in Inr (order, m8))))))"

text \<open>The pricing, from the locked cart.\<close>

definition price_cart ::
  "decimal_lib \<Rightarrow> uuid \<Rightarrow> cart_row \<Rightarrow> cart_line list \<Rightarrow> checkout_dto \<Rightarrow> instant
     \<Rightarrow> (market, uuid \<times> order_amounts \<times> coupon option) tx" where
  "price_cart lib user cart ls dto now m =
     then_do (primary_store_id_of (c_tenant cart) m) (\<lambda>store.
     then_do (get_shipping_fee_paise lib store m) (\<lambda>shipping.
     let subtotal = sum_line_totals (map price_item ls)
     in then_do (claim_coupon dto user (c_tenant cart) subtotal shipping ls now m)
          (\<lambda>((k, discount, ship), m1).
        then_do (order_amounts_of lib (get_tax_config (tenant_settings m1 (c_tenant cart)))
          subtotal discount ship) (\<lambda>a.
        Inr ((store, a, k), m1)))))"

definition checkout_tx ::
  "decimal_lib \<Rightarrow> (instant \<Rightarrow> string) \<Rightarrow> uuid \<Rightarrow> checkout_dto \<Rightarrow> string \<Rightarrow> instant
     \<Rightarrow> (market, uuid \<times> bool) tx" where
  "checkout_tx lib iso_text user dto key now m =
     then_do (or_throw (find_cart_of_user user m) (BadRequest ''Your cart is empty'')) (\<lambda>cart.
     then_do (assert_tenant_active (c_tenant cart) ''This store is currently unavailable'' m) (\<lambda>_.
     case claim_key key (fresh m, user, checkout_endpoint, c_tenant cart) (bd_idem (billing m)) of
       None \<Rightarrow>
         (case find_existing (bd_idem (billing m)) key of
            Some r \<Rightarrow>
              (case ik_result r of
                 Some order \<Rightarrow> if ik_user r = user then Inr ((order, False), m)
                   else Inl (Conflict ''A checkout for this idempotency key is already in progress'')
               | None \<Rightarrow> Inl (Conflict ''A checkout for this idempotency key is already in progress''))
          | None \<Rightarrow> Inl (Conflict ''A checkout for this idempotency key is already in progress''))
     | Some ks \<Rightarrow>
         (let m1 = take_ids 1 (m\<lparr>billing := (billing m)\<lparr>bd_idem := ks\<rparr>\<rparr>) in
          then_do (load_cart m1 (c_id cart)) (\<lambda>ls.
          then_do (require (ls \<noteq> []) (BadRequest ''Your cart is empty'')) (\<lambda>_.
          then_do (assert_items_checkoutable ls) (\<lambda>_.
          then_do (price_cart lib user cart ls dto now m1) (\<lambda>((store, a, k), m2).
          then_do (place_order iso_text user cart store dto a k ls (fresh m) now m2) (\<lambda>(order, m3).
          Inr ((order, True), m3)))))))))"

section \<open>The endpoints\<close>

record order_view =
  wv_id :: uuid
  wv_number :: string
  wv_status :: order_status
  wv_subtotal :: string
  wv_shipping_fee :: string
  wv_total :: string
  wv_discount :: string
  wv_taxable :: string
  wv_tax :: string
  wv_tax_mode :: tax_mode
  wv_tax_rate_percent :: "string option"
  wv_coupon_code :: "string option"
  wv_currency :: string
  wv_shipping :: shipping_snapshot
  wv_items :: "item_view list"
  wv_created :: instant

definition to_order_view :: "shop \<Rightarrow> order_row \<Rightarrow> order_view" where
  "to_order_view db r =
     \<lparr>wv_id = o_id r, wv_number = o_number r, wv_status = o_status r,
      wv_subtotal = money_view (o_subtotal r), wv_shipping_fee = money_view (o_shipping_fee r),
      wv_total = money_view (o_total r), wv_discount = money_view (o_discount r),
      wv_taxable = money_view (o_taxable r), wv_tax = money_view (o_tax r),
      wv_tax_mode = o_tax_mode r, wv_tax_rate_percent = map_option tax_rate_view (o_tax_rate r),
      wv_coupon_code = o_coupon_code r, wv_currency = o_currency r, wv_shipping = o_shipping r,
      wv_items = map to_item_view (sort_key i_id (items_of db (o_id r))),
      wv_created = o_created r\<rparr>"

definition load_order_view :: "uuid \<Rightarrow> uuid \<Rightarrow> market \<Rightarrow> order_view result" where
  "load_order_view order user m =
     then_do (or_throw (find_order (mk_shop m) order) (Conflict ''Order not found for this user'')) (\<lambda>r.
     then_do (require (o_user r = user) (Conflict ''Order not found for this user'')) (\<lambda>_.
     Inr (to_order_view (mk_shop m) r)))"

text \<open>
  The fast path reads the key outside the transaction; \<open>existing\<close> is what it saw, which may
  be older than the database the transaction finds.
\<close>

definition checkout ::
  "decimal_lib \<Rightarrow> (instant \<Rightarrow> string) \<Rightarrow> idem_row option \<Rightarrow> uuid \<Rightarrow> checkout_dto \<Rightarrow> string \<Rightarrow> instant
     \<Rightarrow> market \<Rightarrow> (order_view \<times> bool) result \<times> market" where
  "checkout lib iso_text existing user dto key now m =
     (case existing of
        Some r \<Rightarrow>
          (if ik_user r \<noteq> user then (Inl (Conflict ''Idempotency key already in use''), m)
           else (case ik_result r of
             Some order \<Rightarrow> (map_sum id (\<lambda>v. (v, False)) (load_order_view order user m), m)
           | None \<Rightarrow> (Inl (Conflict ''A checkout for this idempotency key is already in progress''), m)))
      | None \<Rightarrow>
          (case run_tx (checkout_tx lib iso_text user dto key now) m of
             (Inl e, m1) \<Rightarrow> (Inl e, m1)
           | (Inr (order, created), m1) \<Rightarrow>
               (map_sum id (\<lambda>v. (v, created)) (load_order_view order user m1), m1)))"

record preview_view =
  px_subtotal :: string
  px_shipping :: string
  px_discount :: string
  px_taxable :: string
  px_tax :: string
  px_tax_mode :: tax_mode
  px_total :: string
  px_coupon :: "string option"

definition preview_coupon ::
  "string option \<Rightarrow> uuid \<Rightarrow> uuid \<Rightarrow> paise \<Rightarrow> paise \<Rightarrow> cart_line list \<Rightarrow> instant \<Rightarrow> market
     \<Rightarrow> (string option \<times> paise \<times> paise) result" where
  "preview_coupon code user tenant subtotal shipping ls now m =
     (case given_code code of
        None \<Rightarrow> Inr (None, 0, shipping)
      | Some code \<Rightarrow>
          then_do (preview_discount (coupon_params_of code user tenant subtotal shipping ls) now m)
            (\<lambda>(c, discount, ship). Inr (Some c, discount, ship)))"

definition preview_view_of :: "order_amounts \<Rightarrow> string option \<Rightarrow> preview_view" where
  "preview_view_of a code =
     \<lparr>px_subtotal = paise_to_decimal_string (am_subtotal a),
      px_shipping = paise_to_decimal_string (am_shipping a),
      px_discount = paise_to_decimal_string (am_discount a),
      px_taxable = paise_to_decimal_string (taxable_amount_paise (am_tax a)),
      px_tax = paise_to_decimal_string (tax_amount_paise (am_tax a)),
      px_tax_mode = computed_mode (am_tax a),
      px_total = paise_to_decimal_string (am_total a),
      px_coupon = code\<rparr>"

definition preview_checkout ::
  "decimal_lib \<Rightarrow> uuid \<Rightarrow> string option \<Rightarrow> instant \<Rightarrow> market \<Rightarrow> preview_view result" where
  "preview_checkout lib user code now m =
     then_do (or_throw (find_cart_of_user user m) (BadRequest ''Your cart is empty'')) (\<lambda>cart.
     then_do (load_cart m (c_id cart)) (\<lambda>ls.
     then_do (require (ls \<noteq> []) (BadRequest ''Your cart is empty'')) (\<lambda>_.
     then_do (assert_tenant_active (c_tenant cart) ''This store is currently unavailable'' m) (\<lambda>_.
     then_do (primary_store_id_of (c_tenant cart) m) (\<lambda>store.
     then_do (get_shipping_fee_paise lib store m) (\<lambda>shipping.
     let subtotal = sum_line_totals (map price_item ls)
     in then_do (preview_coupon code user (c_tenant cart) subtotal shipping ls now m)
          (\<lambda>(c, discount, ship).
        then_do (order_amounts_of lib (get_tax_config (tenant_settings m (c_tenant cart)))
          subtotal discount ship) (\<lambda>a.
        Inr (preview_view_of a c)))))))))"

end
