(* ===== verification/CheckoutFacts.thy ===== *)
theory CheckoutFacts
  imports Checkout
begin

text \<open>
  What a committed checkout did, step by step, and what each of its steps leaves alone.
\<close>

section \<open>What the steps leave alone\<close>

lemma take_ids_frames [simp, frames]:
  "carts (take_ids n m) = carts m" "cart_items (take_ids n m) = cart_items m"
  "cart_customs (take_ids n m) = cart_customs m" "products (take_ids n m) = products m"
  "variants (take_ids n m) = variants m" "custom_fields (take_ids n m) = custom_fields m"
  "categories (take_ids n m) = categories m" "images (take_ids n m) = images m"
  "uploads (take_ids n m) = uploads m" "coupons (take_ids n m) = coupons m"
  "coupon_usages (take_ids n m) = coupon_usages m" "usages (take_ids n m) = usages m"
  "billing (take_ids n m) = billing m" "entitle (take_ids n m) = entitle m"
  "storefronts (take_ids n m) = storefronts m" "tenant_status_of (take_ids n m) = tenant_status_of m"
  "store_settings (take_ids n m) = store_settings m"
  "tenant_settings (take_ids n m) = tenant_settings m"
  "orders (mk_shop (take_ids n m)) = orders (mk_shop m)"
  "order_items (mk_shop (take_ids n m)) = order_items (mk_shop m)"
  "histories (mk_shop (take_ids n m)) = histories (mk_shop m)"
  "order_counter (mk_shop (take_ids n m)) = order_counter (mk_shop m)"
  "next_id (mk_shop (take_ids n m)) = next_id (mk_shop m) + n"
  by (simp_all add: take_ids_def)

text \<open>A cart's lines depend on the catalogue and the cart tables only.\<close>

definition same_shelf :: "market \<Rightarrow> market \<Rightarrow> bool" where
  "same_shelf m m' \<longleftrightarrow> products m' = products m \<and> variants m' = variants m \<and>
     custom_fields m' = custom_fields m \<and> cart_items m' = cart_items m \<and>
     cart_customs m' = cart_customs m"

lemma load_cart_same:
  assumes "same_shelf m m'"
  shows "load_cart m' c = load_cart m c"
proof -
  have "load_customs m' i = load_customs m i" for i
    using assms by (simp add: same_shelf_def load_customs_def find_field_def)
  moreover have "find_product i m' = find_product i m" "find_variant i m' = find_variant i m" for i
    using assms by (simp_all add: same_shelf_def find_product_def find_variant_def)
  ultimately have "load_line m' = load_line m"
    by (simp add: load_line_def fun_eq_iff cong: option.case_cong)
  then show ?thesis
    using assms by (simp add: same_shelf_def load_cart_def items_of_cart_def)
qed

lemma load_line_item: "load_line m it = Inr l \<Longrightarrow> ln_item l = it"
  by (auto simp: load_line_def)

lemma load_cart_items: "load_cart m c = Inr ls \<Longrightarrow> map ln_item ls = items_of_cart m c"
proof -
  assume "load_cart m c = Inr ls"
  then have "list_all2 (\<lambda>it l. load_line m it = Inr l) (items_of_cart m c) ls"
    by (auto simp: load_cart_def dest: map_result_Inr)
  then show ?thesis
    by (induction rule: list_all2_induct) (auto dest: load_line_item)
qed

lemma load_line_relations:
  "load_line m it = Inr l \<Longrightarrow> ln_product l \<in> set (products m) \<and> p_id (ln_product l) = ci_product it
   \<and> (case ln_variant l of None \<Rightarrow> ci_variant it = None
      | Some v \<Rightarrow> v \<in> set (variants m) \<and> ci_variant it = Some (va_id v))"
  by (auto simp: load_line_def find_product_def find_variant_def dest!: find_SomeD
      split: option.splits)

section \<open>The inversion\<close>

text \<open>
  A committed checkout found the cart, claimed the key, loaded and accepted the lines, priced
  them and placed the order.
\<close>

definition claimed :: "market \<Rightarrow> idem_row list \<Rightarrow> market" where
  "claimed m ks = take_ids 1 (m\<lparr>billing := (billing m)\<lparr>bd_idem := ks\<rparr>\<rparr>)"

lemma checkout_created:
  assumes "checkout_tx lib iso_text user dto key now m = Inr ((order, True), m')"
  obtains cart ks ls store a k m2 where
    "find_cart_of_user user m = Some cart"
    "tenant_status_of m (c_tenant cart) \<noteq> Some TenantSuspended"
    "claim_key key (fresh m, user, checkout_endpoint, c_tenant cart) (bd_idem (billing m)) = Some ks"
    "load_cart m (c_id cart) = Inr ls" "ls \<noteq> []"
    "\<And>l. l \<in> set ls \<Longrightarrow> line_checkoutable l = Inr ()"
    "price_cart lib user cart ls dto now (claimed m ks) = Inr ((store, a, k), m2)"
    "place_order iso_text user cart store dto a k ls (fresh m) now m2 = Inr (order, m')"
proof -
  have same: "load_cart (claimed m ks) c = load_cart m c" for ks c
    by (rule load_cart_same) (simp add: same_shelf_def claimed_def)
  show ?thesis
    using assms that
    by (auto simp: checkout_tx_def Let_def assert_tenant_active_def assert_items_checkoutable_def
        claimed_def [symmetric] same simp del: One_nat_def split: option.splits if_splits)
qed

lemma price_cart_cases:
  assumes "price_cart lib user cart ls dto now m = Inr ((store, a, k), m')"
  obtains shipping discount ship where
    "primary_store_id_of (c_tenant cart) m = Inr store"
    "get_shipping_fee_paise lib store m = Inr shipping"
    "claim_coupon dto user (c_tenant cart) (sum_line_totals (map price_item ls)) shipping ls now m =
       Inr ((k, discount, ship), m')"
    "order_amounts_of lib (get_tax_config (tenant_settings m' (c_tenant cart)))
       (sum_line_totals (map price_item ls)) discount ship = Inr a"
  using assms that by (auto simp: price_cart_def Let_def)

lemma validate_and_claim_cases:
  assumes "validate_and_claim ps now m = Inr (c, m')"
  shows "find_coupon_by_code (normalized_code (cp_code ps)) (cp_tenant ps) m = Some (kc_coupon c)"
    and "coupon_refusal (kc_coupon c) ps now m = Inr ()"
    and "(kc_discount c, kc_shipping c) =
      compute_discount (kc_coupon c) (scoped_subtotal (kc_coupon c) ps) (cp_shipping ps)"
    and "m' = m\<lparr>coupons := claim_use (k_id (kc_coupon c)) (coupons m)\<rparr>"
    and "hits (claim_hit (k_id (kc_coupon c))) (coupons m) \<noteq> 0"
  using assms by (auto simp: validate_and_claim_def validate_coupon_core_def Let_def case_prod_beta)

lemma claim_coupon_cases:
  assumes "claim_coupon dto user tenant subtotal shipping ls now m = Inr ((k, discount, ship), m')"
  obtains (without) "given_code (co_coupon dto) = None" "k = None" "discount = 0" "ship = shipping" "m' = m"
  | (claimed) code c where "given_code (co_coupon dto) = Some code"
    "validate_and_claim (coupon_params_of code user tenant subtotal shipping ls) now m = Inr (c, m')"
    "k = Some (kc_coupon c)" "discount = kc_discount c" "ship = kc_shipping c"
  using assms by (auto simp: claim_coupon_def split: option.splits)

lemma claim_coupon_market:
  assumes "claim_coupon dto user tenant subtotal shipping ls now m = Inr ((k, discount, ship), m')"
  shows "m' = m\<lparr>coupons := (case k of None \<Rightarrow> coupons m | Some k \<Rightarrow> claim_use (k_id k) (coupons m))\<rparr>"
  using assms by (cases rule: claim_coupon_cases) (auto dest: validate_and_claim_cases(4))

lemma enforce_limit_market:
  "enforce_limit tenant key n p m = Inr m' \<Longrightarrow> \<exists>us. m' = m\<lparr>usages := us\<rparr>"
  by (auto simp: enforce_limit_def split: sum.splits)

lemma record_usage_market:
  "record_usage k user order d t m = Inr m' \<Longrightarrow>
     order \<notin> set (map ku_order (coupon_usages m)) \<and>
     m' = m\<lparr>coupon_usages := coupon_usages m @
       [\<lparr>ku_coupon = k, ku_user = user, ku_order = order, ku_discount = money_column d, ku_tenant = t\<rparr>]\<rparr>"
  by (auto simp: record_usage_def)

text \<open>The database after the order was placed, as one record update.\<close>

definition ledger_row :: "coupon \<Rightarrow> uuid \<Rightarrow> uuid \<Rightarrow> paise \<Rightarrow> uuid \<Rightarrow> coupon_usage" where
  "ledger_row k user order discount tenant =
     \<lparr>ku_coupon = k_id k, ku_user = user, ku_order = order, ku_discount = money_column discount,
      ku_tenant = tenant\<rparr>"

definition placed_shop ::
  "uuid \<Rightarrow> cart_row \<Rightarrow> uuid \<Rightarrow> checkout_dto \<Rightarrow> order_amounts \<Rightarrow> coupon option \<Rightarrow> cart_line list
     \<Rightarrow> instant \<Rightarrow> string \<Rightarrow> shop \<Rightarrow> shop" where
  "placed_shop user cart store dto a k ls now number db =
     record_creation (next_id db) user (c_tenant cart)
       (insert_order_items (next_id db) (c_tenant cart) ls
         (create_order_row (new_order user (c_tenant cart) store number a k (co_shipping dto) now) db))"

lemma place_order_cases:
  assumes "place_order iso_text user cart store dto a k ls claim_id now m = Inr (order, m')"
  obtains number db1 us start where
    "generate_order_number (mk_shop m) = Inr (number, db1)"
    "billing_period_of (c_tenant cart) m = Some start"
    "enforce_limit (c_tenant cart) OrdersPerMonth 1 (Some (iso_text start)) (m\<lparr>mk_shop := db1\<rparr>) =
       Inr (m\<lparr>mk_shop := db1, usages := us\<rparr>)"
    "order = next_id db1"
    "case k of None \<Rightarrow> True | Some k \<Rightarrow> k_store k = Some store \<and> order \<notin> set (map ku_order (coupon_usages m))"
    "m' = delete_items (\<lambda>it. ci_id it \<in> set (map (\<lambda>l. ci_id (ln_item l)) ls))
       (m\<lparr>usages := us,
          coupon_usages := (case k of None \<Rightarrow> coupon_usages m
            | Some k \<Rightarrow> coupon_usages m @ [ledger_row k user order (am_discount a) (c_tenant cart)]),
          mk_shop := placed_shop user cart store dto a k ls now number db1,
          billing := (billing m)\<lparr>bd_idem := record_result claim_id order (bd_idem (billing m))\<rparr>\<rparr>)"
proof -
  from assms obtain number db1 m2 m4 start where 1:
    "generate_order_number (mk_shop m) = Inr (number, db1)"
    "billing_period_of (c_tenant cart) m = Some start"
    "enforce_limit (c_tenant cart) OrdersPerMonth 1 (Some (iso_text start)) (m\<lparr>mk_shop := db1\<rparr>) = Inr m2"
    "case k of None \<Rightarrow> True | Some k \<Rightarrow> k_store k = Some store" "order = fresh m2"
    "(case k of None \<Rightarrow> Inr (on_shop (create_order_row
          (new_order user (c_tenant cart) store number a k (co_shipping dto) now)) m2)
        | Some k' \<Rightarrow> record_usage (k_id k') user order (am_discount a) (c_tenant cart)
            (on_shop (create_order_row
              (new_order user (c_tenant cart) store number a k (co_shipping dto) now)) m2)) = Inr m4"
    "m' = delete_items (\<lambda>it. ci_id it \<in> set (map (\<lambda>l. ci_id (ln_item l)) ls))
       (let m6 = on_shop (record_creation order user (c_tenant cart))
               (on_shop (insert_order_items order (c_tenant cart) ls) m4)
        in m6\<lparr>billing := (billing m6)\<lparr>bd_idem := record_result claim_id order (bd_idem (billing m6))\<rparr>\<rparr>)"
    by (auto simp: place_order_def Let_def)
  obtain us where us: "m2 = m\<lparr>mk_shop := db1, usages := us\<rparr>"
    using enforce_limit_market [OF 1(3)] by auto
  show ?thesis
    by (rule that [of number db1 start us])
      (use 1 us in \<open>auto simp: on_shop_def placed_shop_def ledger_row_def Let_def
        dest!: record_usage_market split: option.splits\<close>)
qed

section \<open>The tables after a checkout\<close>

lemma delete_items_frames [simp, frames]:
  "mk_shop (delete_items p m) = mk_shop m" "carts (delete_items p m) = carts m"
  "coupons (delete_items p m) = coupons m" "coupon_usages (delete_items p m) = coupon_usages m"
  "usages (delete_items p m) = usages m" "billing (delete_items p m) = billing m"
  "products (delete_items p m) = products m" "variants (delete_items p m) = variants m"
  "custom_fields (delete_items p m) = custom_fields m" "categories (delete_items p m) = categories m"
  "uploads (delete_items p m) = uploads m" "images (delete_items p m) = images m"
  "entitle (delete_items p m) = entitle m" "storefronts (delete_items p m) = storefronts m"
  "tenant_status_of (delete_items p m) = tenant_status_of m"
  "store_settings (delete_items p m) = store_settings m"
  "tenant_settings (delete_items p m) = tenant_settings m"
  by (simp_all add: delete_items_def Let_def)

lemma claimed_frames [simp, frames]:
  "carts (claimed m ks) = carts m" "cart_items (claimed m ks) = cart_items m"
  "cart_customs (claimed m ks) = cart_customs m" "products (claimed m ks) = products m"
  "variants (claimed m ks) = variants m" "custom_fields (claimed m ks) = custom_fields m"
  "categories (claimed m ks) = categories m" "images (claimed m ks) = images m"
  "uploads (claimed m ks) = uploads m" "coupons (claimed m ks) = coupons m"
  "coupon_usages (claimed m ks) = coupon_usages m" "usages (claimed m ks) = usages m"
  "billing (claimed m ks) = (billing m)\<lparr>bd_idem := ks\<rparr>" "entitle (claimed m ks) = entitle m"
  "storefronts (claimed m ks) = storefronts m" "tenant_status_of (claimed m ks) = tenant_status_of m"
  "store_settings (claimed m ks) = store_settings m"
  "tenant_settings (claimed m ks) = tenant_settings m"
  "mk_shop (claimed m ks) = (mk_shop m)\<lparr>next_id := next_id (mk_shop m) + 1\<rparr>"
  by (simp_all add: claimed_def) (simp add: take_ids_def)

lemma generate_order_number_frames:
  "generate_order_number db = Inr (x, db') \<Longrightarrow> \<exists>n. db' = db\<lparr>order_counter := n\<rparr>"
  by (auto simp: generate_order_number_def Let_def split: if_splits)

definition order_row_of ::
  "uuid \<Rightarrow> cart_row \<Rightarrow> uuid \<Rightarrow> checkout_dto \<Rightarrow> order_amounts \<Rightarrow> coupon option \<Rightarrow> instant \<Rightarrow> string \<Rightarrow> uuid
     \<Rightarrow> order_row" where
  "order_row_of user cart store dto a k now number i =
     (new_order user (c_tenant cart) store number a k (co_shipping dto) now)\<lparr>o_id := i\<rparr>"

lemma placed_shop_tables [simp]:
  "orders (placed_shop user cart store dto a k ls now number db) =
     orders db @ [order_row_of user cart store dto a k now number (next_id db)]"
  "order_items (placed_shop user cart store dto a k ls now number db) =
     order_items db @ order_items_of (Suc (next_id db)) (next_id db) (c_tenant cart) ls"
  "next_id (placed_shop user cart store dto a k ls now number db) = Suc (next_id db) + length ls"
  "histories (placed_shop user cart store dto a k ls now number db) = histories db @
     [\<lparr>h_order = next_id db, h_from = None, h_to = PendingPayment, h_by = Some user,
       h_note = ''Order created from cart at checkout'', h_tenant = c_tenant cart\<rparr>]"
  "order_counter (placed_shop user cart store dto a k ls now number db) = order_counter db"
  by (simp_all add: placed_shop_def record_creation_def insert_order_items_def create_order_row_def
      order_row_of_def new_order_def)

text \<open>The whole effect of a checkout, in one step.\<close>

lemma checkout_effect:
  assumes "checkout_tx lib iso_text user dto key now m = Inr ((order, True), m')"
  obtains cart ks ls store a k shipping discount ship number db1 us start where
    "find_cart_of_user user m = Some cart"
    "claim_key key (fresh m, user, checkout_endpoint, c_tenant cart) (bd_idem (billing m)) = Some ks"
    "load_cart m (c_id cart) = Inr ls" "ls \<noteq> []"
    "\<And>l. l \<in> set ls \<Longrightarrow> line_checkoutable l = Inr ()"
    "primary_store_id_of (c_tenant cart) m = Inr store"
    "get_shipping_fee_paise lib store m = Inr shipping"
    "claim_coupon dto user (c_tenant cart) (sum_line_totals (map price_item ls)) shipping ls now
       (claimed m ks) = Inr ((k, discount, ship), (claimed m ks)\<lparr>coupons :=
          (case k of None \<Rightarrow> coupons m | Some k \<Rightarrow> claim_use (k_id k) (coupons m))\<rparr>)"
    "order_amounts_of lib (get_tax_config (tenant_settings m (c_tenant cart)))
       (sum_line_totals (map price_item ls)) discount ship = Inr a"
    "generate_order_number ((mk_shop m)\<lparr>next_id := fresh m + 1\<rparr>) = Inr (number, db1)"
    "billing_period_of (c_tenant cart) m = Some start"
    "assert_limit (resolve_entitlements (entitle m) ((billing m)\<lparr>bd_idem := ks\<rparr>) (c_tenant cart)) (c_tenant cart)
       OrdersPerMonth 1 (Some (iso_text start)) (usages m) = Inr ((), us)"
    "order = fresh m + 1" "next_id db1 = fresh m + 1"
    "case k of None \<Rightarrow> True | Some k \<Rightarrow> k_store k = Some store \<and> order \<notin> set (map ku_order (coupon_usages m))"
    "m' = delete_items (\<lambda>it. ci_id it \<in> set (map (\<lambda>l. ci_id (ln_item l)) ls))
       ((claimed m ks)\<lparr>coupons := (case k of None \<Rightarrow> coupons m | Some k \<Rightarrow> claim_use (k_id k) (coupons m)),
          usages := us,
          coupon_usages := (case k of None \<Rightarrow> coupon_usages m
            | Some k \<Rightarrow> coupon_usages m @ [ledger_row k user order (am_discount a) (c_tenant cart)]),
          mk_shop := placed_shop user cart store dto a k ls now number db1,
          billing := (billing m)\<lparr>bd_idem := record_result (fresh m) order ks\<rparr>\<rparr>)"
proof (rule checkout_created [OF assms])
  fix cart ks ls store a k m2
  assume found: "find_cart_of_user user m = Some cart"
    and ks: "claim_key key (fresh m, user, checkout_endpoint, c_tenant cart) (bd_idem (billing m)) = Some ks"
    and ls: "load_cart m (c_id cart) = Inr ls" "ls \<noteq> []"
      "\<And>l. l \<in> set ls \<Longrightarrow> line_checkoutable l = Inr ()"
    and price: "price_cart lib user cart ls dto now (claimed m ks) = Inr ((store, a, k), m2)"
    and place: "place_order iso_text user cart store dto a k ls (fresh m) now m2 = Inr (order, m')"
  obtain shipping discount ship where p:
    "primary_store_id_of (c_tenant cart) (claimed m ks) = Inr store"
    "get_shipping_fee_paise lib store (claimed m ks) = Inr shipping"
    "claim_coupon dto user (c_tenant cart) (sum_line_totals (map price_item ls)) shipping ls now
       (claimed m ks) = Inr ((k, discount, ship), m2)"
    "order_amounts_of lib (get_tax_config (tenant_settings m2 (c_tenant cart)))
       (sum_line_totals (map price_item ls)) discount ship = Inr a"
    using price by (rule price_cart_cases)
  have m2: "m2 = (claimed m ks)\<lparr>coupons :=
      (case k of None \<Rightarrow> coupons m | Some k \<Rightarrow> claim_use (k_id k) (coupons m))\<rparr>"
    using claim_coupon_market [OF p(3)] by (cases k) simp_all
  from place obtain number db1 us start where q:
    "generate_order_number (mk_shop m2) = Inr (number, db1)"
    "billing_period_of (c_tenant cart) m2 = Some start"
    "enforce_limit (c_tenant cart) OrdersPerMonth 1 (Some (iso_text start)) (m2\<lparr>mk_shop := db1\<rparr>) =
       Inr (m2\<lparr>mk_shop := db1, usages := us\<rparr>)"
    "order = next_id db1"
    "case k of None \<Rightarrow> True | Some k \<Rightarrow> k_store k = Some store \<and> order \<notin> set (map ku_order (coupon_usages m2))"
    "m' = delete_items (\<lambda>it. ci_id it \<in> set (map (\<lambda>l. ci_id (ln_item l)) ls))
       (m2\<lparr>usages := us,
          coupon_usages := (case k of None \<Rightarrow> coupon_usages m2
            | Some k \<Rightarrow> coupon_usages m2 @ [ledger_row k user order (am_discount a) (c_tenant cart)]),
          mk_shop := placed_shop user cart store dto a k ls now number db1,
          billing := (billing m2)\<lparr>bd_idem := record_result (fresh m) order (bd_idem (billing m2))\<rparr>\<rparr>)"
    by (rule place_order_cases)
  have id: "next_id db1 = fresh m + 1"
    using generate_order_number_frames [OF q(1)] by (auto simp: m2)
  show thesis
  proof (rule that [OF found ks ls])
    show "primary_store_id_of (c_tenant cart) m = Inr store"
      using p(1) by (simp add: primary_store_id_of_def)
    show "get_shipping_fee_paise lib store m = Inr shipping"
      using p(2) by (simp add: get_shipping_fee_paise_def)
    show "claim_coupon dto user (c_tenant cart) (sum_line_totals (map price_item ls)) shipping ls now
        (claimed m ks) = Inr ((k, discount, ship), (claimed m ks)\<lparr>coupons :=
          (case k of None \<Rightarrow> coupons m | Some k \<Rightarrow> claim_use (k_id k) (coupons m))\<rparr>)"
      using p(3) by (simp add: m2)
    show "order_amounts_of lib (get_tax_config (tenant_settings m (c_tenant cart)))
        (sum_line_totals (map price_item ls)) discount ship = Inr a"
      using p(4) by (simp add: m2)
    show "generate_order_number ((mk_shop m)\<lparr>next_id := fresh m + 1\<rparr>) = Inr (number, db1)"
      using q(1) by (simp add: m2)
    show "billing_period_of (c_tenant cart) m = Some start"
      using q(2) by (simp add: m2 billing_period_of_def find_subscription_for_tenant_def)
    show "assert_limit (resolve_entitlements (entitle m) ((billing m)\<lparr>bd_idem := ks\<rparr>) (c_tenant cart))
        (c_tenant cart) OrdersPerMonth 1 (Some (iso_text start)) (usages m) = Inr ((), us)"
      using q(3) by (auto simp: m2 enforce_limit_def dest!: arg_cong [of _ _ usages])
    show "order = fresh m + 1" "next_id db1 = fresh m + 1" using q(4) id by simp_all
    show "case k of None \<Rightarrow> True | Some k \<Rightarrow> k_store k = Some store \<and> order \<notin> set (map ku_order (coupon_usages m))"
      using q(5) by (cases k) (simp_all add: m2)
    show "m' = delete_items (\<lambda>it. ci_id it \<in> set (map (\<lambda>l. ci_id (ln_item l)) ls))
       ((claimed m ks)\<lparr>coupons := (case k of None \<Rightarrow> coupons m | Some k \<Rightarrow> claim_use (k_id k) (coupons m)),
          usages := us,
          coupon_usages := (case k of None \<Rightarrow> coupon_usages m
            | Some k \<Rightarrow> coupon_usages m @ [ledger_row k user order (am_discount a) (c_tenant cart)]),
          mk_shop := placed_shop user cart store dto a k ls now number db1,
          billing := (billing m)\<lparr>bd_idem := record_result (fresh m) order ks\<rparr>\<rparr>)"
      using q(6) by (cases k) (simp_all add: m2)
  qed
qed

end
