(* ===== verification/Products.thy ===== *)
theory Products
  imports Market
begin

text \<open>
  \<open>products/products.service.ts\<close>: categories with their tree, products with the plan's limit,
  variants, customization fields and images. Every admin write is one transaction that checks the
  object's tenant and ends with an audit row. The order of texts in the database and in the
  runtime (\<open>localeCompare\<close>) and the delivery URL of an image are parameters.
\<close>

section \<open>Constraints of the tables\<close>

text \<open>\<open>UNIQUE (storeId, slug)\<close>: rows without a store never conflict.\<close>

definition slugs_unique :: "(uuid option \<times> string) list \<Rightarrow> bool" where
  "slugs_unique ss \<longleftrightarrow> distinct (filter (\<lambda>s. fst s \<noteq> None) ss)"

definition category_slugs_ok :: "category_row list \<Rightarrow> bool" where
  "category_slugs_ok cs \<longleftrightarrow> slugs_unique (map (\<lambda>c. (cg_store c, cg_slug c)) cs)"

definition product_slugs_ok :: "product_row list \<Rightarrow> bool" where
  "product_slugs_ok ps \<longleftrightarrow> slugs_unique (map (\<lambda>p. (p_store p, p_slug p)) ps)"

definition variant_labels_ok :: "variant_row list \<Rightarrow> bool" where
  "variant_labels_ok vs \<longleftrightarrow> distinct (map (\<lambda>v. (va_product v, va_label v)) vs)"

text \<open>The composite foreign keys \<open>(storeId, categoryId)\<close> and \<open>(storeId, parentCategoryId)\<close>.\<close>

definition category_in_store :: "uuid option \<Rightarrow> uuid option \<Rightarrow> category_row list \<Rightarrow> bool" where
  "category_in_store store category cs =
     (case (store, category) of
        (Some s, Some c) \<Rightarrow> list_ex (\<lambda>r. cg_id r = c \<and> cg_store r = Some s) cs
      | _ \<Rightarrow> True)"

abbreviation store_reference_error :: err where
  "store_reference_error \<equiv> Thrown ''Foreign key constraint violated''"

section \<open>Categories\<close>

definition list_categories :: "(string \<Rightarrow> nat) \<Rightarrow> uuid option \<Rightarrow> market \<Rightarrow> category_row list" where
  "list_categories rank scope m =
     sort_key (\<lambda>c. rank (cg_name c)) (filter (\<lambda>c. cg_active c \<and>
       (case scope of None \<Rightarrow> True | Some t \<Rightarrow> cg_tenant c = t)) (categories m))"

definition admin_list_categories :: "(string \<Rightarrow> nat) \<Rightarrow> tenant_context \<Rightarrow> market \<Rightarrow> category_row list" where
  "admin_list_categories rank ctx m =
     sort_key (\<lambda>c. rank (cg_name c)) (filter (\<lambda>c. cg_tenant c = tc_tenant ctx) (categories m))"

definition check_parent :: "tenant_context \<Rightarrow> uuid option \<Rightarrow> market \<Rightarrow> unit result" where
  "check_parent ctx parent m =
     (case parent of
        None \<Rightarrow> Inr ()
      | Some i \<Rightarrow>
          then_do (or_throw (find_category i m) (NotFound ''Category not found'')) (\<lambda>p.
          assert_object_in_tenant (Some (cg_tenant p)) (tc_tenant ctx)))"

record category_dto =
  gd_name :: string
  gd_slug :: string
  gd_parent :: "uuid option"

definition create_category ::
  "tenant_context \<Rightarrow> uuid \<Rightarrow> category_dto \<Rightarrow> (market, category_row) tx" where
  "create_category ctx actor d m =
     then_do (check_parent ctx (gd_parent d) m) (\<lambda>_.
     let c = \<lparr>cg_id = fresh m, cg_name = gd_name d, cg_slug = gd_slug d, cg_parent = gd_parent d,
               cg_active = True, cg_tenant = tc_tenant ctx, cg_store = None\<rparr>
     in then_do (require (category_slugs_ok (categories m @ [c]))
          (Conflict ''A category with this slug already exists'')) (\<lambda>_.
        Inr (c, audit ctx actor ''category.create'' (cg_id c)
          (take_ids 1 (m\<lparr>categories := categories m @ [c]\<rparr>)))))"

text \<open>An absent field is left; the parent may be given as null.\<close>

record category_update =
  gu_name :: "string option"
  gu_slug :: "string option"
  gu_parent :: "uuid option option"

definition given_value :: "'a option \<Rightarrow> 'a \<Rightarrow> 'a" where
  "given_value x old = (case x of None \<Rightarrow> old | Some y \<Rightarrow> y)"

definition apply_category_update :: "category_update \<Rightarrow> category_row \<Rightarrow> category_row" where
  "apply_category_update d c =
     c\<lparr>cg_name := given_value (gu_name d) (cg_name c), cg_slug := given_value (gu_slug d) (cg_slug c),
       cg_parent := given_value (gu_parent d) (cg_parent c)\<rparr>"

text \<open>The admin's access to a category: it exists and is the tenant's.\<close>

definition own_category :: "tenant_context \<Rightarrow> uuid \<Rightarrow> market \<Rightarrow> category_row result" where
  "own_category ctx i m =
     then_do (or_throw (find_category i m) (NotFound ''Category not found'')) (\<lambda>c.
     then_do (assert_object_in_tenant (Some (cg_tenant c)) (tc_tenant ctx)) (\<lambda>_.
     Inr c))"

definition update_category ::
  "tenant_context \<Rightarrow> uuid \<Rightarrow> uuid \<Rightarrow> category_update \<Rightarrow> (market, category_row) tx" where
  "update_category ctx actor i d m =
     then_do (own_category ctx i m) (\<lambda>c.
     then_do (check_parent ctx (Option.bind (gu_parent d) id) m) (\<lambda>_.
     let cs = update_rows (\<lambda>c. cg_id c = i) (apply_category_update d) (categories m);
         c' = apply_category_update d c
     in then_do (require (category_slugs_ok cs) (Conflict ''A category with this slug already exists'')) (\<lambda>_.
        then_do (require (category_in_store (cg_store c') (cg_parent c') cs) store_reference_error) (\<lambda>_.
        Inr (c', audit ctx actor ''category.update'' i (m\<lparr>categories := cs\<rparr>))))))"

definition set_category_active ::
  "tenant_context \<Rightarrow> uuid \<Rightarrow> uuid \<Rightarrow> bool \<Rightarrow> string \<Rightarrow> (market, category_row) tx" where
  "set_category_active ctx actor i active action m =
     then_do (own_category ctx i m) (\<lambda>c.
     Inr (c\<lparr>cg_active := active\<rparr>, audit ctx actor action i
       (m\<lparr>categories := update_rows (\<lambda>c. cg_id c = i) (\<lambda>c. c\<lparr>cg_active := active\<rparr>) (categories m)\<rparr>)))"

definition deactivate_category where
  "deactivate_category ctx actor i = set_category_active ctx actor i False ''category.deactivate''"

definition reactivate_category where
  "reactivate_category ctx actor i = set_category_active ctx actor i True ''category.reactivate''"

section \<open>The category tree\<close>

datatype tree_node = Node (node_id: uuid) (node_name: string) (node_slug: string)
  (node_children: "tree_node list")

text \<open>
  The two passes link node objects: a node's children are the categories that name it as parent,
  in list order; a category without parent, or whose parent is not in the list, is a root. What
  is returned are the roots with everything that hangs below them. \<open>subtree\<close> follows the links
  to a depth; the depth is the number of categories.
\<close>

definition is_root :: "category_row list \<Rightarrow> category_row \<Rightarrow> bool" where
  "is_root cs c = (case cg_parent c of None \<Rightarrow> True | Some p \<Rightarrow> p \<notin> set (map cg_id cs))"

definition children_of :: "category_row list \<Rightarrow> category_row \<Rightarrow> category_row list" where
  "children_of cs c = filter (\<lambda>d. cg_parent d = Some (cg_id c)) cs"

fun subtree :: "(string \<Rightarrow> nat) \<Rightarrow> category_row list \<Rightarrow> nat \<Rightarrow> category_row \<Rightarrow> tree_node" where
  "subtree rank cs 0 c = Node (cg_id c) (cg_name c) (cg_slug c) []"
| "subtree rank cs (Suc n) c =
     Node (cg_id c) (cg_name c) (cg_slug c)
       (sort_key (\<lambda>t. rank (node_name t)) (map (subtree rank cs n) (children_of cs c)))"

definition build_tree :: "(string \<Rightarrow> nat) \<Rightarrow> nat \<Rightarrow> category_row list \<Rightarrow> tree_node list" where
  "build_tree rank depth cs =
     sort_key (\<lambda>t. rank (node_name t)) (map (subtree rank cs depth) (filter (is_root cs) cs))"

definition get_category_tree ::
  "(string \<Rightarrow> nat) \<Rightarrow> (string \<Rightarrow> nat) \<Rightarrow> uuid option \<Rightarrow> market \<Rightarrow> tree_node list" where
  "get_category_tree db_rank rank scope m =
     (let cs = list_categories db_rank scope m in build_tree rank (length cs) cs)"

section \<open>Products\<close>

record product_detail =
  pd_product :: product_row
  pd_variants :: "variant_row list"
  pd_images :: "(image_row \<times> string) list"
  pd_fields :: "field_row list"

definition with_image_url :: "(string \<Rightarrow> string \<Rightarrow> string \<Rightarrow> string) \<Rightarrow> image_row \<Rightarrow> image_row \<times> string" where
  "with_image_url url im = (im, url (im_public im) (im_resource im) (im_delivery im))"

definition product_detail_of ::
  "(string \<Rightarrow> string \<Rightarrow> string \<Rightarrow> string) \<Rightarrow> market \<Rightarrow> product_row \<Rightarrow> product_detail" where
  "product_detail_of url m p =
     \<lparr>pd_product = p,
      pd_variants = filter (\<lambda>v. va_product v = p_id p) (variants m),
      pd_images = map (with_image_url url) (sort_key im_sort (filter (\<lambda>i. im_product i = p_id p) (images m))),
      pd_fields = sort_key f_sort (filter (\<lambda>f. f_product f = p_id p) (custom_fields m))\<rparr>"

text \<open>Case-insensitive containment, and the filters of the public list.\<close>

fun contains :: "string \<Rightarrow> string \<Rightarrow> bool" where
  "contains needle [] = (needle = [])"
| "contains needle (c # s) = (take (length needle) (c # s) = needle \<or> contains needle s)"

definition name_matches :: "string option \<Rightarrow> string \<Rightarrow> bool" where
  "name_matches search name =
     (case search of None \<Rightarrow> True
      | Some s \<Rightarrow> s = '''' \<or> contains (to_lower s) (to_lower name))"

datatype product_sort = Newest | PriceAsc | PriceDesc | RatingDesc

record product_query =
  pq_category :: "uuid option"
  pq_search :: "string option"
  pq_min_price :: "rat option"
  pq_max_price :: "rat option"
  pq_min_rating :: "rat option"
  pq_sort :: product_sort
  pq_page :: nat
  pq_limit :: nat

definition product_where :: "product_query \<Rightarrow> uuid option \<Rightarrow> product_row \<Rightarrow> bool" where
  "product_where q scope p \<longleftrightarrow>
     p_active p \<and>
     (case scope of None \<Rightarrow> True | Some t \<Rightarrow> p_tenant p = t) \<and>
     (case pq_category q of None \<Rightarrow> True | Some c \<Rightarrow> p_category p = c) \<and>
     name_matches (pq_search q) (p_name p) \<and>
     (case pq_min_price q of None \<Rightarrow> True | Some x \<Rightarrow> x \<le> dec_value (p_base_price p)) \<and>
     (case pq_max_price q of None \<Rightarrow> True | Some x \<Rightarrow> dec_value (p_base_price p) \<le> x) \<and>
     (case pq_min_rating q of None \<Rightarrow> True
      | Some x \<Rightarrow> (case p_rating p of None \<Rightarrow> False | Some r \<Rightarrow> x \<le> dec_value r))"

text \<open>Postgres sorts nulls first in a descending order.\<close>

fun sort_products :: "product_sort \<Rightarrow> product_row list \<Rightarrow> product_row list" where
  "sort_products Newest ps = sort_key (\<lambda>p. - p_created p) ps"
| "sort_products PriceAsc ps = sort_key (\<lambda>p. dec_value (p_base_price p)) ps"
| "sort_products PriceDesc ps = sort_key (\<lambda>p. - dec_value (p_base_price p)) ps"
| "sort_products RatingDesc ps =
     filter (\<lambda>p. p_rating p = None) ps @
     sort_key (\<lambda>p. - dec_value (the (p_rating p))) (filter (\<lambda>p. p_rating p \<noteq> None) ps)"

definition product_page ::
  "(string \<Rightarrow> string \<Rightarrow> string \<Rightarrow> string) \<Rightarrow> nat \<Rightarrow> nat \<Rightarrow> product_row list \<Rightarrow> market
     \<Rightarrow> product_detail list \<times> page_meta" where
  "product_page url page limit matching m =
     (map (product_detail_of url m) (page_slice page limit matching),
      \<lparr>pm_page = page, pm_limit = limit, pm_total = length matching,
       pm_total_pages = total_pages limit (length matching)\<rparr>)"

definition list_products where
  "list_products url q scope m =
     product_page url (pq_page q) (pq_limit q)
       (sort_products (pq_sort q) (filter (product_where q scope) (products m))) m"

definition get_product_by_slug ::
  "(string \<Rightarrow> string \<Rightarrow> string \<Rightarrow> string) \<Rightarrow> string \<Rightarrow> uuid option \<Rightarrow> market \<Rightarrow> product_detail result" where
  "get_product_by_slug url slug scope m =
     map_sum id (product_detail_of url m)
       (or_throw (List.find (\<lambda>p. p_slug p = slug \<and> p_active p \<and>
           (case scope of None \<Rightarrow> True | Some t \<Rightarrow> p_tenant p = t)) (products m))
         (NotFound ''Product not found''))"

definition admin_product_where ::
  "tenant_context \<Rightarrow> uuid option \<Rightarrow> string option \<Rightarrow> bool option \<Rightarrow> product_row \<Rightarrow> bool" where
  "admin_product_where ctx category search active p \<longleftrightarrow>
     p_tenant p = tc_tenant ctx \<and>
     (case active of None \<Rightarrow> True | Some a \<Rightarrow> p_active p = a) \<and>
     (case category of None \<Rightarrow> True | Some c \<Rightarrow> p_category p = c) \<and>
     name_matches search (p_name p)"

definition admin_list_products where
  "admin_list_products url ctx page limit category search active m =
     product_page url page limit
       (sort_key (\<lambda>p. - p_created p)
         (filter (admin_product_where ctx category search active) (products m))) m"

definition own_product :: "tenant_context \<Rightarrow> uuid \<Rightarrow> market \<Rightarrow> product_row result" where
  "own_product ctx i m =
     then_do (or_throw (find_product i m) (NotFound ''Product not found'')) (\<lambda>p.
     then_do (assert_object_in_tenant (Some (p_tenant p)) (tc_tenant ctx)) (\<lambda>_.
     Inr p))"

definition admin_get_product where
  "admin_get_product url ctx i m = map_sum id (product_detail_of url m) (own_product ctx i m)"

record product_dto =
  qd_category :: uuid
  qd_name :: string
  qd_slug :: string
  qd_base_price :: decimal
  qd_min :: int
  qd_max :: "int option"

definition new_product :: "tenant_context \<Rightarrow> product_dto \<Rightarrow> instant \<Rightarrow> uuid \<Rightarrow> product_row" where
  "new_product ctx d now i =
     \<lparr>p_id = i, p_category = qd_category d, p_name = qd_name d, p_slug = qd_slug d,
      p_base_price = qd_base_price d, p_min = qd_min d, p_max = qd_max d, p_active = True,
      p_rating = None, p_reviews = 0, p_tenant = tc_tenant ctx, p_store = None, p_created = now\<rparr>"

definition create_product ::
  "tenant_context \<Rightarrow> uuid \<Rightarrow> product_dto \<Rightarrow> instant \<Rightarrow> (market, product_detail) tx" where
  "create_product ctx actor d now m =
     then_do (own_category ctx (qd_category d) m) (\<lambda>_.
     then_do (enforce_limit (tc_tenant ctx) Products 1 None m) (\<lambda>m1.
     let p = new_product ctx d now (fresh m1)
     in then_do (require (product_slugs_ok (products m1 @ [p]))
          (Conflict ''A product with this slug already exists'')) (\<lambda>_.
        Inr (\<lparr>pd_product = p, pd_variants = [], pd_images = [], pd_fields = []\<rparr>,
          audit ctx actor ''product.create'' (p_id p)
            (take_ids 1 (m1\<lparr>products := products m1 @ [p]\<rparr>))))))"

record product_update =
  qu_category :: "uuid option"
  qu_name :: "string option"
  qu_slug :: "string option"
  qu_base_price :: "decimal option"
  qu_min :: "int option"
  qu_max :: "int option option"

definition apply_product_update :: "product_update \<Rightarrow> product_row \<Rightarrow> product_row" where
  "apply_product_update d p =
     p\<lparr>p_category := given_value (qu_category d) (p_category p),
       p_name := given_value (qu_name d) (p_name p), p_slug := given_value (qu_slug d) (p_slug p),
       p_base_price := given_value (qu_base_price d) (p_base_price p),
       p_min := given_value (qu_min d) (p_min p), p_max := given_value (qu_max d) (p_max p)\<rparr>"

definition update_product ::
  "(string \<Rightarrow> string \<Rightarrow> string \<Rightarrow> string) \<Rightarrow> tenant_context \<Rightarrow> uuid \<Rightarrow> uuid \<Rightarrow> product_update
     \<Rightarrow> (market, product_detail) tx" where
  "update_product url ctx actor i d m =
     then_do (own_product ctx i m) (\<lambda>p.
     then_do (case qu_category d of None \<Rightarrow> Inr () | Some c \<Rightarrow> map_sum id (\<lambda>_. ()) (own_category ctx c m)) (\<lambda>_.
     let ps = update_rows (\<lambda>p. p_id p = i) (apply_product_update d) (products m);
         p' = apply_product_update d p
     in then_do (require (product_slugs_ok ps) (Conflict ''A product with this slug already exists'')) (\<lambda>_.
        then_do (require (category_in_store (p_store p') (Some (p_category p')) (categories m))
          store_reference_error) (\<lambda>_.
        let m1 = m\<lparr>products := ps\<rparr>
        in Inr (product_detail_of url m1 p', audit ctx actor ''product.update'' i m1)))))"

definition set_product_active ::
  "tenant_context \<Rightarrow> uuid \<Rightarrow> uuid \<Rightarrow> bool \<Rightarrow> string \<Rightarrow> (market, unit) tx" where
  "set_product_active ctx actor i active action m =
     then_do (own_product ctx i m) (\<lambda>_.
     Inr ((), audit ctx actor action i
       (m\<lparr>products := update_rows (\<lambda>p. p_id p = i) (\<lambda>p. p\<lparr>p_active := active\<rparr>) (products m)\<rparr>)))"

definition deactivate_product where
  "deactivate_product ctx actor i = set_product_active ctx actor i False ''product.deactivate''"

definition reactivate_product where
  "reactivate_product ctx actor i = set_product_active ctx actor i True ''product.reactivate''"

section \<open>Variants\<close>

record variant_dto =
  vd_label :: string
  vd_delta :: "decimal option"
  vd_available :: "bool option"

definition create_variant ::
  "tenant_context \<Rightarrow> uuid \<Rightarrow> uuid \<Rightarrow> variant_dto \<Rightarrow> (market, variant_row) tx" where
  "create_variant ctx actor product d m =
     then_do (own_product ctx product m) (\<lambda>_.
     let v = \<lparr>va_id = fresh m, va_product = product, va_label = vd_label d,
               va_delta = given_value (vd_delta d) (Dec 0 0),
               va_available = given_value (vd_available d) True, va_tenant = tc_tenant ctx\<rparr>
     in then_do (require (variant_labels_ok (variants m @ [v]))
          (Conflict ''A variant with this label already exists for this product'')) (\<lambda>_.
        Inr (v, audit ctx actor ''product.variant_create'' (va_id v)
          (take_ids 1 (m\<lparr>variants := variants m @ [v]\<rparr>)))))"

record variant_update =
  vu_label :: "string option"
  vu_delta :: "decimal option"
  vu_available :: "bool option"

definition apply_variant_update :: "variant_update \<Rightarrow> variant_row \<Rightarrow> variant_row" where
  "apply_variant_update d v =
     v\<lparr>va_label := given_value (vu_label d) (va_label v), va_delta := given_value (vu_delta d) (va_delta v),
       va_available := given_value (vu_available d) (va_available v)\<rparr>"

definition update_variant ::
  "tenant_context \<Rightarrow> uuid \<Rightarrow> uuid \<Rightarrow> uuid \<Rightarrow> variant_update \<Rightarrow> (market, variant_row) tx" where
  "update_variant ctx actor product i d m =
     then_do (own_product ctx product m) (\<lambda>_.
     then_do (or_throw (find_variant i m) (NotFound ''Variant not found for this product'')) (\<lambda>v.
     then_do (require (va_product v = product) (NotFound ''Variant not found for this product'')) (\<lambda>_.
     let vs = update_rows (\<lambda>v. va_id v = i) (apply_variant_update d) (variants m)
     in then_do (require (variant_labels_ok vs)
          (Conflict ''A variant with this label already exists for this product'')) (\<lambda>_.
        Inr (apply_variant_update d v,
          audit ctx actor ''product.variant_update'' i (m\<lparr>variants := vs\<rparr>))))))"

section \<open>Customization fields\<close>

record field_dto =
  fd_label :: string
  fd_type :: field_type
  fd_required :: "bool option"
  fd_sort :: "int option"
  fd_help :: "string option"
  fd_constraints :: "json_constraints option"
  fd_surcharge_type :: "surcharge_type option"
  fd_surcharge :: "decimal option"

definition create_customization_field ::
  "tenant_context \<Rightarrow> uuid \<Rightarrow> uuid \<Rightarrow> field_dto \<Rightarrow> (market, field_row) tx" where
  "create_customization_field ctx actor product d m =
     then_do (own_product ctx product m) (\<lambda>_.
     let f = \<lparr>f_id = fresh m, f_product = product, f_label = fd_label d, f_type = fd_type d,
               f_required = given_value (fd_required d) False, f_sort = given_value (fd_sort d) 0,
               f_help = fd_help d, f_constraints = given_value (fd_constraints d) NoObject,
               f_surcharge_type = given_value (fd_surcharge_type d) NoSurcharge,
               f_surcharge = given_value (fd_surcharge d) (Dec 0 0), f_tenant = tc_tenant ctx\<rparr>
     in Inr (f, audit ctx actor ''product.customization_create'' (f_id f)
          (take_ids 1 (m\<lparr>custom_fields := custom_fields m @ [f]\<rparr>))))"

record field_update =
  fu_label :: "string option"
  fu_type :: "field_type option"
  fu_required :: "bool option"
  fu_sort :: "int option"
  fu_help :: "string option"
  fu_constraints :: "json_constraints option"
  fu_surcharge_type :: "surcharge_type option"
  fu_surcharge :: "decimal option"

definition apply_field_update :: "field_update \<Rightarrow> field_row \<Rightarrow> field_row" where
  "apply_field_update d f =
     f\<lparr>f_label := given_value (fu_label d) (f_label f), f_type := given_value (fu_type d) (f_type f),
       f_required := given_value (fu_required d) (f_required f), f_sort := given_value (fu_sort d) (f_sort f),
       f_help := (case fu_help d of None \<Rightarrow> f_help f | Some h \<Rightarrow> Some h),
       f_constraints := given_value (fu_constraints d) (f_constraints f),
       f_surcharge_type := given_value (fu_surcharge_type d) (f_surcharge_type f),
       f_surcharge := given_value (fu_surcharge d) (f_surcharge f)\<rparr>"

definition update_customization_field ::
  "tenant_context \<Rightarrow> uuid \<Rightarrow> uuid \<Rightarrow> uuid \<Rightarrow> field_update \<Rightarrow> (market, field_row) tx" where
  "update_customization_field ctx actor product i d m =
     then_do (own_product ctx product m) (\<lambda>_.
     then_do (or_throw (find_field i m) (NotFound ''Customization field not found for this product'')) (\<lambda>f.
     then_do (require (f_product f = product)
       (NotFound ''Customization field not found for this product'')) (\<lambda>_.
     Inr (apply_field_update d f,
       audit ctx actor ''product.customization_update'' i
         (m\<lparr>custom_fields := update_rows (\<lambda>f. f_id f = i) (apply_field_update d) (custom_fields m)\<rparr>)))))"

section \<open>Images\<close>

definition add_image ::
  "(string \<Rightarrow> string \<Rightarrow> string \<Rightarrow> string) \<Rightarrow> tenant_context \<Rightarrow> uuid \<Rightarrow> uuid \<Rightarrow> uuid \<Rightarrow> int option
     \<Rightarrow> bool option \<Rightarrow> (market, image_row \<times> string) tx" where
  "add_image url ctx actor product file position primary m =
     then_do (or_throw (find_upload_by_id file m) (NotFound ''Uploaded file not found'')) (\<lambda>u.
     then_do (own_product ctx product m) (\<lambda>_.
     let im = \<lparr>im_id = fresh m, im_product = product, im_public = up_public u, im_resource = up_resource u,
                im_delivery = up_delivery u, im_sort = given_value position 0,
                im_primary = given_value primary False, im_tenant = tc_tenant ctx\<rparr>
     in Inr (with_image_url url im, audit ctx actor ''product.image_add'' (im_id im)
          (take_ids 1 (m\<lparr>images := images m @ [im]\<rparr>)))))"

definition remove_image :: "tenant_context \<Rightarrow> uuid \<Rightarrow> uuid \<Rightarrow> uuid \<Rightarrow> (market, unit) tx" where
  "remove_image ctx actor product i m =
     then_do (own_product ctx product m) (\<lambda>_.
     then_do (or_throw (List.find (\<lambda>r. im_id r = i) (images m)) (NotFound ''Image not found for this product'')) (\<lambda>im.
     then_do (require (im_product im = product) (NotFound ''Image not found for this product'')) (\<lambda>_.
     Inr ((), audit ctx actor ''product.image_remove'' i
       (m\<lparr>images := filter (\<lambda>r. im_id r \<noteq> i) (images m)\<rparr>)))))"

end
