(* ===== verification/Uploads.thy ===== *)
theory Uploads
  imports Market "HOL-Library.Word"
begin

text \<open>
  \<open>uploads/uploads.service.ts\<close> and \<open>uploads/utils/file-signature.util.ts\<close>: an uploaded file is
  recognised by its first bytes, stored at the media service (a parameter) and counted against the
  tenant's storage in whole mebibytes.
\<close>

type_synonym byte = "8 word"

definition starts_with :: "byte list \<Rightarrow> byte list \<Rightarrow> bool" where
  "starts_with sig buf \<longleftrightarrow> length sig \<le> length buf \<and> take (length sig) buf = sig"

definition signatures :: "(string \<times> byte list) list" where
  "signatures =
     [(''image/png'', [0x89, 0x50, 0x4e, 0x47, 0x0d, 0x0a, 0x1a, 0x0a]),
      (''image/jpeg'', [0xff, 0xd8, 0xff]),
      (''application/pdf'', [0x25, 0x50, 0x44, 0x46])]"

definition detect_file_signature :: "byte list \<Rightarrow> string option" where
  "detect_file_signature buf = map_option fst (List.find (\<lambda>s. starts_with (snd s) buf) signatures)"

definition upload_max_bytes :: int where "upload_max_bytes = 10 * 1024 * 1024"

definition upload_allowed_mime_types :: "string list" where
  "upload_allowed_mime_types = [''image/png'', ''image/jpeg'', ''application/pdf'']"

definition bytes_per_mib :: int where "bytes_per_mib = 1048576"

text \<open>\<open>Math.ceil(bytes / BYTES_PER_MIB)\<close>, exact for byte counts below 2^53.\<close>

definition storage_mib :: "int \<Rightarrow> int" where
  "storage_mib bytes = - ((- bytes) div bytes_per_mib)"

text \<open>What the media service answers.\<close>

record stored_media =
  sm_public :: string
  sm_bytes :: "int option"
  sm_format :: "string option"
  sm_resource :: string

record incoming_file =
  fl_size :: int
  fl_buffer :: "byte list"

definition check_upload :: "incoming_file \<Rightarrow> string result" where
  "check_upload f =
     then_do (require (\<not> fl_size f > upload_max_bytes)
       (PayloadTooLarge (''File exceeds the maximum allowed size of '' @ int_text upload_max_bytes @ '' bytes'')))
     (\<lambda>_.
     case detect_file_signature (fl_buffer f) of
       Some mime \<Rightarrow>
         if mime \<in> set upload_allowed_mime_types then Inr mime
         else Inl (Unprocessable ''This file doesn't match its extension - please re-export and try again.'')
     | None \<Rightarrow> Inl (Unprocessable ''This file doesn't match its extension - please re-export and try again.''))"

definition delivery_type :: "bool \<Rightarrow> string" where
  "delivery_type admin = (if admin then ''upload'' else ''authenticated'')"

definition after_slash :: "string \<Rightarrow> string" where
  "after_slash s = takeWhile (\<lambda>c. c \<noteq> CHR ''/'') (drop 1 (dropWhile (\<lambda>c. c \<noteq> CHR ''/'') s))"

definition store_upload_tx ::
  "uuid \<Rightarrow> uuid \<Rightarrow> bool \<Rightarrow> string \<Rightarrow> incoming_file \<Rightarrow> stored_media \<Rightarrow> (market, uploaded_file) tx" where
  "store_upload_tx user tenant admin mime f media m =
     (let bytes = (case sm_bytes media of None \<Rightarrow> fl_size f | Some b \<Rightarrow> b) in
      then_do (enforce_limit tenant StorageMb (storage_mib bytes) None m) (\<lambda>m1.
      let u = \<lparr>up_id = fresh m1, up_public = sm_public media, up_user = user,
                up_format = (case sm_format media of None \<Rightarrow> after_slash mime | Some x \<Rightarrow> x),
                up_bytes = bytes, up_resource = sm_resource media,
                up_delivery = delivery_type admin, up_tenant = tenant\<rparr>
      in then_do (require (sm_public media \<notin> set (map up_public (uploads m1))) UniqueViolation) (\<lambda>_.
         Inr (u, take_ids 1 (m1\<lparr>uploads := uploads m1 @ [u]\<rparr>)))))"

text \<open>The tenant is resolved only after the file was accepted and stored.\<close>

definition create_upload ::
  "uuid \<Rightarrow> bool \<Rightarrow> (bool \<Rightarrow> stored_media result) \<Rightarrow> uuid result \<Rightarrow> incoming_file
     \<Rightarrow> (market, uploaded_file) tx" where
  "create_upload user admin media tenant f m =
     then_do (check_upload f) (\<lambda>mime.
     then_do (media admin) (\<lambda>stored.
     then_do tenant (\<lambda>t.
     store_upload_tx user t admin mime f stored m)))"

section \<open>Facts\<close>

lemma storage_mib_bounds:
  "bytes \<le> storage_mib bytes * bytes_per_mib \<and> storage_mib bytes * bytes_per_mib < bytes + bytes_per_mib"
proof -
  have "(- bytes) div bytes_per_mib * bytes_per_mib + (- bytes) mod bytes_per_mib = - bytes"
    by (rule div_mult_mod_eq)
  moreover have "0 \<le> (- bytes) mod bytes_per_mib" "(- bytes) mod bytes_per_mib < bytes_per_mib"
    by (simp_all add: bytes_per_mib_def)
  moreover have "storage_mib bytes * bytes_per_mib = - ((- bytes) div bytes_per_mib * bytes_per_mib)"
    by (simp add: storage_mib_def)
  ultimately show ?thesis by linarith
qed

end
