(* ===== verification/MarketReach.thy ===== *)
theory MarketReach
  imports CheckoutFacts Products Uploads ShopReach BillingReach
begin

text \<open>
  The commerce database under every operation of the model: a step is one committed transaction
  or one autocommitted operation of cart, checkout, coupons, products and uploads, one step of the
  order and payment side, or one step of the subscriptions. Three invariants hold in every
  reachable database: the shop inside it is a reachable shop, carts stay in their tenant, and
  every use of a coupon is in its ledger.
\<close>

section \<open>Steps\<close>

text \<open>
  In \<open>shop\<close> the guard says that identifiers are not taken back; \<open>limits\<close> and \<open>configured\<close> stand
  for the services that only change quota rows, or tables that no step reads for its writes.
\<close>

inductive market_step :: "(uuid \<Rightarrow> uuid) \<Rightarrow> market \<Rightarrow> market \<Rightarrow> bool" for po where
  shop: "shop_step po (mk_shop m) db \<Longrightarrow> next_id (mk_shop m) \<le> next_id db \<Longrightarrow>
    market_step po m (m\<lparr>mk_shop := db\<rparr>)"
| billing: "billing_step (billing m) b \<Longrightarrow> market_step po m (m\<lparr>billing := b\<rparr>)"
| limits: "market_step po m (m\<lparr>usages := us\<rparr>)"
| configured: "market_step po m (m\<lparr>entitle := cat, storefronts := sts, tenant_status_of := tst,
    store_settings := ss, tenant_settings := ts\<rparr>)"
| cart: "market_step po m (snd (get_cart user tenant m))"
| add: "market_step po m (snd (add_item num user tenant here dto now m))"
| update: "market_step po m (snd (update_item user tenant i quantity m))"
| remove: "market_step po m (snd (remove_item user tenant i m))"
| checkout: "checkout_tx lib iso_text user co key now m = Inr (x, m') \<Longrightarrow> market_step po m m'"
| create_coupon: "create_coupon ctx actor kd now m = Inr (kv, m') \<Longrightarrow> market_step po m m'"
| update_coupon: "update_coupon ctx actor i ku m = Inr (kv, m') \<Longrightarrow> market_step po m m'"
| create_category: "create_category ctx actor gd m = Inr (c, m') \<Longrightarrow> market_step po m m'"
| update_category: "update_category ctx actor i gu m = Inr (c, m') \<Longrightarrow> market_step po m m'"
| category_active: "set_category_active ctx actor i active action m = Inr (c, m') \<Longrightarrow>
    market_step po m m'"
| create_product: "create_product ctx actor qd now m = Inr (p, m') \<Longrightarrow> market_step po m m'"
| update_product: "update_product url ctx actor i qu m = Inr (p, m') \<Longrightarrow> market_step po m m'"
| product_active: "set_product_active ctx actor i active action m = Inr (u, m') \<Longrightarrow> market_step po m m'"
| create_variant: "create_variant ctx actor i vd m = Inr (v, m') \<Longrightarrow> market_step po m m'"
| update_variant: "update_variant ctx actor i j vu m = Inr (v, m') \<Longrightarrow> market_step po m m'"
| create_field: "create_customization_field ctx actor i fd m = Inr (f, m') \<Longrightarrow> market_step po m m'"
| update_field: "update_customization_field ctx actor i j fu m = Inr (f, m') \<Longrightarrow> market_step po m m'"
| add_image: "add_image url ctx actor i file pos primary m = Inr (im, m') \<Longrightarrow> market_step po m m'"
| remove_image: "remove_image ctx actor i j m = Inr (u, m') \<Longrightarrow> market_step po m m'"
| upload: "create_upload user admin media tenant file m = Inr (up, m') \<Longrightarrow> market_step po m m'"

definition market_start :: "market \<Rightarrow> bool" where
  "market_start m \<longleftrightarrow> orders (mk_shop m) = [] \<and> attempts (mk_shop m) = [] \<and> histories (mk_shop m) = [] \<and>
     carts m = [] \<and> cart_items m = [] \<and> coupons m = [] \<and> coupon_usages m = [] \<and>
     products m = [] \<and> variants m = []"

inductive market_reachable :: "(uuid \<Rightarrow> uuid) \<Rightarrow> market \<Rightarrow> bool" for po where
  start: "market_start m \<Longrightarrow> market_reachable po m"
| step: "market_reachable po m \<Longrightarrow> market_step po m m' \<Longrightarrow> market_reachable po m'"

section \<open>The shop inside\<close>

lemma audit_frames [simp, frames]:
  "mk_shop (audit ctx actor a i m) = log_tenant_action ctx actor a i (mk_shop m)"
  "carts (audit ctx actor a i m) = carts m" "cart_items (audit ctx actor a i m) = cart_items m"
  "products (audit ctx actor a i m) = products m" "variants (audit ctx actor a i m) = variants m"
  "coupons (audit ctx actor a i m) = coupons m"
  "coupon_usages (audit ctx actor a i m) = coupon_usages m"
  "billing (audit ctx actor a i m) = billing m"
  by (simp_all add: audit_def)

lemma log_tenant_action_next [simp]: "next_id (log_tenant_action ctx actor a i db) = next_id db"
  by (simp add: log_tenant_action_def)

lemma take_ids_shop: "mk_shop (take_ids n m) = (mk_shop m)\<lparr>next_id := next_id (mk_shop m) + n\<rparr>"
  by (simp add: take_ids_def)

lemma shop_reachable_ids:
  "shop_reachable po db \<Longrightarrow> shop_reachable po (db\<lparr>next_id := next_id db + n\<rparr>)"
  using shop_reachable.step [OF _ shop_step.lines [where po = po and db = db and its = "[]" and n = n]] by simp

lemma shop_reachable_audit:
  "shop_reachable po db \<Longrightarrow> shop_reachable po (log_tenant_action ctx actor a i db)"
  using shop_reachable.step shop_step.audited by blast

lemma shop_reachable_cart:
  "shop_reachable po (mk_shop m) \<Longrightarrow> shop_reachable po (mk_shop (snd (get_or_create_cart user tenant m)))"
  by (auto simp: get_or_create_cart_def take_ids_shop Let_def shop_reachable_ids
      simp del: add_Suc_right split: option.split)

text \<open>
  A checkout is four steps of the shop: it takes the key's identifier, a number, places the order
  with its first history row, and adds the lines.
\<close>

lemma placed_shop_steps:
  "placed_shop user cart store dto a k ls now number db =
     (let db1 = record_creation (next_id db) user (c_tenant cart)
            (create_order_row (new_order user (c_tenant cart) store number a k (co_shipping dto) now) db)
      in db1\<lparr>order_items := order_items db1 @ order_items_of (next_id db1) (next_id db) (c_tenant cart) ls,
           next_id := next_id db1 + length ls\<rparr>)"
  by (simp add: placed_shop_def record_creation_def insert_order_items_def create_order_row_def Let_def)

lemma shop_reachable_placed:
  assumes "shop_reachable po db"
    and "generate_order_number (db\<lparr>next_id := next_id db + 1\<rparr>) = Inr (number, db1)"
  shows "shop_reachable po (placed_shop user cart store dto a k ls now number db1)"
proof -
  have "shop_reachable po db1"
    using shop_reachable_ids [OF assms(1), of 1] shop_step.numbering [OF assms(2)]
      shop_reachable.step by blast
  then show ?thesis
    unfolding placed_shop_steps Let_def
    by (rule shop_reachable.step [OF shop_reachable.step [OF _ shop_step.place] shop_step.lines])
qed

lemma shop_reachable_checkout:
  assumes "shop_reachable po (mk_shop m)"
    and "checkout_tx lib iso_text user dto key now m = Inr ((order, created), m')"
  shows "shop_reachable po (mk_shop m')"
proof (cases created)
  case True
  then have tx: "checkout_tx lib iso_text user dto key now m = Inr ((order, True), m')"
    using assms(2) by simp
  show ?thesis
  proof (rule checkout_effect [OF tx])
    fix cart ks ls store a k shipping discount ship number db1 us start
    assume gen: "generate_order_number ((mk_shop m)\<lparr>next_id := fresh m + 1\<rparr>) = Inr (number, db1)"
      and m': "m' = delete_items (\<lambda>it. ci_id it \<in> set (map (\<lambda>l. ci_id (ln_item l)) ls))
       ((claimed m ks)\<lparr>coupons := (case k of None \<Rightarrow> coupons m | Some k \<Rightarrow> claim_use (k_id k) (coupons m)),
          usages := us,
          coupon_usages := (case k of None \<Rightarrow> coupon_usages m
            | Some k \<Rightarrow> coupon_usages m @ [ledger_row k user order (am_discount a) (c_tenant cart)]),
          mk_shop := placed_shop user cart store dto a k ls now number db1,
          billing := (billing m)\<lparr>bd_idem := record_result (fresh m) order ks\<rparr>\<rparr>)"
    show ?thesis unfolding m' using shop_reachable_placed [OF assms(1) gen] by simp
  qed
next
  case False
  then have "m' = m"
    using assms(2) by (auto simp: checkout_tx_def Let_def split: option.splits if_splits)
  then show ?thesis using assms(1) by simp
qed

lemma insert_item_shop:
  "insert_item_tx c p v dto now m = Inr (w, m') \<Longrightarrow>
     mk_shop m' = (mk_shop m)\<lparr>next_id := next_id (mk_shop m) + (1 + length (ad_customs dto))\<rparr>"
  by (auto simp: insert_item_tx_def Let_def take_ids_shop)

lemma shop_reachable_add:
  assumes "shop_reachable po (mk_shop m)"
  shows "shop_reachable po (mk_shop (snd (add_item num user tenant here dto now m)))"
proof -
  obtain c m1 where c: "get_or_create_cart user tenant m = (c, m1)" by fastforce
  then have m1: "shop_reachable po (mk_shop m1)" using shop_reachable_cart [OF assms, of user tenant] by simp
  show ?thesis
  proof (cases "check_add_item num user tenant here dto c m1")
    case (Inl e)
    then show ?thesis using m1 by (simp add: add_item_def c)
  next
    case (Inr pv)
    then show ?thesis
      using m1 shop_reachable_ids [OF m1]
      by (cases pv) (auto simp: add_item_def c run_tx_def dest!: insert_item_shop
          simp del: add_Suc_right split: sum.splits prod.splits)
  qed
qed

lemma shop_reachable_update:
  assumes "shop_reachable po (mk_shop m)"
  shows "shop_reachable po (mk_shop (snd (update_item user tenant i quantity m)))"
    and "shop_reachable po (mk_shop (snd (remove_item user tenant i m)))"
    and "shop_reachable po (mk_shop (snd (get_cart user tenant m)))"
proof -
  obtain c m1 where c: "get_or_create_cart user tenant m = (c, m1)" by fastforce
  then have m1: "shop_reachable po (mk_shop m1)" using shop_reachable_cart [OF assms, of user tenant] by simp
  show "shop_reachable po (mk_shop (snd (update_item user tenant i quantity m)))"
    using m1 by (auto simp: update_item_def c run_tx_def set_quantity_tx_def Let_def
        split: sum.splits prod.splits option.splits)
  show "shop_reachable po (mk_shop (snd (remove_item user tenant i m)))"
    using m1 by (auto simp: remove_item_def c split: sum.split)
  show "shop_reachable po (mk_shop (snd (get_cart user tenant m)))"
    using m1 by (simp add: get_cart_def c)
qed

lemmas admin_write_defs =
  create_coupon_def update_coupon_def create_category_def update_category_def set_category_active_def
  create_product_def update_product_def set_product_active_def create_variant_def update_variant_def
  create_customization_field_def update_customization_field_def add_image_def remove_image_def
  create_upload_def store_upload_tx_def Let_def

lemma market_step_shop:
  assumes "market_step po m m'" and "shop_reachable po (mk_shop m)"
  shows "shop_reachable po (mk_shop m')"
  using assms(1)
proof cases
  case (shop db)
  then show ?thesis using assms(2) shop_reachable.step by auto
next
  case (checkout lib iso_text user co key now x)
  then show ?thesis using shop_reachable_checkout [OF assms(2)] by (cases x) auto
next
  case (add num user tenant here dto now)
  then show ?thesis using shop_reachable_add [OF assms(2)] by simp
qed (use assms(2) in \<open>auto simp: admin_write_defs take_ids_shop shop_reachable_audit shop_reachable_ids
    shop_reachable_update shop_reachable_cart simp del: add_Suc_right dest!: enforce_limit_market\<close>)

section \<open>Carts and coupons\<close>

text \<open>What a cart item refers to, as pairs of keys.\<close>

definition product_keys :: "market \<Rightarrow> (uuid \<times> uuid) set" where
  "product_keys m = set (map (\<lambda>p. (p_id p, p_tenant p)) (products m))"

definition variant_keys :: "market \<Rightarrow> (uuid \<times> uuid \<times> uuid) set" where
  "variant_keys m = set (map (\<lambda>v. (va_id v, va_product v, va_tenant v)) (variants m))"

definition cart_keys :: "market \<Rightarrow> (uuid \<times> uuid) set" where
  "cart_keys m = set (map (\<lambda>c. (c_id c, c_tenant c)) (carts m))"

definition item_ok :: "market \<Rightarrow> cart_item \<Rightarrow> bool" where
  "item_ok m it \<longleftrightarrow>
     (ci_cart it, ci_tenant it) \<in> cart_keys m \<and> (ci_product it, ci_tenant it) \<in> product_keys m \<and>
     (\<forall>v. ci_variant it = Some v \<longrightarrow> (v, ci_product it, ci_tenant it) \<in> variant_keys m)"

definition carts_ok :: "market \<Rightarrow> bool" where
  "carts_ok m \<longleftrightarrow> (\<forall>it \<in> set (cart_items m). item_ok m it)"

definition ledger_ok :: "market \<Rightarrow> bool" where
  "ledger_ok m \<longleftrightarrow>
     distinct (map k_id (coupons m)) \<and> (\<forall>k \<in> set (coupons m). k_id k < fresh m) \<and>
     (\<forall>u \<in> set (coupon_usages m). \<exists>k \<in> set (coupons m). k_id k = ku_coupon u \<and> k_tenant k = ku_tenant u) \<and>
     (\<forall>k \<in> set (coupons m). k_used k = int (hits (\<lambda>u. ku_coupon u = k_id k) (coupon_usages m)))"

text \<open>A step that only adds rows and keeps their keys.\<close>

lemma carts_ok_mono:
  assumes "carts_ok m" and "set (cart_items m') \<subseteq> set (cart_items m)"
    and "cart_keys m \<subseteq> cart_keys m'" "product_keys m \<subseteq> product_keys m'" "variant_keys m \<subseteq> variant_keys m'"
  shows "carts_ok m'"
  using assms by (fastforce simp: carts_ok_def item_ok_def)

lemma keys_kept:
  "carts m' = carts m \<Longrightarrow> cart_keys m' = cart_keys m"
  "products m' = products m \<Longrightarrow> product_keys m' = product_keys m"
  "variants m' = variants m \<Longrightarrow> variant_keys m' = variant_keys m"
  by (simp_all add: cart_keys_def product_keys_def variant_keys_def)

lemma item_ok_same:
  "carts m' = carts m \<Longrightarrow> products m' = products m \<Longrightarrow> variants m' = variants m \<Longrightarrow>
     item_ok m' it = item_ok m it"
  by (simp add: item_ok_def cart_keys_def product_keys_def variant_keys_def)

lemma product_keys_update:
  "(\<And>p. p_id (f p) = p_id p \<and> p_tenant (f p) = p_tenant p) \<Longrightarrow>
     set (map (\<lambda>p. (p_id p, p_tenant p)) (update_rows q f ps)) = set (map (\<lambda>p. (p_id p, p_tenant p)) ps)"
  by (simp add: map_update_rows del: set_map)

lemma variant_keys_update:
  "(\<And>v. va_id (f v) = va_id v \<and> va_product (f v) = va_product v \<and> va_tenant (f v) = va_tenant v) \<Longrightarrow>
     set (map (\<lambda>v. (va_id v, va_product v, va_tenant v)) (update_rows q f vs)) =
     set (map (\<lambda>v. (va_id v, va_product v, va_tenant v)) vs)"
  by (simp add: map_update_rows del: set_map)

lemma ledger_ok_same:
  assumes "ledger_ok m" and "coupons m' = coupons m" "coupon_usages m' = coupon_usages m"
    and "fresh m \<le> fresh m'"
  shows "ledger_ok m'"
  using assms by (auto simp: ledger_ok_def intro: less_le_trans)

lemma get_or_create_cart_ok:
  assumes "get_or_create_cart user tenant m = (c, m1)"
  shows "cart_items m1 = cart_items m \<and> products m1 = products m \<and> variants m1 = variants m \<and>
    coupons m1 = coupons m \<and> coupon_usages m1 = coupon_usages m \<and> fresh m \<le> fresh m1 \<and>
    cart_keys m \<subseteq> cart_keys m1 \<and> (c_id c, c_tenant c) \<in> cart_keys m1"
proof (cases "find_cart_of_user user m")
  case None
  then show ?thesis using assms by (auto simp: get_or_create_cart_def Let_def cart_keys_def)
next
  case (Some c')
  then have "c' \<in> set (carts m)" by (auto simp: find_cart_of_user_def dest: find_SomeD)
  then show ?thesis using Some assms by (auto simp: get_or_create_cart_def cart_keys_def)
qed

lemma cart_created_ok:
  assumes "get_or_create_cart user tenant m = (c, m1)"
  shows "carts_ok m \<Longrightarrow> carts_ok m1" and "ledger_ok m \<Longrightarrow> ledger_ok m1"
proof -
  note k = get_or_create_cart_ok [OF assms]
  show "carts_ok m \<Longrightarrow> carts_ok m1"
    using k by (elim carts_ok_mono) (auto simp: product_keys_def variant_keys_def)
  show "ledger_ok m \<Longrightarrow> ledger_ok m1" using k by (elim ledger_ok_same) auto
qed

lemma added_item_ok:
  assumes check: "check_add_item num user tenant here dto c m = Inr (p, v)"
    and c: "(c_id c, c_tenant c) \<in> cart_keys m"
  shows "item_ok m (new_cart_item c p v q now m)"
proof -
  have p: "get_active_product (ad_product dto) (c_tenant c) m = Inr p"
    and v: "get_active_variant p (ad_variant dto) (c_tenant c) m = Inr v"
    using check by (auto simp: check_add_item_def)
  from p have "(p_id p, c_tenant c) \<in> product_keys m"
    by (force simp: get_active_product_def product_keys_def dest!: find_SomeD)
  moreover from v have "(w, p_id p, c_tenant c) \<in> variant_keys m" if "map_option va_id v = Some w" for w
    using that
    by (force simp: get_active_variant_def variant_keys_def dest!: find_SomeD split: option.splits)
  ultimately show ?thesis using c by (auto simp: item_ok_def new_cart_item_def)
qed

lemma add_item_ok:
  assumes "carts_ok m" and "ledger_ok m"
  shows "carts_ok (snd (add_item num user tenant here dto now m)) \<and>
    ledger_ok (snd (add_item num user tenant here dto now m))"
proof -
  obtain c m1 where c: "get_or_create_cart user tenant m = (c, m1)" by fastforce
  note ok = cart_created_ok [OF c] and k = get_or_create_cart_ok [OF c]
  show ?thesis
  proof (cases "check_add_item num user tenant here dto c m1")
    case (Inl e)
    then show ?thesis using ok assms by (simp add: add_item_def c)
  next
    case (Inr pv)
    obtain p v where pv: "pv = (p, v)" by fastforce
    let ?t = "insert_item_tx c p v dto now"
    show ?thesis
    proof (cases "?t m1")
      case (Inl e)
      then show ?thesis using ok assms Inr pv by (simp add: add_item_def c run_tx_def)
    next
      case r: (Inr wm)
      obtain w m2 where wm: "wm = (w, m2)" by fastforce
      let ?it = "new_cart_item c p v (ad_quantity dto) now m1"
      have m2: "cart_items m2 = cart_items m1 @ [?it]" "carts m2 = carts m1" "products m2 = products m1"
        "variants m2 = variants m1" "coupons m2 = coupons m1" "coupon_usages m2 = coupon_usages m1"
        "fresh m1 \<le> fresh m2"
        using r wm by (auto simp: insert_item_tx_def Let_def)
      have "item_ok m1 ?it" using added_item_ok [OF Inr [unfolded pv]] k by simp
      then have "carts_ok m2"
        using ok(1) assms(1) m2(1) item_ok_same [OF m2(2-4)] by (auto simp: carts_ok_def)
      moreover have "ledger_ok m2" using ledger_ok_same [OF ok(2) [OF assms(2)]] m2 by simp
      ultimately show ?thesis using Inr pv r wm by (simp add: add_item_def c run_tx_def)
    qed
  qed
qed

lemma cart_item_kept:
  "map (\<lambda>it. (ci_cart it, ci_product it, ci_variant it, ci_tenant it)) (cart_items m') =
     map (\<lambda>it. (ci_cart it, ci_product it, ci_variant it, ci_tenant it)) (cart_items m) \<Longrightarrow>
   carts m' = carts m \<Longrightarrow> products m' = products m \<Longrightarrow> variants m' = variants m \<Longrightarrow>
   carts_ok m \<Longrightarrow> carts_ok m'"
proof -
  assume eq: "map (\<lambda>it. (ci_cart it, ci_product it, ci_variant it, ci_tenant it)) (cart_items m') =
     map (\<lambda>it. (ci_cart it, ci_product it, ci_variant it, ci_tenant it)) (cart_items m)"
    and same: "carts m' = carts m" "products m' = products m" "variants m' = variants m" and ok: "carts_ok m"
  show "carts_ok m'"
    unfolding carts_ok_def
  proof
    fix it
    assume "it \<in> set (cart_items m')"
    then have "(ci_cart it, ci_product it, ci_variant it, ci_tenant it) \<in>
        set (map (\<lambda>it. (ci_cart it, ci_product it, ci_variant it, ci_tenant it)) (cart_items m))"
      unfolding eq [symmetric] by force
    then obtain it0 where "it0 \<in> set (cart_items m)" "ci_cart it0 = ci_cart it"
      "ci_product it0 = ci_product it" "ci_variant it0 = ci_variant it" "ci_tenant it0 = ci_tenant it"
      by auto
    moreover from this have "item_ok m it0" using ok by (simp add: carts_ok_def)
    ultimately have "item_ok m it" by (simp add: item_ok_def)
    then show "item_ok m' it" by (simp only: item_ok_same [OF same])
  qed
qed

lemma update_item_ok:
  assumes "carts_ok m" and "ledger_ok m"
  shows "carts_ok (snd (update_item user tenant i quantity m)) \<and>
    ledger_ok (snd (update_item user tenant i quantity m))"
proof -
  obtain c m1 where c: "get_or_create_cart user tenant m = (c, m1)" by fastforce
  note ok = cart_created_ok [OF c]
  show ?thesis
  proof (cases "check_update_item i quantity c m1")
    case (Inl e)
    then show ?thesis using ok assms by (simp add: update_item_def c)
  next
    case (Inr u)
    show ?thesis
    proof (cases "set_quantity_tx i quantity m1")
      case (Inl e)
      then show ?thesis using ok assms Inr by (simp add: update_item_def c run_tx_def)
    next
      case r: (Inr wm)
      obtain w m2 where wm: "wm = (w, m2)" by fastforce
      have "m2 = m1\<lparr>cart_items :=
          update_rows (\<lambda>it. ci_id it = i) (\<lambda>it. it\<lparr>ci_quantity := quantity\<rparr>) (cart_items m1)\<rparr>"
        using r wm by (auto simp: set_quantity_tx_def Let_def split: option.splits)
      then have "carts_ok m2" "ledger_ok m2"
        using cart_item_kept [of m2 m1] ledger_ok_same [OF ok(2) [OF assms(2)], of m2] ok(1) assms(1)
        by (simp_all add: map_update_rows)
      then show ?thesis using Inr r wm by (simp add: update_item_def c run_tx_def)
    qed
  qed
qed

lemma delete_items_ok:
  "carts_ok m \<Longrightarrow> carts_ok (delete_items p m)" "ledger_ok m \<Longrightarrow> ledger_ok (delete_items p m)"
proof -
  show "carts_ok m \<Longrightarrow> carts_ok (delete_items p m)"
    by (elim carts_ok_mono)
      (auto simp: delete_items_def Let_def cart_keys_def product_keys_def variant_keys_def)
  show "ledger_ok m \<Longrightarrow> ledger_ok (delete_items p m)" by (elim ledger_ok_same) auto
qed

lemma remove_item_ok:
  assumes "carts_ok m" and "ledger_ok m"
  shows "carts_ok (snd (remove_item user tenant i m)) \<and> ledger_ok (snd (remove_item user tenant i m))"
proof -
  obtain c m1 where c: "get_or_create_cart user tenant m = (c, m1)" by fastforce
  show ?thesis
    using cart_created_ok [OF c] assms delete_items_ok
    by (auto simp: remove_item_def c split: sum.split)
qed

text \<open>A claimed use and its ledger row are written by the same transaction.\<close>

lemma claim_then_record:
  assumes ok: "ledger_ok m" and k: "k \<in> set (coupons m)" and hit: "hits (claim_hit (k_id k)) (coupons m) \<noteq> 0"
    and m': "coupons m' = claim_use (k_id k) (coupons m)" "coupon_usages m' = coupon_usages m @ [u]"
    and u: "ku_coupon u = k_id k" "ku_tenant u = k_tenant k" and ids: "fresh m \<le> fresh m'"
  shows "ledger_ok m'"
proof -
  have d: "distinct (map k_id (coupons m))" using ok by (simp add: ledger_ok_def)
  have only: "x = k" if "x \<in> set (coupons m)" "k_id x = k_id k" for x
    using distinct_key_inj [OF d that(1) k that(2)] .
  have kh: "claim_hit (k_id k) k" using hit only unfolding hits_0_iff by (auto simp: claim_hit_def)
  have rows: "x \<in> set (coupons m') \<Longrightarrow> \<exists>y \<in> set (coupons m). k_id x = k_id y \<and> k_tenant x = k_tenant y \<and>
      k_used x = k_used y + (if k_id y = k_id k then 1 else 0)" for x
    using only kh by (auto simp: m' claim_use_def claim_hit_def elim!: update_rows_cases) force+
  have tenants: "map (\<lambda>k. (k_id k, k_tenant k)) (coupons m') = map (\<lambda>k. (k_id k, k_tenant k)) (coupons m)"
    by (simp add: m' claim_use_def map_update_rows)
  have in_keys: "(\<exists>k \<in> set (coupons x). k_id k = i \<and> k_tenant k = t) \<longleftrightarrow>
      (i, t) \<in> set (map (\<lambda>k. (k_id k, k_tenant k)) (coupons x))" for i t x
    by auto
  have "\<forall>u' \<in> set (coupon_usages m'). \<exists>k \<in> set (coupons m'). k_id k = ku_coupon u' \<and> k_tenant k = ku_tenant u'"
    using ok k u unfolding in_keys tenants unfolding ledger_ok_def in_keys m' by auto
  moreover have "k_id x < fresh m'" if "x \<in> set (coupons m')" for x
    using rows [OF that] ok ids by (auto simp: ledger_ok_def intro: less_le_trans)
  moreover have "k_used x = int (hits (\<lambda>u. ku_coupon u = k_id x) (coupon_usages m'))"
    if x: "x \<in> set (coupons m')" for x
  proof -
    obtain y where "y \<in> set (coupons m)" "k_id x = k_id y"
      "k_used x = k_used y + (if k_id y = k_id k then 1 else 0)"
      using rows [OF x] by blast
    then show ?thesis using ok u(1) by (simp add: ledger_ok_def m'(2))
  qed
  moreover have "distinct (map k_id (coupons m'))" using d by (simp add: m'(1))
  ultimately show ?thesis by (simp add: ledger_ok_def)
qed

lemma checkout_ok:
  assumes tx: "checkout_tx lib iso_text user dto key now m = Inr ((order, True), m')"
    and ok: "carts_ok m" "ledger_ok m"
  shows "carts_ok m' \<and> ledger_ok m'"
proof (rule checkout_effect [OF tx])
  fix cart ks ls store a k shipping discount ship number db1 us start
  assume claim: "claim_coupon dto user (c_tenant cart) (sum_line_totals (map price_item ls)) shipping ls now
       (claimed m ks) = Inr ((k, discount, ship), (claimed m ks)\<lparr>coupons :=
          (case k of None \<Rightarrow> coupons m | Some k \<Rightarrow> claim_use (k_id k) (coupons m))\<rparr>)"
    and ids: "next_id db1 = fresh m + 1"
    and m': "m' = delete_items (\<lambda>it. ci_id it \<in> set (map (\<lambda>l. ci_id (ln_item l)) ls))
       ((claimed m ks)\<lparr>coupons := (case k of None \<Rightarrow> coupons m | Some k \<Rightarrow> claim_use (k_id k) (coupons m)),
          usages := us,
          coupon_usages := (case k of None \<Rightarrow> coupon_usages m
            | Some k \<Rightarrow> coupon_usages m @ [ledger_row k user order (am_discount a) (c_tenant cart)]),
          mk_shop := placed_shop user cart store dto a k ls now number db1,
          billing := (billing m)\<lparr>bd_idem := record_result (fresh m) order ks\<rparr>\<rparr>)"
  have c: "carts_ok m'"
    unfolding m' using ok(1)
    by (intro delete_items_ok, elim carts_ok_mono)
      (simp_all add: cart_keys_def product_keys_def variant_keys_def)
  have ids': "fresh m \<le> fresh m'" by (simp add: m' ids)
  from claim have "ledger_ok m'"
  proof (cases rule: claim_coupon_cases)
    case without
    then show ?thesis using ledger_ok_same [OF ok(2)] ids' by (simp add: m')
  next
    case (claimed code cc)
    note v = validate_and_claim_cases [OF claimed(2)]
    have "kc_coupon cc \<in> set (coupons m)" "k_tenant (kc_coupon cc) = c_tenant cart"
      using v(1) by (auto simp: find_coupon_by_code_def coupon_params_of_def dest!: find_SomeD)
    then show ?thesis
      using claim_then_record [OF ok(2), of "kc_coupon cc"] v(5) claimed(3) ids'
      by (simp add: m' ledger_row_def)
  qed
  then show ?thesis using c by simp
qed

lemma create_coupon_ok:
  assumes "create_coupon ctx actor d now m = Inr (v, m')" and ok: "ledger_ok m"
  shows "ledger_ok m'"
proof -
  obtain store where c: "coupons m' = coupons m @ [new_coupon ctx actor store d now (fresh m)]"
    "coupon_usages m' = coupon_usages m" "fresh m' = Suc (fresh m)"
    using assms(1) by (auto simp: create_coupon_def Let_def)
  have new: "k_id (new_coupon ctx actor store d now (fresh m)) = fresh m"
    "k_used (new_coupon ctx actor store d now (fresh m)) = 0"
    by (simp_all add: new_coupon_def)
  have unused: "hits (\<lambda>u. ku_coupon u = fresh m) (coupon_usages m) = 0"
    using ok by (force simp: ledger_ok_def hits_0_iff)
  have "\<forall>u \<in> set (coupon_usages m'). \<exists>k \<in> set (coupons m'). k_id k = ku_coupon u \<and> k_tenant k = ku_tenant u"
    using ok by (fastforce simp: ledger_ok_def c)
  moreover have "distinct (map k_id (coupons m'))" "\<forall>k \<in> set (coupons m'). k_id k < fresh m'"
    using ok by (auto simp: ledger_ok_def c new image_iff less_Suc_eq)
  moreover have "\<forall>k \<in> set (coupons m'). k_used k = int (hits (\<lambda>u. ku_coupon u = k_id k) (coupon_usages m'))"
    using ok unused by (auto simp: ledger_ok_def c new)
  ultimately show ?thesis by (simp add: ledger_ok_def)
qed

lemma update_coupon_ok:
  assumes "update_coupon ctx actor i d m = Inr (v, m')" and ok: "ledger_ok m"
  shows "ledger_ok m'"
proof -
  have m': "coupons m' = update_rows (\<lambda>k. k_id k = i) (apply_coupon_update d) (coupons m)"
    "coupon_usages m' = coupon_usages m" "fresh m' = fresh m"
    using assms(1) by (auto simp: update_coupon_def)
  let ?f = "\<lambda>k. (k_id k, k_tenant k, k_used k)"
  have same: "map ?f (coupons m') = map ?f (coupons m)"
    by (simp add: m' map_update_rows apply_coupon_update_def)
  have ids: "map k_id (coupons m') = map k_id (coupons m)"
    by (simp add: m' map_update_rows apply_coupon_update_def)
  have row: "\<exists>y \<in> set (coupons m). ?f x = ?f y" if "x \<in> set (coupons m')" for x
  proof -
    have "?f x \<in> set (map ?f (coupons m))" using that unfolding same [symmetric] by force
    then show ?thesis by auto
  qed
  have kept: "\<exists>y \<in> set (coupons m'). ?f y = ?f x" if "x \<in> set (coupons m)" for x
  proof -
    have "?f x \<in> set (map ?f (coupons m'))" using that unfolding same by force
    then show ?thesis by auto
  qed
  have "\<exists>k \<in> set (coupons m'). k_id k = ku_coupon u \<and> k_tenant k = ku_tenant u"
    if "u \<in> set (coupon_usages m')" for u
  proof -
    have "\<exists>k \<in> set (coupons m). k_id k = ku_coupon u \<and> k_tenant k = ku_tenant u"
      using that ok by (simp add: ledger_ok_def m'(2))
    then show ?thesis using kept by fastforce
  qed
  moreover have "k_id x < fresh m' \<and> k_used x = int (hits (\<lambda>u. ku_coupon u = k_id x) (coupon_usages m'))"
    if x: "x \<in> set (coupons m')" for x
  proof -
    obtain y where "y \<in> set (coupons m)" "?f x = ?f y" using row [OF x] by blast
    then show ?thesis using ok by (simp add: ledger_ok_def m'(2,3))
  qed
  ultimately show ?thesis using ok ids by (simp add: ledger_ok_def)
qed

lemma admin_write_ok:
  assumes "carts_ok m" and "ledger_ok m"
    and "carts m' = carts m" "cart_items m' = cart_items m" "coupons m' = coupons m"
    "coupon_usages m' = coupon_usages m" "fresh m \<le> fresh m'"
    and "product_keys m \<subseteq> product_keys m'" "variant_keys m \<subseteq> variant_keys m'"
  shows "carts_ok m' \<and> ledger_ok m'"
  using assms carts_ok_mono [OF assms(1)] ledger_ok_same [OF assms(2)]
  by (simp add: cart_keys_def)

lemma market_step_ok:
  assumes "market_step po m m'" and ok: "carts_ok m" "ledger_ok m"
  shows "carts_ok m' \<and> ledger_ok m'"
  using assms(1)
proof cases
  case (add num user tenant here dto now)
  then show ?thesis using add_item_ok [OF ok] by simp
next
  case (update user tenant i quantity)
  then show ?thesis using update_item_ok [OF ok] by simp
next
  case (remove user tenant i)
  then show ?thesis using remove_item_ok [OF ok] by simp
next
  case (cart user tenant)
  obtain c m1 where c: "get_or_create_cart user tenant m = (c, m1)" by fastforce
  then show ?thesis using cart cart_created_ok [OF c] ok by (simp add: get_cart_def)
next
  case (checkout lib iso_text user co key now x)
  obtain order created where x: "x = (order, created)" by fastforce
  show ?thesis
  proof (cases created)
    case True
    then show ?thesis using checkout checkout_ok [OF _ ok] x by auto
  next
    case False
    then have "m' = m"
      using checkout x by (auto simp: checkout_tx_def Let_def split: option.splits if_splits)
    then show ?thesis using ok by simp
  qed
next
  case (create_coupon ctx actor kd now kv)
  then have "carts_ok m'"
    using ok(1) by (elim carts_ok_mono)
      (auto simp: create_coupon_def Let_def cart_keys_def product_keys_def variant_keys_def)
  then show ?thesis using create_coupon_ok [OF create_coupon ok(2)] by simp
next
  case (update_coupon ctx actor i ku kv)
  then have "carts_ok m'"
    using ok(1) by (elim carts_ok_mono)
      (auto simp: update_coupon_def cart_keys_def product_keys_def variant_keys_def)
  then show ?thesis using update_coupon_ok [OF update_coupon ok(2)] by simp
next
  case (update_product url ctx actor i qu p)
  then have "product_keys m' = product_keys m"
    by (auto simp: update_product_def Let_def product_keys_def product_keys_update apply_product_update_def
        simp del: set_map)
  then show ?thesis
    using update_product by (intro admin_write_ok [OF ok]) (auto simp: update_product_def Let_def variant_keys_def)
next
  case (product_active ctx actor i active action u)
  then have "product_keys m' = product_keys m"
    by (auto simp: set_product_active_def product_keys_def product_keys_update simp del: set_map)
  then show ?thesis
    using product_active by (intro admin_write_ok [OF ok]) (auto simp: set_product_active_def variant_keys_def)
next
  case (update_variant ctx actor i j vu v)
  then have "variant_keys m' = variant_keys m"
    by (auto simp: update_variant_def Let_def variant_keys_def variant_keys_update apply_variant_update_def
        simp del: set_map)
  then show ?thesis
    using update_variant by (intro admin_write_ok [OF ok]) (auto simp: update_variant_def Let_def product_keys_def)
qed (use ok in \<open>intro admin_write_ok; auto simp: admin_write_defs product_keys_def variant_keys_def
    dest!: enforce_limit_market\<close>)+

lemma market_reachable_ok:
  assumes "market_reachable po m"
  shows "shop_reachable po (mk_shop m) \<and> carts_ok m \<and> ledger_ok m"
  using assms
proof (induction rule: market_reachable.induct)
  case (start m)
  then show ?case
    by (auto simp: market_start_def carts_ok_def ledger_ok_def intro: shop_reachable.start)
next
  case (step m m')
  then show ?case using market_step_shop market_step_ok by blast
qed

end
