(* ===== verification/CheckoutProperties.thy ===== *)
theory CheckoutProperties
  imports CheckoutFacts ShopReach MoneyProperties
begin

text \<open>
  What checkout promises: the order's amounts add up from its lines, a repeated request returns
  the same order, and the preview shows what checkout then charges.
\<close>

section \<open>A concrete shop window\<close>

definition sample_product :: product_row where
  "sample_product = \<lparr>p_id = 1, p_category = 1, p_name = ''Mug'', p_slug = ''mug'',
     p_base_price = Dec 25000 2, p_min = 1, p_max = None, p_active = True, p_rating = None,
     p_reviews = 0, p_tenant = 1, p_store = None, p_created = 0\<rparr>"

definition sample_coupon :: coupon where
  "sample_coupon = \<lparr>k_id = 3, k_code = ''TEN'', k_type = Percentage, k_percent = Some 10, k_flat = None,
     k_scope = StoreWide, k_category = None, k_min_order = None, k_limit_total = Some 1,
     k_limit_user = Some 1, k_used = 0, k_first_only = False, k_starts = None, k_expires = None,
     k_active = True, k_description = None, k_admin = 2, k_tenant = 1, k_store = Some 5, k_created = 0\<rparr>"

definition sample_market :: market where
  "sample_market =
     \<lparr>mk_shop = empty_shop\<lparr>next_id := 100\<rparr>, categories = [], products = [sample_product],
      variants = [], custom_fields = [], images = [], uploads = [],
      carts = [\<lparr>c_id = 7, c_user = 9, c_tenant = 1\<rparr>],
      cart_items = [\<lparr>ci_id = 8, ci_cart = 7, ci_product = 1, ci_variant = None, ci_quantity = 2,
        ci_tenant = 1, ci_created = 0\<rparr>],
      cart_customs = [], coupons = [sample_coupon], coupon_usages = [], usages = [],
      billing = \<lparr>subs = [\<lparr>su_id = 1, su_tenant = 1, su_plan = 1, su_status = SubActive,
          su_period_start = Some 0, su_period_end = Some 100, su_customer = None, su_provider = None,
          su_cancel_at_end = None, su_trial_ends = None, su_pending_plan = None,
          su_grace_ends = None, su_retention_ends = None, su_updated = None\<rparr>],
        sub_events = [], plans = [], bd_idem = [], bd_next = 10\<rparr>,
      entitle = \<lparr>cat_features = [],
        cat_limits = [\<lparr>pm_id = 90, pm_plan = 1, pm_key = ''orders_per_month'', pm_value = Some 5, pm_period = BillingPeriod\<rparr>],
        cat_overrides = []\<rparr>,
      storefronts = [\<lparr>sf_id = 5, sf_tenant = 1, sf_primary = True\<rparr>],
      tenant_status_of = (\<lambda>_. Some TenantActive),
      store_settings = (\<lambda>_ _. None), tenant_settings = (\<lambda>_ _. None)\<rparr>"

definition sample_checkout_lib :: decimal_lib where
  "sample_checkout_lib = \<lparr>parse_decimal = (\<lambda>s. if s = ''0'' then Some (Finite False (Dec 0 0)) else None),
     dec_div = long_division\<rparr>"

definition sample_checkout_dto :: checkout_dto where
  "sample_checkout_dto = \<lparr>co_shipping = o_shipping sample_order, co_coupon = Some ''ten''\<rparr>"

definition sample_iso :: "instant \<Rightarrow> string" where
  "sample_iso t = ''period-'' @ int_text t"

definition sample_checked_out :: "(err + (uuid \<times> bool)) \<times> market" where
  "sample_checked_out =
     run_tx (checkout_tx sample_checkout_lib sample_iso 9 sample_checkout_dto ''key'' 50) sample_market"

lemma sample_checkout_result: "fst sample_checked_out = Inr (101, True)"
  by code_simp

lemma sample_checkout_tx:
  "checkout_tx sample_checkout_lib sample_iso 9 sample_checkout_dto ''key'' 50 sample_market =
     Inr ((101, True), snd sample_checked_out)"
  using sample_checkout_result
  by (auto simp: sample_checked_out_def run_tx_def split: sum.splits prod.splits)

section \<open>The amounts\<close>

lemma untaxed: "compute_tax lib base cfg = Inr t \<Longrightarrow> \<not> tax_applied t \<Longrightarrow> tax_amount_paise t = 0"
  by (auto simp: compute_tax_def Let_def split: sum.splits if_splits tax_mode.splits)

lemma tax_parts:
  assumes "compute_tax lib base cfg = Inr t"
  shows "tax_to_add t = (if computed_mode t = Exclusive then tax_amount_paise t else 0)"
    and "taxable_amount_paise t + tax_amount_paise t = base + tax_to_add t"
  using assms untaxed [OF assms]
  by (auto simp: compute_tax_def Let_def tax_to_add_def split: sum.splits if_splits tax_mode.splits)

lemma order_items_of_totals:
  "map (\<lambda>i. decimal_to_paise (i_line_total i)) (order_items_of first order tenant ls) =
     map (\<lambda>l. line_total_paise (price_item l)) ls"
  by (rule nth_equalityI)
    (auto simp: order_items_of_def order_item_of_def nth_enumerate_eq case_prod_beta)

lemma order_items_of_each:
  assumes "i \<in> set (order_items_of first order tenant ls)"
  shows "\<exists>l \<in> set ls. \<exists>n. i = order_item_of n order tenant l"
  using assms
  by (fastforce simp: order_items_of_def in_set_enumerate_eq intro: nth_mem)

lemma price_item_product:
  "line_total_paise (price_item l) = unit_price_paise (price_item l) * ci_quantity (ln_item l)"
  by (simp add: price_item_def compute_line_def Let_def)

text \<open>
  C5. A committed checkout adds one pending order of the cart's user and tenant whose amounts add
  up to the paisa: the subtotal is the sum of the new lines, each line is its unit price times its
  quantity, taxable amount and tax are the subtotal less the discount (the tax comes on top only
  in exclusive mode), and the total is what is left after the discount plus shipping and the tax
  on top. The lines are those of the cart, in its order, and the cart is empty afterwards.
\<close>

theorem checkout_order_adds_up:
  assumes "checkout_tx lib iso_text user dto key now m = Inr ((order, True), m')"
  shows "\<exists>r its cart. orders (mk_shop m') = orders (mk_shop m) @ [r] \<and>
    order_items (mk_shop m') = order_items (mk_shop m) @ its \<and>
    find_cart_of_user user m = Some cart \<and>
    o_id r = order \<and> o_status r = PendingPayment \<and> o_user r = user \<and> o_tenant r = c_tenant cart \<and>
    map i_product its = map ci_product (items_of_cart m (c_id cart)) \<and>
    map i_quantity its = map ci_quantity (items_of_cart m (c_id cart)) \<and>
    (\<forall>i \<in> set its. i_order i = order \<and>
       decimal_to_paise (i_line_total i) = decimal_to_paise (i_unit_price i) * i_quantity i) \<and>
    decimal_to_paise (o_subtotal r) = sum_list (map (\<lambda>i. decimal_to_paise (i_line_total i)) its) \<and>
    decimal_to_paise (o_taxable r) + decimal_to_paise (o_tax r) =
      decimal_to_paise (o_subtotal r) - decimal_to_paise (o_discount r) +
      (if o_tax_mode r = Exclusive then decimal_to_paise (o_tax r) else 0) \<and>
    decimal_to_paise (o_total r) =
      decimal_to_paise (o_subtotal r) - decimal_to_paise (o_discount r) +
      decimal_to_paise (o_shipping_fee r) +
      (if o_tax_mode r = Exclusive then decimal_to_paise (o_tax r) else 0) \<and>
    items_of_cart m' (c_id cart) = []"
proof (rule checkout_effect [OF assms])
  fix cart ks ls store a k shipping discount ship number db1 us start
  assume found: "find_cart_of_user user m = Some cart"
    and ls: "load_cart m (c_id cart) = Inr ls"
    and a: "order_amounts_of lib (get_tax_config (tenant_settings m (c_tenant cart)))
       (sum_line_totals (map price_item ls)) discount ship = Inr a"
    and gen: "generate_order_number ((mk_shop m)\<lparr>next_id := fresh m + 1\<rparr>) = Inr (number, db1)"
    and ids: "order = fresh m + 1" "next_id db1 = fresh m + 1"
    and m': "m' = delete_items (\<lambda>it. ci_id it \<in> set (map (\<lambda>l. ci_id (ln_item l)) ls))
       ((claimed m ks)\<lparr>coupons := (case k of None \<Rightarrow> coupons m | Some k \<Rightarrow> claim_use (k_id k) (coupons m)),
          usages := us,
          coupon_usages := (case k of None \<Rightarrow> coupon_usages m
            | Some k \<Rightarrow> coupon_usages m @ [ledger_row k user order (am_discount a) (c_tenant cart)]),
          mk_shop := placed_shop user cart store dto a k ls now number db1,
          billing := (billing m)\<lparr>bd_idem := record_result (fresh m) order ks\<rparr>\<rparr>)"
  let ?r = "order_row_of user cart store dto a k now number order"
  let ?its = "order_items_of (Suc order) order (c_tenant cart) ls"
  have db1: "orders db1 = orders (mk_shop m)" "order_items db1 = order_items (mk_shop m)"
    using generate_order_number_frames [OF gen] by auto
  obtain tax where tax: "compute_tax lib (sum_line_totals (map price_item ls) - discount)
      (get_tax_config (tenant_settings m (c_tenant cart))) = Inr tax"
    and amounts: "a = \<lparr>am_subtotal = sum_line_totals (map price_item ls), am_discount = discount,
      am_shipping = ship, am_tax = tax,
      am_total = compute_order_total (sum_line_totals (map price_item ls)) ship (Some discount)
        (Some (tax_to_add tax))\<rparr>"
    using a by (auto simp: order_amounts_of_def)
  have items: "map ln_item ls = items_of_cart m (c_id cart)" using load_cart_items [OF ls] .
  have each: "i_order i = order \<and>
      decimal_to_paise (i_line_total i) = decimal_to_paise (i_unit_price i) * i_quantity i"
    if "i \<in> set ?its" for i
    using order_items_of_each [OF that] by (auto simp: order_item_of_def price_item_product)
  have cols: "map i_product ?its = map ci_product (items_of_cart m (c_id cart))"
    "map i_quantity ?its = map ci_quantity (items_of_cart m (c_id cart))"
    unfolding items [symmetric] map_map
    by (rule nth_equalityI;
        auto simp: order_items_of_def order_item_of_def nth_enumerate_eq case_prod_beta)+
  have gone: "items_of_cart m' (c_id cart) = []"
  proof -
    have "ci_id it \<in> set (map (\<lambda>l. ci_id (ln_item l)) ls)"
      if "it \<in> set (cart_items m)" "ci_cart it = c_id cart" for it
    proof -
      have "it \<in> set (map ln_item ls)" using that unfolding items by (simp add: items_of_cart_def)
      then show ?thesis by auto
    qed
    then show ?thesis
      by (auto simp: m' items_of_cart_def delete_items_def Let_def filter_empty_conv
          simp flip: set_empty)
  qed
  show ?thesis
  proof (intro exI conjI)
    show "orders (mk_shop m') = orders (mk_shop m) @ [?r]" by (simp add: m' db1 ids)
    show "order_items (mk_shop m') = order_items (mk_shop m) @ ?its" by (simp add: m' db1 ids)
    show "find_cart_of_user user m = Some cart" by (rule found)
    show "map i_product ?its = map ci_product (items_of_cart m (c_id cart))" by (rule cols)
    show "map i_quantity ?its = map ci_quantity (items_of_cart m (c_id cart))" by (rule cols)
    show "\<forall>i \<in> set ?its. i_order i = order \<and>
       decimal_to_paise (i_line_total i) = decimal_to_paise (i_unit_price i) * i_quantity i"
      using each by blast
    show "items_of_cart m' (c_id cart) = []" by (rule gone)
    show "decimal_to_paise (o_subtotal ?r) = sum_list (map (\<lambda>i. decimal_to_paise (i_line_total i)) ?its)"
      by (simp add: order_items_of_totals order_row_of_def new_order_def amounts sum_line_totals_eq comp_def)
  qed (use tax_parts [OF tax] in \<open>simp_all add: order_row_of_def new_order_def amounts
    compute_order_total_def\<close>)
qed

theorem checkout_order_adds_up_witness:
  "\<exists>r its cart. orders (mk_shop (snd sample_checked_out)) = orders (mk_shop sample_market) @ [r] \<and>
    order_items (mk_shop (snd sample_checked_out)) = order_items (mk_shop sample_market) @ its \<and>
    find_cart_of_user 9 sample_market = Some cart \<and> o_id r = 101 \<and>
    decimal_to_paise (o_total r) =
      decimal_to_paise (o_subtotal r) - decimal_to_paise (o_discount r) +
      decimal_to_paise (o_shipping_fee r) +
      (if o_tax_mode r = Exclusive then decimal_to_paise (o_tax r) else 0)"
  using checkout_order_adds_up [OF sample_checkout_tx] by blast

section \<open>Repeated requests\<close>

lemma find_existing_record_result:
  "find_existing (record_result i order ks) k =
     map_option (\<lambda>r. if ik_id r = i then r\<lparr>ik_result := Some order\<rparr> else r) (find_existing ks k)"
  unfolding find_existing_def record_result_def by (rule find_key_update) simp

lemma recorded_key:
  assumes "claim_key k (i, u, e, t) ks = Some ks'"
  shows "find_existing (record_result i order ks') k =
    Some \<lparr>ik_id = i, ik_key = k, ik_user = u, ik_endpoint = e, ik_result = Some order, ik_tenant = t\<rparr>"
  using idem_keys.find_claimed [OF assms]
  by (simp add: find_existing_record_result claim_row_def)

text \<open>The cart of a committed checkout is still there, and its key is taken.\<close>

lemma checkout_locked:
  assumes "checkout_tx lib iso_text user dto key now m = Inr ((order, True), m')"
  shows "\<exists>cart. find_cart_of_user user m' = Some cart \<and>
    tenant_status_of m' (c_tenant cart) \<noteq> Some TenantSuspended \<and>
    find_existing (bd_idem (billing m')) key =
      Some \<lparr>ik_id = fresh m, ik_key = key, ik_user = user, ik_endpoint = checkout_endpoint,
        ik_result = Some order, ik_tenant = c_tenant cart\<rparr>"
proof (rule checkout_effect [OF assms])
  fix cart ks ls store a k shipping discount ship number db1 us start
  assume found: "find_cart_of_user user m = Some cart"
    and ks: "claim_key key (fresh m, user, checkout_endpoint, c_tenant cart) (bd_idem (billing m)) = Some ks"
    and m': "m' = delete_items (\<lambda>it. ci_id it \<in> set (map (\<lambda>l. ci_id (ln_item l)) ls))
       ((claimed m ks)\<lparr>coupons := (case k of None \<Rightarrow> coupons m | Some k \<Rightarrow> claim_use (k_id k) (coupons m)),
          usages := us,
          coupon_usages := (case k of None \<Rightarrow> coupon_usages m
            | Some k \<Rightarrow> coupon_usages m @ [ledger_row k user order (am_discount a) (c_tenant cart)]),
          mk_shop := placed_shop user cart store dto a k ls now number db1,
          billing := (billing m)\<lparr>bd_idem := record_result (fresh m) order ks\<rparr>\<rparr>)"
  obtain cart' where "find_cart_of_user user m = Some cart'"
    "tenant_status_of m (c_tenant cart') \<noteq> Some TenantSuspended"
    using checkout_created [OF assms] by metis
  then show ?thesis
    using found recorded_key [OF ks, of order] by (auto simp: m' find_cart_of_user_def)
qed

text \<open>
  C6. A checkout is done once per key: after it committed, every request of the same user with the
  same key gets the same order back, whatever it contains, and changes nothing - both when it sees
  the key before its transaction and when it lost the race and meets the key inside it - and a
  request of another user with that key is refused.
\<close>

theorem checkout_repeats_return_the_order:
  assumes "checkout lib iso_text existing user dto key now m = (Inr (v, True), m')"
  shows "checkout lib2 iso2 (find_existing (bd_idem (billing m')) key) user dto2 key now2 m' =
      (Inr (v, False), m') \<and>
    checkout lib2 iso2 None user dto2 key now2 m' = (Inr (v, False), m') \<and>
    (user2 \<noteq> user \<longrightarrow>
      checkout lib2 iso2 (find_existing (bd_idem (billing m')) key) user2 dto2 key now2 m' =
        (Inl (Conflict ''Idempotency key already in use''), m'))"
proof -
  obtain order where tx: "checkout_tx lib iso_text user dto key now m = Inr ((order, True), m')"
    and v: "load_order_view order user m' = Inr v"
    using assms
    by (auto simp: checkout_def run_tx_def split: option.splits if_splits sum.splits prod.splits)
  obtain cart ks where
    cart: "find_cart_of_user user m' = Some cart" "tenant_status_of m' (c_tenant cart) \<noteq> Some TenantSuspended"
    and key: "find_existing (bd_idem (billing m')) key =
      Some \<lparr>ik_id = fresh m, ik_key = key, ik_user = user, ik_endpoint = checkout_endpoint,
        ik_result = Some order, ik_tenant = c_tenant cart\<rparr>"
    using checkout_locked [OF tx] by blast
  have taken: "claim_key key p (bd_idem (billing m')) = None" for p
    by (rule idem_keys.claim_taken) (simp add: key)
  have "checkout_tx lib2 iso2 user dto2 key now2 m' = Inr ((order, False), m')"
    using cart key by (simp add: checkout_tx_def assert_tenant_active_def taken require_def or_throw_def)
  then show ?thesis
    using v key by (auto simp: checkout_def run_tx_def)
qed

theorem checkout_repeats_return_the_order_witness:
  "\<exists>v. checkout sample_checkout_lib sample_iso
     (find_existing (bd_idem (billing (snd sample_checked_out))) ''key'') 9 sample_checkout_dto ''key'' 60
     (snd sample_checked_out) = (Inr (v, False), snd sample_checked_out)"
proof -
  have "fst (checkout sample_checkout_lib sample_iso None 9 sample_checkout_dto ''key'' 50 sample_market) =
      map_sum id (\<lambda>v. (v, True)) (load_order_view 101 9 (snd sample_checked_out))"
    and "snd (checkout sample_checkout_lib sample_iso None 9 sample_checkout_dto ''key'' 50 sample_market) =
      snd sample_checked_out"
    by (simp_all add: checkout_def run_tx_def sample_checkout_tx)
  moreover have "case load_order_view 101 9 (snd sample_checked_out) of Inl _ \<Rightarrow> False | Inr _ \<Rightarrow> True"
    by code_simp
  ultimately obtain v where
    "checkout sample_checkout_lib sample_iso None 9 sample_checkout_dto ''key'' 50 sample_market =
      (Inr (v, True), snd sample_checked_out)"
    by (cases "load_order_view 101 9 (snd sample_checked_out)") (auto simp: prod_eq_iff)
  then show ?thesis using checkout_repeats_return_the_order by blast
qed

section \<open>The preview\<close>

lemma validate_coupon_core_same:
  assumes "coupons m' = coupons m" "coupon_usages m' = coupon_usages m"
    "orders (mk_shop m') = orders (mk_shop m)"
  shows "validate_coupon_core ps now m' = validate_coupon_core ps now m"
  using assms
  by (simp add: validate_coupon_core_def coupon_refusal_def find_coupon_by_code_def Let_def
      cong: option.case_cong)

lemma preview_coupon_of_claim:
  assumes "claim_coupon dto user tenant subtotal shipping ls now m1 = Inr ((k, discount, ship), m2)"
    and "coupons m1 = coupons m" "coupon_usages m1 = coupon_usages m"
    "orders (mk_shop m1) = orders (mk_shop m)"
  shows "preview_coupon (co_coupon dto) user tenant subtotal shipping ls now m =
    Inr (map_option k_code k, discount, ship)"
  using assms(1)
proof (cases rule: claim_coupon_cases)
  case without
  then show ?thesis by (simp add: preview_coupon_def)
next
  case (claimed code c)
  note c = validate_and_claim_cases [OF claimed(2)]
  have "validate_coupon_core (coupon_params_of code user tenant subtotal shipping ls) now m =
      Inr (kc_coupon c, scoped_subtotal (kc_coupon c) (coupon_params_of code user tenant subtotal shipping ls))"
    using c(1,2) unfolding validate_coupon_core_same [OF assms(2-4), symmetric]
    by (simp add: validate_coupon_core_def or_throw_def)
  then show ?thesis
    using claimed c(3) by (simp add: preview_coupon_def preview_discount_def)
qed

lemma money_view_column [simp]: "money_view (money_column p) = paise_to_decimal_string p"
  by (simp add: money_view_def)

text \<open>
  C34. The preview is honest: on the database from which a checkout commits, the preview with the same
  coupon succeeds and shows exactly the amounts, tax mode and coupon code of the order that the
  checkout creates.
\<close>

theorem preview_agrees_with_checkout:
  assumes "checkout_tx lib iso_text user dto key now m = Inr ((order, True), m')"
  shows "\<exists>r. orders (mk_shop m') = orders (mk_shop m) @ [r] \<and>
    preview_checkout lib user (co_coupon dto) now m = Inr
      \<lparr>px_subtotal = money_view (o_subtotal r), px_shipping = money_view (o_shipping_fee r),
       px_discount = money_view (o_discount r), px_taxable = money_view (o_taxable r),
       px_tax = money_view (o_tax r), px_tax_mode = o_tax_mode r, px_total = money_view (o_total r),
       px_coupon = o_coupon_code r\<rparr>"
proof (rule checkout_effect [OF assms])
  fix cart ks ls store a k shipping discount ship number db1 us start
  assume found: "find_cart_of_user user m = Some cart"
    and ls: "load_cart m (c_id cart) = Inr ls" "ls \<noteq> []"
    and store: "primary_store_id_of (c_tenant cart) m = Inr store"
    and fee: "get_shipping_fee_paise lib store m = Inr shipping"
    and k: "claim_coupon dto user (c_tenant cart) (sum_line_totals (map price_item ls)) shipping ls now
       (claimed m ks) = Inr ((k, discount, ship), (claimed m ks)\<lparr>coupons :=
          (case k of None \<Rightarrow> coupons m | Some k \<Rightarrow> claim_use (k_id k) (coupons m))\<rparr>)"
    and a: "order_amounts_of lib (get_tax_config (tenant_settings m (c_tenant cart)))
       (sum_line_totals (map price_item ls)) discount ship = Inr a"
    and gen: "generate_order_number ((mk_shop m)\<lparr>next_id := fresh m + 1\<rparr>) = Inr (number, db1)"
    and ids: "order = fresh m + 1" "next_id db1 = fresh m + 1"
    and m': "m' = delete_items (\<lambda>it. ci_id it \<in> set (map (\<lambda>l. ci_id (ln_item l)) ls))
       ((claimed m ks)\<lparr>coupons := (case k of None \<Rightarrow> coupons m | Some k \<Rightarrow> claim_use (k_id k) (coupons m)),
          usages := us,
          coupon_usages := (case k of None \<Rightarrow> coupon_usages m
            | Some k \<Rightarrow> coupon_usages m @ [ledger_row k user order (am_discount a) (c_tenant cart)]),
          mk_shop := placed_shop user cart store dto a k ls now number db1,
          billing := (billing m)\<lparr>bd_idem := record_result (fresh m) order ks\<rparr>\<rparr>)"
  let ?r = "order_row_of user cart store dto a k now number order"
  have new: "orders (mk_shop m') = orders (mk_shop m) @ [?r]"
    using generate_order_number_frames [OF gen] by (auto simp: m' ids)
  have active: "assert_tenant_active (c_tenant cart) ''This store is currently unavailable'' m = Inr ()"
    using checkout_locked [OF assms] found by (auto simp: assert_tenant_active_def m' find_cart_of_user_def)
  have "preview_coupon (co_coupon dto) user (c_tenant cart) (sum_line_totals (map price_item ls)) shipping
      ls now m = Inr (map_option k_code k, discount, ship)"
    by (rule preview_coupon_of_claim [OF k]) simp_all
  then have "preview_checkout lib user (co_coupon dto) now m =
      Inr (preview_view_of a (map_option k_code k))"
    using found ls store fee a active
    by (simp add: preview_checkout_def or_throw_def require_def)
  moreover have "preview_view_of a (map_option k_code k) =
      \<lparr>px_subtotal = money_view (o_subtotal ?r), px_shipping = money_view (o_shipping_fee ?r),
       px_discount = money_view (o_discount ?r), px_taxable = money_view (o_taxable ?r),
       px_tax = money_view (o_tax ?r), px_tax_mode = o_tax_mode ?r, px_total = money_view (o_total ?r),
       px_coupon = o_coupon_code ?r\<rparr>"
    by (simp add: preview_view_of_def order_row_of_def new_order_def)
  ultimately show ?thesis using new by auto
qed

theorem preview_agrees_with_checkout_witness:
  "\<exists>r. orders (mk_shop (snd sample_checked_out)) = orders (mk_shop sample_market) @ [r] \<and>
    preview_checkout sample_checkout_lib 9 (Some ''ten'') 50 sample_market = Inr
      \<lparr>px_subtotal = money_view (o_subtotal r), px_shipping = money_view (o_shipping_fee r),
       px_discount = money_view (o_discount r), px_taxable = money_view (o_taxable r),
       px_tax = money_view (o_tax r), px_tax_mode = o_tax_mode r, px_total = money_view (o_total r),
       px_coupon = o_coupon_code r\<rparr>"
  using preview_agrees_with_checkout [OF sample_checkout_tx] by (simp add: sample_checkout_dto_def)

end
