(* ===== verification/MarketProperties.thy ===== *)
theory MarketProperties
  imports MarketReach CheckoutProperties
begin

text \<open>
  What holds of the commerce database whatever the order of operations, and four things the
  operations let happen against the intent of their comments.
\<close>

section \<open>A concrete history\<close>

lemma market_reachable_tx:
  assumes "market_reachable po m" and "\<And>x m'. t m = Inr (x, m') \<Longrightarrow> market_step po m m'"
  shows "market_reachable po (snd (run_tx t m))"
  using assms(1) market_reachable.step [OF assms(1) assms(2)]
  by (auto simp: run_tx_def split: sum.splits prod.splits)

text \<open>A store with a category opens; it adds a product and a coupon, and a customer orders.\<close>

definition sample_ctx :: tenant_context where
  "sample_ctx = \<lparr>tc_tenant = 1, tc_session = None\<rparr>"

definition sample_open :: market where
  "sample_open = sample_market\<lparr>products := [], carts := [], cart_items := [], coupons := [],
     categories := [\<lparr>cg_id = 1, cg_name = ''Mugs'', cg_slug = ''mugs'', cg_parent = None, cg_active = True,
       cg_tenant = 1, cg_store = None\<rparr>],
     entitle := \<lparr>cat_features = [],
        cat_limits = [\<lparr>pm_id = 90, pm_plan = 1, pm_key = ''orders_per_month'', pm_value = Some 5, pm_period = BillingPeriod\<rparr>,
          \<lparr>pm_id = 91, pm_plan = 1, pm_key = ''products'', pm_value = Some 5, pm_period = Persistent\<rparr>],
        cat_overrides = []\<rparr>\<rparr>"

definition sample_product_dto :: product_dto where
  "sample_product_dto = \<lparr>qd_category = 1, qd_name = ''Mug'', qd_slug = ''mug'', qd_base_price = Dec 25000 2,
     qd_min = 1, qd_max = None\<rparr>"

definition sample_stocked :: market where
  "sample_stocked = snd (run_tx (create_product sample_ctx 2 sample_product_dto 1) sample_open)"

definition sample_coupon_dto :: create_coupon_dto where
  "sample_coupon_dto = \<lparr>kd_code = ''ten'', kd_type = Percentage, kd_percent = Some 10, kd_flat = None,
     kd_scope = StoreWide, kd_category = None, kd_min_order = None, kd_limit_total = Some 1,
     kd_limit_user = None, kd_first_only = None, kd_starts = None, kd_expires = None,
     kd_description = None\<rparr>"

definition sample_promoted :: market where
  "sample_promoted = snd (run_tx (create_coupon sample_ctx 2 sample_coupon_dto 2) sample_stocked)"

definition sample_filled :: market where
  "sample_filled = snd (add_item (\<lambda>_. ''1'') 9 1 True
     \<lparr>ad_product = 100, ad_variant = None, ad_quantity = 2, ad_customs = []\<rparr> 3 sample_promoted)"

definition sample_sold :: market where
  "sample_sold = snd (run_tx
     (checkout_tx sample_checkout_lib sample_iso 9 sample_checkout_dto ''key'' 50) sample_filled)"

lemma sample_filled_reachable: "market_reachable po sample_filled"
proof -
  have "market_reachable po sample_open"
    by (rule market_reachable.start) (simp add: market_start_def sample_open_def sample_market_def empty_shop_def)
  then have "market_reachable po sample_stocked"
    unfolding sample_stocked_def by (rule market_reachable_tx) (rule market_step.create_product)
  then have "market_reachable po sample_promoted"
    unfolding sample_promoted_def by (rule market_reachable_tx) (rule market_step.create_coupon)
  then show ?thesis
    unfolding sample_filled_def by (rule market_reachable.step) (rule market_step.add)
qed

lemma sample_sold_reachable: "market_reachable po sample_sold"
  unfolding sample_sold_def
  by (rule market_reachable_tx [OF sample_filled_reachable]) (rule market_step.checkout)

lemma sample_sold_result:
  "fst (run_tx (checkout_tx sample_checkout_lib sample_iso 9 sample_checkout_dto ''key'' 50) sample_filled) =
     Inr (105, True)"
  by code_simp

lemma sample_sold_tx:
  "checkout_tx sample_checkout_lib sample_iso 9 sample_checkout_dto ''key'' 50 sample_filled =
     Inr ((105, True), sample_sold)"
  using sample_sold_result
  by (auto simp: sample_sold_def run_tx_def split: sum.splits prod.splits)

section \<open>The invariants\<close>



text \<open>
  Carts stay in their tenant: in every reachable database each cart item belongs to a cart of
  its own tenant, names a product of that tenant, and its variant, if any, is one of that product
  in that tenant.
\<close>

theorem cart_items_stay_in_tenant:
  assumes "market_reachable po m" and "it \<in> set (cart_items m)"
  shows "(\<exists>c \<in> set (carts m). c_id c = ci_cart it \<and> c_tenant c = ci_tenant it) \<and>
    (\<exists>p \<in> set (products m). p_id p = ci_product it \<and> p_tenant p = ci_tenant it) \<and>
    (\<forall>i. ci_variant it = Some i \<longrightarrow> (\<exists>v \<in> set (variants m).
       va_id v = i \<and> va_product v = ci_product it \<and> va_tenant v = ci_tenant it))"
proof -
  have "item_ok m it"
    using market_reachable_ok [OF assms(1)] assms(2) by (simp add: carts_ok_def)
  then show ?thesis
    by (fastforce simp: item_ok_def cart_keys_def product_keys_def variant_keys_def)
qed

theorem cart_items_stay_in_tenant_witness:
  "\<exists>it \<in> set (cart_items sample_filled).
     \<exists>p \<in> set (products sample_filled). p_id p = ci_product it \<and> p_tenant p = ci_tenant it"
proof -
  have "map ci_id (cart_items sample_filled) = [103]" by code_simp
  then obtain it where it: "it \<in> set (cart_items sample_filled)"
    by (cases "cart_items sample_filled") auto
  show ?thesis using cart_items_stay_in_tenant [OF sample_filled_reachable it] it by blast
qed

text \<open>
  C17. The use counter of a coupon is its ledger: in every reachable database it equals the number of
  ledger rows of the coupon, and every ledger row is a use of a coupon of its own tenant.
\<close>

theorem coupon_uses_are_in_the_ledger:
  assumes "market_reachable po m"
  shows "(\<forall>k \<in> set (coupons m). k_used k = int (hits (\<lambda>u. ku_coupon u = k_id k) (coupon_usages m))) \<and>
    (\<forall>u \<in> set (coupon_usages m). \<exists>k \<in> set (coupons m). k_id k = ku_coupon u \<and> k_tenant k = ku_tenant u)"
  using market_reachable_ok [OF assms] by (simp add: ledger_ok_def)

theorem coupon_uses_are_in_the_ledger_witness:
  "map k_used (coupons sample_sold) = [1] \<and>
   map k_used (coupons sample_sold) =
     map (\<lambda>k. int (hits (\<lambda>u. ku_coupon u = k_id k) (coupon_usages sample_sold))) (coupons sample_sold)"
proof -
  have "map k_used (coupons sample_sold) = [1]" by code_simp
  then show ?thesis
    using coupon_uses_are_in_the_ledger [OF sample_sold_reachable] by (auto cong: map_cong)
qed

section \<open>Coupons at checkout\<close>

lemma claimed_coupon_counts:
  assumes "ledger_ok m" and "k \<in> set (coupons m)" and "hits (claim_hit (k_id k)) (coupons m) \<noteq> 0"
    and "k_limit_total k = Some n"
  shows "int (hits (\<lambda>u. ku_coupon u = k_id k) (coupon_usages m)) < n"
proof -
  obtain x where x: "x \<in> set (coupons m)" "claim_hit (k_id k) x"
    using assms(3) unfolding hits_0_iff by blast
  then have "x = k"
    using distinct_key_inj [of k_id "coupons m" x k] assms(1,2) by (simp add: ledger_ok_def claim_hit_def)
  then show ?thesis using x(2) assms(1,2,4) by (simp add: claim_hit_def ledger_ok_def)
qed

text \<open>
  A checkout never takes a coupon it may not: the coupon on a committed order is an active one of
  the cart's tenant, within its dates, and with this use the ledger holds at most the total limit
  of rows of the coupon and at most the limit per user of rows of this customer.
\<close>

theorem checkout_respects_coupon_limits:
  assumes "market_reachable po m"
    and "checkout_tx lib iso_text user dto key now m = Inr ((order, True), m')"
  shows "\<exists>r. orders (mk_shop m') = orders (mk_shop m) @ [r] \<and>
    (\<forall>i. o_coupon r = Some i \<longrightarrow> (\<exists>k \<in> set (coupons m).
       k_id k = i \<and> k_tenant k = o_tenant r \<and> k_active k \<and>
       (\<forall>t. k_starts k = Some t \<longrightarrow> t \<le> now) \<and> (\<forall>t. k_expires k = Some t \<longrightarrow> now \<le> t) \<and>
       (\<forall>n. k_limit_total k = Some n \<longrightarrow>
          int (hits (\<lambda>u. ku_coupon u = i) (coupon_usages m')) \<le> n) \<and>
       (\<forall>n. k_limit_user k = Some n \<longrightarrow>
          int (hits (\<lambda>u. ku_coupon u = i \<and> ku_user u = user) (coupon_usages m')) \<le> n)))"
proof (rule checkout_effect [OF assms(2)])
  fix cart ks ls store a k shipping discount ship number db1 us start
  assume claim: "claim_coupon dto user (c_tenant cart) (sum_line_totals (map price_item ls)) shipping ls now
       (claimed m ks) = Inr ((k, discount, ship), (claimed m ks)\<lparr>coupons :=
          (case k of None \<Rightarrow> coupons m | Some k \<Rightarrow> claim_use (k_id k) (coupons m))\<rparr>)"
    and gen: "generate_order_number ((mk_shop m)\<lparr>next_id := fresh m + 1\<rparr>) = Inr (number, db1)"
    and m': "m' = delete_items (\<lambda>it. ci_id it \<in> set (map (\<lambda>l. ci_id (ln_item l)) ls))
       ((claimed m ks)\<lparr>coupons := (case k of None \<Rightarrow> coupons m | Some k \<Rightarrow> claim_use (k_id k) (coupons m)),
          usages := us,
          coupon_usages := (case k of None \<Rightarrow> coupon_usages m
            | Some k \<Rightarrow> coupon_usages m @ [ledger_row k user order (am_discount a) (c_tenant cart)]),
          mk_shop := placed_shop user cart store dto a k ls now number db1,
          billing := (billing m)\<lparr>bd_idem := record_result (fresh m) order ks\<rparr>\<rparr>)"
  have ok: "ledger_ok m" using market_reachable_ok [OF assms(1)] by blast
  let ?r = "order_row_of user cart store dto a k now number (next_id db1)"
  have new: "orders (mk_shop m') = orders (mk_shop m) @ [?r]"
    using generate_order_number_frames [OF gen] by (auto simp: m')
  have r: "o_coupon ?r = map_option k_id k" "o_tenant ?r = c_tenant cart"
    by (simp_all add: order_row_of_def new_order_def)
  show ?thesis
    using claim
  proof (cases rule: claim_coupon_cases)
    case without
    then show ?thesis using new r by (intro exI [of _ ?r]) simp
  next
    case (claimed code cc)
    let ?k = "kc_coupon cc"
    note v = validate_and_claim_cases [OF claimed(2)]
    have k: "?k \<in> set (coupons m)" "k_tenant ?k = c_tenant cart"
      using v(1) by (auto simp: find_coupon_by_code_def coupon_params_of_def dest!: find_SomeD)
    have free: "k_active ?k" "\<And>t. k_starts ?k = Some t \<Longrightarrow> t \<le> now" "\<And>t. k_expires ?k = Some t \<Longrightarrow> now \<le> t"
      "\<And>n. k_limit_user ?k = Some n \<Longrightarrow>
         int (hits (\<lambda>u. ku_coupon u = k_id ?k \<and> ku_user u = user) (coupon_usages m)) < n"
      using v(2) by (auto simp: coupon_refusal_def coupon_params_of_def Let_def split: option.splits)
    have total: "int (hits (\<lambda>u. ku_coupon u = k_id ?k) (coupon_usages m)) < n"
      if "k_limit_total ?k = Some n" for n
      using claimed_coupon_counts [OF ok k(1) _ that] v(5) by simp
    have row: "coupon_usages m' = coupon_usages m @ [ledger_row ?k user order (am_discount a) (c_tenant cart)]"
      by (simp add: m' claimed(3))
    have "int (hits (\<lambda>u. ku_coupon u = k_id ?k) (coupon_usages m')) \<le> n" if "k_limit_total ?k = Some n" for n
      using total [OF that] by (simp add: row ledger_row_def)
    moreover have "int (hits (\<lambda>u. ku_coupon u = k_id ?k \<and> ku_user u = user) (coupon_usages m')) \<le> n"
      if "k_limit_user ?k = Some n" for n
      using free(4) [OF that] by (simp add: row ledger_row_def)
    ultimately show ?thesis
      using new r k free(1-3) claimed(3) by (intro exI [of _ ?r]) auto
  qed
qed

theorem checkout_respects_coupon_limits_witness:
  "\<exists>r k. orders (mk_shop sample_sold) = orders (mk_shop sample_filled) @ [r] \<and>
    o_coupon r = Some (k_id k) \<and> k \<in> set (coupons sample_filled) \<and> k_limit_total k = Some 1 \<and>
    int (hits (\<lambda>u. ku_coupon u = k_id k) (coupon_usages sample_sold)) \<le> 1"
proof -
  have none: "orders (mk_shop sample_filled) = []" by code_simp
  have used: "list_all (\<lambda>r. o_coupon r \<noteq> None) (orders (mk_shop sample_sold))" by code_simp
  have limits: "list_all (\<lambda>k. k_limit_total k = Some 1) (coupons sample_filled)" by code_simp
  obtain r where r: "orders (mk_shop sample_sold) = orders (mk_shop sample_filled) @ [r]"
    and k: "\<And>i. o_coupon r = Some i \<Longrightarrow> \<exists>k \<in> set (coupons sample_filled). k_id k = i \<and>
      (\<forall>n. k_limit_total k = Some n \<longrightarrow> int (hits (\<lambda>u. ku_coupon u = i) (coupon_usages sample_sold)) \<le> n)"
    using checkout_respects_coupon_limits [OF sample_filled_reachable sample_sold_tx] by blast
  from r used none obtain i where i: "o_coupon r = Some i" by auto
  with k obtain k where "k \<in> set (coupons sample_filled)" "k_id k = i"
    "k_limit_total k = Some 1 \<longrightarrow> int (hits (\<lambda>u. ku_coupon u = i) (coupon_usages sample_sold)) \<le> 1"
    by blast
  then show ?thesis using r i limits by (intro exI [of _ r] exI [of _ k]) (auto simp: list_all_iff)
qed

text \<open>
  A discount never exceeds what it is taken from: with prices that are not negative and a coupon
  as the admin form accepts it, the discount of a committed order lies between zero and its
  subtotal, and a coupon leaves the shipping fee as it was or waives it.
\<close>

theorem discount_within_subtotal:
  assumes "checkout_tx lib iso_text user dto key now m = Inr ((order, True), m')"
    and "\<And>k. k \<in> set (coupons m) \<Longrightarrow> percent_ok k"
    and "\<And>cart ls l. find_cart_of_user user m = Some cart \<Longrightarrow> load_cart m (c_id cart) = Inr ls \<Longrightarrow>
      l \<in> set ls \<Longrightarrow> 0 \<le> line_total_paise (price_item l)"
  shows "\<exists>r. orders (mk_shop m') = orders (mk_shop m) @ [r] \<and>
    0 \<le> decimal_to_paise (o_discount r) \<and>
    decimal_to_paise (o_discount r) \<le> decimal_to_paise (o_subtotal r) \<and>
    (\<exists>store fee. primary_store_id_of (o_tenant r) m = Inr store \<and>
       get_shipping_fee_paise lib store m = Inr fee \<and>
       decimal_to_paise (o_shipping_fee r) \<in> {0, fee})"
proof (rule checkout_effect [OF assms(1)])
  fix cart ks ls store a k shipping discount ship number db1 us start
  assume found: "find_cart_of_user user m = Some cart"
    and ls: "load_cart m (c_id cart) = Inr ls"
    and store: "primary_store_id_of (c_tenant cart) m = Inr store"
    and fee: "get_shipping_fee_paise lib store m = Inr shipping"
    and claim: "claim_coupon dto user (c_tenant cart) (sum_line_totals (map price_item ls)) shipping ls now
       (claimed m ks) = Inr ((k, discount, ship), (claimed m ks)\<lparr>coupons :=
          (case k of None \<Rightarrow> coupons m | Some k \<Rightarrow> claim_use (k_id k) (coupons m))\<rparr>)"
    and a: "order_amounts_of lib (get_tax_config (tenant_settings m (c_tenant cart)))
       (sum_line_totals (map price_item ls)) discount ship = Inr a"
    and gen: "generate_order_number ((mk_shop m)\<lparr>next_id := fresh m + 1\<rparr>) = Inr (number, db1)"
    and m': "m' = delete_items (\<lambda>it. ci_id it \<in> set (map (\<lambda>l. ci_id (ln_item l)) ls))
       ((claimed m ks)\<lparr>coupons := (case k of None \<Rightarrow> coupons m | Some k \<Rightarrow> claim_use (k_id k) (coupons m)),
          usages := us,
          coupon_usages := (case k of None \<Rightarrow> coupon_usages m
            | Some k \<Rightarrow> coupon_usages m @ [ledger_row k user order (am_discount a) (c_tenant cart)]),
          mk_shop := placed_shop user cart store dto a k ls now number db1,
          billing := (billing m)\<lparr>bd_idem := record_result (fresh m) order ks\<rparr>\<rparr>)"
  let ?r = "order_row_of user cart store dto a k now number (next_id db1)"
  let ?subtotal = "sum_line_totals (map price_item ls)"
  have new: "orders (mk_shop m') = orders (mk_shop m) @ [?r]"
    using generate_order_number_frames [OF gen] by (auto simp: m')
  have lines: "0 \<le> line_total_paise (price_item l)" if "l \<in> set ls" for l
    using assms(3) [OF found ls that] .
  have sub: "0 \<le> ?subtotal" using lines by (intro sum_line_totals_nonneg) auto
  have amounts: "o_discount ?r = money_column discount" "o_subtotal ?r = money_column ?subtotal"
    "o_shipping_fee ?r = money_column ship" "o_tenant ?r = c_tenant cart"
    using a by (auto simp: order_row_of_def new_order_def order_amounts_of_def)
  have "0 \<le> discount \<and> discount \<le> ?subtotal \<and> ship \<in> {0, shipping}"
    using claim
  proof (cases rule: claim_coupon_cases)
    case without
    then show ?thesis using sub by simp
  next
    case (claimed code cc)
    let ?ps = "coupon_params_of code user (c_tenant cart) ?subtotal shipping ls"
    note v = validate_and_claim_cases [OF claimed(2)]
    have k: "percent_ok (kc_coupon cc)"
      using v(1) assms(2) by (auto simp: find_coupon_by_code_def dest!: find_SomeD)
    have total: "cp_subtotal ?ps = sum_list (map cl_total (cp_lines ?ps))"
      by (simp add: coupon_params_of_def sum_line_totals_eq comp_def)
    have nonneg: "0 \<le> cl_total l" if "l \<in> set (cp_lines ?ps)" for l
      using that lines by (auto simp: coupon_params_of_def)
    note scoped = scoped_subtotal_bounds [OF nonneg total, of "kc_coupon cc"]
    have "(discount, ship) = compute_discount (kc_coupon cc) (scoped_subtotal (kc_coupon cc) ?ps) shipping"
      using v(3) claimed(4,5) by (simp add: coupon_params_of_def)
    then have "discount = fst (compute_discount (kc_coupon cc) (scoped_subtotal (kc_coupon cc) ?ps) shipping)"
      "ship = snd (compute_discount (kc_coupon cc) (scoped_subtotal (kc_coupon cc) ?ps) shipping)"
      by (metis fst_conv snd_conv)+
    moreover have "cp_subtotal ?ps = ?subtotal" by (simp add: coupon_params_of_def)
    ultimately show ?thesis
      using discount_bounds [OF k scoped(1), of shipping] scoped(2) discount_shipping by force
  qed
  then show ?thesis using new amounts store fee by (intro exI [of _ ?r]) auto
qed

theorem discount_within_subtotal_witness:
  "\<exists>r. orders (mk_shop (snd sample_checked_out)) = orders (mk_shop sample_market) @ [r] \<and>
    0 \<le> decimal_to_paise (o_discount r) \<and>
    decimal_to_paise (o_discount r) \<le> decimal_to_paise (o_subtotal r)"
proof -
  have "percent_ok k" if "k \<in> set (coupons sample_market)" for k
    using that by (simp add: sample_market_def sample_coupon_def percent_ok_def)
  moreover have "map_sum id (map (\<lambda>l. line_total_paise (price_item l))) (load_cart sample_market 7) = Inr [50000]"
    by code_simp
  then have "0 \<le> line_total_paise (price_item l)"
    if "find_cart_of_user 9 sample_market = Some cart" "load_cart sample_market (c_id cart) = Inr ls"
      "l \<in> set ls" for cart ls l
    using that by (auto simp: sample_market_def find_cart_of_user_def)
  ultimately show ?thesis using discount_within_subtotal [OF sample_checkout_tx] by blast
qed

end
