(* ===== verification/CatalogProperties.thy ===== *)
theory CatalogProperties
  imports MarketProperties
begin

text \<open>
  The category tree, and what the catalogue, the cart and the coupons let happen against the
  intent of their comments.
\<close>

section \<open>The tree\<close>

text \<open>
  \<open>at_level cs k c\<close>: following parents from \<open>c\<close> reaches a root in exactly k links.
\<close>

inductive at_level :: "category_row list \<Rightarrow> nat \<Rightarrow> category_row \<Rightarrow> bool" for cs where
  root: "c \<in> set cs \<Longrightarrow> is_root cs c \<Longrightarrow> at_level cs 0 c"
| child: "at_level cs k c \<Longrightarrow> d \<in> set (children_of cs c) \<Longrightarrow> at_level cs (Suc k) d"

inductive_simps at_level_0: "at_level cs 0 c"
inductive_simps at_level_Suc: "at_level cs (Suc k) c"

lemma at_level_in: "at_level cs k c \<Longrightarrow> c \<in> set cs"
  by (induction rule: at_level.induct) (auto simp: children_of_def)

lemma at_level_unique:
  assumes "distinct (map cg_id cs)"
  shows "at_level cs j c \<Longrightarrow> at_level cs k c \<Longrightarrow> j = k"
proof (induction j c arbitrary: k rule: at_level.induct)
  case (root c)
  show ?case
  proof (cases k)
    case (Suc n)
    then obtain p where "at_level cs n p" "cg_parent c = Some (cg_id p)"
      using root.prems by (auto simp: at_level_Suc children_of_def)
    then show ?thesis using root.hyps(2) at_level_in [of cs n p] by (auto simp: is_root_def)
  qed simp
next
  case (child j p c)
  have c: "cg_parent c = Some (cg_id p)" using child.hyps(2) by (simp add: children_of_def)
  show ?case
  proof (cases k)
    case 0
    then have "is_root cs c" using child.prems by (simp add: at_level_0)
    then show ?thesis using c at_level_in [OF child.hyps(1)] by (auto simp: is_root_def)
  next
    case (Suc n)
    then obtain q where q: "at_level cs n q" "cg_parent c = Some (cg_id q)"
      using child.prems by (auto simp: at_level_Suc children_of_def)
    then have "q = p"
      using c distinct_key_inj [OF assms at_level_in at_level_in, OF q(1) child.hyps(1)] by simp
    then show ?thesis using child.IH q(1) Suc by simp
  qed
qed

lemma at_level_below: "at_level cs k c \<Longrightarrow> j \<le> k \<Longrightarrow> \<exists>d. at_level cs j d"
proof (induction k arbitrary: c)
  case 0
  then show ?case by auto
next
  case (Suc k)
  then obtain p where "at_level cs k p" by (auto simp: at_level_Suc)
  then show ?case using Suc by (cases "j = Suc k") (auto simp: le_Suc_eq)
qed

lemma at_level_bound:
  assumes "distinct (map cg_id cs)" and "at_level cs k c"
  shows "k < length cs"
proof -
  define f where "f j = (SOME d. at_level cs j d)" for j
  have f: "at_level cs j (f j)" if "j \<le> k" for j
    unfolding f_def using at_level_below [OF assms(2) that] by (rule someI_ex)
  have "inj_on f {0..k}"
    using f at_level_unique [OF assms(1)] by (intro inj_onI) (metis atLeastAtMost_iff)
  moreover have "f ` {0..k} \<subseteq> set cs" using f at_level_in by fastforce
  ultimately have "card {0..k} \<le> card (set cs)" by (rule card_inj_on_le) simp
  also have "\<dots> \<le> length cs" by (rule card_length)
  finally show ?thesis by simp
qed

lemma sort_key_map_cong: "(\<And>x. x \<in> set xs \<Longrightarrow> f x = g x) \<Longrightarrow> sort_key h (map f xs) = sort_key h (map g xs)"
  by (metis map_cong)

lemma subtree_deep_enough:
  assumes "distinct (map cg_id cs)"
  shows "at_level cs k c \<Longrightarrow> length cs \<le> n + k \<Longrightarrow> n \<le> n' \<Longrightarrow> subtree rank cs n' c = subtree rank cs n c"
proof (induction n arbitrary: k c n')
  case 0
  then show ?case using at_level_bound [OF assms 0(1)] by simp
next
  case (Suc n)
  then obtain l where l: "n' = Suc l" "n \<le> l" by (cases n') auto
  have "subtree rank cs l d = subtree rank cs n d" if "d \<in> set (children_of cs c)" for d
    using Suc.IH [of "Suc k" d l] Suc.prems at_level.child [OF Suc.prems(1) that] l by simp
  then have "map (subtree rank cs l) (children_of cs c) = map (subtree rank cs n) (children_of cs c)"
    by simp
  then show ?case by (simp only: l(1) subtree.simps)
qed

fun tree_ids :: "tree_node \<Rightarrow> uuid set" where
  "tree_ids (Node i _ _ ts) = insert i (\<Union> (tree_ids ` set ts))"

lemma subtree_ids:
  assumes "at_level cs k c"
  shows "i \<in> tree_ids (subtree rank cs n c) \<Longrightarrow> \<exists>j d. at_level cs j d \<and> cg_id d = i"
  using assms
proof (induction n arbitrary: k c)
  case 0
  then show ?case by auto
next
  case (Suc n)
  from Suc.prems(1) consider "i = cg_id c"
    | d where "d \<in> set (children_of cs c)" "i \<in> tree_ids (subtree rank cs n d)"
    by auto
  then show ?case
  proof cases
    case 1
    then show ?thesis using Suc.prems(2) by blast
  next
    case 2
    then show ?thesis using Suc.IH [OF 2(2)] at_level.child [OF Suc.prems(2) 2(1)] by blast
  qed
qed

lemma tree_reaches:
  assumes "at_level cs k c" and "k \<le> n"
  shows "\<exists>r \<in> set cs. is_root cs r \<and> cg_id c \<in> tree_ids (subtree rank cs n r)"
proof -
  have walk: "at_level cs k c \<Longrightarrow>
      \<exists>r \<in> set cs. is_root cs r \<and> (\<forall>n. tree_ids (subtree rank cs n c) \<subseteq> tree_ids (subtree rank cs (n + k) r))"
    for k c
  proof (induction rule: at_level.induct)
    case (root c)
    then show ?case by auto
  next
    case (child k p c)
    then obtain r where r: "r \<in> set cs" "is_root cs r"
      "\<And>n. tree_ids (subtree rank cs n p) \<subseteq> tree_ids (subtree rank cs (n + k) r)" by blast
    have "tree_ids (subtree rank cs n c) \<subseteq> tree_ids (subtree rank cs (Suc n) p)" for n
      using child.hyps(2) by auto
    then show ?case using r by (metis add_Suc add_Suc_right order_trans)
  qed
  obtain r where "r \<in> set cs" "is_root cs r"
    "\<And>n. tree_ids (subtree rank cs n c) \<subseteq> tree_ids (subtree rank cs (n + k) r)"
    using walk [OF assms(1)] by blast
  moreover have "cg_id c \<in> tree_ids (subtree rank cs (n - k) c)" by (cases "n - k") auto
  ultimately show ?thesis using assms(2) by (metis le_add_diff_inverse2 subsetD)
qed


definition sample_tree_market :: market where
  "sample_tree_market = sample_open\<lparr>categories :=
     [\<lparr>cg_id = 1, cg_name = ''A'', cg_slug = ''a'', cg_parent = None, cg_active = True, cg_tenant = 1, cg_store = None\<rparr>,
      \<lparr>cg_id = 2, cg_name = ''B'', cg_slug = ''b'', cg_parent = Some 1, cg_active = True, cg_tenant = 1, cg_store = None\<rparr>]\<rparr>"


text \<open>
  An update can hide categories: re-parenting checks that the new parent exists and is the
  tenant's, not that it is no descendant. Here an admin makes two categories each other's parent;
  both updates succeed, both categories are still listed, and the tree is empty.
\<close>

definition reparent :: "uuid \<Rightarrow> uuid \<Rightarrow> market \<Rightarrow> market" where
  "reparent i p m = snd (run_tx (update_category sample_ctx 2 i
     \<lparr>gu_name = None, gu_slug = None, gu_parent = Some (Some p)\<rparr>) m)"

theorem category_cycle_vanishes:
  "map (\<lambda>c. (cg_id c, cg_parent c)) (list_categories (\<lambda>_. 0) (Some 1) (reparent 1 2 sample_tree_market)) =
     [(1, Some 2), (2, Some 1)] \<and>
   get_category_tree (\<lambda>_. 0) (\<lambda>_. 0) (Some 1) (reparent 1 2 sample_tree_market) = []"
  by code_simp

section \<open>Uniqueness that the database does not enforce\<close>

text \<open>
  The conflict on a slug is never reported: products and categories are created without a store,
  and the unique index is on store and slug, so as long as the table satisfies the index no creation
  fails with the message that the slug already exists - a second product with the slug of the first
  is accepted.
\<close>

lemma slugs_unique_none: "slugs_unique (ss @ [(None, slug)]) = slugs_unique ss"
  by (simp add: slugs_unique_def)

theorem slug_conflicts_are_not_reported:
  assumes "product_slugs_ok (products m)" and "category_slugs_ok (categories m)"
  shows "create_product ctx actor d now m \<noteq> Inl (Conflict ''A product with this slug already exists'') \<and>
    create_category ctx actor g m \<noteq> Inl (Conflict ''A category with this slug already exists'')"
proof -
  have p: "product_slugs_ok (products m @ [new_product ctx d now i])" for i
    using assms(1) by (simp add: product_slugs_ok_def new_product_def slugs_unique_none)
  have c: "category_slugs_ok (categories m @ [\<lparr>cg_id = i, cg_name = n, cg_slug = s, cg_parent = q,
      cg_active = b, cg_tenant = t, cg_store = None\<rparr>])" for i n s q b t
    using assms(2) by (simp add: category_slugs_ok_def slugs_unique_none)
  have limit: "enforce_limit t k n x m \<noteq> Inl (Conflict msg)" for t k n x msg
    by (auto simp: enforce_limit_def assert_limit_def reserve_def validate_key_and_period_def
        validate_amount_def validate_limit_def Let_def map_sum_def
        split: sum.splits option.splits if_splits reservation.splits prod.splits)
  have "create_product ctx actor d now m \<noteq> Inl (Conflict ''A product with this slug already exists'')"
  proof
    assume "create_product ctx actor d now m = Inl (Conflict ''A product with this slug already exists'')"
    then show False
      using limit p enforce_limit_market
      by (fastforce simp: create_product_def own_category_def then_do_Inl Let_def assert_object_in_tenant_def
          split: if_splits)
  qed
  moreover have "create_category ctx actor g m \<noteq> Inl (Conflict ''A category with this slug already exists'')"
    by (auto simp: create_category_def check_parent_def then_do_Inl Let_def assert_object_in_tenant_def c
        split: option.splits if_splits)
  ultimately show ?thesis by blast
qed

theorem slug_conflicts_are_not_reported_witness:
  "create_product sample_ctx 2 sample_product_dto 1 sample_stocked \<noteq>
     Inl (Conflict ''A product with this slug already exists'') \<and>
   map p_slug (products (snd (run_tx (create_product sample_ctx 2 sample_product_dto 1) sample_stocked))) =
     [''mug'', ''mug'']"
proof -
  have "map p_slug (products (snd (run_tx (create_product sample_ctx 2 sample_product_dto 1) sample_stocked))) =
     [''mug'', ''mug'']" by code_simp
  moreover have "product_slugs_ok (products sample_stocked)" "category_slugs_ok (categories sample_stocked)"
    by code_simp+
  ultimately show ?thesis
    using slug_conflicts_are_not_reported [of sample_stocked sample_ctx 2 sample_product_dto 1] by blast
qed

text \<open>
  No coupon can be scoped to a category that the catalogue service created: such a category has
  no store, a coupon always gets the tenant's primary store, and the foreign key on both columns
  refuses the row, after every check of the request has passed.
\<close>

theorem created_category_cannot_have_coupons:
  assumes "create_category ctx actor g m = Inr (c, m1)"
    and "\<And>r. r \<in> set (categories m) \<Longrightarrow> cg_id r < fresh m"
    and "kd_scope d = CategoryScope" and "kd_category d = Some (cg_id c)"
  shows "create_coupon ctx' actor' d now m1 \<noteq> Inr x"
proof -
  have c: "categories m1 = categories m @ [c]" "cg_store c = None" "cg_id c = fresh m"
    using assms(1) by (auto simp: create_category_def Let_def audit_def)
  have "\<not> coupon_category_ok (new_coupon ctx' actor' store d now i) m1" for store i
    using assms(3,4) by (auto simp: coupon_category_ok_def new_coupon_def c list_ex_iff dest: assms(2))
  then show ?thesis by (auto simp: create_coupon_def Let_def)
qed

definition sample_category_dto :: category_dto where
  "sample_category_dto = \<lparr>gd_name = ''Caps'', gd_slug = ''caps'', gd_parent = None\<rparr>"

theorem created_category_cannot_have_coupons_witness:
  "\<exists>c m1. create_category sample_ctx 2 sample_category_dto sample_open = Inr (c, m1) \<and>
     (\<forall>x. create_coupon sample_ctx 2
       (sample_coupon_dto\<lparr>kd_scope := CategoryScope, kd_category := Some (cg_id c)\<rparr>) 5 m1 \<noteq> Inr x)"
proof -
  have "case create_category sample_ctx 2 sample_category_dto sample_open of Inl _ \<Rightarrow> False | Inr _ \<Rightarrow> True"
    by code_simp
  then obtain c m1 where c: "create_category sample_ctx 2 sample_category_dto sample_open = Inr (c, m1)"
    by (cases "create_category sample_ctx 2 sample_category_dto sample_open") auto
  have "cg_id r < fresh sample_open" if "r \<in> set (categories sample_open)" for r
    using that by (simp add: sample_open_def sample_market_def)
  then show ?thesis
    using c created_category_cannot_have_coupons [OF c, of
        "sample_coupon_dto\<lparr>kd_scope := CategoryScope, kd_category := Some (cg_id c)\<rparr>"]
    by auto
qed

section \<open>Files of others\<close>

lemma submission_for_first:
  "fst c = fst c1 \<Longrightarrow> submission_for f (c1 # cs @ [c]) = submission_for f (c1 # cs)"
  by (auto simp: submission_for_def find_append split: option.split)

text \<open>
  The ownership check of uploaded files has a gap: each field is checked with the first value
  submitted for it, and every submitted value is stored. So whatever a request may submit for a
  field, it may submit a second value for that field that nothing checked - another customer's
  or another tenant's file - and it ends up in the cart.
\<close>

theorem second_submission_is_not_checked:
  assumes "check_add_item num user tenant here (d\<lparr>ad_customs := (f, s) # cs\<rparr>) c m = Inr (p, v)"
  shows "check_add_item num user tenant here (d\<lparr>ad_customs := (f, s) # cs @ [(f, s')]\<rparr>) c m = Inr (p, v) \<and>
    (insert_item_tx c p v (d\<lparr>ad_customs := (f, s) # cs @ [(f, s')]\<rparr>) now m = Inr (w, m') \<longrightarrow>
      (\<exists>r \<in> set (cart_customs m'). cc_field r = f \<and> cc_text r = sb_text s' \<and> cc_file r = sb_file s'))"
proof -
  have "validate_customizations_for_write num (p_id p) ((f, s) # cs) user (c_tenant c) m = Inr ()"
    using assms by (simp add: check_add_item_def)
  then have "validate_customizations_for_write num (p_id p) ((f, s) # cs @ [(f, s')]) user (c_tenant c) m = Inr ()"
    by (auto simp: validate_customizations_for_write_def Let_def
        submission_for_first [of "(f, s')" "(f, s)", simplified])
  then have "check_add_item num user tenant here (d\<lparr>ad_customs := (f, s) # cs @ [(f, s')]\<rparr>) c m = Inr (p, v)"
    using assms by (auto simp: check_add_item_def)
  moreover have "\<exists>r \<in> set (cart_customs m'). cc_field r = f \<and> cc_text r = sb_text s' \<and> cc_file r = sb_file s'"
    if "insert_item_tx c p v (d\<lparr>ad_customs := (f, s) # cs @ [(f, s')]\<rparr>) now m = Inr (w, m')"
  proof -
    have "custom_rows i j t ((f, s) # cs @ [(f, s')]) = custom_rows i j t ((f, s) # cs) @
        [\<lparr>cc_id = i + Suc (length cs), cc_item = j, cc_field = f, cc_text = sb_text s', cc_file = sb_file s',
          cc_tenant = t\<rparr>]" for i j t
      by (simp add: custom_rows_def enumerate_append_eq)
    then show ?thesis using that by (auto simp: insert_item_tx_def Let_def)
  qed
  ultimately show ?thesis by blast
qed

definition sample_custom_market :: market where
  "sample_custom_market = sample_market\<lparr>
     custom_fields := [\<lparr>f_id = 50, f_product = 1, f_label = ''Logo'', f_type = LogoUpload, f_required = True,
       f_sort = 0, f_help = None, f_constraints = NoObject, f_surcharge_type = NoSurcharge,
       f_surcharge = Dec 0 2, f_tenant = 1\<rparr>],
     uploads := [\<lparr>up_id = 60, up_public = ''mine'', up_user = 9, up_format = ''png'', up_bytes = 10,
         up_resource = ''image'', up_delivery = ''authenticated'', up_tenant = 1\<rparr>,
       \<lparr>up_id = 61, up_public = ''theirs'', up_user = 8, up_format = ''png'', up_bytes = 10,
         up_resource = ''image'', up_delivery = ''authenticated'', up_tenant = 2\<rparr>]\<rparr>"

definition sample_custom_dto :: add_item_dto where
  "sample_custom_dto = \<lparr>ad_product = 1, ad_variant = None, ad_quantity = 1,
     ad_customs = [(50, \<lparr>sb_text = None, sb_file = Some 60\<rparr>)]\<rparr>"

theorem second_submission_is_not_checked_witness:
  "check_add_item (\<lambda>_. ''1'') 9 1 True
     (sample_custom_dto\<lparr>ad_customs := [(50, \<lparr>sb_text = None, sb_file = Some 60\<rparr>), (50, \<lparr>sb_text = None, sb_file = Some 61\<rparr>)]\<rparr>)
     \<lparr>c_id = 7, c_user = 9, c_tenant = 1\<rparr> sample_custom_market = Inr (sample_product, None)"
proof -
  have "check_add_item (\<lambda>_. ''1'') 9 1 True
      (sample_custom_dto\<lparr>ad_customs := (50, \<lparr>sb_text = None, sb_file = Some 60\<rparr>) # []\<rparr>)
      \<lparr>c_id = 7, c_user = 9, c_tenant = 1\<rparr> sample_custom_market = Inr (sample_product, None)"
    by code_simp
  from second_submission_is_not_checked [OF this, of "\<lparr>sb_text = None, sb_file = Some 61\<rparr>"]
  show ?thesis by simp
qed

text \<open>
  A product image may be made of any file: adding an image looks the file up by its id alone, so
  an admin who knows the id of another tenant's private upload gets a product image of it, with that
  file's delivery type, and with it a delivery URL.
\<close>

theorem image_of_foreign_file:
  assumes "find_upload_by_id file m = Some u" and "own_product ctx product m = Inr p"
  shows "\<exists>im m'. add_image url ctx actor product file position primary m =
      Inr ((im, url (up_public u) (up_resource u) (up_delivery u)), m') \<and>
    im \<in> set (images m') \<and> im_product im = product \<and> im_public im = up_public u \<and>
    im_tenant im = tc_tenant ctx"
  using assms by (auto simp: add_image_def or_throw_def Let_def with_image_url_def audit_def take_ids_def)

theorem image_of_foreign_file_witness:
  "\<exists>im m'. add_image (\<lambda>a b c. a) sample_ctx 2 1 61 None None sample_custom_market = Inr ((im, ''theirs''), m') \<and>
     im_tenant im = 1"
proof -
  have "find_upload_by_id 61 sample_custom_market = Some
      \<lparr>up_id = 61, up_public = ''theirs'', up_user = 8, up_format = ''png'', up_bytes = 10,
        up_resource = ''image'', up_delivery = ''authenticated'', up_tenant = 2\<rparr>"
    and "own_product sample_ctx 1 sample_custom_market = Inr sample_product"
    by code_simp+
  from image_of_foreign_file [OF this, of "\<lambda>a b c. a" 2 None None] show ?thesis
    by (auto simp: sample_ctx_def)
qed

end
