(* ===== verification/Hostnames.thy ===== *)
theory Hostnames
  imports Prelude
begin

text \<open>
  \<open>common/tenant/store-domain-resolution/host-normalisation.ts\<close>: the one spelling under which
  a hostname is stored and looked up, and the parser of the browser's \<open>Origin\<close>. The regular
  expressions are written as the predicates they test.
\<close>

section \<open>Hostnames\<close>

fun split_on :: "char \<Rightarrow> string \<Rightarrow> string list" where
  "split_on sep [] = [[]]"
| "split_on sep (c # s) =
     (if c = sep then [] # split_on sep s
      else (case split_on sep s of [] \<Rightarrow> [[c]] | w # ws \<Rightarrow> (c # w) # ws))"

definition digit :: "char \<Rightarrow> bool" where
  "digit c \<longleftrightarrow> (let n = of_char c in 48 \<le> n \<and> n \<le> (57 :: nat))"

definition label_edge :: "char \<Rightarrow> bool" where
  "label_edge c \<longleftrightarrow> digit c \<or> (let n = of_char c in 97 \<le> n \<and> n \<le> (122 :: nat))"

definition label_char :: "char \<Rightarrow> bool" where
  "label_char c \<longleftrightarrow> label_edge c \<or> c = CHR ''-''"

definition valid_label :: "string \<Rightarrow> bool" where
  "valid_label l \<longleftrightarrow>
     l \<noteq> [] \<and> length l \<le> 63 \<and> label_edge (hd l) \<and> label_edge (last l) \<and> list_all label_char l"

definition is_ipv4 :: "string \<Rightarrow> bool" where
  "is_ipv4 h \<longleftrightarrow>
     (let ls = split_on (CHR ''.'') h
      in length ls = 4 \<and> list_all (\<lambda>l. l \<noteq> [] \<and> length l \<le> 3 \<and> list_all digit l) ls)"

definition drop_last_dot :: "string \<Rightarrow> string" where
  "drop_last_dot h = (if h \<noteq> [] \<and> last h = CHR ''.'' then butlast h else h)"

definition valid_host :: "bool \<Rightarrow> string \<Rightarrow> string option" where
  "valid_host allow_loopback h =
     (if h = [] then None
      else if h = ''localhost'' \<or> is_ipv4 h then (if allow_loopback then Some h else None)
      else (let ls = split_on (CHR ''.'') h
            in if length ls < 2 then None
               else if list_all valid_label ls then Some h else None))"

definition normalise_host :: "bool \<Rightarrow> string option \<Rightarrow> string option" where
  "normalise_host allow_loopback raw =
     (case raw of
        None \<Rightarrow> None
      | Some s \<Rightarrow>
          (let h = to_lower (js_trim s)
           in if h = [] \<or> 253 < length h then None
              else if hd h = CHR ''['' \<or> CHR '':'' \<in> set h then None
              else valid_host allow_loopback (drop_last_dot h)))"

section \<open>Origins\<close>

datatype scheme = Http | Https

fun scheme_text :: "scheme \<Rightarrow> string" where
  "scheme_text Http = ''http''"
| "scheme_text Https = ''https''"

definition origin_scheme :: "string \<Rightarrow> (scheme \<times> string) option" where
  "origin_scheme s =
     (if take 7 (to_lower s) = ''http://'' then Some (Http, drop 7 s)
      else if take 8 (to_lower s) = ''https://'' then Some (Https, drop 8 s)
      else None)"

definition origin_host_char :: "char \<Rightarrow> bool" where
  "origin_host_char c \<longleftrightarrow> c \<notin> set ''/?#@:'' \<and> \<not> js_space c"

definition origin_port_ok :: "string \<Rightarrow> bool" where
  "origin_port_ok r \<longleftrightarrow>
     r = [] \<or> (hd r = CHR '':'' \<and> 1 \<le> length (tl r) \<and> length (tl r) \<le> 5 \<and> list_all digit (tl r))"

definition parse_storefront_origin ::
  "bool \<Rightarrow> bool \<Rightarrow> string option \<Rightarrow> (scheme \<times> string) option" where
  "parse_storefront_origin allow_loopback require_https origin =
     (case Option.bind origin (\<lambda>s. origin_scheme (js_trim s)) of
        None \<Rightarrow> None
      | Some (sch, rest) \<Rightarrow>
          (let h = takeWhile origin_host_char rest
           in if h = [] \<or> \<not> origin_port_ok (dropWhile origin_host_char rest) then None
              else if require_https \<and> sch \<noteq> Https then None
              else map_option (Pair sch) (normalise_host allow_loopback (Some h))))"

section \<open>The platform's own subdomains\<close>

text \<open>\<open>store-domains/platform-subdomain.ts\<close>: the name derived from a store's slug.\<close>

definition derive_platform_subdomain :: "string \<Rightarrow> string \<Rightarrow> string option" where
  "derive_platform_subdomain slug domain = normalise_host False (Some (slug @ ''.'' @ domain))"

section \<open>Facts\<close>

lemma lower_upper_char [simp]: "lower_char (upper_char c) = lower_char c"
  by (auto simp: lower_char_def upper_char_def Let_def)

lemma to_lower_to_upper [simp]: "to_lower (to_upper s) = to_lower s"
  by (simp add: to_lower_def to_upper_def)

lemma length_to_lower [simp]: "length (to_lower s) = length s"
  by (simp add: to_lower_def)

lemma to_lower_Nil [simp]: "to_lower s = [] \<longleftrightarrow> s = []"
  by (simp add: to_lower_def)

lemma to_lower_butlast: "to_lower (butlast s) = butlast (to_lower s)"
  by (simp add: to_lower_def map_butlast)

lemma split_on_nonempty [simp]: "split_on sep s \<noteq> []"
  by (induction s) (auto split: list.split)

lemma split_on_parts: "concat (split_on sep s) = filter (\<lambda>c. c \<noteq> sep) s"
  by (induction s) (auto split: list.split)

lemma split_on_empty [simp]: "split_on sep s = [[]] \<longleftrightarrow> s = []"
  by (cases s) (auto split: list.split)

lemma last_split_on: "s \<noteq> [] \<Longrightarrow> last s = sep \<Longrightarrow> last (split_on sep s) = []"
proof (induction s)
  case (Cons c s)
  then show ?case by (cases "s = []") (auto split: list.split)
qed simp

lemma split_on_append_sep: "split_on sep (s @ sep # t) = split_on sep s @ split_on sep t"
  by (induction s) (auto split: list.split)

lemma split_on_no_sep: "sep \<notin> set s \<Longrightarrow> split_on sep s = [s]"
  by (induction s) auto

text \<open>What a normalised name looks like.\<close>

lemma valid_host_same: "valid_host a h = Some h' \<Longrightarrow> h' = h"
  by (auto simp: valid_host_def Let_def split: if_splits)

lemma edge_not_dot: "label_edge c \<Longrightarrow> c \<noteq> CHR ''.'' \<and> c \<noteq> CHR ''['' \<and> \<not> js_space c"
  by (auto simp: label_edge_def digit_def js_space_def Let_def)

lemma valid_host_last_dot: "valid_host a h = Some h' \<Longrightarrow> last h \<noteq> CHR ''.''"
proof
  assume v: "valid_host a h = Some h'" and dot: "last h = CHR ''.''"
  then have ne: "h \<noteq> []" by (auto simp: valid_host_def)
  have "last (split_on (CHR ''.'') h) = []" using last_split_on ne dot by blast
  then have in_parts: "[] \<in> set (split_on (CHR ''.'') h)" by (metis last_in_set split_on_nonempty)
  then have "\<not> list_all valid_label (split_on (CHR ''.'') h)" "\<not> is_ipv4 h"
    by (auto simp: valid_label_def is_ipv4_def Let_def list_all_iff)
  moreover have "h \<noteq> ''localhost''" using dot by auto
  ultimately show False using v by (auto simp: valid_host_def Let_def split: if_splits)
qed

lemma split_on_mem: "x \<in> set (split_on sep s) \<Longrightarrow> set x \<subseteq> set s"
proof -
  assume "x \<in> set (split_on sep s)"
  then have "set x \<subseteq> set (concat (split_on sep s))" by auto
  then show ?thesis by (auto simp: split_on_parts)
qed

lemma split_on_cover: "c \<in> set s \<Longrightarrow> c = sep \<or> (\<exists>x \<in> set (split_on sep s). c \<in> set x)"
proof -
  assume "c \<in> set s"
  then have "c = sep \<or> c \<in> set (concat (split_on sep s))" by (simp add: split_on_parts)
  then show ?thesis by auto
qed

text \<open>Every character of a valid name is a letter, a digit, a hyphen or a dot.\<close>

lemma valid_host_chars:
  assumes "valid_host a h = Some h'" and "c \<in> set h"
  shows "label_char c \<or> c = CHR ''.''"
proof -
  have part: "list_all label_char x" if "x \<in> set (split_on (CHR ''.'') h)"
    and "is_ipv4 h \<or> list_all valid_label (split_on (CHR ''.'') h)" for x
    using that by (auto simp: is_ipv4_def Let_def valid_label_def label_char_def label_edge_def list_all_iff)
  have "h = ''localhost'' \<or> is_ipv4 h \<or> list_all valid_label (split_on (CHR ''.'') h)"
    using assms(1) by (auto simp: valid_host_def Let_def split: if_splits)
  then show ?thesis
  proof (elim disjE)
    assume "h = ''localhost''"
    then show ?thesis using assms(2) by (auto simp: label_char_def label_edge_def Let_def)
  qed (use split_on_cover [OF assms(2)] part in \<open>fastforce simp: list_all_iff\<close>)+
qed

lemma label_char_plain: "label_char c \<or> c = CHR ''.'' \<Longrightarrow>
    \<not> js_space c \<and> lower_char c = c \<and> c \<noteq> CHR '':'' \<and> c \<noteq> CHR ''[''"
  by (auto simp: label_char_def label_edge_def digit_def js_space_def lower_char_def Let_def)

lemma valid_host_normal:
  assumes "valid_host a h = Some h'" and "length h \<le> 253"
  shows "normalise_host a (Some h) = Some h"
proof -
  have plain: "\<not> js_space c \<and> lower_char c = c \<and> c \<noteq> CHR '':'' \<and> c \<noteq> CHR ''[''" if "c \<in> set h" for c
    using valid_host_chars [OF assms(1) that] label_char_plain by blast
  have ne: "h \<noteq> []" using assms(1) by (auto simp: valid_host_def)
  have "js_trim h = h" using plain by (intro js_trim_plain) blast
  moreover have "to_lower h = h" using plain by (simp add: to_lower_def map_idI)
  moreover have "drop_last_dot h = h"
    using valid_host_last_dot [OF assms(1)] by (simp add: drop_last_dot_def)
  moreover have "hd h \<noteq> CHR ''['' \<and> CHR '':'' \<notin> set h" using plain ne by (metis hd_in_set)
  ultimately show ?thesis
    using assms ne valid_host_same [OF assms(1)] by (simp add: normalise_host_def Let_def)
qed

lemma normalise_host_valid:
  assumes "normalise_host a raw = Some h"
  shows "valid_host a h = Some h" and "length h \<le> 253"
proof -
  obtain s where s: "raw = Some s" "valid_host a (drop_last_dot (to_lower (js_trim s))) = Some h"
    "length (to_lower (js_trim s)) \<le> 253"
    using assms by (auto simp: normalise_host_def Let_def split: option.splits if_splits)
  then have h: "h = drop_last_dot (to_lower (js_trim s))" using valid_host_same by blast
  show "valid_host a h = Some h" using s(2) h by simp
  show "length h \<le> 253" using s(3) unfolding h by (auto simp: drop_last_dot_def)
qed

lemma normalise_host_idem:
  "normalise_host a raw = Some h \<Longrightarrow> normalise_host a (Some h) = Some h"
  using normalise_host_valid valid_host_normal by blast

text \<open>
  Hostnames have one spelling: what the normalisation returns it returns again, and the same
  name in upper case, between white space or with a final dot comes out as that same name, so two
  spellings of a host can never be two rows.
\<close>

theorem normalise_host_canonical:
  assumes "normalise_host a (Some s) = Some h"
  shows "normalise_host a (Some h) = Some h \<and> normalise_host a (Some (to_upper s)) = Some h \<and>
    normalise_host a (Some ('' '' @ s @ '' '')) = Some h \<and> to_lower h = h \<and>
    (length h < 253 \<longrightarrow> normalise_host a (Some (h @ ''.'')) = Some h)"
proof -
  note v = normalise_host_valid [OF assms]
  have plain: "\<not> js_space c \<and> lower_char c = c \<and> c \<noteq> CHR '':'' \<and> c \<noteq> CHR ''[''" if "c \<in> set h" for c
    using valid_host_chars [OF v(1) that] label_char_plain by blast
  have space: "js_space (CHR '' '')" "\<not> js_space (CHR ''.'')" by (simp_all add: js_space_def)
  have trim: "js_trim ('' '' @ s @ '' '') = js_trim s"
  proof (cases "\<forall>c \<in> set s. js_space c")
    case True
    then show ?thesis using space by (auto simp: js_trim_def dropWhile_append dest: set_dropWhileD)
  next
    case False
    then show ?thesis using space by (auto simp: js_trim_def dropWhile_append)
  qed
  have dot: "normalise_host a (Some (h @ ''.'')) = Some h" if "length h < 253"
  proof -
    have "js_trim (h @ ''.'') = h @ ''.''" using plain space by (intro js_trim_plain) auto
    moreover have "to_lower (h @ ''.'') = h @ ''.''"
      using plain by (simp add: to_lower_def map_idI lower_char_def)
    moreover have "drop_last_dot (h @ ''.'') = h" by (simp add: drop_last_dot_def)
    moreover have "h \<noteq> []" using v(1) by (auto simp: valid_host_def)
    ultimately show ?thesis
      using that v plain hd_in_set [of h] by (auto simp: normalise_host_def Let_def hd_append)
  qed
  have "to_lower h = h" using plain by (simp add: to_lower_def map_idI)
  then show ?thesis
    using assms dot valid_host_normal [OF v] trim
    by (simp add: normalise_host_def js_trim_to_upper Let_def)
qed

theorem normalise_host_canonical_witness:
  "normalise_host False (Some ''  Shop.Example.COM.'') = Some ''shop.example.com'' \<and>
   normalise_host False (Some ''shop.example.com'') = Some ''shop.example.com''"
proof -
  have "normalise_host False (Some ''  Shop.Example.COM.'') = Some ''shop.example.com''" by code_simp
  then show ?thesis using normalise_host_canonical by blast
qed

lemma parse_origin_host:
  "parse_storefront_origin a r origin = Some (sch, h) \<Longrightarrow> \<exists>s. normalise_host a (Some s) = Some h"
  by (auto simp: parse_storefront_origin_def Let_def split: option.splits prod.splits if_splits)

lemma parse_origin_https:
  "parse_storefront_origin a True origin = Some (sch, h) \<Longrightarrow> sch = Https"
  by (auto simp: parse_storefront_origin_def Let_def split: option.splits prod.splits if_splits)
end
