(* ===== verification/Domains.thy ===== *)
theory Domains
  imports Hostnames Market
begin

text \<open>
  The table of store domains, what DNS and the hosting provider answer about a name, the check of
  a domain's ownership (\<open>store-domains/store-domain-verification.ts\<close>,
  \<open>store-domain-verification-check.service.ts\<close>, \<open>dns/domain-dns-resolver.ts\<close>), the mapping of a
  certificate's state (\<open>hosting/domain-hosting-provider.ts\<close>) and the cache of lookups
  (\<open>store-domain-lookup.cache.ts\<close>). The state of the storefront side is a \<open>site\<close>: the commerce
  database, the domains, the reasons kept in the audit log, and one process's cache.
\<close>

section \<open>Rows\<close>

datatype domain_status = DomainPending | DomainVerified | DomainFailed

fun domain_status_text :: "domain_status \<Rightarrow> string" where
  "domain_status_text DomainPending = ''PENDING''"
| "domain_status_text DomainVerified = ''VERIFIED''"
| "domain_status_text DomainFailed = ''FAILED''"

datatype domain_type = PlatformSubdomain | CustomHost

datatype verification_method = DnsTxt | Cname

datatype tls_status = TlsPending | TlsIssued | TlsError

fun tls_status_text :: "tls_status \<Rightarrow> string" where
  "tls_status_text TlsPending = ''PENDING''"
| "tls_status_text TlsIssued = ''ISSUED''"
| "tls_status_text TlsError = ''ERROR''"

datatype store_status = StoreActive | StoreDisabled | StoreDraft

record store_domain =
  sd_id :: uuid
  sd_store :: uuid
  sd_tenant :: uuid
  sd_host :: string
  sd_primary :: bool
  sd_status :: domain_status
  sd_token :: "string option"
  sd_verified_at :: "instant option"
  sd_type :: "domain_type option"
  sd_method :: "verification_method option"
  sd_checked_at :: "instant option"
  sd_tls :: "tls_status option"
  sd_created :: instant

text \<open>The unique index on the hostname, and the partial one on the store of a primary domain.\<close>

definition domains_ok :: "store_domain list \<Rightarrow> bool" where
  "domains_ok ds \<longleftrightarrow> distinct (map sd_host ds) \<and> distinct (map sd_store (filter sd_primary ds))"

text \<open>A null type reads as a custom host, a null certificate state as pending.\<close>

definition is_custom :: "domain_type option \<Rightarrow> bool" where
  "is_custom t \<longleftrightarrow> (case t of None \<Rightarrow> True | Some t \<Rightarrow> t = CustomHost)"

definition tls_of :: "tls_status option \<Rightarrow> tls_status" where
  "tls_of t = (case t of None \<Rightarrow> TlsPending | Some t \<Rightarrow> t)"

section \<open>Verification\<close>

datatype failure_reason =
    TxtRecordNotFound | TxtValueMismatch | CnameRecordNotFound | CnameTargetMismatch
  | CnameTargetNotConfigured | DnsTimeout | DnsError

definition txt_record_name :: "string \<Rightarrow> string" where
  "txt_record_name host = ''_printforge-verify.'' @ host"

definition normalise_dns_target :: "string \<Rightarrow> string" where
  "normalise_dns_target v = drop_last_dot (to_lower (js_trim v))"

text \<open>The outcome of a check is the reason of its failure, or none.\<close>

definition evaluate_txt :: "string list \<Rightarrow> string \<Rightarrow> failure_reason option" where
  "evaluate_txt records token =
     (if records = [] then Some TxtRecordNotFound
      else if list_ex (\<lambda>r. js_trim r = token) records then None else Some TxtValueMismatch)"

definition evaluate_cname :: "string list \<Rightarrow> string \<Rightarrow> failure_reason option" where
  "evaluate_cname records target =
     (if records = [] then Some CnameRecordNotFound
      else if list_ex (\<lambda>r. normalise_dns_target r = normalise_dns_target target) records then None
      else Some CnameTargetMismatch)"

record instructions =
  in_method :: verification_method
  in_record :: string
  in_value :: string
  in_text :: string

definition verification_instructions ::
  "string \<Rightarrow> verification_method \<Rightarrow> string \<Rightarrow> string option \<Rightarrow> instructions" where
  "verification_instructions host method token target =
     (case method of
        DnsTxt \<Rightarrow>
          \<lparr>in_method = method, in_record = txt_record_name host, in_value = token,
           in_text = ''Create a DNS TXT record named '' @ quoted (txt_record_name host) @
             '' with the value '' @ quoted token @ '', then run verification.''\<rparr>
      | Cname \<Rightarrow>
          (let t = (case target of None \<Rightarrow> '''' | Some t \<Rightarrow> t) in
           \<lparr>in_method = method, in_record = host, in_value = t,
            in_text = ''Point '' @ quoted host @ '' at '' @ quoted t @
              '' with a DNS CNAME record, then run verification.''\<rparr>))"

text \<open>What Node's resolver gives: records (a text record in chunks) or an error code; and the
  service's reading of it, where a missing record is no error.\<close>

datatype 'a lookup = Records "'a list" | LookupFailed bool

datatype 'a node_answer = NodeRecords "'a list" | NodeCode string

fun dns_guard :: "('a \<Rightarrow> string) \<Rightarrow> 'a node_answer \<Rightarrow> string lookup" where
  "dns_guard f (NodeRecords rs) = Records (map f rs)"
| "dns_guard f (NodeCode code) =
     (if code = ''ENOTFOUND'' \<or> code = ''ENODATA'' then Records []
      else LookupFailed (code = ''ETIMEOUT''))"

record node_resolver =
  nr_txt :: "string \<Rightarrow> string list node_answer"
  nr_cname :: "string \<Rightarrow> string node_answer"

definition resolve_txt :: "node_resolver \<Rightarrow> string \<Rightarrow> string lookup" where
  "resolve_txt r name = dns_guard concat (nr_txt r name)"

definition resolve_cname :: "node_resolver \<Rightarrow> string \<Rightarrow> string lookup" where
  "resolve_cname r name = dns_guard id (nr_cname r name)"

definition checked_lookup ::
  "(string list \<Rightarrow> failure_reason option) \<Rightarrow> string lookup \<Rightarrow> failure_reason option" where
  "checked_lookup f a =
     (case a of Records rs \<Rightarrow> f rs
      | LookupFailed timeout \<Rightarrow> Some (if timeout then DnsTimeout else DnsError))"

definition check_domain :: "string option \<Rightarrow> node_resolver \<Rightarrow> store_domain \<Rightarrow> failure_reason option" where
  "check_domain target dns d =
     (if sd_method d = Some Cname then
        (case target of
           None \<Rightarrow> Some CnameTargetNotConfigured
         | Some t \<Rightarrow> checked_lookup (\<lambda>rs. evaluate_cname rs t) (resolve_cname dns (sd_host d)))
      else checked_lookup (\<lambda>rs. evaluate_txt rs (case sd_token d of None \<Rightarrow> '''' | Some t \<Rightarrow> t))
             (resolve_txt dns (txt_record_name (sd_host d))))"

section \<open>The hosting provider\<close>

datatype certificate = CertPending | CertIssued | CertError

record hosting_status =
  hs_configured :: bool
  hs_certificate :: certificate
  hs_target :: "string option"

definition map_certificate :: "hosting_status \<Rightarrow> tls_status" where
  "map_certificate h =
     (if hs_certificate h = CertError then TlsError
      else if hs_configured h \<and> hs_certificate h = CertIssued then TlsIssued
      else TlsPending)"

text \<open>A call answers, fails as a provider error, or throws something else.\<close>

datatype 'a hosting_answer = Reported 'a | HostingFailed string | HostingThrew string

record hosting =
  ho_add :: "string \<Rightarrow> hosting_status hosting_answer"
  ho_status :: "string \<Rightarrow> hosting_status hosting_answer"
  ho_remove :: "string \<Rightarrow> unit hosting_answer"

text \<open>A provider's refusal to report is itself a state of the certificate.\<close>

definition tls_from :: "hosting_status hosting_answer \<Rightarrow> tls_status result" where
  "tls_from a =
     (case a of Reported h \<Rightarrow> Inr (map_certificate h) | HostingFailed _ \<Rightarrow> Inr TlsError
      | HostingThrew e \<Rightarrow> Inl (Thrown e))"

section \<open>The state\<close>

record lookup_row =
  lr_id :: uuid
  lr_host :: string
  lr_store :: uuid
  lr_tenant :: uuid
  lr_type :: "domain_type option"
  lr_status :: domain_status
  lr_tls :: "tls_status option"
  lr_primary :: bool
  lr_primary_host :: "string option"

text \<open>The reason of a failed check, which lives in the metadata of its audit row.\<close>

record failed_check =
  fc_tenant :: uuid
  fc_domain :: uuid
  fc_reason :: failure_reason
  fc_at :: instant

record platform_audit =
  pa_actor :: uuid
  pa_action :: string
  pa_target :: uuid
  pa_tenant :: "uuid option"
  pa_justification :: "string option"

record site =
  st_market :: market
  st_domains :: "store_domain list"
  st_failures :: "failed_check list"
  st_platform_log :: "platform_audit list"
  st_cache :: "string \<Rightarrow> (lookup_row option \<times> instant) option"
  st_store_status :: "uuid \<Rightarrow> store_status option"
  st_store_tenant :: "uuid \<Rightarrow> uuid option"
  st_latest_tenant :: "uuid option"

text \<open>The cache: a hit, including a remembered miss, until it expires.\<close>

definition domain_cache_ttl :: instant where
  "domain_cache_ttl = 15000"

definition cache_get :: "string \<Rightarrow> instant \<Rightarrow> site \<Rightarrow> lookup_row option option" where
  "cache_get host now s =
     Option.bind (st_cache s host) (\<lambda>(row, expires). if expires \<le> now then None else Some row)"

definition cache_set :: "string \<Rightarrow> lookup_row option \<Rightarrow> instant \<Rightarrow> site \<Rightarrow> site" where
  "cache_set host row now s = s\<lparr>st_cache := (st_cache s)(host := Some (row, now + domain_cache_ttl))\<rparr>"

definition bust :: "string \<Rightarrow> site \<Rightarrow> site" where
  "bust host s = s\<lparr>st_cache := (st_cache s)(host := None)\<rparr>"

definition bust_all :: "string list \<Rightarrow> site \<Rightarrow> site" where
  "bust_all hosts s = fold bust hosts s"

lemma bust_frames [simp]:
  "st_market (bust h s) = st_market s" "st_domains (bust h s) = st_domains s"
  "st_failures (bust h s) = st_failures s" "st_platform_log (bust h s) = st_platform_log s"
  "st_store_status (bust h s) = st_store_status s" "st_store_tenant (bust h s) = st_store_tenant s"
  "st_latest_tenant (bust h s) = st_latest_tenant s"
  "st_cache (bust h s) = (st_cache s)(h := None)"
  by (simp_all add: bust_def)

lemma bust_all_frames [simp]:
  "st_market (bust_all hs s) = st_market s" "st_domains (bust_all hs s) = st_domains s"
  "st_failures (bust_all hs s) = st_failures s" "st_platform_log (bust_all hs s) = st_platform_log s"
  "st_store_status (bust_all hs s) = st_store_status s" "st_store_tenant (bust_all hs s) = st_store_tenant s"
  "st_latest_tenant (bust_all hs s) = st_latest_tenant s"
  "st_cache (bust_all hs s) h = (if h \<in> set hs then None else st_cache s h)"
  by (induction hs arbitrary: s) (simp_all add: bust_all_def)

text \<open>The lookup of a row by its name, with the primary name of its store.\<close>

definition primary_host_of :: "uuid \<Rightarrow> store_domain list \<Rightarrow> string option" where
  "primary_host_of store ds =
     map_option sd_host (List.find (\<lambda>d. sd_store d = store \<and> sd_primary d) ds)"

definition lookup_row_of :: "store_domain list \<Rightarrow> store_domain \<Rightarrow> lookup_row" where
  "lookup_row_of ds d =
     \<lparr>lr_id = sd_id d, lr_host = sd_host d, lr_store = sd_store d, lr_tenant = sd_tenant d,
      lr_type = sd_type d, lr_status = sd_status d, lr_tls = sd_tls d, lr_primary = sd_primary d,
      lr_primary_host = primary_host_of (sd_store d) ds\<rparr>"

definition find_host :: "string \<Rightarrow> store_domain list \<Rightarrow> store_domain option" where
  "find_host host ds = List.find (\<lambda>d. sd_host d = host) ds"

definition read_row :: "string \<Rightarrow> store_domain list \<Rightarrow> lookup_row option" where
  "read_row host ds = map_option (lookup_row_of ds) (find_host host ds)"

definition find_domain :: "uuid \<Rightarrow> store_domain list \<Rightarrow> store_domain option" where
  "find_domain i ds = List.find (\<lambda>d. sd_id d = i) ds"

text \<open>Writes go through the two indexes; an update of a row that is gone throws.\<close>

definition write_domains :: "store_domain list \<Rightarrow> site \<Rightarrow> site result" where
  "write_domains ds s = then_do (require (domains_ok ds) UniqueViolation) (\<lambda>_. Inr (s\<lparr>st_domains := ds\<rparr>))"

abbreviation row_gone :: err where
  "row_gone \<equiv> Thrown ''Record to update not found''"

definition update_domain ::
  "uuid \<Rightarrow> (store_domain \<Rightarrow> store_domain) \<Rightarrow> (site, store_domain) tx" where
  "update_domain i f s =
     then_do (or_throw (find_domain i (st_domains s)) row_gone) (\<lambda>d.
     then_do (write_domains (update_rows (\<lambda>d. sd_id d = i) f (st_domains s)) s) (\<lambda>s1.
     Inr (f d, s1)))"

definition site_audit :: "tenant_context \<Rightarrow> uuid \<Rightarrow> string \<Rightarrow> uuid \<Rightarrow> site \<Rightarrow> site" where
  "site_audit ctx actor action target s = s\<lparr>st_market := audit ctx actor action target (st_market s)\<rparr>"

definition log_platform_action :: "uuid \<Rightarrow> string \<Rightarrow> uuid \<Rightarrow> uuid option \<Rightarrow> string option \<Rightarrow> site \<Rightarrow> site" where
  "log_platform_action actor action target tenant why s =
     s\<lparr>st_platform_log := st_platform_log s @
        [\<lparr>pa_actor = actor, pa_action = action, pa_target = target, pa_tenant = tenant,
          pa_justification = why\<rparr>]\<rparr>"

definition log_platform :: "uuid \<Rightarrow> string \<Rightarrow> uuid \<Rightarrow> uuid option \<Rightarrow> string \<Rightarrow> site \<Rightarrow> site" where
  "log_platform actor action target tenant why = log_platform_action actor action target tenant (Some why)"

end
