(* ===== verification/StoreDomains.thy ===== *)
theory StoreDomains
  imports Domains
begin

text \<open>
  \<open>store-domains/store-domains.service.ts\<close> and \<open>platform-subdomain.ts\<close>: the merchant's
  operations on the domains of a store. An operation that calls the hosting provider is not one
  transaction: what it committed before the call stays. The advisory lock of the verification is
  the argument \<open>locked\<close>; the clock and the random token are arguments too.
\<close>

record domain_env =
  de_platform :: "string option"
  de_reserved :: "string list"
  de_target :: "string option"
  de_loopback :: bool

section \<open>Views\<close>

record domain_view =
  dv_id :: uuid
  dv_host :: string
  dv_type :: "domain_type option"
  dv_primary :: bool
  dv_status :: domain_status
  dv_method :: "verification_method option"
  dv_tls :: "tls_status option"
  dv_checked_at :: "instant option"
  dv_verified_at :: "instant option"
  dv_created :: instant
  dv_failure :: "(failure_reason \<times> instant) option"

definition to_domain_view :: "store_domain \<Rightarrow> (failure_reason \<times> instant) option \<Rightarrow> domain_view" where
  "to_domain_view d failure =
     \<lparr>dv_id = sd_id d, dv_host = sd_host d, dv_type = sd_type d, dv_primary = sd_primary d,
      dv_status = sd_status d, dv_method = sd_method d, dv_tls = sd_tls d,
      dv_checked_at = sd_checked_at d, dv_verified_at = sd_verified_at d, dv_created = sd_created d,
      dv_failure = failure\<rparr>"

definition latest_failure :: "uuid \<Rightarrow> uuid \<Rightarrow> site \<Rightarrow> (failure_reason \<times> instant) option" where
  "latest_failure tenant domain s =
     map_option (\<lambda>f. (fc_reason f, fc_at f))
       (latest fc_at (\<lambda>f. fc_tenant f = tenant \<and> fc_domain f = domain) (st_failures s))"

text \<open>Primary first, then the oldest.\<close>

definition list_domains :: "tenant_context \<Rightarrow> site \<Rightarrow> domain_view list" where
  "list_domains ctx s =
     map (\<lambda>d. to_domain_view d (latest_failure (tc_tenant ctx) (sd_id d) s))
       (sort_key (\<lambda>d. if sd_primary d then 0 else (1 :: nat))
         (sort_key sd_created (filter (\<lambda>d. sd_tenant d = tc_tenant ctx) (st_domains s))))"

section \<open>Adding\<close>

definition ends_with :: "string \<Rightarrow> string \<Rightarrow> bool" where
  "ends_with suffix s \<longleftrightarrow> length suffix \<le> length s \<and> drop (length s - length suffix) s = suffix"

definition validate_new_hostname :: "domain_env \<Rightarrow> string \<Rightarrow> string result" where
  "validate_new_hostname env raw =
     then_do (or_throw (normalise_host False (Some raw)) (BadRequest ''hostname is not a valid domain name'')) (\<lambda>h.
     then_do (require (case de_platform env of None \<Rightarrow> True
         | Some p \<Rightarrow> \<not> (h = p \<or> ends_with (''.'' @ p) h))
       (BadRequest ''hostname may not be under the platform storefront domain'')) (\<lambda>_.
     then_do (require (h \<notin> set (de_reserved env)) (BadRequest ''hostname is reserved'')) (\<lambda>_.
     Inr h)))"

record add_view =
  av_domain :: domain_view
  av_token :: string
  av_instructions :: instructions

definition new_domain ::
  "uuid \<Rightarrow> uuid \<Rightarrow> string \<Rightarrow> verification_method \<Rightarrow> string \<Rightarrow> instant \<Rightarrow> uuid \<Rightarrow> store_domain" where
  "new_domain store tenant host method token now i =
     \<lparr>sd_id = i, sd_store = store, sd_tenant = tenant, sd_host = host, sd_primary = False,
      sd_status = DomainPending, sd_token = Some token, sd_verified_at = None,
      sd_type = Some CustomHost, sd_method = Some method, sd_checked_at = None,
      sd_tls = Some TlsPending, sd_created = now\<rparr>"

definition fresh_id :: "site \<Rightarrow> uuid" where
  "fresh_id s = fresh (st_market s)"

definition insert_domain :: "store_domain \<Rightarrow> site \<Rightarrow> site result" where
  "insert_domain d s =
     then_do (write_domains (st_domains s @ [d]) s) (\<lambda>s1.
     Inr (s1\<lparr>st_market := take_ids 1 (st_market s1)\<rparr>))"

definition unique_to_conflict :: "string \<Rightarrow> 'a result \<Rightarrow> 'a result" where
  "unique_to_conflict msg r =
     (case r of Inl UniqueViolation \<Rightarrow> Inl (Conflict msg) | _ \<Rightarrow> r)"

definition add_domain_tx ::
  "tenant_context \<Rightarrow> uuid \<Rightarrow> uuid \<Rightarrow> string \<Rightarrow> verification_method \<Rightarrow> string \<Rightarrow> instant
     \<Rightarrow> (site, store_domain) tx" where
  "add_domain_tx ctx actor store host method token now s =
     (let d = new_domain store (tc_tenant ctx) host method token now (fresh_id s)
      in then_do (insert_domain d s) (\<lambda>s1.
         Inr (d, site_audit ctx actor ''store_domain.added'' (sd_id d) s1)))"

definition add_domain ::
  "domain_env \<Rightarrow> tenant_context \<Rightarrow> uuid \<Rightarrow> string \<Rightarrow> verification_method \<Rightarrow> string \<Rightarrow> instant
     \<Rightarrow> (site, add_view) tx" where
  "add_domain env ctx actor raw method token now s =
     then_do (validate_new_hostname env raw) (\<lambda>host.
     then_do (require (\<not> (method = Cname \<and> de_target env = None))
       (BadRequest ''CNAME verification is not available on this platform - use DNS_TXT'')) (\<lambda>_.
     then_do (primary_store_id_of (tc_tenant ctx) (st_market s)) (\<lambda>store.
     then_do (unique_to_conflict ''This hostname is already in use''
       (add_domain_tx ctx actor store host method token now s)) (\<lambda>(d, s1).
     Inr (\<lparr>av_domain = to_domain_view d None, av_token = token,
           av_instructions = verification_instructions host method token (de_target env)\<rparr>,
          bust host s1)))))"

section \<open>Verification\<close>

definition load_own_domain :: "uuid \<Rightarrow> uuid \<Rightarrow> site \<Rightarrow> store_domain result" where
  "load_own_domain tenant i s =
     or_throw (List.find (\<lambda>d. sd_id d = i \<and> sd_tenant d = tenant) (st_domains s))
       (NotFound ''Domain not found'')"

text \<open>The result of the transaction: the row, the reason of a failed check, and whether the row is
  one that the platform revoked - which is refused only after the commit, so that its audit row
  stays.\<close>

record verify_outcome =
  vo_domain :: store_domain
  vo_reason :: "failure_reason option"
  vo_refused :: bool

definition verified_row :: "instant \<Rightarrow> store_domain \<Rightarrow> store_domain" where
  "verified_row now d = d\<lparr>sd_status := DomainVerified, sd_verified_at := Some now, sd_checked_at := Some now\<rparr>"

definition remember_failure :: "uuid \<Rightarrow> uuid \<Rightarrow> failure_reason \<Rightarrow> instant \<Rightarrow> site \<Rightarrow> site" where
  "remember_failure tenant domain reason now s =
     s\<lparr>st_failures := st_failures s @
        [\<lparr>fc_tenant = tenant, fc_domain = domain, fc_reason = reason, fc_at = now\<rparr>]\<rparr>"

definition verify_tx ::
  "domain_env \<Rightarrow> node_resolver \<Rightarrow> bool \<Rightarrow> tenant_context \<Rightarrow> uuid \<Rightarrow> uuid \<Rightarrow> instant
     \<Rightarrow> (site, verify_outcome) tx" where
  "verify_tx env dns locked ctx actor i now s =
     then_do (require locked (Conflict ''A verification for this domain is already in progress'')) (\<lambda>_.
     then_do (load_own_domain (tc_tenant ctx) i s) (\<lambda>d.
     then_do (require (sd_type d \<noteq> Some PlatformSubdomain)
       (Conflict ''Platform subdomains are always-on and do not require verification'')) (\<lambda>_.
     case sd_status d of
       DomainFailed \<Rightarrow>
         Inr (\<lparr>vo_domain = d, vo_reason = None, vo_refused = True\<rparr>,
              site_audit ctx actor ''store_domain.verify_refused_revoked'' (sd_id d) s)
     | DomainVerified \<Rightarrow> Inl (Conflict ''This domain is already verified'')
     | DomainPending \<Rightarrow>
         (case check_domain (de_target env) dns d of
            None \<Rightarrow>
              then_do (update_domain (sd_id d) (verified_row now) s) (\<lambda>(d1, s1).
              Inr (\<lparr>vo_domain = d1, vo_reason = None, vo_refused = False\<rparr>,
                   site_audit ctx actor ''store_domain.verified'' (sd_id d) s1))
          | Some reason \<Rightarrow>
              then_do (update_domain (sd_id d) (\<lambda>d. d\<lparr>sd_checked_at := Some now\<rparr>) s) (\<lambda>(d1, s1).
              Inr (\<lparr>vo_domain = d1, vo_reason = Some reason, vo_refused = False\<rparr>,
                   remember_failure (tc_tenant ctx) (sd_id d) reason now
                     (site_audit ctx actor ''store_domain.verification_failed'' (sd_id d) s1)))))))"

text \<open>The provider is told of a verified name after the commit; its failure is a certificate
  state, not an error.\<close>

definition attach_to_hosting :: "hosting \<Rightarrow> store_domain \<Rightarrow> site \<Rightarrow> store_domain result \<times> site" where
  "attach_to_hosting ho d s =
     (case tls_from (ho_add ho (sd_host d)) of
        Inl e \<Rightarrow> (Inl e, s)
      | Inr tls \<Rightarrow>
          if sd_tls d = Some tls then (Inr d, s)
          else (case run_tx (update_domain (sd_id d) (\<lambda>d. d\<lparr>sd_tls := Some tls\<rparr>)) s of
            (Inl e, s1) \<Rightarrow> (Inl e, s1)
          | (Inr d1, s1) \<Rightarrow> (Inr d1, bust (sd_host d1) s1)))"

record verify_view =
  vv_domain :: domain_view
  vv_status :: domain_status
  vv_checked_at :: "instant option"
  vv_reason :: "failure_reason option"

definition verify_view_of :: "store_domain \<Rightarrow> failure_reason option \<Rightarrow> verify_view" where
  "verify_view_of d reason =
     \<lparr>vv_domain = to_domain_view d
        (case (reason, sd_checked_at d) of (Some r, Some t) \<Rightarrow> Some (r, t) | _ \<Rightarrow> None),
      vv_status = sd_status d, vv_checked_at = sd_checked_at d, vv_reason = reason\<rparr>"

definition revoked_message :: string where
  "revoked_message =
     ''DOMAIN_REVOKED_BY_PLATFORM: this domain was revoked by the platform and cannot be re-verified by the merchant - contact support''"

definition verify_domain ::
  "domain_env \<Rightarrow> node_resolver \<Rightarrow> hosting \<Rightarrow> bool \<Rightarrow> tenant_context \<Rightarrow> uuid \<Rightarrow> uuid \<Rightarrow> instant \<Rightarrow> site
     \<Rightarrow> verify_view result \<times> site" where
  "verify_domain env dns ho locked ctx actor i now s =
     (case run_tx (verify_tx env dns locked ctx actor i now) s of
        (Inl e, s1) \<Rightarrow> (Inl e, s1)
      | (Inr v, s1) \<Rightarrow>
          if vo_refused v then (Inl (Conflict revoked_message), s1)
          else (let s2 = bust (sd_host (vo_domain v)) s1;
                    (r, s3) = (if sd_status (vo_domain v) = DomainVerified
                      then attach_to_hosting ho (vo_domain v) s2 else (Inr (vo_domain v), s2))
                in (map_sum id (\<lambda>d. verify_view_of d (vo_reason v)) r, s3)))"

section \<open>The primary domain\<close>

definition assert_custom :: "store_domain \<Rightarrow> string \<Rightarrow> unit result" where
  "assert_custom d msg = require (is_custom (sd_type d)) (Conflict msg)"

definition assert_serveable :: "store_domain \<Rightarrow> unit result" where
  "assert_serveable d =
     (if \<not> is_custom (sd_type d) then Inr ()
      else then_do (require (sd_status d = DomainVerified)
          (Conflict (''This domain is not verified (status: '' @ domain_status_text (sd_status d) @
             '') - verify it before making it primary''))) (\<lambda>_.
        require (tls_of (sd_tls d) = TlsIssued)
          (Conflict (''This domain has no issued certificate (TLS status: '' @ tls_status_text (tls_of (sd_tls d)) @
             '') - refresh its TLS status once DNS has propagated''))))"

definition store_hostnames :: "uuid \<Rightarrow> site \<Rightarrow> string list" where
  "store_hostnames store s = map sd_host (filter (\<lambda>d. sd_store d = store) (st_domains s))"

definition set_primary_flag :: "bool \<Rightarrow> store_domain \<Rightarrow> store_domain" where
  "set_primary_flag b d = d\<lparr>sd_primary := b\<rparr>"

text \<open>The old primary is cleared before the new one is set; the result carries every name of the
  store, because each of their cached rows holds the primary name.\<close>

definition set_primary_tx ::
  "tenant_context \<Rightarrow> uuid \<Rightarrow> uuid \<Rightarrow> (site, store_domain \<times> string list) tx" where
  "set_primary_tx ctx actor i s =
     then_do (load_own_domain (tc_tenant ctx) i s) (\<lambda>d.
     then_do (assert_serveable d) (\<lambda>_.
     then_do (require (\<not> sd_primary d) (Conflict ''This domain is already the primary domain'')) (\<lambda>_.
     then_do (case List.find (\<lambda>p. sd_store p = sd_store d \<and> sd_primary p) (st_domains s) of
         None \<Rightarrow> Inr s
       | Some p \<Rightarrow> map_sum id snd (update_domain (sd_id p) (set_primary_flag False) s)) (\<lambda>s1.
     then_do (update_domain (sd_id d) (set_primary_flag True) s1) (\<lambda>(d2, s2).
     let s3 = site_audit ctx actor ''store_domain.primary_changed'' (sd_id d) s2
     in Inr ((d2, store_hostnames (sd_store d) s3), s3))))))"

definition primary_race_message :: string where
  "primary_race_message = ''Another domain became primary concurrently - retry''"

definition set_primary :: "tenant_context \<Rightarrow> uuid \<Rightarrow> uuid \<Rightarrow> (site, domain_view) tx" where
  "set_primary ctx actor i s =
     then_do (unique_to_conflict primary_race_message (set_primary_tx ctx actor i s)) (\<lambda>((d, hosts), s1).
     Inr (to_domain_view d None, bust_all hosts s1))"

section \<open>Removal\<close>

text \<open>The plan is made in one transaction and carried out in another, after the provider has let
  go of the name.\<close>

record removal =
  rm_domain :: store_domain
  rm_fallback :: "uuid option"
  rm_hosts :: "string list"

definition fallback_primary :: "store_domain \<Rightarrow> site \<Rightarrow> store_domain option" where
  "fallback_primary d s =
     (if sd_primary d
      then List.find (\<lambda>x. sd_store x = sd_store d \<and> sd_type x = Some PlatformSubdomain \<and> sd_id x \<noteq> sd_id d)
             (st_domains s)
      else None)"

definition removal_of :: "string \<Rightarrow> store_domain \<Rightarrow> site \<Rightarrow> removal result" where
  "removal_of msg d s =
     (let f = fallback_primary d s
      in then_do (require (\<not> (sd_primary d \<and> f = None)) (Conflict msg)) (\<lambda>_.
         Inr \<lparr>rm_domain = d, rm_fallback = map_option sd_id f, rm_hosts = store_hostnames (sd_store d) s\<rparr>))"

definition plan_removal :: "tenant_context \<Rightarrow> uuid \<Rightarrow> site \<Rightarrow> removal result" where
  "plan_removal ctx i s =
     then_do (load_own_domain (tc_tenant ctx) i s) (\<lambda>d.
     then_do (assert_custom d ''Platform subdomains cannot be removed'') (\<lambda>_.
     removal_of ''This is the store's only primary domain and it has no platform subdomain to fall back to - set another verified domain as primary first'' d s))"

definition release_name :: "hosting \<Rightarrow> string \<Rightarrow> unit result" where
  "release_name ho host =
     (case ho_remove ho host of
        Reported _ \<Rightarrow> Inr ()
      | HostingFailed _ \<Rightarrow> Inl (ServiceUnavailable
          ''The hosting provider could not release this domain right now - nothing was changed; try again'')
      | HostingThrew e \<Rightarrow> Inl (Thrown e))"

definition delete_and_promote :: "uuid \<Rightarrow> uuid option \<Rightarrow> (site, string option) tx" where
  "delete_and_promote i fallback s =
     (let s1 = s\<lparr>st_domains := filter (\<lambda>d. sd_id d \<noteq> i) (st_domains s)\<rparr>
      in case fallback of
           None \<Rightarrow> Inr (None, s1)
         | Some f \<Rightarrow> then_do (update_domain f (set_primary_flag True) s1) (\<lambda>(d, s2).
             Inr (Some (sd_host d), s2)))"

definition remove_tx :: "tenant_context \<Rightarrow> uuid \<Rightarrow> uuid \<Rightarrow> removal \<Rightarrow> (site, string option) tx" where
  "remove_tx ctx actor i plan s =
     then_do (load_own_domain (tc_tenant ctx) i s) (\<lambda>_.
     then_do (delete_and_promote i (rm_fallback plan) s) (\<lambda>(promoted, s1).
     Inr (promoted, site_audit ctx actor ''store_domain.removed'' i s1)))"

definition finish_removal ::
  "tenant_context \<Rightarrow> uuid \<Rightarrow> removal \<Rightarrow> (site, string \<times> string option) tx" where
  "finish_removal ctx actor plan s =
     then_do (unique_to_conflict primary_race_message
       (remove_tx ctx actor (sd_id (rm_domain plan)) plan s)) (\<lambda>(promoted, s1).
     Inr ((sd_host (rm_domain plan), promoted), bust_all (rm_hosts plan) s1))"

definition remove_domain ::
  "hosting \<Rightarrow> tenant_context \<Rightarrow> uuid \<Rightarrow> uuid \<Rightarrow> (site, string \<times> string option) tx" where
  "remove_domain ho ctx actor i s =
     then_do (plan_removal ctx i s) (\<lambda>plan.
     then_do (release_name ho (sd_host (rm_domain plan))) (\<lambda>_.
     finish_removal ctx actor plan s))"

section \<open>The certificate\<close>

definition write_tls_status ::
  "tenant_context \<Rightarrow> uuid \<Rightarrow> uuid \<Rightarrow> tls_status \<Rightarrow> string \<Rightarrow> (site, store_domain) tx" where
  "write_tls_status ctx actor i tls action s =
     then_do (update_domain i (\<lambda>d. d\<lparr>sd_tls := Some tls\<rparr>) s) (\<lambda>(d, s1).
     Inr (d, site_audit ctx actor action i s1))"

definition refresh_tls :: "hosting \<Rightarrow> tenant_context \<Rightarrow> uuid \<Rightarrow> uuid \<Rightarrow> (site, domain_view) tx" where
  "refresh_tls ho ctx actor i s =
     then_do (load_own_domain (tc_tenant ctx) i s) (\<lambda>d.
     then_do (assert_custom d ''Platform subdomains are covered by the platform wildcard certificate and have no TLS status to refresh'') (\<lambda>_.
     then_do (tls_from (ho_status ho (sd_host d))) (\<lambda>tls.
     then_do (write_tls_status ctx actor (sd_id d) tls ''store_domain.tls_refreshed'' s) (\<lambda>(d1, s1).
     Inr (to_domain_view d1 None, bust (sd_host d1) s1)))))"

section \<open>The platform subdomain of a store\<close>

datatype subdomain_outcome =
    SubdomainCreated string uuid | SubdomainExisting string uuid | SubdomainSkipped

definition ensure_platform_subdomain ::
  "string option \<Rightarrow> uuid \<Rightarrow> uuid \<Rightarrow> string \<Rightarrow> instant \<Rightarrow> (site, subdomain_outcome) tx" where
  "ensure_platform_subdomain platform store tenant slug now s =
     (if platform = None \<or> platform = Some '''' then Inr (SubdomainSkipped, s)
      else
        then_do (or_throw (derive_platform_subdomain slug (the platform))
          (Thrown ''PlatformSubdomainInvalidError'')) (\<lambda>host.
        case find_host host (st_domains s) of
          Some d \<Rightarrow>
            if sd_store d \<noteq> store then Inl (Thrown ''PlatformSubdomainCollisionError'')
            else Inr (SubdomainExisting host (sd_id d), s)
        | None \<Rightarrow>
            (let d = \<lparr>sd_id = fresh_id s, sd_store = store, sd_tenant = tenant, sd_host = host,
                       sd_primary = (primary_host_of store (st_domains s) = None),
                       sd_status = DomainVerified, sd_token = None, sd_verified_at = Some now,
                       sd_type = Some PlatformSubdomain, sd_method = None, sd_checked_at = None,
                       sd_tls = None, sd_created = now\<rparr>
             in then_do (insert_domain d s) (\<lambda>s1. Inr (SubdomainCreated host (sd_id d), s1)))))"

end
