(* ===== verification/PlatformDomains.thy ===== *)
theory PlatformDomains
  imports StoreDomains
begin

text \<open>
  \<open>platform/platform-domains/platform-domains.service.ts\<close>: what the platform's administrators do
  to a domain of any tenant - revoke, override, verify again, remove, inspect, list. Whether the
  caller is one is decided before by a guard.
\<close>

section \<open>Access and transition\<close>

definition load_custom_domain :: "uuid \<Rightarrow> site \<Rightarrow> store_domain result" where
  "load_custom_domain i s =
     then_do (or_throw (find_domain i (st_domains s)) (NotFound ''Domain not found'')) (\<lambda>d.
     then_do (require (is_custom (sd_type d))
       (Conflict ''Platform subdomains are always-on and carry no verification state'')) (\<lambda>_.
     Inr d))"

definition domain_hit :: "uuid \<Rightarrow> domain_status \<Rightarrow> store_domain \<Rightarrow> bool" where
  "domain_hit i from d \<longleftrightarrow> sd_id d = i \<and> sd_status d = from"

definition set_domain_status :: "domain_status \<Rightarrow> instant \<Rightarrow> store_domain \<Rightarrow> store_domain" where
  "set_domain_status to now d =
     (if to = DomainVerified then d\<lparr>sd_status := to, sd_verified_at := Some now\<rparr> else d\<lparr>sd_status := to\<rparr>)"

text \<open>\<open>d\<close> is the row as it was read; a status that changed since is a conflict.\<close>

definition domain_transition ::
  "uuid \<Rightarrow> store_domain \<Rightarrow> domain_status \<Rightarrow> string \<Rightarrow> string \<Rightarrow> instant \<Rightarrow> (site, store_domain) tx" where
  "domain_transition actor d to action why now s =
     then_do (require (hits (domain_hit (sd_id d) (sd_status d)) (st_domains s) = 1)
       (Conflict ''Domain verification status changed concurrently - retry'')) (\<lambda>_.
     let s1 = log_platform actor action (sd_id d) (Some (sd_tenant d)) why
           (s\<lparr>st_domains := update_rows (domain_hit (sd_id d) (sd_status d)) (set_domain_status to now)
                (st_domains s)\<rparr>)
     in then_do (or_throw (find_domain (sd_id d) (st_domains s1)) row_gone) (\<lambda>d1. Inr (d1, s1)))"

section \<open>Operations\<close>

definition revoke_tx :: "uuid \<Rightarrow> uuid \<Rightarrow> string \<Rightarrow> instant \<Rightarrow> (site, store_domain) tx" where
  "revoke_tx actor i why now s =
     then_do (load_custom_domain i s) (\<lambda>d.
     then_do (require (sd_status d = DomainVerified)
       (Conflict (''Domain is not VERIFIED (current status: '' @ domain_status_text (sd_status d) @
          '') - only a VERIFIED domain can be revoked''))) (\<lambda>_.
     domain_transition actor d DomainFailed ''platform.domain.revoked'' why now s))"

definition revoke_domain :: "uuid \<Rightarrow> uuid \<Rightarrow> string \<Rightarrow> instant \<Rightarrow> (site, domain_view) tx" where
  "revoke_domain actor i why now s =
     then_do (revoke_tx actor i why now s) (\<lambda>(d, s1).
     Inr (to_domain_view d None, bust (sd_host d) s1))"

definition override_tx :: "uuid \<Rightarrow> uuid \<Rightarrow> string \<Rightarrow> instant \<Rightarrow> (site, store_domain) tx" where
  "override_tx actor i why now s =
     then_do (load_custom_domain i s) (\<lambda>d.
     then_do (require (sd_status d \<noteq> DomainVerified) (Conflict ''This domain is already verified'')) (\<lambda>_.
     domain_transition actor d DomainVerified
       (if sd_status d = DomainFailed then ''platform.domain.restored''
        else ''platform.domain.verification_overridden'') why now s))"

definition override_domain :: "uuid \<Rightarrow> uuid \<Rightarrow> string \<Rightarrow> instant \<Rightarrow> (site, domain_view) tx" where
  "override_domain actor i why now s =
     then_do (override_tx actor i why now s) (\<lambda>(d, s1).
     Inr (to_domain_view d None, bust (sd_host d) s1))"

text \<open>A failing check moves the time of the last check only: a pending row stays pending, a revoked
  one revoked.\<close>

definition reverify_tx ::
  "domain_env \<Rightarrow> node_resolver \<Rightarrow> bool \<Rightarrow> uuid \<Rightarrow> uuid \<Rightarrow> string \<Rightarrow> instant
     \<Rightarrow> (site, store_domain \<times> failure_reason option) tx" where
  "reverify_tx env dns locked actor i why now s =
     then_do (require locked (Conflict ''A verification for this domain is already in progress'')) (\<lambda>_.
     then_do (load_custom_domain i s) (\<lambda>d.
     then_do (require (sd_status d \<noteq> DomainVerified) (Conflict ''This domain is already verified'')) (\<lambda>_.
     let reason = check_domain (de_target env) dns d
     in then_do (update_domain (sd_id d)
          (if reason = None then verified_row now else (\<lambda>d. d\<lparr>sd_checked_at := Some now\<rparr>)) s) (\<lambda>(d1, s1).
        Inr ((d1, reason),
          log_platform actor ''platform.domain.reverified'' (sd_id d) (Some (sd_tenant d)) why s1)))))"

definition reverify_domain ::
  "domain_env \<Rightarrow> node_resolver \<Rightarrow> bool \<Rightarrow> uuid \<Rightarrow> uuid \<Rightarrow> string \<Rightarrow> instant
     \<Rightarrow> (site, domain_view \<times> failure_reason option) tx" where
  "reverify_domain env dns locked actor i why now s =
     then_do (reverify_tx env dns locked actor i why now s) (\<lambda>((d, reason), s1).
     Inr ((to_domain_view d None, reason), bust (sd_host d) s1))"

definition plan_platform_removal :: "uuid \<Rightarrow> site \<Rightarrow> removal result" where
  "plan_platform_removal i s =
     then_do (load_custom_domain i s) (\<lambda>d.
     removal_of ''This is the store's only primary domain and it has no platform subdomain to fall back to - removing it would leave the store with no canonical domain'' d s)"

definition finish_platform_removal ::
  "uuid \<Rightarrow> string \<Rightarrow> removal \<Rightarrow> (site, string \<times> string option) tx" where
  "finish_platform_removal actor why plan s =
     then_do (or_throw (find_domain (sd_id (rm_domain plan)) (st_domains s)) (NotFound ''Domain not found'')) (\<lambda>d.
     then_do (delete_and_promote (sd_id d) (rm_fallback plan) s) (\<lambda>(promoted, s1).
     Inr ((sd_host (rm_domain plan), promoted),
       bust_all (rm_hosts plan)
         (log_platform actor ''platform.domain.removed'' (sd_id d) (Some (sd_tenant d)) why s1))))"

definition platform_remove_domain ::
  "hosting \<Rightarrow> uuid \<Rightarrow> uuid \<Rightarrow> string \<Rightarrow> (site, string \<times> string option) tx" where
  "platform_remove_domain ho actor i why s =
     then_do (plan_platform_removal i s) (\<lambda>plan.
     then_do (release_name ho (sd_host (rm_domain plan))) (\<lambda>_.
     finish_platform_removal actor why plan s))"

section \<open>Reads\<close>

text \<open>\<open>names\<close> gives the slug of a tenant, and slug and name of a store.\<close>

record owner_names =
  on_tenant_slug :: "uuid \<Rightarrow> string"
  on_store_slug :: "uuid \<Rightarrow> string"
  on_store_name :: "uuid \<Rightarrow> string"

record domain_summary =
  ds_view :: domain_view
  ds_tenant :: uuid
  ds_tenant_slug :: string
  ds_store :: uuid
  ds_store_slug :: string
  ds_store_name :: string

definition to_summary_view :: "owner_names \<Rightarrow> store_domain \<Rightarrow> domain_summary" where
  "to_summary_view names d =
     \<lparr>ds_view = to_domain_view d None, ds_tenant = sd_tenant d,
      ds_tenant_slug = on_tenant_slug names (sd_tenant d), ds_store = sd_store d,
      ds_store_slug = on_store_slug names (sd_store d), ds_store_name = on_store_name names (sd_store d)\<rparr>"

record domain_filter =
  df_status :: "domain_status option"
  df_tls :: "tls_status option"
  df_type :: "domain_type option"
  df_tenant :: "uuid option"

definition domain_where :: "domain_filter \<Rightarrow> store_domain \<Rightarrow> bool" where
  "domain_where q d \<longleftrightarrow>
     (case df_status q of None \<Rightarrow> True | Some x \<Rightarrow> sd_status d = x) \<and>
     (case df_tls q of None \<Rightarrow> True | Some x \<Rightarrow> sd_tls d = Some x) \<and>
     (case df_type q of None \<Rightarrow> True | Some x \<Rightarrow> sd_type d = Some x) \<and>
     (case df_tenant q of None \<Rightarrow> True | Some x \<Rightarrow> sd_tenant d = x)"

definition platform_list_domains ::
  "owner_names \<Rightarrow> domain_filter \<Rightarrow> nat \<Rightarrow> nat \<Rightarrow> site \<Rightarrow> domain_summary list \<times> page_meta" where
  "platform_list_domains names q page limit s =
     (let matching = sort_key (\<lambda>d. - sd_created d) (filter (domain_where q) (st_domains s));
          n = length matching
      in (map (to_summary_view names) (page_slice page limit matching),
          \<lparr>pm_page = page, pm_limit = limit, pm_total = n, pm_total_pages = total_pages limit n\<rparr>))"

record domain_detail =
  dd_summary :: domain_summary
  dd_failure :: "(failure_reason \<times> instant) option"
  dd_provider :: "hosting_status option"
  dd_provider_error :: "string option"

text \<open>The provider is asked about custom hosts only, and what it says is not written.\<close>

definition inspect_domain :: "owner_names \<Rightarrow> hosting \<Rightarrow> uuid \<Rightarrow> site \<Rightarrow> domain_detail result" where
  "inspect_domain names ho i s =
     then_do (or_throw (find_domain i (st_domains s)) (NotFound ''Domain not found'')) (\<lambda>d.
     then_do (if is_custom (sd_type d) then
         (case ho_status ho (sd_host d) of
            Reported h \<Rightarrow> Inr (Some h, None)
          | HostingFailed e \<Rightarrow> Inr (None, Some e)
          | HostingThrew e \<Rightarrow> Inl (Thrown e))
       else Inr (None, None)) (\<lambda>(p, e).
     Inr \<lparr>dd_summary = to_summary_view names d, dd_failure = latest_failure (sd_tenant d) (sd_id d) s,
          dd_provider = p, dd_provider_error = e\<rparr>))"

end
