(* ===== verification/ResolutionMode.thy ===== *)
theory ResolutionMode
  imports Prelude
begin

text \<open>
  \<open>platform/platform-config/storefront-resolution-mode.service.ts\<close>: the switch between the two
  ways of finding the store of a request. The service keeps the last good read for ten seconds, a
  failed read for ten seconds, and the last valid mode for ever; a call is told what the database
  would answer it.
\<close>

datatype resolution_mode = LegacySingleStore | HostResolution

fun mode_text :: "resolution_mode \<Rightarrow> string" where
  "mode_text LegacySingleStore = ''legacy_single_store''"
| "mode_text HostResolution = ''host_resolution''"

definition parse_mode :: "string \<Rightarrow> resolution_mode option" where
  "parse_mode s = List.find (\<lambda>m. mode_text m = s) [LegacySingleStore, HostResolution]"

datatype mode_source = FromRow | FromDefault | LastKnownValid

record effective_mode =
  em_mode :: resolution_mode
  em_source :: mode_source

definition default_mode :: resolution_mode where
  "default_mode = LegacySingleStore"

definition mode_cache_ttl :: instant where
  "mode_cache_ttl = 10000"

record mode_service =
  ms_cached :: "(effective_mode \<times> instant) option"
  ms_failure_until :: "instant option"
  ms_last_valid :: "effective_mode option"

text \<open>What the one row of the configuration table gives: it cannot be read, it is absent, or it
  holds a text.\<close>

datatype stored_mode = ReadFailed | RowAbsent | RowValue string

definition mode_unavailable_message :: string where
  "mode_unavailable_message =
     ''Storefront domain-resolution mode is unavailable - the platform configuration is invalid or unreadable and no last-known valid mode exists''"

definition accept_mode :: "effective_mode \<Rightarrow> instant \<Rightarrow> mode_service \<Rightarrow> effective_mode result \<times> mode_service" where
  "accept_mode v now s =
     (Inr v, s\<lparr>ms_cached := Some (v, now + mode_cache_ttl), ms_failure_until := None,
               ms_last_valid := Some v\<rparr>)"

definition serve_degraded :: "mode_service \<Rightarrow> effective_mode result" where
  "serve_degraded s =
     (case ms_last_valid s of
        Some v \<Rightarrow> Inr \<lparr>em_mode = em_mode v, em_source = LastKnownValid\<rparr>
      | None \<Rightarrow> Inl (ServiceUnavailable mode_unavailable_message))"

definition record_failure :: "instant \<Rightarrow> mode_service \<Rightarrow> mode_service" where
  "record_failure now s = s\<lparr>ms_cached := None, ms_failure_until := Some (now + mode_cache_ttl)\<rparr>"

text \<open>\<open>now\<close> is the clock when the call starts and \<open>later\<close> when a failure is recorded.\<close>

definition read_mode ::
  "instant \<Rightarrow> instant \<Rightarrow> stored_mode \<Rightarrow> mode_service \<Rightarrow> effective_mode result \<times> mode_service" where
  "read_mode now later stored s =
     (case stored of
        ReadFailed \<Rightarrow> (let s1 = record_failure later s in (serve_degraded s1, s1))
      | RowAbsent \<Rightarrow> accept_mode \<lparr>em_mode = default_mode, em_source = FromDefault\<rparr> now s
      | RowValue v \<Rightarrow>
          (case parse_mode v of
             Some m \<Rightarrow> accept_mode \<lparr>em_mode = m, em_source = FromRow\<rparr> now s
           | None \<Rightarrow> (let s1 = record_failure later s in (serve_degraded s1, s1))))"

definition cached_mode :: "instant \<Rightarrow> mode_service \<Rightarrow> effective_mode option" where
  "cached_mode now s =
     Option.bind (ms_cached s) (\<lambda>(v, expires). if expires > now then Some v else None)"

definition failing :: "instant \<Rightarrow> mode_service \<Rightarrow> bool" where
  "failing now s \<longleftrightarrow> (case ms_failure_until s of None \<Rightarrow> False | Some u \<Rightarrow> u > now)"

definition get_mode ::
  "instant \<Rightarrow> instant \<Rightarrow> stored_mode \<Rightarrow> mode_service \<Rightarrow> effective_mode result \<times> mode_service" where
  "get_mode now later stored s =
     (case cached_mode now s of
        Some v \<Rightarrow> (Inr v, s)
      | None \<Rightarrow> if failing now s then (serve_degraded s, s) else read_mode now later stored s)"

definition bust_mode :: "mode_service \<Rightarrow> mode_service" where
  "bust_mode s = s\<lparr>ms_cached := None, ms_failure_until := None\<rparr>"

text \<open>The switch: the request's text is checked again, the row is written, the caches are dropped.\<close>

definition set_mode ::
  "string \<Rightarrow> stored_mode \<times> mode_service \<Rightarrow> effective_mode result \<times> stored_mode \<times> mode_service" where
  "set_mode to rs =
     (case parse_mode to of
        None \<Rightarrow> (Inl (BadRequest ''mode must be one of legacy_single_store, host_resolution''), rs)
      | Some m \<Rightarrow> (Inr \<lparr>em_mode = m, em_source = FromRow\<rparr>, RowValue (mode_text m), bust_mode (snd rs)))"

section \<open>Histories of one process\<close>

text \<open>A process answers reads, each told what the table holds at that moment, and switches.\<close>

datatype mode_call = GetMode instant instant stored_mode | SetMode string

fun mode_step :: "mode_call \<Rightarrow> mode_service \<Rightarrow> effective_mode result \<times> mode_service" where
  "mode_step (GetMode now later stored) s = get_mode now later stored s"
| "mode_step (SetMode to) s = (let (r, _, s1) = set_mode to (RowAbsent, s) in (r, s1))"

fun mode_answers :: "mode_call list \<Rightarrow> mode_service \<Rightarrow> effective_mode result list" where
  "mode_answers [] s = []"
| "mode_answers (c # cs) s = (let (r, s1) = mode_step c s in r # mode_answers cs s1)"

definition fresh_mode_service :: mode_service where
  "fresh_mode_service = \<lparr>ms_cached = None, ms_failure_until = None, ms_last_valid = None\<rparr>"

text \<open>The modes that a call's own data can establish.\<close>

fun call_shows :: "resolution_mode \<Rightarrow> mode_call \<Rightarrow> bool" where
  "call_shows m (GetMode now later stored) =
     (case stored of ReadFailed \<Rightarrow> False | RowAbsent \<Rightarrow> m = default_mode | RowValue v \<Rightarrow> v = mode_text m)"
| "call_shows m (SetMode to) = (to = mode_text m)"

lemma parse_mode_Some: "parse_mode v = Some m \<longleftrightarrow> v = mode_text m"
  by (cases m) (auto simp: parse_mode_def)

definition knows :: "resolution_mode set \<Rightarrow> mode_service \<Rightarrow> bool" where
  "knows ms s \<longleftrightarrow>
     (case ms_cached s of None \<Rightarrow> True | Some (v, _) \<Rightarrow> em_mode v \<in> ms) \<and>
     (case ms_last_valid s of None \<Rightarrow> True | Some v \<Rightarrow> em_mode v \<in> ms)"

lemma get_mode_knows:
  assumes "knows ms s" and "get_mode now later stored s = (r, s1)"
    and "\<And>m. call_shows m (GetMode now later stored) \<Longrightarrow> m \<in> ms"
  shows "knows ms s1 \<and> (case r of Inl _ \<Rightarrow> True | Inr v \<Rightarrow> em_mode v \<in> ms)"
  using assms
  by (auto simp: get_mode_def cached_mode_def read_mode_def accept_mode_def record_failure_def
      serve_degraded_def knows_def Let_def parse_mode_Some bind_eq_Some_conv
      split: option.splits if_splits stored_mode.splits prod.splits)

lemma set_mode_knows:
  assumes "knows ms s" and "mode_step (SetMode to) s = (r, s1)" and "\<And>m. call_shows m (SetMode to) \<Longrightarrow> m \<in> ms"
  shows "knows ms s1 \<and> (case r of Inl _ \<Rightarrow> True | Inr v \<Rightarrow> em_mode v \<in> ms)"
  using assms
  by (auto simp: set_mode_def bust_mode_def knows_def parse_mode_Some split: option.splits prod.splits)

lemma mode_step_knows:
  assumes "knows ms s" and "mode_step c s = (r, s1)" and "\<And>m. call_shows m c \<Longrightarrow> m \<in> ms"
  shows "knows ms s1 \<and> (case r of Inl _ \<Rightarrow> True | Inr v \<Rightarrow> em_mode v \<in> ms)"
proof (cases c)
  case (GetMode now later stored)
  then show ?thesis using get_mode_knows [OF assms(1)] assms(2,3) by simp
next
  case (SetMode to)
  then show ?thesis using set_mode_knows [OF assms(1)] assms(2,3) by simp
qed

lemma mode_answers_knows:
  assumes "knows ms s" and "\<And>c m. c \<in> set cs \<Longrightarrow> call_shows m c \<Longrightarrow> m \<in> ms"
    and "Inr v \<in> set (mode_answers cs s)"
  shows "em_mode v \<in> ms"
  using assms
proof (induction cs arbitrary: s)
  case (Cons c cs)
  obtain r s1 where step: "mode_step c s = (r, s1)" by (cases "mode_step c s") auto
  have k: "knows ms s1 \<and> (case r of Inl _ \<Rightarrow> True | Inr v \<Rightarrow> em_mode v \<in> ms)"
    using mode_step_knows [OF Cons.prems(1) step] Cons.prems(2) by auto
  show ?case
  proof (cases "r = Inr v")
    case True
    then show ?thesis using k by simp
  next
    case False
    then have "Inr v \<in> set (mode_answers cs s1)" using Cons.prems(3) step by auto
    then show ?thesis using Cons.IH k Cons.prems(2) by auto
  qed
qed simp

text \<open>
  The switch never falls back by itself: a process that has never seen the legacy mode in the
  table, an absent row, nor a request to switch to it answers every request with the other mode or
  with an error, whatever reads fail, whatever texts the row holds, and however the calls lie
  between the expiries of its caches.
\<close>

theorem mode_never_falls_back:
  assumes "\<And>c. c \<in> set calls \<Longrightarrow> \<not> call_shows LegacySingleStore c"
    and "Inr v \<in> set (mode_answers calls fresh_mode_service)"
  shows "em_mode v = HostResolution"
proof -
  have "em_mode v \<in> {HostResolution}"
  proof (rule mode_answers_knows [OF _ _ assms(2)])
    show "knows {HostResolution} fresh_mode_service" by (simp add: knows_def fresh_mode_service_def)
    show "m \<in> {HostResolution}" if "c \<in> set calls" "call_shows m c" for c m
      using assms(1) [OF that(1)] that(2) by (cases m) auto
  qed
  then show ?thesis by simp
qed

theorem mode_never_falls_back_witness:
  "Inr \<lparr>em_mode = HostResolution, em_source = LastKnownValid\<rparr> \<in>
     set (mode_answers [GetMode 0 1 ReadFailed, GetMode 20000 20001 (RowValue ''host_resolution''),
       GetMode 40000 40001 (RowValue ''legacy''), GetMode 40002 40003 (RowValue ''host_resolution'')]
       fresh_mode_service) \<and>
   em_mode \<lparr>em_mode = HostResolution, em_source = LastKnownValid\<rparr> = HostResolution"
proof -
  let ?cs = "[GetMode 0 1 ReadFailed, GetMode 20000 20001 (RowValue ''host_resolution''),
       GetMode 40000 40001 (RowValue ''legacy''), GetMode 40002 40003 (RowValue ''host_resolution'')]"
  have "mode_answers ?cs fresh_mode_service =
    [Inl (ServiceUnavailable mode_unavailable_message),
     Inr \<lparr>em_mode = HostResolution, em_source = FromRow\<rparr>,
     Inr \<lparr>em_mode = HostResolution, em_source = LastKnownValid\<rparr>,
     Inr \<lparr>em_mode = HostResolution, em_source = LastKnownValid\<rparr>]"
    by code_simp
  then have "Inr \<lparr>em_mode = HostResolution, em_source = LastKnownValid\<rparr> \<in>
     set (mode_answers ?cs fresh_mode_service)" by simp
  then show ?thesis
    using mode_never_falls_back [of ?cs "\<lparr>em_mode = HostResolution, em_source = LastKnownValid\<rparr>"]
    by auto
qed

end
