(* ===== verification/StoreResolution.thy ===== *)
theory StoreResolution
  imports PlatformDomains ResolutionMode
begin

text \<open>
  How a request finds its store: \<open>store-domain-resolver.service.ts\<close> (lookup, serving gate,
  liveness), \<open>store-context.service.ts\<close> (by origin, by a crawler's host, or the way before
  domains: \<open>common/tenant/storefront-tenant.resolver.ts\<close>) and the predicate that admits an origin
  (\<open>cors/storefront-cors.policy.ts\<close>). The mode service of the process is threaded next to the site.
\<close>

section \<open>The resolver\<close>

datatype resolved_by = ByOrigin | ByLegacy

record store_context =
  sx_store :: "uuid option"
  sx_tenant :: uuid
  sx_domain :: "uuid option"
  sx_primary :: bool
  sx_canonical :: "string option"
  sx_by :: resolved_by

definition store_not_found :: err where
  "store_not_found = NotFound ''Store not found''"

definition store_unavailable :: err where
  "store_unavailable = ServiceUnavailable ''This store is currently unavailable''"

definition lookup_host :: "string \<Rightarrow> instant \<Rightarrow> site \<Rightarrow> lookup_row option \<times> site" where
  "lookup_host host now s =
     (case cache_get host now s of
        Some r \<Rightarrow> (r, s)
      | None \<Rightarrow> (let r = read_row host (st_domains s) in (r, cache_set host r now s)))"

definition row_served :: "lookup_row \<Rightarrow> bool" where
  "row_served r \<longleftrightarrow>
     (is_custom (lr_type r) \<longrightarrow> lr_status r = DomainVerified \<and> tls_of (lr_tls r) = TlsIssued)"

text \<open>Store, tenant and subscription are read now, never from the cache.\<close>

definition assert_live :: "lookup_row \<Rightarrow> site \<Rightarrow> unit result" where
  "assert_live r s =
     then_do (require (st_store_status s (lr_store r) = Some StoreActive) store_unavailable) (\<lambda>_.
     then_do (require (tenant_status_of (st_market s) (lr_tenant r) = Some TenantActive) store_unavailable) (\<lambda>_.
     require (map_option su_status (find_subscription_for_tenant (lr_tenant r) (billing (st_market s))) \<noteq> Some Expired)
       store_unavailable))"

definition context_of_row :: "lookup_row \<Rightarrow> scheme \<Rightarrow> store_context" where
  "context_of_row r sch =
     \<lparr>sx_store = Some (lr_store r), sx_tenant = lr_tenant r, sx_domain = Some (lr_id r),
      sx_primary = lr_primary r,
      sx_canonical = Some (scheme_text sch @ ''://'' @
        (case lr_primary_host r of None \<Rightarrow> lr_host r | Some h \<Rightarrow> h)),
      sx_by = ByOrigin\<rparr>"

definition resolve_host :: "string \<Rightarrow> scheme \<Rightarrow> instant \<Rightarrow> site \<Rightarrow> store_context result \<times> site" where
  "resolve_host host sch now s =
     (let (row, s1) = lookup_host host now s
      in (then_do (or_throw row store_not_found) (\<lambda>r.
          then_do (require (row_served r) store_not_found) (\<lambda>_.
          then_do (assert_live r s1) (\<lambda>_.
          Inr (context_of_row r sch)))), s1))"

section \<open>The legacy resolver\<close>

definition resolve_tenant_id :: "string option \<Rightarrow> site \<Rightarrow> uuid result" where
  "resolve_tenant_id host s =
     (let named = (case host of None \<Rightarrow> None
            | Some h \<Rightarrow> if h = '''' then None
                else Option.bind (find_host h (st_domains s)) (\<lambda>d. st_store_tenant s (sd_store d)));
          tenant = (case named of None \<Rightarrow> st_latest_tenant s | Some t \<Rightarrow> Some t)
      in then_do (or_throw tenant (Conflict ''Unable to determine which store this request belongs to'')) (\<lambda>t.
         then_do (assert_tenant_active t ''This store is currently unavailable'' (st_market s)) (\<lambda>_.
         Inr t)))"

definition resolve_legacy :: "string option \<Rightarrow> site \<Rightarrow> store_context result" where
  "resolve_legacy host s =
     then_do (resolve_tenant_id host s) (\<lambda>t.
     Inr \<lparr>sx_store = (case primary_store_id_of t (st_market s) of Inl _ \<Rightarrow> None | Inr i \<Rightarrow> Some i),
          sx_tenant = t, sx_domain = None, sx_primary = True, sx_canonical = None, sx_by = ByLegacy\<rparr>)"

section \<open>The request's context\<close>

record storefront_request =
  rq_hostname :: "string option"
  rq_origin :: "string option"
  rq_forwarded :: "string option"
  rq_tenant :: "tenant_context option"
  rq_context :: "store_context option"

record front =
  fr_site :: site
  fr_mode :: mode_service

definition on_front_site :: "'a \<times> site \<Rightarrow> front \<Rightarrow> 'a \<times> front" where
  "on_front_site xs f = (fst xs, f\<lparr>fr_site := snd xs\<rparr>)"

definition read_front_mode :: "instant \<Rightarrow> stored_mode \<Rightarrow> front \<Rightarrow> resolution_mode result \<times> front" where
  "read_front_mode now stored f =
     (let (r, m) = get_mode now now stored (fr_mode f) in (map_sum id em_mode r, f\<lparr>fr_mode := m\<rparr>))"

definition resolve_by_origin ::
  "domain_env \<Rightarrow> storefront_request \<Rightarrow> instant \<Rightarrow> site \<Rightarrow> store_context result \<times> site" where
  "resolve_by_origin env rq now s =
     (case parse_storefront_origin (de_loopback env) (\<not> de_loopback env) (rq_origin rq) of
        None \<Rightarrow> (Inl store_not_found, s)
      | Some (sch, host) \<Rightarrow> resolve_host host sch now s)"

definition resolve_context ::
  "domain_env \<Rightarrow> storefront_request \<Rightarrow> instant \<Rightarrow> stored_mode \<Rightarrow> front
     \<Rightarrow> (store_context result \<times> storefront_request) \<times> front" where
  "resolve_context env rq now stored f =
     (case rq_context rq of
        Some c \<Rightarrow> ((Inr c, rq), f)
      | None \<Rightarrow>
          (case read_front_mode now stored f of
             (Inl e, f1) \<Rightarrow> ((Inl e, rq), f1)
           | (Inr mode, f1) \<Rightarrow>
               (let (r, f2) = (if mode = HostResolution
                      then on_front_site (resolve_by_origin env rq now (fr_site f1)) f1
                      else (resolve_legacy (rq_hostname rq) (fr_site f1), f1))
                in ((r, case r of Inl _ \<Rightarrow> rq | Inr c \<Rightarrow> rq\<lparr>rq_context := Some c\<rparr>), f2))))"

text \<open>The merchant's own tenant is preferred to the storefront's.\<close>

definition resolve_active_tenant_id ::
  "domain_env \<Rightarrow> storefront_request \<Rightarrow> instant \<Rightarrow> stored_mode \<Rightarrow> front
     \<Rightarrow> (uuid result \<times> storefront_request) \<times> front" where
  "resolve_active_tenant_id env rq now stored f =
     (case rq_tenant rq of
        Some t \<Rightarrow> ((Inr (tc_tenant t), rq), f)
      | None \<Rightarrow> (let ((r, rq1), f1) = resolve_context env rq now stored f in ((map_sum id sx_tenant r, rq1), f1)))"

text \<open>The scope of a public read: none in the legacy mode.\<close>

definition resolve_public_scope ::
  "domain_env \<Rightarrow> storefront_request \<Rightarrow> instant \<Rightarrow> stored_mode \<Rightarrow> front
     \<Rightarrow> ((uuid \<times> uuid option) option result \<times> storefront_request) \<times> front" where
  "resolve_public_scope env rq now stored f =
     (case read_front_mode now stored f of
        (Inl e, f1) \<Rightarrow> ((Inl e, rq), f1)
      | (Inr mode, f1) \<Rightarrow>
          (if mode \<noteq> HostResolution then ((Inr None, rq), f1)
           else (let ((r, rq1), f2) = resolve_context env rq now stored f1
                 in ((map_sum id (\<lambda>c. Some (sx_tenant c, sx_store c)) r, rq1), f2))))"

text \<open>A crawler's request carries its host in a parameter or a header; the first usable one counts.\<close>

definition crawler_host :: "domain_env \<Rightarrow> string option \<Rightarrow> storefront_request \<Rightarrow> string option" where
  "crawler_host env param rq =
     (case normalise_host (de_loopback env) param of
        Some h \<Rightarrow> Some h
      | None \<Rightarrow> normalise_host (de_loopback env) (rq_forwarded rq))"

definition resolve_for_seo ::
  "domain_env \<Rightarrow> string option \<Rightarrow> storefront_request \<Rightarrow> instant \<Rightarrow> stored_mode \<Rightarrow> front
     \<Rightarrow> store_context result \<times> front" where
  "resolve_for_seo env param rq now stored f =
     (case read_front_mode now stored f of
        (Inl e, f1) \<Rightarrow> (Inl e, f1)
      | (Inr mode, f1) \<Rightarrow>
          (if mode \<noteq> HostResolution then (resolve_legacy (rq_hostname rq) (fr_site f1), f1)
           else (case crawler_host env param rq of
             Some h \<Rightarrow> on_front_site
               (resolve_host h (if de_loopback env then Http else Https) now (fr_site f1)) f1
           | None \<Rightarrow> on_front_site (resolve_by_origin env rq now (fr_site f1)) f1)))"

section \<open>Admitting an origin\<close>

datatype cors_reason =
    NoOrigin | PlatformAdminOrigin | PlatformSubdomainOrigin | CustomDomainServed
  | LegacyModeOnlyFrontend | MalformedOrigin | PortNotAllowed | SubdomainTooDeep
  | UnknownHost | CustomDomainNotServed | ModeUnavailable

text \<open>Each verdict allows or denies.\<close>

fun cors_allowed :: "cors_reason \<Rightarrow> bool" where
  "cors_allowed NoOrigin = True"
| "cors_allowed PlatformAdminOrigin = True"
| "cors_allowed PlatformSubdomainOrigin = True"
| "cors_allowed CustomDomainServed = True"
| "cors_allowed _ = False"

definition normalise_origin :: "string \<Rightarrow> string" where
  "normalise_origin o' = rev (dropWhile (\<lambda>c. c = CHR ''/'') (rev (to_lower (js_trim o'))))"

text \<open>\<open>/^https?:\\/\\/[^/?#]*:\\d{1,5}$/i\<close> on the text as it came.\<close>

definition origin_with_port :: "string \<Rightarrow> bool" where
  "origin_with_port o' =
     (case origin_scheme o' of
        None \<Rightarrow> False
      | Some (_, rest) \<Rightarrow>
          list_all (\<lambda>c. c \<notin> set ''/?#'') rest \<and>
          (let ds = takeWhile digit (rev rest)
           in 1 \<le> length ds \<and> length ds \<le> 5 \<and> length ds < length rest \<and>
              rev rest ! length ds = CHR '':''))"

definition cors_independent :: "string \<Rightarrow> string option \<Rightarrow> cors_reason option" where
  "cors_independent frontend origin =
     (case origin of
        None \<Rightarrow> Some NoOrigin
      | Some o' \<Rightarrow> if o' = '''' then Some NoOrigin
          else if normalise_origin o' = normalise_origin frontend then Some PlatformAdminOrigin
          else None)"

definition cors_platform_subdomain :: "domain_env \<Rightarrow> string \<Rightarrow> cors_reason option" where
  "cors_platform_subdomain env host =
     (case de_platform env of
        None \<Rightarrow> None
      | Some p \<Rightarrow>
          if \<not> ends_with (''.'' @ p) host then None
          else (let label = take (length host - length (''.'' @ p)) host
                in if label = [] then None
                   else Some (if CHR ''.'' \<in> set label then SubdomainTooDeep else PlatformSubdomainOrigin)))"

definition cors_row :: "lookup_row option \<Rightarrow> cors_reason" where
  "cors_row row =
     (case row of
        None \<Rightarrow> UnknownHost
      | Some r \<Rightarrow>
          if \<not> is_custom (lr_type r) then PlatformSubdomainOrigin
          else if lr_status r = DomainVerified \<and> tls_of (lr_tls r) = TlsIssued then CustomDomainServed
          else CustomDomainNotServed)"

definition cors_storefront ::
  "domain_env \<Rightarrow> string option \<Rightarrow> instant \<Rightarrow> site \<Rightarrow> cors_reason \<times> site" where
  "cors_storefront env origin now s =
     (case parse_storefront_origin (de_loopback env) (\<not> de_loopback env) origin of
        None \<Rightarrow> (MalformedOrigin, s)
      | Some (sch, host) \<Rightarrow>
          if \<not> de_loopback env \<and> origin_with_port (the origin) then (PortNotAllowed, s)
          else (case cors_platform_subdomain env host of
            Some v \<Rightarrow> (v, s)
          | None \<Rightarrow> (let (row, s1) = lookup_host host now s in (cors_row row, s1))))"

definition cors_evaluate ::
  "domain_env \<Rightarrow> string \<Rightarrow> string option \<Rightarrow> instant \<Rightarrow> stored_mode \<Rightarrow> front \<Rightarrow> cors_reason \<times> front" where
  "cors_evaluate env frontend origin now stored f =
     (case cors_independent frontend origin of
        Some v \<Rightarrow> (v, f)
      | None \<Rightarrow>
          (case read_front_mode now stored f of
             (Inl _, f1) \<Rightarrow> (ModeUnavailable, f1)
           | (Inr mode, f1) \<Rightarrow>
               if mode \<noteq> HostResolution then (LegacyModeOnlyFrontend, f1)
               else on_front_site (cors_storefront env origin now (fr_site f1)) f1))"

definition cors_evaluate_as_host_resolution ::
  "domain_env \<Rightarrow> string \<Rightarrow> string option \<Rightarrow> instant \<Rightarrow> site \<Rightarrow> cors_reason \<times> site" where
  "cors_evaluate_as_host_resolution env frontend origin now s =
     (case cors_independent frontend origin of
        Some v \<Rightarrow> (v, s)
      | None \<Rightarrow> cors_storefront env origin now s)"

end
