(* ===== verification/SiteReach.thy ===== *)
theory SiteReach
  imports StoreResolution
begin

text \<open>
  The histories of the domain table and of one process's cache, and what holds in all of them.
  Removals are planned in one transaction and finished in another, so the planned ones are part of
  the state and anything may happen in between.
\<close>

section \<open>Facts on table operations\<close>

lemma find_domain_in: "find_domain i ds = Some d \<Longrightarrow> d \<in> set ds \<and> sd_id d = i"
  by (auto simp: find_domain_def dest: find_SomeD)

lemma find_host_in: "find_host h ds = Some d \<Longrightarrow> d \<in> set ds \<and> sd_host d = h"
  by (auto simp: find_host_def dest: find_SomeD)

lemma write_domains_Inr:
  "write_domains ds s = Inr s1 \<longleftrightarrow> domains_ok ds \<and> s1 = s\<lparr>st_domains := ds\<rparr>"
  by (auto simp: write_domains_def)

lemma update_domain_Inr:
  "update_domain i f s = Inr (d1, s1) \<longleftrightarrow>
     (\<exists>d. find_domain i (st_domains s) = Some d \<and> d1 = f d \<and>
        domains_ok (update_rows (\<lambda>d. sd_id d = i) f (st_domains s)) \<and>
        s1 = s\<lparr>st_domains := update_rows (\<lambda>d. sd_id d = i) f (st_domains s)\<rparr>)"
  by (auto simp: update_domain_def write_domains_Inr)

lemma unique_to_conflict_Inr [simp]: "unique_to_conflict msg r = Inr x \<longleftrightarrow> r = Inr x"
  by (auto simp: unique_to_conflict_def split: sum.splits err.splits)

lemma insert_domain_Inr:
  "insert_domain d s = Inr s1 \<longleftrightarrow> domains_ok (st_domains s @ [d]) \<and>
     s1 = s\<lparr>st_domains := st_domains s @ [d], st_market := take_ids 1 (st_market s)\<rparr>"
  by (auto simp: insert_domain_def write_domains_Inr)

lemma load_own_domain_Inr:
  "load_own_domain t i s = Inr d \<Longrightarrow> d \<in> set (st_domains s) \<and> sd_id d = i \<and> sd_tenant d = t"
  by (auto simp: load_own_domain_def dest: find_SomeD)

lemma load_custom_domain_Inr:
  "load_custom_domain i s = Inr d \<Longrightarrow>
     d \<in> set (st_domains s) \<and> find_domain i (st_domains s) = Some d \<and> sd_id d = i \<and> is_custom (sd_type d)"
  by (auto simp: load_custom_domain_def dest: find_domain_in)

section \<open>Steps\<close>

text \<open>
  The rest of the program and the other tables move on their own: the stores of the tenants stay,
  identifiers are not given twice.
\<close>

definition world_moves :: "site \<Rightarrow> site \<Rightarrow> bool" where
  "world_moves s s' \<longleftrightarrow>
     st_domains s' = st_domains s \<and> st_failures s' = st_failures s \<and> st_cache s' = st_cache s \<and>
     storefronts (st_market s') = storefronts (st_market s) \<and> fresh_id s \<le> fresh_id s'"

inductive merchant_step :: "domain_env \<Rightarrow> removal list \<times> site \<Rightarrow> removal list \<times> site \<Rightarrow> bool" for env where
  add: "merchant_step env (p, s) (p, snd (run_tx (add_domain env ctx actor raw method token now) s))"
| verify: "merchant_step env (p, s) (p, snd (verify_domain env dns ho locked ctx actor i now s))"
| attach: "merchant_step env (p, s) (p, snd (attach_to_hosting ho d s))"
| primary: "merchant_step env (p, s) (p, snd (run_tx (set_primary ctx actor i) s))"
| plan: "plan_removal ctx i s = Inr r \<Longrightarrow> merchant_step env (p, s) (r # p, s)"
| finish: "r \<in> set p \<Longrightarrow> merchant_step env (p, s) (p, snd (run_tx (finish_removal ctx actor r) s))"
| tls: "merchant_step env (p, s) (p, snd (run_tx (refresh_tls ho ctx actor i) s))"
| lookup: "merchant_step env (p, s) (p, snd (lookup_host h now s))"
| world: "world_moves s s' \<Longrightarrow> merchant_step env (p, s) (p, s')"

inductive platform_step :: "domain_env \<Rightarrow> removal list \<times> site \<Rightarrow> removal list \<times> site \<Rightarrow> bool" for env where
  revoke: "platform_step env (p, s) (p, snd (run_tx (revoke_domain actor i why now) s))"
| override: "platform_step env (p, s) (p, snd (run_tx (override_domain actor i why now) s))"
| reverify: "platform_step env (p, s) (p, snd (run_tx (reverify_domain env dns locked actor i why now) s))"
| plan: "plan_platform_removal i s = Inr r \<Longrightarrow> platform_step env (p, s) (r # p, s)"
| finish: "r \<in> set p \<Longrightarrow> platform_step env (p, s) (p, snd (run_tx (finish_platform_removal actor why r) s))"

definition site_step :: "domain_env \<Rightarrow> removal list \<times> site \<Rightarrow> removal list \<times> site \<Rightarrow> bool" where
  "site_step env x y \<longleftrightarrow> merchant_step env x y \<or> platform_step env x y"

text \<open>Before the process serves anything, stores get their platform subdomains.\<close>

inductive site_start :: "domain_env \<Rightarrow> site \<Rightarrow> bool" for env where
  empty: "st_domains s = [] \<Longrightarrow> st_failures s = [] \<Longrightarrow> st_cache s = (\<lambda>_. None) \<Longrightarrow> site_start env s"
| provision: "site_start env s \<Longrightarrow> sf \<in> set (storefronts (st_market s)) \<Longrightarrow>
    ensure_platform_subdomain (de_platform env) (sf_id sf) (sf_tenant sf) slug now s = Inr (x, s') \<Longrightarrow>
    site_start env s'"

inductive site_reachable :: "domain_env \<Rightarrow> removal list \<times> site \<Rightarrow> bool" for env where
  start: "site_start env s \<Longrightarrow> site_reachable env ([], s)"
| step: "site_reachable env x \<Longrightarrow> site_step env x y \<Longrightarrow> site_reachable env y"

section \<open>The invariant\<close>

definition domain_wf :: "storefront list \<Rightarrow> store_domain \<Rightarrow> bool" where
  "domain_wf sfs d \<longleftrightarrow>
     normalise_host False (Some (sd_host d)) = Some (sd_host d) \<and>
     (\<exists>sf \<in> set sfs. sf_id sf = sd_store d \<and> sf_tenant sf = sd_tenant d) \<and>
     (sd_status d = DomainVerified \<longrightarrow> sd_verified_at d \<noteq> None) \<and>
     (if is_custom (sd_type d) then sd_token d \<noteq> None \<and> sd_method d \<noteq> None
      else sd_status d = DomainVerified)"

definition unlinked :: "lookup_row \<Rightarrow> lookup_row" where
  "unlinked r = r\<lparr>lr_primary_host := None\<rparr>"

definition bare_row :: "string \<Rightarrow> store_domain list \<Rightarrow> lookup_row option" where
  "bare_row h ds = map_option (lookup_row_of []) (find_host h ds)"

definition cache_ok :: "site \<Rightarrow> bool" where
  "cache_ok s \<longleftrightarrow> (\<forall>h row e. st_cache s h = Some (row, e) \<longrightarrow>
     map_option unlinked row = bare_row h (st_domains s))"

definition site_ok :: "site \<Rightarrow> bool" where
  "site_ok s \<longleftrightarrow>
     domains_ok (st_domains s) \<and> distinct (map sd_id (st_domains s)) \<and>
     (\<forall>d \<in> set (st_domains s). sd_id d < fresh_id s \<and> domain_wf (storefronts (st_market s)) d) \<and>
     cache_ok s"

definition plan_ok :: "site \<Rightarrow> removal \<Rightarrow> bool" where
  "plan_ok s r \<longleftrightarrow>
     sd_id (rm_domain r) < fresh_id s \<and> (\<forall>f. rm_fallback r = Some f \<longrightarrow> f < fresh_id s) \<and>
     (\<forall>d \<in> set (st_domains s). sd_id d = sd_id (rm_domain r) \<or> rm_fallback r = Some (sd_id d) \<longrightarrow>
        sd_host d \<in> set (rm_hosts r))"

lemma unlinked_row [simp]: "unlinked (lookup_row_of ds d) = lookup_row_of [] d"
  by (simp add: unlinked_def lookup_row_of_def primary_host_of_def)

lemma unlinked_read: "map_option unlinked (read_row h ds) = bare_row h ds"
  by (simp add: read_row_def bare_row_def option.map_comp comp_def)

text \<open>What a step must do to keep the invariant.\<close>

definition carried :: "site \<Rightarrow> site \<Rightarrow> bool" where
  "carried s s' \<longleftrightarrow>
     domains_ok (st_domains s') \<and> distinct (map sd_id (st_domains s')) \<and>
     fresh_id s \<le> fresh_id s' \<and> storefronts (st_market s') = storefronts (st_market s) \<and>
     (\<forall>d \<in> set (st_domains s'). domain_wf (storefronts (st_market s)) d \<and> sd_id d < fresh_id s' \<and>
        (sd_id d < fresh_id s \<longrightarrow> (\<exists>d0 \<in> set (st_domains s). sd_id d0 = sd_id d \<and> sd_host d0 = sd_host d))) \<and>
     cache_ok s'"

lemma carriedD:
  assumes "carried s s'"
  shows "domains_ok (st_domains s')" "distinct (map sd_id (st_domains s'))" "fresh_id s \<le> fresh_id s'"
    "storefronts (st_market s') = storefronts (st_market s)"
    "d \<in> set (st_domains s') \<Longrightarrow> domain_wf (storefronts (st_market s)) d"
    "d \<in> set (st_domains s') \<Longrightarrow> sd_id d < fresh_id s'"
    "d \<in> set (st_domains s') \<Longrightarrow> sd_id d < fresh_id s \<Longrightarrow>
       \<exists>d0 \<in> set (st_domains s). sd_id d0 = sd_id d \<and> sd_host d0 = sd_host d"
    "cache_ok s'"
  using assms unfolding carried_def by blast+

lemma carried_refl: "site_ok s \<Longrightarrow> carried s s"
  by (auto simp: site_ok_def carried_def)

lemma cache_okD: "cache_ok s \<Longrightarrow> st_cache s h = Some (row, e) \<Longrightarrow> map_option unlinked row = bare_row h (st_domains s)"
  by (simp add: cache_ok_def)

text \<open>Every name whose row changes must leave the cache.\<close>

lemma cache_ok_shrinks:
  assumes "cache_ok s"
    "\<And>h. st_cache s' h \<noteq> None \<Longrightarrow>
       st_cache s' h = st_cache s h \<and> bare_row h (st_domains s') = bare_row h (st_domains s)"
  shows "cache_ok s'"
  unfolding cache_ok_def
proof (intro allI impI)
  fix h row e assume hit: "st_cache s' h = Some (row, e)"
  then show "map_option unlinked row = bare_row h (st_domains s')"
    using assms(2) [of h] cache_okD [OF assms(1), of h row e] by simp
qed

lemma carried_ok: "carried s s' \<Longrightarrow> site_ok s'"
  by (simp add: site_ok_def carried_def)

lemma carried_plan:
  assumes "plan_ok s r" "carried s s'"
  shows "plan_ok s' r"
proof -
  have old: "sd_id d < fresh_id s" if "sd_id d = sd_id (rm_domain r) \<or> rm_fallback r = Some (sd_id d)" for d
    using assms(1) that by (auto simp: plan_ok_def)
  have hosts: "sd_host d \<in> set (rm_hosts r)"
    if d: "d \<in> set (st_domains s')" "sd_id d = sd_id (rm_domain r) \<or> rm_fallback r = Some (sd_id d)" for d
  proof -
    obtain d0 where "d0 \<in> set (st_domains s)" "sd_id d0 = sd_id d" "sd_host d0 = sd_host d"
      using carriedD(7) [OF assms(2) d(1) old [OF d(2)]] by blast
    then show ?thesis using assms(1) d(2) by (auto simp: plan_ok_def)
  qed
  have "i < fresh_id s \<Longrightarrow> i < fresh_id s'" for i
    using carriedD(3) [OF assms(2)] by simp
  then show ?thesis using assms(1) hosts by (simp add: plan_ok_def)
qed

lemma carried_trans:
  assumes "carried s s1" "carried s1 s2"
  shows "carried s s2"
proof -
  have sf: "storefronts (st_market s1) = storefronts (st_market s)" by (rule carriedD(4) [OF assms(1)])
  have le: "fresh_id s \<le> fresh_id s1" by (rule carriedD(3) [OF assms(1)])
  have "domain_wf (storefronts (st_market s)) d" if "d \<in> set (st_domains s2)" for d
    using carriedD(5) [OF assms(2) that] sf by simp
  moreover have "\<exists>d0 \<in> set (st_domains s). sd_id d0 = sd_id d \<and> sd_host d0 = sd_host d"
    if d: "d \<in> set (st_domains s2)" "sd_id d < fresh_id s" for d
  proof -
    obtain d1 where d1: "d1 \<in> set (st_domains s1)" "sd_id d1 = sd_id d" "sd_host d1 = sd_host d"
      using carriedD(7) [OF assms(2) d(1)] d(2) le by auto
    then show ?thesis using carriedD(7) [OF assms(1) d1(1)] d(2) by simp
  qed
  moreover have "d \<in> set (st_domains s2) \<Longrightarrow> sd_id d < fresh_id s2" for d by (rule carriedD(6) [OF assms(2)])
  ultimately show ?thesis
    using carriedD(1-4) [OF assms(2)] carriedD(8) [OF assms(2)] sf le unfolding carried_def by auto
qed

section \<open>The kinds of write\<close>

text \<open>
  A change of some rows that keeps their identifiers and names is carried if the rows stay well
  formed and every changed name is dropped from the cache.
\<close>

lemma find_host_update:
  assumes "\<And>d. sd_host (f d) = sd_host d"
  shows "find_host h (update_rows P f ds) = map_option (\<lambda>d. if P d then f d else d) (find_host h ds)"
  using assms by (induction ds) (auto simp: find_host_def update_rows_def)

lemma bare_row_update:
  assumes "\<And>d. sd_host (f d) = sd_host d" "\<And>d. d \<in> set ds \<Longrightarrow> P d \<Longrightarrow> sd_host d \<noteq> h"
  shows "bare_row h (update_rows P f ds) = bare_row h ds"
proof (cases "find_host h ds")
  case (Some d)
  then have "\<not> P d" using find_host_in assms(2) by blast
  then show ?thesis using Some assms(1) by (simp add: bare_row_def find_host_update)
qed (simp add: bare_row_def find_host_update assms(1))

lemma update_rows_from: "x \<in> set (update_rows P f ds) \<Longrightarrow> \<exists>d \<in> set ds. x = (if P d then f d else d)"
  by (auto simp: update_rows_def)

lemma site_okD:
  assumes "site_ok s"
  shows "domains_ok (st_domains s)" "distinct (map sd_id (st_domains s))" "cache_ok s"
    "d \<in> set (st_domains s) \<Longrightarrow> domain_wf (storefronts (st_market s)) d"
    "d \<in> set (st_domains s) \<Longrightarrow> sd_id d < fresh_id s"
  using assms unfolding site_ok_def by blast+

text \<open>A step that leaves the rows alone.\<close>

lemma carried_same_rows:
  assumes "site_ok s" "st_domains s' = st_domains s" "storefronts (st_market s') = storefronts (st_market s)"
    "fresh_id s \<le> fresh_id s'" "\<And>h. st_cache s' h \<noteq> None \<Longrightarrow> st_cache s' h = st_cache s h"
  shows "carried s s'"
proof -
  have "cache_ok s'"
    by (rule cache_ok_shrinks [OF site_okD(3) [OF assms(1)]]) (use assms(2,5) in simp)
  moreover have "d \<in> set (st_domains s) \<Longrightarrow> sd_id d < fresh_id s'" for d
    using site_okD(5) [OF assms(1), of d] assms(4) by simp
  ultimately show ?thesis
    using assms(2-4) site_okD(1,2,4) [OF assms(1)] unfolding carried_def by auto
qed

lemma carried_update:
  assumes "site_ok s" "st_domains s' = update_rows P f (st_domains s)" "domains_ok (st_domains s')"
    "storefronts (st_market s') = storefronts (st_market s)" "fresh_id s' = fresh_id s"
    "\<And>d. sd_id (f d) = sd_id d" "\<And>d. sd_host (f d) = sd_host d"
    "\<And>d. d \<in> set (st_domains s) \<Longrightarrow> P d \<Longrightarrow> domain_wf (storefronts (st_market s)) (f d)"
    "\<And>d. d \<in> set (st_domains s) \<Longrightarrow> P d \<Longrightarrow> st_cache s' (sd_host d) = None"
    "\<And>h. st_cache s' h \<noteq> None \<Longrightarrow> st_cache s' h = st_cache s h"
  shows "carried s s'"
proof -
  have "bare_row h (st_domains s') = bare_row h (st_domains s)" if "st_cache s' h \<noteq> None" for h
    unfolding assms(2) by (rule bare_row_update) (use assms(7,9) that in auto)
  then have "cache_ok s'"
    using assms(10) by (intro cache_ok_shrinks [OF site_okD(3) [OF assms(1)]]) simp
  moreover have "distinct (map sd_id (st_domains s'))"
    using site_okD(2) [OF assms(1)] assms(2,6) by (simp add: map_update_rows)
  moreover have "domain_wf (storefronts (st_market s)) d \<and> sd_id d < fresh_id s' \<and>
      (\<exists>d0 \<in> set (st_domains s). sd_id d0 = sd_id d \<and> sd_host d0 = sd_host d)"
    if "d \<in> set (st_domains s')" for d
  proof -
    have "d \<in> set (update_rows P f (st_domains s))" using that assms(2) by simp
    from update_rows_from [OF this]
    obtain d0 where d0: "d0 \<in> set (st_domains s)" "d = (if P d0 then f d0 else d0)" by blast
    then show ?thesis
      using assms(5-8) site_okD(4,5) [OF assms(1) d0(1)] by (auto intro: bexI [of _ d0])
  qed
  ultimately show ?thesis
    using assms(3-5) unfolding carried_def by auto
qed

lemma carried_insert:
  assumes "site_ok s" "st_domains s' = st_domains s @ [d]" "domains_ok (st_domains s')"
    "storefronts (st_market s') = storefronts (st_market s)" "fresh_id s' = Suc (fresh_id s)"
    "sd_id d = fresh_id s" "domain_wf (storefronts (st_market s)) d" "st_cache s' (sd_host d) = None"
    "\<And>h. st_cache s' h \<noteq> None \<Longrightarrow> st_cache s' h = st_cache s h"
  shows "carried s s'"
proof -
  have "bare_row h (st_domains s') = bare_row h (st_domains s)" if "st_cache s' h \<noteq> None" for h
  proof -
    have "h \<noteq> sd_host d" using that assms(8) by auto
    then show ?thesis
      using assms(2) by (auto simp: bare_row_def find_host_def find_append split: option.splits)
  qed
  then have "cache_ok s'"
    using assms(9) by (intro cache_ok_shrinks [OF site_okD(3) [OF assms(1)]]) simp
  moreover have "distinct (map sd_id (st_domains s'))"
    using site_okD(2) [OF assms(1)] site_okD(5) [OF assms(1)] assms(2,6) by (fastforce simp: less_irrefl)
  moreover have "domain_wf (storefronts (st_market s)) x \<and> sd_id x < fresh_id s' \<and>
      (sd_id x < fresh_id s \<longrightarrow> (\<exists>d0 \<in> set (st_domains s). sd_id d0 = sd_id x \<and> sd_host d0 = sd_host x))"
    if "x \<in> set (st_domains s')" for x
    using that assms(2,5-7) site_okD(4,5) [OF assms(1), of x] by auto
  ultimately show ?thesis
    using assms(3-5) unfolding carried_def by auto
qed

lemma find_host_filter:
  assumes "\<And>d. d \<in> set ds \<Longrightarrow> \<not> P d \<Longrightarrow> sd_host d \<noteq> h"
  shows "find_host h (filter P ds) = find_host h ds"
  using assms by (induction ds) (auto simp: find_host_def)

lemma carried_delete:
  assumes "site_ok s" "st_domains s' = filter P (st_domains s)"
    "storefronts (st_market s') = storefronts (st_market s)" "fresh_id s' = fresh_id s"
    "\<And>d. d \<in> set (st_domains s) \<Longrightarrow> \<not> P d \<Longrightarrow> st_cache s' (sd_host d) = None"
    "\<And>h. st_cache s' h \<noteq> None \<Longrightarrow> st_cache s' h = st_cache s h"
  shows "carried s s'"
proof -
  have "bare_row h (st_domains s') = bare_row h (st_domains s)" if "st_cache s' h \<noteq> None" for h
  proof -
    have "find_host h (filter P (st_domains s)) = find_host h (st_domains s)"
      by (rule find_host_filter) (use assms(5) that in auto)
    then show ?thesis by (simp add: bare_row_def assms(2))
  qed
  then have "cache_ok s'"
    using assms(6) by (intro cache_ok_shrinks [OF site_okD(3) [OF assms(1)]]) simp
  moreover have "domains_ok (st_domains s')"
    using site_okD(1) [OF assms(1)] assms(2)
    by (auto simp: domains_ok_def distinct_map inj_on_def)
  moreover have "distinct (map sd_id (st_domains s'))"
    using site_okD(2) [OF assms(1)] assms(2) by (simp add: distinct_map_filter)
  ultimately show ?thesis
    using assms(2-4) site_okD(4,5) [OF assms(1)] unfolding carried_def by auto
qed

section \<open>The operations\<close>

lemma site_log_frames [simp]:
  "st_domains (site_audit ctx a n i s) = st_domains s" "st_cache (site_audit ctx a n i s) = st_cache s"
  "st_domains (log_platform a n i t w s) = st_domains s" "st_cache (log_platform a n i t w s) = st_cache s"
  "st_domains (remember_failure tn i r now s) = st_domains s" "st_cache (remember_failure tn i r now s) = st_cache s"
  "st_market (log_platform a n i t w s) = st_market s" "st_market (remember_failure tn i r now s) = st_market s"
  "storefronts (st_market (site_audit ctx a n i s)) = storefronts (st_market s)"
  "fresh (st_market (site_audit ctx a n i s)) = fresh (st_market s)"
  "fresh_id (site_audit ctx a n i s) = fresh_id s" "fresh_id (log_platform a n i t w s) = fresh_id s"
  "fresh_id (remember_failure tn i r now s) = fresh_id s" "fresh_id (bust h s) = fresh_id s"
  "fresh_id (bust_all hs s) = fresh_id s" "fresh_id (st_domains_update f s) = fresh_id s"
  by (simp_all add: site_audit_def log_platform_def log_platform_action_def remember_failure_def fresh_id_def audit_def
    log_tenant_action_def Let_def)

lemma find_domain_key:
  "distinct (map sd_id ds) \<Longrightarrow> d \<in> set ds \<Longrightarrow> find_domain (sd_id d) ds = Some d"
  by (simp add: find_domain_def find_key)

text \<open>An update of one row by its identifier, then logs, then the row's name dropped.\<close>

lemma carried_update_one:
  assumes "site_ok s" "update_domain i f s = Inr (d1, s1)"
    "\<And>d. sd_id (f d) = sd_id d" "\<And>d. sd_host (f d) = sd_host d"
    "\<And>d. find_domain i (st_domains s) = Some d \<Longrightarrow> domain_wf (storefronts (st_market s)) (f d)"
    "st_domains s' = st_domains s1" "storefronts (st_market s') = storefronts (st_market s1)"
    "fresh_id s' = fresh_id s1" "st_cache s' (sd_host d1) = None"
    "\<And>h. st_cache s' h \<noteq> None \<Longrightarrow> st_cache s' h = st_cache s h"
  shows "carried s s'"
proof -
  obtain d where d: "find_domain i (st_domains s) = Some d" "d1 = f d"
    and ok: "domains_ok (update_rows (\<lambda>d. sd_id d = i) f (st_domains s))"
    and s1: "s1 = s\<lparr>st_domains := update_rows (\<lambda>d. sd_id d = i) f (st_domains s)\<rparr>"
    using assms(2) by (auto simp: update_domain_Inr)
  have same: "x = d" if "x \<in> set (st_domains s)" "sd_id x = i" for x
    using find_domain_key [OF site_okD(2) [OF assms(1)] that(1)] d(1) that(2) by simp
  show ?thesis
  proof (rule carried_update [OF assms(1), of s' "\<lambda>d. sd_id d = i" f])
    show "domains_ok (st_domains s')" using ok s1 assms(6) by simp
    show "domain_wf (storefronts (st_market s)) (f x)" if "x \<in> set (st_domains s)" "sd_id x = i" for x
      using same that d(1) assms(5) by blast
    show "st_cache s' (sd_host x) = None" if "x \<in> set (st_domains s)" "sd_id x = i" for x
      using same that d(2) assms(4,9) by fastforce
  qed (use s1 assms in simp_all)
qed

lemma domain_wf_flags [simp]:
  "domain_wf sfs (d\<lparr>sd_tls := x\<rparr>) = domain_wf sfs d"
  "domain_wf sfs (d\<lparr>sd_checked_at := y\<rparr>) = domain_wf sfs d"
  "domain_wf sfs (set_primary_flag b d) = domain_wf sfs d"
  by (simp_all add: domain_wf_def set_primary_flag_def)

lemma verified_row_wf: "domain_wf sfs d \<Longrightarrow> domain_wf sfs (verified_row now d)"
  by (simp add: domain_wf_def verified_row_def)

lemma set_primary_flag_same [simp]:
  "sd_id (set_primary_flag b d) = sd_id d" "sd_host (set_primary_flag b d) = sd_host d"
  by (simp_all add: set_primary_flag_def)

lemma verified_row_same [simp]:
  "sd_id (verified_row now d) = sd_id d" "sd_host (verified_row now d) = sd_host d"
  by (simp_all add: verified_row_def)

lemma primary_store_in:
  "primary_store_id_of t m = Inr i \<Longrightarrow> \<exists>sf \<in> set (storefronts m). sf_id sf = i \<and> sf_tenant sf = t"
  by (auto simp: primary_store_id_of_def or_throw_def split: option.splits dest!: find_SomeD)

lemma fresh_taken [simp]: "fresh (take_ids n m) = fresh m + n" "storefronts (take_ids n m) = storefronts m"
  by (simp_all add: take_ids_def)

lemma carried_add:
  assumes "site_ok s" "add_domain env ctx actor raw method token now s = Inr (v, s')"
  shows "carried s s'"
proof -
  obtain host store s1 where
      host: "normalise_host False (Some raw) = Some host" and
      store: "primary_store_id_of (tc_tenant ctx) (st_market s) = Inr store" and
      ok: "domains_ok (st_domains s @ [new_domain store (tc_tenant ctx) host method token now (fresh_id s)])" and
      s': "s' = bust host (site_audit ctx actor ''store_domain.added'' (fresh_id s)
             (s\<lparr>st_domains := st_domains s @ [new_domain store (tc_tenant ctx) host method token now (fresh_id s)],
                st_market := take_ids 1 (st_market s)\<rparr>))"
    using assms(2) by (auto simp: add_domain_def validate_new_hostname_def add_domain_tx_def
        insert_domain_Inr new_domain_def Let_def)
  have "normalise_host False (Some host) = Some host"
    by (rule normalise_host_idem [OF host])
  then have "domain_wf (storefronts (st_market s)) (new_domain store (tc_tenant ctx) host method token now (fresh_id s))"
    using primary_store_in [OF store] by (auto simp: domain_wf_def new_domain_def is_custom_def)
  then show ?thesis
    using ok s' by (intro carried_insert [OF assms(1), of s' "new_domain store (tc_tenant ctx) host method token now (fresh_id s)"])
      (simp_all add: new_domain_def fresh_id_def split: if_splits)
qed

lemma run_tx_carried:
  assumes "site_ok s" "\<And>x s'. f s = Inr (x, s') \<Longrightarrow> carried s s'"
  shows "carried s (snd (run_tx f s))"
  using assms by (auto simp: run_tx_def carried_refl split: sum.split)

lemma carried_verify_tx:
  assumes "site_ok s" "verify_tx env dns locked ctx actor i now s = Inr (v, s1)"
  shows "if vo_refused v then carried s s1 else carried s (bust (sd_host (vo_domain v)) s1)"
proof -
  obtain d where d: "load_own_domain (tc_tenant ctx) i s = Inr d"
    using assms(2) by (auto simp: verify_tx_def)
  then have in_d: "d \<in> set (st_domains s)" "sd_id d = i" by (auto dest: load_own_domain_Inr)
  then have this_row: "find_domain (sd_id d) (st_domains s) = Some d"
    by (intro find_domain_key [OF site_okD(2) [OF assms(1)]])
  have wfd: "domain_wf (storefronts (st_market s)) d" by (rule site_okD(4) [OF assms(1) in_d(1)])
  show ?thesis
  proof (cases "sd_status d")
    case DomainFailed
    then have "vo_refused v" "s1 = site_audit ctx actor ''store_domain.verify_refused_revoked'' (sd_id d) s"
      using assms(2) d by (auto simp: verify_tx_def)
    then show ?thesis using assms(1) by (simp add: carried_same_rows)
  next
    case DomainVerified
    then show ?thesis using assms(2) d by (auto simp: verify_tx_def)
  next
    case DomainPending
    show ?thesis
    proof (cases "check_domain (de_target env) dns d")
      case None
      then obtain s0 where "update_domain (sd_id d) (verified_row now) s = Inr (vo_domain v, s0)" "\<not> vo_refused v"
        "s1 = site_audit ctx actor ''store_domain.verified'' (sd_id d) s0"
        using assms(2) d DomainPending by (auto simp: verify_tx_def)
      then show ?thesis
        using this_row verified_row_wf [OF wfd]
        by (auto intro!: carried_update_one [OF assms(1)] simp: update_domain_Inr split: if_splits)
    next
      case (Some r)
      then obtain s0 where "update_domain (sd_id d) (\<lambda>d. d\<lparr>sd_checked_at := Some now\<rparr>) s = Inr (vo_domain v, s0)"
        "\<not> vo_refused v"
        "s1 = remember_failure (tc_tenant ctx) (sd_id d) r now
           (site_audit ctx actor ''store_domain.verification_failed'' (sd_id d) s0)"
        using assms(2) d DomainPending by (auto simp: verify_tx_def)
      then show ?thesis
        using this_row wfd
        by (auto intro!: carried_update_one [OF assms(1)] simp: update_domain_Inr split: if_splits)
    qed
  qed
qed

lemma carried_attach:
  assumes "site_ok s"
  shows "carried s (snd (attach_to_hosting ho d s))"
proof (cases "tls_from (ho_add ho (sd_host d))")
  case (Inr tls)
  have "carried s (bust (sd_host d1) s1)"
    if u: "update_domain (sd_id d) (\<lambda>d. d\<lparr>sd_tls := Some tls\<rparr>) s = Inr (d1, s1)" for d1 s1
    by (rule carried_update_one [OF assms u])
      (use u site_okD(4) [OF assms] in \<open>auto simp: update_domain_Inr dest: find_domain_in split: if_splits\<close>)
  then show ?thesis
    using Inr carried_refl [OF assms] by (auto simp: attach_to_hosting_def run_tx_def split: sum.split)
qed (simp add: attach_to_hosting_def carried_refl [OF assms])

lemma carried_verify:
  assumes "site_ok s"
  shows "carried s (snd (verify_domain env dns ho locked ctx actor i now s))"
proof (cases "verify_tx env dns locked ctx actor i now s")
  case (Inl e)
  then show ?thesis by (simp add: verify_domain_def run_tx_def carried_refl [OF assms])
next
  case (Inr p)
  then obtain v s1 where tx: "verify_tx env dns locked ctx actor i now s = Inr (v, s1)" by (cases p) auto
  show ?thesis
  proof (cases "vo_refused v")
    case True
    then show ?thesis using carried_verify_tx [OF assms tx] tx by (simp add: verify_domain_def run_tx_def)
  next
    case False
    then have first: "carried s (bust (sd_host (vo_domain v)) s1)"
      using carried_verify_tx [OF assms tx] by simp
    have "carried s (snd (attach_to_hosting ho (vo_domain v) (bust (sd_host (vo_domain v)) s1)))"
      using carried_trans [OF first carried_attach [OF carried_ok [OF first]]] .
    then show ?thesis
      using first False tx
      by (auto simp: verify_domain_def run_tx_def Let_def split: prod.splits if_splits)
  qed
qed

lemma carried_tls:
  assumes "site_ok s" "refresh_tls ho ctx actor i s = Inr (v, s')"
  shows "carried s s'"
proof -
  obtain d :: store_domain and tls d1 s2 where
    w: "write_tls_status ctx actor (sd_id d) tls ''store_domain.tls_refreshed'' s = Inr (d1, s2)" and
    s': "s' = bust (sd_host d1) s2"
    using assms(2) by (auto simp: refresh_tls_def)
  from w obtain s1 where u: "update_domain (sd_id d) (\<lambda>d. d\<lparr>sd_tls := Some tls\<rparr>) s = Inr (d1, s1)"
    and s2: "s2 = site_audit ctx actor ''store_domain.tls_refreshed'' (sd_id d) s1"
    by (auto simp: write_tls_status_def)
  show ?thesis
    by (rule carried_update_one [OF assms(1) u])
      (use u s' s2 site_okD(4) [OF assms(1)] in \<open>auto simp: update_domain_Inr dest: find_domain_in split: if_splits\<close>)
qed

text \<open>When several rows change before the names leave the cache, the names may as well leave first.\<close>

lemma carried_bust_all: "site_ok s \<Longrightarrow> carried s (bust_all hs s)"
  by (rule carried_same_rows) (auto split: if_splits)

lemma bust_write: "bust h (s\<lparr>st_domains := ds\<rparr>) = (bust h s)\<lparr>st_domains := ds\<rparr>"
  by (cases s) (simp add: bust_def)

lemma bust_all_write: "bust_all hs (s\<lparr>st_domains := ds\<rparr>) = (bust_all hs s)\<lparr>st_domains := ds\<rparr>"
  by (induction hs arbitrary: s) (simp_all add: bust_all_def bust_write)

lemma carried_update_busted:
  assumes "site_ok (bust_all hs s)" "update_domain i f s = Inr (d1, s1)"
    "\<And>d. sd_id (f d) = sd_id d" "\<And>d. sd_host (f d) = sd_host d"
    "\<And>d. find_domain i (st_domains s) = Some d \<Longrightarrow> domain_wf (storefronts (st_market s)) (f d)"
    "sd_host d1 \<in> set hs"
  shows "carried (bust_all hs s) (bust_all hs s1)"
proof -
  have "update_domain i f (bust_all hs s) = Inr (d1, bust_all hs s1)"
    using assms(2) by (auto simp: update_domain_Inr bust_all_write)
  then show ?thesis
    by (rule carried_update_one [OF assms(1)])
      (use assms(2-6) in \<open>auto simp: update_domain_Inr split: if_splits\<close>)
qed

lemma update_domain_frames:
  assumes "update_domain i f s = Inr (d1, s1)" "\<And>d. sd_id (f d) = sd_id d" "\<And>d. sd_host (f d) = sd_host d"
    "\<And>d. sd_store (f d) = sd_store d"
  shows "map sd_host (st_domains s1) = map sd_host (st_domains s)" "store_hostnames st s1 = store_hostnames st s"
    "st_market s1 = st_market s"
proof -
  have s1: "st_domains s1 = update_rows (\<lambda>d. sd_id d = i) f (st_domains s)" "st_market s1 = st_market s"
    using assms(1) by (auto simp: update_domain_Inr)
  have "map sd_host (filter (\<lambda>d. sd_store d = st) (update_rows P f ds)) = map sd_host (filter (\<lambda>d. sd_store d = st) ds)"
    for P ds using assms by (induction ds) auto
  then show "store_hostnames st s1 = store_hostnames st s" by (simp add: store_hostnames_def s1)
  show "map sd_host (st_domains s1) = map sd_host (st_domains s)" "st_market s1 = st_market s"
    using assms by (simp_all add: s1 map_update_rows)
qed

lemma carried_primary:
  assumes "site_ok s" "set_primary ctx actor i s = Inr (v, s')"
  shows "carried s s'"
proof -
  obtain d s1 d2 s2 where d: "load_own_domain (tc_tenant ctx) i s = Inr d" and
    first: "(case List.find (\<lambda>p. sd_store p = sd_store d \<and> sd_primary p) (st_domains s) of
       None \<Rightarrow> Inr s | Some p \<Rightarrow> map_sum id snd (update_domain (sd_id p) (set_primary_flag False) s)) = Inr s1" and
    second: "update_domain (sd_id d) (set_primary_flag True) s1 = Inr (d2, s2)" and
    s': "s' = bust_all (store_hostnames (sd_store d) s2) (site_audit ctx actor ''store_domain.primary_changed'' (sd_id d) s2)"
    using assms(2)
    by (fastforce simp: set_primary_def set_primary_tx_def Let_def store_hostnames_def)
  define hs where "hs = store_hostnames (sd_store d) s"
  have in_d: "d \<in> set (st_domains s)" using d by (auto dest: load_own_domain_Inr)
  note wf = site_okD(4) [OF assms(1)]
  have 1: "carried (bust_all hs s) (bust_all hs s1) \<and> store_hostnames (sd_store d) s1 = hs \<and>
      st_market s1 = st_market s"
  proof (cases "List.find (\<lambda>p. sd_store p = sd_store d \<and> sd_primary p) (st_domains s)")
    case None
    then show ?thesis using first carried_refl [OF carried_ok [OF carried_bust_all [OF assms(1)]]] hs_def by simp
  next
    case (Some p)
    then obtain p1 where u: "update_domain (sd_id p) (set_primary_flag False) s = Inr (p1, s1)"
      using first by (cases "update_domain (sd_id p) (set_primary_flag False) s") auto
    have p: "p \<in> set (st_domains s)" "sd_store p = sd_store d" using find_SomeD [OF Some] by auto
    have "find_domain (sd_id p) (st_domains s) = Some p" by (rule find_domain_key [OF site_okD(2) [OF assms(1)] p(1)])
    then have "sd_host p1 \<in> set hs" "p1 = set_primary_flag False p"
      using u p by (auto simp: update_domain_Inr hs_def store_hostnames_def)
    then have "carried (bust_all hs s) (bust_all hs s1)"
      using find_domain_in wf
      by (intro carried_update_busted [OF carried_ok [OF carried_bust_all [OF assms(1)]] u]) fastforce+
    moreover have "store_hostnames (sd_store d) s1 = hs" "st_market s1 = st_market s"
      using update_domain_frames [OF u] by (simp_all add: set_primary_flag_def hs_def)
    ultimately show ?thesis by simp
  qed
  then have ok1: "site_ok (bust_all hs s1)" using carried_ok by blast
  have h2: "store_hostnames (sd_store d) s2 = hs" "st_market s2 = st_market s1"
    using update_domain_frames [OF second] 1 by (simp_all add: set_primary_flag_def)
  obtain x where x: "find_domain (sd_id d) (st_domains s1) = Some x" "d2 = set_primary_flag True x"
    using second by (auto simp: update_domain_Inr)
  have 2: "carried (bust_all hs s1) (bust_all hs s2)"
  proof (rule carried_update_busted [OF ok1 second])
    have x_in: "x \<in> set (st_domains (bust_all hs s1))" "sd_id x = sd_id d" using find_domain_in [OF x(1)] by auto
    have "sd_id x < fresh_id (bust_all hs s)" using site_okD(5) [OF assms(1) in_d] x_in(2) by simp
    then obtain d0 where "d0 \<in> set (st_domains s)" "sd_id d0 = sd_id d" "sd_host d0 = sd_host x"
      using carriedD(7) [OF conjunct1 [OF 1] x_in(1)] x_in(2) by auto
    then have "sd_host x = sd_host d"
      using distinct_key_inj [OF site_okD(2) [OF assms(1)] _ in_d] by metis
    then show "sd_host d2 \<in> set hs" using x(2) in_d by (auto simp: hs_def store_hostnames_def)
  qed (use site_okD(4) [OF ok1] in \<open>auto dest!: find_domain_in\<close>)
  have "carried (bust_all hs s2) s'"
    by (rule carried_same_rows [OF carried_ok [OF 2]]) (auto simp: s' h2 split: if_splits)
  then show ?thesis
    using carried_bust_all [OF assms(1), of hs] 1 2 carried_trans by blast
qed

lemma carried_delete_promote:
  assumes "site_ok s" "delete_and_promote i fb s = Inr (promoted, s1)"
    "\<And>d. d \<in> set (st_domains s) \<Longrightarrow> sd_id d = i \<or> fb = Some (sd_id d) \<Longrightarrow> sd_host d \<in> set hs"
  shows "carried s (bust_all hs s1)"
proof -
  define s0 where "s0 = s\<lparr>st_domains := filter (\<lambda>d. sd_id d \<noteq> i) (st_domains s)\<rparr>"
  have del: "carried s (bust_all hs s0)"
    by (rule carried_delete [OF assms(1), of _ "\<lambda>d. sd_id d \<noteq> i"])
      (use assms(3) in \<open>auto simp: s0_def split: if_splits\<close>)
  show ?thesis
  proof (cases fb)
    case None
    then show ?thesis using assms(2) del by (simp add: delete_and_promote_def Let_def s0_def)
  next
    case (Some f)
    then obtain d1 where u: "update_domain f (set_primary_flag True) s0 = Inr (d1, s1)"
      using assms(2) by (auto simp: delete_and_promote_def Let_def s0_def)
    have "carried (bust_all hs s0) (bust_all hs s1)"
    proof (rule carried_update_busted [OF carried_ok [OF del] u])
      show "sd_host d1 \<in> set hs"
        using u assms(3) Some by (auto simp: update_domain_Inr s0_def dest!: find_domain_in)
    qed (use site_okD(4) [OF carried_ok [OF del]] in \<open>auto dest!: find_domain_in\<close>)
    then show ?thesis using carried_trans [OF del] by blast
  qed
qed

lemma carried_logged:
  assumes "carried s (bust_all hs s1)"
  shows "carried s (bust_all hs (site_audit ctx actor n i s1))"
    "carried s (bust_all hs (log_platform actor n i t why s1))"
  using carried_trans [OF assms carried_same_rows [OF carried_ok [OF assms]]]
  by (auto split: if_splits)

lemma carried_finish:
  assumes "site_ok s" "plan_ok s r" "finish_removal ctx actor r s = Inr (x, s')"
  shows "carried s s'"
proof -
  obtain promoted s1 where del: "delete_and_promote (sd_id (rm_domain r)) (rm_fallback r) s = Inr (promoted, s1)" and
    s': "s' = bust_all (rm_hosts r) (site_audit ctx actor ''store_domain.removed'' (sd_id (rm_domain r)) s1)"
    using assms(3) by (auto simp: finish_removal_def remove_tx_def)
  show ?thesis
    unfolding s' by (intro carried_logged carried_delete_promote [OF assms(1) del]) (use assms(2) in \<open>auto simp: plan_ok_def\<close>)
qed

lemma carried_finish_platform:
  assumes "site_ok s" "plan_ok s r" "finish_platform_removal actor why r s = Inr (x, s')"
  shows "carried s s'"
proof -
  obtain d promoted s1 where d: "find_domain (sd_id (rm_domain r)) (st_domains s) = Some d" and
    del: "delete_and_promote (sd_id d) (rm_fallback r) s = Inr (promoted, s1)" and
    s': "s' = bust_all (rm_hosts r) (log_platform actor ''platform.domain.removed'' (sd_id d) (Some (sd_tenant d)) why s1)"
    using assms(3) by (auto simp: finish_platform_removal_def)
  have "sd_id d = sd_id (rm_domain r)" using find_domain_in [OF d] by blast
  then show ?thesis
    unfolding s' by (intro carried_logged carried_delete_promote [OF assms(1) del]) (use assms(2) in \<open>auto simp: plan_ok_def\<close>)
qed

lemma transition_Inr:
  assumes "domains_ok (st_domains s)" "distinct (map sd_id (st_domains s))" "d \<in> set (st_domains s)"
    "domain_transition actor d to action why now s = Inr (d1, s1)"
  shows "\<exists>s0. update_domain (sd_id d) (set_domain_status to now) s = Inr (d1, s0) \<and>
    s1 = log_platform actor action (sd_id d) (Some (sd_tenant d)) why s0"
proof -
  have same: "x = d" if "x \<in> set (st_domains s)" "sd_id x = sd_id d" for x
    using distinct_key_inj [OF assms(2) that(1) assms(3)] that(2) by simp
  have rows: "update_rows (domain_hit (sd_id d) (sd_status d)) (set_domain_status to now) (st_domains s) =
      update_rows (\<lambda>x. sd_id x = sd_id d) (set_domain_status to now) (st_domains s)"
    using same unfolding update_rows_def domain_hit_def by (auto intro!: map_cong)
  have keep: "sd_host (set_domain_status to now x) = sd_host x" "sd_store (set_domain_status to now x) = sd_store x"
    "sd_primary (set_domain_status to now x) = sd_primary x" "sd_id (set_domain_status to now x) = sd_id x" for x
    by (simp_all add: set_domain_status_def)
  have "map sd_store (filter sd_primary (update_rows P (set_domain_status to now) ds)) = map sd_store (filter sd_primary ds)" for P ds
    by (induction ds) (auto simp: keep)
  then have ok: "domains_ok (update_rows (\<lambda>x. sd_id x = sd_id d) (set_domain_status to now) (st_domains s))"
    using assms(1) by (simp add: domains_ok_def map_update_rows keep)
  have "find_domain (sd_id d) (update_rows (\<lambda>x. sd_id x = sd_id d) (set_domain_status to now) (st_domains s)) =
      Some (set_domain_status to now d)"
    using find_domain_key [OF assms(2,3)] by (auto simp: find_domain_def find_key_update keep)
  then show ?thesis
    using assms(4) ok find_domain_key [OF assms(2,3)]
    by (auto simp: domain_transition_def rows Let_def update_domain_Inr)
qed

lemma load_custom_in: "load_custom_domain i s = Inr d \<Longrightarrow> d \<in> set (st_domains s) \<and> is_custom (sd_type d)"
  using load_custom_domain_Inr by blast

lemma carried_transition:
  assumes "site_ok s" "load_custom_domain i s = Inr d"
    "domain_transition actor d to action why now s = Inr (d1, s1)"
  shows "carried s (bust (sd_host d1) s1)"
proof -
  note in_d = load_custom_in [OF assms(2)]
  obtain s0 where u: "update_domain (sd_id d) (set_domain_status to now) s = Inr (d1, s0)"
    and s1: "s1 = log_platform actor action (sd_id d) (Some (sd_tenant d)) why s0"
    using transition_Inr [OF site_okD(1,2) [OF assms(1)] conjunct1 [OF in_d] assms(3)] by blast
  have this_row: "find_domain (sd_id d) (st_domains s) = Some d"
    using find_domain_key [OF site_okD(2) [OF assms(1)] conjunct1 [OF in_d]] .
  have "domain_wf (storefronts (st_market s)) (set_domain_status to now d)"
    using site_okD(4) [OF assms(1) conjunct1 [OF in_d]] in_d by (simp add: domain_wf_def set_domain_status_def)
  moreover have "st_cache s0 = st_cache s" using u by (auto simp: update_domain_Inr)
  ultimately show ?thesis
    using this_row s1
    by (intro carried_update_one [OF assms(1) u]) (auto simp: set_domain_status_def split: if_splits)
qed

lemma carried_revoke:
  assumes "site_ok s" "revoke_domain actor i why now s = Inr (v, s')"
  shows "carried s s'"
proof -
  obtain d d1 s1 where "load_custom_domain i s = Inr d"
    "domain_transition actor d DomainFailed ''platform.domain.revoked'' why now s = Inr (d1, s1)"
    and s': "s' = bust (sd_host d1) s1"
    using assms(2) by (auto simp: revoke_domain_def revoke_tx_def)
  then show ?thesis using carried_transition [OF assms(1)] by blast
qed

lemma carried_override:
  assumes "site_ok s" "override_domain actor i why now s = Inr (v, s')"
  shows "carried s s'"
proof -
  obtain d action d1 s1 where "load_custom_domain i s = Inr d"
    "domain_transition actor d DomainVerified action why now s = Inr (d1, s1)"
    and s': "s' = bust (sd_host d1) s1"
    using assms(2) by (auto simp: override_domain_def override_tx_def)
  then show ?thesis using carried_transition [OF assms(1)] by blast
qed

lemma carried_reverify:
  assumes "site_ok s" "reverify_domain env dns locked actor i why now s = Inr (v, s')"
  shows "carried s s'"
proof -
  obtain d f d1 s1 where d: "load_custom_domain i s = Inr d" and
    f: "f = verified_row now \<or> f = (\<lambda>d. d\<lparr>sd_checked_at := Some now\<rparr>)" and
    u: "update_domain (sd_id d) f s = Inr (d1, s1)" and
    s': "s' = bust (sd_host d1) (log_platform actor ''platform.domain.reverified'' (sd_id d) (Some (sd_tenant d)) why s1)"
    using assms(2) by (auto simp: reverify_domain_def reverify_tx_def Let_def split: if_splits)
  show ?thesis
    by (rule carried_update_one [OF assms(1) u])
      (use f u s' site_okD(4) [OF assms(1)] in \<open>auto simp: update_domain_Inr verified_row_wf dest!: find_domain_in split: if_splits\<close>)
qed

lemma carried_lookup:
  assumes "site_ok s"
  shows "carried s (snd (lookup_host h now s))"
proof (cases "cache_get h now s")
  case None
  have "cache_ok (snd (lookup_host h now s))"
    using site_okD(3) [OF assms] None unfolding cache_ok_def
    by (auto simp: lookup_host_def cache_set_def Let_def unlinked_read split: if_splits)
  then show ?thesis
    using site_okD(1,2,4,5) [OF assms] None
    by (auto simp: carried_def lookup_host_def cache_set_def fresh_id_def Let_def)
qed (simp add: lookup_host_def carried_refl [OF assms])

lemma carried_provision:
  assumes "site_ok s" "sf \<in> set (storefronts (st_market s))" "st_cache s = (\<lambda>_. None)"
    "ensure_platform_subdomain platform (sf_id sf) (sf_tenant sf) slug now s = Inr (x, s')"
  shows "carried s s' \<and> st_cache s' = (\<lambda>_. None)"
proof (cases "s' = s")
  case False
  obtain host where host: "derive_platform_subdomain slug (the platform) = Some host"
    "find_host host (st_domains s) = None"
    using assms(4) False by (auto simp: ensure_platform_subdomain_def Let_def split: if_splits option.splits)
  define d where "d = \<lparr>sd_id = fresh_id s, sd_store = sf_id sf, sd_tenant = sf_tenant sf, sd_host = host,
                       sd_primary = (primary_host_of (sf_id sf) (st_domains s) = None),
                       sd_status = DomainVerified, sd_token = None, sd_verified_at = Some now,
                       sd_type = Some PlatformSubdomain, sd_method = None, sd_checked_at = None,
                       sd_tls = None, sd_created = now\<rparr>"
  have s': "domains_ok (st_domains s @ [d])"
     "s' = s\<lparr>st_domains := st_domains s @ [d], st_market := take_ids 1 (st_market s)\<rparr>"
    using assms(4) False host by (auto simp: ensure_platform_subdomain_def Let_def insert_domain_Inr d_def split: if_splits)
  have "normalise_host False (Some host) = Some host"
    using host(1) by (auto simp: derive_platform_subdomain_def intro: normalise_host_idem)
  then have "domain_wf (storefronts (st_market s)) d"
    using assms(2) by (auto simp: domain_wf_def d_def is_custom_def)
  then have "carried s s'"
    by (intro carried_insert [OF assms(1), of s' d])
      (use s' assms(3) in \<open>simp_all add: d_def fresh_id_def\<close>)
  then show ?thesis using s' assms(3) by simp
qed (use assms carried_refl in auto)

section \<open>Everything a history keeps\<close>

lemma new_plan_ok:
  assumes "site_ok s" "d \<in> set (st_domains s)" "removal_of msg d s = Inr r"
  shows "plan_ok s r"
proof -
  have r: "rm_domain r = d" "rm_hosts r = store_hostnames (sd_store d) s"
      "rm_fallback r = map_option sd_id (fallback_primary d s)"
    using assms(3) by (auto simp: removal_of_def Let_def)
  have f: "x \<in> set (st_domains s) \<and> sd_store x = sd_store d" if "fallback_primary d s = Some x" for x
    using that by (auto simp: fallback_primary_def dest: find_SomeD split: if_splits)
  have host: "sd_host x \<in> set (rm_hosts r)" if "x \<in> set (st_domains s)" "sd_id x = sd_id y"
      "y \<in> set (st_domains s)" "sd_store y = sd_store d" for x y
  proof -
    have "x = y" using distinct_key_inj [OF site_okD(2) [OF assms(1)] that(1,3,2)] .
    then show ?thesis using that by (auto simp: r store_hostnames_def)
  qed
  show ?thesis
    unfolding plan_ok_def
    using f host host [OF _ sym] assms(2) site_okD(5) [OF assms(1)] by (auto simp: r(1,3))
qed

lemma plan_removal_ok: "site_ok s \<Longrightarrow> plan_removal ctx i s = Inr r \<Longrightarrow> plan_ok s r"
  by (auto simp: plan_removal_def intro: new_plan_ok dest!: load_own_domain_Inr)

lemma plan_platform_removal_ok: "site_ok s \<Longrightarrow> plan_platform_removal i s = Inr r \<Longrightarrow> plan_ok s r"
  by (auto simp: plan_platform_removal_def intro: new_plan_ok dest!: load_custom_in)

lemma site_start_ok: "site_start env s \<Longrightarrow> site_ok s \<and> st_cache s = (\<lambda>_. None)"
proof (induction rule: site_start.induct)
  case (empty s)
  then show ?case by (simp add: site_ok_def domains_ok_def cache_ok_def)
next
  case (provision s sf slug now x s')
  then show ?case using carried_provision carried_ok by blast
qed

lemma merchant_step_carried:
  assumes "merchant_step env x y" "site_ok (snd x)" "\<And>r. r \<in> set (fst x) \<Longrightarrow> plan_ok (snd x) r"
  shows "carried (snd x) (snd y) \<and> (\<forall>r \<in> set (fst y). plan_ok (snd x) r)"
  using assms
proof (cases rule: merchant_step.cases)
  case (add p s ctx actor raw how tok now)
  then show ?thesis using assms by (auto intro!: run_tx_carried intro: carried_add)
next
  case (verify p s dns ho locked ctx actor i now)
  then show ?thesis using assms by (auto intro: carried_verify)
next
  case (attach p s ho d)
  then show ?thesis using assms by (auto intro: carried_attach)
next
  case (primary p s ctx actor i)
  then show ?thesis using assms by (auto intro!: run_tx_carried intro: carried_primary)
next
  case (plan ctx i s r p)
  then show ?thesis using assms by (auto intro: carried_refl plan_removal_ok)
next
  case (finish r p ctx actor s)
  then show ?thesis using assms by (auto intro!: run_tx_carried intro: carried_finish)
next
  case (tls p s ho ctx actor i)
  then show ?thesis using assms by (auto intro!: run_tx_carried intro: carried_tls)
next
  case (lookup p s h now)
  then show ?thesis using assms by (auto intro: carried_lookup)
next
  case (world s s' p)
  then show ?thesis using assms by (auto simp: world_moves_def intro!: carried_same_rows)
qed

lemma platform_step_carried:
  assumes "platform_step env x y" "site_ok (snd x)" "\<And>r. r \<in> set (fst x) \<Longrightarrow> plan_ok (snd x) r"
  shows "carried (snd x) (snd y) \<and> (\<forall>r \<in> set (fst y). plan_ok (snd x) r)"
  using assms
proof (cases rule: platform_step.cases)
  case (revoke p s actor i why now)
  then show ?thesis using assms by (auto intro!: run_tx_carried intro: carried_revoke)
next
  case (override p s actor i why now)
  then show ?thesis using assms by (auto intro!: run_tx_carried intro: carried_override)
next
  case (reverify p s dns locked actor i why now)
  then show ?thesis using assms by (auto intro!: run_tx_carried intro: carried_reverify)
next
  case (plan i s r p)
  then show ?thesis using assms by (auto intro: carried_refl plan_platform_removal_ok)
next
  case (finish r p actor why s)
  then show ?thesis using assms by (auto intro!: run_tx_carried intro: carried_finish_platform)
qed

lemma site_reachable_ok:
  "site_reachable env x \<Longrightarrow> site_ok (snd x) \<and> (\<forall>r \<in> set (fst x). plan_ok (snd x) r)"
proof (induction rule: site_reachable.induct)
  case (start s)
  then show ?case using site_start_ok by auto
next
  case (step x y)
  then have "carried (snd x) (snd y) \<and> (\<forall>r \<in> set (fst y). plan_ok (snd x) r)"
    using merchant_step_carried platform_step_carried unfolding site_step_def by blast
  then show ?case using carried_ok carried_plan by blast
qed

end
