(* ===== verification/DomainProperties.thy ===== *)
theory DomainProperties
  imports SiteReach
begin

text \<open>
  What the storefront side promises over every history of its tables and its cache: rows are well
  formed, a name is answered from its current row, a revoked domain stays revoked, the predicate
  that admits origins agrees with the resolver - and where the promises end.
\<close>

section \<open>A concrete site\<close>

definition sample_commerce :: market where
  "sample_commerce =
     \<lparr>mk_shop = \<lparr>orders = [], order_items = [], attempts = [], refunds = [], histories = [], outbox = [],
        audits = [], webhooks = [], user_email = (\<lambda>_. None), memberships = (\<lambda>_ _. None),
        order_counter = None, next_id = 100\<rparr>, categories = [], products = [], variants = [],
      custom_fields = [], images = [], uploads = [], carts = [], cart_items = [], cart_customs = [],
      coupons = [], coupon_usages = [], usages = [],
      billing = \<lparr>subs = [], sub_events = [], plans = [], bd_idem = [], bd_next = 10\<rparr>,
      entitle = \<lparr>cat_features = [], cat_limits = [], cat_overrides = []\<rparr>,
      storefronts = [\<lparr>sf_id = 5, sf_tenant = 1, sf_primary = True\<rparr>],
      tenant_status_of = (\<lambda>_. Some TenantActive),
      store_settings = (\<lambda>_ _. None), tenant_settings = (\<lambda>_ _. None)\<rparr>"

definition sample_empty_site :: site where
  "sample_empty_site =
     \<lparr>st_market = sample_commerce, st_domains = [], st_failures = [], st_platform_log = [],
      st_cache = (\<lambda>_. None), st_store_status = (\<lambda>_. Some StoreActive),
      st_store_tenant = (\<lambda>_. Some 1), st_latest_tenant = Some 1\<rparr>"

definition sample_domain_env :: domain_env where
  "sample_domain_env =
     \<lparr>de_platform = Some ''pf.store'', de_reserved = [], de_target = None, de_loopback = False\<rparr>"

definition sample_dns :: node_resolver where
  "sample_dns = \<lparr>nr_txt = (\<lambda>_. NodeRecords [[''token'']]), nr_cname = (\<lambda>_. NodeCode ''ENODATA'')\<rparr>"

definition sample_hosting :: hosting where
  "sample_hosting =
     \<lparr>ho_add = (\<lambda>_. Reported \<lparr>hs_configured = True, hs_certificate = CertIssued, hs_target = None\<rparr>),
      ho_status = (\<lambda>_. Reported \<lparr>hs_configured = True, hs_certificate = CertIssued, hs_target = None\<rparr>),
      ho_remove = (\<lambda>_. Reported ())\<rparr>"

definition sample_merchant :: tenant_context where
  "sample_merchant = \<lparr>tc_tenant = 1, tc_session = None\<rparr>"

text \<open>A store with its platform subdomain; then a custom domain added (102), verified, revoked.\<close>

definition sample_provisioned :: site where
  "sample_provisioned =
     snd (run_tx (ensure_platform_subdomain (Some ''pf.store'') 5 1 ''mug'' 0) sample_empty_site)"

definition sample_added :: site where
  "sample_added =
     snd (run_tx (add_domain sample_domain_env sample_merchant 9 ''mug.com'' DnsTxt ''token'' 1) sample_provisioned)"

definition sample_verified :: site where
  "sample_verified =
     snd (verify_domain sample_domain_env sample_dns sample_hosting True sample_merchant 9 101 2 sample_added)"

definition sample_revoked :: site where
  "sample_revoked = snd (run_tx (revoke_domain 7 101 ''abuse'' 3) sample_verified)"

lemma sample_provision_result:
  "ensure_platform_subdomain (Some ''pf.store'') 5 1 ''mug'' 0 sample_empty_site =
     Inr (SubdomainCreated ''mug.pf.store'' 100, sample_provisioned)"
proof -
  have "fst (run_tx (ensure_platform_subdomain (Some ''pf.store'') 5 1 ''mug'' 0) sample_empty_site) =
      Inr (SubdomainCreated ''mug.pf.store'' 100)" by code_simp
  then show ?thesis by (auto simp: sample_provisioned_def run_tx_def split: sum.splits)
qed

lemma sample_reachable:
  "site_reachable sample_domain_env ([], sample_provisioned)"
  "site_reachable sample_domain_env ([], sample_added)"
  "site_reachable sample_domain_env ([], sample_verified)"
  "site_reachable sample_domain_env ([], sample_revoked)"
proof -
  have "site_start sample_domain_env sample_empty_site"
    by (rule site_start.empty) (simp_all add: sample_empty_site_def)
  then have "site_start sample_domain_env sample_provisioned"
    using site_start.provision [of sample_domain_env sample_empty_site "\<lparr>sf_id = 5, sf_tenant = 1, sf_primary = True\<rparr>"
        "''mug''" 0] sample_provision_result
    by (simp add: sample_empty_site_def sample_commerce_def sample_domain_env_def)
  then show p: "site_reachable sample_domain_env ([], sample_provisioned)" by (rule site_reachable.start)
  show a: "site_reachable sample_domain_env ([], sample_added)"
    by (rule site_reachable.step [OF p]) (simp add: site_step_def sample_added_def merchant_step.add)
  show v: "site_reachable sample_domain_env ([], sample_verified)"
    by (rule site_reachable.step [OF a]) (simp add: site_step_def sample_verified_def merchant_step.verify)
  show "site_reachable sample_domain_env ([], sample_revoked)"
    by (rule site_reachable.step [OF v]) (simp add: site_step_def sample_revoked_def platform_step.revoke)
qed

lemma sample_rows:
  "map (\<lambda>d. (sd_id d, sd_host d, sd_status d, sd_primary d)) (st_domains sample_revoked) =
     [(100, ''mug.pf.store'', DomainVerified, True), (101, ''mug.com'', DomainFailed, False)]"
  "map (\<lambda>d. (sd_id d, sd_host d, sd_status d, sd_primary d)) (st_domains sample_verified) =
     [(100, ''mug.pf.store'', DomainVerified, True), (101, ''mug.com'', DomainVerified, False)]"
  by code_simp+

section \<open>Rows and resolution\<close>

text \<open>
  C13. Every domain row a history produces is well formed: its name is in normal form, its store
  belongs to its tenant, a VERIFIED row has its time of verification, a custom row a token and a
  method, and a platform subdomain is always VERIFIED; identifiers and names are unique and a
  store has at most one primary domain - although removals are finished long after they were planned.
\<close>

theorem domain_rows_well_formed:
  assumes "site_reachable env (planned, s)"
  shows "distinct (map sd_id (st_domains s)) \<and> distinct (map sd_host (st_domains s)) \<and>
    distinct (map sd_store (filter sd_primary (st_domains s))) \<and>
    list_all (domain_wf (storefronts (st_market s))) (st_domains s)"
  using site_reachable_ok [OF assms] by (simp add: site_ok_def domains_ok_def list_all_iff)

theorem domain_rows_well_formed_witness:
  "list_all (domain_wf (storefronts (st_market sample_revoked))) (st_domains sample_revoked) \<and>
   length (st_domains sample_revoked) = 2"
  using domain_rows_well_formed [OF sample_reachable(4)] arg_cong [OF sample_rows(1), of length] by simp

lemma lookup_bare:
  assumes "site_ok s" "lookup_host h now s = (row, s1)"
  shows "map_option unlinked row = bare_row h (st_domains s)"
  using assms(2) cache_okD [OF site_okD(3) [OF assms(1)], of h row]
  by (auto simp: lookup_host_def cache_get_def unlinked_read Let_def split: option.splits if_splits bind_splits)

lemma lookup_frames:
  assumes "lookup_host h now s = (row, s1)"
  shows "st_domains s1 = st_domains s" "st_market s1 = st_market s" "st_store_status s1 = st_store_status s"
  using assms by (auto simp: lookup_host_def cache_set_def Let_def split: option.splits)

lemma bare_row_Some:
  assumes "map_option unlinked (Some r) = bare_row h ds"
  obtains d where "d \<in> set ds" "sd_host d = h" "lr_id r = sd_id d" "lr_store r = sd_store d"
    "lr_tenant r = sd_tenant d" "lr_type r = sd_type d" "lr_status r = sd_status d" "lr_tls r = sd_tls d"
proof -
  obtain d where d: "find_host h ds = Some d" "unlinked r = lookup_row_of [] d"
    using assms by (cases "find_host h ds") (auto simp: bare_row_def)
  then have "lr_id r = sd_id d" "lr_store r = sd_store d" "lr_tenant r = sd_tenant d" "lr_type r = sd_type d"
    "lr_status r = sd_status d" "lr_tls r = sd_tls d"
    by (cases r; simp add: unlinked_def lookup_row_of_def)+
  then show ?thesis using that find_host_in [OF d(1)] by blast
qed



section \<open>Revocation\<close>

lemma find_host_row:
  assumes "site_ok s" "d \<in> set (st_domains s)"
  shows "find_host (sd_host d) (st_domains s) = Some d"
  using site_okD(1) [OF assms(1)] assms(2) by (simp add: find_host_def domains_ok_def find_key)

lemma unserved_not_found:
  assumes "site_ok s" "d \<in> set (st_domains s)" "is_custom (sd_type d)" "sd_status d \<noteq> DomainVerified"
  shows "fst (resolve_host (sd_host d) sch now s) = Inl store_not_found"
proof -
  obtain row s1 where l: "lookup_host (sd_host d) now s = (row, s1)" by (cases "lookup_host (sd_host d) now s")
  obtain r where r: "row = Some r" "unlinked r = lookup_row_of [] d"
    using lookup_bare [OF assms(1) l] find_host_row [OF assms(1,2)] by (cases row) (auto simp: bare_row_def)
  have "lr_type r = sd_type d" "lr_status r = sd_status d"
    using r(2) by (cases r; simp add: unlinked_def lookup_row_of_def)+
  then show ?thesis
    using assms(3,4) l r(1) by (auto simp: resolve_host_def row_served_def require_def or_throw_def)
qed

definition sticky :: "site \<Rightarrow> site \<Rightarrow> bool" where
  "sticky s s' \<longleftrightarrow> fresh_id s \<le> fresh_id s' \<and>
     (\<forall>d' \<in> set (st_domains s'). sd_id d' < fresh_id s \<longrightarrow>
        (\<exists>d \<in> set (st_domains s). sd_id d = sd_id d' \<and> (sd_status d = DomainFailed \<longrightarrow> sd_status d' = DomainFailed)))"

lemma sticky_same: "st_domains s' = st_domains s \<Longrightarrow> fresh_id s \<le> fresh_id s' \<Longrightarrow> sticky s s'"
  by (auto simp: sticky_def)

lemma sticky_trans:
  assumes "sticky s s1" "sticky s1 s2"
  shows "sticky s s2"
proof -
  have "\<exists>d \<in> set (st_domains s). sd_id d = sd_id d2 \<and> (sd_status d = DomainFailed \<longrightarrow> sd_status d2 = DomainFailed)"
    if d2: "d2 \<in> set (st_domains s2)" "sd_id d2 < fresh_id s" for d2
  proof -
    obtain d1 where "d1 \<in> set (st_domains s1)" "sd_id d1 = sd_id d2"
      "sd_status d1 = DomainFailed \<longrightarrow> sd_status d2 = DomainFailed"
      using assms d2 unfolding sticky_def by fastforce
    moreover from this obtain d where "d \<in> set (st_domains s)" "sd_id d = sd_id d1"
      "sd_status d = DomainFailed \<longrightarrow> sd_status d1 = DomainFailed"
      using assms(1) d2(2) unfolding sticky_def by fastforce
    ultimately show ?thesis by metis
  qed
  then show ?thesis using assms unfolding sticky_def by simp
qed

lemma sticky_update:
  assumes "update_domain i f s = Inr (d1, s1)" "\<And>d. sd_id (f d) = sd_id d"
    "\<And>d. d \<in> set (st_domains s) \<Longrightarrow> sd_id d = i \<Longrightarrow> sd_status d = DomainFailed \<Longrightarrow> sd_status (f d) = DomainFailed"
    "st_domains s' = st_domains s1" "fresh_id s' = fresh_id s1"
  shows "sticky s s'"
proof -
  have s1: "st_domains s1 = update_rows (\<lambda>d. sd_id d = i) f (st_domains s)" "fresh_id s1 = fresh_id s"
    using assms(1) by (auto simp: update_domain_Inr)
  have "\<exists>d \<in> set (st_domains s). sd_id d = sd_id d' \<and> (sd_status d = DomainFailed \<longrightarrow> sd_status d' = DomainFailed)"
    if "d' \<in> set (st_domains s')" for d'
  proof -
    have "d' \<in> set (update_rows (\<lambda>d. sd_id d = i) f (st_domains s))" using that assms(4) s1(1) by simp
    from update_rows_from [OF this]
    obtain d where "d \<in> set (st_domains s)" "d' = (if sd_id d = i then f d else d)" by blast
    then show ?thesis using assms(2,3) by (intro bexI [of _ d]) auto
  qed
  then show ?thesis using assms(5) s1(2) by (simp add: sticky_def)
qed

lemma sticky_run_tx: "(\<And>x s'. f s = Inr (x, s') \<Longrightarrow> sticky s s') \<Longrightarrow> sticky s (snd (run_tx f s))"
  by (auto simp: run_tx_def sticky_same split: sum.split)

lemma sticky_add: "add_domain env ctx actor raw method token now s = Inr (v, s') \<Longrightarrow> sticky s s'"
  by (auto simp: add_domain_def add_domain_tx_def insert_domain_Inr new_domain_def sticky_def fresh_id_def Let_def)

lemma sticky_verify_tx:
  assumes "distinct (map sd_id (st_domains s))" "verify_tx env dns locked ctx actor i now s = Inr (v, s')"
  shows "sticky s s'"
proof -
  obtain d where d: "load_own_domain (tc_tenant ctx) i s = Inr d"
    using assms(2) by (auto simp: verify_tx_def)
  then have in_d: "d \<in> set (st_domains s)" by (auto dest: load_own_domain_Inr)
  have same: "x = d" if "x \<in> set (st_domains s)" "sd_id x = sd_id d" for x
    using distinct_key_inj [OF assms(1) that(1) in_d that(2)] .
  show ?thesis
  proof (cases "sd_status d")
    case DomainPending
    show ?thesis
    proof (cases "check_domain (de_target env) dns d")
      case None
      then obtain d1 s1 where "update_domain (sd_id d) (verified_row now) s = Inr (d1, s1)"
        "s' = site_audit ctx actor ''store_domain.verified'' (sd_id d) s1"
        using assms(2) d DomainPending by (auto simp: verify_tx_def)
      then show ?thesis using DomainPending by (auto intro!: sticky_update dest: same)
    next
      case (Some r)
      then obtain d1 s1 where "update_domain (sd_id d) (\<lambda>d. d\<lparr>sd_checked_at := Some now\<rparr>) s = Inr (d1, s1)"
        "s' = remember_failure (tc_tenant ctx) (sd_id d) r now
           (site_audit ctx actor ''store_domain.verification_failed'' (sd_id d) s1)"
        using assms(2) d DomainPending by (auto simp: verify_tx_def)
      then show ?thesis by (auto intro!: sticky_update)
    qed
  qed (use assms(2) d in \<open>auto simp: verify_tx_def intro!: sticky_same\<close>)
qed

lemma sticky_attach: "sticky s (snd (attach_to_hosting ho d s))"
proof (cases "tls_from (ho_add ho (sd_host d))")
  case (Inr tls)
  have "sticky s (bust h s1)"
    if "update_domain (sd_id d) (\<lambda>d. d\<lparr>sd_tls := Some tls\<rparr>) s = Inr (d1, s1)" for h d1 s1
    by (rule sticky_update [OF that]) simp_all
  then show ?thesis
    using Inr by (auto simp: attach_to_hosting_def run_tx_def sticky_same split: sum.split)
qed (simp add: attach_to_hosting_def sticky_same)

lemma sticky_verify:
  assumes "distinct (map sd_id (st_domains s))"
  shows "sticky s (snd (verify_domain env dns ho locked ctx actor i now s))"
proof (cases "verify_tx env dns locked ctx actor i now s")
  case (Inr p)
  then obtain v s1 where tx: "verify_tx env dns locked ctx actor i now s = Inr (v, s1)" by (cases p) auto
  have 1: "sticky s (bust h s1)" "sticky s s1" for h
    using sticky_trans [OF sticky_verify_tx [OF assms tx] sticky_same] sticky_verify_tx [OF assms tx] by auto
  have "sticky s (snd (attach_to_hosting ho (vo_domain v) (bust h s1)))" for h
    by (rule sticky_trans [OF 1(1) sticky_attach])
  then show ?thesis
    using 1 tx by (auto simp: verify_domain_def run_tx_def Let_def split: prod.splits if_splits) (metis snd_conv)+
qed (simp add: verify_domain_def run_tx_def sticky_same)

lemma sticky_primary:
  assumes "set_primary ctx actor i s = Inr (v, s')"
  shows "sticky s s'"
proof -
  obtain d :: store_domain and s1 d2 s2 where
    first: "(case List.find (\<lambda>p. sd_store p = sd_store d \<and> sd_primary p) (st_domains s) of
       None \<Rightarrow> Inr s | Some p \<Rightarrow> map_sum id snd (update_domain (sd_id p) (set_primary_flag False) s)) = Inr s1" and
    second: "update_domain (sd_id d) (set_primary_flag True) s1 = Inr (d2, s2)" and
    s': "s' = bust_all (store_hostnames (sd_store d) s2) (site_audit ctx actor ''store_domain.primary_changed'' (sd_id d) s2)"
    using assms by (fastforce simp: set_primary_def set_primary_tx_def Let_def store_hostnames_def)
  have "sticky s s1"
    using first by (auto simp: sticky_same set_primary_flag_def split: option.splits sum.splits elim!: sticky_update)
  moreover have "sticky s1 s'"
    by (rule sticky_update [OF second]) (simp_all add: s' set_primary_flag_def)
  ultimately show ?thesis by (rule sticky_trans)
qed

lemma sticky_finish:
  assumes "finish_removal ctx actor r s = Inr (x, s')"
  shows "sticky s s'"
proof -
  define s0 where "s0 = s\<lparr>st_domains := filter (\<lambda>d. sd_id d \<noteq> sd_id (rm_domain r)) (st_domains s)\<rparr>"
  obtain promoted s1 where del: "delete_and_promote (sd_id (rm_domain r)) (rm_fallback r) s = Inr (promoted, s1)" and
    s': "s' = bust_all (rm_hosts r) (site_audit ctx actor ''store_domain.removed'' (sd_id (rm_domain r)) s1)"
    using assms by (auto simp: finish_removal_def remove_tx_def)
  have "sticky s s0" by (auto simp: sticky_def s0_def)
  moreover have "sticky s0 s'"
  proof (cases "rm_fallback r")
    case None
    then show ?thesis using del s' by (auto simp: delete_and_promote_def Let_def s0_def intro: sticky_same)
  next
    case (Some f)
    then obtain d1 where "update_domain f (set_primary_flag True) s0 = Inr (d1, s1)"
      using del by (auto simp: delete_and_promote_def Let_def s0_def)
    then show ?thesis by (rule sticky_update) (simp_all add: s' set_primary_flag_def)
  qed
  ultimately show ?thesis by (rule sticky_trans)
qed

lemma sticky_tls:
  assumes "refresh_tls ho ctx actor i s = Inr (v, s')"
  shows "sticky s s'"
proof -
  obtain d :: store_domain and tls d1 s2 where
    w: "write_tls_status ctx actor (sd_id d) tls ''store_domain.tls_refreshed'' s = Inr (d1, s2)" and
    s': "s' = bust (sd_host d1) s2"
    using assms by (auto simp: refresh_tls_def)
  from w obtain s1 where u: "update_domain (sd_id d) (\<lambda>d. d\<lparr>sd_tls := Some tls\<rparr>) s = Inr (d1, s1)"
    and s2: "s2 = site_audit ctx actor ''store_domain.tls_refreshed'' (sd_id d) s1"
    by (auto simp: write_tls_status_def)
  show ?thesis by (rule sticky_update [OF u]) (simp_all add: s' s2)
qed

lemma merchant_step_sticky:
  assumes "merchant_step env x y" "distinct (map sd_id (st_domains (snd x)))"
  shows "sticky (snd x) (snd y)"
  using assms
proof (cases rule: merchant_step.cases)
  case (lookup p s h now)
  then show ?thesis
    by (auto simp: lookup_host_def cache_set_def fresh_id_def Let_def intro!: sticky_same split: option.split)
qed (auto simp: world_moves_def intro!: sticky_run_tx sticky_verify sticky_attach intro: sticky_same sticky_add
  sticky_primary sticky_finish sticky_tls)



lemma domains_ok_filter: "domains_ok ds \<Longrightarrow> domains_ok (filter P ds)"
  by (auto simp: domains_ok_def distinct_map inj_on_def)

lemma remove_non_primary:
  assumes "site_ok s" "d \<in> set (st_domains s)" "is_custom (sd_type d)" "\<not> sd_primary d"
    "tc_tenant ctx = sd_tenant d" "ho_remove ho (sd_host d) = Reported ()"
  shows "\<exists>s1. remove_domain ho ctx actor (sd_id d) s = Inr ((sd_host d, None), s1) \<and>
    st_domains s1 = filter (\<lambda>x. sd_id x \<noteq> sd_id d) (st_domains s) \<and>
    storefronts (st_market s1) = storefronts (st_market s) \<and> fresh_id s1 = fresh_id s"
proof -
  have own: "load_own_domain (tc_tenant ctx) (sd_id d) s = Inr d"
    using find_key_cond [OF site_okD(2) [OF assms(1)] assms(2), of "\<lambda>x. sd_tenant x = tc_tenant ctx"] assms(5)
    by (simp add: load_own_domain_def or_throw_def)
  show ?thesis
    using own assms(3,4,6)
    by (simp add: remove_domain_def plan_removal_def assert_custom_def require_def removal_of_def fallback_primary_def
        release_name_def finish_removal_def remove_tx_def delete_and_promote_def unique_to_conflict_def Let_def)
qed

lemma update_domain_works:
  assumes "domains_ok (st_domains s)" "find_domain i (st_domains s) = Some d"
    "\<And>d. sd_id (f d) = sd_id d" "\<And>d. sd_host (f d) = sd_host d" "\<And>d. sd_store (f d) = sd_store d"
    "\<And>d. sd_primary (f d) = sd_primary d"
  shows "\<exists>s1. update_domain i f s = Inr (f d, s1) \<and> domains_ok (st_domains s1) \<and> find_domain i (st_domains s1) = Some (f d)"
proof -
  have "map sd_store (filter sd_primary (update_rows P f ds)) = map sd_store (filter sd_primary ds)" for P ds
    by (induction ds) (auto simp: assms(3-6))
  then have "domains_ok (update_rows (\<lambda>d. sd_id d = i) f (st_domains s))"
    using assms(1,4) by (simp add: domains_ok_def map_update_rows)
  moreover have "find_domain i (update_rows (\<lambda>d. sd_id d = i) f (st_domains s)) = Some (f d)"
    using assms(2,3) find_domain_in [OF assms(2)] by (simp add: find_domain_def find_key_update)
  ultimately show ?thesis
    using assms(2) by (simp add: update_domain_Inr)
qed

lemma attach_works:
  assumes "domains_ok (st_domains s)" "find_domain (sd_id d) (st_domains s) = Some d" "ho_add ho (sd_host d) = Reported h"
  shows "\<exists>d1 s1. attach_to_hosting ho d s = (Inr d1, s1) \<and> sd_status d1 = sd_status d \<and> sd_host d1 = sd_host d"
proof -
  obtain s1 where "update_domain (sd_id d) (\<lambda>d. d\<lparr>sd_tls := Some (map_certificate h)\<rparr>) s =
      Inr (d\<lparr>sd_tls := Some (map_certificate h)\<rparr>, s1)"
    using update_domain_works [OF assms(1,2), of "\<lambda>d. d\<lparr>sd_tls := Some (map_certificate h)\<rparr>"] by auto
  then show ?thesis using assms(3) by (simp add: attach_to_hosting_def tls_from_def run_tx_def)
qed

lemma verify_works:
  assumes "domains_ok (st_domains s)" "distinct (map sd_id (st_domains s))" "find_domain i (st_domains s) = Some n"
    "check_domain (de_target env) dns n = None" "sd_type n = Some CustomHost" "sd_status n = DomainPending"
    "sd_tenant n = tc_tenant ctx" "sd_host n = host" "ho_add ho host = Reported h"
  shows "\<exists>w s3. verify_domain env dns ho True ctx actor i now s = (Inr w, s3) \<and> vv_status w = DomainVerified \<and>
    dv_host (vv_domain w) = host"
proof -
  have n: "n \<in> set (st_domains s)" "sd_id n = i" using find_domain_in [OF assms(3)] by auto
  have own: "load_own_domain (tc_tenant ctx) i s = Inr n"
    using find_key_cond [OF assms(2) n(1), of "\<lambda>x. sd_tenant x = tc_tenant ctx"] assms(7) n(2)
    by (simp add: load_own_domain_def)
  obtain s1 where u: "update_domain i (verified_row now) s = Inr (verified_row now n, s1)"
    "domains_ok (st_domains s1)" "find_domain i (st_domains s1) = Some (verified_row now n)"
    using update_domain_works [OF assms(1,3), of "verified_row now"] by (auto simp: verified_row_def)
  define s2 where "s2 = site_audit ctx actor ''store_domain.verified'' i s1"
  have tx: "verify_tx env dns True ctx actor i now s =
      Inr (\<lparr>vo_domain = verified_row now n, vo_reason = None, vo_refused = False\<rparr>, s2)"
    using own u assms(4-6) n(2) by (simp add: verify_tx_def s2_def require_def)
  obtain d4 s4 where "attach_to_hosting ho (verified_row now n) (bust host s2) = (Inr d4, s4)"
    "sd_status d4 = DomainVerified" "sd_host d4 = host"
    using attach_works [of "bust host s2" "verified_row now n" ho h] u(2,3) n(2) assms(8,9)
    by (auto simp: s2_def verified_row_def)
  then show ?thesis
    using tx assms(8) by (simp add: verify_domain_def run_tx_def verify_view_of_def to_domain_view_def verified_row_def)
qed

lemma add_free_name:
  assumes "validate_new_hostname env host = Inr host" "primary_store_id_of (tc_tenant ctx) (st_market s) = Inr store"
    "domains_ok (st_domains s)" "distinct (map sd_id (st_domains s))" "\<And>x. x \<in> set (st_domains s) \<Longrightarrow> sd_id x < fresh_id s"
    "method = DnsTxt" "\<And>x. x \<in> set (st_domains s) \<Longrightarrow> sd_host x \<noteq> host"
  shows "\<exists>v s' n. add_domain env ctx actor host method token now s = Inr (v, s') \<and> dv_id (av_domain v) = sd_id n \<and>
    sd_type n = Some CustomHost \<and> sd_status n = DomainPending \<and> sd_tenant n = tc_tenant ctx \<and> sd_host n = host \<and>
    sd_method n = Some method \<and> sd_token n = Some token \<and>
    find_domain (sd_id n) (st_domains s') = Some n \<and> domains_ok (st_domains s') \<and> distinct (map sd_id (st_domains s'))"
proof -
  define n where "n = new_domain store (tc_tenant ctx) host method token now (fresh_id s)"
  have n: "sd_id n = fresh_id s" "sd_host n = host" "\<not> sd_primary n" by (simp_all add: n_def new_domain_def)
  have free: "host \<notin> sd_host ` set (st_domains s)" using assms(7) by fastforce
  have ok: "domains_ok (st_domains s @ [n])" using assms(3) free n by (simp add: domains_ok_def)
  have ids: "distinct (map sd_id (st_domains s @ [n]))" using assms(4,5) n(1) by fastforce
  obtain v s' where add: "add_domain env ctx actor host method token now s = Inr (v, s')"
    "dv_id (av_domain v) = fresh_id s" "st_domains s' = st_domains s @ [n]"
    using assms(1,2,6) ok
    by (auto simp: add_domain_def add_domain_tx_def insert_domain_def write_domains_def require_def
        unique_to_conflict_def n_def to_domain_view_def Let_def) (simp add: new_domain_def)
  moreover have "find_domain (sd_id n) (st_domains s') = Some n"
    using find_domain_key [OF ids, of n] add(3) by simp
  moreover have "sd_type n = Some CustomHost" "sd_status n = DomainPending" "sd_tenant n = tc_tenant ctx"
      "sd_method n = Some method" "sd_token n = Some token"
    by (simp_all add: n_def new_domain_def)
  ultimately show ?thesis using ok ids n(1,2) by (intro exI [of _ v] exI [of _ s'] exI [of _ n]) simp
qed

text \<open>
  The way around it: a merchant removes the revoked domain, adds the same name again and proves
  control of its DNS, and the name is VERIFIED without the platform - whenever the row is not the
  primary one and the name may be added at all.
\<close>

theorem revoked_host_returns:
  assumes "site_reachable env (planned, s)" "d \<in> set (st_domains s)" "is_custom (sd_type d)"
    "sd_status d = DomainFailed" "\<not> sd_primary d" "tc_tenant ctx = sd_tenant d"
    "validate_new_hostname env (sd_host d) = Inr (sd_host d)"
    "primary_store_id_of (tc_tenant ctx) (st_market s) = Inr store"
    "ho_remove ho (sd_host d) = Reported ()" "ho_add ho (sd_host d) = Reported h"
    "nr_txt dns (txt_record_name (sd_host d)) = NodeRecords [[token]]" "js_trim token = token"
  shows "\<exists>x s1 v s2 w s3. remove_domain ho ctx actor (sd_id d) s = Inr (x, s1) \<and>
    add_domain env ctx actor (sd_host d) DnsTxt token now s1 = Inr (v, s2) \<and>
    verify_domain env dns ho True ctx actor (dv_id (av_domain v)) now s2 = (Inr w, s3) \<and>
    vv_status w = DomainVerified \<and> dv_host (vv_domain w) = sd_host d"
proof -
  have ok: "site_ok s" using site_reachable_ok [OF assms(1)] by simp
  obtain s1 where s1: "remove_domain ho ctx actor (sd_id d) s = Inr ((sd_host d, None), s1)"
    "st_domains s1 = filter (\<lambda>x. sd_id x \<noteq> sd_id d) (st_domains s)"
    "storefronts (st_market s1) = storefronts (st_market s)" "fresh_id s1 = fresh_id s"
    using remove_non_primary [OF ok assms(2,3,5,6,9)] by blast
  have store: "primary_store_id_of (tc_tenant ctx) (st_market s1) = Inr store"
    using assms(8) s1(3) by (simp add: primary_store_id_of_def)
  have old: "domains_ok (st_domains s1)" "distinct (map sd_id (st_domains s1))"
      "\<And>x. x \<in> set (st_domains s1) \<Longrightarrow> sd_id x < fresh_id s1"
    using site_okD(1,2,5) [OF ok] s1(2,4) by (simp_all add: domains_ok_filter distinct_map_filter)
  have "sd_host x \<noteq> sd_host d" if "x \<in> set (st_domains s1)" for x
    using that s1(2) assms(2) site_okD(1) [OF ok] by (auto simp: domains_ok_def distinct_map dest: inj_onD)
  from add_free_name [OF assms(7) store old refl this]
  obtain v s2 n where add: "add_domain env ctx actor (sd_host d) DnsTxt token now s1 = Inr (v, s2)"
    and v: "dv_id (av_domain v) = sd_id n"
    and n: "sd_type n = Some CustomHost" "sd_status n = DomainPending" "sd_tenant n = tc_tenant ctx" "sd_host n = sd_host d"
      "sd_method n = Some DnsTxt" "sd_token n = Some token"
    and s2: "find_domain (sd_id n) (st_domains s2) = Some n" "domains_ok (st_domains s2)" "distinct (map sd_id (st_domains s2))"
    by blast
  have "check_domain (de_target env) dns n = None"
    using assms(11,12) n by (simp add: check_domain_def checked_lookup_def resolve_txt_def evaluate_txt_def)
  from verify_works [OF s2(2,3,1) this n(1-4) assms(10)]
  obtain w s3 where "verify_domain env dns ho True ctx actor (sd_id n) now s2 = (Inr w, s3)"
    "vv_status w = DomainVerified" "dv_host (vv_domain w) = sd_host d"
    by blast
  then show ?thesis using s1(1) add unfolding v [symmetric] by blast
qed

theorem revoked_host_returns_witness:
  "\<exists>x s1 v s2 w s3. remove_domain sample_hosting sample_merchant 9 101 sample_revoked = Inr (x, s1) \<and>
    add_domain sample_domain_env sample_merchant 9 ''mug.com'' DnsTxt ''token'' 4 s1 = Inr (v, s2) \<and>
    verify_domain sample_domain_env sample_dns sample_hosting True sample_merchant 9 (dv_id (av_domain v)) 4 s2 = (Inr w, s3) \<and>
    vv_status w = DomainVerified \<and> dv_host (vv_domain w) = ''mug.com''"
proof -
  have "list_ex (\<lambda>d. sd_id d = 101 \<and> sd_host d = ''mug.com'' \<and> sd_status d = DomainFailed \<and> \<not> sd_primary d \<and>
      is_custom (sd_type d) \<and> sd_tenant d = tc_tenant sample_merchant) (st_domains sample_revoked)"
    by code_simp
  then obtain d where d: "d \<in> set (st_domains sample_revoked)" "sd_id d = 101" "sd_host d = ''mug.com''"
    "sd_status d = DomainFailed" "\<not> sd_primary d" "is_custom (sd_type d)" "tc_tenant sample_merchant = sd_tenant d"
    by (auto simp: list_ex_iff)
  have "validate_new_hostname sample_domain_env ''mug.com'' = Inr ''mug.com''"
    "primary_store_id_of (tc_tenant sample_merchant) (st_market sample_revoked) = Inr 5" "js_trim ''token'' = ''token''"
    by code_simp+
  then show ?thesis
    using revoked_host_returns [OF sample_reachable(4) d(1,6,4,5,7), where ho = sample_hosting and dns = sample_dns
        and token = "''token''" and now = 4 and actor = 9] d(2,3)
    by (simp add: sample_hosting_def sample_dns_def)
qed

section \<open>The primary domain\<close>

lemma set_primary_sets:
  assumes "distinct (map sd_id (st_domains s))" "set_primary ctx actor i s = Inr (v, s1)"
    "load_own_domain (tc_tenant ctx) i s = Inr d"
  shows "\<exists>d2 \<in> set (st_domains s1). sd_id d2 = i \<and> sd_store d2 = sd_store d \<and> sd_primary d2"
proof -
  note d = load_own_domain_Inr [OF assms(3)]
  obtain s0 d2 s2 where
    first: "(case List.find (\<lambda>p. sd_store p = sd_store d \<and> sd_primary p) (st_domains s) of
       None \<Rightarrow> Inr s | Some p \<Rightarrow> map_sum id snd (update_domain (sd_id p) (set_primary_flag False) s)) = Inr s0" and
    second: "update_domain (sd_id d) (set_primary_flag True) s0 = Inr (d2, s2)" and
    s1: "st_domains s1 = st_domains s2"
    using assms(2,3) by (fastforce simp: set_primary_def set_primary_tx_def Let_def)
  have "map (\<lambda>x. (sd_id x, sd_store x)) (st_domains s0) = map (\<lambda>x. (sd_id x, sd_store x)) (st_domains s)"
    using first by (auto simp: update_domain_Inr map_update_rows set_primary_flag_def split: option.splits sum.splits)
  then have same: "(\<lambda>x. (sd_id x, sd_store x)) ` set (st_domains s0) = (\<lambda>x. (sd_id x, sd_store x)) ` set (st_domains s)"
    by (metis list.set_map)
  obtain x where x: "find_domain (sd_id d) (st_domains s0) = Some x"
    "st_domains s2 = update_rows (\<lambda>y. sd_id y = sd_id d) (set_primary_flag True) (st_domains s0)"
    using second by (auto simp: update_domain_Inr)
  have "(sd_id x, sd_store x) \<in> (\<lambda>x. (sd_id x, sd_store x)) ` set (st_domains s)"
    using find_domain_in [OF x(1)] same by blast
  then have "sd_store x = sd_store d"
    using find_domain_in [OF x(1)] distinct_key_inj [OF assms(1) _ conjunct1 [OF d]] by auto
  moreover have "set_primary_flag True x \<in> set (st_domains s1)"
    using find_domain_in [OF x(1)] by (force simp: s1 x(2) update_rows_def)
  ultimately show ?thesis
    using find_domain_in [OF x(1)] d by (intro bexI [of _ "set_primary_flag True x"]) (simp_all add: set_primary_flag_def)
qed

lemma primary_host_None: "primary_host_of st ds = None \<longleftrightarrow> (\<forall>d \<in> set ds. sd_store d = st \<longrightarrow> \<not> sd_primary d)"
  by (auto simp: primary_host_of_def find_None_iff)

text \<open>
  A removal that runs without interruption never leaves a store without a primary domain: if
  the store of the removed row had one, it has one afterwards, and so has every other store.
\<close>

theorem removal_keeps_a_primary:
  assumes "site_reachable env (planned, s)" "remove_domain ho ctx actor i s = Inr (x, s')"
    "primary_host_of st (st_domains s) \<noteq> None"
  shows "primary_host_of st (st_domains s') \<noteq> None"
proof -
  have ok: "site_ok s" using site_reachable_ok [OF assms(1)] by simp
  obtain r where r: "plan_removal ctx i s = Inr r" "finish_removal ctx actor r s = Inr (x, s')"
    using assms(2) by (auto simp: remove_domain_def)
  then obtain d where d: "d \<in> set (st_domains s)" "sd_id d = i" "rm_domain r = d"
    "rm_fallback r = map_option sd_id (fallback_primary d s)" "\<not> (sd_primary d \<and> fallback_primary d s = None)"
    by (auto simp: plan_removal_def removal_of_def Let_def dest: load_own_domain_Inr)
  define s0 where "s0 = s\<lparr>st_domains := filter (\<lambda>x. sd_id x \<noteq> i) (st_domains s)\<rparr>"
  obtain promoted s1 where del: "delete_and_promote i (rm_fallback r) s = Inr (promoted, s1)" and
    s': "st_domains s' = st_domains s1"
    using r(2) d(2,3) by (auto simp: finish_removal_def remove_tx_def)
  obtain p where p: "p \<in> set (st_domains s)" "sd_store p = st" "sd_primary p"
    using assms(3) by (auto simp: primary_host_None)
  show ?thesis
  proof (cases "rm_fallback r")
    case None
    then have "\<not> sd_primary d" "st_domains s' = st_domains s0"
      using d(4,5) del s' by (auto simp: delete_and_promote_def Let_def s0_def)
    moreover have "sd_id p \<noteq> i"
      using distinct_key_inj [OF site_okD(2) [OF ok] p(1) d(1)] d(2) p(3) \<open>\<not> sd_primary d\<close> by auto
    ultimately show ?thesis using p by (auto simp: primary_host_None s0_def)
  next
    case (Some f)
    obtain x1 where fb: "fallback_primary d s = Some x1" "f = sd_id x1" using Some d(4) by auto
    then have x1: "x1 \<in> set (st_domains s)" "sd_store x1 = sd_store d" "sd_id x1 \<noteq> i" "sd_primary d"
      using d(2) by (auto simp: fallback_primary_def dest: find_SomeD split: if_splits)
    obtain d1 where "update_domain f (set_primary_flag True) s0 = Inr (d1, s1)"
      using del Some by (auto simp: delete_and_promote_def Let_def s0_def)
    then have rows: "st_domains s' = update_rows (\<lambda>x. sd_id x = f) (set_primary_flag True) (st_domains s0)"
      using s' by (auto simp: update_domain_Inr)
    show ?thesis
    proof (cases "p = d")
      case True
      have "set_primary_flag True x1 \<in> set (st_domains s')"
        using x1 fb(2) by (force simp: rows s0_def update_rows_def)
      moreover have "sd_store (set_primary_flag True x1) = st" "sd_primary (set_primary_flag True x1)"
        using x1(2) p True by (simp_all add: set_primary_flag_def)
      ultimately show ?thesis unfolding primary_host_None by blast
    next
      case False
      then have "sd_id p \<noteq> i"
        using distinct_key_inj [OF site_okD(2) [OF ok] p(1) d(1)] d(2) by auto
      then have "p \<in> set (st_domains s') \<or> set_primary_flag True p \<in> set (st_domains s')"
        using p(1) by (force simp: rows s0_def update_rows_def)
      moreover have "sd_store (set_primary_flag True p) = st" "sd_primary (set_primary_flag True p)"
        using p by (simp_all add: set_primary_flag_def)
      ultimately show ?thesis using p unfolding primary_host_None by blast
    qed
  qed
qed

theorem removal_keeps_a_primary_witness:
  "\<exists>s'. remove_domain sample_hosting sample_merchant 9 101 sample_verified = Inr ((''mug.com'', None), s') \<and>
     primary_host_of 5 (st_domains s') \<noteq> None"
proof -
  have r: "map_sum id fst (remove_domain sample_hosting sample_merchant 9 101 sample_verified) = Inr (''mug.com'', None)"
    "primary_host_of 5 (st_domains sample_verified) \<noteq> None"
    by code_simp+
  then obtain s' where "remove_domain sample_hosting sample_merchant 9 101 sample_verified = Inr ((''mug.com'', None), s')"
    by (cases "remove_domain sample_hosting sample_merchant 9 101 sample_verified") auto
  then show ?thesis using removal_keeps_a_primary [OF sample_reachable(3) _ r(2)] by blast
qed

text \<open>
  But the plan of a removal is not checked again: when the domain becomes primary while the
  hosting provider is being asked, the removal deletes it, promotes nothing, and the store has no
  primary domain.
\<close>

theorem removal_races_promotion:
  assumes "site_reachable env (planned, s)" "plan_removal ctx i s = Inr r" "\<not> sd_primary (rm_domain r)"
    "set_primary ctx actor i s = Inr (v, s1)" "finish_removal ctx actor r s1 = Inr (x, s2)"
  shows "primary_host_of (sd_store (rm_domain r)) (st_domains s2) = None"
proof -
  have ok: "site_ok s" using site_reachable_ok [OF assms(1)] by simp
  have ok1: "site_ok s1" using carried_ok [OF carried_primary [OF ok assms(4)]] .
  obtain d where d: "load_own_domain (tc_tenant ctx) i s = Inr d" "rm_domain r = d" "rm_fallback r = None"
    using assms(2,3) by (auto simp: plan_removal_def removal_of_def fallback_primary_def Let_def)
  have id: "sd_id d = i" using load_own_domain_Inr [OF d(1)] by simp
  have "\<exists>d2 \<in> set (st_domains s1). sd_id d2 = i \<and> sd_store d2 = sd_store d \<and> sd_primary d2"
    using assms(4) d(1) by (rule set_primary_sets [OF site_okD(2) [OF ok]])
  then obtain d2 where d2: "d2 \<in> set (st_domains s1)" "sd_id d2 = i" "sd_store d2 = sd_store d" "sd_primary d2" by blast
  have only: "y = d2" if "y \<in> set (st_domains s1)" "sd_store y = sd_store d" "sd_primary y" for y
  proof -
    have "distinct (map sd_store (filter sd_primary (st_domains s1)))"
      using site_okD(1) [OF ok1] by (simp add: domains_ok_def)
    then show ?thesis using distinct_key_inj [of sd_store "filter sd_primary (st_domains s1)" y d2] that d2 by simp
  qed
  have "st_domains s2 = filter (\<lambda>x. sd_id x \<noteq> i) (st_domains s1)"
    using assms(5) d(2,3) id by (auto simp: finish_removal_def remove_tx_def delete_and_promote_def Let_def)
  then show ?thesis using only d2(2) d(2) by (auto simp: primary_host_None)
qed

theorem removal_races_promotion_witness:
  "\<exists>r v s1 x s2. plan_removal sample_merchant 101 sample_verified = Inr r \<and>
     set_primary sample_merchant 9 101 sample_verified = Inr (v, s1) \<and>
     finish_removal sample_merchant 9 r s1 = Inr (x, s2) \<and>
     primary_host_of (sd_store (rm_domain r)) (st_domains s2) = None"
proof -
  define run where "run = then_do (plan_removal sample_merchant 101 sample_verified) (\<lambda>r.
     then_do (set_primary sample_merchant 9 101 sample_verified) (\<lambda>(v, s1).
     then_do (finish_removal sample_merchant 9 r s1) (\<lambda>(x, s2). Inr (sd_primary (rm_domain r)))))"
  have "run = Inr False" unfolding run_def by code_simp
  then obtain r v s1 x s2 where "plan_removal sample_merchant 101 sample_verified = Inr r" "\<not> sd_primary (rm_domain r)"
     "set_primary sample_merchant 9 101 sample_verified = Inr (v, s1)" "finish_removal sample_merchant 9 r s1 = Inr (x, s2)"
    by (auto simp: run_def)
  then show ?thesis using removal_races_promotion [OF sample_reachable(3)] by blast
qed

text \<open>
  Revoking a primary domain leaves it primary: every other host of the store is then answered
  with a canonical origin on the revoked name, and that name is answered with 404.
\<close>

theorem revoked_primary_stays_canonical:
  assumes "site_reachable env (planned, s)" "d \<in> set (st_domains s)" "sd_primary d" "is_custom (sd_type d)"
    "sd_status d = DomainFailed" "x \<in> set (st_domains s)" "sd_store x = sd_store d"
    "cache_get (sd_host x) now s = None" "resolve_host (sd_host x) sch now s = (Inr c, s')"
  shows "sx_canonical c = Some (scheme_text sch @ ''://'' @ sd_host d) \<and>
    fst (resolve_host (sd_host d) sch later s) = Inl store_not_found"
proof -
  have ok: "site_ok s" using site_reachable_ok [OF assms(1)] by simp
  have "List.find (\<lambda>y. sd_store y = sd_store d \<and> sd_primary y) (st_domains s) = Some d"
  proof (cases "List.find (\<lambda>y. sd_store y = sd_store d \<and> sd_primary y) (st_domains s)")
    case None
    then show ?thesis using find_NoneD assms(2,3) by fastforce
  next
    case (Some y)
    then have "y \<in> set (filter sd_primary (st_domains s))" "sd_store y = sd_store d"
      using find_SomeD by fastforce+
    then have "y = d"
      using site_okD(1) [OF ok] assms(2,3) distinct_key_inj [of sd_store "filter sd_primary (st_domains s)" y d]
      by (simp add: domains_ok_def)
    then show ?thesis using Some by simp
  qed
  then have "primary_host_of (sd_store x) (st_domains s) = Some (sd_host d)"
    using assms(7) by (simp add: primary_host_of_def)
  then have "sx_canonical c = Some (scheme_text sch @ ''://'' @ sd_host d)"
    using assms(8,9) find_host_row [OF ok assms(6)]
    by (auto simp: resolve_host_def lookup_host_def read_row_def lookup_row_of_def context_of_row_def Let_def)
  then show ?thesis using unserved_not_found [OF ok assms(2,4)] assms(5) by simp
qed

definition sample_revoked_primary :: site where
  "sample_revoked_primary =
     snd (run_tx (revoke_domain 7 101 ''abuse'' 3) (snd (run_tx (set_primary sample_merchant 9 101) sample_verified)))"

lemma sample_revoked_primary_reachable: "site_reachable sample_domain_env ([], sample_revoked_primary)"
proof -
  have "site_reachable sample_domain_env ([], snd (run_tx (set_primary sample_merchant 9 101) sample_verified))"
    by (rule site_reachable.step [OF sample_reachable(3)]) (simp add: site_step_def merchant_step.primary)
  then show ?thesis
    by (rule site_reachable.step) (simp add: site_step_def sample_revoked_primary_def platform_step.revoke)
qed

theorem revoked_primary_stays_canonical_witness:
  "\<exists>c s'. resolve_host ''mug.pf.store'' Https 3 sample_revoked_primary = (Inr c, s') \<and>
     sx_canonical c = Some ''https://mug.com'' \<and>
     fst (resolve_host ''mug.com'' Https 4 sample_revoked_primary) = Inl store_not_found"
proof -
  have "map_sum id sx_store (fst (resolve_host ''mug.pf.store'' Https 3 sample_revoked_primary)) = Inr (Some 5)"
    by code_simp
  then obtain c s' where c: "resolve_host ''mug.pf.store'' Https 3 sample_revoked_primary = (Inr c, s')"
    by (cases "resolve_host ''mug.pf.store'' Https 3 sample_revoked_primary";
        cases "fst (resolve_host ''mug.pf.store'' Https 3 sample_revoked_primary)") auto
  have "cache_get ''mug.pf.store'' 3 sample_revoked_primary = None"
    "list_ex (\<lambda>d. sd_host d = ''mug.com'' \<and> sd_primary d \<and> is_custom (sd_type d) \<and> sd_status d = DomainFailed \<and> sd_store d = 5)
       (st_domains sample_revoked_primary)"
    "list_ex (\<lambda>d. sd_host d = ''mug.pf.store'' \<and> sd_store d = 5) (st_domains sample_revoked_primary)"
    by code_simp+
  then obtain d x where "cache_get (sd_host x) 3 sample_revoked_primary = None" "d \<in> set (st_domains sample_revoked_primary)"
    "sd_host d = ''mug.com''" "sd_primary d" "is_custom (sd_type d)" "sd_status d = DomainFailed"
    "x \<in> set (st_domains sample_revoked_primary)" "sd_host x = ''mug.pf.store''" "sd_store x = sd_store d"
    by (auto simp: list_ex_iff)
  then show ?thesis
    using c revoked_primary_stays_canonical [OF sample_revoked_primary_reachable, of d x 3 Https c s' 4]
    by (auto simp: scheme_text.simps)
qed

section \<open>Origins\<close>



end
