(* ===== verification/Sessions.thy ===== *)
theory Sessions
  imports StoreDomains
begin

text \<open>
  Identities and sessions: \<open>auth/auth.service.ts\<close>, \<open>auth/utils/\<close>, \<open>auth/strategies/jwt.strategy.ts\<close>
  and \<open>users/users.service.ts\<close>. The hash functions are a parameter; random tokens, salts and the
  clock are arguments. Login, refresh and the password reset read rows, work (they compare or hash
  a password), and write in a later transaction, so each is two functions and the rows read are
  the argument of the second.
\<close>

section \<open>Tables\<close>

datatype legacy_role = CustomerRole | LegacyAdmin

datatype tenant_role = Owner | Admin | Staff | Viewer

fun tenant_role_text :: "tenant_role \<Rightarrow> string" where
  "tenant_role_text Owner = ''OWNER''"
| "tenant_role_text Admin = ''ADMIN''"
| "tenant_role_text Staff = ''STAFF''"
| "tenant_role_text Viewer = ''VIEWER''"

datatype membership_status = MemberActive | MemberInvited | MemberSuspended

fun membership_status_text :: "membership_status \<Rightarrow> string" where
  "membership_status_text MemberActive = ''ACTIVE''"
| "membership_status_text MemberInvited = ''INVITED''"
| "membership_status_text MemberSuspended = ''SUSPENDED''"

text \<open>\<open>auth/permissions/permission.ts\<close>: what each role of a tenant may do.\<close>

datatype permission =
    DashboardRead | OrdersRead | OrdersTransition | CustomersRead | ReviewsModerate
  | CouponsRead | CouponsWrite | SettingsRead | SettingsWrite | ProductsRead | ProductsWrite
  | MembersManage | PaymentAccountManage | BillingManage | StoreDomainManage

definition permissions :: "permission list" where
  "permissions =
     [DashboardRead, OrdersRead, OrdersTransition, CustomersRead, ReviewsModerate, CouponsRead, CouponsWrite,
      SettingsRead, SettingsWrite, ProductsRead, ProductsWrite, MembersManage, PaymentAccountManage,
      BillingManage, StoreDomainManage]"

fun role_permissions :: "tenant_role \<Rightarrow> permission list" where
  "role_permissions Owner = permissions"
| "role_permissions Admin =
     filter (\<lambda>p. p \<noteq> MembersManage \<and> p \<noteq> PaymentAccountManage \<and> p \<noteq> StoreDomainManage) permissions"
| "role_permissions Staff =
     [DashboardRead, OrdersRead, OrdersTransition, CustomersRead, ReviewsModerate, CouponsRead,
      SettingsRead, ProductsRead, ProductsWrite]"
| "role_permissions Viewer = [DashboardRead, OrdersRead, CustomersRead, CouponsRead, SettingsRead, ProductsRead]"

definition can :: "tenant_role option \<Rightarrow> permission \<Rightarrow> bool" where
  "can role p \<longleftrightarrow> (case role of None \<Rightarrow> False | Some x \<Rightarrow> p \<in> set (role_permissions x))"

record address =
  ad_line1 :: "string option"
  ad_line2 :: "string option"
  ad_city :: "string option"
  ad_state :: "string option"
  ad_postal :: "string option"
  ad_country :: "string option"
  ad_phone :: "string option"

record user_row =
  us_id :: uuid
  us_email :: string
  us_password :: string
  us_role :: legacy_role
  us_super_admin :: bool
  us_version :: int
  us_failed :: nat
  us_reset_hash :: "string option"
  us_reset_expires :: "instant option"
  us_address :: address
  us_active :: bool
  us_created :: instant

record refresh_row =
  rt_id :: uuid
  rt_user :: uuid
  rt_hash :: string
  rt_expires :: instant
  rt_revoked :: "instant option"
  rt_replaced :: "uuid option"

record membership_row =
  mb_id :: uuid
  mb_user :: uuid
  mb_tenant :: uuid
  mb_role :: tenant_role
  mb_status :: membership_status
  mb_invited_by :: "uuid option"
  mb_created :: instant

record support_row =
  sp_id :: uuid
  sp_tenant :: uuid
  sp_creator :: uuid
  sp_why :: string
  sp_granted :: "permission list"
  sp_expires :: instant
  sp_revoked :: "instant option"
  sp_revoked_by :: "uuid option"
  sp_created :: instant

record realm =
  re_site :: site
  re_users :: "user_row list"
  re_tokens :: "refresh_row list"
  re_members :: "membership_row list"
  re_support :: "support_row list"

definition realm_fresh :: "realm \<Rightarrow> uuid" where
  "realm_fresh r = fresh_id (re_site r)"

definition on_market :: "(market \<Rightarrow> market) \<Rightarrow> realm \<Rightarrow> realm" where
  "on_market f r = r\<lparr>re_site := (re_site r)\<lparr>st_market := f (st_market (re_site r))\<rparr>\<rparr>"

definition realm_market :: "realm \<Rightarrow> market" where
  "realm_market r = st_market (re_site r)"

text \<open>The order side reads a user's email and a member's row through functions; they follow.\<close>

definition link_user :: "uuid \<Rightarrow> string \<Rightarrow> market \<Rightarrow> market" where
  "link_user i email m = m\<lparr>mk_shop := (mk_shop m)\<lparr>user_email := (user_email (mk_shop m))(i := Some email)\<rparr>\<rparr>"

definition link_member :: "uuid \<Rightarrow> uuid \<Rightarrow> uuid \<Rightarrow> market \<Rightarrow> market" where
  "link_member user tenant i m =
     m\<lparr>mk_shop := (mk_shop m)\<lparr>memberships := (memberships (mk_shop m))
        (user := (memberships (mk_shop m) user)(tenant := Some i))\<rparr>\<rparr>"

section \<open>Users\<close>

definition find_by_email :: "string \<Rightarrow> realm \<Rightarrow> user_row option" where
  "find_by_email email r = List.find (\<lambda>u. us_email u = email) (re_users r)"

definition find_user :: "uuid \<Rightarrow> realm \<Rightarrow> user_row option" where
  "find_user i r = List.find (\<lambda>u. us_id u = i) (re_users r)"

definition update_user :: "uuid \<Rightarrow> (user_row \<Rightarrow> user_row) \<Rightarrow> (realm, user_row) tx" where
  "update_user i f r =
     then_do (or_throw (find_user i r) row_gone) (\<lambda>u.
     Inr (f u, r\<lparr>re_users := update_rows (\<lambda>u. us_id u = i) f (re_users r)\<rparr>))"

record profile_view =
  pv_id :: uuid
  pv_email :: string
  pv_address :: address
  pv_role :: legacy_role
  pv_created :: instant

definition to_profile_view :: "user_row \<Rightarrow> profile_view" where
  "to_profile_view u =
     \<lparr>pv_id = us_id u, pv_email = us_email u, pv_address = us_address u, pv_role = us_role u,
      pv_created = us_created u\<rparr>"

definition get_user_or_throw :: "uuid \<Rightarrow> realm \<Rightarrow> user_row result" where
  "get_user_or_throw i r = or_throw (find_user i r) (NotFound ''User not found'')"

definition get_profile :: "uuid \<Rightarrow> realm \<Rightarrow> profile_view result" where
  "get_profile i r = map_sum id to_profile_view (get_user_or_throw i r)"

text \<open>A field that the request leaves out is not written.\<close>

definition patch :: "'a option \<Rightarrow> 'a option \<Rightarrow> 'a option" where
  "patch new old = (case new of None \<Rightarrow> old | Some x \<Rightarrow> Some x)"

definition patch_address :: "address \<Rightarrow> address \<Rightarrow> address" where
  "patch_address dto a =
     \<lparr>ad_line1 = patch (ad_line1 dto) (ad_line1 a), ad_line2 = patch (ad_line2 dto) (ad_line2 a),
      ad_city = patch (ad_city dto) (ad_city a), ad_state = patch (ad_state dto) (ad_state a),
      ad_postal = patch (ad_postal dto) (ad_postal a), ad_country = patch (ad_country dto) (ad_country a),
      ad_phone = patch (ad_phone dto) (ad_phone a)\<rparr>"

definition update_profile :: "uuid \<Rightarrow> address \<Rightarrow> (realm, profile_view) tx" where
  "update_profile i dto r =
     then_do (get_user_or_throw i r) (\<lambda>_.
     then_do (update_user i (\<lambda>u. u\<lparr>us_address := patch_address dto (us_address u)\<rparr>) r) (\<lambda>(u, r1).
     Inr (to_profile_view u, r1)))"

section \<open>Tokens\<close>

text \<open>
  \<open>hash_password\<close> takes bcrypt's salt; \<open>compare_password\<close> a password and a hash. Refresh tokens
  are hashed with the secret of the process, reset tokens without.
\<close>

record auth_lib =
  hash_password :: "string \<Rightarrow> string \<Rightarrow> string"
  compare_password :: "string \<Rightarrow> string \<Rightarrow> bool"
  hash_refresh_token :: "string \<Rightarrow> string"
  hash_reset_token :: "string \<Rightarrow> string"

definition unit_ms :: "string \<Rightarrow> int option" where
  "unit_ms u =
     (if u = ''s'' then Some 1000 else if u = ''m'' then Some 60000
      else if u = ''h'' then Some 3600000 else if u = ''d'' then Some 86400000 else None)"

text \<open>\<open>/^(\\d+)\\s*(s|m|h|d)$/\<close> on the trimmed text.\<close>

definition parse_duration_ms :: "string \<Rightarrow> int result" where
  "parse_duration_ms value =
     (let t = js_trim value; ds = takeWhile is_digit t; rest = dropWhile js_space (dropWhile is_digit t)
      in case (if ds = [] then None else unit_ms rest) of
           None \<Rightarrow> Inl (Thrown (''Invalid duration string: '' @ quoted value))
         | Some unit \<Rightarrow> Inr (int (text_value ds) * unit))"

definition login_delay_curve :: "int list" where
  "login_delay_curve = [0, 1000, 2000, 5000, 10000]"

definition login_delay_ms :: "user_row \<Rightarrow> int" where
  "login_delay_ms u = login_delay_curve ! min (us_failed u) (length login_delay_curve - 1)"

definition password_reset_ttl :: instant where
  "password_reset_ttl = 30 * 60 * 1000"

definition common_passwords :: "string list" where
  "common_passwords =
     [''password'', ''password1'', ''password123'', ''letmein1'', ''qwertyui'', ''qwerty123'', ''iloveyou'',
      ''admin1234'', ''welcome1'', ''abc12345'', ''12345678'', ''123456789'']"

definition password_policy :: "string \<Rightarrow> bool" where
  "password_policy p \<longleftrightarrow> \<not> (p \<noteq> [] \<and> list_all is_digit p) \<and> to_lower p \<notin> set common_passwords"

text \<open>The signed content of an access token; signature and lifetime are the library's.\<close>

record access_token =
  at_sub :: uuid
  at_version :: int

record public_user =
  pu_id :: uuid
  pu_email :: string
  pu_role :: legacy_role
  pu_created :: instant

record token_result =
  tk_access :: access_token
  tk_user :: public_user

definition sign_access_token :: "user_row \<Rightarrow> access_token" where
  "sign_access_token u = \<lparr>at_sub = us_id u, at_version = us_version u\<rparr>"

definition to_public_user :: "user_row \<Rightarrow> public_user" where
  "to_public_user u = \<lparr>pu_id = us_id u, pu_email = us_email u, pu_role = us_role u, pu_created = us_created u\<rparr>"

definition tokens_for :: "user_row \<Rightarrow> token_result" where
  "tokens_for u = \<lparr>tk_access = sign_access_token u, tk_user = to_public_user u\<rparr>"

text \<open>What a response does to the refresh cookie.\<close>

datatype cookie_effect = CookieKept | CookieSet string instant | CookieCleared

type_synonym 'a response = "('a result \<times> cookie_effect) \<times> realm"

definition new_refresh_row :: "auth_lib \<Rightarrow> uuid \<Rightarrow> string \<Rightarrow> instant \<Rightarrow> uuid \<Rightarrow> refresh_row" where
  "new_refresh_row lib user raw expires i =
     \<lparr>rt_id = i, rt_user = user, rt_hash = hash_refresh_token lib raw, rt_expires = expires,
      rt_revoked = None, rt_replaced = None\<rparr>"

definition create_refresh_token :: "auth_lib \<Rightarrow> uuid \<Rightarrow> string \<Rightarrow> instant \<Rightarrow> realm \<Rightarrow> realm" where
  "create_refresh_token lib user raw expires r =
     on_market (take_ids 1) (r\<lparr>re_tokens := re_tokens r @ [new_refresh_row lib user raw expires (realm_fresh r)]\<rparr>)"

definition revoke_tokens :: "(refresh_row \<Rightarrow> bool) \<Rightarrow> instant \<Rightarrow> realm \<Rightarrow> realm" where
  "revoke_tokens P now r =
     r\<lparr>re_tokens := update_rows (\<lambda>t. P t \<and> rt_revoked t = None) (\<lambda>t. t\<lparr>rt_revoked := Some now\<rparr>) (re_tokens r)\<rparr>"

definition bump_version :: "user_row \<Rightarrow> user_row" where
  "bump_version u = u\<lparr>us_version := us_version u + 1\<rparr>"

section \<open>Register and login\<close>

definition no_address :: address where
  "no_address = \<lparr>ad_line1 = None, ad_line2 = None, ad_city = None, ad_state = None, ad_postal = None,
     ad_country = None, ad_phone = None\<rparr>"

definition register_tx ::
  "auth_lib \<Rightarrow> string \<Rightarrow> string \<Rightarrow> string \<Rightarrow> instant \<Rightarrow> instant \<Rightarrow> (realm, user_row) tx" where
  "register_tx lib email hash raw expires now r =
     (let u = \<lparr>us_id = realm_fresh r, us_email = email, us_password = hash, us_role = CustomerRole,
               us_super_admin = False, us_version = 0, us_failed = 0, us_reset_hash = None,
               us_reset_expires = None, us_address = no_address, us_active = True, us_created = now\<rparr>
      in then_do (require (email \<notin> set (map us_email (re_users r))) UniqueViolation) (\<lambda>_.
         Inr (u, create_refresh_token lib (us_id u) raw expires
           (on_market (link_user (us_id u) email \<circ> take_ids 1) (r\<lparr>re_users := re_users r @ [u]\<rparr>)))))"

definition register ::
  "auth_lib \<Rightarrow> string \<Rightarrow> string \<Rightarrow> string \<Rightarrow> string \<Rightarrow> instant \<Rightarrow> instant \<Rightarrow> realm \<Rightarrow> token_result response" where
  "register lib email password salt raw ttl now r =
     (case run_tx (register_tx lib (to_lower email) (hash_password lib salt password) raw (now + ttl) now) r of
        (Inl e, r1) \<Rightarrow>
          ((Inl (if e = UniqueViolation then Conflict ''An account with this email already exists'' else e),
            CookieKept), r1)
      | (Inr u, r1) \<Rightarrow> ((Inr (tokens_for u), CookieSet raw (now + ttl)), r1))"

definition generic_login_error :: err where
  "generic_login_error = Unauthorized ''Invalid email or password''"

definition login_read :: "string \<Rightarrow> realm \<Rightarrow> user_row result" where
  "login_read email r =
     (case find_by_email (to_lower email) r of
        None \<Rightarrow> Inl generic_login_error
      | Some u \<Rightarrow> if us_active u then Inr u else Inl generic_login_error)"

text \<open>\<open>u\<close> is the row as it was read before the delay and the comparison.\<close>

definition login_finish ::
  "auth_lib \<Rightarrow> user_row \<Rightarrow> string \<Rightarrow> string \<Rightarrow> instant \<Rightarrow> instant \<Rightarrow> realm \<Rightarrow> token_result response" where
  "login_finish lib u password raw ttl now r =
     (if \<not> compare_password lib password (us_password u) then
        (case run_tx (update_user (us_id u) (\<lambda>u. u\<lparr>us_failed := us_failed u + 1\<rparr>)) r of
           (Inl e, r1) \<Rightarrow> ((Inl e, CookieKept), r1)
         | (Inr _, r1) \<Rightarrow> ((Inl generic_login_error, CookieKept), r1))
      else
        (case (if us_failed u \<noteq> 0 then run_tx (update_user (us_id u) (\<lambda>u. u\<lparr>us_failed := 0\<rparr>)) r else (Inr u, r)) of
           (Inl e, r1) \<Rightarrow> ((Inl e, CookieKept), r1)
         | (Inr _, r1) \<Rightarrow>
             ((Inr (tokens_for u), CookieSet raw (now + ttl)),
              create_refresh_token lib (us_id u) raw (now + ttl) r1)))"

definition login ::
  "auth_lib \<Rightarrow> string \<Rightarrow> string \<Rightarrow> string \<Rightarrow> instant \<Rightarrow> instant \<Rightarrow> realm \<Rightarrow> token_result response" where
  "login lib email password raw ttl now r =
     (case login_read email r of
        Inl e \<Rightarrow> ((Inl e, CookieKept), r)
      | Inr u \<Rightarrow> login_finish lib u password raw ttl now r)"

section \<open>Refresh\<close>

definition find_token :: "auth_lib \<Rightarrow> string \<Rightarrow> realm \<Rightarrow> refresh_row option" where
  "find_token lib raw r = List.find (\<lambda>t. rt_hash t = hash_refresh_token lib raw) (re_tokens r)"

definition end_all_sessions :: "uuid \<Rightarrow> instant \<Rightarrow> (realm, unit) tx" where
  "end_all_sessions user now r =
     then_do (update_user user bump_version (revoke_tokens (\<lambda>t. rt_user t = user) now r)) (\<lambda>(_, r1). Inr ((), r1))"

definition update_token :: "uuid \<Rightarrow> (refresh_row \<Rightarrow> refresh_row) \<Rightarrow> realm \<Rightarrow> realm result" where
  "update_token i f r =
     then_do (or_throw (List.find (\<lambda>t. rt_id t = i) (re_tokens r)) row_gone) (\<lambda>_.
     Inr (r\<lparr>re_tokens := update_rows (\<lambda>t. rt_id t = i) f (re_tokens r)\<rparr>))"

definition reuse_message :: string where
  "reuse_message = ''Refresh token reuse detected - all sessions have been revoked''"

text \<open>The first half answers an error, or the token and the user that the second half rotates.\<close>

definition refresh_read ::
  "auth_lib \<Rightarrow> string option \<Rightarrow> instant \<Rightarrow> realm \<Rightarrow> ((err \<times> cookie_effect) + (refresh_row \<times> user_row)) \<times> realm" where
  "refresh_read lib raw now r =
     (case raw of
        None \<Rightarrow> (Inl (Unauthorized ''Missing refresh token'', CookieKept), r)
      | Some s \<Rightarrow>
          if s = '''' then (Inl (Unauthorized ''Missing refresh token'', CookieKept), r)
          else (case find_token lib s r of
             None \<Rightarrow> (Inl (Unauthorized ''Invalid refresh token'', CookieCleared), r)
           | Some t \<Rightarrow>
               if rt_revoked t \<noteq> None then
                 (case run_tx (end_all_sessions (rt_user t) now) r of
                    (Inl e, r1) \<Rightarrow> (Inl (e, CookieKept), r1)
                  | (Inr _, r1) \<Rightarrow> (Inl (Unauthorized reuse_message, CookieCleared), r1))
               else if rt_expires t < now then
                 (case update_token (rt_id t) (\<lambda>t. t\<lparr>rt_revoked := Some now\<rparr>) r of
                    Inl e \<Rightarrow> (Inl (e, CookieKept), r)
                  | Inr r1 \<Rightarrow> (Inl (Unauthorized ''Refresh token expired'', CookieCleared), r1))
               else (case find_user (rt_user t) r of
                  None \<Rightarrow> (Inl (Unauthorized ''Unauthorized'', CookieCleared), r)
                | Some u \<Rightarrow>
                    if us_active u then (Inr (t, u), r)
                    else (Inl (Unauthorized ''Unauthorized'', CookieCleared), r))))"

definition rotate_tx ::
  "auth_lib \<Rightarrow> refresh_row \<Rightarrow> user_row \<Rightarrow> string \<Rightarrow> instant \<Rightarrow> instant \<Rightarrow> (realm, unit) tx" where
  "rotate_tx lib t u raw expires now r =
     then_do (update_token (rt_id t) (\<lambda>t. t\<lparr>rt_revoked := Some now, rt_replaced := Some (realm_fresh r)\<rparr>)
       (create_refresh_token lib (us_id u) raw expires r)) (\<lambda>r1. Inr ((), r1))"

definition refresh_finish ::
  "auth_lib \<Rightarrow> refresh_row \<Rightarrow> user_row \<Rightarrow> string \<Rightarrow> instant \<Rightarrow> instant \<Rightarrow> realm \<Rightarrow> token_result response" where
  "refresh_finish lib t u raw ttl now r =
     (case run_tx (rotate_tx lib t u raw (now + ttl) now) r of
        (Inl e, r1) \<Rightarrow> ((Inl e, CookieKept), r1)
      | (Inr _, r1) \<Rightarrow> ((Inr (tokens_for u), CookieSet raw (now + ttl)), r1))"

definition refresh ::
  "auth_lib \<Rightarrow> string option \<Rightarrow> string \<Rightarrow> instant \<Rightarrow> instant \<Rightarrow> realm \<Rightarrow> token_result response" where
  "refresh lib raw new_raw ttl now r =
     (case refresh_read lib raw now r of
        (Inl (e, c), r1) \<Rightarrow> ((Inl e, c), r1)
      | (Inr (t, u), r1) \<Rightarrow> refresh_finish lib t u new_raw ttl now r1)"

section \<open>Logout and password reset\<close>

definition logout :: "auth_lib \<Rightarrow> uuid \<Rightarrow> string option \<Rightarrow> instant \<Rightarrow> realm \<Rightarrow> unit response" where
  "logout lib user raw now r =
     ((Inr (), CookieCleared),
      (case raw of
         None \<Rightarrow> r
       | Some s \<Rightarrow> if s = '''' then r
           else revoke_tokens (\<lambda>t. rt_hash t = hash_refresh_token lib s \<and> rt_user t = user) now r))"

definition logout_all :: "uuid \<Rightarrow> instant \<Rightarrow> realm \<Rightarrow> unit response" where
  "logout_all user now r =
     (case run_tx (end_all_sessions user now) r of
        (Inl e, r1) \<Rightarrow> ((Inl e, CookieKept), r1)
      | (Inr _, r1) \<Rightarrow> ((Inr (), CookieCleared), r1))"

text \<open>The answer is the same whether there is an account or not.\<close>

definition reset_link :: "string \<Rightarrow> string \<Rightarrow> string" where
  "reset_link frontend raw = frontend @ ''/reset-password?token='' @ raw"

definition on_shop_result :: "(shop \<Rightarrow> shop result) \<Rightarrow> realm \<Rightarrow> realm result" where
  "on_shop_result f r =
     then_do (f (mk_shop (realm_market r))) (\<lambda>db. Inr (on_market (\<lambda>m. m\<lparr>mk_shop := db\<rparr>) r))"

definition request_reset_tx ::
  "auth_lib \<Rightarrow> string \<Rightarrow> user_row \<Rightarrow> string \<Rightarrow> string \<Rightarrow> instant \<Rightarrow> (realm, unit) tx" where
  "request_reset_tx lib frontend u raw nonce now r =
     then_do (update_user (us_id u)
       (\<lambda>u. u\<lparr>us_reset_hash := Some (hash_reset_token lib raw), us_reset_expires := Some (now + password_reset_ttl)\<rparr>) r) (\<lambda>(_, r1).
     then_do (on_shop_result (enqueue_outbox_event PasswordResetRequested
         (OtherKey (''PASSWORD_RESET_REQUESTED:'' @ nat_text (us_id u) @ '':'' @ nonce))
         \<lparr>x_order = us_id u, x_order_number = '''', x_user = Some (us_id u), x_email = Some (us_email u),
          x_from = None, x_to = None, x_refund_pending = False,
          x_link = Some (reset_link frontend raw, now + password_reset_ttl)\<rparr> now) r1) (\<lambda>r2.
     Inr ((), r2)))"

definition request_password_reset ::
  "auth_lib \<Rightarrow> string \<Rightarrow> string \<Rightarrow> string \<Rightarrow> string \<Rightarrow> instant \<Rightarrow> realm \<Rightarrow> unit result \<times> realm" where
  "request_password_reset lib frontend email raw nonce now r =
     (case find_by_email (to_lower email) r of
        None \<Rightarrow> (Inr (), r)
      | Some u \<Rightarrow> if us_active u then run_tx (request_reset_tx lib frontend u raw nonce now) r else (Inr (), r))"

definition reset_read :: "auth_lib \<Rightarrow> string \<Rightarrow> instant \<Rightarrow> realm \<Rightarrow> user_row result" where
  "reset_read lib token now r =
     then_do (or_throw (List.find (\<lambda>u. us_reset_hash u = Some (hash_reset_token lib token)) (re_users r))
       (Unauthorized ''Invalid or expired reset token'')) (\<lambda>u.
     then_do (require (case us_reset_expires u of None \<Rightarrow> False | Some t \<Rightarrow> now \<le> t)
       (Unauthorized ''Invalid or expired reset token'')) (\<lambda>_.
     Inr u))"

definition reset_user :: "string \<Rightarrow> user_row \<Rightarrow> user_row" where
  "reset_user hash u =
     u\<lparr>us_password := hash, us_reset_hash := None, us_reset_expires := None,
       us_version := us_version u + 1, us_failed := 0\<rparr>"

definition reset_tx :: "user_row \<Rightarrow> string \<Rightarrow> instant \<Rightarrow> (realm, unit) tx" where
  "reset_tx u hash now r =
     then_do (update_user (us_id u) (reset_user hash) r) (\<lambda>(_, r1).
     Inr ((), revoke_tokens (\<lambda>t. rt_user t = us_id u) now r1))"

definition confirm_password_reset ::
  "auth_lib \<Rightarrow> string \<Rightarrow> string \<Rightarrow> string \<Rightarrow> instant \<Rightarrow> (realm, unit) tx" where
  "confirm_password_reset lib token password salt now r =
     then_do (reset_read lib token now r) (\<lambda>u. reset_tx u (hash_password lib salt password) now r)"

section \<open>The routes\<close>

text \<open>
  A browser sends a cookie with a path below the cookie's path only (RFC 6265, 5.1.4). The refresh
  cookie has the path of one route, and two routes read it.
\<close>

definition refresh_cookie_path :: string where
  "refresh_cookie_path = ''/api/v1/auth/refresh''"

definition path_matches :: "string \<Rightarrow> string \<Rightarrow> bool" where
  "path_matches cookie_path path \<longleftrightarrow>
     path = cookie_path \<or>
     (take (length cookie_path) path = cookie_path \<and>
      (last cookie_path = CHR ''/'' \<or> drop (length cookie_path) path \<noteq> [] \<and> hd (drop (length cookie_path) path) = CHR ''/''))"

definition sent_cookie :: "string option \<Rightarrow> string \<Rightarrow> string option" where
  "sent_cookie jar path = (if path_matches refresh_cookie_path path then jar else None)"

definition refresh_route ::
  "auth_lib \<Rightarrow> string option \<Rightarrow> string \<Rightarrow> instant \<Rightarrow> instant \<Rightarrow> realm \<Rightarrow> token_result response" where
  "refresh_route lib jar = refresh lib (sent_cookie jar ''/api/v1/auth/refresh'')"

definition logout_route :: "auth_lib \<Rightarrow> uuid \<Rightarrow> string option \<Rightarrow> instant \<Rightarrow> realm \<Rightarrow> unit response" where
  "logout_route lib user jar = logout lib user (sent_cookie jar ''/api/v1/auth/logout'')"

section \<open>The access token's check\<close>

text \<open>Everything but the identity is read anew on every request.\<close>

record auth_user =
  an_id :: uuid
  an_email :: string
  an_role :: legacy_role
  an_super_admin :: bool
  an_members :: "(uuid \<times> tenant_role) list"

definition validate_token :: "access_token \<Rightarrow> realm \<Rightarrow> auth_user result" where
  "validate_token tok r =
     then_do (or_throw (find_user (at_sub tok) r) (Unauthorized ''Unauthorized'')) (\<lambda>u.
     then_do (require (us_active u \<and> us_version u = at_version tok) (Unauthorized ''Unauthorized'')) (\<lambda>_.
     Inr \<lparr>an_id = us_id u, an_email = us_email u, an_role = us_role u, an_super_admin = us_super_admin u,
          an_members = map (\<lambda>m. (mb_tenant m, mb_role m))
            (filter (\<lambda>m. mb_user m = us_id u \<and> mb_status m = MemberActive) (re_members r))\<rparr>))"

end
