(* ===== verification/Team.thy ===== *)
theory Team
  imports Sessions
begin

text \<open>
  \<open>team/team.service.ts\<close>: the members of a tenant, and \<open>support-sessions/support-session.service.ts\<close>:
  the sessions in which a platform administrator works inside a tenant. A transaction that counts
  owners and then writes is two functions: Postgres does not make the pair atomic at the default
  isolation level.
\<close>

section \<open>Members\<close>

record member_view =
  mv_id :: uuid
  mv_user :: uuid
  mv_email :: string
  mv_role :: tenant_role
  mv_status :: membership_status
  mv_invited_by :: "uuid option"
  mv_created :: instant

definition email_of_user :: "uuid \<Rightarrow> realm \<Rightarrow> string" where
  "email_of_user i r = (case find_user i r of None \<Rightarrow> '''' | Some u \<Rightarrow> us_email u)"

definition to_member_view :: "realm \<Rightarrow> membership_row \<Rightarrow> member_view" where
  "to_member_view r m =
     \<lparr>mv_id = mb_id m, mv_user = mb_user m, mv_email = email_of_user (mb_user m) r, mv_role = mb_role m,
      mv_status = mb_status m, mv_invited_by = mb_invited_by m, mv_created = mb_created m\<rparr>"

definition find_membership :: "uuid \<Rightarrow> uuid \<Rightarrow> realm \<Rightarrow> membership_row option" where
  "find_membership user tenant r =
     List.find (\<lambda>m. mb_user m = user \<and> mb_tenant m = tenant) (re_members r)"

definition find_member :: "uuid \<Rightarrow> realm \<Rightarrow> membership_row option" where
  "find_member i r = List.find (\<lambda>m. mb_id m = i) (re_members r)"

definition list_team :: "uuid \<Rightarrow> nat \<Rightarrow> nat \<Rightarrow> realm \<Rightarrow> member_view list \<times> page_meta" where
  "list_team tenant page limit r =
     (let rows = sort_key mb_created (filter (\<lambda>m. mb_tenant m = tenant) (re_members r)); n = length rows
      in (map (to_member_view r) (page_slice page limit rows),
          \<lparr>pm_page = page, pm_limit = limit, pm_total = n, pm_total_pages = total_pages limit n\<rparr>))"

text \<open>The actor's own membership, if any, and the support session, if any.\<close>

definition write_team_audit :: "tenant_context \<Rightarrow> uuid \<Rightarrow> string \<Rightarrow> uuid \<Rightarrow> realm \<Rightarrow> realm" where
  "write_team_audit ctx actor action target r =
     on_market (\<lambda>m. m\<lparr>mk_shop := (mk_shop m)\<lparr>audits := audits (mk_shop m) @
       [\<lparr>au_tenant = tc_tenant ctx,
         au_membership = map_option mb_id (find_membership actor (tc_tenant ctx) r),
         au_session = tc_session ctx, au_action = action, au_target = target\<rparr>]\<rparr>\<rparr>) r"

definition on_market_result :: "(market \<Rightarrow> market result) \<Rightarrow> realm \<Rightarrow> realm result" where
  "on_market_result f r = then_do (f (realm_market r)) (\<lambda>m. Inr (on_market (\<lambda>_. m) r))"

text \<open>The request's check admits three roles only (\<open>assignable-roles.ts\<close>).\<close>

definition assignable_roles :: "tenant_role list" where
  "assignable_roles = [Admin, Staff, Viewer]"

definition invite_tx ::
  "tenant_context \<Rightarrow> uuid \<Rightarrow> uuid \<Rightarrow> tenant_role \<Rightarrow> instant \<Rightarrow> (realm, membership_row) tx" where
  "invite_tx ctx actor user role now r =
     then_do (case find_membership user (tc_tenant ctx) r of
         None \<Rightarrow> Inr ()
       | Some m \<Rightarrow> Inl (Conflict (''This user already has a membership in this tenant (status: '' @
           membership_status_text (mb_status m) @ '')''))) (\<lambda>_.
     then_do (on_market_result (enforce_limit (tc_tenant ctx) TeamMembers 1 None) r) (\<lambda>r1.
     let m = \<lparr>mb_id = realm_fresh r1, mb_user = user, mb_tenant = tc_tenant ctx, mb_role = role,
              mb_status = MemberInvited, mb_invited_by = Some actor, mb_created = now\<rparr>;
         r2 = on_market (link_member user (tc_tenant ctx) (mb_id m) \<circ> take_ids 1)
                (r1\<lparr>re_members := re_members r1 @ [m]\<rparr>)
     in Inr (m, write_team_audit ctx actor ''team.invite'' (mb_id m) r2)))"

definition invite_member ::
  "tenant_context \<Rightarrow> uuid \<Rightarrow> string \<Rightarrow> tenant_role \<Rightarrow> instant \<Rightarrow> (realm, member_view) tx" where
  "invite_member ctx actor email role now r =
     then_do (or_throw (find_by_email email r)
       (NotFound ''No user account exists for that email - they must register before being invited'')) (\<lambda>u.
     then_do (invite_tx ctx actor (us_id u) role now r) (\<lambda>(m, r1).
     Inr (to_member_view r1 m, r1)))"

definition active_owner :: "uuid \<Rightarrow> membership_row \<Rightarrow> bool" where
  "active_owner tenant m \<longleftrightarrow> mb_tenant m = tenant \<and> mb_role m = Owner \<and> mb_status m = MemberActive"

definition count_active_owners :: "uuid \<Rightarrow> realm \<Rightarrow> nat" where
  "count_active_owners tenant r = hits (active_owner tenant) (re_members r)"

definition load_member :: "uuid \<Rightarrow> uuid \<Rightarrow> realm \<Rightarrow> membership_row result" where
  "load_member tenant i r =
     then_do (assert_object_in_tenant (map_option mb_tenant (find_member i r)) tenant) (\<lambda>_.
     or_throw (find_member i r) (NotFound ''Not Found''))"

definition keeps_an_owner :: "uuid \<Rightarrow> membership_row \<Rightarrow> string \<Rightarrow> realm \<Rightarrow> unit result" where
  "keeps_an_owner tenant target msg r =
     require (mb_role target \<noteq> Owner \<or> 1 < count_active_owners tenant r) (Conflict msg)"

definition role_check :: "tenant_context \<Rightarrow> uuid \<Rightarrow> realm \<Rightarrow> membership_row result" where
  "role_check ctx i r =
     then_do (load_member (tc_tenant ctx) i r) (\<lambda>target.
     then_do (keeps_an_owner (tc_tenant ctx) target
       ''Cannot change the role of the tenant's final OWNER - OWNER transfer is not implemented (P5-GOV-02)'' r) (\<lambda>_.
     Inr target))"

definition member_hit :: "uuid \<Rightarrow> uuid \<Rightarrow> (membership_row \<Rightarrow> bool) \<Rightarrow> membership_row \<Rightarrow> bool" where
  "member_hit i tenant P m \<longleftrightarrow> mb_id m = i \<and> mb_tenant m = tenant \<and> P m"

definition update_members :: "(membership_row \<Rightarrow> bool) \<Rightarrow> (membership_row \<Rightarrow> membership_row) \<Rightarrow> realm \<Rightarrow> realm" where
  "update_members P f r = r\<lparr>re_members := update_rows P f (re_members r)\<rparr>"

definition reread_member :: "uuid \<Rightarrow> realm \<Rightarrow> (member_view \<times> realm) result" where
  "reread_member i r =
     then_do (or_throw (find_member i r) row_gone) (\<lambda>m. Inr (to_member_view r m, r))"

text \<open>\<open>target\<close> is the row that \<open>role_check\<close> read.\<close>

definition role_write ::
  "tenant_context \<Rightarrow> uuid \<Rightarrow> uuid \<Rightarrow> tenant_role \<Rightarrow> membership_row \<Rightarrow> (realm, member_view) tx" where
  "role_write ctx actor i role target r =
     (let P = member_hit i (tc_tenant ctx) (\<lambda>m. mb_role m = mb_role target)
      in then_do (require (hits P (re_members r) = 1) (Conflict ''Membership role changed concurrently - retry'')) (\<lambda>_.
         reread_member i (write_team_audit ctx actor ''team.role_change'' i
           (update_members P (\<lambda>m. m\<lparr>mb_role := role\<rparr>) r))))"

definition update_member_role :: "tenant_context \<Rightarrow> uuid \<Rightarrow> uuid \<Rightarrow> tenant_role \<Rightarrow> (realm, member_view) tx" where
  "update_member_role ctx actor i role r =
     then_do (role_check ctx i r) (\<lambda>target. role_write ctx actor i role target r)"

definition suspend_check :: "tenant_context \<Rightarrow> uuid \<Rightarrow> realm \<Rightarrow> membership_row result" where
  "suspend_check ctx i r =
     then_do (load_member (tc_tenant ctx) i r) (\<lambda>target.
     then_do (require (mb_status target \<noteq> MemberSuspended) (Conflict ''This membership is already suspended'')) (\<lambda>_.
     then_do (keeps_an_owner (tc_tenant ctx) target ''Cannot suspend the tenant's final OWNER'' r) (\<lambda>_.
     Inr target)))"

definition suspend_write :: "tenant_context \<Rightarrow> uuid \<Rightarrow> uuid \<Rightarrow> (realm, member_view) tx" where
  "suspend_write ctx actor i r =
     (let P = member_hit i (tc_tenant ctx) (\<lambda>m. mb_status m \<noteq> MemberSuspended)
      in then_do (require (hits P (re_members r) = 1) (Conflict ''Membership status changed concurrently - retry'')) (\<lambda>_.
         then_do (on_market_result (\<lambda>m. map_sum id (\<lambda>(_, us). m\<lparr>usages := us\<rparr>)
             (release_limit (tc_tenant ctx) TeamMembers 1 (usages m)))
           (update_members P (\<lambda>m. m\<lparr>mb_status := MemberSuspended\<rparr>) r)) (\<lambda>r1.
         reread_member i (write_team_audit ctx actor ''team.suspend'' i r1))))"

definition suspend_member :: "tenant_context \<Rightarrow> uuid \<Rightarrow> uuid \<Rightarrow> (realm, member_view) tx" where
  "suspend_member ctx actor i r =
     then_do (suspend_check ctx i r) (\<lambda>_. suspend_write ctx actor i r)"

section \<open>Support sessions\<close>

datatype support_status = SupportActive | SupportRevoked | SupportExpired

record support_view =
  sv_row :: support_row
  sv_status :: support_status

definition support_status_of :: "instant \<Rightarrow> support_row \<Rightarrow> support_status" where
  "support_status_of now p =
     (if sp_revoked p \<noteq> None then SupportRevoked
      else if sp_expires p \<le> now then SupportExpired else SupportActive)"

definition to_support_view :: "instant \<Rightarrow> support_row \<Rightarrow> support_view" where
  "to_support_view now p = \<lparr>sv_row = p, sv_status = support_status_of now p\<rparr>"

fun tenant_status_text :: "tenant_status \<Rightarrow> string" where
  "tenant_status_text TenantActive = ''ACTIVE''"
| "tenant_status_text TenantSuspended = ''SUSPENDED''"
| "tenant_status_text PendingDeletion = ''PENDING_DELETION''"
| "tenant_status_text TenantDeleted = ''DELETED''"

text \<open>Both logs get a row; the tenant's names the session as its actor.\<close>

definition log_support :: "uuid \<Rightarrow> string \<Rightarrow> uuid \<Rightarrow> uuid \<Rightarrow> string option \<Rightarrow> realm \<Rightarrow> realm" where
  "log_support actor action session tenant why r =
     on_market (\<lambda>m. m\<lparr>mk_shop := (mk_shop m)\<lparr>audits := audits (mk_shop m) @
         [\<lparr>au_tenant = tenant, au_membership = None, au_session = Some session, au_action = action,
           au_target = session\<rparr>]\<rparr>\<rparr>)
       (r\<lparr>re_site := log_platform_action actor action session (Some tenant) why (re_site r)\<rparr>)"

record support_dto =
  sd_for :: uuid
  sd_why :: string
  sd_until :: "instant option"
  sd_grants :: "permission list"

definition create_session_tx :: "uuid \<Rightarrow> support_dto \<Rightarrow> instant \<Rightarrow> instant \<Rightarrow> (realm, support_row) tx" where
  "create_session_tx actor dto expires now r =
     then_do (or_throw (tenant_status_of (realm_market r) (sd_for dto)) (NotFound ''Tenant not found'')) (\<lambda>status.
     then_do (require (status = TenantActive)
       (Conflict (''Tenant is not ACTIVE (current status: '' @ tenant_status_text status @
          '') - cannot open a support session''))) (\<lambda>_.
     let p = \<lparr>sp_id = realm_fresh r, sp_tenant = sd_for dto, sp_creator = actor, sp_why = sd_why dto,
              sp_granted = sd_grants dto, sp_expires = expires, sp_revoked = None, sp_revoked_by = None,
              sp_created = now\<rparr>
     in Inr (p, log_support actor ''support_session.create'' (sp_id p) (sd_for dto) (Some (sd_why dto))
          (on_market (take_ids 1) (r\<lparr>re_support := re_support r @ [p]\<rparr>)))))"

definition create_session :: "uuid \<Rightarrow> support_dto \<Rightarrow> instant \<Rightarrow> (realm, support_view) tx" where
  "create_session actor dto now r =
     then_do (or_throw (sd_until dto) (BadRequest ''expiresAt is not a valid date'')) (\<lambda>expires.
     then_do (require (now < expires) (BadRequest ''expiresAt must be in the future'')) (\<lambda>_.
     then_do (create_session_tx actor dto expires now r) (\<lambda>(p, r1).
     Inr (to_support_view now p, r1))))"

definition find_session :: "uuid \<Rightarrow> realm \<Rightarrow> support_row option" where
  "find_session i r = List.find (\<lambda>p. sp_id p = i) (re_support r)"

definition session_hit :: "uuid \<Rightarrow> support_row \<Rightarrow> bool" where
  "session_hit i p \<longleftrightarrow> sp_id p = i \<and> sp_revoked p = None"

definition revoke_session :: "uuid \<Rightarrow> uuid \<Rightarrow> instant \<Rightarrow> (realm, support_view) tx" where
  "revoke_session actor i now r =
     then_do (or_throw (find_session i r) (NotFound ''Support session not found'')) (\<lambda>p.
     then_do (require (sp_revoked p = None) (Conflict ''Support session is already revoked'')) (\<lambda>_.
     then_do (require (hits (session_hit i) (re_support r) = 1)
       (Conflict ''Support session was revoked concurrently - retry'')) (\<lambda>_.
     let r1 = log_support actor ''support_session.revoke'' i (sp_tenant p) None
           (r\<lparr>re_support := update_rows (session_hit i)
                (\<lambda>p. p\<lparr>sp_revoked := Some now, sp_revoked_by := Some actor\<rparr>) (re_support r)\<rparr>)
     in then_do (or_throw (find_session i r1) row_gone) (\<lambda>p1.
        Inr (to_support_view now p1, r1)))))"

text \<open>The filter by status is a condition on the stored columns.\<close>

definition session_where :: "uuid option \<Rightarrow> support_status option \<Rightarrow> instant \<Rightarrow> support_row \<Rightarrow> bool" where
  "session_where tenant status now p \<longleftrightarrow>
     (case tenant of None \<Rightarrow> True | Some t \<Rightarrow> sp_tenant p = t) \<and>
     (case status of
        None \<Rightarrow> True
      | Some SupportRevoked \<Rightarrow> sp_revoked p \<noteq> None
      | Some SupportExpired \<Rightarrow> sp_revoked p = None \<and> sp_expires p \<le> now
      | Some SupportActive \<Rightarrow> sp_revoked p = None \<and> now < sp_expires p)"

definition list_sessions ::
  "uuid option \<Rightarrow> support_status option \<Rightarrow> nat \<Rightarrow> nat \<Rightarrow> instant \<Rightarrow> realm \<Rightarrow> support_view list \<times> page_meta" where
  "list_sessions tenant status page limit now r =
     (let rows = sort_key (\<lambda>p. - sp_created p) (filter (session_where tenant status now) (re_support r));
          n = length rows
      in (map (to_support_view now) (page_slice page limit rows),
          \<lparr>pm_page = page, pm_limit = limit, pm_total = n, pm_total_pages = total_pages limit n\<rparr>))"

lemma session_filter_is_status: "session_where None (Some st) now p \<longleftrightarrow> support_status_of now p = st"
  by (cases st) (auto simp: session_where_def support_status_of_def)

end
