(* ===== verification/Gate.thy ===== *)
theory Gate
  imports Team
begin

text \<open>
  The guards of every request, in the order in which \<open>app.module.ts\<close> registers them:
  \<open>common/guards/jwt-auth.guard.ts\<close>, \<open>common/tenant/support-session-context.guard.ts\<close>,
  \<open>common/tenant/tenant-context.guard.ts\<close>, \<open>common/tenant/tenant-lifecycle.guard.ts\<close>,
  \<open>auth/permissions/permissions.guard.ts\<close>, \<open>entitlements/entitlement.guard.ts\<close> and
  \<open>common/guards/platform.guard.ts\<close>. The decorators of a route are a record; the verified content
  of the bearer token and the headers are the request. The rate limiter is left out.
\<close>

record route =
  ro_public :: bool
  ro_platform_only :: bool
  ro_permission :: "permission option"
  ro_feature :: "string option"

record request =
  hq_bearer :: "access_token option"
  hq_session :: "uuid option"
  hq_tenant :: "uuid option"
  hq_hostname :: "string option"

datatype context_source =
    MembershipHeader tenant_role | MembershipDefault tenant_role | ByDomain tenant_role
  | BySupportSession uuid "permission list"

record request_context =
  cx_tenant :: uuid
  cx_source :: context_source

definition context_role :: "request_context \<Rightarrow> tenant_role option" where
  "context_role c =
     (case cx_source c of MembershipHeader x \<Rightarrow> Some x | MembershipDefault x \<Rightarrow> Some x | ByDomain x \<Rightarrow> Some x
      | BySupportSession _ _ \<Rightarrow> None)"

text \<open>What the services are given.\<close>

definition tenant_context_of :: "request_context \<Rightarrow> tenant_context" where
  "tenant_context_of c =
     \<lparr>tc_tenant = cx_tenant c,
      tc_session = (case cx_source c of BySupportSession i _ \<Rightarrow> Some i | _ \<Rightarrow> None)\<rparr>"

definition jwt_guard :: "route \<Rightarrow> request \<Rightarrow> realm \<Rightarrow> auth_user option result" where
  "jwt_guard ro q r =
     (if ro_public ro then Inr None
      else then_do (or_throw (hq_bearer q) (Unauthorized ''Unauthorized'')) (\<lambda>tok.
           map_sum id Some (validate_token tok r)))"

definition unscoped :: "route \<Rightarrow> bool" where
  "unscoped ro \<longleftrightarrow> ro_public ro \<or> ro_platform_only ro"

definition session_usable :: "auth_user \<Rightarrow> instant \<Rightarrow> support_row \<Rightarrow> bool" where
  "session_usable u now p \<longleftrightarrow> sp_creator p = an_id u \<and> sp_revoked p = None \<and> now < sp_expires p"

definition support_session_guard ::
  "route \<Rightarrow> request \<Rightarrow> auth_user option \<Rightarrow> instant \<Rightarrow> realm \<Rightarrow> request_context option result" where
  "support_session_guard ro q user now r =
     (if unscoped ro then Inr None
      else (case (hq_session q, user) of
          (Some i, Some u) \<Rightarrow>
            if \<not> an_super_admin u then Inr None
            else (case find_session i r of
                Some p \<Rightarrow>
                  if session_usable u now p
                  then Inr (Some \<lparr>cx_tenant = sp_tenant p, cx_source = BySupportSession (sp_id p) (sp_granted p)\<rparr>)
                  else Inl (Forbidden ''Invalid support session'')
              | None \<Rightarrow> Inl (Forbidden ''Invalid support session''))
        | _ \<Rightarrow> Inr None))"

definition membership_in :: "uuid \<Rightarrow> auth_user \<Rightarrow> tenant_role option" where
  "membership_in tenant u = map_option snd (List.find (\<lambda>m. fst m = tenant) (an_members u))"

definition resolve_from_host :: "string option \<Rightarrow> auth_user \<Rightarrow> realm \<Rightarrow> request_context option" where
  "resolve_from_host hostname u r =
     (if hostname = None \<or> hostname = Some '''' \<or> an_members u = [] then None
      else Option.bind (normalise_host True hostname) (\<lambda>host.
           Option.bind (find_host host (st_domains (re_site r))) (\<lambda>d.
           Option.bind (st_store_tenant (re_site r) (sd_store d)) (\<lambda>t.
           map_option (\<lambda>role. \<lparr>cx_tenant = t, cx_source = ByDomain role\<rparr>) (membership_in t u)))))"

text \<open>A context that the support guard resolved is kept as it is.\<close>

definition tenant_context_guard ::
  "route \<Rightarrow> request \<Rightarrow> auth_user option \<Rightarrow> request_context option \<Rightarrow> realm \<Rightarrow> request_context option result" where
  "tenant_context_guard ro q user ctx r =
     (case ctx of
        Some c \<Rightarrow> Inr (Some c)
      | None \<Rightarrow>
          if unscoped ro then Inr None
          else (case user of
              None \<Rightarrow> Inr None
            | Some u \<Rightarrow>
                (case hq_tenant q of
                   Some t \<Rightarrow>
                     (case membership_in t u of
                        None \<Rightarrow> Inl (Forbidden ''The requested tenant does not match an active membership'')
                      | Some role \<Rightarrow> Inr (Some \<lparr>cx_tenant = t, cx_source = MembershipHeader role\<rparr>))
                 | None \<Rightarrow>
                     (case resolve_from_host (hq_hostname q) u r of
                        Some c \<Rightarrow> Inr (Some c)
                      | None \<Rightarrow>
                          (case an_members u of
                             [(t, role)] \<Rightarrow> Inr (Some \<lparr>cx_tenant = t, cx_source = MembershipDefault role\<rparr>)
                           | _ \<Rightarrow> Inr None)))))"

definition tenant_lifecycle_guard :: "route \<Rightarrow> request_context option \<Rightarrow> realm \<Rightarrow> unit result" where
  "tenant_lifecycle_guard ro ctx r =
     (if unscoped ro then Inr ()
      else (case ctx of
          None \<Rightarrow> Inr ()
        | Some c \<Rightarrow> assert_tenant_active (cx_tenant c) ''This tenant is currently suspended'' (realm_market r)))"

definition permissions_guard :: "route \<Rightarrow> request_context option \<Rightarrow> unit result" where
  "permissions_guard ro ctx =
     (case ro_permission ro of
        None \<Rightarrow> Inr ()
      | Some p \<Rightarrow>
          (case ctx of
             None \<Rightarrow> Inl (Forbidden ''No active tenant context for this request'')
           | Some c \<Rightarrow>
               (case cx_source c of
                  BySupportSession _ granted \<Rightarrow>
                    require (p \<in> set granted) (Forbidden ''This support session is not scoped to the required permission'')
                | _ \<Rightarrow>
                    require (can (context_role c) p) (Forbidden ''Insufficient permission for this resource''))))"

definition entitlement_guard :: "route \<Rightarrow> request_context option \<Rightarrow> realm \<Rightarrow> unit result" where
  "entitlement_guard ro ctx r =
     (case ro_feature ro of
        None \<Rightarrow> Inr ()
      | Some f \<Rightarrow>
          (case is_feature_key f of
             None \<Rightarrow> Inl (Forbidden ''upgrade_required'')
           | Some key \<Rightarrow>
               (case ctx of
                  None \<Rightarrow> Inl (Forbidden ''No active tenant context for this request'')
                | Some c \<Rightarrow>
                    require (en_features (resolve_entitlements (entitle (realm_market r)) (billing (realm_market r))
                        (cx_tenant c)) key)
                      (Forbidden ''upgrade_required''))))"

definition platform_guard :: "route \<Rightarrow> auth_user option \<Rightarrow> unit result" where
  "platform_guard ro user =
     (if \<not> ro_platform_only ro then Inr ()
      else require (case user of None \<Rightarrow> False | Some u \<Rightarrow> an_super_admin u)
        (Forbidden ''Platform super-admin access required''))"

text \<open>The chain; the handler gets the user and the context.\<close>

definition admit :: "route \<Rightarrow> request \<Rightarrow> instant \<Rightarrow> realm \<Rightarrow> (auth_user option \<times> request_context option) result" where
  "admit ro q now r =
     then_do (jwt_guard ro q r) (\<lambda>user.
     then_do (support_session_guard ro q user now r) (\<lambda>ctx0.
     then_do (tenant_context_guard ro q user ctx0 r) (\<lambda>ctx.
     then_do (tenant_lifecycle_guard ro ctx r) (\<lambda>_.
     then_do (permissions_guard ro ctx) (\<lambda>_.
     then_do (entitlement_guard ro ctx r) (\<lambda>_.
     then_do (platform_guard ro user) (\<lambda>_.
     Inr (user, ctx))))))))"

end
