(* ===== verification/SessionReach.thy ===== *)
theory SessionReach
  imports Gate
begin

text \<open>
  The histories of users and refresh tokens. Logins, refreshes and password resets that have read
  their rows and not yet written are part of the state, so any two requests may interleave between
  their halves. A new refresh token's hash is one that no row has: tokens are 64 random bytes.
\<close>

section \<open>Steps\<close>

datatype pending = PendingLogin user_row | PendingRefresh refresh_row user_row | PendingReset user_row

definition unused_token :: "auth_lib \<Rightarrow> string \<Rightarrow> realm \<Rightarrow> bool" where
  "unused_token lib raw r \<longleftrightarrow> hash_refresh_token lib raw \<notin> set (map rt_hash (re_tokens r))"

definition rest_moves :: "realm \<Rightarrow> realm \<Rightarrow> bool" where
  "rest_moves r r' \<longleftrightarrow> re_users r' = re_users r \<and> re_tokens r' = re_tokens r \<and> realm_fresh r \<le> realm_fresh r'"

inductive auth_step :: "auth_lib \<Rightarrow> pending list \<times> realm \<Rightarrow> pending list \<times> realm \<Rightarrow> bool" for lib where
  register: "unused_token lib raw r \<Longrightarrow>
    auth_step lib (p, r) (p, snd (register lib email password salt raw ttl now r))"
| login_begin: "login_read email r = Inr u \<Longrightarrow> auth_step lib (p, r) (PendingLogin u # p, r)"
| login_end: "PendingLogin u \<in> set p \<Longrightarrow> unused_token lib raw r \<Longrightarrow>
    auth_step lib (p, r) (p, snd (login_finish lib u password raw ttl now r))"
| refresh_begin: "refresh_read lib raw now r = (Inr (t, u), r1) \<Longrightarrow>
    auth_step lib (p, r) (PendingRefresh t u # p, r1)"
| refresh_refused: "refresh_read lib raw now r = (Inl e, r1) \<Longrightarrow> auth_step lib (p, r) (p, r1)"
| refresh_end: "PendingRefresh t u \<in> set p \<Longrightarrow> unused_token lib raw r \<Longrightarrow>
    auth_step lib (p, r) (p, snd (refresh_finish lib t u raw ttl now r))"
| logout: "auth_step lib (p, r) (p, snd (logout lib user raw now r))"
| logout_all: "auth_step lib (p, r) (p, snd (logout_all user now r))"
| reset_request: "auth_step lib (p, r) (p, snd (request_password_reset lib frontend email raw nonce now r))"
| reset_begin: "reset_read lib token now r = Inr u \<Longrightarrow> auth_step lib (p, r) (PendingReset u # p, r)"
| reset_end: "PendingReset u \<in> set p \<Longrightarrow>
    auth_step lib (p, r) (p, snd (run_tx (reset_tx u (hash_password lib salt password) now) r))"
| profile: "auth_step lib (p, r) (p, snd (run_tx (update_profile i dto) r))"
| rest: "rest_moves r r' \<Longrightarrow> auth_step lib (p, r) (p, r')"

definition auth_steps :: "auth_lib \<Rightarrow> pending list \<times> realm \<Rightarrow> pending list \<times> realm \<Rightarrow> bool" where
  "auth_steps lib = (auth_step lib)\<^sup>*\<^sup>*"

definition auth_reachable :: "auth_lib \<Rightarrow> pending list \<times> realm \<Rightarrow> bool" where
  "auth_reachable lib x \<longleftrightarrow> (\<exists>r0. re_users r0 = [] \<and> re_tokens r0 = [] \<and> auth_steps lib ([], r0) x)"

lemma auth_reachable_steps: "auth_reachable lib x \<Longrightarrow> auth_steps lib x y \<Longrightarrow> auth_reachable lib y"
  unfolding auth_reachable_def auth_steps_def by (meson rtranclp_trans)

section \<open>The invariant\<close>

definition realm_ok :: "realm \<Rightarrow> bool" where
  "realm_ok r \<longleftrightarrow>
     distinct (map us_id (re_users r)) \<and> distinct (map us_email (re_users r)) \<and>
     distinct (map rt_id (re_tokens r)) \<and> distinct (map rt_hash (re_tokens r)) \<and>
     (\<forall>u \<in> set (re_users r). us_id u < realm_fresh r \<and> to_lower (us_email u) = us_email u) \<and>
     (\<forall>t \<in> set (re_tokens r). rt_id t < realm_fresh r \<and> rt_user t \<in> us_id ` set (re_users r) \<and>
        (rt_replaced t \<noteq> None \<longrightarrow> rt_revoked t \<noteq> None))"

fun pending_ok :: "realm \<Rightarrow> pending \<Rightarrow> bool" where
  "pending_ok r (PendingLogin u) = (us_id u \<in> us_id ` set (re_users r))"
| "pending_ok r (PendingReset u) = (us_id u \<in> us_id ` set (re_users r))"
| "pending_ok r (PendingRefresh t u) =
     (us_id u \<in> us_id ` set (re_users r) \<and> rt_user t = us_id u \<and> rt_id t \<in> rt_id ` set (re_tokens r))"

text \<open>Nothing is forgotten: versions grow, tokens stay, and what is revoked stays revoked.\<close>

definition user_after :: "user_row \<Rightarrow> user_row \<Rightarrow> bool" where
  "user_after u u' \<longleftrightarrow> us_id u' = us_id u \<and> us_email u' = us_email u \<and> us_version u \<le> us_version u'"

definition token_after :: "refresh_row \<Rightarrow> refresh_row \<Rightarrow> bool" where
  "token_after t t' \<longleftrightarrow> rt_id t' = rt_id t \<and> rt_user t' = rt_user t \<and> rt_hash t' = rt_hash t \<and>
     (rt_revoked t \<noteq> None \<longrightarrow> rt_revoked t' \<noteq> None)"

definition later :: "realm \<Rightarrow> realm \<Rightarrow> bool" where
  "later r r' \<longleftrightarrow>
     (\<forall>u \<in> set (re_users r). \<exists>u' \<in> set (re_users r'). user_after u u') \<and>
     (\<forall>t \<in> set (re_tokens r). \<exists>t' \<in> set (re_tokens r'). token_after t t')"

lemma later_refl: "later r r"
  by (auto simp: later_def user_after_def token_after_def)

lemma user_after_trans: "user_after u v \<Longrightarrow> user_after v w \<Longrightarrow> user_after u w"
  by (auto simp: user_after_def)

lemma token_after_trans: "token_after t v \<Longrightarrow> token_after v w \<Longrightarrow> token_after t w"
  by (auto simp: token_after_def)

lemma later_trans: "later a b \<Longrightarrow> later b c \<Longrightarrow> later a c"
  unfolding later_def by (meson user_after_trans token_after_trans)

lemma later_ids:
  assumes "later r r'"
  shows "us_id ` set (re_users r) \<subseteq> us_id ` set (re_users r')" "rt_id ` set (re_tokens r) \<subseteq> rt_id ` set (re_tokens r')"
proof -
  show "us_id ` set (re_users r) \<subseteq> us_id ` set (re_users r')"
  proof
    fix i assume "i \<in> us_id ` set (re_users r)"
    then obtain u u' where "u \<in> set (re_users r)" "i = us_id u" "u' \<in> set (re_users r')" "user_after u u'"
      using assms unfolding later_def by blast
    then show "i \<in> us_id ` set (re_users r')" by (auto simp: user_after_def intro: rev_image_eqI)
  qed
  show "rt_id ` set (re_tokens r) \<subseteq> rt_id ` set (re_tokens r')"
  proof
    fix i assume "i \<in> rt_id ` set (re_tokens r)"
    then obtain t t' where "t \<in> set (re_tokens r)" "i = rt_id t" "t' \<in> set (re_tokens r')" "token_after t t'"
      using assms unfolding later_def by blast
    then show "i \<in> rt_id ` set (re_tokens r')" by (auto simp: token_after_def intro: rev_image_eqI)
  qed
qed

lemma later_pending: "later r r' \<Longrightarrow> pending_ok r q \<Longrightarrow> pending_ok r' q"
  by (cases q) (auto dest: later_ids)

definition keeps :: "realm \<Rightarrow> realm \<Rightarrow> bool" where
  "keeps r r' \<longleftrightarrow> realm_ok r' \<and> later r r'"

lemma keeps_refl: "realm_ok r \<Longrightarrow> keeps r r"
  by (simp add: keeps_def later_refl)

lemma keeps_trans: "keeps a b \<Longrightarrow> keeps b c \<Longrightarrow> keeps a c"
  unfolding keeps_def using later_trans by blast

lemma realm_frames [simp]:
  "re_users (on_market f r) = re_users r" "re_tokens (on_market f r) = re_tokens r"
  "re_members (on_market f r) = re_members r" "re_support (on_market f r) = re_support r"
  "realm_fresh (r\<lparr>re_users := us\<rparr>) = realm_fresh r" "realm_fresh (r\<lparr>re_tokens := ts\<rparr>) = realm_fresh r"
  "realm_fresh (on_market f r) = fresh (f (realm_market r))"
  "realm_market (r\<lparr>re_users := us\<rparr>) = realm_market r" "realm_market (r\<lparr>re_tokens := ts\<rparr>) = realm_market r"
  "fresh (link_user i e m) = fresh m"
  by (simp_all add: on_market_def realm_fresh_def realm_market_def fresh_id_def link_user_def)

lemma realm_fresh_market: "realm_fresh r = fresh (realm_market r)"
  by (simp add: realm_fresh_def realm_market_def fresh_id_def)

section \<open>The kinds of write\<close>

lemma update_rows_after:
  "(\<And>x. R x (f x)) \<Longrightarrow> (\<And>x. R x x) \<Longrightarrow> x \<in> set xs \<Longrightarrow> \<exists>y \<in> set (update_rows P f xs). R x y"
  by (rule bexI [of _ "if P x then f x else x"]) (auto simp: update_rows_def)

lemma after_refl: "user_after u u" "token_after t t"
  by (simp_all add: user_after_def token_after_def)

lemma later_users:
  "re_tokens r' = re_tokens r \<Longrightarrow> (\<And>u. u \<in> set (re_users r) \<Longrightarrow> \<exists>u' \<in> set (re_users r'). user_after u u') \<Longrightarrow> later r r'"
  unfolding later_def using after_refl(2) by metis

lemma later_tokens:
  "re_users r' = re_users r \<Longrightarrow> (\<And>t. t \<in> set (re_tokens r) \<Longrightarrow> \<exists>t' \<in> set (re_tokens r'). token_after t t') \<Longrightarrow> later r r'"
  unfolding later_def using after_refl(1) by metis

lemma find_user_in: "find_user i r = Some u \<Longrightarrow> u \<in> set (re_users r) \<and> us_id u = i"
  by (auto simp: find_user_def dest: find_SomeD)

lemma find_user_key: "realm_ok r \<Longrightarrow> u \<in> set (re_users r) \<Longrightarrow> find_user (us_id u) r = Some u"
  by (simp add: find_user_def realm_ok_def find_key)

lemma find_user_exists: "realm_ok r \<Longrightarrow> i \<in> us_id ` set (re_users r) \<Longrightarrow> \<exists>u. find_user i r = Some u"
  using find_user_key by fastforce

lemma find_token_in: "find_token lib raw r = Some t \<Longrightarrow> t \<in> set (re_tokens r) \<and> rt_hash t = hash_refresh_token lib raw"
  by (auto simp: find_token_def dest: find_SomeD)

lemma keeps_update_user:
  assumes "realm_ok r" "update_user i f r = Inr (u, r')" "\<And>u. user_after u (f u)"
  shows "keeps r r'"
proof -
  have r': "r' = r\<lparr>re_users := update_rows (\<lambda>u. us_id u = i) f (re_users r)\<rparr>"
    using assms(2) by (auto simp: update_user_def)
  have same: "us_id (f u) = us_id u" "us_email (f u) = us_email u" "user_after u (f u)" for u
    using assms(3) [of u] by (auto simp: user_after_def)
  have maps: "map us_id (re_users r') = map us_id (re_users r)" "map us_email (re_users r') = map us_email (re_users r)"
    by (simp_all add: r' map_update_rows same)
  have ids: "us_id ` set (re_users r') = us_id ` set (re_users r)" using maps(1) by (metis list.set_map)
  have from_old: "\<exists>u0 \<in> set (re_users r). us_id u = us_id u0 \<and> us_email u = us_email u0" if "u \<in> set (re_users r')" for u
    using that same by (auto simp: r' update_rows_def)
  have "realm_ok r'"
    using assms(1) maps ids from_old unfolding realm_ok_def by (fastforce simp: r')
  moreover have "later r r'"
    by (rule later_users) (simp_all add: r' update_rows_after [of user_after f, OF same(3) after_refl(1)])
  ultimately show ?thesis by (simp add: keeps_def)
qed

lemma keeps_tokens:
  assumes "realm_ok r" "\<And>t. token_after t (f t)" "\<And>t. rt_replaced (f t) \<noteq> None \<Longrightarrow> rt_revoked (f t) \<noteq> None"
  shows "keeps r (r\<lparr>re_tokens := update_rows P f (re_tokens r)\<rparr>)" (is "keeps r ?r'")
proof -
  have same: "rt_id (f t) = rt_id t" "rt_hash (f t) = rt_hash t" "rt_user (f t) = rt_user t" for t
    using assms(2) [of t] by (auto simp: token_after_def)
  have maps: "map rt_id (re_tokens ?r') = map rt_id (re_tokens r)" "map rt_hash (re_tokens ?r') = map rt_hash (re_tokens r)"
    by (simp_all add: map_update_rows same)
  have from_old: "\<exists>t0 \<in> set (re_tokens r). rt_id t = rt_id t0 \<and> rt_user t = rt_user t0 \<and>
      (rt_replaced t \<noteq> None \<longrightarrow> rt_revoked t \<noteq> None)" if "t \<in> set (re_tokens ?r')" for t
    using that same assms(1,3) by (auto simp: update_rows_def realm_ok_def)
  have "realm_ok ?r'"
    using assms(1) maps from_old unfolding realm_ok_def by fastforce
  moreover have "later r ?r'"
    by (rule later_tokens) (simp_all add: update_rows_after [of token_after f, OF assms(2) after_refl(2)])
  ultimately show ?thesis by (simp add: keeps_def)
qed

lemma keeps_revoke: "realm_ok r \<Longrightarrow> keeps r (revoke_tokens P now r)"
  unfolding revoke_tokens_def by (rule keeps_tokens) (auto simp: token_after_def)

lemma keeps_create_token:
  assumes "realm_ok r" "user \<in> us_id ` set (re_users r)" "unused_token lib raw r"
  shows "keeps r (create_refresh_token lib user raw expires r)"
proof -
  define n where "n = new_refresh_row lib user raw expires (realm_fresh r)"
  have n: "rt_id n = realm_fresh r" "rt_user n = user" "rt_replaced n = None" "rt_hash n \<notin> rt_hash ` set (re_tokens r)"
    using assms(3) by (simp_all add: n_def new_refresh_row_def unused_token_def)
  have "rt_id n \<notin> rt_id ` set (re_tokens r)"
    using assms(1) n(1) unfolding realm_ok_def by fastforce
  moreover have rows: "re_users (create_refresh_token lib user raw expires r) = re_users r"
    "re_tokens (create_refresh_token lib user raw expires r) = re_tokens r @ [n]"
    "realm_fresh (create_refresh_token lib user raw expires r) = Suc (realm_fresh r)"
    by (simp_all add: create_refresh_token_def n_def on_market_def take_ids_def realm_fresh_def realm_market_def fresh_id_def)
  ultimately have "realm_ok (create_refresh_token lib user raw expires r)"
    using assms(1,2) n unfolding realm_ok_def by (auto simp: less_Suc_eq)
  moreover have "later r (create_refresh_token lib user raw expires r)"
    by (auto simp: later_def create_refresh_token_def token_after_def user_after_def)
  ultimately show ?thesis by (simp add: keeps_def)
qed

lemma keeps_same:
  assumes "realm_ok r" "re_users r' = re_users r" "re_tokens r' = re_tokens r" "realm_fresh r \<le> realm_fresh r'"
  shows "keeps r r'"
proof -
  have "realm_ok r'" using assms unfolding realm_ok_def by fastforce
  then show ?thesis using assms by (auto simp: keeps_def later_def user_after_def token_after_def)
qed

section \<open>The operations\<close>

lemma run_tx_keeps:
  assumes "realm_ok r" "\<And>x r'. f r = Inr (x, r') \<Longrightarrow> keeps r r'"
  shows "keeps r (snd (run_tx f r))"
  using assms by (auto simp: run_tx_def keeps_refl split: sum.split)

lemma keeps_end_all:
  assumes "realm_ok r" "end_all_sessions user now r = Inr (x, r')"
  shows "keeps r r'"
proof -
  obtain u where u: "update_user user bump_version (revoke_tokens (\<lambda>t. rt_user t = user) now r) = Inr (u, r')"
    using assms(2) by (auto simp: end_all_sessions_def)
  note rv = keeps_revoke [OF assms(1), of "\<lambda>t. rt_user t = user" now]
  have "keeps (revoke_tokens (\<lambda>t. rt_user t = user) now r) r'"
    by (rule keeps_update_user [OF _ u]) (use rv in \<open>auto simp: keeps_def user_after_def bump_version_def\<close>)
  then show ?thesis using keeps_trans [OF rv] by blast
qed

lemma keeps_register:
  assumes "realm_ok r" "unused_token lib raw r"
  shows "keeps r (snd (register lib email password salt raw ttl now r))"
proof -
  have "keeps r r'" if tx: "register_tx lib (to_lower email) h raw e now r = Inr (u, r')" for h e u r'
  proof -
    define r1 where "r1 = on_market (link_user (us_id u) (to_lower email) \<circ> take_ids 1) (r\<lparr>re_users := re_users r @ [u]\<rparr>)"
    have u: "us_id u = realm_fresh r" "us_email u = to_lower email" "to_lower email \<notin> us_email ` set (re_users r)"
      and r': "r' = create_refresh_token lib (us_id u) raw e r1"
      using tx by (auto simp: register_tx_def Let_def r1_def)
    have rows: "re_users r1 = re_users r @ [u]" "re_tokens r1 = re_tokens r" "realm_fresh r1 = Suc (realm_fresh r)"
      by (simp_all add: r1_def on_market_def take_ids_def link_user_def realm_fresh_def fresh_id_def)
    have "us_id u \<notin> us_id ` set (re_users r)" using assms(1) u(1) unfolding realm_ok_def by fastforce
    then have "realm_ok r1" using assms(1) u unfolding realm_ok_def by (auto simp: rows less_Suc_eq)
    moreover have "later r r1" by (rule later_users) (use after_refl(1) in \<open>auto simp: rows\<close>)
    ultimately have first: "keeps r r1" by (simp add: keeps_def)
    have "keeps r1 r'"
      unfolding r' by (rule keeps_create_token) (use first assms(2) in \<open>auto simp: keeps_def rows unused_token_def\<close>)
    then show ?thesis using keeps_trans [OF first] by blast
  qed
  then show ?thesis
    using keeps_refl [OF assms(1)] by (auto simp: register_def run_tx_def split: sum.split)
qed

lemma unused_later:
  "unused_token lib raw r \<Longrightarrow> map rt_hash (re_tokens r') = map rt_hash (re_tokens r) \<Longrightarrow> unused_token lib raw r'"
  by (simp add: unused_token_def)

lemma keeps_login:
  assumes "realm_ok r" "us_id u \<in> us_id ` set (re_users r)" "unused_token lib raw r"
  shows "keeps r (snd (login_finish lib u password raw ttl now r))"
proof -
  have up: "keeps r r'" if "update_user (us_id u) (\<lambda>u. u\<lparr>us_failed := f u\<rparr>) r = Inr (x, r')" for f x r'
    by (rule keeps_update_user [OF assms(1) that]) (simp add: user_after_def)
  have create: "keeps r' (create_refresh_token lib (us_id u) raw e r')"
    if k: "keeps r r'" and "re_tokens r' = re_tokens r" for r' e
    by (rule keeps_create_token)
      (use k that(2) assms(2,3) later_ids(1) [of r r'] in \<open>auto simp: keeps_def unused_token_def\<close>)
  have failed: "keeps r (snd (run_tx (update_user (us_id u) (\<lambda>u. u\<lparr>us_failed := f u\<rparr>)) r))" for f
    by (rule run_tx_keeps [OF assms(1)]) (rule up)
  have same: "re_tokens (snd (run_tx (update_user (us_id u) (\<lambda>u. u\<lparr>us_failed := f u\<rparr>)) r)) = re_tokens r" for f
    by (auto simp: run_tx_def update_user_def split: sum.split)
  show ?thesis
  proof (cases "compare_password lib password (us_password u)")
    case False
    then show ?thesis using failed [of "\<lambda>u. us_failed u + 1"]
      by (auto simp: login_finish_def split: sum.splits prod.splits)
  next
    case True
    show ?thesis
    proof (cases "us_failed u = 0")
      case True
      then show ?thesis using \<open>compare_password lib password (us_password u)\<close> create [OF keeps_refl [OF assms(1)]]
        by (simp add: login_finish_def)
    next
      case False
      obtain x r1 where tx: "run_tx (update_user (us_id u) (\<lambda>u. u\<lparr>us_failed := 0\<rparr>)) r = (x, r1)"
        by (cases "run_tx (update_user (us_id u) (\<lambda>u. u\<lparr>us_failed := 0\<rparr>)) r")
      then have "keeps r r1" "re_tokens r1 = re_tokens r"
        using failed [of "\<lambda>_. 0"] same [of "\<lambda>_. 0"] by simp_all
      then show ?thesis using False \<open>compare_password lib password (us_password u)\<close> tx create keeps_trans
        by (fastforce simp: login_finish_def split: sum.splits)
    qed
  qed
qed

lemma keeps_update_token:
  assumes "realm_ok r" "update_token i f r = Inr r'" "\<And>t. token_after t (f t)" "\<And>t. rt_revoked (f t) \<noteq> None"
  shows "keeps r r'"
  using assms keeps_tokens [OF assms(1,3)] by (auto simp: update_token_def)

lemma keeps_refresh_read:
  assumes "realm_ok r" "refresh_read lib raw now r = (x, r')"
  shows "keeps r r' \<and> (case x of Inl _ \<Rightarrow> True | Inr (t, u) \<Rightarrow> r' = r \<and> pending_ok r (PendingRefresh t u))"
proof -
  have expired: "keeps r r1" if "update_token i (\<lambda>t. t\<lparr>rt_revoked := Some now\<rparr>) r = Inr r1" for i r1
    by (rule keeps_update_token [OF assms(1) that]) (simp_all add: token_after_def)
  have reused: "keeps r (snd (run_tx (end_all_sessions user now) r))" for user
    by (rule run_tx_keeps [OF assms(1)]) (rule keeps_end_all [OF assms(1)])
  show ?thesis
  proof (cases raw)
    case (Some s)
    show ?thesis
    proof (cases "find_token lib s r")
      case None
      then show ?thesis using assms Some keeps_refl [OF assms(1)] by (auto simp: refresh_read_def split: if_splits)
    next
      case (Some t)
      note t = find_token_in [OF Some]
      show ?thesis
        using assms(2) \<open>raw = Some s\<close> Some keeps_refl [OF assms(1)] expired reused [of "rt_user t"] t
        by (auto simp: refresh_read_def split: if_splits sum.splits prod.splits option.splits dest: find_user_in)
    qed
  qed (use assms keeps_refl in \<open>auto simp: refresh_read_def\<close>)
qed

lemma keeps_refresh_finish:
  assumes "realm_ok r" "pending_ok r (PendingRefresh t u)" "unused_token lib raw r"
  shows "keeps r (snd (refresh_finish lib t u raw ttl now r))"
proof -
  have "keeps r r'" if tx: "rotate_tx lib t u raw e now r = Inr (x, r')" for e x r'
  proof -
    have first: "keeps r (create_refresh_token lib (us_id u) raw e r)"
      by (rule keeps_create_token) (use assms in auto)
    have "update_token (rt_id t) (\<lambda>t. t\<lparr>rt_revoked := Some now, rt_replaced := Some (realm_fresh r)\<rparr>)
        (create_refresh_token lib (us_id u) raw e r) = Inr r'"
      using tx by (auto simp: rotate_tx_def)
    then have "keeps (create_refresh_token lib (us_id u) raw e r) r'"
      by (rule keeps_update_token [rotated]) (use first in \<open>auto simp: keeps_def token_after_def\<close>)
    then show ?thesis using keeps_trans [OF first] by blast
  qed
  then show ?thesis
    using keeps_refl [OF assms(1)] by (auto simp: refresh_finish_def run_tx_def split: sum.split)
qed

lemma keeps_logout: "realm_ok r \<Longrightarrow> keeps r (snd (logout lib user raw now r))"
  by (auto simp: logout_def keeps_refl keeps_revoke split: option.split)

lemma keeps_logout_all: "realm_ok r \<Longrightarrow> keeps r (snd (logout_all user now r))"
  using run_tx_keeps [of r "end_all_sessions user now"] keeps_end_all
  by (auto simp: logout_all_def split: sum.splits prod.splits)

lemma keeps_request_reset:
  assumes "realm_ok r"
  shows "keeps r (snd (request_password_reset lib frontend email raw nonce now r))"
proof -
  have "keeps r r'" if tx: "request_reset_tx lib frontend u raw nonce now r = Inr (x, r')" for u x r'
  proof -
    obtain u1 r1 db where up: "update_user (us_id u) (\<lambda>u. u\<lparr>us_reset_hash := Some (hash_reset_token lib raw),
        us_reset_expires := Some (now + password_reset_ttl)\<rparr>) r = Inr (u1, r1)"
      and r': "r' = on_market (\<lambda>m. m\<lparr>mk_shop := db\<rparr>) r1" and db: "next_id (mk_shop (realm_market r1)) \<le> next_id db"
      using tx by (auto simp: request_reset_tx_def on_shop_result_def enqueue_outbox_event_def split: if_splits)
    have first: "keeps r r1" by (rule keeps_update_user [OF assms up]) (simp add: user_after_def)
    have "keeps r1 r'"
      by (rule keeps_same) (use first r' db in \<open>auto simp: keeps_def realm_fresh_market realm_market_def on_market_def\<close>)
    then show ?thesis using keeps_trans [OF first] by blast
  qed
  then have "keeps r (snd (run_tx (request_reset_tx lib frontend u raw nonce now) r))" for u
    by (rule run_tx_keeps [OF assms])
  then show ?thesis
    using keeps_refl [OF assms] by (auto simp: request_password_reset_def split: option.split)
qed

lemma keeps_reset:
  assumes "realm_ok r" "reset_tx u h now r = Inr (x, r')"
  shows "keeps r r'"
proof -
  obtain u1 r1 where up: "update_user (us_id u) (reset_user h) r = Inr (u1, r1)"
    and r': "r' = revoke_tokens (\<lambda>t. rt_user t = us_id u) now r1"
    using assms(2) by (auto simp: reset_tx_def)
  have first: "keeps r r1" by (rule keeps_update_user [OF assms(1) up]) (simp add: user_after_def reset_user_def)
  then show ?thesis unfolding r' by (rule keeps_trans) (rule keeps_revoke, use first in \<open>simp add: keeps_def\<close>)
qed

lemma keeps_profile:
  assumes "realm_ok r" "update_profile i dto r = Inr (v, r')"
  shows "keeps r r'"
proof -
  obtain u where "update_user i (\<lambda>u. u\<lparr>us_address := patch_address dto (us_address u)\<rparr>) r = Inr (u, r')"
    using assms(2) by (auto simp: update_profile_def)
  then show ?thesis by (rule keeps_update_user [OF assms(1)]) (simp add: user_after_def)
qed

section \<open>Histories\<close>

lemma reset_read_pending: "reset_read lib token now r = Inr u \<Longrightarrow> pending_ok r (PendingReset u)"
  by (auto simp: reset_read_def dest: find_SomeD)

lemma login_read_pending: "login_read email r = Inr u \<Longrightarrow> pending_ok r (PendingLogin u)"
  by (auto simp: login_read_def find_by_email_def split: option.splits if_splits dest: find_SomeD)

lemma auth_step_keeps:
  assumes "auth_step lib x y" "realm_ok (snd x)" "\<And>q. q \<in> set (fst x) \<Longrightarrow> pending_ok (snd x) q"
  shows "keeps (snd x) (snd y) \<and> (\<forall>q \<in> set (fst y). pending_ok (snd x) q)"
  using assms
proof (cases rule: auth_step.cases)
  case (register raw r p email password salt ttl now)
  then show ?thesis using assms by (auto intro: keeps_register)
next
  case (login_begin email r u p)
  then show ?thesis using assms keeps_refl login_read_pending by auto
next
  case (login_end u p raw r password ttl now)
  then show ?thesis using assms keeps_login by fastforce
next
  case (refresh_begin raw now r t u r1 p)
  then show ?thesis using assms keeps_refresh_read [of r lib raw now "Inr (t, u)" r1] by auto
next
  case (refresh_refused raw now r e r1 p)
  then show ?thesis using assms keeps_refresh_read [of r lib raw now "Inl e" r1] by auto
next
  case (refresh_end t u p raw r ttl now)
  then show ?thesis using assms keeps_refresh_finish by fastforce
next
  case (logout p r user raw now)
  then show ?thesis using assms keeps_logout by auto
next
  case (logout_all p r user now)
  then show ?thesis using assms keeps_logout_all by auto
next
  case (reset_request p r frontend email raw nonce now)
  then show ?thesis using assms keeps_request_reset by auto
next
  case (reset_begin token now r u p)
  then show ?thesis using assms keeps_refl reset_read_pending by auto
next
  case (reset_end u p r salt password now)
  then show ?thesis using assms by (auto intro!: run_tx_keeps intro: keeps_reset)
next
  case (profile p r i dto)
  then show ?thesis using assms by (auto intro!: run_tx_keeps intro: keeps_profile)
next
  case (rest r r' p)
  then show ?thesis using assms by (auto simp: rest_moves_def intro: keeps_same)
qed

lemma auth_steps_keep:
  assumes "auth_steps lib x y" "realm_ok (snd x)" "\<And>q. q \<in> set (fst x) \<Longrightarrow> pending_ok (snd x) q"
  shows "keeps (snd x) (snd y) \<and> (\<forall>q \<in> set (fst y). pending_ok (snd y) q)"
  using assms unfolding auth_steps_def
proof (induction rule: rtranclp_induct)
  case base
  then show ?case using keeps_refl by blast
next
  case (step y z)
  then have y: "keeps (snd x) (snd y)" "\<And>q. q \<in> set (fst y) \<Longrightarrow> pending_ok (snd y) q" by blast+
  have "keeps (snd y) (snd z) \<and> (\<forall>q \<in> set (fst z). pending_ok (snd y) q)"
    using auth_step_keeps [OF step.hyps(2)] y by (simp add: keeps_def)
  then show ?case using keeps_trans [OF y(1)] later_pending unfolding keeps_def by blast
qed

lemma auth_reachable_ok:
  assumes "auth_reachable lib (p, r)"
  shows "realm_ok r" "q \<in> set p \<Longrightarrow> pending_ok r q"
proof -
  obtain r0 where r0: "re_users r0 = []" "re_tokens r0 = []" "auth_steps lib ([], r0) (p, r)"
    using assms by (auto simp: auth_reachable_def)
  then have "realm_ok r0" by (simp add: realm_ok_def)
  then show "realm_ok r" "q \<in> set p \<Longrightarrow> pending_ok r q"
    using auth_steps_keep [OF r0(3)] by (auto simp: keeps_def)
qed

end
