(* ===== verification/SessionProperties.thy ===== *)
theory SessionProperties
  imports SessionReach
begin

text \<open>
  What logging out, rotation and reuse detection promise, and three ways in which a session outlives
  its end; what an admitted request may rely on; and the owners of a tenant.
\<close>

section \<open>A concrete realm\<close>

definition sample_auth_lib :: auth_lib where
  "sample_auth_lib =
     \<lparr>hash_password = (\<lambda>salt p. salt @ p), compare_password = (\<lambda>p h. h = ''salt'' @ p),
      hash_refresh_token = (\<lambda>s. ''r'' @ s), hash_reset_token = (\<lambda>s. ''s'' @ s)\<rparr>"

definition sample_realm_site :: site where
  "sample_realm_site =
     \<lparr>st_market =
        \<lparr>mk_shop = \<lparr>orders = [], order_items = [], attempts = [], refunds = [], histories = [], outbox = [],
           audits = [], webhooks = [], user_email = (\<lambda>_. None), memberships = (\<lambda>_ _. None),
           order_counter = None, next_id = 1\<rparr>,
         categories = [], products = [], variants = [], custom_fields = [], images = [], uploads = [],
         carts = [], cart_items = [], cart_customs = [], coupons = [], coupon_usages = [], usages = [],
         billing = \<lparr>subs = [], sub_events = [], plans = [], bd_idem = [], bd_next = 1\<rparr>,
         entitle = \<lparr>cat_features = [], cat_limits = [], cat_overrides = []\<rparr>,
         storefronts = [\<lparr>sf_id = 5, sf_tenant = 1, sf_primary = True\<rparr>],
         tenant_status_of = (\<lambda>_. Some TenantActive),
         store_settings = (\<lambda>_ _. None), tenant_settings = (\<lambda>_ _. None)\<rparr>,
      st_domains = [], st_failures = [], st_platform_log = [], st_cache = (\<lambda>_. None),
      st_store_status = (\<lambda>_. Some StoreActive), st_store_tenant = (\<lambda>_. Some 1), st_latest_tenant = Some 1\<rparr>"

definition sample_realm :: realm where
  "sample_realm = \<lparr>re_site = sample_realm_site, re_users = [], re_tokens = [], re_members = [], re_support = []\<rparr>"

definition sample_registered :: realm where
  "sample_registered = snd (register sample_auth_lib ''Ann@x.in'' ''secret'' ''salt'' ''one'' 1000 0 sample_realm)"

definition sample_rotated :: realm where
  "sample_rotated = snd (refresh sample_auth_lib (Some ''one'') ''two'' 1000 1 sample_registered)"

definition sample_user :: user_row where
  "sample_user = hd (re_users sample_registered)"

definition sample_token :: refresh_row where
  "sample_token = hd (re_tokens sample_registered)"

lemma sample_refresh_read:
  "refresh_read sample_auth_lib (Some ''one'') 1 sample_registered = (Inr (sample_token, sample_user), sample_registered)"
proof -
  have "find_token sample_auth_lib ''one'' sample_registered = Some sample_token" by code_simp
  moreover have "rt_revoked sample_token = None" "\<not> rt_expires sample_token < 1" by code_simp+
  moreover have "find_user (rt_user sample_token) sample_registered = Some sample_user" by code_simp
  moreover have "us_active sample_user" by code_simp
  ultimately show ?thesis by (simp add: refresh_read_def)
qed

lemma sample_registered_reachable: "auth_reachable sample_auth_lib ([], sample_registered)"
proof -
  have "auth_step sample_auth_lib ([], sample_realm) ([], sample_registered)"
    unfolding sample_registered_def
    by (rule auth_step.register) (simp add: unused_token_def sample_realm_def)
  then show ?thesis
    unfolding auth_reachable_def auth_steps_def
    by (intro exI [of _ sample_realm]) (auto simp: sample_realm_def)
qed

section \<open>Ending sessions\<close>

lemma later_user:
  assumes "realm_ok r'" "later r r'" "find_user i r = Some u"
  shows "\<exists>u'. find_user i r' = Some u' \<and> us_version u \<le> us_version u'"
proof -
  obtain u' where "u' \<in> set (re_users r')" "user_after u u'"
    using assms(2) find_user_in [OF assms(3)] unfolding later_def by blast
  then show ?thesis
    using find_user_key [OF assms(1)] find_user_in [OF assms(3)] by (auto simp: user_after_def)
qed

lemma find_token_key:
  assumes "realm_ok r" "t \<in> set (re_tokens r)" "rt_hash t = hash_refresh_token lib raw"
  shows "find_token lib raw r = Some t"
  using assms find_key [of rt_hash "re_tokens r" t] by (simp add: find_token_def realm_ok_def)

lemma validate_Inr:
  "validate_token tok r = Inr a \<longleftrightarrow>
     (\<exists>u. find_user (at_sub tok) r = Some u \<and> us_active u \<and> us_version u = at_version tok \<and>
        a = \<lparr>an_id = us_id u, an_email = us_email u, an_role = us_role u, an_super_admin = us_super_admin u,
             an_members = map (\<lambda>m. (mb_tenant m, mb_role m))
               (filter (\<lambda>m. mb_user m = us_id u \<and> mb_status m = MemberActive) (re_members r))\<rparr>)"
  by (auto simp: validate_token_def)

lemma validate_Inl: "validate_token tok r \<noteq> Inr a \<Longrightarrow> (\<And>b. validate_token tok r \<noteq> Inr b) \<Longrightarrow>
    validate_token tok r = Inl (Unauthorized ''Unauthorized'')"
  by (cases "validate_token tok r") (auto simp: validate_token_def then_do_Inl)

lemma end_all_sessions_works:
  assumes "find_user user r = Some u"
  shows "end_all_sessions user now r =
    Inr ((), (revoke_tokens (\<lambda>t. rt_user t = user) now r)
      \<lparr>re_users := update_rows (\<lambda>u. us_id u = user) bump_version (re_users r)\<rparr>)"
  using assms by (simp add: end_all_sessions_def update_user_def find_user_def revoke_tokens_def or_throw_def)

lemma end_all_sessions_finds:
  assumes "end_all_sessions user now r = Inr ((), r1)"
  shows "\<exists>u. find_user user r = Some u"
proof -
  have "find_user user (revoke_tokens (\<lambda>t. rt_user t = user) now r) = find_user user r"
    by (simp add: find_user_def revoke_tokens_def)
  then show ?thesis
    using assms by (cases "find_user user r") (simp_all add: end_all_sessions_def update_user_def)
qed

lemma revoked_rows:
  assumes "t \<in> set (re_tokens (revoke_tokens (\<lambda>t. rt_user t = user) now r))" "rt_user t = user"
  shows "rt_revoked t \<noteq> None"
proof -
  have "t \<in> (\<lambda>t. if rt_user t = user \<and> rt_revoked t = None then t\<lparr>rt_revoked := Some now\<rparr> else t) ` set (re_tokens r)"
    using assms(1) by (simp add: revoke_tokens_def update_rows_def)
  then show ?thesis using assms(2) by (cases t) (fastforce split: if_splits)
qed

lemma ended:
  assumes "end_all_sessions user now r = Inr ((), r1)"
  shows "\<exists>u. find_user user r = Some u \<and> find_user user r1 = Some (bump_version u)"
    "t \<in> set (re_tokens r1) \<Longrightarrow> rt_user t = user \<Longrightarrow> rt_revoked t \<noteq> None"
proof -
  obtain u where u: "find_user user r = Some u" using end_all_sessions_finds [OF assms] by blast
  have r1: "r1 = (revoke_tokens (\<lambda>t. rt_user t = user) now r)
      \<lparr>re_users := update_rows (\<lambda>u. us_id u = user) bump_version (re_users r)\<rparr>"
    using end_all_sessions_works [OF u] assms by simp
  have "find_user user r1 = Some (bump_version u)"
    using u find_user_in [OF u] by (simp add: find_user_def r1 find_key_update bump_version_def)
  then show "\<exists>u. find_user user r = Some u \<and> find_user user r1 = Some (bump_version u)" using u by blast
  assume "t \<in> set (re_tokens r1)" "rt_user t = user"
  then show "rt_revoked t \<noteq> None"
    using revoked_rows [of t user now r] by (simp add: r1)
qed

lemma refresh_revoked:
  assumes "realm_ok r" "find_token lib raw r = Some t" "rt_revoked t \<noteq> None" "raw \<noteq> ''''"
  shows "\<exists>r1. end_all_sessions (rt_user t) now r = Inr ((), r1) \<and>
    refresh lib (Some raw) new ttl now r = ((Inl (Unauthorized reuse_message), CookieCleared), r1)"
proof -
  obtain u where "find_user (rt_user t) r = Some u"
    using find_user_exists [OF assms(1)] find_token_in [OF assms(2)] assms(1) unfolding realm_ok_def by blast
  then show ?thesis
    using assms(2-4) end_all_sessions_works by (simp add: refresh_def refresh_read_def run_tx_def)
qed

text \<open>
  C8. Presenting a refresh token that was rotated or revoked before is answered with 401 and ends
  every session of its user: afterwards all refresh tokens of the user are revoked and no access
  token that was valid before is accepted - in every state that any interleaving of registrations,
  logins, refreshes, logouts and resets reaches.
\<close>

theorem reused_token_ends_all_sessions:
  assumes "auth_reachable lib (p, r)" "find_token lib raw r = Some t" "rt_revoked t \<noteq> None" "raw \<noteq> ''''"
    "refresh lib (Some raw) new ttl now r = (x, r1)"
  shows "x = (Inl (Unauthorized reuse_message), CookieCleared) \<and>
    (\<forall>t' \<in> set (re_tokens r1). rt_user t' = rt_user t \<longrightarrow> rt_revoked t' \<noteq> None) \<and>
    (validate_token tok r = Inr a \<and> at_sub tok = rt_user t \<longrightarrow>
       validate_token tok r1 = Inl (Unauthorized ''Unauthorized''))"
proof -
  have ok: "realm_ok r" by (rule auth_reachable_ok(1) [OF assms(1)])
  obtain r2 where e: "end_all_sessions (rt_user t) now r = Inr ((), r2)" "x = (Inl (Unauthorized reuse_message), CookieCleared)" "r1 = r2"
    using refresh_revoked [OF ok assms(2-4), of now new ttl] assms(5) by auto
  note ended = ended [OF e(1)]
  have "validate_token tok r1 = Inl (Unauthorized ''Unauthorized'')"
    if v: "validate_token tok r = Inr a" and s: "at_sub tok = rt_user t"
  proof -
    obtain u where "find_user (at_sub tok) r = Some u" "us_version u = at_version tok"
      "find_user (at_sub tok) r1 = Some (bump_version u)"
      using ended(1) v e(3) unfolding validate_Inr s by auto
    then have "validate_token tok r1 \<noteq> Inr b" for b by (auto simp: validate_Inr bump_version_def)
    then show ?thesis using validate_Inl by blast
  qed
  then show ?thesis using e(2,3) ended(2) by blast
qed

theorem reused_token_ends_all_sessions_witness:
  "fst (refresh sample_auth_lib (Some ''one'') ''three'' 1000 2 sample_rotated) =
     (Inl (Unauthorized reuse_message), CookieCleared)"
proof -
  note x = sample_refresh_read
  have unused: "unused_token sample_auth_lib ''two'' sample_registered"
    unfolding unused_token_def by code_simp
  have rotated: "sample_rotated = snd (refresh_finish sample_auth_lib sample_token sample_user ''two'' 1000 1 sample_registered)"
    by (simp add: sample_rotated_def refresh_def x)
  have "auth_steps sample_auth_lib ([], sample_registered) ([PendingRefresh sample_token sample_user], sample_rotated)"
    unfolding auth_steps_def rotated
    by (meson auth_step.refresh_begin [OF x] auth_step.refresh_end list.set_intros(1) unused
        converse_rtranclp_into_rtranclp rtranclp.rtrancl_refl)
  then have reach: "auth_reachable sample_auth_lib ([PendingRefresh sample_token sample_user], sample_rotated)"
    by (rule auth_reachable_steps [OF sample_registered_reachable])
  have "map_option (\<lambda>t. rt_revoked t \<noteq> None) (find_token sample_auth_lib ''one'' sample_rotated) = Some True"
    by code_simp
  then obtain t1 where "find_token sample_auth_lib ''one'' sample_rotated = Some t1" "rt_revoked t1 \<noteq> None" by auto
  then show ?thesis
    using reused_token_ends_all_sessions [OF reach]
    by (metis list.distinct(1) prod.collapse)
qed

text \<open>
  C9. Logging out everywhere is final for what existed: however requests that were under way and all
  later ones interleave, an access token that was accepted before is refused ever after, and a
  refresh token from before is answered as a reused one.
\<close>

theorem ended_sessions_stay_ended:
  assumes "auth_reachable lib (p, r)" "logout_all user now r = ((Inr (), c), r1)"
    "auth_steps lib (p, r1) (p', r')" "validate_token tok r = Inr a" "at_sub tok = user"
    "find_token lib raw r = Some t" "rt_user t = user" "raw \<noteq> ''''"
  shows "validate_token tok r' = Inl (Unauthorized ''Unauthorized'') \<and>
    fst (refresh lib (Some raw) new ttl later_on r') = (Inl (Unauthorized reuse_message), CookieCleared)"
proof -
  have ok: "realm_ok r" by (rule auth_reachable_ok(1) [OF assms(1)])
  have e: "end_all_sessions user now r = Inr ((), r1)"
    using assms(2) by (auto simp: logout_all_def run_tx_def split: sum.splits)
  have "auth_steps lib (p, r) (p, r1)"
    unfolding auth_steps_def using auth_step.logout_all [of lib p r user now] assms(2) by auto
  then have reach1: "auth_reachable lib (p, r1)" by (rule auth_reachable_steps [OF assms(1)])
  have ok1: "realm_ok r1" by (rule auth_reachable_ok(1) [OF reach1])
  have k: "realm_ok r'" "later r1 r'"
    using auth_steps_keep [OF assms(3)] auth_reachable_ok [OF reach1] by (auto simp: keeps_def)
  obtain u where u: "find_user user r = Some u" "find_user user r1 = Some (bump_version u)"
    using ended(1) [OF e] by blast
  obtain u' where u': "find_user user r' = Some u'" "us_version u < us_version u'"
    using later_user [OF k u(2)] by (auto simp: bump_version_def)
  have "us_version u = at_version tok" using assms(4,5) u(1) by (auto simp: validate_Inr)
  then have "validate_token tok r' \<noteq> Inr b" for b using u' assms(5) by (auto simp: validate_Inr)
  then have refused: "validate_token tok r' = Inl (Unauthorized ''Unauthorized'')" using validate_Inl by blast
  have "later r r1" using keeps_end_all [OF ok e] by (simp add: keeps_def)
  then obtain t1 where t1: "t1 \<in> set (re_tokens r1)" "token_after t t1"
    using find_token_in [OF assms(6)] unfolding later_def by blast
  then obtain t' where t': "t' \<in> set (re_tokens r')" "token_after t1 t'" using k(2) unfolding later_def by blast
  have "rt_revoked t1 \<noteq> None" using ended(2) [OF e t1(1)] t1(2) assms(7) by (simp add: token_after_def)
  then have "rt_revoked t' \<noteq> None" "rt_hash t' = hash_refresh_token lib raw"
    using t'(2) t1(2) find_token_in [OF assms(6)] by (auto simp: token_after_def)
  then have "\<exists>r2. refresh lib (Some raw) new ttl later_on r' = ((Inl (Unauthorized reuse_message), CookieCleared), r2)"
    using refresh_revoked [OF k(1) find_token_key [OF k(1) t'(1)] _ assms(8)] by blast
  then show ?thesis using refused by auto
qed

theorem ended_sessions_stay_ended_witness:
  "fst (refresh sample_auth_lib (Some ''one'') ''two'' 1000 3 (snd (logout_all (us_id sample_user) 2 sample_registered))) =
     (Inl (Unauthorized reuse_message), CookieCleared)"
proof -
  let ?tok = "tk_access (tokens_for sample_user)"
  let ?r1 = "snd (logout_all (us_id sample_user) 2 sample_registered)"
  have "fst (logout_all (us_id sample_user) 2 sample_registered) = (Inr (), CookieCleared)" by code_simp
  then have "logout_all (us_id sample_user) 2 sample_registered = ((Inr (), CookieCleared), ?r1)"
    by (metis prod.collapse)
  moreover have "auth_steps sample_auth_lib ([], ?r1) ([], ?r1)" by (simp add: auth_steps_def)
  moreover have "\<not> isl (validate_token ?tok sample_registered)" by code_simp
  then obtain a where "validate_token ?tok sample_registered = Inr a" by (cases "validate_token ?tok sample_registered") simp_all
  moreover have "at_sub ?tok = us_id sample_user" by code_simp
  moreover have "find_token sample_auth_lib ''one'' sample_registered = Some sample_token" by code_simp
  moreover have "rt_user sample_token = us_id sample_user" by code_simp
  ultimately show ?thesis
    using ended_sessions_stay_ended [OF sample_registered_reachable] by blast
qed

text \<open>A refresh that has read its rows completes: the new token is there and live.\<close>

lemma refresh_finish_works:
  assumes "realm_ok r" "pending_ok r (PendingRefresh t u)" "unused_token lib raw r"
  shows "\<exists>r2. refresh_finish lib t u raw ttl now r = ((Inr (tokens_for u), CookieSet raw (now + ttl)), r2) \<and>
    re_users r2 = re_users r \<and> re_members r2 = re_members r \<and>
    find_token lib raw r2 = Some (new_refresh_row lib (us_id u) raw (now + ttl) (realm_fresh r)) \<and>
    {x \<in> set (re_tokens r). rt_id x \<noteq> rt_id t} \<subseteq> set (re_tokens r2)"
proof -
  define n where "n = new_refresh_row lib (us_id u) raw (now + ttl) (realm_fresh r)"
  define r1 where "r1 = create_refresh_token lib (us_id u) raw (now + ttl) r"
  define f :: "refresh_row \<Rightarrow> refresh_row" where "f = (\<lambda>t. t\<lparr>rt_revoked := Some now, rt_replaced := Some (realm_fresh r)\<rparr>)"
  define r2 where "r2 = r1\<lparr>re_tokens := update_rows (\<lambda>x. rt_id x = rt_id t) f (re_tokens r1)\<rparr>"
  have r1: "re_tokens r1 = re_tokens r @ [n]" "re_users r1 = re_users r" "re_members r1 = re_members r"
    by (simp_all add: r1_def n_def create_refresh_token_def)
  obtain x where x: "x \<in> set (re_tokens r)" "rt_id x = rt_id t" using assms(2) by auto
  have "List.find (\<lambda>x. rt_id x = rt_id t) (re_tokens r1) \<noteq> None"
    using x by (auto simp: r1 find_None_iff)
  then have tx: "rotate_tx lib t u raw (now + ttl) now r = Inr ((), r2)"
    by (auto simp: rotate_tx_def update_token_def r1_def [symmetric] r2_def f_def)
  have "rt_id t < realm_fresh r" using x assms(1) unfolding realm_ok_def by auto
  moreover have "List.find (\<lambda>x. rt_hash x = hash_refresh_token lib raw) (re_tokens r) = None"
    using assms(3) by (auto simp: unused_token_def find_None_iff image_iff)
  moreover have "find_token lib raw r2 = map_option (\<lambda>x. if rt_id x = rt_id t then f x else x)
      (List.find (\<lambda>x. rt_hash x = hash_refresh_token lib raw) (re_tokens r @ [n]))"
    using find_key_update [of "\<lambda>x. rt_id x = rt_id t" rt_hash f "hash_refresh_token lib raw" "re_tokens r1"]
    by (simp only: find_token_def r2_def refresh_row.simps realm.simps) (simp add: r1 f_def)
  ultimately have "find_token lib raw r2 = Some n"
    by (simp add: find_append n_def new_refresh_row_def)
  moreover have "{x \<in> set (re_tokens r). rt_id x \<noteq> rt_id t} \<subseteq> set (re_tokens r2)"
    by (auto simp: r2_def r1 update_rows_def image_iff)
  ultimately show ?thesis
    using tx by (simp add: refresh_finish_def run_tx_def r2_def r1 n_def)
qed

text \<open>A client that holds the token gets a new pair, and the access token of it is accepted.\<close>

definition session_continues :: "auth_lib \<Rightarrow> string \<Rightarrow> string \<Rightarrow> instant \<Rightarrow> instant \<Rightarrow> uuid \<Rightarrow> realm \<Rightarrow> bool" where
  "session_continues lib raw new ttl now user r \<longleftrightarrow>
     (case refresh lib (Some raw) new ttl now r of
        ((Inr tk, _), r1) \<Rightarrow> (case validate_token (tk_access tk) r1 of Inr a \<Rightarrow> an_id a = user | Inl _ \<Rightarrow> False)
      | _ \<Rightarrow> False)"

lemma live_token_continues:
  assumes "realm_ok r" "find_token lib raw r = Some t" "rt_revoked t = None" "now \<le> rt_expires t" "raw \<noteq> ''''"
    "find_user (rt_user t) r = Some v" "us_active v" "unused_token lib new r"
  shows "session_continues lib raw new ttl now (rt_user t) r"
proof -
  note v = find_user_in [OF assms(6)]
  have pend: "pending_ok r (PendingRefresh t v)"
    using v find_token_in [OF assms(2)] by (auto intro: rev_image_eqI)
  obtain r2 where r2: "refresh_finish lib t v new ttl now r = ((Inr (tokens_for v), CookieSet new (now + ttl)), r2)"
    "re_users r2 = re_users r" using refresh_finish_works [OF assms(1) pend assms(8)] by blast
  have "refresh lib (Some raw) new ttl now r = ((Inr (tokens_for v), CookieSet new (now + ttl)), r2)"
    using assms(2-7) r2(1) by (simp add: refresh_def refresh_read_def)
  moreover have "find_user (us_id v) r2 = Some v" using assms(6) v r2(2) by (simp add: find_user_def)
  ultimately show ?thesis
    using assms(7) v by (simp add: session_continues_def validate_token_def tokens_for_def sign_access_token_def or_throw_def require_def)
qed

section \<open>Sessions that outlive their end\<close>

text \<open>
  C39. A refresh that has read its token when the user logs out everywhere, and writes after it, undoes
  the logout: the token that it creates is not revoked, and the client that holds it gets a working
  session. The rotation does not ask whether the token that it replaces is still live.
\<close>

theorem refresh_in_flight_survives_logout:
  assumes "auth_reachable lib (p, r)" "PendingRefresh t u \<in> set p" "find_user (us_id u) r = Some v" "us_active v"
    "logout_all (us_id u) now r = ((Inr (), c), r1)"
    "unused_token lib raw r1" "refresh_finish lib t u raw ttl late r1 = (x, r2)"
    "raw \<noteq> ''''" "again \<le> late + ttl" "unused_token lib new r2"
  shows "session_continues lib raw new ttl again (us_id u) r2"
proof -
  have ok: "realm_ok r" by (rule auth_reachable_ok(1) [OF assms(1)])
  have e: "end_all_sessions (us_id u) now r = Inr ((), r1)"
    using assms(5) by (auto simp: logout_all_def run_tx_def split: sum.splits)
  have k: "realm_ok r1" "later r r1" using keeps_end_all [OF ok e] by (simp_all add: keeps_def)
  have pend: "pending_ok r1 (PendingRefresh t u)"
    using auth_reachable_ok(2) [OF assms(1)] assms(2) later_pending [OF k(2)] by blast
  have r2: "re_users r2 = re_users r1"
    "find_token lib raw r2 = Some (new_refresh_row lib (us_id u) raw (late + ttl) (realm_fresh r1))"
    using refresh_finish_works [OF k(1) pend assms(6), of ttl late] assms(7) by auto
  have ok2: "realm_ok r2"
    using keeps_refresh_finish [OF k(1) pend assms(6), of ttl late] assms(7) by (simp add: keeps_def)
  have "find_user (us_id u) r2 = Some (bump_version v)"
    using ended(1) [OF e] assms(3) r2(1) by (simp add: find_user_def)
  moreover have "us_active (bump_version v)" using assms(4) by (simp add: bump_version_def)
  ultimately show ?thesis
    using live_token_continues [OF ok2 r2(2), of again "bump_version v" new ttl] assms(8-10)
    by (simp add: new_refresh_row_def)
qed

theorem refresh_in_flight_survives_logout_witness:
  "session_continues sample_auth_lib ''two'' ''three'' 1000 4 (us_id sample_user)
     (snd (refresh_finish sample_auth_lib sample_token sample_user ''two'' 1000 3
       (snd (logout_all (us_id sample_user) 2 sample_registered))))"
proof -
  let ?r1 = "snd (logout_all (us_id sample_user) 2 sample_registered)"
  have "auth_steps sample_auth_lib ([], sample_registered) ([PendingRefresh sample_token sample_user], sample_registered)"
    unfolding auth_steps_def by (rule r_into_rtranclp) (rule auth_step.refresh_begin [OF sample_refresh_read])
  then have reach: "auth_reachable sample_auth_lib ([PendingRefresh sample_token sample_user], sample_registered)"
    by (rule auth_reachable_steps [OF sample_registered_reachable])
  have "find_user (us_id sample_user) sample_registered = Some sample_user" by code_simp
  moreover have "us_active sample_user" by code_simp
  moreover have "fst (logout_all (us_id sample_user) 2 sample_registered) = (Inr (), CookieCleared)" by code_simp
  then have "logout_all (us_id sample_user) 2 sample_registered = ((Inr (), CookieCleared), ?r1)"
    by (metis prod.collapse)
  moreover have "unused_token sample_auth_lib ''two'' ?r1" unfolding unused_token_def by code_simp
  moreover have "unused_token sample_auth_lib ''three''
      (snd (refresh_finish sample_auth_lib sample_token sample_user ''two'' 1000 3 ?r1))"
    unfolding unused_token_def by code_simp
  ultimately show ?thesis
    by (intro refresh_in_flight_survives_logout [OF reach, of sample_token sample_user sample_user 2 CookieCleared
          ?r1 "''two''" 1000 3 "fst (refresh_finish sample_auth_lib sample_token sample_user ''two'' 1000 3 ?r1)"]) simp_all
qed

text \<open>
  Logging out ends a session only when the refresh token reaches the handler, and a browser never
  sends it there: the cookie's path is the path of the refresh route. After the logout that a browser
  makes, the token still gives a working session; after the same request with the token, it does not.
\<close>

theorem logout_needs_the_cookie:
  assumes "auth_reachable lib (p, r)" "find_token lib raw r = Some t" "rt_revoked t = None" "raw \<noteq> ''''"
    "find_user (rt_user t) r = Some v" "us_active v" "again \<le> rt_expires t" "unused_token lib new r"
  shows "session_continues lib raw new ttl again (rt_user t) (snd (logout_route lib (rt_user t) (Some raw) now r)) \<and>
    \<not> session_continues lib raw new ttl again (rt_user t) (snd (logout lib (rt_user t) (Some raw) now r))"
proof
  have ok: "realm_ok r" by (rule auth_reachable_ok(1) [OF assms(1)])
  have "sent_cookie (Some raw) ''/api/v1/auth/logout'' = None"
    by (simp add: sent_cookie_def path_matches_def refresh_cookie_path_def)
  then have "snd (logout_route lib (rt_user t) (Some raw) now r) = r"
    by (simp add: logout_route_def logout_def)
  then show "session_continues lib raw new ttl again (rt_user t) (snd (logout_route lib (rt_user t) (Some raw) now r))"
    using live_token_continues [OF ok assms(2,3,7,4,5,6,8)] by simp
  let ?r1 = "snd (logout lib (rt_user t) (Some raw) now r)"
  have k: "realm_ok ?r1" using keeps_logout [OF ok] by (simp add: keeps_def)
  have "find_token lib raw ?r1 = Some (t\<lparr>rt_revoked := Some now\<rparr>)"
    using find_key_update [of "\<lambda>x. (rt_hash x = hash_refresh_token lib raw \<and> rt_user x = rt_user t) \<and> rt_revoked x = None"
        rt_hash "\<lambda>x. x\<lparr>rt_revoked := Some now\<rparr>" "hash_refresh_token lib raw" "re_tokens r"]
      assms(2-4) find_token_in [OF assms(2)]
    by (simp add: logout_def revoke_tokens_def find_token_def)
  then show "\<not> session_continues lib raw new ttl again (rt_user t) ?r1"
    using refresh_revoked [OF k, of lib raw _ again new ttl] assms(4) by (fastforce simp: session_continues_def)
qed

theorem logout_needs_the_cookie_witness:
  "session_continues sample_auth_lib ''one'' ''two'' 1000 3 (rt_user sample_token)
     (snd (logout_route sample_auth_lib (rt_user sample_token) (Some ''one'') 2 sample_registered))"
proof -
  have "find_token sample_auth_lib ''one'' sample_registered = Some sample_token" by code_simp
  moreover have "rt_revoked sample_token = None" "3 \<le> rt_expires sample_token" by code_simp+
  moreover have "find_user (rt_user sample_token) sample_registered = Some sample_user" by code_simp
  moreover have "us_active sample_user" by code_simp
  moreover have "unused_token sample_auth_lib ''two'' sample_registered" unfolding unused_token_def by code_simp
  ultimately show ?thesis
    using logout_needs_the_cookie [OF sample_registered_reachable, of "''one''" sample_token sample_user 3 "''two''" 1000 2]
    by simp
qed

text \<open>
  A refresh token is not single use: two refreshes that both read it before either writes both
  succeed, and afterwards both new tokens give working sessions. Nothing is detected as reuse.
\<close>

theorem concurrent_refreshes_fork_session:
  assumes "auth_reachable lib (p, r)" "PendingRefresh t u \<in> set p" "PendingRefresh t u' \<in> set p"
    "find_user (us_id u) r = Some v" "us_active v"
    "unused_token lib raw r" "refresh_finish lib t u raw ttl now r = (x, r1)"
    "unused_token lib raw' r1" "refresh_finish lib t u' raw' ttl now r1 = (x', r2)"
    "raw \<noteq> ''''" "raw' \<noteq> ''''" "again \<le> now + ttl" "unused_token lib new r2"
  shows "session_continues lib raw new ttl again (us_id u) r2 \<and> session_continues lib raw' new ttl again (us_id u) r2"
proof -
  have ok: "realm_ok r" by (rule auth_reachable_ok(1) [OF assms(1)])
  have pend: "pending_ok r (PendingRefresh t u)" "pending_ok r (PendingRefresh t u')"
    using auth_reachable_ok(2) [OF assms(1)] assms(2,3) by blast+
  then have same: "us_id u' = us_id u" by auto
  obtain y where y: "y = new_refresh_row lib (us_id u) raw (now + ttl) (realm_fresh r)" by blast
  have r1: "re_users r1 = re_users r" "find_token lib raw r1 = Some y"
    using refresh_finish_works [OF ok pend(1) assms(6), of ttl now] assms(7) y by auto
  have k1: "realm_ok r1" "later r r1"
    using keeps_refresh_finish [OF ok pend(1) assms(6), of ttl now] assms(7) by (simp_all add: keeps_def)
  have pend1: "pending_ok r1 (PendingRefresh t u')" by (rule later_pending [OF k1(2) pend(2)])
  have r2: "re_users r2 = re_users r1"
    "find_token lib raw' r2 = Some (new_refresh_row lib (us_id u') raw' (now + ttl) (realm_fresh r1))"
    "{x \<in> set (re_tokens r1). rt_id x \<noteq> rt_id t} \<subseteq> set (re_tokens r2)"
    using refresh_finish_works [OF k1(1) pend1 assms(8), of ttl now] assms(9) by auto
  have ok2: "realm_ok r2"
    using keeps_refresh_finish [OF k1(1) pend1 assms(8), of ttl now] assms(9) by (simp add: keeps_def)
  have user: "find_user (us_id u) r2 = Some v" using assms(4) r1(1) r2(1) by (simp add: find_user_def)
  have "rt_id t < realm_fresh r" using pend(1) ok unfolding realm_ok_def by auto
  then have "y \<in> set (re_tokens r2)"
    using r2(3) find_token_in [OF r1(2)] y by (auto simp: new_refresh_row_def)
  then have "find_token lib raw r2 = Some y"
    by (rule find_token_key [OF ok2]) (simp add: y new_refresh_row_def)
  then show ?thesis
    using live_token_continues [OF ok2, of lib raw y again v new ttl] live_token_continues [OF ok2 r2(2), of again v new ttl]
      user assms(5,10-13) same by (simp add: y new_refresh_row_def)
qed

theorem concurrent_refreshes_fork_session_witness:
  "session_continues sample_auth_lib ''two'' ''four'' 1000 4 (us_id sample_user)
     (snd (refresh_finish sample_auth_lib sample_token sample_user ''three'' 1000 2
       (snd (refresh_finish sample_auth_lib sample_token sample_user ''two'' 1000 2 sample_registered))))"
proof -
  let ?f = "refresh_finish sample_auth_lib sample_token sample_user"
  let ?q = "PendingRefresh sample_token sample_user"
  let ?r1 = "snd (?f ''two'' 1000 2 sample_registered)"
  have begins: "auth_step sample_auth_lib (p, sample_registered) (?q # p, sample_registered)" for p
    by (rule auth_step.refresh_begin [OF sample_refresh_read])
  have "auth_steps sample_auth_lib ([], sample_registered) ([?q, ?q], sample_registered)"
    unfolding auth_steps_def by (meson begins converse_rtranclp_into_rtranclp rtranclp.rtrancl_refl)
  then have reach: "auth_reachable sample_auth_lib ([?q, ?q], sample_registered)"
    by (rule auth_reachable_steps [OF sample_registered_reachable])
  have "find_user (us_id sample_user) sample_registered = Some sample_user" by code_simp
  moreover have "us_active sample_user" by code_simp
  moreover have "unused_token sample_auth_lib ''two'' sample_registered" unfolding unused_token_def by code_simp
  moreover have "unused_token sample_auth_lib ''three'' ?r1" unfolding unused_token_def by code_simp
  moreover have "unused_token sample_auth_lib ''four'' (snd (?f ''three'' 1000 2 ?r1))"
    unfolding unused_token_def by code_simp
  ultimately have "session_continues sample_auth_lib ''two'' ''four'' 1000 4 (us_id sample_user) (snd (?f ''three'' 1000 2 ?r1)) \<and>
      session_continues sample_auth_lib ''three'' ''four'' 1000 4 (us_id sample_user) (snd (?f ''three'' 1000 2 ?r1))"
    by (intro concurrent_refreshes_fork_session [OF reach, where t = sample_token and u = sample_user and u' = sample_user
          and v = sample_user and ?r1.0 = ?r1 and x = "fst (?f ''two'' 1000 2 sample_registered)" and ttl = 1000 and now = 2
          and x' = "fst (?f ''three'' 1000 2 ?r1)"]) simp_all
  then show ?thesis by (rule conjunct1)
qed

section \<open>Login\<close>

text \<open>
  Login succeeds exactly when an account with the lower-cased address exists, is active and has the
  password; every failure of it is the same answer, so that it does not tell which of the three it was.
\<close>

theorem login_accepts_exactly_the_password:
  assumes "auth_reachable lib (p, r)"
  shows "fst (login lib email password raw ttl now r) =
    (case find_by_email (to_lower email) r of
       Some u \<Rightarrow>
         if us_active u \<and> compare_password lib password (us_password u)
         then (Inr (tokens_for u), CookieSet raw (now + ttl))
         else (Inl generic_login_error, CookieKept)
     | None \<Rightarrow> (Inl generic_login_error, CookieKept))"
proof (cases "find_by_email (to_lower email) r")
  case None
  then show ?thesis by (simp add: login_def login_read_def)
next
  case (Some u)
  then have "u \<in> set (re_users r)" by (auto simp: find_by_email_def dest: find_SomeD)
  then have "find_user (us_id u) r = Some u"
    by (rule find_user_key [OF auth_reachable_ok(1) [OF assms]])
  then have "\<exists>r1. run_tx (update_user (us_id u) f) r = (Inr (f u), r1)" for f
    by (simp add: run_tx_def update_user_def or_throw_def)
  from this [of "\<lambda>u. u\<lparr>us_failed := us_failed u + 1\<rparr>"] this [of "\<lambda>u. u\<lparr>us_failed := 0\<rparr>"] Some
  show ?thesis by (auto simp: login_def login_read_def login_finish_def)
qed

theorem login_accepts_exactly_the_password_witness:
  "fst (login sample_auth_lib ''ANN@x.in'' ''wrong'' ''two'' 1000 1 sample_registered) = (Inl generic_login_error, CookieKept)"
proof -
  have "find_by_email (to_lower ''ANN@x.in'') sample_registered = Some sample_user" by code_simp
  moreover have "\<not> compare_password sample_auth_lib ''wrong'' (us_password sample_user)" by code_simp
  ultimately show ?thesis
    by (simp add: login_accepts_exactly_the_password [OF sample_registered_reachable])
qed

end
