(* ===== verification/AccessProperties.thy ===== *)
theory AccessProperties
  imports SessionProperties
begin

text \<open>
  What a request that passed the guards may rely on, and who owns a tenant: the contract of a request
  as a specification, and the owners of a tenant under any sequence of the team's operations.
\<close>

section \<open>Admitted requests\<close>

text \<open>The two ways to act in a tenant, over the rows of the database.\<close>

definition acts_as_member :: "user_row \<Rightarrow> uuid \<Rightarrow> permission \<Rightarrow> realm \<Rightarrow> bool" where
  "acts_as_member v tenant p r \<longleftrightarrow>
     (\<exists>m \<in> set (re_members r). mb_user m = us_id v \<and> mb_tenant m = tenant \<and> mb_status m = MemberActive \<and>
        can (Some (mb_role m)) p)"

definition acts_in_session :: "user_row \<Rightarrow> uuid \<Rightarrow> permission \<Rightarrow> instant \<Rightarrow> realm \<Rightarrow> bool" where
  "acts_in_session v tenant p now r \<longleftrightarrow> us_super_admin v \<and>
     (\<exists>s \<in> set (re_support r). sp_creator s = us_id v \<and> sp_tenant s = tenant \<and> sp_revoked s = None \<and>
        now < sp_expires s \<and> p \<in> set (sp_granted s))"

lemma an_members_iff:
  assumes "validate_token tok r = Inr a" "(t, role) \<in> set (an_members a)"
  shows "\<exists>v m. find_user (at_sub tok) r = Some v \<and> m \<in> set (re_members r) \<and> mb_user m = us_id v \<and>
    mb_tenant m = t \<and> mb_role m = role \<and> mb_status m = MemberActive"
  using assms by (auto simp: validate_Inr)

lemma membership_in_members: "membership_in t a = Some role \<Longrightarrow> (t, role) \<in> set (an_members a)"
  by (auto simp: membership_in_def dest: find_SomeD)

text \<open>A context names an active membership of the user, or a usable session of a super admin.\<close>

definition context_backed :: "auth_user \<Rightarrow> instant \<Rightarrow> realm \<Rightarrow> request_context \<Rightarrow> bool" where
  "context_backed a now r c \<longleftrightarrow>
     (case cx_source c of
        BySupportSession i granted \<Rightarrow> an_super_admin a \<and>
          (\<exists>s \<in> set (re_support r). session_usable a now s \<and> sp_id s = i \<and> sp_tenant s = cx_tenant c \<and> sp_granted s = granted)
      | MembershipHeader role \<Rightarrow> (cx_tenant c, role) \<in> set (an_members a)
      | MembershipDefault role \<Rightarrow> (cx_tenant c, role) \<in> set (an_members a)
      | ByDomain role \<Rightarrow> (cx_tenant c, role) \<in> set (an_members a))"

lemma support_context_backed:
  "support_session_guard ro q (Some a) now r = Inr (Some c) \<Longrightarrow> context_backed a now r c"
  by (auto simp: support_session_guard_def context_backed_def find_session_def
      split: if_splits option.splits dest!: find_SomeD)

lemma resolve_from_host_backed: "resolve_from_host h a r = Some c \<Longrightarrow> context_backed a now r c"
  by (auto simp: resolve_from_host_def context_backed_def membership_in_members bind_eq_Some_conv split: if_splits)

lemma tenant_context_backed:
  "tenant_context_guard ro q (Some a) ctx r = Inr (Some c) \<Longrightarrow> (\<And>c. ctx = Some c \<Longrightarrow> context_backed a now r c) \<Longrightarrow>
    context_backed a now r c"
  by (auto simp: tenant_context_guard_def context_backed_def membership_in_members
      split: option.splits if_splits list.splits dest: resolve_from_host_backed [where now = now])

lemma context_permits:
  assumes "validate_token tok r = Inr a" "find_user (at_sub tok) r = Some v" "context_backed a now r c"
    "ro_permission ro = Some p" "permissions_guard ro (Some c) = Inr ()"
  shows "acts_as_member v (cx_tenant c) p r \<or> acts_in_session v (cx_tenant c) p now r"
proof (cases "cx_source c")
  case (BySupportSession i granted)
  then show ?thesis
    using assms by (auto simp: permissions_guard_def context_backed_def acts_in_session_def session_usable_def validate_Inr
        require_def split: if_splits)
next
  case (MembershipHeader role)
  then have "(cx_tenant c, role) \<in> set (an_members a)" "can (Some role) p"
    using assms(3-5) by (auto simp: context_backed_def permissions_guard_def context_role_def require_def split: if_splits)
  then show ?thesis
    using an_members_iff [OF assms(1)] assms(2) by (fastforce simp: acts_as_member_def)
next
  case (MembershipDefault role)
  then have "(cx_tenant c, role) \<in> set (an_members a)" "can (Some role) p"
    using assms(3-5) by (auto simp: context_backed_def permissions_guard_def context_role_def require_def split: if_splits)
  then show ?thesis
    using an_members_iff [OF assms(1)] assms(2) by (fastforce simp: acts_as_member_def)
next
  case (ByDomain role)
  then have "(cx_tenant c, role) \<in> set (an_members a)" "can (Some role) p"
    using assms(3-5) by (auto simp: context_backed_def permissions_guard_def context_role_def require_def split: if_splits)
  then show ?thesis
    using an_members_iff [OF assms(1)] assms(2) by (fastforce simp: acts_as_member_def)
qed

text \<open>
  C7. A request that passes the guards of a route that is not public carries an access token of an active
  user whose version is the current one; where the route is for the platform, that user is a super
  admin; where it needs a permission, there is a tenant, and the user has an active membership of it
  whose role has the permission or, as a super admin, an own support session for it that is neither
  revoked nor expired and grants the permission; and a tenant-scoped route's tenant is not suspended.
\<close>

theorem admitted_requests_are_authorised:
  assumes "admit ro q now r = Inr (user, ctx)" "\<not> ro_public ro"
  shows "\<exists>a tok v. user = Some a \<and> hq_bearer q = Some tok \<and> find_user (at_sub tok) r = Some v \<and>
    an_id a = us_id v \<and> us_active v \<and> us_version v = at_version tok \<and>
    (ro_platform_only ro \<longrightarrow> us_super_admin v) \<and>
    (\<forall>p. ro_permission ro = Some p \<longrightarrow> (\<exists>c. ctx = Some c \<and>
       (acts_as_member v (cx_tenant c) p r \<or> acts_in_session v (cx_tenant c) p now r))) \<and>
    (\<forall>c. ctx = Some c \<and> \<not> unscoped ro \<longrightarrow> tenant_status_of (realm_market r) (cx_tenant c) \<noteq> Some TenantSuspended)"
proof -
  obtain ctx0 where g: "jwt_guard ro q r = Inr user" "support_session_guard ro q user now r = Inr ctx0"
    "tenant_context_guard ro q user ctx0 r = Inr ctx" "tenant_lifecycle_guard ro ctx r = Inr ()"
    "permissions_guard ro ctx = Inr ()" "platform_guard ro user = Inr ()"
    using assms(1) by (auto simp: admit_def)
  obtain tok a where a: "hq_bearer q = Some tok" "validate_token tok r = Inr a" "user = Some a"
    using g(1) assms(2) by (auto simp: jwt_guard_def or_throw_def map_sum_Inr split: option.splits)
  obtain v where v: "find_user (at_sub tok) r = Some v" "us_active v" "us_version v = at_version tok"
    "an_id a = us_id v" "an_super_admin a = us_super_admin v"
    using a(2) by (auto simp: validate_Inr)
  have backed: "context_backed a now r c" if "ctx = Some c" for c
    using g(2,3) that unfolding a(3) by (auto intro: tenant_context_backed support_context_backed)
  have "\<exists>c. ctx = Some c \<and> (acts_as_member v (cx_tenant c) p r \<or> acts_in_session v (cx_tenant c) p now r)"
    if p: "ro_permission ro = Some p" for p
  proof -
    obtain c where c: "ctx = Some c" using g(5) p by (auto simp: permissions_guard_def split: option.splits)
    then show ?thesis using context_permits [OF a(2) v(1) backed [OF c] p] g(5) by blast
  qed
  moreover have "us_super_admin v" if "ro_platform_only ro"
    using g(6) that v(5) by (simp add: platform_guard_def a(3) require_def split: if_splits)
  moreover have "tenant_status_of (realm_market r) (cx_tenant c) \<noteq> Some TenantSuspended" if "ctx = Some c" "\<not> unscoped ro" for c
    using g(4) that by (auto simp: tenant_lifecycle_guard_def assert_tenant_active_def require_def split: if_splits option.splits)
  ultimately show ?thesis using a v by blast
qed

text \<open>A tenant with two owners, the first of them Ann.\<close>

definition sample_member :: "uuid \<Rightarrow> uuid \<Rightarrow> tenant_role \<Rightarrow> membership_row" where
  "sample_member i user role =
     \<lparr>mb_id = i, mb_user = user, mb_tenant = 1, mb_role = role, mb_status = MemberActive, mb_invited_by = None,
       mb_created = 0\<rparr>"

definition sample_team :: realm where
  "sample_team = on_market (take_ids 30)
     (sample_registered\<lparr>re_members := [sample_member 20 (us_id sample_user) Owner, sample_member 21 99 Owner]\<rparr>)"

theorem admitted_requests_are_authorised_witness:
  "\<exists>v. find_user (us_id sample_user) sample_team = Some v \<and>
     (acts_as_member v 1 MembersManage sample_team \<or> acts_in_session v 1 MembersManage 5 sample_team)"
proof -
  let ?ro = "\<lparr>ro_public = False, ro_platform_only = False, ro_permission = Some MembersManage, ro_feature = None\<rparr>"
  let ?q = "\<lparr>hq_bearer = Some \<lparr>at_sub = us_id sample_user, at_version = 0\<rparr>, hq_session = None, hq_tenant = Some 1,
     hq_hostname = None\<rparr>"
  have "map_sum id (\<lambda>(_, c). map_option cx_tenant c) (admit ?ro ?q 5 sample_team) = Inr (Some 1)" by code_simp
  then obtain user c0 where x0: "admit ?ro ?q 5 sample_team = Inr (user, c0)" "Some 1 = map_option cx_tenant c0"
    by (auto simp only: map_sum_Inr prod.case)
  then obtain c where x: "admit ?ro ?q 5 sample_team = Inr (user, Some c)" "cx_tenant c = 1"
    by (cases c0) simp_all
  show ?thesis using admitted_requests_are_authorised [OF x(1)] x(2) by auto
qed

section \<open>Owners\<close>

lemma other_owner:
  assumes "distinct (map mb_id ms)" "1 < hits P ms"
  shows "\<exists>m \<in> set ms. P m \<and> mb_id m \<noteq> i"
proof (rule ccontr)
  assume none: "\<not> ?thesis"
  have "hits P ms = hits (\<lambda>m. mb_id m = i \<and> P m) ms"
    by (rule hits_cong) (use none in blast)
  then show False using hits_key_le_1 [OF assms(1), of i P] assms(2) by simp
qed

text \<open>A write to the row \<open>i\<close> that leaves its tenant alone keeps an owner where there is another one.\<close>

lemma update_keeps_owner:
  assumes "distinct (map mb_id (re_members r))" "0 < count_active_owners tenant r"
    "\<And>m. P m \<Longrightarrow> mb_id m = i" "\<And>m. P m \<Longrightarrow> active_owner tenant m \<Longrightarrow> m \<in> set (re_members r) \<Longrightarrow> 1 < count_active_owners tenant r"
  shows "0 < count_active_owners tenant (update_members P f r)"
proof -
  obtain m where m: "m \<in> set (re_members r)" "active_owner tenant m" "\<not> P m"
  proof (cases "\<exists>m \<in> set (re_members r). active_owner tenant m \<and> P m")
    case True
    then show ?thesis using assms(4) other_owner [OF assms(1), of "active_owner tenant" i] assms(3) that
      unfolding count_active_owners_def by blast
  next
    case False
    then show ?thesis using assms(2) that unfolding count_active_owners_def hits_pos_iff by blast
  qed
  then have "m \<in> set (re_members (update_members P f r))"
    by (simp add: update_members_def update_rows_def)
  then show ?thesis using m unfolding count_active_owners_def hits_pos_iff by blast
qed

text \<open>
  The requests of the team's routes, each committed before the next one begins. The role of an
  invitation or a change is one that the request's check admits.
\<close>

inductive team_step :: "realm \<Rightarrow> realm \<Rightarrow> bool" where
  invite: "invite_member ctx actor email role now r = Inr (v, r') \<Longrightarrow> role \<in> set assignable_roles \<Longrightarrow> team_step r r'"
| change_role: "update_member_role ctx actor i role r = Inr (v, r') \<Longrightarrow> role \<in> set assignable_roles \<Longrightarrow> team_step r r'"
| suspend: "suspend_member ctx actor i r = Inr (v, r') \<Longrightarrow> team_step r r'"

definition members_ok :: "realm \<Rightarrow> bool" where
  "members_ok r \<longleftrightarrow> distinct (map mb_id (re_members r)) \<and> (\<forall>m \<in> set (re_members r). mb_id m < realm_fresh r) \<and>
     distinct (map (\<lambda>m. (mb_user m, mb_tenant m)) (re_members r))"

text \<open>What a step may do to the owners: it makes none, and it leaves one where there was one.\<close>

definition owners_kept :: "realm \<Rightarrow> realm \<Rightarrow> bool" where
  "owners_kept r r' \<longleftrightarrow>
     (\<forall>m' \<in> set (re_members r'). mb_role m' = Owner \<longrightarrow>
        (\<exists>m \<in> set (re_members r). mb_id m = mb_id m' \<and> mb_user m = mb_user m' \<and> mb_tenant m = mb_tenant m' \<and> mb_role m = Owner)) \<and>
     (\<forall>tenant. 0 < count_active_owners tenant r \<longrightarrow> 0 < count_active_owners tenant r')"

lemma owners_kept_refl: "owners_kept r r"
  by (auto simp: owners_kept_def)

lemma owners_kept_trans: "owners_kept a b \<Longrightarrow> owners_kept b c \<Longrightarrow> owners_kept a c"
  unfolding owners_kept_def by (metis (no_types, lifting))

lemma team_frames [simp]:
  "re_members (write_team_audit ctx actor a i r) = re_members r"
  "realm_fresh (write_team_audit ctx actor a i r) = realm_fresh r"
  "re_members (update_members P f r) = update_rows P f (re_members r)"
  "realm_fresh (update_members P f r) = realm_fresh r"
  "realm_fresh (r\<lparr>re_members := ms\<rparr>) = realm_fresh r"
  "realm_market (r\<lparr>re_members := ms\<rparr>) = realm_market r"
  by (simp_all add: write_team_audit_def update_members_def realm_fresh_def realm_market_def fresh_id_def on_market_def)

lemma on_usages_result:
  assumes "on_market_result (\<lambda>m. map_sum id (\<lambda>(_, us). m\<lparr>usages := us\<rparr>) (g m)) r = Inr r'"
  shows "re_members r' = re_members r \<and> realm_fresh r' = realm_fresh r"
  using assms by (auto simp: on_market_result_def realm_fresh_def realm_market_def fresh_id_def on_market_def)

lemma enforced_limit:
  assumes "on_market_result (enforce_limit tenant key n p) r = Inr r'"
  shows "re_members r' = re_members r \<and> realm_fresh r' = realm_fresh r"
  using assms
  by (auto simp: on_market_result_def enforce_limit_def realm_fresh_def realm_market_def fresh_id_def on_market_def)

lemma invite_rows:
  assumes "invite_tx ctx actor user role now r = Inr (m, r')"
  shows "re_members r' = re_members r @ [m]" "mb_id m = realm_fresh r" "mb_user m = user"
    "mb_tenant m = tc_tenant ctx" "mb_role m = role" "realm_fresh r' = Suc (realm_fresh r)"
    "find_membership user (tc_tenant ctx) r = None"
  using assms
  by (auto simp: invite_tx_def Let_def take_ids_def link_member_def realm_fresh_market [symmetric]
      split: option.splits dest!: enforced_limit)

lemma reread_member_Inr: "reread_member i r = Inr (v, r') \<Longrightarrow> r' = r"
  by (auto simp: reread_member_def)

text \<open>A change of the row \<open>i\<close>: which rows it hits, and what was true before.\<close>

definition member_change :: "uuid \<Rightarrow> uuid \<Rightarrow> (membership_row \<Rightarrow> bool) \<Rightarrow> (membership_row \<Rightarrow> membership_row) \<Rightarrow> realm \<Rightarrow> realm \<Rightarrow> bool" where
  "member_change tenant i P f r r' \<longleftrightarrow>
     re_members r' = update_rows (member_hit i tenant P) f (re_members r) \<and> realm_fresh r' = realm_fresh r \<and>
     (\<exists>t. find_member i r = Some t \<and> (mb_role t \<noteq> Owner \<or> 1 < count_active_owners tenant r))"

lemma load_member_Inr: "load_member tenant i r = Inr m \<longleftrightarrow> find_member i r = Some m \<and> mb_tenant m = tenant"
  by (auto simp: load_member_def)

lemma role_change:
  assumes "update_member_role ctx actor i role r = Inr (v, r')"
  shows "\<exists>t :: membership_row. member_change (tc_tenant ctx) i (\<lambda>m. mb_role m = mb_role t) (\<lambda>m. m\<lparr>mb_role := role\<rparr>) r r'"
proof -
  obtain t where t: "role_check ctx i r = Inr t" "role_write ctx actor i role t r = Inr (v, r')"
    using assms by (auto simp: update_member_role_def)
  have "member_change (tc_tenant ctx) i (\<lambda>m. mb_role m = mb_role t) (\<lambda>m. m\<lparr>mb_role := role\<rparr>) r r'"
    using t by (auto simp: role_check_def role_write_def Let_def load_member_Inr keeps_an_owner_def member_change_def
        dest!: reread_member_Inr)
  then show ?thesis by blast
qed

lemma suspend_change:
  assumes "suspend_member ctx actor i r = Inr (v, r')"
  shows "member_change (tc_tenant ctx) i (\<lambda>m. mb_status m \<noteq> MemberSuspended) (\<lambda>m. m\<lparr>mb_status := MemberSuspended\<rparr>) r r'"
  using assms
  by (auto simp: suspend_member_def suspend_check_def suspend_write_def Let_def load_member_Inr keeps_an_owner_def
      member_change_def dest!: reread_member_Inr on_usages_result)

lemma change_keeps:
  assumes "members_ok r" "member_change tenant i P f r r'"
    "\<And>m. mb_id (f m) = mb_id m" "\<And>m. mb_user (f m) = mb_user m" "\<And>m. mb_tenant (f m) = mb_tenant m"
    "\<And>m. mb_role (f m) = Owner \<Longrightarrow> mb_role m = Owner"
  shows "members_ok r'" "owners_kept r r'"
proof -
  have rows: "re_members r' = update_rows (member_hit i tenant P) f (re_members r)" "realm_fresh r' = realm_fresh r"
    using assms(2) by (auto simp: member_change_def)
  obtain t where t: "find_member i r = Some t" "mb_role t \<noteq> Owner \<or> 1 < count_active_owners tenant r"
    using assms(2) by (auto simp: member_change_def)
  have maps: "map mb_id (re_members r') = map mb_id (re_members r)"
    "map (\<lambda>m. (mb_user m, mb_tenant m)) (re_members r') = map (\<lambda>m. (mb_user m, mb_tenant m)) (re_members r)"
    by (simp_all add: rows map_update_rows assms(3-5))
  have from_old: "\<exists>m \<in> set (re_members r). m' = m \<or> m' = f m" if "m' \<in> set (re_members r')" for m'
    using that by (auto simp: rows update_rows_def)
  have "mb_id m' < realm_fresh r" if "m' \<in> set (re_members r')" for m'
    using from_old [OF that] assms(1,3) unfolding members_ok_def by auto
  then show "members_ok r'" using assms(1) unfolding members_ok_def maps rows(2) by blast
  have "0 < count_active_owners T r'" if pos: "0 < count_active_owners T r" for T
  proof -
    have "0 < count_active_owners T (update_members (member_hit i tenant P) f r)"
    proof (rule update_keeps_owner [where i = i, OF _ pos])
      fix m assume m: "member_hit i tenant P m" "active_owner T m" "m \<in> set (re_members r)"
      then have "t = m"
        using t(1) assms(1) distinct_key_inj [of mb_id "re_members r" t m]
        by (auto simp: find_member_def member_hit_def members_ok_def dest!: find_SomeD)
      then show "1 < count_active_owners T r" using t(2) m by (auto simp: active_owner_def member_hit_def)
    qed (use assms(1) in \<open>auto simp: members_ok_def member_hit_def\<close>)
    then show ?thesis by (simp add: count_active_owners_def rows)
  qed
  moreover have "\<exists>m \<in> set (re_members r). mb_id m = mb_id m' \<and> mb_user m = mb_user m' \<and> mb_tenant m = mb_tenant m' \<and> mb_role m = Owner"
    if "m' \<in> set (re_members r')" "mb_role m' = Owner" for m'
    using from_old [OF that(1)] that(2) assms(3-6) by auto
  ultimately show "owners_kept r r'" by (simp add: owners_kept_def)
qed

lemma invite_keeps:
  assumes "members_ok r" "invite_tx ctx actor user role now r = Inr (m, r')" "role \<noteq> Owner"
  shows "members_ok r'" "owners_kept r r'"
proof -
  note rows = invite_rows [OF assms(2)]
  have "(user, tc_tenant ctx) \<notin> (\<lambda>m. (mb_user m, mb_tenant m)) ` set (re_members r)"
    using rows(7) by (auto simp: find_membership_def find_None_iff)
  moreover have "realm_fresh r \<notin> mb_id ` set (re_members r)" using assms(1) unfolding members_ok_def by fastforce
  ultimately show "members_ok r'"
    using assms(1) unfolding members_ok_def by (auto simp: rows less_Suc_eq)
  show "owners_kept r r'"
    using assms(3) by (auto simp: owners_kept_def rows count_active_owners_def)
qed

lemma team_step_keeps:
  assumes "team_step r r'" "members_ok r"
  shows "members_ok r' \<and> owners_kept r r'"
  using assms
proof cases
  case (invite ctx actor email role now v)
  then obtain u m where "invite_tx ctx actor u role now r = Inr (m, r')" by (auto simp: invite_member_def)
  then show ?thesis using invite_keeps [OF assms(2)] invite(2) by (auto simp: assignable_roles_def)
next
  case (change_role ctx actor i role v)
  then obtain t :: membership_row where "member_change (tc_tenant ctx) i (\<lambda>m. mb_role m = mb_role t) (\<lambda>m. m\<lparr>mb_role := role\<rparr>) r r'"
    using role_change by blast
  from change_keeps [OF assms(2) this] show ?thesis using change_role(2) by (auto simp: assignable_roles_def)
next
  case (suspend ctx actor i v)
  from change_keeps [OF assms(2) suspend_change [OF suspend]] show ?thesis by auto
qed

text \<open>
  C37. Whatever sequence of invitations, role changes and suspensions the team's routes commit one after
  another, nobody becomes an owner, and a tenant that has an active owner keeps one.
\<close>

theorem team_keeps_an_owner:
  assumes "team_step\<^sup>*\<^sup>* r r'" "members_ok r"
  shows "owners_kept r r'"
proof -
  have "members_ok r' \<and> owners_kept r r'"
    using assms(1)
  proof induction
    case base
    show ?case using assms(2) owners_kept_refl by blast
  next
    case (step y z)
    then show ?case using team_step_keeps owners_kept_trans by blast
  qed
  then show ?thesis by blast
qed

lemma sample_members_ok: "members_ok sample_team"
  unfolding members_ok_def by code_simp

definition sample_context :: tenant_context where
  "sample_context = \<lparr>tc_tenant = 1, tc_session = None\<rparr>"

theorem team_keeps_an_owner_witness:
  "0 < count_active_owners 1 (snd (run_tx (suspend_member sample_context 99 20) sample_team))"
proof -
  have "map_sum id (\<lambda>_. ()) (suspend_member sample_context 99 20 sample_team) = Inr ()" by code_simp
  then obtain v r' where x: "suspend_member sample_context 99 20 sample_team = Inr (v, r')" by auto
  then have "owners_kept sample_team r'"
    by (intro team_keeps_an_owner [OF _ sample_members_ok] r_into_rtranclp) (rule team_step.suspend)
  moreover have "0 < count_active_owners 1 sample_team" by code_simp
  ultimately show ?thesis using x by (simp add: owners_kept_def run_tx_def)
qed

lemma suspend_write_rows:
  assumes "suspend_write ctx actor i r = Inr (v, r')"
  shows "re_members r' = update_rows (member_hit i (tc_tenant ctx) (\<lambda>m. mb_status m \<noteq> MemberSuspended))
    (\<lambda>m. m\<lparr>mb_status := MemberSuspended\<rparr>) (re_members r)"
  using assms by (auto simp: suspend_write_def Let_def dest!: reread_member_Inr on_usages_result)

text \<open>
  Two owners who suspend each other at the same time both succeed, and the tenant has no active owner
  any more: each transaction counts two owners before the other one writes, and the conditional
  write asks only whether its own row is still unsuspended.
\<close>

theorem concurrent_suspensions_leave_no_owner:
  assumes "suspend_check ctx i r = Inr a" "suspend_check ctx j r = Inr b"
    "\<And>m. m \<in> set (re_members r) \<Longrightarrow> active_owner (tc_tenant ctx) m \<Longrightarrow> mb_id m \<in> {i, j}"
    "suspend_write ctx actor i r = Inr (v, r1)" "suspend_write ctx actor' j r1 = Inr (w, r2)"
  shows "count_active_owners (tc_tenant ctx) r2 = 0"
proof -
  have "\<not> active_owner (tc_tenant ctx) m" if m: "m \<in> set (re_members r2)" for m
  proof
    assume owner: "active_owner (tc_tenant ctx) m"
    then have live: "mb_status m = MemberActive" "mb_tenant m = tc_tenant ctx" by (auto simp: active_owner_def)
    have "m \<in> set (re_members r1) \<and> mb_id m \<noteq> j"
      using m live by (auto simp: suspend_write_rows [OF assms(5)] update_rows_def member_hit_def split: if_splits)
    then have "m \<in> set (re_members r) \<and> mb_id m \<noteq> i \<and> mb_id m \<noteq> j"
      using live by (auto simp: suspend_write_rows [OF assms(4)] update_rows_def member_hit_def split: if_splits)
    then show False using assms(3) owner by blast
  qed
  then show ?thesis by (simp add: count_active_owners_def hits_0_iff)
qed

theorem concurrent_suspensions_leave_no_owner_witness:
  "count_active_owners 1 sample_team = 2 \<and>
   count_active_owners 1 (snd (run_tx (suspend_write sample_context 98 21)
     (snd (run_tx (suspend_write sample_context 99 20) sample_team)))) = 0"
proof
  show "count_active_owners 1 sample_team = 2" by code_simp
  let ?r1 = "snd (run_tx (suspend_write sample_context 99 20) sample_team)"
  have "map_sum id (\<lambda>_. ()) (suspend_check sample_context 20 sample_team) = Inr ()" by code_simp
  then obtain a where a: "suspend_check sample_context 20 sample_team = Inr a" by auto
  have "map_sum id (\<lambda>_. ()) (suspend_check sample_context 21 sample_team) = Inr ()" by code_simp
  then obtain b where b: "suspend_check sample_context 21 sample_team = Inr b" by auto
  have "map_sum id (\<lambda>_. ()) (suspend_write sample_context 99 20 sample_team) = Inr ()" by code_simp
  then obtain v r1 where r1: "suspend_write sample_context 99 20 sample_team = Inr (v, r1)" by auto
  then have e: "?r1 = r1" by (simp add: run_tx_def)
  have "map_sum id (\<lambda>_. ()) (suspend_write sample_context 98 21 ?r1) = Inr ()" by code_simp
  then obtain w r2 where r2: "suspend_write sample_context 98 21 r1 = Inr (w, r2)" unfolding e by auto
  have "map mb_id (re_members sample_team) = [20, 21]" by code_simp
  then have ids: "mb_id m \<in> {20, 21}" if "m \<in> set (re_members sample_team)" for m
    using that by (metis image_eqI list.set(1) list.set(2) list.set_map)
  have "count_active_owners (tc_tenant sample_context) r2 = 0"
    by (rule concurrent_suspensions_leave_no_owner [OF a b ids r1 r2])
  moreover have "tc_tenant sample_context = 1" by (simp add: sample_context_def)
  moreover have "snd (run_tx (suspend_write sample_context 98 21) ?r1) = r2" unfolding e by (simp add: run_tx_def r2)
  ultimately show "count_active_owners 1 (snd (run_tx (suspend_write sample_context 98 21) ?r1)) = 0" by simp
qed

end
