(* ===== verification/Settings.thy ===== *)
theory Settings
  imports Checkout
begin

text \<open>
  The settings of a tenant and of a store: \<open>app-setting/app-setting.constants.ts\<close> (what may be set and
  in which normal form it is stored) and \<open>app-setting/app-setting.service.ts\<close>. Labels and descriptions
  are static text and left out.
\<close>

section \<open>Normal forms\<close>

datatype setting_kind = MoneySetting | TextSetting | BooleanSetting | EnumSetting | PercentSetting

datatype setting_ownership = TenantOwned | StoreOwned

text \<open>A refusal is its text.\<close>

type_synonym normalized = "string + string"

text \<open>\<open>/^\\d+(\\.\\d{1,2})?$/\<close> and the number such a text denotes, in hundredths.\<close>

definition whole_part :: "string \<Rightarrow> string" where
  "whole_part s = takeWhile is_digit s"

definition fraction_part :: "string \<Rightarrow> string" where
  "fraction_part s = drop (Suc (length (whole_part s))) s"

definition plain_amount :: "string \<Rightarrow> bool" where
  "plain_amount s \<longleftrightarrow> whole_part s \<noteq> [] \<and>
     (s = whole_part s \<or>
      (s = whole_part s @ ''.'' @ fraction_part s \<and> list_all is_digit (fraction_part s) \<and>
       length (fraction_part s) \<in> {1, 2}))"

definition hundredths :: "string \<Rightarrow> int" where
  "hundredths s =
     int (text_value (whole_part s)) * 100 +
     int (text_value (fraction_part s)) * (if length (fraction_part s) = 1 then 10 else 1)"

definition max_shipping_fee_rupees :: int where
  "max_shipping_fee_rupees = 100000"

text \<open>A text of this form is a decimal that is not negative, so two guards of the code never fire.\<close>

definition normalize_money :: "string \<Rightarrow> normalized" where
  "normalize_money raw =
     (let t = js_trim raw in
      if t = '''' then Inl ''A shipping fee is required (use 0 for free shipping)''
      else if \<not> plain_amount t
      then Inl ''Shipping fee must be a non-negative amount with at most 2 decimal places''
      else if hundredths t > max_shipping_fee_rupees * 100
      then Inl (''Shipping fee cannot exceed '' @ int_text max_shipping_fee_rupees)
      else Inr (paise_to_decimal_string (hundredths t)))"

definition bounded_text :: "nat \<Rightarrow> string \<Rightarrow> string \<Rightarrow> normalized" where
  "bounded_text maximum label raw =
     (let t = js_trim raw in
      if length t > maximum
      then Inl (label @ '' cannot exceed '' @ nat_text maximum @ '' characters'')
      else Inr t)"

definition max_store_name_length :: nat where
  "max_store_name_length = 60"

definition normalize_store_name :: "string \<Rightarrow> normalized" where
  "normalize_store_name raw =
     (let t = js_trim raw in
      if t = '''' then Inl ''Store name is required''
      else if length t > max_store_name_length
      then Inl (''Store name cannot exceed '' @ nat_text max_store_name_length @ '' characters'')
      else Inr t)"

definition normalize_boolean :: "string \<Rightarrow> normalized" where
  "normalize_boolean raw =
     (let v = to_lower (js_trim raw) in
      if v \<noteq> ''true'' \<and> v \<noteq> ''false''
      then Inl (''Value must be '' @ quoted ''true'' @ '' or '' @ quoted ''false'')
      else Inr v)"

definition normalize_percent :: "string \<Rightarrow> normalized" where
  "normalize_percent raw =
     (let t = js_trim raw in
      if \<not> plain_amount t then Inl ''Rate must be a number between 0 and 100 with at most 2 decimals''
      else if hundredths t > 100 * 100 then Inl ''Rate must be between 0 and 100''
      else Inr (paise_to_decimal_string (hundredths t)))"

definition is_upper :: "char \<Rightarrow> bool" where
  "is_upper c \<longleftrightarrow> 65 \<le> (of_char c :: nat) \<and> (of_char c :: nat) \<le> 90"

definition gstin_pattern :: "(char \<Rightarrow> bool) list" where
  "gstin_pattern =
     replicate 2 is_digit @ replicate 5 is_upper @ replicate 4 is_digit @
     [is_upper, \<lambda>c. is_upper c \<or> is_digit c, \<lambda>c. c = CHR ''Z'', \<lambda>c. is_upper c \<or> is_digit c]"

definition matches :: "(char \<Rightarrow> bool) list \<Rightarrow> string \<Rightarrow> bool" where
  "matches ps s \<longleftrightarrow> list_all2 (\<lambda>p c. p c) ps s"

definition normalize_gstin :: "string \<Rightarrow> normalized" where
  "normalize_gstin raw =
     (let v = to_upper (js_trim raw) in
      if v = '''' then Inr ''''
      else if \<not> matches gstin_pattern v
      then Inl ''GSTIN must be 15 characters in the standard format (e.g. 22AAAAA0000A1Z5)''
      else Inr v)"

definition prefix_char :: "char \<Rightarrow> bool" where
  "prefix_char c \<longleftrightarrow> is_upper c \<or> is_digit c \<or> c = CHR ''/'' \<or> c = CHR ''-''"

definition normalize_invoice_prefix :: "string \<Rightarrow> normalized" where
  "normalize_invoice_prefix raw =
     (let v = to_upper (js_trim raw) in
      if \<not> (list_all prefix_char v \<and> 1 \<le> length v \<and> length v \<le> 16)
      then Inl (''Invoice prefix must be 1-16 characters using A-Z, 0-9, '' @ quoted ''-'' @ '' or '' @ quoted ''/'')
      else Inr v)"

definition admin_settable_tax_modes :: "string list" where
  "admin_settable_tax_modes = [''INCLUSIVE'']"

definition normalize_tax_pricing_mode :: "string \<Rightarrow> normalized" where
  "normalize_tax_pricing_mode raw =
     (let v = js_trim raw in
      if v \<in> set admin_settable_tax_modes then Inr v
      else if v = ''EXCLUSIVE''
      then Inl (''Tax-exclusive pricing is not available: it would increase customer and Razorpay totals and '' @
        ''requires explicit business confirmation of inclusive-vs-exclusive pricing. Contact engineering to enable it.'')
      else Inl ''Value must be one of: INCLUSIVE'')"

definition normalizers :: "(string \<times> (string \<Rightarrow> normalized)) list" where
  "normalizers =
     [(''shippingFeeFlat'', normalize_money),
      (''announcement_text'', bounded_text 200 ''Announcement text''),
      (''storeName'', normalize_store_name),
      (''storeAdminName'', bounded_text 120 ''Store admin name''),
      (''tax.enabled'', normalize_boolean),
      (''tax.pricingMode'', normalize_tax_pricing_mode),
      (''tax.ratePercent'', normalize_percent),
      (''invoice.numberPrefix'', normalize_invoice_prefix),
      (''invoice.sellerLegalName'', bounded_text 200 ''Legal name''),
      (''invoice.sellerAddress'', bounded_text 500 ''Address''),
      (''invoice.sellerGstin'', normalize_gstin),
      (''invoice.sellerState'', bounded_text 200 ''State'')]"

definition normalize_admin_setting_value :: "string \<Rightarrow> string \<Rightarrow> normalized" where
  "normalize_admin_setting_value key raw =
     (case map_of normalizers key of
        None \<Rightarrow> Inl (quoted key @ '' is not an administrable setting'')
      | Some f \<Rightarrow> f raw)"

section \<open>Definitions\<close>

record setting_definition =
  de_key :: string
  de_owner :: setting_ownership
  de_kind :: setting_kind
  de_default :: string
  de_options :: "string list option"
  de_pending :: bool

definition plain_definition ::
  "string \<Rightarrow> setting_ownership \<Rightarrow> setting_kind \<Rightarrow> string \<Rightarrow> bool \<Rightarrow> setting_definition" where
  "plain_definition key owner kind initial pending =
     \<lparr>de_key = key, de_owner = owner, de_kind = kind, de_default = initial, de_options = None, de_pending = pending\<rparr>"

definition admin_setting_definitions :: "setting_definition list" where
  "admin_setting_definitions =
     [plain_definition ''storeName'' StoreOwned TextSetting ''PrintForge'' False,
      plain_definition ''storeAdminName'' StoreOwned TextSetting '''' False,
      plain_definition ''shippingFeeFlat'' StoreOwned MoneySetting ''0.00'' False,
      plain_definition ''announcement_text'' StoreOwned TextSetting '''' False,
      plain_definition ''tax.enabled'' TenantOwned BooleanSetting ''false'' False,
      (plain_definition ''tax.pricingMode'' TenantOwned EnumSetting ''INCLUSIVE'' False)
        \<lparr>de_options := Some admin_settable_tax_modes\<rparr>,
      plain_definition ''tax.ratePercent'' TenantOwned PercentSetting ''0.00'' True,
      plain_definition ''invoice.numberPrefix'' TenantOwned TextSetting ''INV-'' True,
      plain_definition ''invoice.sellerLegalName'' TenantOwned TextSetting '''' True,
      plain_definition ''invoice.sellerAddress'' TenantOwned TextSetting '''' True,
      plain_definition ''invoice.sellerGstin'' TenantOwned TextSetting '''' True,
      plain_definition ''invoice.sellerState'' TenantOwned TextSetting '''' True]"

definition get_admin_setting_definition :: "string \<Rightarrow> setting_definition option" where
  "get_admin_setting_definition key = List.find (\<lambda>d. de_key d = key) admin_setting_definitions"

definition public_only_setting_keys :: "string list" where
  "public_only_setting_keys = [''hero_slides'', ''banners'', ''showcase_categories'']"

definition get_setting_ownership :: "string \<Rightarrow> setting_ownership option" where
  "get_setting_ownership key =
     (case get_admin_setting_definition key of
        Some d \<Rightarrow> Some (de_owner d)
      | None \<Rightarrow> if key \<in> set public_only_setting_keys then Some StoreOwned else None)"

definition public_setting_keys :: "string list" where
  "public_setting_keys = [''announcement_text'', ''hero_slides'', ''banners'', ''showcase_categories'', ''storeName'']"

definition is_public_setting_key :: "string \<Rightarrow> bool" where
  "is_public_setting_key key \<longleftrightarrow> key \<in> set public_setting_keys"

section \<open>The service\<close>

definition get_tenant_value :: "uuid \<Rightarrow> string \<Rightarrow> market \<Rightarrow> string option" where
  "get_tenant_value tenant key m = tenant_settings m tenant key"

definition get_many_tenant_values :: "uuid \<Rightarrow> string list \<Rightarrow> market \<Rightarrow> string \<Rightarrow> string option" where
  "get_many_tenant_values tenant keys m = (\<lambda>k. if k \<in> set keys then tenant_settings m tenant k else None)"

definition get_store_value_for_tenant :: "uuid \<Rightarrow> string \<Rightarrow> market \<Rightarrow> string option result" where
  "get_store_value_for_tenant tenant key m =
     then_do (primary_store_id_of tenant m) (\<lambda>store. Inr (store_settings m store key))"

definition get_many_store_values_for_tenant ::
  "uuid \<Rightarrow> string list \<Rightarrow> market \<Rightarrow> (string \<Rightarrow> string option) result" where
  "get_many_store_values_for_tenant tenant keys m =
     (if keys = [] then Inr (\<lambda>_. None)
      else then_do (primary_store_id_of tenant m) (\<lambda>store.
        Inr (\<lambda>k. if k \<in> set keys then store_settings m store k else None)))"

record setting_view =
  sw_definition :: setting_definition
  sw_value :: string

definition owned_keys :: "setting_ownership \<Rightarrow> string list" where
  "owned_keys owner = map de_key (filter (\<lambda>d. de_owner d = owner) admin_setting_definitions)"

definition list_configurable :: "tenant_context \<Rightarrow> market \<Rightarrow> setting_view list result" where
  "list_configurable ctx m =
     (let tenant_values = get_many_tenant_values (tc_tenant ctx) (owned_keys TenantOwned) m
      in then_do (get_many_store_values_for_tenant (tc_tenant ctx) (owned_keys StoreOwned) m) (\<lambda>store_values.
         Inr (map (\<lambda>d.
           \<lparr>sw_definition = d,
             sw_value = (case (tenant_values ++ store_values) (de_key d) of None \<Rightarrow> de_default d | Some v \<Rightarrow> v)\<rparr>)
           admin_setting_definitions)))"

text \<open>The audit row's target is the key; here its position among the definitions.\<close>

definition setting_number :: "string \<Rightarrow> nat" where
  "setting_number key = length (takeWhile (\<lambda>d. de_key d \<noteq> key) admin_setting_definitions)"

definition write_tenant_setting :: "uuid \<Rightarrow> string \<Rightarrow> string \<Rightarrow> market \<Rightarrow> market" where
  "write_tenant_setting tenant key v m =
     m\<lparr>tenant_settings := (tenant_settings m)(tenant := (tenant_settings m tenant)(key := Some v))\<rparr>"

definition write_store_setting :: "uuid \<Rightarrow> string \<Rightarrow> string \<Rightarrow> market \<Rightarrow> market" where
  "write_store_setting store key v m =
     m\<lparr>store_settings := (store_settings m)(store := (store_settings m store)(key := Some v))\<rparr>"

definition update_configurable ::
  "tenant_context \<Rightarrow> uuid \<Rightarrow> string \<Rightarrow> string \<Rightarrow> (market, setting_view) tx" where
  "update_configurable ctx actor key raw m =
     then_do (or_throw (get_admin_setting_definition key)
       (BadRequest (quoted key @ '' is not an administrable setting''))) (\<lambda>d.
     then_do (case normalize_admin_setting_value key raw of Inl e \<Rightarrow> Inl (BadRequest e) | Inr v \<Rightarrow> Inr v) (\<lambda>v.
     then_do (case de_owner d of
         TenantOwned \<Rightarrow> Inr (write_tenant_setting (tc_tenant ctx) key v m)
       | StoreOwned \<Rightarrow>
           then_do (primary_store_id_of (tc_tenant ctx) m) (\<lambda>store. Inr (write_store_setting store key v m))) (\<lambda>m1.
     Inr (\<lparr>sw_definition = d, sw_value = v\<rparr>, audit ctx actor ''setting.update'' (setting_number key) m1))))"

section \<open>Normal forms are stable\<close>

lemma plain_amount_chars: "plain_amount s \<Longrightarrow> c \<in> set s \<Longrightarrow> is_digit c \<or> c = CHR ''.''"
proof -
  assume p: "plain_amount s" and c: "c \<in> set s"
  have w: "x \<in> set (whole_part s) \<Longrightarrow> is_digit x" for x
    by (auto simp: whole_part_def dest: set_takeWhileD)
  consider "s = whole_part s" | "s = whole_part s @ ''.'' @ fraction_part s" "list_all is_digit (fraction_part s)"
    using p by (auto simp: plain_amount_def)
  then show ?thesis
  proof cases
    case 1
    then show ?thesis using w c by metis
  next
    case 2
    from c have "c \<in> set (whole_part s @ ''.'' @ fraction_part s)" using 2(1) by simp
    then show ?thesis using w 2(2) by (auto simp: list_all_iff)
  qed
qed

lemma digit_point_no_space: "is_digit c \<or> c = CHR ''.'' \<Longrightarrow> \<not> js_space c"
  by (auto simp: is_digit_def js_space_def)

lemma takeWhile_digits_point: "(\<And>c. c \<in> set w \<Longrightarrow> is_digit c) \<Longrightarrow> takeWhile is_digit (w @ CHR ''.'' # t) = w"
  by (induction w) (auto simp: is_digit_def)

text \<open>The canonical form: digits, a point and two digits.\<close>

lemma canonical_amount:
  assumes "0 \<le> n"
  shows "plain_amount (paise_to_decimal_string n)" "hundredths (paise_to_decimal_string n) = n"
    "js_trim (paise_to_decimal_string n) = paise_to_decimal_string n" "paise_to_decimal_string n \<noteq> []"
proof -
  define w where "w = nat_text (nat (n div 100))"
  define f where "f = pad_start 2 (nat_text (nat (n mod 100)))"
  have s: "paise_to_decimal_string n = w @ CHR ''.'' # f"
    using assms by (simp add: paise_to_decimal_string_def Let_def w_def f_def)
  have w: "\<And>c. c \<in> set w \<Longrightarrow> is_digit c" "w \<noteq> []"
    using nat_text_digits nat_text_nonempty by (auto simp: w_def)
  have f: "list_all is_digit f"
    by (auto simp: f_def pad_start_def list_all_iff dest: nat_text_digits)
  have len: "length f = 2"
    unfolding f_def by (rule pad_two_length) simp
  have parts: "whole_part (paise_to_decimal_string n) = w" "fraction_part (paise_to_decimal_string n) = f"
    by (simp_all add: whole_part_def fraction_part_def s takeWhile_digits_point [OF w(1)])
  show p: "plain_amount (paise_to_decimal_string n)"
    unfolding plain_amount_def parts using w(2) f len by (simp add: s)
  have "0 \<le> n div 100" using assms by (simp add: pos_imp_zdiv_nonneg_iff)
  then have "int (text_value w) * 100 + int (text_value f) = n" by (simp add: w_def f_def)
  then show "hundredths (paise_to_decimal_string n) = n"
    unfolding hundredths_def parts using len by simp
  show "js_trim (paise_to_decimal_string n) = paise_to_decimal_string n"
    by (rule js_trim_plain) (use plain_amount_chars [OF p] digit_point_no_space in blast)
  show "paise_to_decimal_string n \<noteq> []" by (simp add: s)
qed

lemma hundredths_nonneg: "0 \<le> hundredths s"
  by (simp add: hundredths_def)

end
