(* ===== verification/SettingsProperties.thy ===== *)
theory SettingsProperties
  imports Settings
begin

text \<open>
  What may be relied on once settings are written through the service only: stored values are normal
  forms, and the tax and the shipping fee of a checkout can always be read from them.
\<close>

section \<open>Normalisation is a projection\<close>

lemma normalize_text_idem:
  "bounded_text n l raw = Inr v \<Longrightarrow> bounded_text n l v = Inr v"
  "normalize_store_name raw = Inr v \<Longrightarrow> normalize_store_name v = Inr v"
  "normalize_tax_pricing_mode raw = Inr v \<Longrightarrow> normalize_tax_pricing_mode v = Inr v"
  by (auto simp: bounded_text_def normalize_store_name_def normalize_tax_pricing_mode_def Let_def
      split: if_splits)

lemma trimmed_case:
  "to_lower (js_trim (to_lower (js_trim s))) = to_lower (js_trim s)"
  "to_upper (js_trim (to_upper (js_trim s))) = to_upper (js_trim s)"
  by (simp_all add: js_trim_to_lower js_trim_to_upper)

lemma normalize_case_idem:
  "normalize_boolean raw = Inr v \<Longrightarrow> normalize_boolean v = Inr v"
  "normalize_gstin raw = Inr v \<Longrightarrow> normalize_gstin v = Inr v"
  "normalize_invoice_prefix raw = Inr v \<Longrightarrow> normalize_invoice_prefix v = Inr v"
proof -
  assume n: "normalize_boolean raw = Inr v"
  then have "v = to_lower (js_trim raw)" by (simp add: normalize_boolean_def Let_def split: if_splits)
  then show "normalize_boolean v = Inr v" using n by (simp add: normalize_boolean_def Let_def trimmed_case)
next
  assume n: "normalize_gstin raw = Inr v"
  then have "v = to_upper (js_trim raw)" by (simp add: normalize_gstin_def Let_def split: if_splits)
  then show "normalize_gstin v = Inr v" using n by (simp add: normalize_gstin_def Let_def trimmed_case)
next
  assume n: "normalize_invoice_prefix raw = Inr v"
  then have "v = to_upper (js_trim raw)" by (simp add: normalize_invoice_prefix_def Let_def split: if_splits)
  then show "normalize_invoice_prefix v = Inr v" using n by (simp add: normalize_invoice_prefix_def Let_def trimmed_case)
qed

lemma normalize_money_idem: "normalize_money raw = Inr v \<Longrightarrow> normalize_money v = Inr v"
  using canonical_amount [OF hundredths_nonneg, of "js_trim raw"]
  by (auto simp: normalize_money_def Let_def split: if_splits)

lemma normalize_percent_idem: "normalize_percent raw = Inr v \<Longrightarrow> normalize_percent v = Inr v"
  using canonical_amount [OF hundredths_nonneg, of "js_trim raw"]
  by (auto simp: normalize_percent_def Let_def split: if_splits)

lemma normalizers_idem: "f \<in> set (map snd normalizers) \<Longrightarrow> f raw = Inr v \<Longrightarrow> f v = Inr v"
  by (auto simp: normalizers_def dest: normalize_text_idem normalize_case_idem normalize_money_idem normalize_percent_idem)

lemma normalize_idem:
  "normalize_admin_setting_value key raw = Inr v \<Longrightarrow> normalize_admin_setting_value key v = Inr v"
  using normalizers_idem by (force simp: normalize_admin_setting_value_def split: option.splits dest: map_of_SomeD)

text \<open>
  A setting's value as it is stored is accepted again and stored as it is: for every key, what the
  validation returns is a fixed point of it, and every key of the definitions has a validation.
\<close>

theorem stored_setting_is_normal:
  "(normalize_admin_setting_value key raw = Inr v \<longrightarrow> normalize_admin_setting_value key v = Inr v) \<and>
   (get_admin_setting_definition key \<noteq> None \<longleftrightarrow> map_of normalizers key \<noteq> None)"
proof
  show "normalize_admin_setting_value key raw = Inr v \<longrightarrow> normalize_admin_setting_value key v = Inr v"
    using normalize_idem by blast
  have "set (map fst normalizers) = set (map de_key admin_setting_definitions)"
    by (auto simp: normalizers_def admin_setting_definitions_def plain_definition_def)
  then show "get_admin_setting_definition key \<noteq> None \<longleftrightarrow> map_of normalizers key \<noteq> None"
    by (auto simp: get_admin_setting_definition_def find_None_iff map_of_eq_None_iff)
qed

section \<open>Checkout reads what was written\<close>

text \<open>The parser of the library on a plain amount: it returns a number of that value.\<close>

definition parses_plain_amounts :: "decimal_lib \<Rightarrow> bool" where
  "parses_plain_amounts lib \<longleftrightarrow>
     (\<forall>s. plain_amount s \<longrightarrow> (\<exists>d. parse_decimal lib s = Some (Finite False d) \<and>
        dec_value d = of_int (hundredths s) / 100))"

text \<open>Both tables hold nothing but normal forms.\<close>

definition settings_ok :: "market \<Rightarrow> bool" where
  "settings_ok m \<longleftrightarrow>
     (\<forall>owner key v. (tenant_settings m owner key = Some v \<or> store_settings m owner key = Some v) \<longrightarrow>
        normalize_admin_setting_value key v = Inr v)"

text \<open>Any service may move the rest of the database between two updates.\<close>

inductive settings_step :: "market \<Rightarrow> market \<Rightarrow> bool" where
  update: "update_configurable ctx actor key raw m = Inr (w, m') \<Longrightarrow> settings_step m m'"
| rest: "tenant_settings m' = tenant_settings m \<Longrightarrow> store_settings m' = store_settings m \<Longrightarrow> settings_step m m'"

lemma update_configurable_writes:
  assumes "update_configurable ctx actor key raw m = Inr (w, m')"
  shows "\<exists>v m1. normalize_admin_setting_value key raw = Inr v \<and> m' = audit ctx actor ''setting.update'' (setting_number key) m1 \<and>
    (m1 = write_tenant_setting (tc_tenant ctx) key v m \<or> (\<exists>store. m1 = write_store_setting store key v m))"
  using assms
  by (auto simp: update_configurable_def split: sum.splits setting_ownership.splits) (metis setting_ownership.exhaust)

lemma written_ok:
  assumes "settings_ok m" "normalize_admin_setting_value key v = Inr v"
  shows "settings_ok (write_tenant_setting tenant key v m)" "settings_ok (write_store_setting store key v m)"
    "settings_ok (audit ctx actor a i m)"
  using assms by (auto simp: settings_ok_def write_tenant_setting_def write_store_setting_def audit_def split: if_splits)

lemma settings_step_ok: "settings_step m m' \<Longrightarrow> settings_ok m \<Longrightarrow> settings_ok m'"
proof (induction rule: settings_step.induct)
  case (update ctx actor key raw m w m')
  obtain v m1 where v: "normalize_admin_setting_value key raw = Inr v"
    "m' = audit ctx actor ''setting.update'' (setting_number key) m1"
    "m1 = write_tenant_setting (tc_tenant ctx) key v m \<or> (\<exists>store. m1 = write_store_setting store key v m)"
    using update_configurable_writes [OF update(1)] by blast
  note n = normalize_idem [OF v(1)]
  have "settings_ok m1" using v(3) written_ok(1,2) [OF update(2) n] by blast
  then show ?case unfolding v(2) by (rule written_ok(3) [OF _ n])
qed (simp add: settings_ok_def)

lemma decimal_of_hundredths:
  assumes "dec_value d = of_int p / 100"
  shows "coeff d * 100 = p * 10 ^ places d" "decimal_to_paise d = p"
proof -
  have "(of_int (coeff d) :: rat) / 10 ^ places d = of_int p / 100" using assms by (cases d) simp
  then have "(of_int (coeff d * 100) :: rat) = of_int (p * 10 ^ places d)" by (simp add: field_simps)
  then show e: "coeff d * 100 = p * 10 ^ places d" by (simp only: of_int_eq_iff)
  show "decimal_to_paise d = p"
    by (simp add: decimal_to_paise_def to_places_def dec_times_def e)
qed

lemma normal_amount:
  assumes "normalize_money raw = Inr v" "parses_plain_amounts lib"
  shows "\<exists>d. parse_decimal lib v = Some (Finite False d) \<and> 0 \<le> decimal_to_paise d \<and> decimal_to_paise d \<le> 10000000"
proof -
  define n where "n = hundredths (js_trim raw)"
  have v: "v = paise_to_decimal_string n" "n \<le> 10000000" "0 \<le> n"
    using assms(1) hundredths_nonneg
    by (auto simp: normalize_money_def Let_def n_def max_shipping_fee_rupees_def split: if_splits)
  obtain d where d: "parse_decimal lib v = Some (Finite False d)" "dec_value d = of_int (hundredths v) / 100"
    using assms(2) canonical_amount(1) [OF v(3)] unfolding parses_plain_amounts_def v(1) by blast
  have "decimal_to_paise d = n"
    using decimal_of_hundredths(2) [OF d(2)] canonical_amount(2) [OF v(3)] by (simp add: v(1))
  then show ?thesis using d(1) v(2,3) by blast
qed

lemma normal_rate:
  assumes "normalize_percent raw = Inr v" "parses_plain_amounts lib" "tax_rate_percent cfg = v"
  shows "\<exists>rate. parse_rate lib cfg = Inr rate \<and> 0 \<le> coeff rate"
proof -
  define n where "n = hundredths (js_trim raw)"
  have v: "v = paise_to_decimal_string n" "n \<le> 10000" "0 \<le> n"
    using assms(1) hundredths_nonneg
    by (auto simp: normalize_percent_def Let_def n_def split: if_splits)
  obtain d where d: "parse_decimal lib v = Some (Finite False d)" "dec_value d = of_int (hundredths v) / 100"
    using assms(2) canonical_amount(1) [OF v(3)] unfolding parses_plain_amounts_def v(1) by blast
  have e: "coeff d * 100 = n * 10 ^ places d"
    using decimal_of_hundredths(1) [OF d(2)] canonical_amount(2) [OF v(3)] by (simp add: v(1))
  have "coeff d * 100 \<le> 10000 * 10 ^ places d"
    unfolding e using v(2) by (intro mult_right_mono) simp_all
  then have "coeff d \<le> 100 * 10 ^ places d" by linarith
  moreover have "0 \<le> coeff d * 100" unfolding e using v(3) by simp
  ultimately show ?thesis using d(1) assms(3) by (simp add: parse_rate_def)
qed

lemma settings_steps_ok: "settings_step\<^sup>*\<^sup>* m m' \<Longrightarrow> settings_ok m \<Longrightarrow> settings_ok m'"
  by (induction rule: rtranclp_induct) (auto dest: settings_step_ok)

text \<open>
  C20. A checkout can always read its settings, whatever the merchants of the deployment wrote: after any
  sequence of updates of settings through the service, from tables that hold none, the shipping fee of
  every store is an amount between zero and 100000 rupees, the tax rate of every tenant is a rate that
  the tax engine accepts, and no tenant has tax-exclusive prices.
\<close>

theorem written_settings_are_readable:
  assumes "settings_step\<^sup>*\<^sup>* m0 m" "\<And>owner key. tenant_settings m0 owner key = None \<and> store_settings m0 owner key = None"
    "parses_plain_amounts lib"
  shows "(\<exists>fee. get_shipping_fee_paise lib store m = Inr fee \<and> 0 \<le> fee \<and> fee \<le> 10000000) \<and>
    (\<exists>rate. parse_rate lib (get_tax_config (tenant_settings m tenant)) = Inr rate \<and> 0 \<le> coeff rate) \<and>
    tax_pricing_mode (get_tax_config (tenant_settings m tenant)) = Inclusive"
proof (intro conjI)
  have ok: "settings_ok m" by (rule settings_steps_ok [OF assms(1)]) (simp add: settings_ok_def assms(2))
  show "\<exists>fee. get_shipping_fee_paise lib store m = Inr fee \<and> 0 \<le> fee \<and> fee \<le> 10000000"
  proof (cases "store_settings m store shipping_fee_key")
    case (Some v)
    then have "normalize_money v = Inr v"
      using ok unfolding settings_ok_def
      by (force simp: normalize_admin_setting_value_def normalizers_def shipping_fee_key_def)
    from normal_amount [OF this assms(3)] Some show ?thesis
      by (auto simp: get_shipping_fee_paise_def signed_def)
  qed (simp add: get_shipping_fee_paise_def)
  show "\<exists>rate. parse_rate lib (get_tax_config (tenant_settings m tenant)) = Inr rate \<and> 0 \<le> coeff rate"
  proof (cases "tenant_settings m tenant tax_rate_key")
    case None
    then have cfg: "tax_rate_percent (get_tax_config (tenant_settings m tenant)) = ''0''"
      by (simp add: get_tax_config_def)
    have "plain_amount ''0''" "hundredths ''0'' = 0" by code_simp+
    then obtain d where d: "parse_decimal lib ''0'' = Some (Finite False d)" "dec_value d = of_int 0 / 100"
      using assms(3) unfolding parses_plain_amounts_def by fastforce
    have "coeff d = 0" using decimal_of_hundredths(1) [OF d(2)] by simp
    then show ?thesis using d(1) cfg by (simp add: parse_rate_def)
  next
    case (Some v)
    then have "normalize_percent v = Inr v"
      using ok unfolding settings_ok_def
      by (force simp: normalize_admin_setting_value_def normalizers_def tax_rate_key_def)
    from normal_rate [OF this assms(3)] Some show ?thesis by (simp add: get_tax_config_def)
  qed
  show "tax_pricing_mode (get_tax_config (tenant_settings m tenant)) = Inclusive"
  proof (cases "tenant_settings m tenant tax_mode_key")
    case (Some v)
    then have "normalize_tax_pricing_mode v = Inr v"
      using ok unfolding settings_ok_def
      by (force simp: normalize_admin_setting_value_def normalizers_def tax_mode_key_def)
    then have "v = ''INCLUSIVE''"
      by (auto simp: normalize_tax_pricing_mode_def admin_settable_tax_modes_def Let_def split: if_splits)
    then show ?thesis using Some by (simp add: get_tax_config_def)
  qed (simp add: get_tax_config_def)
qed

text \<open>A tenant whose owner sets the rate and the fee, typed as people type them.\<close>

definition plain_parser :: decimal_lib where
  "plain_parser =
     \<lparr>parse_decimal = (\<lambda>s. if plain_amount s then Some (Finite False (Dec (hundredths s) 2)) else None),
      dec_div = long_division\<rparr>"

lemma plain_parser_parses: "parses_plain_amounts plain_parser"
  by (simp add: parses_plain_amounts_def plain_parser_def)

definition fresh_market :: market where
  "fresh_market =
     \<lparr>mk_shop = \<lparr>orders = [], order_items = [], attempts = [], refunds = [], histories = [], outbox = [],
        audits = [], webhooks = [], user_email = (\<lambda>_. None), memberships = (\<lambda>_ _. None),
        order_counter = None, next_id = 1\<rparr>,
      categories = [], products = [], variants = [], custom_fields = [], images = [], uploads = [],
      carts = [], cart_items = [], cart_customs = [], coupons = [], coupon_usages = [], usages = [],
      billing = \<lparr>subs = [], sub_events = [], plans = [], bd_idem = [], bd_next = 1\<rparr>,
      entitle = \<lparr>cat_features = [], cat_limits = [], cat_overrides = []\<rparr>,
      storefronts = [\<lparr>sf_id = 5, sf_tenant = 1, sf_primary = True\<rparr>],
      tenant_status_of = (\<lambda>_. Some TenantActive),
      store_settings = (\<lambda>_ _. None), tenant_settings = (\<lambda>_ _. None)\<rparr>"

definition sample_setting_context :: tenant_context where
  "sample_setting_context = \<lparr>tc_tenant = 1, tc_session = None\<rparr>"

definition sample_set :: "string \<Rightarrow> string \<Rightarrow> market \<Rightarrow> market" where
  "sample_set key raw m = snd (run_tx (update_configurable sample_setting_context 9 key raw) m)"

lemma sample_set_step: "settings_step\<^sup>*\<^sup>* m (sample_set key raw m)"
proof (cases "update_configurable sample_setting_context 9 key raw m")
  case (Inr x)
  then obtain w m' where "update_configurable sample_setting_context 9 key raw m = Inr (w, m')" by (cases x) auto
  then show ?thesis by (auto simp: sample_set_def run_tx_def intro: settings_step.update)
qed (simp add: sample_set_def run_tx_def)

theorem written_settings_are_readable_witness:
  "get_shipping_fee_paise plain_parser 5 (sample_set ''tax.ratePercent'' ''18'' (sample_set ''shippingFeeFlat'' '' 49.5 '' fresh_market)) =
     Inr 4950 \<and>
   (\<exists>rate. parse_rate plain_parser (get_tax_config (tenant_settings
      (sample_set ''tax.ratePercent'' ''18'' (sample_set ''shippingFeeFlat'' '' 49.5 '' fresh_market)) 1)) = Inr rate \<and> 0 \<le> coeff rate)"
proof
  let ?m = "sample_set ''tax.ratePercent'' ''18'' (sample_set ''shippingFeeFlat'' '' 49.5 '' fresh_market)"
  show "get_shipping_fee_paise plain_parser 5 ?m = Inr 4950" by code_simp
  have steps: "settings_step\<^sup>*\<^sup>* fresh_market ?m" using sample_set_step by (meson rtranclp_trans)
  show "\<exists>rate. parse_rate plain_parser (get_tax_config (tenant_settings ?m 1)) = Inr rate \<and> 0 \<le> coeff rate"
    using written_settings_are_readable [OF steps _ plain_parser_parses] by (simp add: fresh_market_def)
qed

theorem stored_setting_is_normal_witness:
  "normalize_admin_setting_value ''invoice.sellerGstin'' ''22AAAAA0000A1Z5'' = Inr ''22AAAAA0000A1Z5''"
proof -
  have "normalize_admin_setting_value ''invoice.sellerGstin'' '' 22aaaaa0000a1z5'' = Inr ''22AAAAA0000A1Z5''" by code_simp
  then show ?thesis using stored_setting_is_normal by blast
qed

end
