(* ===== verification/Invoices.thy ===== *)
theory Invoices
  imports SettingsProperties
begin

text \<open>
  Invoices: \<open>invoices/invoices.service.ts\<close> and \<open>invoices/invoice-number.service.ts\<close>. A request reads the
  order with its invoice, then the settings, then writes in a transaction, so the rows and the settings
  that it read are arguments of the transaction. The JSON of the tax breakdown is left out.
\<close>

section \<open>Tables\<close>

record seller_snapshot =
  se_legal_name :: string
  se_address :: string
  se_gstin :: string
  se_state :: string

record invoice_row =
  in_id :: uuid
  in_number :: string
  in_order :: uuid
  in_issued :: instant
  in_currency :: string
  in_subtotal :: decimal
  in_discount :: decimal
  in_shipping :: decimal
  in_taxable :: decimal
  in_tax :: decimal
  in_total :: decimal
  in_tax_mode :: tax_mode
  in_tax_rate :: "decimal option"
  in_seller :: seller_snapshot
  in_tenant :: uuid

record counter_row =
  co_tenant :: uuid
  co_key :: string
  co_value :: int

record ledger =
  lg_market :: market
  lg_invoices :: "invoice_row list"
  lg_counters :: "counter_row list"

section \<open>Numbers\<close>

definition invoice_number_counter_key :: string where
  "invoice_number_counter_key = ''invoice_number_counter''"

definition counter_hit :: "uuid \<Rightarrow> string \<Rightarrow> counter_row \<Rightarrow> bool" where
  "counter_hit tenant key c \<longleftrightarrow> co_tenant c = tenant \<and> co_key c = key"

text \<open>The upsert of the counter, a Postgres \<open>int4\<close>, and the value it returns.\<close>

definition bump_counter :: "uuid \<Rightarrow> string \<Rightarrow> counter_row list \<Rightarrow> (int \<times> counter_row list) result" where
  "bump_counter tenant key cs =
     (case List.find (counter_hit tenant key) cs of
        None \<Rightarrow> Inr (1, cs @ [\<lparr>co_tenant = tenant, co_key = key, co_value = 1\<rparr>])
      | Some c \<Rightarrow>
          then_do (require (co_value c < 2147483647) (Thrown ''integer out of range'')) (\<lambda>_.
          Inr (co_value c + 1, update_rows (counter_hit tenant key) (\<lambda>c. c\<lparr>co_value := co_value c + 1\<rparr>) cs)))"

definition invoice_number_text :: "string \<Rightarrow> int \<Rightarrow> string" where
  "invoice_number_text prefix n = prefix @ pad_start 6 (int_text n)"

definition allocate :: "uuid \<Rightarrow> string \<Rightarrow> (ledger, string) tx" where
  "allocate tenant prefix db =
     then_do (bump_counter tenant invoice_number_counter_key (lg_counters db)) (\<lambda>(n, cs).
     Inr (invoice_number_text prefix n, db\<lparr>lg_counters := cs\<rparr>))"

section \<open>The service\<close>

definition invoiceable_statuses :: "order_status list" where
  "invoiceable_statuses = [Paid, Confirmed, InProduction, Shipped, Delivered, Refunded]"

record invoice_actor =
  ia_user :: uuid
  ia_admin :: bool
  ia_tenant :: "uuid option"

definition find_invoice :: "uuid \<Rightarrow> ledger \<Rightarrow> invoice_row option" where
  "find_invoice order db = List.find (\<lambda>i. in_order i = order) (lg_invoices db)"

definition may_see_invoice :: "invoice_actor \<Rightarrow> order_row \<Rightarrow> bool" where
  "may_see_invoice actor r \<longleftrightarrow>
     (if ia_admin actor then ia_tenant actor = Some (o_tenant r) else o_user r = ia_user actor)"

text \<open>The order as it was read, and its invoice if there was one.\<close>

definition invoice_read :: "uuid \<Rightarrow> invoice_actor \<Rightarrow> ledger \<Rightarrow> (order_row \<times> invoice_row option) result" where
  "invoice_read order actor db =
     then_do (or_throw (find_order (mk_shop (lg_market db)) order) (NotFound ''Order not found'')) (\<lambda>r.
     then_do (require (may_see_invoice actor r) (NotFound ''Order not found'')) (\<lambda>_.
     case find_invoice order db of
       Some i \<Rightarrow> Inr (r, Some i)
     | None \<Rightarrow>
         then_do (require (o_status r \<in> set invoiceable_statuses)
           (Conflict ''An invoice is only available once the order has been paid'')) (\<lambda>_.
         Inr (r, None))))"

definition setting_or_blank :: "uuid \<Rightarrow> string \<Rightarrow> market \<Rightarrow> string" where
  "setting_or_blank tenant key m = (case get_tenant_value tenant key m of None \<Rightarrow> '''' | Some v \<Rightarrow> v)"

definition build_seller_snapshot :: "uuid \<Rightarrow> market \<Rightarrow> seller_snapshot" where
  "build_seller_snapshot tenant m =
     \<lparr>se_legal_name = setting_or_blank tenant ''invoice.sellerLegalName'' m,
      se_address = setting_or_blank tenant ''invoice.sellerAddress'' m,
      se_gstin = setting_or_blank tenant ''invoice.sellerGstin'' m,
      se_state = setting_or_blank tenant ''invoice.sellerState'' m\<rparr>"

definition invoice_prefix :: "uuid \<Rightarrow> market \<Rightarrow> string" where
  "invoice_prefix tenant m =
     (let p = js_trim (setting_or_blank tenant ''invoice.numberPrefix'' m) in if p = '''' then ''INV-'' else p)"

definition new_invoice :: "order_row \<Rightarrow> string \<Rightarrow> seller_snapshot \<Rightarrow> uuid \<Rightarrow> instant \<Rightarrow> invoice_row" where
  "new_invoice r number seller i now =
     \<lparr>in_id = i, in_number = number, in_order = o_id r, in_issued = now, in_currency = o_currency r,
      in_subtotal = o_subtotal r, in_discount = o_discount r, in_shipping = o_shipping_fee r,
      in_taxable = o_taxable r, in_tax = o_tax r, in_total = o_total r, in_tax_mode = o_tax_mode r,
      in_tax_rate = o_tax_rate r, in_seller = seller, in_tenant = o_tenant r\<rparr>"

definition create_invoice_tx ::
  "order_row \<Rightarrow> string \<Rightarrow> seller_snapshot \<Rightarrow> instant \<Rightarrow> (ledger, invoice_row) tx" where
  "create_invoice_tx r prefix seller now db =
     then_do (allocate (o_tenant r) prefix db) (\<lambda>(number, db1).
     let i = new_invoice r number seller (fresh (lg_market db1)) now
     in then_do (require (o_id r \<notin> set (map in_order (lg_invoices db1))) UniqueViolation) (\<lambda>_.
        Inr (i, db1\<lparr>lg_invoices := lg_invoices db1 @ [i], lg_market := take_ids 1 (lg_market db1)\<rparr>)))"

text \<open>A lost race is answered with the row of the winner.\<close>

definition create_invoice ::
  "order_row \<Rightarrow> string \<Rightarrow> seller_snapshot \<Rightarrow> instant \<Rightarrow> ledger \<Rightarrow> invoice_row result \<times> ledger" where
  "create_invoice r prefix seller now db =
     (case run_tx (create_invoice_tx r prefix seller now) db of
        (Inl e, db1) \<Rightarrow>
          (case (if e = UniqueViolation then find_invoice (o_id r) db1 else None) of
             Some i \<Rightarrow> (Inr i, db1)
           | None \<Rightarrow> (Inl e, db1))
      | (Inr i, db1) \<Rightarrow> (Inr i, db1))"

section \<open>The view\<close>

datatype invoice_note = SellerDetailsPending | NoTaxRate | TaxRegimePending

record invoice_line =
  il_description :: string
  il_variant :: "string option"
  il_unit_price :: string
  il_quantity :: int
  il_total :: string

record invoice_view =
  vi_number :: string
  vi_issued :: instant
  vi_currency :: string
  vi_order :: uuid
  vi_order_number :: string
  vi_placed :: instant
  vi_seller :: seller_snapshot
  vi_details_pending :: bool
  vi_buyer :: shipping_snapshot
  vi_lines :: "invoice_line list"
  vi_subtotal :: string
  vi_discount :: string
  vi_shipping :: string
  vi_taxable :: string
  vi_tax :: string
  vi_tax_mode :: tax_mode
  vi_rate_percent :: "string option"
  vi_total :: string
  vi_notes :: "invoice_note list"

definition dec_str :: "decimal \<Rightarrow> string" where
  "dec_str d = paise_to_decimal_string (decimal_to_paise d)"

text \<open>\<open>rate * 100\<close> with two decimals: the hundredths of the percentage.\<close>

definition rate_percent_text :: "decimal \<Rightarrow> string" where
  "rate_percent_text rate = paise_to_decimal_string (coeff (to_places 2 (dec_times rate (Dec 100 0))))"

definition invoice_line_of :: "order_item \<Rightarrow> invoice_line" where
  "invoice_line_of i =
     \<lparr>il_description = i_name i, il_variant = i_variant_label i, il_unit_price = dec_str (i_unit_price i),
      il_quantity = i_quantity i, il_total = dec_str (i_line_total i)\<rparr>"

definition project_invoice :: "order_row \<Rightarrow> invoice_row \<Rightarrow> ledger \<Rightarrow> invoice_view" where
  "project_invoice r i db =
     (let seller = in_seller i;
          pending = se_legal_name seller = '''' \<or> se_address seller = '''' \<or> se_gstin seller = '''';
          rate = map_option rate_percent_text (in_tax_rate i)
      in \<lparr>vi_number = in_number i, vi_issued = in_issued i, vi_currency = in_currency i, vi_order = o_id r,
          vi_order_number = o_number r, vi_placed = o_created r, vi_seller = seller, vi_details_pending = pending,
          vi_buyer = o_shipping r,
          vi_lines = map invoice_line_of (sort_key i_id (filter (\<lambda>it. i_order it = o_id r)
            (order_items (mk_shop (lg_market db))))),
          vi_subtotal = dec_str (in_subtotal i), vi_discount = dec_str (in_discount i),
          vi_shipping = dec_str (in_shipping i), vi_taxable = dec_str (in_taxable i), vi_tax = dec_str (in_tax i),
          vi_tax_mode = in_tax_mode i, vi_rate_percent = rate, vi_total = dec_str (in_total i),
          vi_notes = (if pending then [SellerDetailsPending] else []) @ (if rate = None then [NoTaxRate] else []) @
            [TaxRegimePending]\<rparr>)"

definition get_invoice_for_order ::
  "uuid \<Rightarrow> invoice_actor \<Rightarrow> instant \<Rightarrow> ledger \<Rightarrow> invoice_view result \<times> ledger" where
  "get_invoice_for_order order actor now db =
     (case invoice_read order actor db of
        Inl e \<Rightarrow> (Inl e, db)
      | Inr (r, Some i) \<Rightarrow> (Inr (project_invoice r i db), db)
      | Inr (r, None) \<Rightarrow>
          (case create_invoice r (invoice_prefix (o_tenant r) (lg_market db))
                  (build_seller_snapshot (o_tenant r) (lg_market db)) now db of
             (Inl e, db1) \<Rightarrow> (Inl e, db1)
           | (Inr i, db1) \<Rightarrow> (Inr (project_invoice r i db1), db1)))"

section \<open>Histories\<close>

text \<open>
  Any request that read an order at some time may write now; the rest of the program moves the shop and
  the settings. Orders keep their identifier and tenant.
\<close>

inductive ledger_step :: "ledger \<Rightarrow> ledger \<Rightarrow> bool" where
  create: "ledger_step db (snd (create_invoice r prefix seller now db))"
| rest: "fresh (lg_market db) \<le> fresh m \<Longrightarrow> ledger_step db (db\<lparr>lg_market := m\<rparr>)"

definition ledger_reachable :: "ledger \<Rightarrow> bool" where
  "ledger_reachable db \<longleftrightarrow> (\<exists>db0. lg_invoices db0 = [] \<and> lg_counters db0 = [] \<and> ledger_step\<^sup>*\<^sup>* db0 db)"

definition tenant_invoices :: "uuid \<Rightarrow> ledger \<Rightarrow> invoice_row list" where
  "tenant_invoices tenant db = filter (\<lambda>i. in_tenant i = tenant) (lg_invoices db)"

definition counter_value :: "uuid \<Rightarrow> ledger \<Rightarrow> int" where
  "counter_value tenant db =
     (case List.find (counter_hit tenant invoice_number_counter_key) (lg_counters db) of
        None \<Rightarrow> 0 | Some c \<Rightarrow> co_value c)"

text \<open>The k-th invoice of a tenant ends in the digits of k, and the counter is their number.\<close>

definition numbered :: "invoice_row list \<Rightarrow> bool" where
  "numbered is \<longleftrightarrow> (\<forall>k < length is. \<exists>prefix. in_number (is ! k) = invoice_number_text prefix (int k + 1))"

definition ledger_ok :: "ledger \<Rightarrow> bool" where
  "ledger_ok db \<longleftrightarrow> distinct (map in_order (lg_invoices db)) \<and>
     (\<forall>tenant. numbered (tenant_invoices tenant db) \<and>
        counter_value tenant db = int (length (tenant_invoices tenant db)))"

lemma numbered_snoc: "numbered is \<Longrightarrow> in_number i = invoice_number_text p (int (length is) + 1) \<Longrightarrow> numbered (is @ [i])"
  by (auto simp: numbered_def nth_append less_Suc_eq)

lemma find_update_counter:
  "List.find (counter_hit t k) (update_rows (counter_hit t' k') (\<lambda>c. c\<lparr>co_value := co_value c + 1\<rparr>) cs) =
     map_option (\<lambda>c. if counter_hit t' k' c then c\<lparr>co_value := co_value c + 1\<rparr> else c) (List.find (counter_hit t k) cs)"
  by (induction cs) (auto simp: counter_hit_def)

lemma allocate_counts:
  assumes "allocate tenant prefix db = Inr (number, db1)"
  shows "number = invoice_number_text prefix (counter_value tenant db + 1)"
    "counter_value t db1 = counter_value t db + (if t = tenant then 1 else 0)"
    "lg_invoices db1 = lg_invoices db" "lg_market db1 = lg_market db"
proof -
  show "lg_invoices db1 = lg_invoices db" "lg_market db1 = lg_market db"
    using assms by (auto simp: allocate_def)
  let ?find = "List.find (counter_hit tenant invoice_number_counter_key) (lg_counters db)"
  show "number = invoice_number_text prefix (counter_value tenant db + 1)"
    using assms by (cases ?find) (auto simp: allocate_def bump_counter_def counter_value_def)
  show "counter_value t db1 = counter_value t db + (if t = tenant then 1 else 0)"
  proof (cases ?find)
    case None
    then show ?thesis
      using assms by (auto simp: allocate_def bump_counter_def counter_value_def find_append counter_hit_def split: option.split)
  next
    case (Some c)
    have cs: "lg_counters db1 = update_rows (counter_hit tenant invoice_number_counter_key)
        (\<lambda>c. c\<lparr>co_value := co_value c + 1\<rparr>) (lg_counters db)"
      using assms Some by (auto simp: allocate_def bump_counter_def)
    have "List.find (counter_hit t invoice_number_counter_key) (lg_counters db) = Some x \<Longrightarrow>
        counter_hit tenant invoice_number_counter_key x \<longleftrightarrow> t = tenant" for x
      by (auto simp: counter_hit_def dest!: find_SomeD)
    with Some show ?thesis
      by (cases "List.find (counter_hit t invoice_number_counter_key) (lg_counters db)")
        (auto simp: counter_value_def cs find_update_counter)
  qed
qed

lemma create_invoice_tx_ok:
  assumes "create_invoice_tx r prefix seller now db = Inr (i, db')" "ledger_ok db"
  shows "ledger_ok db'"
proof -
  obtain number db1 where a: "allocate (o_tenant r) prefix db = Inr (number, db1)"
    and i: "i = new_invoice r number seller (fresh (lg_market db1)) now" "o_id r \<notin> set (map in_order (lg_invoices db1))"
    and db': "db' = db1\<lparr>lg_invoices := lg_invoices db1 @ [i], lg_market := take_ids 1 (lg_market db1)\<rparr>"
    using assms(1) by (auto simp: create_invoice_tx_def Let_def)
  note c = allocate_counts [OF a]
  have rows: "tenant_invoices t db' = tenant_invoices t db @ (if t = o_tenant r then [i] else [])" for t
    by (simp add: tenant_invoices_def db' c(3) i(1) new_invoice_def)
  have count: "counter_value t db' = counter_value t db1" for t by (simp add: counter_value_def db')
  have "numbered (tenant_invoices t db') \<and> counter_value t db' = int (length (tenant_invoices t db'))" for t
    using assms(2) c(1,2) numbered_snoc [of "tenant_invoices t db" i prefix]
    by (auto simp: ledger_ok_def rows count i(1) new_invoice_def)
  moreover have "distinct (map in_order (lg_invoices db'))"
    using assms(2) i c(3) by (simp add: ledger_ok_def db' new_invoice_def)
  ultimately show ?thesis by (simp add: ledger_ok_def)
qed

lemma create_invoice_keeps: "ledger_ok db \<Longrightarrow> ledger_ok (snd (create_invoice r prefix seller now db))"
  using create_invoice_tx_ok by (auto simp: create_invoice_def run_tx_def split: sum.split option.split)

lemma ledger_step_ok: "ledger_step db db' \<Longrightarrow> ledger_ok db \<Longrightarrow> ledger_ok db'"
proof (induction rule: ledger_step.induct)
  case (create db r prefix seller now)
  then show ?case by (rule create_invoice_keeps)
qed (simp add: ledger_ok_def tenant_invoices_def counter_value_def)

lemma ledger_reachable_ok:
  assumes "ledger_reachable db"
  shows "ledger_ok db"
proof -
  obtain db0 where db0: "lg_invoices db0 = []" "lg_counters db0 = []" "ledger_step\<^sup>*\<^sup>* db0 db"
    using assms by (auto simp: ledger_reachable_def)
  have "ledger_ok db0"
    using db0(1,2) by (simp add: ledger_ok_def tenant_invoices_def counter_value_def numbered_def)
  with db0(3) show ?thesis by (induction rule: rtranclp_induct) (auto dest: ledger_step_ok)
qed

end
