(* ===== verification/InvoiceProperties.thy ===== *)
theory InvoiceProperties
  imports Invoices ShopReach
begin

text \<open>
  What an invoice promises: the numbers of a tenant have no gap, an order has one invoice, and an
  invoice that was handed out once is handed out unchanged from then on.
\<close>

section \<open>Numbers\<close>


section \<open>Stability\<close>

lemma create_invoice_appends:
  "\<exists>is. lg_invoices (snd (create_invoice r prefix seller now db)) = lg_invoices db @ is"
proof (cases "create_invoice_tx r prefix seller now db")
  case (Inr p)
  obtain i db' where p: "p = (i, db')" by (cases p)
  obtain number db1 where a: "allocate (o_tenant r) prefix db = Inr (number, db1)"
    and db': "db' = db1\<lparr>lg_invoices := lg_invoices db1 @ [i], lg_market := take_ids 1 (lg_market db1)\<rparr>"
    using Inr by (auto simp: p create_invoice_tx_def Let_def)
  show ?thesis using Inr allocate_counts(3) [OF a] by (simp add: p create_invoice_def run_tx_def db')
qed (simp add: create_invoice_def run_tx_def split: option.split)

lemma find_invoice_append:
  "lg_invoices db' = lg_invoices db @ is \<Longrightarrow> find_invoice order db = Some i \<Longrightarrow> find_invoice order db' = Some i"
  by (simp add: find_invoice_def find_append)

lemma ledger_steps_keep_invoice:
  "ledger_step\<^sup>*\<^sup>* db db' \<Longrightarrow> find_invoice order db = Some i \<Longrightarrow> find_invoice order db' = Some i"
proof (induction rule: rtranclp_induct)
  case (step y z)
  from step.hyps(2) step.IH [OF step.prems] show ?case
  proof (cases rule: ledger_step.cases)
    case (create r prefix seller now)
    then show ?thesis
      using create_invoice_appends [of r prefix seller now y] step.IH [OF step.prems] find_invoice_append by blast
  qed (simp add: find_invoice_def)
qed simp

lemma create_invoice_existing:
  assumes "find_invoice (o_id r) db = Some i"
  shows "create_invoice r prefix seller now db =
    (case allocate (o_tenant r) prefix db of Inl e \<Rightarrow> (Inl e, db) | Inr _ \<Rightarrow> (Inr i, db))"
proof (cases "allocate (o_tenant r) prefix db")
  case (Inl e)
  then have "e \<noteq> UniqueViolation"
    by (auto simp: allocate_def bump_counter_def require_def split: option.splits if_splits)
  then show ?thesis using Inl by (simp add: create_invoice_def create_invoice_tx_def run_tx_def)
next
  case (Inr p)
  obtain number db1 where p: "p = (number, db1)" by (cases p)
  have "in_order i = o_id r" "i \<in> set (lg_invoices db)"
    using assms by (auto simp: find_invoice_def dest: find_SomeD)
  then have "o_id r \<in> set (map in_order (lg_invoices db1))"
    using allocate_counts(3) Inr p by force
  then show ?thesis
    using Inr assms by (auto simp: p create_invoice_def create_invoice_tx_def run_tx_def require_def Let_def)
qed


section \<open>Witnesses\<close>

definition paid_order :: "uuid \<Rightarrow> order_row" where
  "paid_order i = sample_order\<lparr>o_id := i, o_status := Paid\<rparr>"

definition paid_ledger :: ledger where
  "paid_ledger =
     \<lparr>lg_market = fresh_market\<lparr>mk_shop := (mk_shop fresh_market)\<lparr>orders := [paid_order 50, paid_order 51]\<rparr>\<rparr>,
      lg_invoices = [], lg_counters = []\<rparr>"

definition invoiced :: "uuid \<Rightarrow> ledger \<Rightarrow> ledger" where
  "invoiced order db = snd (create_invoice (paid_order order) ''INV-'' (build_seller_snapshot 1 (lg_market db)) 100 db)"

lemma invoiced_step: "ledger_step\<^sup>*\<^sup>* db (invoiced order db)"
  unfolding invoiced_def by (rule r_into_rtranclp) (rule ledger_step.create)

lemma invoiced_reachable: "ledger_reachable (invoiced 51 (invoiced 50 paid_ledger))"
  unfolding ledger_reachable_def
  using rtranclp_trans [OF invoiced_step invoiced_step]
  by (intro exI [of _ paid_ledger]) (simp add: paid_ledger_def)



end
