(* ===== verification/Reviews.thy ===== *)
theory Reviews
  imports Checkout
begin

text \<open>
  Product reviews: \<open>reviews/reviews.service.ts\<close> and the row of \<open>prisma/schema.prisma\<close>. Every write locks
  the product's row before it aggregates, so a write and its recomputation are one step.
\<close>

section \<open>Tables\<close>

datatype review_status = Published | Rejected | Removed

record review_row =
  vr_id :: uuid
  vr_product :: uuid
  vr_user :: uuid
  vr_item :: uuid
  vr_rating :: int
  vr_body :: "string option"
  vr_status :: review_status
  vr_tenant :: uuid
  vr_created :: instant
  vr_updated :: instant

record forum =
  fo_market :: market
  fo_reviews :: "review_row list"

definition find_review :: "uuid \<Rightarrow> forum \<Rightarrow> review_row option" where
  "find_review i db = List.find (\<lambda>v. vr_id v = i) (fo_reviews db)"

text \<open>The unique index on product and user.\<close>

definition write_reviews :: "review_row list \<Rightarrow> forum \<Rightarrow> forum result" where
  "write_reviews vs db =
     then_do (require (distinct (map (\<lambda>v. (vr_product v, vr_user v)) vs)) UniqueViolation) (\<lambda>_.
     Inr (db\<lparr>fo_reviews := vs\<rparr>))"

section \<open>The rating of a product\<close>

text \<open>
  \<open>AVG\<close> reaches the code as a double; an average lies between 1 and 5, where a double has 50 to 52
  binary places. \<open>toFixed(2)\<close> rounds that double to the nearest hundredth, up when there are two. So 201
  points in 200 reviews, 1.005, is below it as a double and becomes 1.00.
\<close>

definition average_places :: "int \<Rightarrow> int \<Rightarrow> nat" where
  "average_places points n = (if points < 2 * n then 52 else if points < 4 * n then 51 else 50)"

definition round_half_even :: "int \<Rightarrow> int \<Rightarrow> int" where
  "round_half_even a d =
     (let q = a div d; r = 2 * (a mod d)
      in if r < d \<or> r = d \<and> even q then q else q + 1)"

definition average_double :: "int \<Rightarrow> int \<Rightarrow> int" where
  "average_double points n = round_half_even (points * 2 ^ average_places points n) n"

definition to_fixed_2 :: "int \<Rightarrow> nat \<Rightarrow> decimal" where
  "to_fixed_2 m k = Dec (round_half_up (m * 100) (2 ^ k)) 2"

definition published_of :: "uuid \<Rightarrow> review_row list \<Rightarrow> review_row list" where
  "published_of product vs = filter (\<lambda>v. vr_product v = product \<and> vr_status v = Published) vs"

definition rating_columns :: "review_row list \<Rightarrow> nat \<times> decimal option" where
  "rating_columns vs =
     (let n = length vs; points = sum_list (map vr_rating vs)
      in (n, if 0 < n then Some (to_fixed_2 (average_double points (int n)) (average_places points (int n))) else None))"

definition recompute_product_rating :: "uuid \<Rightarrow> forum \<Rightarrow> forum result" where
  "recompute_product_rating product db =
     then_do (or_throw (find_product product (fo_market db)) (Thrown ''Record to update not found'')) (\<lambda>_.
     let (n, avg) = rating_columns (published_of product (fo_reviews db))
     in Inr (db\<lparr>fo_market := (fo_market db)\<lparr>products :=
          update_rows (\<lambda>p. p_id p = product) (\<lambda>p. p\<lparr>p_reviews := n, p_rating := avg\<rparr>) (products (fo_market db))\<rparr>\<rparr>))"

section \<open>The author\<close>

record review_dto =
  nr_product :: uuid
  nr_rating :: int
  nr_body :: "string option"

record review_view =
  vw_id :: uuid
  vw_product :: uuid
  vw_user :: uuid
  vw_rating :: int
  vw_body :: "string option"
  vw_status :: review_status
  vw_created :: instant
  vw_updated :: instant

definition to_review_view :: "review_row \<Rightarrow> review_view" where
  "to_review_view v =
     \<lparr>vw_id = vr_id v, vw_product = vr_product v, vw_user = vr_user v, vw_rating = vr_rating v, vw_body = vr_body v,
      vw_status = vr_status v, vw_created = vr_created v, vw_updated = vr_updated v\<rparr>"

definition map_unique_constraint_error :: "string \<Rightarrow> 'a result \<Rightarrow> 'a result" where
  "map_unique_constraint_error msg r =
     (case r of Inl e \<Rightarrow> Inl (if e = UniqueViolation then Conflict msg else e) | Inr x \<Rightarrow> Inr x)"

definition create_review :: "uuid \<Rightarrow> review_dto \<Rightarrow> instant \<Rightarrow> (forum, review_view) tx" where
  "create_review user dto now db =
     then_do (or_throw (find_delivered_order_item_for_product user (nr_product dto) (mk_shop (fo_market db)))
       (Conflict ''You can only review a product from an order that has been delivered to you'')) (\<lambda>it.
     let v = \<lparr>vr_id = fresh (fo_market db), vr_product = nr_product dto, vr_user = user, vr_item = i_id it,
              vr_rating = nr_rating dto, vr_body = nr_body dto, vr_status = Published, vr_tenant = i_tenant it,
              vr_created = now, vr_updated = now\<rparr>
     in then_do (map_unique_constraint_error ''You have already reviewed this product''
          (write_reviews (fo_reviews db @ [v]) (db\<lparr>fo_market := take_ids 1 (fo_market db)\<rparr>))) (\<lambda>db1.
        then_do (recompute_product_rating (nr_product dto) db1) (\<lambda>db2.
        Inr (to_review_view v, db2))))"

definition get_review_owned_by_or_throw :: "uuid \<Rightarrow> uuid \<Rightarrow> forum \<Rightarrow> review_row result" where
  "get_review_owned_by_or_throw i user db =
     then_do (or_throw (find_review i db) (NotFound ''Review not found'')) (\<lambda>v.
     then_do (require (vr_user v = user) (Forbidden ''You can only manage your own review'')) (\<lambda>_.
     Inr v))"

text \<open>The update of a row that was read, and of the product it names.\<close>

definition write_review :: "uuid \<Rightarrow> (review_row \<Rightarrow> review_row) \<Rightarrow> review_row \<Rightarrow> (forum, review_row) tx" where
  "write_review i f v db =
     then_do (recompute_product_rating (vr_product v)
       (db\<lparr>fo_reviews := update_rows (\<lambda>x. vr_id x = i) f (fo_reviews db)\<rparr>)) (\<lambda>db1.
     Inr (f v, db1))"

text \<open>A field of the request: left out, \<open>null\<close> or a value. \<open>IsOptional\<close> lets \<open>null\<close> through.\<close>

record review_patch =
  up_rating :: "int option option"
  up_body :: "string option option"

definition patched :: "review_patch \<Rightarrow> instant \<Rightarrow> review_row \<Rightarrow> review_row" where
  "patched dto now v =
     v\<lparr>vr_rating := (case up_rating dto of Some (Some n) \<Rightarrow> n | _ \<Rightarrow> vr_rating v),
       vr_body := (case up_body dto of Some b \<Rightarrow> b | None \<Rightarrow> vr_body v), vr_updated := now\<rparr>"

definition update_review :: "uuid \<Rightarrow> uuid \<Rightarrow> review_patch \<Rightarrow> instant \<Rightarrow> (forum, review_view) tx" where
  "update_review user i dto now db =
     then_do (get_review_owned_by_or_throw i user db) (\<lambda>v.
     then_do (require (up_rating dto \<noteq> Some None) (Thrown ''Argument rating must not be null'')) (\<lambda>_.
     then_do (write_review i (patched dto now) v db) (\<lambda>(v1, db1).
     Inr (to_review_view v1, db1))))"

definition with_status :: "review_status \<Rightarrow> instant \<Rightarrow> review_row \<Rightarrow> review_row" where
  "with_status s now v = v\<lparr>vr_status := s, vr_updated := now\<rparr>"

definition remove_review :: "uuid \<Rightarrow> uuid \<Rightarrow> instant \<Rightarrow> (forum, review_view) tx" where
  "remove_review user i now db =
     then_do (get_review_owned_by_or_throw i user db) (\<lambda>v.
     then_do (write_review i (with_status Removed now) v db) (\<lambda>(v1, db1).
     Inr (to_review_view v1, db1)))"

section \<open>The moderator\<close>

definition admin_update_review_status ::
  "tenant_context \<Rightarrow> uuid \<Rightarrow> uuid \<Rightarrow> review_status \<Rightarrow> instant \<Rightarrow> (forum, review_view) tx" where
  "admin_update_review_status ctx actor i s now db =
     then_do (or_throw (find_review i db) (NotFound ''Review not found'')) (\<lambda>v.
     then_do (assert_object_in_tenant (Some (vr_tenant v)) (tc_tenant ctx)) (\<lambda>_.
     then_do (write_review i (with_status s now) v db) (\<lambda>(v1, db1).
     Inr (to_review_view v1, db1\<lparr>fo_market := audit ctx actor ''review.moderate'' i (fo_market db1)\<rparr>))))"

section \<open>The public list\<close>

definition review_listed :: "uuid \<Rightarrow> uuid option \<Rightarrow> review_row \<Rightarrow> bool" where
  "review_listed product scope v \<longleftrightarrow>
     vr_product v = product \<and> vr_status v = Published \<and> (scope = None \<or> scope = Some (vr_tenant v))"

definition list_for_product ::
  "uuid \<Rightarrow> nat \<Rightarrow> nat \<Rightarrow> uuid option \<Rightarrow> forum \<Rightarrow> (review_view list \<times> page_meta) result" where
  "list_for_product product page limit scope db =
     then_do (require (scope = None \<or>
         List.find (\<lambda>p. p_id p = product \<and> Some (p_tenant p) = scope) (products (fo_market db)) \<noteq> None)
       (NotFound ''Product not found'')) (\<lambda>_.
     let rows = sort_key (\<lambda>v. - vr_created v) (filter (review_listed product scope) (fo_reviews db));
         n = length rows
     in Inr (map to_review_view (page_slice page limit rows),
          \<lparr>pm_page = page, pm_limit = limit, pm_total = n, pm_total_pages = total_pages limit n\<rparr>))"

section \<open>Histories\<close>

text \<open>
  Requests pass the checks of \<open>dto/\<close>: a rating is between 1 and 5. The rest of the program moves orders
  and catalogue, but the only writer of the rating columns is the recomputation: a product keeps them or
  is new, with an identifier that no review has, and without a rating.
\<close>

definition rating_in_range :: "int \<Rightarrow> bool" where
  "rating_in_range n \<longleftrightarrow> 1 \<le> n \<and> n \<le> 5"

definition ratings_kept :: "market \<Rightarrow> forum \<Rightarrow> bool" where
  "ratings_kept m db \<longleftrightarrow>
     (\<forall>p \<in> set (products m).
        (\<exists>q \<in> set (products (fo_market db)). p_id q = p_id p \<and> p_reviews q = p_reviews p \<and> p_rating q = p_rating p) \<or>
        p_reviews p = 0 \<and> p_rating p = None \<and> p_id p \<notin> vr_product ` set (fo_reviews db))"

inductive author_step :: "forum \<Rightarrow> forum \<Rightarrow> bool" where
  create: "create_review user dto now db = Inr (w, db') \<Longrightarrow> rating_in_range (nr_rating dto) \<Longrightarrow> author_step db db'"
| update: "update_review user i dto now db = Inr (w, db') \<Longrightarrow>
    (\<And>n. up_rating dto = Some (Some n) \<Longrightarrow> rating_in_range n) \<Longrightarrow> author_step db db'"
| remove: "remove_review user i now db = Inr (w, db') \<Longrightarrow> author_step db db'"
| rest: "ratings_kept m db \<Longrightarrow> fresh (fo_market db) \<le> fresh m \<Longrightarrow> author_step db (db\<lparr>fo_market := m\<rparr>)"

inductive forum_step :: "forum \<Rightarrow> forum \<Rightarrow> bool" where
  author: "author_step db db' \<Longrightarrow> forum_step db db'"
| moderate: "admin_update_review_status ctx actor i s now db = Inr (w, db') \<Longrightarrow> forum_step db db'"

definition forum_start :: "forum \<Rightarrow> bool" where
  "forum_start db \<longleftrightarrow> fo_reviews db = [] \<and>
     (\<forall>p \<in> set (products (fo_market db)). p_reviews p = 0 \<and> p_rating p = None)"

end
