(* ===== verification/ReviewProperties.thy ===== *)
theory ReviewProperties
  imports Reviews CheckoutProperties
begin

text \<open>
  The rating columns of a product are the aggregate of its published reviews, and what a moderator hides
  its author cannot show again.
\<close>

section \<open>Rounding\<close>

lemma double_abs: "2 * \<bar>x - y\<bar> \<le> (d :: int) \<longleftrightarrow> 2 * x \<le> 2 * y + d \<and> 2 * y \<le> 2 * x + d"
  by (auto simp: abs_if)

lemma round_half_even_near:
  assumes "0 < d"
  shows "2 * \<bar>round_half_even a d * d - a\<bar> \<le> d"
proof -
  have a: "a = a div d * d + a mod d" by (simp only: div_mult_mod_eq)
  have m: "0 \<le> a mod d" "a mod d < d" using assms by simp_all
  show ?thesis
  proof (cases "2 * (a mod d) < d \<or> 2 * (a mod d) = d \<and> even (a div d)")
    case True
    then have "round_half_even a d = a div d" by (auto simp: round_half_even_def Let_def)
    moreover have "a div d * d - a = - (a mod d)" using a by linarith
    ultimately show ?thesis using True m by simp linarith
  next
    case False
    then have "round_half_even a d = a div d + 1" by (auto simp: round_half_even_def Let_def)
    moreover have "(a div d + 1) * d - a = d - a mod d" using a by (simp add: algebra_simps)
    ultimately show ?thesis using False m by auto
  qed
qed

lemma round_half_up_error:
  assumes "0 < d" "0 \<le> a"
  shows "2 * \<bar>round_half_up a d * d - a\<bar> \<le> d"
proof -
  let ?q = "(2 * a + d) div (2 * d)"
  have "2 * a + d = ?q * (2 * d) + (2 * a + d) mod (2 * d)" by (simp only: div_mult_mod_eq)
  moreover have "0 \<le> (2 * a + d) mod (2 * d)" "(2 * a + d) mod (2 * d) < 2 * d" using assms(1) by simp_all
  ultimately have "2 * (?q * d) \<le> 2 * a + d" "2 * a + d < 2 * (?q * d) + 2 * d" by (simp_all add: algebra_simps)
  then show ?thesis unfolding round_half_up_nonneg [OF assms(2,1)] double_abs by simp
qed

lemma scaled_sum_near:
  fixes K n c M t :: int
  assumes "0 < n" "0 < K" "2 * \<bar>M * n - t * K\<bar> \<le> n" "2 * \<bar>c * K - M * 100\<bar> \<le> K" "100 * n < K"
  shows "2 * \<bar>c * n - 100 * t\<bar> \<le> n"
proof -
  have "(c * n - 100 * t) * K = n * (c * K - M * 100) + 100 * (M * n - t * K)" by (simp add: algebra_simps)
  moreover have "\<bar>c * n - 100 * t\<bar> * K = \<bar>(c * n - 100 * t) * K\<bar>" using assms(2) by (simp add: abs_mult)
  ultimately have "\<bar>c * n - 100 * t\<bar> * K = \<bar>n * (c * K - M * 100) + 100 * (M * n - t * K)\<bar>" by simp
  also have "\<dots> \<le> n * \<bar>c * K - M * 100\<bar> + 100 * \<bar>M * n - t * K\<bar>"
    using abs_triangle_ineq [of "n * (c * K - M * 100)" "100 * (M * n - t * K)"]
    by (simp only: abs_mult abs_of_pos [OF assms(1)] abs_numeral)
  finally have "2 * (\<bar>c * n - 100 * t\<bar> * K) \<le> n * (2 * \<bar>c * K - M * 100\<bar>) + 100 * (2 * \<bar>M * n - t * K\<bar>)" by simp
  also have "\<dots> \<le> n * K + 100 * n"
    using assms(1,3,4) by (intro add_mono mult_left_mono) simp_all
  also have "\<dots> < (n + 1) * K" using assms(5) by (simp add: algebra_simps)
  finally have "2 * \<bar>c * n - 100 * t\<bar> * K < (n + 1) * K" by simp
  then have "2 * \<bar>c * n - 100 * t\<bar> < n + 1" using assms(2) by (simp add: mult_less_cancel_right)
  then show ?thesis by simp
qed

lemma average_near:
  assumes "0 < n" "n < 2 ^ 43" "0 \<le> t"
  shows "2 * \<bar>coeff (to_fixed_2 (average_double t n) (average_places t n)) * n - 100 * t\<bar> \<le> n"
proof (rule scaled_sum_near [where K = "2 ^ average_places t n" and M = "average_double t n"])
  show "2 * \<bar>average_double t n * n - t * 2 ^ average_places t n\<bar> \<le> n"
    using round_half_even_near [OF assms(1)] by (simp add: average_double_def)
  have "0 \<le> average_double t n"
    using assms by (simp add: average_double_def round_half_even_def Let_def pos_imp_zdiv_nonneg_iff)
  then show "2 * \<bar>coeff (to_fixed_2 (average_double t n) (average_places t n)) * 2 ^ average_places t n -
      average_double t n * 100\<bar> \<le> 2 ^ average_places t n"
    using round_half_up_error [of "2 ^ average_places t n" "average_double t n * 100"] by (simp add: to_fixed_2_def)
  have "(2 :: int) ^ 50 \<le> 2 ^ average_places t n" by (rule power_increasing) (simp_all add: average_places_def)
  then show "100 * n < 2 ^ average_places t n" using assms(2) by simp
qed (use assms in simp_all)

section \<open>The invariant\<close>

definition forum_ok :: "forum \<Rightarrow> bool" where
  "forum_ok db \<longleftrightarrow> distinct (map vr_id (fo_reviews db)) \<and>
     (\<forall>v \<in> set (fo_reviews db). vr_id v < fresh (fo_market db) \<and> rating_in_range (vr_rating v)) \<and>
     distinct (map (\<lambda>v. (vr_product v, vr_user v)) (fo_reviews db)) \<and>
     (\<forall>p \<in> set (products (fo_market db)). (p_reviews p, p_rating p) = rating_columns (published_of (p_id p) (fo_reviews db)))"

definition columns_ok_but :: "uuid \<Rightarrow> forum \<Rightarrow> bool" where
  "columns_ok_but product db \<longleftrightarrow>
     (\<forall>p \<in> set (products (fo_market db)). p_id p \<noteq> product \<longrightarrow>
        (p_reviews p, p_rating p) = rating_columns (published_of (p_id p) (fo_reviews db)))"

lemma recompute_restores:
  assumes "recompute_product_rating product db = Inr db'" "columns_ok_but product db"
  shows "\<forall>p \<in> set (products (fo_market db')). (p_reviews p, p_rating p) = rating_columns (published_of (p_id p) (fo_reviews db'))"
    "fo_reviews db' = fo_reviews db" "fresh (fo_market db') = fresh (fo_market db)"
proof -
  obtain n avg where c: "rating_columns (published_of product (fo_reviews db)) = (n, avg)"
    and db': "db' = db\<lparr>fo_market := (fo_market db)\<lparr>products :=
      update_rows (\<lambda>p. p_id p = product) (\<lambda>p. p\<lparr>p_reviews := n, p_rating := avg\<rparr>) (products (fo_market db))\<rparr>\<rparr>"
    using assms(1) by (auto simp: recompute_product_rating_def split: prod.splits)
  then show "fo_reviews db' = fo_reviews db" "fresh (fo_market db') = fresh (fo_market db)" by simp_all
  have "(p_reviews p, p_rating p) = rating_columns (published_of (p_id p) (fo_reviews db))"
    if p: "p \<in> set (products (fo_market db'))" for p
  proof -
    from p have "p \<in> set (update_rows (\<lambda>p. p_id p = product) (\<lambda>p. p\<lparr>p_reviews := n, p_rating := avg\<rparr>) (products (fo_market db)))"
      by (simp add: db')
    then show ?thesis by (cases rule: update_rows_cases) (use c assms(2) in \<open>simp_all add: columns_ok_but_def\<close>)
  qed
  then show "\<forall>p \<in> set (products (fo_market db')). (p_reviews p, p_rating p) = rating_columns (published_of (p_id p) (fo_reviews db'))"
    by (simp add: db')
qed

lemma published_of_other:
  "(\<And>v. v \<in> set vs \<Longrightarrow> p v \<Longrightarrow> vr_product v \<noteq> product \<and> vr_product (f v) \<noteq> product) \<Longrightarrow>
    published_of product (update_rows p f vs) = published_of product vs"
  by (induction vs) (auto simp: published_of_def)

lemma create_review_cases:
  assumes "create_review user dto now db = Inr (w, db')"
  shows "\<exists>v db1. vr_id v = fresh (fo_market db) \<and> vr_rating v = nr_rating dto \<and> vr_product v = nr_product dto \<and>
    vr_user v = user \<and> vr_status v = Published \<and>
    distinct (map (\<lambda>v. (vr_product v, vr_user v)) (fo_reviews db @ [v])) \<and>
    db1 = db\<lparr>fo_market := take_ids 1 (fo_market db), fo_reviews := fo_reviews db @ [v]\<rparr> \<and>
    recompute_product_rating (nr_product dto) db1 = Inr db'"
proof -
  obtain it where it: "find_delivered_order_item_for_product user (nr_product dto) (mk_shop (fo_market db)) = Some it"
    using assms by (auto simp: create_review_def)
  show ?thesis
    using assms it
    by (intro exI [of _ "\<lparr>vr_id = fresh (fo_market db), vr_product = nr_product dto, vr_user = user, vr_item = i_id it,
        vr_rating = nr_rating dto, vr_body = nr_body dto, vr_status = Published, vr_tenant = i_tenant it,
        vr_created = now, vr_updated = now\<rparr>"])
      (auto simp: create_review_def map_unique_constraint_error_def write_reviews_def require_def or_throw_def Let_def
        split: sum.splits if_splits)
qed

lemma create_review_ok:
  assumes "create_review user dto now db = Inr (w, db')" "forum_ok db" "rating_in_range (nr_rating dto)"
  shows "forum_ok db'"
proof -
  obtain v db1 where v: "vr_id v = fresh (fo_market db)" "vr_rating v = nr_rating dto" "vr_product v = nr_product dto"
    "distinct (map (\<lambda>v. (vr_product v, vr_user v)) (fo_reviews db @ [v]))"
    and db1: "db1 = db\<lparr>fo_market := take_ids 1 (fo_market db), fo_reviews := fo_reviews db @ [v]\<rparr>"
    and r: "recompute_product_rating (nr_product dto) db1 = Inr db'"
    using create_review_cases [OF assms(1)] by blast
  have "columns_ok_but (nr_product dto) db1"
    using assms(2) v(3) by (auto simp: columns_ok_but_def forum_ok_def db1 take_ids_def published_of_def)
  note a = recompute_restores [OF r this]
  have "distinct (map vr_id (fo_reviews db1))" "\<forall>v \<in> set (fo_reviews db1). vr_id v < fresh (fo_market db1) \<and> rating_in_range (vr_rating v)"
    using assms(2,3) v(1,2) by (force simp: forum_ok_def db1 take_ids_def)+
  then show ?thesis using a v(4) by (simp add: forum_ok_def db1)
qed

lemma write_review_ok:
  assumes "write_review i f v db = Inr (v1, db')" "forum_ok db" "find_review i db = Some v"
    and f: "\<And>x. vr_id (f x) = vr_id x \<and> vr_product (f x) = vr_product x \<and> vr_user (f x) = vr_user x"
    and range: "\<And>x. rating_in_range (vr_rating x) \<Longrightarrow> rating_in_range (vr_rating (f x))"
  shows "forum_ok db'"
proof -
  let ?db = "db\<lparr>fo_reviews := update_rows (\<lambda>x. vr_id x = i) f (fo_reviews db)\<rparr>"
  have r: "recompute_product_rating (vr_product v) ?db = Inr db'" using assms(1) by (simp add: write_review_def)
  have "vr_product x = vr_product v" if "x \<in> set (fo_reviews db)" "vr_id x = i" for x
    using find_key [of vr_id "fo_reviews db" x] that assms(2,3) by (simp add: forum_ok_def find_review_def)
  then have "columns_ok_but (vr_product v) ?db"
    using assms(2) by (auto simp: columns_ok_but_def forum_ok_def f published_of_other)
  note a = recompute_restores [OF r this]
  have "distinct (map vr_id (fo_reviews ?db))" "distinct (map (\<lambda>v. (vr_product v, vr_user v)) (fo_reviews ?db))"
    "\<forall>v \<in> set (fo_reviews ?db). vr_id v < fresh (fo_market ?db) \<and> rating_in_range (vr_rating v)"
    using assms(2) range by (auto simp: forum_ok_def map_update_rows f in_update_rows)
  then show ?thesis using a by (simp add: forum_ok_def)
qed

lemma published_none: "product \<notin> vr_product ` set vs \<Longrightarrow> rating_columns (published_of product vs) = (0, None)"
proof -
  assume "product \<notin> vr_product ` set vs"
  then have "published_of product vs = []" by (auto simp: published_of_def filter_empty_conv)
  then show ?thesis by (simp add: rating_columns_def)
qed

lemma author_step_ok: "author_step db db' \<Longrightarrow> forum_ok db \<Longrightarrow> forum_ok db'"
proof (induction rule: author_step.induct)
  case (create user dto now db w db')
  then show ?case using create_review_ok by blast
next
  case (update user i dto now db w db')
  then obtain v v1 where "find_review i db = Some v" "write_review i (patched dto now) v db = Inr (v1, db')"
    by (auto simp: update_review_def get_review_owned_by_or_throw_def)
  note w = this
  show ?case
    by (rule write_review_ok [OF w(2) update.prems w(1)])
      (auto simp: patched_def split: option.splits intro: update.hyps(2))
next
  case (remove user i now db w db')
  then obtain v v1 where "find_review i db = Some v" "write_review i (with_status Removed now) v db = Inr (v1, db')"
    by (auto simp: remove_review_def get_review_owned_by_or_throw_def)
  note w = this
  show ?case by (rule write_review_ok [OF w(2) remove.prems w(1)]) (auto simp: with_status_def)
next
  case (rest m db)
  have "\<forall>p \<in> set (products m). (p_reviews p, p_rating p) = rating_columns (published_of (p_id p) (fo_reviews db))"
    using rest by (fastforce simp: ratings_kept_def forum_ok_def published_none)
  then show ?case using rest by (force simp: forum_ok_def)
qed

lemma moderate_ok:
  assumes "admin_update_review_status ctx actor i s now db = Inr (w, db')" "forum_ok db"
  shows "forum_ok db'"
proof -
  obtain v v1 db1 where w: "find_review i db = Some v" "write_review i (with_status s now) v db = Inr (v1, db1)"
    and db': "db' = db1\<lparr>fo_market := audit ctx actor ''review.moderate'' i (fo_market db1)\<rparr>"
    using assms(1) by (auto simp: admin_update_review_status_def)
  have "forum_ok db1" by (rule write_review_ok [OF w(2) assms(2) w(1)]) (auto simp: with_status_def)
  then show ?thesis by (simp add: forum_ok_def db' audit_def log_tenant_action_def)
qed

lemma forum_step_ok: "forum_step db db' \<Longrightarrow> forum_ok db \<Longrightarrow> forum_ok db'"
  by (induction rule: forum_step.induct) (auto intro: author_step_ok moderate_ok)

lemma forum_reachable_ok: "forum_step\<^sup>*\<^sup>* db0 db \<Longrightarrow> forum_start db0 \<Longrightarrow> forum_ok db"
proof (induction rule: rtranclp_induct)
  case base
  then show ?case by (auto simp: forum_start_def forum_ok_def published_of_def rating_columns_def)
qed (blast intro: forum_step_ok)

section \<open>Ratings\<close>

lemma points_in_range:
  "(\<And>v. v \<in> set vs \<Longrightarrow> rating_in_range (vr_rating v)) \<Longrightarrow>
    int (length vs) \<le> sum_list (map vr_rating vs) \<and> sum_list (map vr_rating vs) \<le> 5 * int (length vs)"
  by (induction vs) (force simp: rating_in_range_def)+

text \<open>
  C21. The rating of a product is the average of its published reviews: after any history of authors,
  moderators and the rest of the program, a product's review count is the number of its published
  reviews, it has a rating exactly when there are some, and the rating is a hundredth nearest to their
  average, between 1.00 and 5.00 (up to 2^43 reviews: the average passes through a double).
\<close>

theorem product_rating_is_the_average:
  assumes "forum_start db0" "forum_step\<^sup>*\<^sup>* db0 db" "p \<in> set (products (fo_market db))"
    and vs: "vs = filter (\<lambda>v. vr_product v = p_id p \<and> vr_status v = Published) (fo_reviews db)" and "length vs < 2 ^ 43"
  shows "p_reviews p = length vs \<and> (p_rating p = None \<longleftrightarrow> vs = []) \<and>
    (\<forall>a. p_rating p = Some a \<longrightarrow> places a = 2 \<and> 100 \<le> coeff a \<and> coeff a \<le> 500 \<and>
       2 * \<bar>coeff a * int (length vs) - 100 * sum_list (map vr_rating vs)\<bar> \<le> int (length vs))"
proof -
  let ?n = "int (length vs)" and ?t = "sum_list (map vr_rating vs)"
  note published = vs [folded published_of_def]
  have ok: "forum_ok db" by (rule forum_reachable_ok [OF assms(2,1)])
  then have c: "(p_reviews p, p_rating p) = rating_columns vs" using assms(3) published by (simp add: forum_ok_def)
  have "v \<in> set vs \<Longrightarrow> rating_in_range (vr_rating v)" for v
    using ok published by (auto simp: forum_ok_def published_of_def)
  then have t: "?n \<le> ?t" "?t \<le> 5 * ?n" using points_in_range by blast+
  have "places a = 2 \<and> 100 \<le> coeff a \<and> coeff a \<le> 500 \<and> 2 * \<bar>coeff a * ?n - 100 * ?t\<bar> \<le> ?n"
    if a: "p_rating p = Some a" for a
  proof -
    have a: "a = to_fixed_2 (average_double ?t ?n) (average_places ?t ?n)" "0 < ?n"
      using c a by (auto simp: rating_columns_def Let_def split: if_splits)
    have "int (length vs) < int (2 ^ 43)" using assms(5) by (simp only: of_nat_less_iff)
    then have "?n < 2 ^ 43" by simp
    then have near: "2 * \<bar>coeff a * ?n - 100 * ?t\<bar> \<le> ?n"
      using average_near [of ?n ?t] t a(2) unfolding a(1) by linarith
    have "\<not> coeff a \<le> 99"
    proof
      assume "coeff a \<le> 99"
      then have "coeff a * ?n \<le> 99 * ?n" using a(2) by (intro mult_right_mono) simp_all
      then show False using near t(1) a(2) unfolding double_abs by linarith
    qed
    moreover have "\<not> 501 \<le> coeff a"
    proof
      assume "501 \<le> coeff a"
      then have "501 * ?n \<le> coeff a * ?n" using a(2) by (intro mult_right_mono) simp_all
      then show False using near t(2) a(2) unfolding double_abs by linarith
    qed
    ultimately show ?thesis using near by (simp add: a(1) to_fixed_2_def)
  qed
  then show ?thesis using c by (auto simp: rating_columns_def Let_def split: if_splits)
qed

section \<open>Moderation\<close>

definition hidden :: "uuid \<Rightarrow> uuid \<Rightarrow> forum \<Rightarrow> bool" where
  "hidden product user db \<longleftrightarrow>
     (\<exists>v \<in> set (fo_reviews db). vr_product v = product \<and> vr_user v = user) \<and>
     (\<forall>v \<in> set (fo_reviews db). vr_product v = product \<and> vr_user v = user \<longrightarrow> vr_status v \<noteq> Published)"

lemma hidden_update:
  assumes "hidden product user db" "fo_reviews db' = update_rows p f (fo_reviews db)"
    and "\<And>x. vr_product (f x) = vr_product x \<and> vr_user (f x) = vr_user x \<and>
      (vr_status x \<noteq> Published \<longrightarrow> vr_status (f x) \<noteq> Published)"
  shows "hidden product user db'"
proof -
  have "\<exists>y \<in> set (update_rows p f (fo_reviews db)). vr_product y = vr_product x \<and> vr_user y = vr_user x"
    if "x \<in> set (fo_reviews db)" for x
    using that assms(3) by (intro bexI [of _ "if p x then f x else x"]) (auto simp: in_update_rows)
  moreover have "vr_status y \<noteq> Published"
    if y: "y \<in> set (update_rows p f (fo_reviews db))" "vr_product y = product" "vr_user y = user" for y
    using y(1) by (cases rule: update_rows_cases) (use y(2,3) assms(1,3) in \<open>auto simp: hidden_def\<close>)
  ultimately show ?thesis using assms(1,2) by (auto simp: hidden_def)
qed

lemma write_review_rows:
  "write_review i f v db = Inr (v1, db') \<Longrightarrow> fo_reviews db' = update_rows (\<lambda>x. vr_id x = i) f (fo_reviews db)"
  by (auto simp: write_review_def recompute_product_rating_def split: prod.splits)

lemma author_step_hidden: "author_step db db' \<Longrightarrow> hidden product user db \<Longrightarrow> hidden product user db'"
proof (induction rule: author_step.induct)
  case (create u dto now db w db')
  obtain v db1 where v: "vr_product v = nr_product dto" "vr_user v = u"
    "distinct (map (\<lambda>v. (vr_product v, vr_user v)) (fo_reviews db @ [v]))"
    and db1: "db1 = db\<lparr>fo_market := take_ids 1 (fo_market db), fo_reviews := fo_reviews db @ [v]\<rparr>"
    and r: "recompute_product_rating (nr_product dto) db1 = Inr db'"
    using create_review_cases [OF create.hyps(1)] by blast
  have "fo_reviews db' = fo_reviews db @ [v]"
    using r by (auto simp: recompute_product_rating_def db1 split: prod.splits)
  moreover have "\<not> (vr_product v = product \<and> vr_user v = user)"
  proof
    assume "vr_product v = product \<and> vr_user v = user"
    moreover obtain x where "x \<in> set (fo_reviews db)" "vr_product x = product" "vr_user x = user"
      using create.prems by (auto simp: hidden_def)
    ultimately show False using v(3) by (auto simp: image_iff)
  qed
  ultimately show ?case using create.prems by (auto simp: hidden_def)
next
  case (update u i dto now db w db')
  then obtain v v1 where "write_review i (patched dto now) v db = Inr (v1, db')"
    by (auto simp: update_review_def get_review_owned_by_or_throw_def)
  from write_review_rows [OF this] update.prems show ?case
    by (rule_tac hidden_update) (auto simp: patched_def)
next
  case (remove u i now db w db')
  then obtain v v1 where "write_review i (with_status Removed now) v db = Inr (v1, db')"
    by (auto simp: remove_review_def get_review_owned_by_or_throw_def)
  from write_review_rows [OF this] remove.prems show ?case
    by (rule_tac hidden_update) (auto simp: with_status_def)
qed (simp add: hidden_def)

text \<open>
  What a moderator hid its author cannot show again: once a user's review of a product is rejected or
  removed, no sequence of creations, edits and removals by any users, nor the rest of the program, gives
  that user a published review of that product.
\<close>

theorem hidden_review_stays_hidden:
  assumes "forum_start db0" "forum_step\<^sup>*\<^sup>* db0 db1" "author_step\<^sup>*\<^sup>* db1 db2"
    and "v \<in> set (fo_reviews db1)" "vr_status v \<noteq> Published"
    and "w \<in> set (fo_reviews db2)" "vr_product w = vr_product v" "vr_user w = vr_user v"
  shows "vr_status w \<noteq> Published"
proof -
  have "distinct (map (\<lambda>v. (vr_product v, vr_user v)) (fo_reviews db1))"
    using forum_reachable_ok [OF assms(2,1)] by (simp add: forum_ok_def)
  then have "hidden (vr_product v) (vr_user v) db1"
    unfolding hidden_def using assms(4,5) distinct_key_inj [of "\<lambda>v. (vr_product v, vr_user v)"] by fastforce
  with assms(3) have "hidden (vr_product v) (vr_user v) db2"
    by (induction rule: rtranclp_induct) (auto intro: author_step_hidden)
  then show ?thesis using assms(6,7,8) by (auto simp: hidden_def)
qed

section \<open>A rejected review\<close>

definition delivered_forum :: forum where
  "delivered_forum =
     \<lparr>fo_market = sample_market\<lparr>mk_shop := (mk_shop sample_market)
        \<lparr>orders := [sample_order\<lparr>o_id := 50, o_status := Delivered\<rparr>],
         order_items := [\<lparr>i_id = 60, i_order = 50, i_product = 1, i_name = ''Mug'', i_variant_label = None,
           i_unit_price = Dec 25000 2, i_quantity = 1, i_line_total = Dec 25000 2, i_customizations = [], i_tenant = 1\<rparr>]\<rparr>\<rparr>,
      fo_reviews = []\<rparr>"

definition reviewed_forum :: forum where
  "reviewed_forum =
     snd (run_tx (create_review 9 \<lparr>nr_product = 1, nr_rating = 4, nr_body = None\<rparr> 200) delivered_forum)"

definition rejected_forum :: forum where
  "rejected_forum =
     snd (run_tx (admin_update_review_status \<lparr>tc_tenant = 1, tc_session = None\<rparr> 2 100 Rejected 201) reviewed_forum)"

definition edited_forum :: forum where
  "edited_forum = snd (run_tx (update_review 9 100 \<lparr>up_rating = Some (Some 5), up_body = None\<rparr> 202) rejected_forum)"

lemma run_tx_result: "\<not> isl (fst (run_tx t s)) \<Longrightarrow> \<exists>w. t s = Inr (w, snd (run_tx t s))"
  by (auto simp: run_tx_def split: sum.splits)

lemma reviewed_step: "author_step delivered_forum reviewed_forum"
proof -
  have "\<not> isl (fst (run_tx (create_review 9 \<lparr>nr_product = 1, nr_rating = 4, nr_body = None\<rparr> 200) delivered_forum))"
    by code_simp
  from run_tx_result [OF this] show ?thesis
    unfolding reviewed_forum_def [symmetric] by (auto intro!: author_step.create simp: rating_in_range_def)
qed

lemma rejected_step: "forum_step reviewed_forum rejected_forum"
proof -
  have "\<not> isl (fst (run_tx (admin_update_review_status \<lparr>tc_tenant = 1, tc_session = None\<rparr> 2 100 Rejected 201) reviewed_forum))"
    by code_simp
  from run_tx_result [OF this] show ?thesis
    unfolding rejected_forum_def [symmetric] by (auto intro: forum_step.moderate)
qed

lemma edited_step: "author_step rejected_forum edited_forum"
proof -
  have "\<not> isl (fst (run_tx (update_review 9 100 \<lparr>up_rating = Some (Some 5), up_body = None\<rparr> 202) rejected_forum))"
    by code_simp
  from run_tx_result [OF this] show ?thesis
    unfolding edited_forum_def [symmetric] by (auto intro!: author_step.update simp: rating_in_range_def)
qed

lemma forum_history:
  "forum_start delivered_forum" "forum_step\<^sup>*\<^sup>* delivered_forum reviewed_forum"
  "forum_step\<^sup>*\<^sup>* delivered_forum rejected_forum"
proof -
  show "forum_start delivered_forum" by (simp add: forum_start_def delivered_forum_def sample_market_def sample_product_def)
  show s: "forum_step\<^sup>*\<^sup>* delivered_forum reviewed_forum" using forum_step.author [OF reviewed_step] by blast
  show "forum_step\<^sup>*\<^sup>* delivered_forum rejected_forum" using s rejected_step by (rule rtranclp.rtrancl_into_rtrancl)
qed

theorem product_rating_is_the_average_witness:
  "map p_rating (products (fo_market reviewed_forum)) = [Some (Dec 400 2)] \<and>
   p_reviews (hd (products (fo_market reviewed_forum))) = 1"
proof
  show "map p_rating (products (fo_market reviewed_forum)) = [Some (Dec 400 2)]" by code_simp
  then have "hd (products (fo_market reviewed_forum)) \<in> set (products (fo_market reviewed_forum))" by (intro hd_in_set) auto
  moreover have "p_id (hd (products (fo_market reviewed_forum))) = 1" by code_simp
  moreover have "length (filter (\<lambda>v. vr_product v = 1 \<and> vr_status v = Published) (fo_reviews reviewed_forum)) = 1"
    by code_simp
  ultimately show "p_reviews (hd (products (fo_market reviewed_forum))) = 1"
    using product_rating_is_the_average [OF forum_history(1,2) _ refl] by force
qed

theorem hidden_review_stays_hidden_witness:
  "map vr_rating (fo_reviews edited_forum) = [5] \<and> vr_status (hd (fo_reviews edited_forum)) \<noteq> Published"
proof
  show e: "map vr_rating (fo_reviews edited_forum) = [5]" by code_simp
  then have w: "hd (fo_reviews edited_forum) \<in> set (fo_reviews edited_forum)" by (intro hd_in_set) auto
  have "map vr_rating (fo_reviews rejected_forum) = [4]" by code_simp
  then have v: "hd (fo_reviews rejected_forum) \<in> set (fo_reviews rejected_forum)" by (intro hd_in_set) auto
  have "vr_status (hd (fo_reviews rejected_forum)) = Rejected \<and>
      vr_product (hd (fo_reviews edited_forum)) = vr_product (hd (fo_reviews rejected_forum)) \<and>
      vr_user (hd (fo_reviews edited_forum)) = vr_user (hd (fo_reviews rejected_forum))" by code_simp
  then show "vr_status (hd (fo_reviews edited_forum)) \<noteq> Published"
    using hidden_review_stays_hidden [OF forum_history(1,3) r_into_rtranclp [of author_step, OF edited_step] v _ w] by simp
qed

end
