(* ===== verification/PlatformPlans.thy ===== *)
theory PlatformPlans
  imports StoreDomains
begin

text \<open>
  The platform's side: \<open>platform/platform-plans/platform-plans.service.ts\<close> (plans, what they grant, and the
  overrides of a tenant) and \<open>platform/platform.service.ts\<close> (the life of a tenant). A transaction that
  checks and then writes is two functions where another request may commit in between.
\<close>

section \<open>Plans\<close>

record plan_view =
  pv_id :: uuid
  pv_key :: string
  pv_name :: string
  pv_public :: bool
  pv_active :: bool
  pv_sort :: int
  pv_enterprise :: bool
  pv_created :: instant

definition coalesce :: "'a option \<Rightarrow> 'a \<Rightarrow> 'a" where
  "coalesce x d = (case x of None \<Rightarrow> d | Some y \<Rightarrow> y)"

definition to_plan_view :: "plan_row \<Rightarrow> plan_view" where
  "to_plan_view p =
     \<lparr>pv_id = pl_id p, pv_key = pl_key p, pv_name = pl_name p, pv_public = pl_public p,
      pv_active = coalesce (pl_active p) True, pv_sort = coalesce (pl_sort p) 0,
      pv_enterprise = coalesce (pl_enterprise p) False, pv_created = pl_created p\<rparr>"

definition site_plans :: "site \<Rightarrow> plan_row list" where
  "site_plans s = plans (billing (st_market s))"

definition site_catalogue :: "site \<Rightarrow> catalogue" where
  "site_catalogue s = entitle (st_market s)"

definition set_plans :: "plan_row list \<Rightarrow> site \<Rightarrow> site" where
  "set_plans ps s = s\<lparr>st_market := (st_market s)\<lparr>billing := (billing (st_market s))\<lparr>plans := ps\<rparr>\<rparr>\<rparr>"

definition set_catalogue :: "catalogue \<Rightarrow> site \<Rightarrow> site" where
  "set_catalogue c s = s\<lparr>st_market := (st_market s)\<lparr>entitle := c\<rparr>\<rparr>"

definition take_site_id :: "site \<Rightarrow> site" where
  "take_site_id s = s\<lparr>st_market := take_ids 1 (st_market s)\<rparr>"

definition find_plan :: "uuid \<Rightarrow> site \<Rightarrow> plan_row option" where
  "find_plan i s = List.find (\<lambda>p. pl_id p = i) (site_plans s)"

definition plan_or_throw :: "uuid \<Rightarrow> site \<Rightarrow> plan_row result" where
  "plan_or_throw i s = or_throw (find_plan i s) (NotFound ''Plan not found'')"

text \<open>The rows oldest first, then a stable sort by the order with null read as 0.\<close>

definition list_plans :: "site \<Rightarrow> plan_view list" where
  "list_plans s =
     map to_plan_view (sort_key (\<lambda>p. coalesce (pl_sort p) 0) (sort_key pl_created (site_plans s)))"

definition get_plan :: "uuid \<Rightarrow> site \<Rightarrow> plan_view result" where
  "get_plan i s = map_sum id to_plan_view (plan_or_throw i s)"

record create_plan_dto =
  np_key :: string
  np_name :: string
  np_public :: "bool option"
  np_sort :: "int option"
  np_enterprise :: "bool option"

definition create_plan :: "uuid \<Rightarrow> create_plan_dto \<Rightarrow> instant \<Rightarrow> (site, plan_view) tx" where
  "create_plan actor dto now s =
     then_do (require (np_key dto \<notin> set (map pl_key (site_plans s))) (Conflict ''A plan with this key already exists'')) (\<lambda>_.
     let p = \<lparr>pl_id = fresh_id s, pl_key = np_key dto, pl_name = np_name dto,
              pl_public = coalesce (np_public dto) True, pl_active = Some True,
              pl_sort = Some (coalesce (np_sort dto) 0), pl_enterprise = Some (coalesce (np_enterprise dto) False),
              pl_created = now\<rparr>
     in Inr (to_plan_view p,
          log_platform_action actor ''plan.create'' (pl_id p) None None (take_site_id (set_plans (site_plans s @ [p]) s))))"

text \<open>A field of the request: left out, \<open>null\<close> or a value; the first two columns take no null.\<close>

record update_plan_dto =
  mp_name :: "string option option"
  mp_public :: "bool option option"
  mp_sort :: "int option option"
  mp_enterprise :: "bool option option"

definition plan_patched :: "update_plan_dto \<Rightarrow> plan_row \<Rightarrow> plan_row" where
  "plan_patched dto p =
     p\<lparr>pl_name := (case mp_name dto of Some (Some n) \<Rightarrow> n | _ \<Rightarrow> pl_name p),
       pl_public := (case mp_public dto of Some (Some b) \<Rightarrow> b | _ \<Rightarrow> pl_public p),
       pl_sort := (case mp_sort dto of Some n \<Rightarrow> n | None \<Rightarrow> pl_sort p),
       pl_enterprise := (case mp_enterprise dto of Some b \<Rightarrow> b | None \<Rightarrow> pl_enterprise p)\<rparr>"

definition write_plan :: "uuid \<Rightarrow> uuid \<Rightarrow> (plan_row \<Rightarrow> plan_row) \<Rightarrow> string \<Rightarrow> (site, plan_view) tx" where
  "write_plan actor i f action s =
     then_do (plan_or_throw i s) (\<lambda>p.
     Inr (to_plan_view (f p),
       log_platform_action actor action i None None (set_plans (update_rows (\<lambda>p. pl_id p = i) f (site_plans s)) s)))"

definition update_plan :: "uuid \<Rightarrow> uuid \<Rightarrow> update_plan_dto \<Rightarrow> (site, plan_view) tx" where
  "update_plan actor i dto s =
     then_do (plan_or_throw i s) (\<lambda>_.
     then_do (require (mp_name dto \<noteq> Some None \<and> mp_public dto \<noteq> Some None) (Thrown ''Argument must not be null'')) (\<lambda>_.
     write_plan actor i (plan_patched dto) ''plan.update'' s))"

definition archive_plan :: "uuid \<Rightarrow> uuid \<Rightarrow> (site, plan_view) tx" where
  "archive_plan actor i = write_plan actor i (\<lambda>p. p\<lparr>pl_active := Some False\<rparr>) ''plan.archive''"

definition restore_plan :: "uuid \<Rightarrow> uuid \<Rightarrow> (site, plan_view) tx" where
  "restore_plan actor i = write_plan actor i (\<lambda>p. p\<lparr>pl_active := Some True\<rparr>) ''plan.restore''"

definition subscribed :: "uuid \<Rightarrow> site \<Rightarrow> bool" where
  "subscribed i s \<longleftrightarrow> i \<in> set (map su_plan (subs (billing (st_market s))))"

definition delete_plan_check :: "uuid \<Rightarrow> site \<Rightarrow> unit result" where
  "delete_plan_check i s =
     then_do (plan_or_throw i s) (\<lambda>_.
     require (\<not> subscribed i s) (Conflict (''This plan has been assigned to at least one subscription '' @
       ''(including historical/cancelled ones) and can never be deleted - archive it instead'')))"

text \<open>The foreign key of \<open>Subscription.planId\<close> restricts; the grants of the plan go with it.\<close>

definition delete_plan_write :: "uuid \<Rightarrow> uuid \<Rightarrow> (site, unit) tx" where
  "delete_plan_write actor i s =
     then_do (or_throw (find_plan i s) (Thrown ''Record to delete does not exist'')) (\<lambda>_.
     then_do (require (\<not> subscribed i s)
       (Conflict ''This plan was just assigned to a subscription and can no longer be deleted - archive it instead'')) (\<lambda>_.
     let c = site_catalogue s
     in Inr ((), log_platform_action actor ''plan.delete'' i None None
          (set_catalogue (c\<lparr>cat_features := filter (\<lambda>x. pf_plan x \<noteq> i) (cat_features c),
              cat_limits := filter (\<lambda>x. pm_plan x \<noteq> i) (cat_limits c)\<rparr>)
            (set_plans (filter (\<lambda>p. pl_id p \<noteq> i) (site_plans s)) s)))))"

definition delete_plan :: "uuid \<Rightarrow> uuid \<Rightarrow> (site, unit) tx" where
  "delete_plan actor i s = then_do (delete_plan_check i s) (\<lambda>_. delete_plan_write actor i s)"

text \<open>
  The foreign key of \<open>Subscription.planId\<close>, for the writes of \<open>Subscriptions\<close>; the column
  \<open>pendingPlanId\<close> has none.
\<close>

definition plan_fk_ok :: "billing_db \<Rightarrow> bool" where
  "plan_fk_ok db \<longleftrightarrow> set (map su_plan (subs db)) \<subseteq> set (map pl_id (plans db))"

definition under_plan_fk :: "(billing_db, 'a) tx \<Rightarrow> (billing_db, 'a) tx" where
  "under_plan_fk f db =
     then_do (f db) (\<lambda>(x, db'). then_do (require (plan_fk_ok db') (Thrown ''Foreign key constraint violated: planId'')) (\<lambda>_.
     Inr (x, db')))"

section \<open>What a plan grants\<close>

definition get_feature_catalogue :: "string list" where
  "get_feature_catalogue = map feature_key_name feature_keys"

definition get_limit_catalogue :: "(string \<times> limit_period) list" where
  "get_limit_catalogue = map (\<lambda>k. (limit_key_name k, limit_key_periods k)) limit_keys"

text \<open>The rank of a text is its place in the collation of the database.\<close>

definition list_plan_features :: "(string \<Rightarrow> nat) \<Rightarrow> uuid \<Rightarrow> site \<Rightarrow> plan_feature list result" where
  "list_plan_features rank i s =
     then_do (plan_or_throw i s) (\<lambda>_.
     Inr (sort_key (\<lambda>x. rank (pf_key x)) (filter (\<lambda>x. pf_plan x = i) (cat_features (site_catalogue s)))))"

definition feature_hit :: "uuid \<Rightarrow> string \<Rightarrow> plan_feature \<Rightarrow> bool" where
  "feature_hit i key x \<longleftrightarrow> pf_plan x = i \<and> pf_key x = key"

definition set_plan_feature :: "uuid \<Rightarrow> uuid \<Rightarrow> string \<Rightarrow> bool \<Rightarrow> (site, plan_feature) tx" where
  "set_plan_feature actor i key enabled s =
     then_do (or_throw (is_feature_key key) (BadRequest (quoted key @ '' is not a recognized feature key''))) (\<lambda>_.
     then_do (plan_or_throw i s) (\<lambda>_.
     let c = site_catalogue s;
         (row, s1) = (case List.find (feature_hit i key) (cat_features c) of
             Some x \<Rightarrow> (x\<lparr>pf_enabled := enabled\<rparr>,
               set_catalogue (c\<lparr>cat_features := update_rows (feature_hit i key) (\<lambda>x. x\<lparr>pf_enabled := enabled\<rparr>) (cat_features c)\<rparr>) s)
           | None \<Rightarrow> (let x = \<lparr>pf_id = fresh_id s, pf_plan = i, pf_key = key, pf_enabled = enabled\<rparr>
               in (x, take_site_id (set_catalogue (c\<lparr>cat_features := cat_features c @ [x]\<rparr>) s))))
     in Inr (row, log_platform_action actor ''plan.feature.set'' (pf_id row) None None s1)))"

definition list_plan_limits :: "(string \<Rightarrow> nat) \<Rightarrow> uuid \<Rightarrow> site \<Rightarrow> plan_limit list result" where
  "list_plan_limits rank i s =
     then_do (plan_or_throw i s) (\<lambda>_.
     Inr (sort_key (\<lambda>x. rank (pm_key x)) (filter (\<lambda>x. pm_plan x = i) (cat_limits (site_catalogue s)))))"

definition limit_hit :: "uuid \<Rightarrow> string \<Rightarrow> plan_limit \<Rightarrow> bool" where
  "limit_hit i key x \<longleftrightarrow> pm_plan x = i \<and> pm_key x = key"

definition set_plan_limit :: "uuid \<Rightarrow> uuid \<Rightarrow> string \<Rightarrow> int option \<Rightarrow> (site, plan_limit) tx" where
  "set_plan_limit actor i key v s =
     then_do (or_throw (is_limit_key key) (BadRequest (quoted key @ '' is not a recognized limit key''))) (\<lambda>k.
     then_do (plan_or_throw i s) (\<lambda>_.
     let c = site_catalogue s;
         f = (\<lambda>x. x\<lparr>pm_value := v, pm_period := limit_key_periods k\<rparr>);
         (row, s1) = (case List.find (limit_hit i key) (cat_limits c) of
             Some x \<Rightarrow> (f x, set_catalogue (c\<lparr>cat_limits := update_rows (limit_hit i key) f (cat_limits c)\<rparr>) s)
           | None \<Rightarrow> (let x = \<lparr>pm_id = fresh_id s, pm_plan = i, pm_key = key, pm_value = v, pm_period = limit_key_periods k\<rparr>
               in (x, take_site_id (set_catalogue (c\<lparr>cat_limits := cat_limits c @ [x]\<rparr>) s))))
     in Inr (row, log_platform_action actor ''plan.limit.set'' (pm_id row) None None s1)))"

section \<open>Overrides\<close>

definition assert_tenant_exists :: "uuid \<Rightarrow> site \<Rightarrow> unit result" where
  "assert_tenant_exists t s = require (tenant_status_of (st_market s) t \<noteq> None) (NotFound ''Tenant not found'')"

definition list_overrides_for_tenant :: "uuid \<Rightarrow> site \<Rightarrow> override_row list result" where
  "list_overrides_for_tenant t s =
     then_do (assert_tenant_exists t s) (\<lambda>_.
     Inr (sort_key (\<lambda>x. - ov_created x) (filter (\<lambda>x. ov_tenant x = t) (cat_overrides (site_catalogue s)))))"

text \<open>The values are left out, \<open>null\<close> or given; a key that is \<open>null\<close> counts as given.\<close>

record override_dto =
  no_feature :: "string option option"
  no_limit :: "string option option"
  no_bool :: "bool option option"
  no_int :: "int option option"
  no_reason :: string

definition key_text :: "string option option \<Rightarrow> string" where
  "key_text x = (case x of Some (Some k) \<Rightarrow> k | _ \<Rightarrow> ''null'')"

definition check_override :: "override_dto \<Rightarrow> unit result" where
  "check_override dto =
     then_do (require ((no_feature dto \<noteq> None) \<noteq> (no_limit dto \<noteq> None))
       (BadRequest ''Exactly one of featureKey or limitKey must be provided'')) (\<lambda>_.
     if no_feature dto \<noteq> None then
       then_do (require (Option.bind (the (no_feature dto)) is_feature_key \<noteq> None)
         (BadRequest (quoted (key_text (no_feature dto)) @ '' is not a recognized feature key''))) (\<lambda>_.
       then_do (require (no_bool dto \<noteq> None) (BadRequest ''A feature override requires boolValue'')) (\<lambda>_.
       require (no_int dto = None) (BadRequest ''A feature override must not set intValue'')))
     else
       then_do (require (Option.bind (the (no_limit dto)) is_limit_key \<noteq> None)
         (BadRequest (quoted (key_text (no_limit dto)) @ '' is not a recognized limit key''))) (\<lambda>_.
       then_do (require (no_int dto \<noteq> None) (BadRequest ''A limit override requires intValue (or null for unlimited)'')) (\<lambda>_.
       require (no_bool dto = None) (BadRequest ''A limit override must not set boolValue''))))"

definition or_null :: "'a option option \<Rightarrow> 'a option" where
  "or_null x = (case x of None \<Rightarrow> None | Some y \<Rightarrow> y)"

definition create_override :: "uuid \<Rightarrow> uuid \<Rightarrow> override_dto \<Rightarrow> instant \<Rightarrow> (site, override_row) tx" where
  "create_override actor t dto now s =
     then_do (check_override dto) (\<lambda>_.
     then_do (assert_tenant_exists t s) (\<lambda>_.
     let c = site_catalogue s;
         x = \<lparr>ov_id = fresh_id s, ov_tenant = t, ov_feature = or_null (no_feature dto), ov_limit = or_null (no_limit dto),
              ov_bool = or_null (no_bool dto), ov_int = or_null (no_int dto), ov_reason = no_reason dto, ov_by = actor,
              ov_revoked_at = None, ov_revoked_by = None, ov_created = now\<rparr>
     in Inr (x, log_platform_action actor ''entitlement_override.create'' (ov_id x) (Some t) None
          (take_site_id (set_catalogue (c\<lparr>cat_overrides := cat_overrides c @ [x]\<rparr>) s)))))"

definition revoke_override_check :: "uuid \<Rightarrow> uuid \<Rightarrow> site \<Rightarrow> override_row result" where
  "revoke_override_check t i s =
     then_do (or_throw (List.find (\<lambda>x. ov_id x = i) (cat_overrides (site_catalogue s))) (NotFound ''Override not found'')) (\<lambda>x.
     then_do (require (ov_tenant x = t) (NotFound ''Override not found'')) (\<lambda>_.
     then_do (require (\<not> ov_revoked x) (Conflict ''This override has already been revoked'')) (\<lambda>_.
     Inr x)))"

text \<open>The update names the row by its identifier only.\<close>

definition revoke_override_write :: "uuid \<Rightarrow> uuid \<Rightarrow> uuid \<Rightarrow> instant \<Rightarrow> (site, override_row) tx" where
  "revoke_override_write actor t i now s =
     then_do (or_throw (List.find (\<lambda>x. ov_id x = i) (cat_overrides (site_catalogue s)))
       (Thrown ''Record to update not found'')) (\<lambda>x.
     let c = site_catalogue s; f = (\<lambda>x. x\<lparr>ov_revoked_at := Some now, ov_revoked_by := Some actor\<rparr>)
     in Inr (f x, log_platform_action actor ''entitlement_override.revoke'' i (Some t) None
          (set_catalogue (c\<lparr>cat_overrides := update_rows (\<lambda>x. ov_id x = i) f (cat_overrides c)\<rparr>) s)))"

definition revoke_override :: "uuid \<Rightarrow> uuid \<Rightarrow> uuid \<Rightarrow> instant \<Rightarrow> (site, override_row) tx" where
  "revoke_override actor t i now s =
     then_do (revoke_override_check t i s) (\<lambda>_. revoke_override_write actor t i now s)"

section \<open>Tenants\<close>

fun tenant_status_text :: "tenant_status \<Rightarrow> string" where
  "tenant_status_text TenantActive = ''ACTIVE''"
| "tenant_status_text TenantSuspended = ''SUSPENDED''"
| "tenant_status_text PendingDeletion = ''PENDING_DELETION''"
| "tenant_status_text TenantDeleted = ''DELETED''"

definition transition_check :: "uuid \<Rightarrow> tenant_status \<Rightarrow> tenant_status \<Rightarrow> site \<Rightarrow> unit result" where
  "transition_check t from to s =
     then_do (or_throw (tenant_status_of (st_market s) t) (NotFound ''Tenant not found'')) (\<lambda>status.
     require (status = from) (Conflict (''Tenant is not '' @ tenant_status_text from @ '' (current status: '' @
       tenant_status_text status @ '') - cannot transition to '' @ tenant_status_text to)))"

definition transition_write ::
  "uuid \<Rightarrow> uuid \<Rightarrow> tenant_status \<Rightarrow> tenant_status \<Rightarrow> string \<Rightarrow> string \<Rightarrow> (site, tenant_status) tx" where
  "transition_write actor t from to action why s =
     then_do (require (tenant_status_of (st_market s) t = Some from) (Conflict ''Tenant status changed concurrently - retry'')) (\<lambda>_.
     Inr (to, log_platform actor action t (Some t) why
       (s\<lparr>st_market := (st_market s)\<lparr>tenant_status_of := (tenant_status_of (st_market s))(t := Some to)\<rparr>\<rparr>)))"

definition transition_tenant_status ::
  "uuid \<Rightarrow> uuid \<Rightarrow> tenant_status \<Rightarrow> tenant_status \<Rightarrow> string \<Rightarrow> string \<Rightarrow> (site, tenant_status) tx" where
  "transition_tenant_status actor t from to action why s =
     then_do (transition_check t from to s) (\<lambda>_. transition_write actor t from to action why s)"

definition suspend_tenant :: "uuid \<Rightarrow> uuid \<Rightarrow> string \<Rightarrow> (site, tenant_status) tx" where
  "suspend_tenant actor t = transition_tenant_status actor t TenantActive TenantSuspended ''tenant.suspend''"

definition resume_tenant :: "uuid \<Rightarrow> uuid \<Rightarrow> string \<Rightarrow> (site, tenant_status) tx" where
  "resume_tenant actor t = transition_tenant_status actor t TenantSuspended TenantActive ''tenant.resume''"

text \<open>The platform's log, newest first: rows are appended, so that is the reverse.\<close>

definition list_platform_audit :: "uuid option \<Rightarrow> nat \<Rightarrow> nat \<Rightarrow> site \<Rightarrow> platform_audit list \<times> page_meta" where
  "list_platform_audit tenant page limit s =
     (let rows = rev (filter (\<lambda>a. tenant = None \<or> pa_tenant a = tenant) (st_platform_log s)); n = length rows
      in (page_slice page limit rows,
          \<lparr>pm_page = page, pm_limit = limit, pm_total = n, pm_total_pages = total_pages limit n\<rparr>))"

end
