(* ===== verification/PlatformProperties.thy ===== *)
theory PlatformProperties
  imports PlatformPlans StoreResolution Gate QuotaProperties CheckoutProperties
begin

text \<open>
  What the platform's administrators may rely on: an override decides until it is revoked, a suspension
  stops a tenant at every entrance, and what the check of a plan's deletion misses.
\<close>

section \<open>Overrides\<close>

definition site_entitlements :: "site \<Rightarrow> uuid \<Rightarrow> entitlements" where
  "site_entitlements s t = resolve_entitlements (site_catalogue s) (billing (st_market s)) t"

lemma site_frames [simp]:
  "site_catalogue (log_platform_action a n i t w s) = site_catalogue s" "site_catalogue (take_site_id s) = site_catalogue s"
  "site_catalogue (set_catalogue c s) = c" "billing (st_market (set_catalogue c s)) = billing (st_market s)"
  "st_market (log_platform_action a n i t w s) = st_market s" "billing (st_market (take_site_id s)) = billing (st_market s)"
  "site_catalogue (set_plans ps s) = site_catalogue s"
  by (simp_all add: site_catalogue_def log_platform_action_def take_site_id_def take_ids_def set_catalogue_def set_plans_def)

lemma insort_key_snoc: "f x \<le> f y \<Longrightarrow> insort_key f x (ys @ [y]) = insort_key f x ys @ [y]"
  by (induction ys) auto

lemma sort_key_snoc: "(\<And>x. x \<in> set xs \<Longrightarrow> f x \<le> f y) \<Longrightarrow> sort_key f (xs @ [y]) = sort_key f xs @ [y]"
  by (induction xs) (auto simp: insort_key_snoc)

lemma active_overrides_snoc:
  assumes "\<And>x. x \<in> set (cat_overrides c) \<Longrightarrow> ov_tenant x = ov_tenant o1 \<Longrightarrow> ov_created x \<le> ov_created o1" "\<not> ov_revoked o1"
  shows "active_overrides (c\<lparr>cat_overrides := cat_overrides c @ [o1]\<rparr>) t =
    active_overrides c t @ (if t = ov_tenant o1 then [o1] else [])"
  using assms sort_key_snoc [of "filter (\<lambda>x. ov_tenant x = t \<and> \<not> ov_revoked x) (cat_overrides c)" ov_created o1]
  by (auto simp: active_overrides_def)

lemma active_overrides_ignore_revoked:
  assumes "\<And>x. x \<in> set xs \<Longrightarrow> ov_id x \<noteq> ov_id o1" "\<And>x. ov_revoked (f x)"
  shows "active_overrides (c\<lparr>cat_overrides := update_rows (\<lambda>x. ov_id x = ov_id o1) f (xs @ [o1])\<rparr>) t =
    active_overrides (c\<lparr>cat_overrides := xs\<rparr>) t"
proof -
  have "update_rows (\<lambda>x. ov_id x = ov_id o1) f xs = xs" by (rule update_rows_none) (rule assms(1))
  moreover have "ov_revoked_at (f o1) \<noteq> None" by (rule assms(2))
  ultimately show ?thesis by (simp add: active_overrides_def del: not_None_eq)
qed

lemma resolve_plan_only:
  "resolve_plan_features (c\<lparr>cat_overrides := x\<rparr>) = resolve_plan_features c"
  "resolve_plan_limits (c\<lparr>cat_overrides := x\<rparr>) = resolve_plan_limits c"
  by (intro ext, simp add: resolve_plan_features_def resolve_plan_limits_def split: option.split)+

lemma resolve_with_overrides:
  "resolve_entitlements (c\<lparr>cat_overrides := x\<rparr>) db t =
     fold apply_override (active_overrides (c\<lparr>cat_overrides := x\<rparr>) t)
       \<lparr>en_features = resolve_plan_features c (resolve_effective_plan_id db t),
        en_limits = resolve_plan_limits c (resolve_effective_plan_id db t)\<rparr>"
  by (simp add: resolve_entitlements_def Let_def resolve_plan_only)

definition override_effect :: "override_dto \<Rightarrow> entitlements \<Rightarrow> entitlements" where
  "override_effect dto en =
     (case (Option.bind (or_null (no_feature dto)) is_feature_key, Option.bind (or_null (no_limit dto)) is_limit_key) of
        (Some k, _) \<Rightarrow> (case or_null (no_bool dto) of
            None \<Rightarrow> en | Some b \<Rightarrow> en\<lparr>en_features := (en_features en)(k := b)\<rparr>)
      | (None, Some k) \<Rightarrow>
          en\<lparr>en_limits := (en_limits en)(k := \<lparr>lv_value = or_null (no_int dto), lv_period = limit_key_periods k\<rparr>)\<rparr>
      | (None, None) \<Rightarrow> en)"

lemma create_override_row:
  assumes "create_override actor t dto now s = Inr (x, s1)"
  shows "ov_id x = fresh_id s" "ov_tenant x = t" "\<not> ov_revoked x" "ov_created x = now"
    "s1 = log_platform_action actor ''entitlement_override.create'' (ov_id x) (Some t) None (take_site_id (set_catalogue
       ((site_catalogue s)\<lparr>cat_overrides := cat_overrides (site_catalogue s) @ [x]\<rparr>) s))"
    "apply_override x en = override_effect dto en"
proof -
  note c = assms [unfolded create_override_def Let_def, simplified]
  then have x: "x = \<lparr>ov_id = fresh_id s, ov_tenant = t, ov_feature = or_null (no_feature dto), ov_limit = or_null (no_limit dto),
      ov_bool = or_null (no_bool dto), ov_int = or_null (no_int dto), ov_reason = no_reason dto, ov_by = actor,
      ov_revoked_at = None, ov_revoked_by = None, ov_created = now\<rparr>" by simp
  show "ov_id x = fresh_id s" "ov_tenant x = t" "\<not> ov_revoked x" "ov_created x = now" by (simp_all add: x)
  show "s1 = log_platform_action actor ''entitlement_override.create'' (ov_id x) (Some t) None (take_site_id (set_catalogue
       ((site_catalogue s)\<lparr>cat_overrides := cat_overrides (site_catalogue s) @ [x]\<rparr>) s))"
    using c by (simp add: x)
  have "check_override dto = Inr ()" using c by simp
  then show "apply_override x en = override_effect dto en"
    by (cases "no_feature dto"; cases "no_limit dto")
      (auto simp: check_override_def x apply_override_def override_effect_def or_null_def set_limit_def
        split: option.splits)
qed

text \<open>
  C25. An override decides until it is revoked. A created override sets, in what the tenant resolves to,
  exactly its key to its value, whatever the plan and the older overrides say (no older one has a later
  clock), and nothing for another tenant; a feature override whose value is null sets nothing; and
  revoking it restores, for every tenant, what was resolved before it was created.
\<close>

theorem override_decides_until_revoked:
  assumes "create_override actor t dto now s = Inr (x, s1)"
    and "\<And>y. y \<in> set (cat_overrides (site_catalogue s)) \<Longrightarrow>
      ov_id y < fresh_id s \<and> (ov_tenant y = t \<longrightarrow> ov_created y \<le> now)"
  shows "site_entitlements s1 t = override_effect dto (site_entitlements s t) \<and>
    (\<forall>t'. t' \<noteq> t \<longrightarrow> site_entitlements s1 t' = site_entitlements s t') \<and>
    (\<exists>y s2. revoke_override actor' t (ov_id x) later s1 = Inr (y, s2) \<and>
       (\<forall>t'. site_entitlements s2 t' = site_entitlements s t'))"
proof (intro conjI)
  note x = create_override_row [OF assms(1)]
  let ?c = "site_catalogue s" and ?db = "billing (st_market s)"
  have s1: "site_catalogue s1 = ?c\<lparr>cat_overrides := cat_overrides ?c @ [x]\<rparr>" "billing (st_market s1) = ?db"
    by (simp_all add: x(5))
  have active: "active_overrides (site_catalogue s1) t' = active_overrides ?c t' @ (if t' = t then [x] else [])" for t'
    unfolding s1 using active_overrides_snoc [of ?c x t'] assms(2) x(2,3,4) by auto
  have res: "site_entitlements s1 t' =
      fold apply_override (active_overrides (site_catalogue s1) t')
        \<lparr>en_features = resolve_plan_features ?c (resolve_effective_plan_id ?db t'),
         en_limits = resolve_plan_limits ?c (resolve_effective_plan_id ?db t')\<rparr>" for t'
    unfolding site_entitlements_def s1 by (rule resolve_with_overrides)
  show "site_entitlements s1 t = override_effect dto (site_entitlements s t)"
    unfolding res active by (simp add: site_entitlements_def resolve_entitlements_def Let_def x(6))
  show "\<forall>t'. t' \<noteq> t \<longrightarrow> site_entitlements s1 t' = site_entitlements s t'"
    unfolding res active by (simp add: site_entitlements_def resolve_entitlements_def Let_def)
  have others: "\<And>y. y \<in> set (cat_overrides ?c) \<Longrightarrow> ov_id y \<noteq> ov_id x" using assms(2) x(1) by fastforce
  have found: "List.find (\<lambda>y. ov_id y = ov_id x) (cat_overrides (site_catalogue s1)) = Some x"
    unfolding s1 using others by (auto simp: find_append find_None_iff split: option.split dest: find_SomeD)
  define f :: "override_row \<Rightarrow> override_row" where
    "f = (\<lambda>y. y\<lparr>ov_revoked_at := Some later, ov_revoked_by := Some actor'\<rparr>)"
  let ?s2 = "log_platform_action actor' ''entitlement_override.revoke'' (ov_id x) (Some t) None
    (set_catalogue ((site_catalogue s1)\<lparr>cat_overrides := update_rows (\<lambda>y. ov_id y = ov_id x) f (cat_overrides (site_catalogue s1))\<rparr>) s1)"
  have "revoke_override actor' t (ov_id x) later s1 = Inr (f x, ?s2)"
    using found x(2,3) by (simp add: revoke_override_def revoke_override_check_def revoke_override_write_def f_def Let_def)
  moreover have "site_entitlements ?s2 t' = site_entitlements s t'" for t'
    using active_overrides_ignore_revoked [OF others, of "cat_overrides ?c" f ?c t']
    by (simp add: site_entitlements_def s1 resolve_with_overrides f_def)
      (simp add: resolve_entitlements_def Let_def)
  ultimately show "\<exists>y s2. revoke_override actor' t (ov_id x) later s1 = Inr (y, s2) \<and>
       (\<forall>t'. site_entitlements s2 t' = site_entitlements s t')" by blast
qed

section \<open>Deleted plans\<close>

text \<open>
  The check of a deletion misses scheduled downgrades. A plan that an active subscription is to move
  to at the end of its period, and that no subscription is on, can be deleted; the subscription keeps
  naming it, and every application of the downgrade then fails on the foreign key.
\<close>

theorem scheduled_plan_can_be_deleted:
  assumes "find_subscription (billing (st_market s)) i = Some sub" "su_status sub = SubActive" "su_pending_plan sub = Some p"
    and "find_plan p s = Some row" "\<not> subscribed p s" "sub_keys (billing (st_market s))"
  shows "\<exists>s'. delete_plan actor p s = Inr ((), s') \<and>
    find_subscription (billing (st_market s')) i = Some sub \<and> \<not> plan_exists p (billing (st_market s')) \<and>
    isl (under_plan_fk (apply_scheduled_downgrade sub start until pe now) (billing (st_market s')))"
proof -
  obtain s' where d: "delete_plan actor p s = Inr ((), s')"
    and m: "subs (billing (st_market s')) = subs (billing (st_market s))"
      "plans (billing (st_market s')) = filter (\<lambda>q. pl_id q \<noteq> p) (site_plans s)"
    using assms(4,5)
    by (auto simp: delete_plan_def delete_plan_check_def delete_plan_write_def plan_or_throw_def or_throw_def Let_def
        log_platform_action_def set_catalogue_def set_plans_def)
  let ?db = "billing (st_market s')"
  have found: "find_subscription ?db i = Some sub" using assms(1) m(1) by (simp add: find_subscription_def)
  have gone: "\<not> plan_exists p ?db" using m(2) by (auto simp: plan_exists_def)
  have keys: "sub_keys ?db" using assms(6) m(1) by (simp add: sub_keys_def)
  have id: "su_id sub = i" using found by (auto simp: find_subscription_def dest: find_SomeD)
  define c where "c = (status_change DowngradeApplied pe)\<lparr>ch_guard := \<lambda>r. su_pending_plan r = su_pending_plan sub,
    ch_data := \<lambda>r. r\<lparr>su_plan := p, su_pending_plan := None, su_period_start := Some start, su_period_end := Some until\<rparr>,
    ch_from_plan := Some (su_plan sub), ch_to_plan := Some p\<rparr>"
  have hit: "hits (sub_hit i SubActive c) (subs ?db) = 1"
    using sub_hit_1_iff [OF keys, of i SubActive c] found assms(2,3) by (simp add: c_def)
  have "isl (under_plan_fk (transition_subscription sub SubActive c now) ?db)"
  proof (cases "transition_subscription sub SubActive c now ?db")
    case (Inr x)
    then obtain r db' where x: "x = (r, db')" "db' = cas_subscription i SubActive SubActive (c, su_tenant sub, now) ?db"
      using hit id assms(2) by (auto simp: transition_subscription_def Let_def split: if_splits option.splits)
    have "find_subscription db' i = Some (write_change SubActive c now sub)"
      using cas_subscription_find [OF keys, of i SubActive SubActive "(c, su_tenant sub, now)" i] found hit id assms(2,3)
      by (simp add: x(2) sub_hit_def c_def)
    then have "p \<in> set (map su_plan (subs db'))"
      by (force simp: find_subscription_def write_change_def c_def dest!: find_SomeD)
    moreover have "plans db' = plans ?db" by (simp add: x(2) cas_subscription_def)
    ultimately have "\<not> plan_fk_ok db'" using gone by (auto simp: plan_fk_ok_def plan_exists_def)
    then show ?thesis using Inr by (simp add: under_plan_fk_def x(1) require_def)
  qed (simp add: under_plan_fk_def)
  then have "isl (under_plan_fk (apply_scheduled_downgrade sub start until pe now) ?db)"
    using assms(2,3) by (simp add: apply_scheduled_downgrade_def active_change_def assert_currently_active_def
        under_plan_fk_def c_def)
  then show ?thesis using d found gone by blast
qed

section \<open>Suspension\<close>

lemma transition_market:
  assumes "transition_tenant_status actor t from to action why s = Inr (x, s')"
  shows "tenant_status_of (st_market s) t = Some from"
    "st_market s' = (st_market s)\<lparr>tenant_status_of := (tenant_status_of (st_market s))(t := Some to)\<rparr>"
  using assms
  by (auto simp: transition_tenant_status_def transition_check_def transition_write_def log_platform_def log_platform_action_def)

text \<open>
  C24. A suspension stops a tenant at every entrance, once, and reversibly. After a tenant is suspended the
  guard refuses every scoped request in its context, no host and no fallback resolves to one of its
  stores, and no checkout of one of its carts places an order; of two administrators who both read the
  tenant as active the second gets a conflict; and resuming it restores the market as it was.
\<close>

theorem suspension_stops_the_tenant:
  assumes "suspend_tenant actor t why s = Inr (x, s')"
  shows "(re_site r = s' \<and> \<not> unscoped ro \<and> cx_tenant c = t \<longrightarrow> isl (tenant_lifecycle_guard ro (Some c) r)) \<and>
    (fst (resolve_host host sch now s') = Inr ctx \<longrightarrow> sx_tenant ctx \<noteq> t) \<and>
    resolve_tenant_id name s' \<noteq> Inr t \<and>
    (map_option c_tenant (find_cart_of_user user (st_market s')) = Some t \<longrightarrow>
       isl (checkout_tx lib iso_text user dto key now (st_market s'))) \<and>
    isl (transition_write actor' t TenantActive TenantSuspended action why' s') \<and>
    (\<exists>y s2. resume_tenant actor' t why' s' = Inr (y, s2) \<and> st_market s2 = st_market s)"
proof (intro conjI impI)
  note a = assms [unfolded suspend_tenant_def]
  note m = transition_market [OF a]
  have st: "tenant_status_of (st_market s') t = Some TenantSuspended" by (simp add: m(2))
  show "isl (tenant_lifecycle_guard ro (Some c) r)" if "re_site r = s' \<and> \<not> unscoped ro \<and> cx_tenant c = t"
    using that st by (simp add: tenant_lifecycle_guard_def assert_tenant_active_def realm_market_def require_def)
  show "sx_tenant ctx \<noteq> t" if "fst (resolve_host host sch now s') = Inr ctx"
  proof -
    obtain q s1 where l: "lookup_host host now s' = (q, s1)" by (cases "lookup_host host now s'")
    have "st_market s1 = st_market s'" using l by (auto simp: lookup_host_def Let_def cache_set_def split: option.splits)
    then show ?thesis
      using that l st by (auto simp: resolve_host_def assert_live_def context_of_row_def Let_def)
  qed
  show "resolve_tenant_id name s' \<noteq> Inr t"
    using st by (auto simp: resolve_tenant_id_def assert_tenant_active_def Let_def)
  show "isl (checkout_tx lib iso_text user dto key now (st_market s'))"
    if "map_option c_tenant (find_cart_of_user user (st_market s')) = Some t"
    using that st by (auto simp: checkout_tx_def assert_tenant_active_def or_throw_def require_def)
  show "isl (transition_write actor' t TenantActive TenantSuspended action why' s')"
    using st by (simp add: transition_write_def require_def)
  have "(tenant_status_of (st_market s))(t := Some TenantActive) = tenant_status_of (st_market s)" using m(1) by auto
  then show "\<exists>y s2. resume_tenant actor' t why' s' = Inr (y, s2) \<and> st_market s2 = st_market s"
    using st by (simp add: resume_tenant_def transition_tenant_status_def transition_check_def transition_write_def
        log_platform_def log_platform_action_def or_throw_def m(2))
qed

section \<open>A platform\<close>

definition sample_plan :: "uuid \<Rightarrow> string \<Rightarrow> plan_row" where
  "sample_plan i key = \<lparr>pl_id = i, pl_key = key, pl_name = key, pl_public = True, pl_active = None, pl_sort = None,
     pl_enterprise = None, pl_created = 0\<rparr>"

definition sample_platform :: site where
  "sample_platform =
     \<lparr>st_market = sample_market\<lparr>billing := (billing sample_market)
        \<lparr>subs := map (\<lambda>x. x\<lparr>su_pending_plan := Some 2\<rparr>) (subs (billing sample_market)),
         plans := [sample_plan 1 ''starter'', sample_plan 2 ''free'']\<rparr>\<rparr>,
      st_domains = [], st_failures = [], st_platform_log = [], st_cache = (\<lambda>_. None),
      st_store_status = (\<lambda>_. Some StoreActive), st_store_tenant = (\<lambda>_. Some 1), st_latest_tenant = Some 1\<rparr>"

definition sample_override :: override_dto where
  "sample_override = \<lparr>no_feature = Some (Some ''coupons''), no_limit = None, no_bool = Some (Some True), no_int = None,
     no_reason = ''pilot''\<rparr>"

definition sample_overridden :: site where
  "sample_overridden = snd (run_tx (create_override 3 1 sample_override 40) sample_platform)"

definition sample_suspended :: site where
  "sample_suspended = snd (run_tx (suspend_tenant 3 1 ''abuse'') sample_platform)"

lemma tx_ran: "\<not> isl (fst (run_tx t s)) \<Longrightarrow> \<exists>w. t s = Inr (w, snd (run_tx t s))"
  by (auto simp: run_tx_def split: sum.splits)

theorem override_decides_until_revoked_witness:
  "\<not> en_features (site_entitlements sample_platform 1) Coupons \<and> en_features (site_entitlements sample_overridden 1) Coupons \<and>
   site_entitlements sample_overridden 2 = site_entitlements sample_platform 2"
proof -
  have "\<not> isl (fst (run_tx (create_override 3 1 sample_override 40) sample_platform))" by code_simp
  from tx_ran [OF this] obtain x where c: "create_override 3 1 sample_override 40 sample_platform = Inr (x, sample_overridden)"
    by (auto simp: sample_overridden_def)
  have none: "cat_overrides (site_catalogue sample_platform) = []" by code_simp
  note o = override_decides_until_revoked [OF c, unfolded none, simplified]
  have "\<not> en_features (site_entitlements sample_platform 1) Coupons" by code_simp
  moreover have "en_features (site_entitlements sample_overridden 1) Coupons"
  proof -
    have "is_feature_key ''coupons'' = Some Coupons" by code_simp
    then have "en_features (override_effect sample_override en) Coupons" for en
      by (simp add: override_effect_def sample_override_def or_null_def)
    then show ?thesis using o by simp
  qed
  ultimately show ?thesis using o by simp
qed

theorem scheduled_plan_can_be_deleted_witness:
  "\<exists>s'. delete_plan 3 2 sample_platform = Inr ((), s') \<and> \<not> plan_exists 2 (billing (st_market s')) \<and>
     map_option su_pending_plan (find_subscription (billing (st_market s')) 1) = Some (Some 2)"
proof -
  let ?find = "find_subscription (billing (st_market sample_platform)) 1"
  have "map_option su_status ?find = Some SubActive" "map_option su_pending_plan ?find = Some (Some 2)" by code_simp+
  then obtain sub where sub: "?find = Some sub" "su_status sub = SubActive" "su_pending_plan sub = Some 2" by auto
  have "map_option pl_id (find_plan 2 sample_platform) = Some 2" "\<not> subscribed 2 sample_platform" by code_simp+
  moreover have "sub_keys (billing (st_market sample_platform))" by code_simp
  ultimately show ?thesis using scheduled_plan_can_be_deleted [OF sub] sub(3) by fastforce
qed

theorem suspension_stops_the_tenant_witness:
  "resolve_tenant_id None sample_platform = Inr 1 \<and> resolve_tenant_id None sample_suspended \<noteq> Inr 1"
proof
  show "resolve_tenant_id None sample_platform = Inr 1" by code_simp
  have "\<not> isl (fst (run_tx (suspend_tenant 3 1 ''abuse'') sample_platform))"
    by code_simp
  from tx_ran [OF this] obtain x where "suspend_tenant 3 1 ''abuse'' sample_platform = Inr (x, sample_suspended)"
    by (auto simp: sample_suspended_def)
  from suspension_stops_the_tenant [OF this] show "resolve_tenant_id None sample_suspended \<noteq> Inr 1" by blast
qed

end
