(* ===== verification/RazorpayBilling.thy ===== *)
theory RazorpayBilling
  imports BillingJobs
begin

text \<open>
  The production billing provider: \<open>subscriptions/razorpay-billing-provider.ts\<close>, an adapter between the
  interface \<open>billing_provider\<close> and the vendor's client. The client's answers, its signature check and the
  JSON parser are parameters; the client is missing when its keys are not configured.
\<close>

section \<open>The vendor's client\<close>

text \<open>A call returns, or throws the vendor's error (status and description), or throws something else.\<close>

datatype 'a sdk_answer = Returned 'a | ApiError int "string option" | NoResponse

text \<open>Times are in seconds.\<close>

record razorpay_sub =
  rz_id :: string
  rz_status :: string
  rz_plan :: uuid
  rz_start :: "int option"
  rz_end :: "int option"

record razorpay_sdk =
  sdk_customer :: "uuid \<Rightarrow> string sdk_answer"
  sdk_plan :: "uuid \<Rightarrow> (string \<times> int) sdk_answer"
  sdk_create :: "uuid \<Rightarrow> int \<Rightarrow> razorpay_sub sdk_answer"
  sdk_update :: "string \<Rightarrow> uuid \<Rightarrow> string \<Rightarrow> razorpay_sub sdk_answer"
  sdk_cancel :: "string \<Rightarrow> unit sdk_answer"
  sdk_fetch :: "string \<Rightarrow> razorpay_sub sdk_answer"
  sdk_resume :: "string \<Rightarrow> razorpay_sub sdk_answer"

section \<open>Errors and periods\<close>

text \<open>
  \<open>translateSdkError\<close>. What is no error of the vendor is a timeout, also the adapter's own errors when
  they are thrown inside a \<open>try\<close>.
\<close>

definition translate_sdk_error :: "'a sdk_answer \<Rightarrow> ('a \<Rightarrow> 'b answer) \<Rightarrow> 'b answer" where
  "translate_sdk_error r f =
     (case r of
        Returned x \<Rightarrow> f x
      | ApiError code desc \<Rightarrow>
          if 500 \<le> code then TimedOut
          else Rejected (case desc of None \<Rightarrow> ''no description'' | Some d \<Rightarrow> d)
      | NoResponse \<Rightarrow> TimedOut)"

text \<open>Nothing for a subscription without a confirmed period: the code throws.\<close>

definition to_provider_subscription :: "razorpay_sub \<Rightarrow> provider_sub option" where
  "to_provider_subscription x =
     (case (rz_start x, rz_end x) of
        (Some a, Some b) \<Rightarrow>
          Some \<lparr>ps_id = rz_id x, ps_start = a * 1000, ps_end = b * 1000, ps_trial = None, ps_plan = Some (rz_plan x)\<rparr>
      | _ \<Rightarrow> None)"

text \<open>The conversion after the \<open>try\<close>, and inside it.\<close>

definition report_outside :: "razorpay_sub \<Rightarrow> provider_sub answer" where
  "report_outside x = (case to_provider_subscription x of None \<Rightarrow> Down | Some y \<Rightarrow> Answer y)"

definition report_inside :: "razorpay_sub \<Rightarrow> provider_sub answer" where
  "report_inside x = (case to_provider_subscription x of None \<Rightarrow> TimedOut | Some y \<Rightarrow> Answer y)"

text \<open>
  The follow-up read. Its failure is translated, and the result is an error of the adapter that the
  caller's \<open>catch\<close> translates again: a rejection becomes a timeout.
\<close>

definition ensure_confirmed_period ::
  "razorpay_sdk \<Rightarrow> razorpay_sub \<Rightarrow> (razorpay_sub \<Rightarrow> provider_sub answer) \<Rightarrow> provider_sub answer" where
  "ensure_confirmed_period sdk x f =
     (if rz_start x \<noteq> None \<and> rz_end x \<noteq> None then f x
      else (case sdk_fetch sdk (rz_id x) of Returned y \<Rightarrow> f y | _ \<Rightarrow> TimedOut))"

definition get_client :: "razorpay_sdk option \<Rightarrow> (razorpay_sdk \<Rightarrow> 'a answer) \<Rightarrow> 'a answer" where
  "get_client client f = (case client of None \<Rightarrow> Down | Some sdk \<Rightarrow> f sdk)"

section \<open>The operations\<close>

definition long_horizon_years :: int where
  "long_horizon_years = 20"

definition cycles_per_year :: "string \<Rightarrow> int" where
  "cycles_per_year period =
     (case map_of [(''daily'', 365), (''weekly'', 52), (''monthly'', 12), (''yearly'', 1)] period of
        None \<Rightarrow> 12 | Some n \<Rightarrow> n)"

text \<open>\<open>Math.round\<close> of a quotient that is not negative.\<close>

definition compute_long_horizon_total_count :: "string \<Rightarrow> int \<Rightarrow> int" where
  "compute_long_horizon_total_count period interval =
     (let d = (if 0 < interval then interval else 1); n = cycles_per_year period * long_horizon_years
      in max 1 ((2 * n + d) div (2 * d)))"

definition razorpay_create_customer :: "razorpay_sdk option \<Rightarrow> uuid \<Rightarrow> string answer" where
  "razorpay_create_customer client tenant =
     get_client client (\<lambda>sdk. translate_sdk_error (sdk_customer sdk tenant) Answer)"

definition razorpay_create_subscription :: "razorpay_sdk option \<Rightarrow> string \<Rightarrow> uuid \<Rightarrow> provider_sub answer" where
  "razorpay_create_subscription client customer plan =
     get_client client (\<lambda>sdk.
       translate_sdk_error (sdk_plan sdk plan) (\<lambda>(period, interval).
       translate_sdk_error (sdk_create sdk plan (compute_long_horizon_total_count period interval)) report_outside))"

definition razorpay_change_subscription ::
  "razorpay_sdk option \<Rightarrow> string \<Rightarrow> uuid \<Rightarrow> when_mode \<Rightarrow> provider_sub answer" where
  "razorpay_change_subscription client p plan mode =
     get_client client (\<lambda>sdk.
       translate_sdk_error (sdk_update sdk p plan (if mode = Immediate then ''now'' else ''cycle_end'')) (\<lambda>x.
       ensure_confirmed_period sdk x report_outside))"

definition razorpay_cancel_subscription :: "razorpay_sdk option \<Rightarrow> string \<Rightarrow> when_mode \<Rightarrow> unit answer" where
  "razorpay_cancel_subscription client p mode =
     (if mode = AtPeriodEnd then Answer ()
      else get_client client (\<lambda>sdk. translate_sdk_error (sdk_cancel sdk p) Answer))"

definition razorpay_get_subscription :: "razorpay_sdk option \<Rightarrow> string \<Rightarrow> provider_sub answer" where
  "razorpay_get_subscription client p =
     get_client client (\<lambda>sdk. translate_sdk_error (sdk_fetch sdk p) report_inside)"

definition razorpay_unschedule_cancellation :: "razorpay_sdk option \<Rightarrow> string \<Rightarrow> provider_sub answer" where
  "razorpay_unschedule_cancellation client p =
     get_client client (\<lambda>sdk. translate_sdk_error (sdk_fetch sdk p) report_inside)"

definition razorpay_resume_subscription :: "razorpay_sdk option \<Rightarrow> string \<Rightarrow> provider_sub answer" where
  "razorpay_resume_subscription client p =
     get_client client (\<lambda>sdk.
       translate_sdk_error (sdk_resume sdk p) (\<lambda>x. ensure_confirmed_period sdk x report_inside))"

definition razorpay_provider :: "razorpay_sdk option \<Rightarrow> billing_provider" where
  "razorpay_provider client =
     \<lparr>bp_create_customer = razorpay_create_customer client,
      bp_create_subscription = razorpay_create_subscription client,
      bp_change = razorpay_change_subscription client,
      bp_cancel = razorpay_cancel_subscription client,
      bp_unschedule = razorpay_unschedule_cancellation client,
      bp_resume = razorpay_resume_subscription client,
      bp_get = razorpay_get_subscription client\<rparr>"

section \<open>Webhooks\<close>

text \<open>A check that throws counts as a refusal; a missing secret throws.\<close>

definition razorpay_verify_webhook ::
  "string option \<Rightarrow> (string \<Rightarrow> string \<Rightarrow> string \<Rightarrow> bool option) \<Rightarrow> string \<Rightarrow> string \<Rightarrow> bool result" where
  "razorpay_verify_webhook secret check raw signature =
     then_do (or_throw secret
       (Thrown ''RAZORPAY_SAAS_WEBHOOK_SECRET is not configured - cannot verify SaaS billing webhook signatures.'')) (\<lambda>k.
     Inr (signature \<noteq> '''' \<and> check raw signature k = Some True))"

definition renewal_canonical_type :: string where
  "renewal_canonical_type = ''renewed''"

definition map_razorpay_event_type :: "string \<Rightarrow> string" where
  "map_razorpay_event_type event =
     (if event = ''subscription.pending'' then ''payment_failed''
      else if event = ''subscription.charged'' then renewal_canonical_type
      else if event = ''subscription.cancelled'' then ''cancelled''
      else event)"

record razorpay_entity =
  en_id :: "string option"
  en_customer :: "string option"
  en_start :: "int option"
  en_end :: "int option"

record razorpay_payload =
  rp_event :: string
  rp_created :: "int option"
  rp_entity :: "razorpay_entity option"

definition header_or_derived_id :: "string option \<Rightarrow> razorpay_payload \<Rightarrow> string" where
  "header_or_derived_id header p =
     (let h = (case header of None \<Rightarrow> '''' | Some t \<Rightarrow> js_trim t)
      in if h \<noteq> '''' then h
         else rp_event p @ '':'' @
           (case Option.bind (rp_entity p) en_id of None \<Rightarrow> ''unknown'' | Some i \<Rightarrow> i) @ '':'' @
           (case rp_created p of None \<Rightarrow> '''' | Some t \<Rightarrow> int_text t))"

text \<open>\<open>toISOString\<close> throws outside the range of dates, which nothing catches but the ingestion.\<close>

definition date_limit :: int where
  "date_limit = 8640000000000000"

definition unix_date :: "int \<Rightarrow> instant option" where
  "unix_date t = (if \<bar>t * 1000\<bar> \<le> date_limit then Some (t * 1000) else None)"

text \<open>The processor reads an empty text as absent.\<close>

definition nonempty_text :: "string option \<Rightarrow> string option" where
  "nonempty_text x = Option.bind x (\<lambda>t. if t = '''' then None else Some t)"

definition razorpay_parse_webhook ::
  "(string \<Rightarrow> razorpay_payload option) \<Rightarrow> string \<Rightarrow> string option \<Rightarrow> billing_event option" where
  "razorpay_parse_webhook json raw header =
     Option.bind (json raw) (\<lambda>p.
     let type = map_razorpay_event_type (rp_event p);
         period = (if type = renewal_canonical_type
                   then (case (Option.bind (rp_entity p) en_start, Option.bind (rp_entity p) en_end) of
                       (Some a, Some b) \<Rightarrow> Some (a, b) | _ \<Rightarrow> None)
                   else None);
         event = \<lparr>be_id = header_or_derived_id header p, be_type = type,
           be_subscription = nonempty_text (Option.bind (rp_entity p) en_id),
           be_customer = nonempty_text (Option.bind (rp_entity p) en_customer),
           be_occurred = map_option (\<lambda>t. At (t * 1000)) (rp_created p),
           be_start = map_option (\<lambda>(a, b). At (a * 1000)) period,
           be_end = map_option (\<lambda>(a, b). At (b * 1000)) period\<rparr>
     in if (\<forall>t \<in> set_option (rp_created p). unix_date t \<noteq> None) \<and>
           (\<forall>(a, b) \<in> set_option period. unix_date a \<noteq> None \<and> unix_date b \<noteq> None)
        then Some event else None)"

end
