(* ===== verification/RazorpayProperties.thy ===== *)
theory RazorpayProperties
  imports RazorpayBilling BillingScenarios
begin

text \<open>
  The orchestration of subscriptions over the vendor's adapter: what is decided without the vendor, and a
  lost answer that is taken for a success.
\<close>

lemmas razorpay_simps =
  razorpay_provider_def razorpay_resume_subscription_def razorpay_get_subscription_def
  razorpay_unschedule_cancellation_def razorpay_cancel_subscription_def get_client_def translate_sdk_error_def

section \<open>Writes of a row that was just read\<close>

lemma tenant_row_found:
  assumes "get_subscription_for_tenant t db = Inr s" "sub_keys db"
  shows "find_subscription db (su_id s) = Some s"
proof -
  have "s \<in> set (subs db)"
    using assms(1) by (auto simp: get_subscription_for_tenant_def find_subscription_for_tenant_def
        split: option.splits dest: find_SomeD)
  then show ?thesis
    using find_key [of su_id "subs db" s] assms(2) by (simp add: sub_keys_def find_subscription_def)
qed

lemma fresh_transition:
  assumes "find_subscription db (su_id s) = Some s" "sub_keys db" "ch_guard c s"
  shows "hits (sub_hit (su_id s) (su_status s) c) (subs db) = 1"
    "find_subscription (cas_subscription (su_id s) (su_status s) to (c, x, now) db) (su_id s) = Some (write_change to c now s)"
    "transition_subscription s to c now db = Inr (r, db') \<Longrightarrow> tr_sub r = write_change to c now s"
proof -
  show hit: "hits (sub_hit (su_id s) (su_status s) c) (subs db) = 1"
    using sub_hit_1_iff [OF assms(2), of "su_id s" "su_status s" c] assms(1,3) by simp
  show f: "find_subscription (cas_subscription (su_id s) (su_status s) to (c, x, now) db) (su_id s) =
      Some (write_change to c now s)" for x
    using cas_subscription_find [OF assms(2), of "su_id s" "su_status s" to "(c, x, now)" "su_id s"] assms(1,3)
    by (simp add: sub_hit_def)
  show "transition_subscription s to c now db = Inr (r, db') \<Longrightarrow> tr_sub r = write_change to c now s"
    using hit f by (auto simp: transition_subscription_def Let_def split: if_splits)
qed

lemma settle_Inr: "settle f db = (Inr r, db') \<Longrightarrow> \<exists>x. f db = Inr (x, db') \<and> r = tr_sub x"
  by (auto simp: settle_def run_tx_def split: sum.splits prod.splits)

section \<open>Scheduled cancellations are local\<close>

lemma unscheduling_only_reads:
  assumes that: "sdk_fetch sdk = sdk_fetch sdk'"
  shows "unschedule_flow (razorpay_provider (Some sdk)) t now db = unschedule_flow (razorpay_provider (Some sdk')) t now db"
proof -
  let ?bp = "razorpay_provider (Some sdk)" and ?bp' = "razorpay_provider (Some sdk')"
  have reads: "bp_unschedule ?bp = bp_unschedule ?bp'" "bp_get ?bp = bp_get ?bp'"
    using that by (simp_all add: razorpay_simps fun_eq_iff)
  have "unconfirmed what ?bp s = unconfirmed what ?bp' s" for what s
    unfolding unconfirmed_def attempt_reconciliation_read_def reads by (rule refl)
  then show ?thesis unfolding unschedule_flow_def reads by (simp only:)
qed

lemma scheduled_flag_set:
  assumes c: "cancel_flow (razorpay_provider client) t True now db = (Inr r, db') \<and> sub_keys db"
  shows "su_cancel_at_end r = Some True"
proof -
  obtain s where s: "get_subscription_for_tenant t db = Inr s"
    using c by (auto simp: cancel_flow_def split: sum.splits)
  note found = tenant_row_found [OF s conjunct2 [OF c]]
  show ?thesis
  proof (cases "su_cancel_at_end s = Some True")
    case True
    then show ?thesis using c s by (auto simp: cancel_flow_def schedule_cancellation_flow_def)
  next
    case False
    then have "settle (schedule_cancellation s now) db = (Inr r, db')"
      using c s by (auto simp: cancel_flow_def schedule_cancellation_flow_def razorpay_simps on_answer_def refuse_def
          split: sum.splits)
    from settle_Inr [OF this] obtain x where x: "schedule_cancellation s now db = Inr (x, db')" "r = tr_sub x" by blast
    from x(1) False have "tr_sub x = write_change (su_status s) ((status_change Cancelled_ev None)
        \<lparr>ch_guard := \<lambda>r. su_cancel_at_end r = su_cancel_at_end s, ch_data := \<lambda>r. r\<lparr>su_cancel_at_end := Some True\<rparr>,
          ch_note := Scheduled\<rparr>) now s"
      by (auto simp: schedule_cancellation_def active_change_def split: sum.splits
          intro!: fresh_transition(3) [OF found conjunct2 [OF c]])
    then show ?thesis by (simp add: x(2) write_change_def)
  qed
qed

lemma unscheduled_flag_cleared:
  assumes c: "unschedule_flow (razorpay_provider (Some sdk)) t now db = (Inr r, db') \<and> sub_keys db"
  shows "su_cancel_at_end r \<noteq> Some True"
proof -
  obtain s where s: "get_subscription_for_tenant t db = Inr s"
    using c by (auto simp: unschedule_flow_def split: sum.splits)
  note found = tenant_row_found [OF s conjunct2 [OF c]]
  show ?thesis
  proof (cases "su_cancel_at_end s = Some True")
    case False
    then show ?thesis using c s by (auto simp: unschedule_flow_def)
  next
    case True
    then have "settle (unschedule_cancellation s now) db = (Inr r, db')"
      using c s by (auto simp: unschedule_flow_def on_answer_def refuse_def unconfirmed_def
          split: sum.splits answer.splits)
    from settle_Inr [OF this] obtain x where x: "unschedule_cancellation s now db = Inr (x, db')" "r = tr_sub x" by blast
    from x(1) True have "tr_sub x = write_change (su_status s) ((status_change Cancelled_ev None)
        \<lparr>ch_guard := \<lambda>r. su_cancel_at_end r = su_cancel_at_end s, ch_data := \<lambda>r. r\<lparr>su_cancel_at_end := Some False\<rparr>,
          ch_note := Unscheduled\<rparr>) now s"
      by (auto simp: unschedule_cancellation_def active_change_def split: sum.splits
          intro!: fresh_transition(3) [OF found conjunct2 [OF c]])
    then show ?thesis by (simp add: x(2) write_change_def)
  qed
qed


definition sample_sdk :: razorpay_sdk where
  "sample_sdk =
     (let x = \<lparr>rz_id = ''sub'', rz_status = ''paused'', rz_plan = 1, rz_start = Some 0, rz_end = Some 100\<rparr>
      in \<lparr>sdk_customer = (\<lambda>_. Returned ''cus''), sdk_plan = (\<lambda>_. Returned (''monthly'', 1)),
          sdk_create = (\<lambda>_ _. Returned x), sdk_update = (\<lambda>_ _ _. Returned x), sdk_cancel = (\<lambda>_. NoResponse),
          sdk_fetch = (\<lambda>_. Returned x), sdk_resume = (\<lambda>_. ApiError 502 None)\<rparr>)"

definition sample_at_risk :: billing_db where
  "sample_at_risk = sample_subscribed\<lparr>subs := [sample_row\<lparr>su_status := PastDue\<rparr>]\<rparr>"


section \<open>A lost answer to a resumption\<close>

lemma subs_unique_keep:
  assumes "\<And>r. p r \<Longrightarrow> su_tenant (f r) = su_tenant r \<and> su_customer (f r) = su_customer r \<and> su_provider (f r) = su_provider r"
  shows "subs_unique (update_rows p f ss) = subs_unique ss"
  using assms by (simp add: subs_unique_def map_update_rows)

lemma recovery_succeeds:
  assumes "sub_keys db" "subs_unique (subs db)" "s \<in> set (subs db)" "su_status s = PastDue \<or> su_status s = Paused"
  shows "\<exists>r db'. recover_payment s pe now db = Inr (r, db') \<and> su_status (tr_sub r) = SubActive"
proof -
  define c where "c = (status_change Resumed pe)\<lparr>ch_data := \<lambda>r. r\<lparr>su_grace_ends := None\<rparr>\<rparr>"
  have found: "find_subscription db (su_id s) = Some s"
    using find_key [of su_id "subs db" s] assms(1,3) by (simp add: sub_keys_def find_subscription_def)
  note w = fresh_transition [OF found assms(1), of c]
  let ?db = "cas_subscription (su_id s) (su_status s) SubActive (c, su_tenant s, now) db"
  have hit: "hits (sub_hit (su_id s) (su_status s) c) (subs db) = 1" by (rule w(1)) (simp add: c_def status_change_def)
  have unique: "subs_unique (subs ?db)"
    using hit assms(2) by (simp add: cas_subscription_def subs_unique_keep write_change_def c_def status_change_def)
  have "find_subscription ?db (su_id s) = Some (write_change SubActive c now s)"
    by (rule w(2)) (simp add: c_def status_change_def)
  then show ?thesis
    using hit unique assms(4)
    by (auto simp: recover_payment_def guarded_transition_def assert_subscription_transition_allowed_def
        transition_subscription_def Let_def c_def [symmetric] write_change_def)
qed

text \<open>
  A resumption whose answer is lost is taken for a success. When the vendor fails with a server error
  or does not answer, and a read afterwards still finds the subscription with its old period, the local
  subscription of a past-due or paused tenant becomes active, whatever status the vendor reports in that
  read: nothing was resumed there.
\<close>

theorem lost_resumption_activates:
  assumes "get_subscription_for_tenant t db = Inr s" "su_status s = PastDue \<or> su_status s = Paused"
    and "provider_link s = Some p" "sub_keys db" "subs_unique (subs db)"
    and "sdk_resume sdk p = NoResponse \<or> (\<exists>code d. sdk_resume sdk p = ApiError code d \<and> 500 \<le> code)"
    and "sdk_fetch sdk p = Returned \<lparr>rz_id = p, rz_status = status, rz_plan = q, rz_start = Some a, rz_end = Some b\<rparr>"
  shows "\<exists>r db'. resume_flow (razorpay_provider (Some sdk)) t now db = (Inr r, db') \<and> su_status r = SubActive"
proof -
  have s: "s \<in> set (subs db)"
    using assms(1) by (auto simp: get_subscription_for_tenant_def find_subscription_for_tenant_def
        split: option.splits dest: find_SomeD)
  obtain r db' where r: "recover_payment s None now db = Inr (r, db')" "su_status (tr_sub r) = SubActive"
    using recovery_succeeds [OF assms(4,5) s assms(2)] by blast
  have "bp_resume (razorpay_provider (Some sdk)) p = TimedOut"
    using assms(6) by (auto simp: razorpay_simps)
  moreover have "\<exists>x. bp_get (razorpay_provider (Some sdk)) p = Answer x"
    using assms(7) by (simp add: razorpay_simps report_inside_def to_provider_subscription_def)
  then have "\<exists>x. attempt_reconciliation_read (razorpay_provider (Some sdk)) s = Inr x"
    using assms(3) by (auto simp: attempt_reconciliation_read_def)
  moreover have "settle (recover_payment s None now) db = (Inr (tr_sub r), db')"
    using r(1) by (simp add: settle_def run_tx_def)
  ultimately have "resume_flow (razorpay_provider (Some sdk)) t now db = (Inr (tr_sub r), db')"
    using assms(1,2,3)
    by (auto simp: resume_flow_def assert_has_provider_link_def on_answer_def reconcile_resume_timeout_def
        apply_resume_transition_def)
  then show ?thesis using r(2) by blast
qed

theorem lost_resumption_activates_witness:
  "\<exists>r db'. resume_flow (razorpay_provider (Some sample_sdk)) 7 50 sample_at_risk = (Inr r, db') \<and> su_status r = SubActive"
proof -
  have "get_subscription_for_tenant 7 sample_at_risk = Inr (sample_row\<lparr>su_status := PastDue\<rparr>)" by code_simp
  moreover have "provider_link (sample_row\<lparr>su_status := PastDue\<rparr>) = Some ''sub''" by code_simp
  moreover have "sub_keys sample_at_risk" "subs_unique (subs sample_at_risk)" by code_simp+
  ultimately show ?thesis
    using lost_resumption_activates [of 7 sample_at_risk "sample_row\<lparr>su_status := PastDue\<rparr>" "''sub''" sample_sdk
        "''paused''" 1 0 100 50] by (simp add: sample_sdk_def Let_def)
qed

end
