(* ===== verification/Admin.thy ===== *)
theory Admin
  imports Team
begin

text \<open>
  What a merchant's administrator reads: \<open>admin/admin.service.ts\<close>, the dashboard, the customers, and the
  tenant's subscription, usage and entitlements. No operation writes.
\<close>

section \<open>The dashboard\<close>

definition revenue_order_statuses :: "order_status list" where
  "revenue_order_statuses = [Paid, Confirmed, InProduction, Shipped, Delivered]"

definition recent_orders_limit :: nat where "recent_orders_limit = 10"

definition recent_customer_orders_limit :: nat where "recent_customer_orders_limit = 5"

definition order_status_values :: "order_status list" where
  "order_status_values =
     [PendingPayment, Paid, PaymentFailed, Confirmed, InProduction, Shipped, Delivered, Cancelled, Refunded]"

text \<open>\<open>groupBy\<close>: the statuses that occur, each with its number of orders.\<close>

definition status_counts :: "order_row list \<Rightarrow> (order_status \<times> nat) list" where
  "status_counts rs = map (\<lambda>s. (s, length (filter (\<lambda>r. o_status r = s) rs))) (remdups (map o_status rs))"

text \<open>\<open>SUM\<close> of a column with two decimals; the code replaces the null of no row by zero.\<close>

definition column_sum :: "decimal list \<Rightarrow> decimal" where
  "column_sum ds = Dec (sum_list (map (\<lambda>d. coeff (to_places 2 d)) ds)) 2"

definition revenue_of :: "(order_row \<Rightarrow> bool) \<Rightarrow> shop \<Rightarrow> string" where
  "revenue_of p db =
     paise_to_decimal_string (decimal_to_paise (column_sum
       (map o_total (filter (\<lambda>r. p r \<and> o_status r \<in> set revenue_order_statuses) (orders db)))))"

record dashboard_view =
  db_total_orders :: nat
  db_by_status :: "(order_status \<times> nat) list"
  db_revenue :: string
  db_recent :: "list_item_view list"

definition get_dashboard :: "tenant_context \<Rightarrow> shop \<Rightarrow> dashboard_view" where
  "get_dashboard ctx db =
     (let counts = status_counts (filter (\<lambda>r. o_tenant r = tc_tenant ctx) (orders db))
      in \<lparr>db_total_orders = sum_list (map snd counts),
          db_by_status = map (\<lambda>s. (s, case map_of counts s of None \<Rightarrow> 0 | Some n \<Rightarrow> n)) order_status_values,
          db_revenue = revenue_of (\<lambda>r. o_tenant r = tc_tenant ctx) db,
          db_recent = admin_recent_orders ctx recent_orders_limit db\<rparr>)"

section \<open>Customers\<close>

record customer_view =
  kw_id :: uuid
  kw_email :: string
  kw_address :: address
  kw_role :: legacy_role
  kw_active :: bool
  kw_created :: instant
  kw_orders :: nat

record customer_query =
  cq_search :: "string option"
  cq_active :: "bool option"
  cq_page :: nat
  cq_limit :: nat

definition orders_with :: "uuid \<Rightarrow> uuid \<Rightarrow> realm \<Rightarrow> order_row list" where
  "orders_with tenant user r =
     filter (\<lambda>x. o_user x = user \<and> o_tenant x = tenant) (orders (mk_shop (realm_market r)))"

definition customer_of :: "uuid \<Rightarrow> realm \<Rightarrow> user_row \<Rightarrow> bool" where
  "customer_of tenant r u \<longleftrightarrow> us_role u = CustomerRole \<and> orders_with tenant (us_id u) r \<noteq> []"

text \<open>\<open>contains\<close> without regard to case; an empty search is none.\<close>

fun contains_text :: "string \<Rightarrow> string \<Rightarrow> bool" where
  "contains_text t [] \<longleftrightarrow> t = []"
| "contains_text t (c # s) \<longleftrightarrow> take (length t) (c # s) = t \<or> contains_text t s"

definition customer_where :: "uuid \<Rightarrow> customer_query \<Rightarrow> realm \<Rightarrow> user_row \<Rightarrow> bool" where
  "customer_where tenant q r u \<longleftrightarrow> customer_of tenant r u \<and>
     (case cq_search q of None \<Rightarrow> True | Some t \<Rightarrow> t = '''' \<or> contains_text (to_lower t) (to_lower (us_email u))) \<and>
     (case cq_active q of None \<Rightarrow> True | Some b \<Rightarrow> us_active u = b)"

definition to_customer_view :: "uuid \<Rightarrow> realm \<Rightarrow> user_row \<Rightarrow> customer_view" where
  "to_customer_view tenant r u =
     \<lparr>kw_id = us_id u, kw_email = us_email u, kw_address = us_address u, kw_role = us_role u, kw_active = us_active u,
      kw_created = us_created u, kw_orders = length (orders_with tenant (us_id u) r)\<rparr>"

definition list_customers :: "tenant_context \<Rightarrow> customer_query \<Rightarrow> realm \<Rightarrow> customer_view list \<times> page_meta" where
  "list_customers ctx q r =
     (let rows = sort_key (\<lambda>u. - us_created u) (filter (customer_where (tc_tenant ctx) q r) (re_users r)); n = length rows
      in (map (to_customer_view (tc_tenant ctx) r) (page_slice (cq_page q) (cq_limit q) rows),
          \<lparr>pm_page = cq_page q, pm_limit = cq_limit q, pm_total = n, pm_total_pages = total_pages (cq_limit q) n\<rparr>))"

record customer_detail =
  kx_customer :: customer_view
  kx_spend :: string
  kx_recent :: "list_item_view list"

definition get_customer_detail :: "tenant_context \<Rightarrow> uuid \<Rightarrow> realm \<Rightarrow> customer_detail result" where
  "get_customer_detail ctx i r =
     then_do (or_throw (List.find (\<lambda>u. us_id u = i \<and> customer_of (tc_tenant ctx) r u) (re_users r))
       (NotFound ''Customer not found'')) (\<lambda>u.
     let db = mk_shop (realm_market r)
     in Inr \<lparr>kx_customer = to_customer_view (tc_tenant ctx) r u,
          kx_spend = revenue_of (\<lambda>x. o_user x = i \<and> o_tenant x = tc_tenant ctx) db,
          kx_recent = fst (admin_list_orders_for_customer ctx i 1 recent_customer_orders_limit db)\<rparr>)"

section \<open>The tenant's own plan\<close>

record admin_subscription_view =
  as_status :: sub_status
  as_plan :: "string \<times> string"
  as_start :: "instant option"
  as_end :: "instant option"

definition get_admin_subscription :: "tenant_context \<Rightarrow> market \<Rightarrow> admin_subscription_view result" where
  "get_admin_subscription ctx m =
     then_do (or_throw (find_subscription_for_tenant (tc_tenant ctx) (billing m)) (NotFound ''Subscription not found'')) (\<lambda>s.
     then_do (or_throw (List.find (\<lambda>p. pl_id p = su_plan s) (plans (billing m))) (Thrown ''No Plan found'')) (\<lambda>p.
     Inr \<lparr>as_status = su_status s, as_plan = (pl_key p, pl_name p),
          as_start = su_period_start s, as_end = su_period_end s\<rparr>))"

definition get_admin_usage :: "tenant_context \<Rightarrow> market \<Rightarrow> (limit_key \<times> int option \<times> limit_period) list result" where
  "get_admin_usage ctx m =
     map_result (\<lambda>k.
       if limit_key_periods k = BillingPeriod then Inr (k, None, BillingPeriod)
       else then_do (get_usage (tc_tenant ctx, limit_key_name k, persistent_period) (usages m)) (\<lambda>n.
         Inr (k, Some n, limit_key_periods k))) limit_keys"

definition get_admin_entitlements :: "tenant_context \<Rightarrow> market \<Rightarrow> entitlements" where
  "get_admin_entitlements ctx m = resolve_entitlements (entitle m) (billing m) (tc_tenant ctx)"

end
