(* ===== verification/AdminProperties.thy ===== *)
theory AdminProperties
  imports Admin SessionProperties ShopReach
begin

text \<open>What the figures of the dashboard and the list of customers mean.\<close>

section \<open>Counting\<close>

lemma status_values: "set order_status_values = UNIV" "distinct order_status_values"
proof -
  have "s \<in> set order_status_values" for s by (cases s) (simp_all add: order_status_values_def)
  then show "set order_status_values = UNIV" by blast
qed (simp add: order_status_values_def)

lemma map_of_counts:
  "(case map_of (status_counts rs) s of None \<Rightarrow> 0 | Some n \<Rightarrow> n) = length (filter (\<lambda>r. o_status r = s) rs)"
proof (cases "s \<in> o_status ` set rs")
  case True
  have "map_of (map (\<lambda>x. (x, f x)) xs) s = Some (f s)" if "s \<in> set xs" for f :: "order_status \<Rightarrow> nat" and xs
    using that by (induction xs) auto
  then show ?thesis using True by (simp add: status_counts_def)
next
  case False
  then have "filter (\<lambda>r. o_status r = s) rs = []" by (auto simp: filter_empty_conv)
  moreover have "map_of (status_counts rs) s = None" using False by (auto simp: status_counts_def map_of_eq_None_iff)
  ultimately show ?thesis by simp
qed

lemma one_status: "distinct ss \<Longrightarrow> sum_list (map (\<lambda>s. if x = s then 1 else 0) ss) = (if x \<in> set ss then 1 else (0 :: nat))"
  by (induction ss) auto

lemma sum_by_status:
  assumes "distinct ss" "o_status ` set rs \<subseteq> set ss"
  shows "sum_list (map (\<lambda>s. length (filter (\<lambda>r. o_status r = s) rs)) ss) = length rs"
  using assms(2)
proof (induction rs)
  case (Cons r rs)
  have "sum_list (map (\<lambda>s. length (filter (\<lambda>x. o_status x = s) (r # rs))) ss) =
      sum_list (map (\<lambda>s. (if o_status r = s then 1 else 0) + length (filter (\<lambda>x. o_status x = s) rs)) ss)"
    by (rule arg_cong [of _ _ sum_list]) simp
  also have "\<dots> = 1 + length rs" using Cons one_status [OF assms(1), of "o_status r"] by (simp add: sum_list_addf)
  finally show ?case by simp
qed simp

lemma to_places_2: "places d = 2 \<Longrightarrow> coeff (to_places 2 d) = decimal_to_paise d"
  using round_half_up_exact [of 100 "coeff d"] by (simp add: to_places_def decimal_to_paise_two_places)

lemma column_sum_paise:
  assumes "\<And>d. d \<in> set ds \<Longrightarrow> places d = 2"
  shows "decimal_to_paise (column_sum ds) = sum_list (map decimal_to_paise ds)"
proof -
  have "decimal_to_paise (column_sum ds) = sum_list (map (\<lambda>d. coeff (to_places 2 d)) ds)"
    by (simp add: column_sum_def decimal_to_paise_two_places)
  also have "map (\<lambda>d. coeff (to_places 2 d)) ds = map decimal_to_paise ds" using assms by (simp add: to_places_2)
  finally show ?thesis .
qed

lemma revenue_of_paise:
  assumes "\<And>r. r \<in> set (orders db) \<Longrightarrow> places (o_total r) = 2"
  shows "revenue_of p db = paise_to_decimal_string (sum_list (map (\<lambda>r. decimal_to_paise (o_total r))
    (filter (\<lambda>r. p r \<and> o_status r \<in> set revenue_order_statuses) (orders db))))"
proof -
  have "decimal_to_paise (column_sum (map o_total (filter q (orders db)))) =
      sum_list (map decimal_to_paise (map o_total (filter q (orders db))))" for q
    by (rule column_sum_paise) (auto intro: assms)
  then show ?thesis by (simp add: revenue_of_def comp_def)
qed

lemma listed_total:
  "pm_total (snd (admin_list_orders ctx \<lparr>q_status = Some s, q_user = None, q_from = None, q_to = None, q_page = page, q_limit = limit\<rparr> db)) =
   length (filter (\<lambda>r. o_status r = s) (filter (\<lambda>r. o_tenant r = tc_tenant ctx) (orders db)))"
proof -
  have "filter (admin_where (tc_tenant ctx) \<lparr>q_status = Some s, q_user = None, q_from = None, q_to = None, q_page = page, q_limit = limit\<rparr>)
      (orders db) = filter (\<lambda>r. o_status r = s) (filter (\<lambda>r. o_tenant r = tc_tenant ctx) (orders db))"
    by (simp add: admin_where_def conj_commute cong: filter_cong)
  then show ?thesis by (simp add: admin_list_orders_def paginated_list_def Let_def)
qed

text \<open>
  C23. The dashboard adds up and is the tenant's own. The count of each status is the total of the tenant's
  order list filtered by that status, the counts sum to the total shown, the revenue is the exact sum of
  the totals of the tenant's orders that are paid or later, with no rounding in between, and the recent
  orders are the first page of the tenant's order list.
\<close>

theorem dashboard_adds_up:
  assumes "\<And>r. r \<in> set (orders db) \<Longrightarrow> places (o_total r) = 2"
  shows "(\<forall>s n. (s, n) \<in> set (db_by_status (get_dashboard ctx db)) \<longleftrightarrow>
      n = pm_total (snd (admin_list_orders ctx \<lparr>q_status = Some s, q_user = None, q_from = None, q_to = None,
        q_page = page, q_limit = limit\<rparr> db))) \<and>
    sum_list (map snd (db_by_status (get_dashboard ctx db))) = db_total_orders (get_dashboard ctx db) \<and>
    db_revenue (get_dashboard ctx db) = paise_to_decimal_string (sum_list (map (\<lambda>r. decimal_to_paise (o_total r))
      (filter (\<lambda>r. o_tenant r = tc_tenant ctx \<and> o_status r \<in> set revenue_order_statuses) (orders db)))) \<and>
    db_recent (get_dashboard ctx db) = fst (admin_list_orders ctx \<lparr>q_status = None, q_user = None, q_from = None,
        q_to = None, q_page = 1, q_limit = recent_orders_limit\<rparr> db)"
proof (intro conjI)
  let ?own = "filter (\<lambda>r. o_tenant r = tc_tenant ctx) (orders db)"
  have by_status: "db_by_status (get_dashboard ctx db) =
      map (\<lambda>s. (s, length (filter (\<lambda>r. o_status r = s) ?own))) order_status_values"
    unfolding get_dashboard_def Let_def by (simp only: map_of_counts dashboard_view.simps)
  have own_total: "db_total_orders (get_dashboard ctx db) = length ?own"
    using sum_by_status [of "remdups (map o_status ?own)" ?own]
    by (simp add: get_dashboard_def Let_def status_counts_def comp_def)
  show "\<forall>s n. (s, n) \<in> set (db_by_status (get_dashboard ctx db)) \<longleftrightarrow>
      n = pm_total (snd (admin_list_orders ctx \<lparr>q_status = Some s, q_user = None, q_from = None, q_to = None,
        q_page = page, q_limit = limit\<rparr> db))"
    unfolding by_status listed_total using status_values(1) by (auto simp: image_iff)
  show "sum_list (map snd (db_by_status (get_dashboard ctx db))) = db_total_orders (get_dashboard ctx db)"
    unfolding by_status own_total using sum_by_status [OF status_values(2), of ?own]
    by (simp add: status_values comp_def)
  show "db_revenue (get_dashboard ctx db) = paise_to_decimal_string (sum_list (map (\<lambda>r. decimal_to_paise (o_total r))
      (filter (\<lambda>r. o_tenant r = tc_tenant ctx \<and> o_status r \<in> set revenue_order_statuses) (orders db))))"
    by (simp add: get_dashboard_def Let_def revenue_of_paise [OF assms])
  show "db_recent (get_dashboard ctx db) = fst (admin_list_orders ctx \<lparr>q_status = None, q_user = None, q_from = None,
        q_to = None, q_page = 1, q_limit = recent_orders_limit\<rparr> db)"
    by (simp add: get_dashboard_def Let_def admin_recent_orders_def admin_list_orders_def paginated_list_def
        page_slice_def admin_where_def [abs_def])
qed

theorem dashboard_adds_up_witness:
  "sum_list (map snd (db_by_status (get_dashboard \<lparr>tc_tenant = 1, tc_session = None\<rparr> sample_paid))) =
     db_total_orders (get_dashboard \<lparr>tc_tenant = 1, tc_session = None\<rparr> sample_paid)"
proof -
  have "\<And>r. r \<in> set (orders sample_paid) \<Longrightarrow> places (o_total r) = 2" by (auto simp: sample_defs)
  from dashboard_adds_up [OF this] show ?thesis by blast
qed

section \<open>Customers\<close>


definition sample_served :: realm where
  "sample_served =
     (let s = re_site sample_registered; m = st_market s
      in sample_registered\<lparr>re_site := s\<lparr>st_market := m\<lparr>mk_shop := (mk_shop m)
           \<lparr>orders := [sample_order\<lparr>o_user := us_id sample_user\<rparr>]\<rparr>\<rparr>\<rparr>\<rparr>)"


end
