(* ===== verification/Addresses.thy ===== *)
theory Addresses
  imports Checkout
begin

text \<open>
  Indian addresses on the server: \<open>common/validation/indian-address.util.ts\<close>, the request of a checkout
  (\<open>checkout/dto/create-order.dto.ts\<close>) and the lookup of a PIN code (\<open>postal/postal.service.ts\<close>). The
  provider behind the lookup is a parameter.
\<close>

section \<open>Mobile numbers\<close>

text \<open>\<open>/^\\d{6}$/\<close> and \<open>/^[6-9]\\d{9}$/\<close>.\<close>

definition pin_code :: "string \<Rightarrow> bool" where
  "pin_code s \<longleftrightarrow> length s = 6 \<and> list_all is_digit s"

definition subscriber_number :: "string \<Rightarrow> bool" where
  "subscriber_number s \<longleftrightarrow> length s = 10 \<and> list_all is_digit s \<and> hd s \<in> set ''6789''"

definition indian_mobile_e164 :: "string \<Rightarrow> bool" where
  "indian_mobile_e164 s \<longleftrightarrow> take 3 s = ''+91'' \<and> subscriber_number (drop 3 s)"

text \<open>\<open>/[\\s\\-().]/\<close>\<close>

definition phone_separator :: "char \<Rightarrow> bool" where
  "phone_separator c \<longleftrightarrow> js_space c \<or> c \<in> set ''-().''"

definition without_prefix :: "string \<Rightarrow> string" where
  "without_prefix s =
     (if take 3 s = ''+91'' then drop 3 s
      else if take 2 s = ''91'' \<and> length s = 12 then drop 2 s
      else if take 1 s = ''0'' \<and> length s = 11 then drop 1 s
      else s)"

definition normalize_indian_mobile :: "string \<Rightarrow> string option" where
  "normalize_indian_mobile raw =
     (let s = filter (\<lambda>c. \<not> phone_separator c) raw
      in if s = '''' then None
         else if subscriber_number (without_prefix s) then Some (''+91'' @ without_prefix s)
         else None)"

section \<open>The request of a checkout\<close>

text \<open>\<open>/^[A-Za-z0-9_-]+$/\<close>\<close>

definition code_char :: "char \<Rightarrow> bool" where
  "code_char c \<longleftrightarrow> (let n = of_char c :: nat in
     65 \<le> n \<and> n \<le> 90 \<or> 97 \<le> n \<and> n \<le> 122 \<or> is_digit c) \<or> c \<in> set ''_-''"

definition coupon_code_text :: "string \<Rightarrow> bool" where
  "coupon_code_text s \<longleftrightarrow> s \<noteq> '''' \<and> list_all code_char s"

definition transform_shipping :: "shipping_snapshot \<Rightarrow> shipping_snapshot" where
  "transform_shipping a =
     a\<lparr>phone := (case normalize_indian_mobile (phone a) of None \<Rightarrow> js_trim (phone a) | Some p \<Rightarrow> p),
       postal_code := js_trim (postal_code a)\<rparr>"

definition given_text :: "nat \<Rightarrow> string \<Rightarrow> bool" where
  "given_text maximum s \<longleftrightarrow> s \<noteq> '''' \<and> length s \<le> maximum"

definition shipping_rules :: "shipping_snapshot \<Rightarrow> bool" where
  "shipping_rules a \<longleftrightarrow>
     given_text 160 (recipient_name a) \<and>
     given_text 20 (phone a) \<and> indian_mobile_e164 (phone a) \<and>
     given_text 200 (address_line1 a) \<and>
     (case address_line2 a of None \<Rightarrow> True | Some s \<Rightarrow> length s \<le> 200) \<and>
     given_text 100 (city a) \<and> given_text 100 (region a) \<and>
     given_text 20 (postal_code a) \<and> pin_code (postal_code a) \<and>
     given_text 100 (country a)"

text \<open>What the validation pipe hands to the controller, or nothing when it answers 400.\<close>

definition validate_create_order :: "checkout_dto \<Rightarrow> checkout_dto option" where
  "validate_create_order d =
     (let a = transform_shipping (co_shipping d)
      in if shipping_rules a \<and>
            (case co_coupon d of None \<Rightarrow> True | Some c \<Rightarrow> length c \<le> 50 \<and> coupon_code_text c)
         then Some (d\<lparr>co_shipping := a\<rparr>) else None)"

section \<open>The lookup of a PIN code\<close>

text \<open>A parsed body; the keys of an object are distinct.\<close>

datatype json = JNull | JText string | JOther | JArray "json list" | JObject "(string \<times> json) list"

datatype postal_answer = Unreachable | HttpAnswer int "json option"

fun member_of :: "string \<Rightarrow> json \<Rightarrow> json option" where
  "member_of k (JObject ms) = map_of ms k"
| "member_of k _ = None"

text \<open>\<open>typeof x === 'object' && x !== null\<close>\<close>

fun is_object :: "json \<Rightarrow> bool" where
  "is_object (JArray _) = True"
| "is_object (JObject _) = True"
| "is_object _ = False"

definition extract_offices :: "json \<Rightarrow> json list" where
  "extract_offices body =
     (case Option.bind (member_of ''data'' body) (member_of ''post_offices'') of
        Some (JArray rows) \<Rightarrow> filter is_object rows
      | _ \<Rightarrow> [])"

text \<open>The text of a member, trimmed; empty when it is no text.\<close>

definition text_member :: "string \<Rightarrow> json \<Rightarrow> string" where
  "text_member k row = (case member_of k row of Some (JText s) \<Rightarrow> js_trim s | _ \<Rightarrow> '''')"

text \<open>The counting map keeps the order in which its keys were first set.\<close>

fun count_one :: "string \<Rightarrow> (string \<times> nat) list \<Rightarrow> (string \<times> nat) list" where
  "count_one v [] = [(v, 1)]"
| "count_one v ((w, n) # r) = (if w = v then (w, Suc n) # r else (w, n) # count_one v r)"

definition value_counts :: "string list \<Rightarrow> (string \<times> nat) list" where
  "value_counts vs = foldl (\<lambda>m v. count_one v m) [] vs"

definition better :: "string \<times> nat \<Rightarrow> string \<times> nat \<Rightarrow> string \<times> nat" where
  "better best e = (if snd best < snd e then e else best)"

definition most_common :: "string list \<Rightarrow> string" where
  "most_common vs = (if vs = [] then '''' else fst (foldl better (hd vs, 0) (value_counts vs)))"

record postal_view =
  po_code :: string
  po_city :: string
  po_district :: string
  po_state :: string
  po_country :: string

definition pin_code_invalid_message :: string where
  "pin_code_invalid_message = ''Enter a valid 6-digit PIN code.''"

definition pin_code_not_found_message :: string where
  "pin_code_not_found_message = ''We couldn't find this PIN code. Please check it and try again.''"

definition pin_lookup_unavailable_message :: string where
  "pin_lookup_unavailable_message =
     ''We couldn't verify this PIN right now. Please check your PIN or enter your address manually.''"

definition column :: "string \<Rightarrow> json list \<Rightarrow> string list" where
  "column k rows = filter (\<lambda>v. v \<noteq> '''') (map (text_member k) rows)"

definition normalize_postal :: "string \<Rightarrow> json \<Rightarrow> postal_view result" where
  "normalize_postal code body =
     (let offices = extract_offices body;
          district = most_common (column ''district'' offices);
          state = most_common (column ''state'' offices)
      in if offices = [] then Inl (NotFound pin_code_not_found_message)
         else if district = '''' \<or> state = '''' then Inl (ServiceUnavailable pin_lookup_unavailable_message)
         else Inr \<lparr>po_code = code, po_city = district, po_district = district, po_state = state,
                po_country = ''India''\<rparr>)"

definition postal_url :: "string \<Rightarrow> string \<Rightarrow> string" where
  "postal_url base code = rev (dropWhile (\<lambda>c. c = CHR ''/'') (rev base)) @ ''/pincode/'' @ code"

definition postal_lookup :: "string \<Rightarrow> (string \<Rightarrow> postal_answer) \<Rightarrow> string \<Rightarrow> postal_view result" where
  "postal_lookup base fetch raw =
     (let code = js_trim raw in
      then_do (require (pin_code code) (BadRequest pin_code_invalid_message)) (\<lambda>_.
      case fetch (postal_url base code) of
        Unreachable \<Rightarrow> Inl (ServiceUnavailable pin_lookup_unavailable_message)
      | HttpAnswer status body \<Rightarrow>
          if status = 404 then Inl (NotFound pin_code_not_found_message)
          else if status < 200 \<or> 299 < status then Inl (ServiceUnavailable pin_lookup_unavailable_message)
          else (case body of
              None \<Rightarrow> Inl (ServiceUnavailable pin_lookup_unavailable_message)
            | Some b \<Rightarrow> normalize_postal code b)))"

text \<open>The route: \<open>ParsePinCodePipe\<close> before the service.\<close>

definition parse_pin_code :: "string \<Rightarrow> string result" where
  "parse_pin_code v =
     (if pin_code (js_trim v) then Inr (js_trim v) else Inl (BadRequest pin_code_invalid_message))"

definition postal_route :: "string \<Rightarrow> (string \<Rightarrow> postal_answer) \<Rightarrow> string \<Rightarrow> postal_view result" where
  "postal_route base fetch v = then_do (parse_pin_code v) (postal_lookup base fetch)"

section \<open>Facts\<close>

lemma separator_not_digit: "is_digit c \<Longrightarrow> \<not> phone_separator c"
  by (auto simp: phone_separator_def js_space_def is_digit_def)

lemma compact_digits: "list_all is_digit s \<Longrightarrow> filter (\<lambda>c. \<not> phone_separator c) s = s"
  by (induction s) (auto simp: separator_not_digit)

lemma plus_not_separator: "\<not> phone_separator CHR ''+''"
  by (simp add: phone_separator_def js_space_def)

lemma normalize_e164:
  assumes "normalize_indian_mobile raw = Some n"
  shows "indian_mobile_e164 n" "length n = 13"
  using assms by (auto simp: normalize_indian_mobile_def Let_def indian_mobile_e164_def subscriber_number_def
      split: if_splits)

text \<open>Every accepted way to write a number has the same normal form.\<close>

lemma normalize_notations:
  assumes "subscriber_number d" "filter (\<lambda>c. \<not> phone_separator c) raw \<in> {d, ''+91'' @ d, ''91'' @ d, ''0'' @ d}"
  shows "normalize_indian_mobile raw = Some (''+91'' @ d)"
proof -
  obtain c r where d: "d = c # r" "length r = 9" "c \<in> set ''6789''"
    using assms(1) by (cases d) (auto simp: subscriber_number_def)
  have "without_prefix (filter (\<lambda>c. \<not> phone_separator c) raw) = d"
    using assms(2) d by (auto simp: without_prefix_def)
  moreover have "filter (\<lambda>c. \<not> phone_separator c) raw \<noteq> ''''" using assms(2) d(1) by auto
  ultimately show ?thesis using assms(1) by (simp add: normalize_indian_mobile_def)
qed

lemma e164_compact: "indian_mobile_e164 s \<Longrightarrow> filter (\<lambda>c. \<not> phone_separator c) s = s"
proof -
  assume a: "indian_mobile_e164 s"
  then have "filter (\<lambda>c. \<not> phone_separator c) (drop 3 s) = drop 3 s"
    by (intro compact_digits) (simp add: indian_mobile_e164_def subscriber_number_def)
  moreover have "filter (\<lambda>c. \<not> phone_separator c) (take 3 s) = take 3 s"
    using a plus_not_separator separator_not_digit [of "CHR ''9''"] separator_not_digit [of "CHR ''1''"]
    by (simp add: indian_mobile_e164_def is_digit_def)
  ultimately show ?thesis by (metis append_take_drop_id filter_append)
qed

lemma mobile_form_kept:
  assumes "indian_mobile_e164 s"
  shows "normalize_indian_mobile s = Some s"
proof -
  have s: "s = ''+91'' @ drop 3 s" using assms by (metis append_take_drop_id indian_mobile_e164_def)
  show ?thesis
    using normalize_notations [of "drop 3 s" s] assms e164_compact [OF assms] s by (simp add: indian_mobile_e164_def)
qed

lemma pin_code_trimmed: "pin_code s \<Longrightarrow> js_trim s = s"
proof -
  assume a: "pin_code s"
  have same: "dropWhile js_space t = t" if "\<forall>c \<in> set t. \<not> js_space c" for t
    using that by (cases t) auto
  have "\<forall>c \<in> set s. \<not> js_space c"
    using a by (auto simp: pin_code_def list_all_iff is_digit_def js_space_def)
  then show ?thesis using same [of s] same [of "rev s"] by (simp add: js_trim_def)
qed

subsection \<open>The most common value\<close>

lemma count_one_same: "map_of (count_one v m) v = Some (case map_of m v of None \<Rightarrow> 1 | Some n \<Rightarrow> Suc n)"
  by (induction m) auto

lemma count_one_other: "w \<noteq> v \<Longrightarrow> map_of (count_one v m) w = map_of m w"
  by (induction m) auto

lemma count_one_keys:
  "map fst (count_one v m) = (if v \<in> set (map fst m) then map fst m else map fst m @ [v])"
  by (induction v m rule: count_one.induct) auto

lemma value_counts_snoc: "value_counts (vs @ [v]) = count_one v (value_counts vs)"
  by (simp add: value_counts_def)

lemma value_counts_map:
  "map_of (value_counts vs) v = (if v \<in> set vs then Some (count_list vs v) else None)"
proof (induction vs rule: rev_induct)
  case (snoc x xs)
  show ?case
    using snoc count_one_same [of x "value_counts xs"] count_one_other [of v x "value_counts xs"]
    by (cases "v = x") (auto simp: value_counts_snoc)
qed (simp add: value_counts_def)

lemma value_counts_distinct: "distinct (map fst (value_counts vs))"
  by (induction vs rule: rev_induct) (simp_all add: value_counts_snoc count_one_keys, simp add: value_counts_def)

lemma value_counts_in: "(v, n) \<in> set (value_counts vs) \<longleftrightarrow> v \<in> set vs \<and> n = count_list vs v"
  using value_counts_map [of vs v] map_of_eq_Some_iff [OF value_counts_distinct, of vs v n] by (auto split: if_splits)

lemma better_max:
  "foldl better b m \<in> insert b (set m) \<and> snd b \<le> snd (foldl better b m) \<and>
   (\<forall>e \<in> set m. snd e \<le> snd (foldl better b m))"
proof (induction m arbitrary: b)
  case (Cons e m)
  have "snd b \<le> snd (better b e)" "snd e \<le> snd (better b e)" "better b e \<in> {b, e}" by (auto simp: better_def)
  then show ?case using Cons [of "better b e"] by fastforce
qed simp

lemma most_common_spec:
  assumes "vs \<noteq> []"
  shows "most_common vs \<in> set vs" "count_list vs v \<le> count_list vs (most_common vs)"
proof -
  let ?e = "foldl better (hd vs, 0) (value_counts vs)"
  have hd: "(hd vs, count_list vs (hd vs)) \<in> set (value_counts vs)" using assms by (simp add: value_counts_in)
  have pos: "0 < count_list vs (hd vs)" using assms by (metis count_list_0_iff gr0I hd_in_set)
  note b = better_max [of "(hd vs, 0)" "value_counts vs"]
  have "0 < snd ?e" using b hd pos by fastforce
  then have "?e \<in> set (value_counts vs)" using b by auto
  then have e: "fst ?e \<in> set vs" "snd ?e = count_list vs (fst ?e)"
    using value_counts_in [of "fst ?e" "snd ?e" vs] by auto
  have m: "most_common vs = fst ?e" using assms by (simp add: most_common_def)
  then show "most_common vs \<in> set vs" using e(1) by simp
  show "count_list vs v \<le> count_list vs (most_common vs)"
  proof (cases "v \<in> set vs")
    case True
    then have "(v, count_list vs v) \<in> set (value_counts vs)" by (simp add: value_counts_in)
    then show ?thesis using b e(2) m by fastforce
  next
    case False
    then show ?thesis by (simp add: count_list_0_iff)
  qed
qed

lemma most_common_empty: "most_common (column k rows) = '''' \<longleftrightarrow> column k rows = []"
  using most_common_spec(1) [of "column k rows"] by (auto simp: most_common_def column_def)

end
