(* ===== verification/ClientForms.thy ===== *)
theory ClientForms
  imports Addresses Settings Reviews Sessions "HOL-Library.Log_Nat"
begin

text \<open>
  What the browser checks before it sends a form, under \<open>frontend/src\<close>: \<open>utils/phone.ts\<close>,
  \<open>utils/customizationValues.ts\<close> and the schemas of checkout, passwords, settings, customizations and
  amounts. A schema yields the trimmed values, or nothing when it shows an error.
\<close>

section \<open>Checkout\<close>

text \<open>\<open>utils/phone.ts\<close>, a second implementation of the server's rule.\<close>

definition client_prefix :: "string \<Rightarrow> nat" where
  "client_prefix s =
     (if take 3 s = ''+91'' then 3
      else if take 2 s = ''91'' \<and> length s = 12 then 2
      else if take 1 s = ''0'' \<and> length s = 11 then 1
      else 0)"

definition client_normalize_mobile :: "string \<Rightarrow> string option" where
  "client_normalize_mobile raw =
     (let s = filter (\<lambda>c. \<not> js_space c \<and> c \<notin> set ''-().'') raw
      in if s = '''' then None
         else (let digits = drop (client_prefix s) s
               in if length digits = 10 \<and> hd digits \<in> set ''6789'' \<and> list_all is_digit digits
                  then Some (''+91'' @ digits) else None))"

definition trim_shipping :: "shipping_snapshot \<Rightarrow> shipping_snapshot" where
  "trim_shipping a =
     \<lparr>recipient_name = js_trim (recipient_name a), phone = js_trim (phone a),
      address_line1 = js_trim (address_line1 a), address_line2 = map_option js_trim (address_line2 a),
      city = js_trim (city a), region = js_trim (region a), postal_code = js_trim (postal_code a),
      country = js_trim (country a)\<rparr>"

text \<open>\<open>shippingSchema\<close>\<close>

definition shipping_schema :: "shipping_snapshot \<Rightarrow> shipping_snapshot option" where
  "shipping_schema raw =
     (let a = trim_shipping raw
      in if given_text 160 (recipient_name a) \<and>
            given_text 20 (phone a) \<and> client_normalize_mobile (phone a) \<noteq> None \<and>
            given_text 200 (address_line1 a) \<and>
            (case address_line2 a of None \<Rightarrow> True | Some s \<Rightarrow> length s \<le> 200) \<and>
            given_text 100 (city a) \<and> given_text 100 (region a) \<and>
            postal_code a \<noteq> '''' \<and> length (postal_code a) = 6 \<and> list_all is_digit (postal_code a) \<and>
            given_text 100 (country a)
         then Some a else None)"

text \<open>\<open>handleSubmitShipping\<close> of \<open>CheckoutPage.tsx\<close>: the request made of accepted values and of the coupon of
  the preview.\<close>

definition checkout_payload :: "string option \<Rightarrow> shipping_snapshot \<Rightarrow> checkout_dto" where
  "checkout_payload coupon a =
     \<lparr>co_shipping = a\<lparr>phone := (case client_normalize_mobile (phone a) of None \<Rightarrow> phone a | Some p \<Rightarrow> p),
        address_line2 := (if address_line2 a = Some '''' then None else address_line2 a)\<rparr>,
      co_coupon = coupon\<rparr>"

section \<open>Passwords\<close>

definition client_common_passwords :: "string list" where
  "client_common_passwords =
     [''password'', ''password1'', ''password123'', ''letmein1'', ''qwertyui'', ''qwerty123'', ''iloveyou'',
      ''admin1234'', ''welcome1'', ''abc12345'', ''12345678'', ''123456789'']"

definition is_purely_numeric :: "string \<Rightarrow> bool" where
  "is_purely_numeric v \<longleftrightarrow> v \<noteq> '''' \<and> list_all is_digit v"

definition is_common_password :: "string \<Rightarrow> bool" where
  "is_common_password v \<longleftrightarrow> to_lower v \<in> set client_common_passwords"

definition password_min_length :: nat where
  "password_min_length = 8"

definition password_requirements :: "(string \<Rightarrow> bool) list" where
  "password_requirements =
     [\<lambda>v. password_min_length \<le> length v,
      \<lambda>v. 0 < length v \<and> \<not> is_purely_numeric v,
      \<lambda>v. 0 < length v \<and> \<not> is_common_password v]"

definition password_schema :: "string \<Rightarrow> bool" where
  "password_schema v \<longleftrightarrow> password_min_length \<le> length v \<and> \<not> is_purely_numeric v \<and> \<not> is_common_password v"

text \<open>\<open>RegisterDto\<close> of the server.\<close>

definition register_password_ok :: "string \<Rightarrow> bool" where
  "register_password_ok p \<longleftrightarrow> 8 \<le> length p \<and> password_policy p"

section \<open>Settings\<close>

text \<open>
  The pattern of an amount is the server's; \<open>Number(v)\<close> is compared with a whole number, which rounding
  does not cross for an amount of at most two decimals.
\<close>

definition money_schema :: "string \<Rightarrow> string option" where
  "money_schema raw =
     (let v = js_trim raw
      in if v \<noteq> '''' \<and> plain_amount v \<and> hundredths v \<le> 100000 * 100 then Some v else None)"

definition percent_schema :: "string \<Rightarrow> string option" where
  "percent_schema raw =
     (let v = js_trim raw in if plain_amount v \<and> hundredths v \<le> 100 * 100 then Some v else None)"

definition boolean_schema :: "string \<Rightarrow> string option" where
  "boolean_schema v = (if v \<in> {''true'', ''false''} then Some v else None)"

definition text_schema :: "string \<Rightarrow> string option" where
  "text_schema raw = (if length (js_trim raw) \<le> 500 then Some (js_trim raw) else None)"

definition store_name_schema :: "string \<Rightarrow> string option" where
  "store_name_schema raw = (if given_text 60 (js_trim raw) then Some (js_trim raw) else None)"

definition enum_schema :: "string \<Rightarrow> string option" where
  "enum_schema raw = (if js_trim raw \<noteq> '''' then Some (js_trim raw) else None)"

definition schema_for_kind :: "setting_kind \<Rightarrow> string \<Rightarrow> string \<Rightarrow> string option" where
  "schema_for_kind kind key =
     (if key = ''storeName'' then store_name_schema
      else (case kind of
          MoneySetting \<Rightarrow> money_schema
        | PercentSetting \<Rightarrow> percent_schema
        | BooleanSetting \<Rightarrow> boolean_schema
        | EnumSetting \<Rightarrow> enum_schema
        | TextSetting \<Rightarrow> text_schema))"

section \<open>Customizations\<close>

text \<open>The schema of one field, on the value of the form; for a file it is the text of the upload's id.\<close>

definition customization_field_schema :: "field_row \<Rightarrow> string \<Rightarrow> bool" where
  "customization_field_schema f v \<longleftrightarrow>
     (let c = parse_field_constraints (f_constraints f)
      in (is_file_field_type (f_type f) \<or> (case max_length c of None \<Rightarrow> True | Some n \<Rightarrow> int (length v) \<le> n)) \<and>
         (f_type f \<noteq> ColorSelect \<or>
            (case field_options c of None \<Rightarrow> True | Some os \<Rightarrow> os = [] \<or> v = '''' \<or> v \<in> set os)) \<and>
         (f_required f \<longrightarrow> js_trim v \<noteq> ''''))"

definition customization_schema :: "field_row list \<Rightarrow> (uuid \<Rightarrow> string) \<Rightarrow> bool" where
  "customization_schema fs values \<longleftrightarrow> list_all (\<lambda>f. customization_field_schema f (values (f_id f))) fs"

text \<open>\<open>id_of\<close> reads the text of an upload's id.\<close>

definition field_submission :: "(string \<Rightarrow> uuid) \<Rightarrow> field_row \<Rightarrow> string \<Rightarrow> submission" where
  "field_submission id_of f v =
     (if is_file_field_type (f_type f) then \<lparr>sb_text = None, sb_file = Some (id_of v)\<rparr>
      else \<lparr>sb_text = Some v, sb_file = None\<rparr>)"

definition to_customization_value_dtos ::
  "(string \<Rightarrow> uuid) \<Rightarrow> field_row list \<Rightarrow> (uuid \<Rightarrow> string) \<Rightarrow> (uuid \<times> submission) list" where
  "to_customization_value_dtos id_of fs values =
     map (\<lambda>f. (f_id f, field_submission id_of f (js_trim (values (f_id f)))))
       (filter (\<lambda>f. js_trim (values (f_id f)) \<noteq> '''') fs)"

section \<open>Amounts\<close>

text \<open>
  A double that is not negative, as a mantissa over a power of two: the quotient \<open>a / b\<close>, at least \<open>2 ^ -60\<close>
  or zero and below \<open>2 ^ 53\<close>, rounded to 53 bits, to even when it is halfway.
\<close>

definition double_places :: "int \<Rightarrow> int \<Rightarrow> nat" where
  "double_places a b = nat (113 - bitlen (a * 2 ^ 60 div b))"

definition to_double :: "int \<Rightarrow> int \<Rightarrow> int \<times> nat" where
  "to_double a b = (round_half_even (a * 2 ^ double_places a b) b, double_places a b)"

definition times_100 :: "int \<times> nat \<Rightarrow> int \<times> nat" where
  "times_100 x = to_double (fst x * 100) (2 ^ snd x)"

text \<open>
  \<open>isValidDecimal\<close> on the number that a text denotes. \<open>Math.round(x) === x\<close> says that \<open>x\<close> is whole.
\<close>

definition is_valid_decimal :: "decimal \<Rightarrow> bool" where
  "is_valid_decimal d \<longleftrightarrow> 0 \<le> coeff d \<and>
     (let x = times_100 (to_double (coeff d) (10 ^ places d)) in 2 ^ snd x dvd fst x)"

section \<open>Facts\<close>

lemma client_mobile_is_server_mobile: "client_normalize_mobile raw = normalize_indian_mobile raw"
  by (auto simp: client_normalize_mobile_def normalize_indian_mobile_def client_prefix_def without_prefix_def
      phone_separator_def subscriber_number_def Let_def)

end
