(* ===== verification/ClientProperties.thy ===== *)
theory ClientProperties
  imports ClientForms
begin

text \<open>
  The browser's checks against the server's: which forms the server can still refuse, and which valid
  values the browser does not let through.
\<close>

section \<open>Mobile numbers and addresses\<close>

lemma spelled_with_prefix:
  "s \<in> {without_prefix s, ''+91'' @ without_prefix s, ''91'' @ without_prefix s, ''0'' @ without_prefix s}"
proof -
  have cut: "s = t @ drop n s" if "take n s = t" for n t using append_take_drop_id [of n s] that by simp
  consider "take 3 s = ''+91''" | "take 3 s \<noteq> ''+91''" "take 2 s = ''91'' \<and> length s = 12"
    | "take 3 s \<noteq> ''+91''" "\<not> (take 2 s = ''91'' \<and> length s = 12)" "take 1 s = ''0'' \<and> length s = 11"
    | "take 3 s \<noteq> ''+91''" "\<not> (take 2 s = ''91'' \<and> length s = 12)" "\<not> (take 1 s = ''0'' \<and> length s = 11)"
    by blast
  then show ?thesis
  proof cases
    case 1
    have "without_prefix s = drop 3 s" using 1 by (simp add: without_prefix_def)
    then show ?thesis using cut [OF 1] by simp
  next
    case 2
    have "without_prefix s = drop 2 s" using 2 by (simp add: without_prefix_def)
    then show ?thesis using cut [of 2] 2 by simp
  next
    case 3
    have "without_prefix s = drop 1 s" using 3 by (simp add: without_prefix_def)
    then show ?thesis using cut [OF 3(3) [THEN conjunct1]] by simp
  next
    case 4
    have "without_prefix s = s" using 4 unfolding without_prefix_def by argo
    then show ?thesis by simp
  qed
qed

text \<open>
  A mobile number has exactly four accepted spellings - ten digits that begin with 6 to 9, alone or
  after +91, 91 or 0 - with spaces, hyphens, points and brackets anywhere; all of them become the same
  +91 form, and the browser's copy of the rule decides every text as the server does.
\<close>

theorem mobile_numbers_have_one_form:
  "(normalize_indian_mobile raw = Some n \<longleftrightarrow>
     (\<exists>d. subscriber_number d \<and> n = ''+91'' @ d \<and>
        filter (\<lambda>c. \<not> phone_separator c) raw \<in> {d, ''+91'' @ d, ''91'' @ d, ''0'' @ d})) \<and>
   client_normalize_mobile raw = normalize_indian_mobile raw"
proof
  let ?s = "filter (\<lambda>c. \<not> phone_separator c) raw"
  have spelled: "?s \<in> {without_prefix ?s, ''+91'' @ without_prefix ?s, ''91'' @ without_prefix ?s, ''0'' @ without_prefix ?s}"
    by (rule spelled_with_prefix)
  show "normalize_indian_mobile raw = Some n \<longleftrightarrow>
     (\<exists>d. subscriber_number d \<and> n = ''+91'' @ d \<and> ?s \<in> {d, ''+91'' @ d, ''91'' @ d, ''0'' @ d})"
  proof
    assume "normalize_indian_mobile raw = Some n"
    then have "subscriber_number (without_prefix ?s)" "n = ''+91'' @ without_prefix ?s"
      by (auto simp: normalize_indian_mobile_def Let_def split: if_splits)
    then show "\<exists>d. subscriber_number d \<and> n = ''+91'' @ d \<and> ?s \<in> {d, ''+91'' @ d, ''91'' @ d, ''0'' @ d}"
      using spelled by blast
  qed (auto dest: normalize_notations)
  show "client_normalize_mobile raw = normalize_indian_mobile raw" by (rule client_mobile_is_server_mobile)
qed

text \<open>A spelling that the documentation of the rule gives as accepted is refused.\<close>

theorem documented_spelling_is_refused: "normalize_indian_mobile ''091-98765 43210'' = None"
  by code_simp

text \<open>
  C35. A shipping form that the browser accepts is a request that the server accepts unchanged: validation
  neither refuses nor alters it, its phone is in the +91 form, and its PIN code is never refused by the
  lookup as malformed.
\<close>

theorem accepted_shipping_form_is_a_valid_request:
  assumes "shipping_schema raw = Some a" "\<And>c. coupon = Some c \<Longrightarrow> coupon_code_text c \<and> length c \<le> 50"
  shows "validate_create_order (checkout_payload coupon a) = Some (checkout_payload coupon a) \<and>
    indian_mobile_e164 (phone (co_shipping (checkout_payload coupon a))) \<and>
    (\<forall>base fetch e. postal_route base fetch (postal_code a) \<noteq> Inl (BadRequest e))"
proof -
  obtain n where n: "normalize_indian_mobile (phone a) = Some n"
    using assms(1) by (auto simp: shipping_schema_def client_mobile_is_server_mobile Let_def split: if_splits)
  note e164 = normalize_e164 [OF n]
  have pin: "pin_code (postal_code a)"
    using assms(1) by (auto simp: shipping_schema_def pin_code_def Let_def split: if_splits)
  note trimmed = pin_code_trimmed [OF pin]
  let ?p = "checkout_payload coupon a"
  have phone: "phone (co_shipping ?p) = n" by (simp add: checkout_payload_def client_mobile_is_server_mobile n)
  have kept: "transform_shipping (co_shipping ?p) = co_shipping ?p"
    using mobile_form_kept [OF e164(1)] trimmed by (simp add: transform_shipping_def checkout_payload_def client_mobile_is_server_mobile n)
  have "shipping_rules (co_shipping ?p)"
    using assms(1) pin e164 by (auto simp: shipping_rules_def checkout_payload_def client_mobile_is_server_mobile n shipping_schema_def
        Let_def given_text_def pin_code_def split: if_splits option.splits)
  moreover have "case co_coupon ?p of None \<Rightarrow> True | Some c \<Rightarrow> length c \<le> 50 \<and> coupon_code_text c"
    using assms(2) by (simp add: checkout_payload_def split: option.split)
  ultimately have "validate_create_order ?p = Some ?p" by (simp add: validate_create_order_def kept)
  moreover have "postal_route base fetch (postal_code a) \<noteq> Inl (BadRequest e)" for base fetch e
    using pin by (simp add: postal_route_def parse_pin_code_def trimmed postal_lookup_def normalize_postal_def Let_def
        then_do_Inl split: postal_answer.split option.split)
  ultimately show ?thesis using phone e164(1) by simp
qed

definition sample_shipping_form :: shipping_snapshot where
  "sample_shipping_form =
     \<lparr>recipient_name = '' Ann '', phone = '' 098765-43210'', address_line1 = ''1 High St'', address_line2 = Some '''',
      city = ''Pune'', region = ''MH'', postal_code = ''411001 '', country = ''India''\<rparr>"

theorem accepted_shipping_form_is_a_valid_request_witness:
  "map_option (\<lambda>a. validate_create_order (checkout_payload None a) = Some (checkout_payload None a))
     (shipping_schema sample_shipping_form) = Some True"
proof -
  have "shipping_schema sample_shipping_form \<noteq> None" by code_simp
  then obtain a where a: "shipping_schema sample_shipping_form = Some a" by blast
  from accepted_shipping_form_is_a_valid_request [OF a, of None] show ?thesis by (simp add: a)
qed

section \<open>PIN codes\<close>

text \<open>
  The lookup answers with a place only for a PIN code of six digits that the provider answered with
  success; the district and the state it names are texts of the provider's rows, and no other district or
  state is named by more rows.
\<close>

theorem lookup_names_the_majority:
  assumes "postal_lookup base fetch raw = Inr v"
  shows "pin_code (js_trim raw) \<and> po_code v = js_trim raw \<and> po_city v = po_district v \<and>
    (\<exists>status body. fetch (postal_url base (js_trim raw)) = HttpAnswer status (Some body) \<and> 200 \<le> status \<and> status \<le> 299 \<and>
       po_district v \<in> set (column ''district'' (extract_offices body)) \<and>
       po_state v \<in> set (column ''state'' (extract_offices body)) \<and>
       (\<forall>x. count_list (column ''district'' (extract_offices body)) x \<le>
              count_list (column ''district'' (extract_offices body)) (po_district v)) \<and>
       (\<forall>x. count_list (column ''state'' (extract_offices body)) x \<le>
              count_list (column ''state'' (extract_offices body)) (po_state v)))"
proof -
  obtain status body where r: "pin_code (js_trim raw)"
    "fetch (postal_url base (js_trim raw)) = HttpAnswer status (Some body)" "200 \<le> status" "status \<le> 299"
    "normalize_postal (js_trim raw) body = Inr v"
    using assms by (auto simp: postal_lookup_def Let_def require_def split: if_splits postal_answer.splits option.splits)
  let ?d = "column ''district'' (extract_offices body)" and ?s = "column ''state'' (extract_offices body)"
  have v: "v = \<lparr>po_code = js_trim raw, po_city = most_common ?d, po_district = most_common ?d,
      po_state = most_common ?s, po_country = ''India''\<rparr>" "?d \<noteq> []" "?s \<noteq> []"
    using r(5) by (auto simp: normalize_postal_def Let_def most_common_empty split: if_splits)
  show ?thesis using r v(1) most_common_spec [OF v(2)] most_common_spec [OF v(3)] by auto
qed

definition sample_offices :: "string \<Rightarrow> postal_answer" where
  "sample_offices _ = HttpAnswer 200 (Some (JObject [(''data'', JObject [(''post_offices'', JArray
     [JObject [(''district'', JText ''Thane''), (''state'', JText ''MH'')],
      JObject [(''district'', JText '' Pune''), (''state'', JText ''MH'')],
      JNull, JObject [(''district'', JText ''Pune ''), (''state'', JOther)]])])]))"

theorem lookup_names_the_majority_witness:
  "map_sum id po_district (postal_lookup ''https://x/'' sample_offices ''411001'') = Inr ''Pune'' \<and> pin_code ''411001''"
proof -
  have p: "map_sum id po_district (postal_lookup ''https://x/'' sample_offices ''411001'') = Inr ''Pune''" by code_simp
  then obtain v where "postal_lookup ''https://x/'' sample_offices ''411001'' = Inr v"
    by (cases "postal_lookup ''https://x/'' sample_offices ''411001''") auto
  from lookup_names_the_majority [OF this] have "pin_code (js_trim ''411001'')" by blast
  moreover have "js_trim ''411001'' = ''411001''" by code_simp
  ultimately show ?thesis using p by simp
qed

section \<open>Settings and passwords\<close>

lemma setting_cases:
  assumes "get_admin_setting_definition key = Some d" "de_kind d \<in> {MoneySetting, PercentSetting} \<or> key = ''storeName''"
  shows "key = ''shippingFeeFlat'' \<and> de_kind d = MoneySetting \<or> key = ''tax.ratePercent'' \<and> de_kind d = PercentSetting
    \<or> key = ''storeName''"
proof -
  have "d \<in> set admin_setting_definitions" "de_key d = key"
    using assms(1) by (auto simp: get_admin_setting_definition_def dest: find_SomeD)
  moreover have "list_all (\<lambda>d. de_kind d \<in> {MoneySetting, PercentSetting} \<or> de_key d = ''storeName'' \<longrightarrow>
      de_key d = ''shippingFeeFlat'' \<and> de_kind d = MoneySetting \<or>
      de_key d = ''tax.ratePercent'' \<and> de_kind d = PercentSetting \<or> de_key d = ''storeName'') admin_setting_definitions"
    by code_simp
  ultimately show ?thesis using assms(2) unfolding list_all_iff by blast
qed

lemma setting_rules:
  "normalize_admin_setting_value ''shippingFeeFlat'' = normalize_money"
  "normalize_admin_setting_value ''tax.ratePercent'' = normalize_percent"
  "normalize_admin_setting_value ''storeName'' = normalize_store_name"
  "normalize_admin_setting_value ''tax.enabled'' = normalize_boolean"
  "schema_for_kind MoneySetting ''shippingFeeFlat'' = money_schema"
  "schema_for_kind PercentSetting ''tax.ratePercent'' = percent_schema"
  "schema_for_kind k ''storeName'' = store_name_schema"
  "schema_for_kind BooleanSetting ''tax.enabled'' = boolean_schema"
  by (simp_all add: fun_eq_iff normalize_admin_setting_value_def normalizers_def schema_for_kind_def)

lemma amount_not_empty: "plain_amount t \<Longrightarrow> t \<noteq> ''''"
  by (auto simp: plain_amount_def whole_part_def)

lemma schema_agrees:
  "(\<exists>v. money_schema raw = Some v) \<longleftrightarrow> (\<exists>n. normalize_money raw = Inr n)"
  "(\<exists>v. percent_schema raw = Some v) \<longleftrightarrow> (\<exists>n. normalize_percent raw = Inr n)"
  "(\<exists>v. store_name_schema raw = Some v) \<longleftrightarrow> (\<exists>n. normalize_store_name raw = Inr n)"
  by (auto simp: money_schema_def normalize_money_def percent_schema_def normalize_percent_def store_name_schema_def
      normalize_store_name_def given_text_def max_shipping_fee_rupees_def max_store_name_length_def Let_def
      dest: amount_not_empty)

lemma schema_trims:
  "money_schema raw = Some v \<Longrightarrow> normalize_money v = normalize_money raw"
  "percent_schema raw = Some v \<Longrightarrow> normalize_percent v = normalize_percent raw"
  "store_name_schema raw = Some v \<Longrightarrow> normalize_store_name v = normalize_store_name raw"
proof -
  show "money_schema raw = Some v \<Longrightarrow> normalize_money v = normalize_money raw"
    by (cases "v = js_trim raw") (auto simp: money_schema_def normalize_money_def Let_def split: if_splits)
  show "percent_schema raw = Some v \<Longrightarrow> normalize_percent v = normalize_percent raw"
    by (cases "v = js_trim raw") (auto simp: percent_schema_def normalize_percent_def Let_def split: if_splits)
  show "store_name_schema raw = Some v \<Longrightarrow> normalize_store_name v = normalize_store_name raw"
    by (cases "v = js_trim raw") (auto simp: store_name_schema_def normalize_store_name_def Let_def split: if_splits)
qed

lemma boolean_setting:
  assumes "get_admin_setting_definition key = Some d" "de_kind d = BooleanSetting"
  shows "key = ''tax.enabled''"
proof -
  have "d \<in> set admin_setting_definitions" "de_key d = key"
    using assms(1) by (auto simp: get_admin_setting_definition_def dest: find_SomeD)
  moreover have "list_all (\<lambda>d. de_kind d = BooleanSetting \<longrightarrow> de_key d = ''tax.enabled'') admin_setting_definitions"
    by code_simp
  ultimately show ?thesis using assms(2) unfolding list_all_iff by blast
qed

text \<open>
  For the amounts, the percentages and the name of the store, the settings form accepts a text exactly
  when the server does, and what the form sends is normalised to what the text itself would be. For the
  switches, what the form accepts the server accepts.
\<close>

theorem settings_form_agrees_with_the_server:
  assumes "get_admin_setting_definition key = Some d"
  shows "(de_kind d \<in> {MoneySetting, PercentSetting} \<or> key = ''storeName'' \<longrightarrow>
      ((\<exists>v. schema_for_kind (de_kind d) key raw = Some v) \<longleftrightarrow> (\<exists>n. normalize_admin_setting_value key raw = Inr n)) \<and>
      (\<forall>v. schema_for_kind (de_kind d) key raw = Some v \<longrightarrow>
         normalize_admin_setting_value key v = normalize_admin_setting_value key raw)) \<and>
    (de_kind d = BooleanSetting \<and> schema_for_kind (de_kind d) key raw = Some v' \<longrightarrow>
      normalize_admin_setting_value key v' = Inr v')"
proof (intro conjI impI)
  assume a: "de_kind d \<in> {MoneySetting, PercentSetting} \<or> key = ''storeName''"
  show "(\<exists>v. schema_for_kind (de_kind d) key raw = Some v) \<longleftrightarrow> (\<exists>n. normalize_admin_setting_value key raw = Inr n)"
    using setting_cases [OF assms a] by (elim disjE conjE) (simp_all only: setting_rules schema_agrees)
  show "\<forall>v. schema_for_kind (de_kind d) key raw = Some v \<longrightarrow>
      normalize_admin_setting_value key v = normalize_admin_setting_value key raw"
    using setting_cases [OF assms a] by (elim disjE conjE) (auto simp: setting_rules schema_trims)
next
  assume a: "de_kind d = BooleanSetting \<and> schema_for_kind (de_kind d) key raw = Some v'"
  have key: "key = ''tax.enabled''" using boolean_setting [OF assms] a by blast
  then have "v' \<in> {''true'', ''false''}"
    using a by (auto simp: setting_rules boolean_schema_def split: if_splits)
  moreover have "normalize_boolean ''true'' = Inr ''true''" "normalize_boolean ''false'' = Inr ''false''" by code_simp+
  ultimately show "normalize_admin_setting_value key v' = Inr v'" unfolding key setting_rules by auto
qed

theorem settings_form_agrees_with_the_server_witness:
  "\<exists>n. normalize_admin_setting_value ''shippingFeeFlat'' '' 49.5'' = Inr n"
proof -
  have k: "map_option de_kind (get_admin_setting_definition ''shippingFeeFlat'') = Some MoneySetting" by code_simp
  then obtain d where d: "get_admin_setting_definition ''shippingFeeFlat'' = Some d" "de_kind d = MoneySetting" by auto
  have "schema_for_kind MoneySetting ''shippingFeeFlat'' '' 49.5'' = Some ''49.5''" by code_simp
  then show ?thesis using settings_form_agrees_with_the_server [OF d(1), of "'' 49.5''" "''''"] d(2) by auto
qed

text \<open>
  The form of a new password accepts exactly what the server accepts, and the checklist beside it is
  fulfilled exactly then.
\<close>

theorem password_form_agrees_with_the_server:
  "password_schema p = register_password_ok p \<and> list_all (\<lambda>r. r p) password_requirements = password_schema p"
proof -
  have "client_common_passwords = common_passwords" by (simp add: client_common_passwords_def common_passwords_def)
  then show ?thesis
    by (auto simp: password_schema_def register_password_ok_def password_policy_def password_requirements_def
        is_purely_numeric_def is_common_password_def password_min_length_def)
qed

section \<open>Customizations\<close>

text \<open>
  A customization form that the browser accepts passes the server's check of every field: what is sent
  is accepted, and a field for which nothing is sent is optional - provided the options of a choice carry
  no surrounding white space, which the server trims off the value but not off the option.
\<close>

theorem accepted_customization_form_passes_the_server:
  assumes "customization_schema fs values" "f \<in> set fs"
    "\<And>os x. field_options (parse_field_constraints (f_constraints f)) = Some os \<Longrightarrow> x \<in> set os \<Longrightarrow> js_trim x = x"
  shows "(\<forall>s. (f_id f, s) \<in> set (to_customization_value_dtos id_of [f] values) \<longrightarrow>
      vd_error (validate_field_shape f s) = None) \<and>
    (to_customization_value_dtos id_of [f] values = [] \<longrightarrow>
      vd_error (validate_field_shape f \<lparr>sb_text = None, sb_file = None\<rparr>) = None)"
proof -
  let ?v = "values (f_id f)"
  have a: "customization_field_schema f ?v" using assms(1,2) by (simp add: customization_schema_def list_all_iff)
  have short: "length (js_trim ?v) \<le> length ?v" 
    using length_dropWhile_le [of js_space "rev (dropWhile js_space ?v)"] length_dropWhile_le [of js_space ?v]
    by (simp add: js_trim_def)
  show ?thesis
  proof (cases "js_trim ?v = ''''")
    case True
    then show ?thesis
      using a by (simp add: to_customization_value_dtos_def customization_field_schema_def validate_field_shape_def
          has_text_def has_file_def Let_def)
  next
    case False
    then have "?v \<noteq> ''''" by (auto simp: js_trim_def)
    then show ?thesis
      using a False short assms(3)
      by (fastforce simp: to_customization_value_dtos_def customization_field_schema_def validate_field_shape_def
          field_submission_def has_text_def has_file_def Let_def split: option.splits)
  qed
qed

definition sample_choice :: field_row where
  "sample_choice =
     \<lparr>f_id = 3, f_product = 1, f_label = ''Colour'', f_type = ColorSelect, f_required = True, f_sort = 0, f_help = None,
      f_constraints = Constraints \<lparr>max_length = Some 10, allowed_formats = None, max_file_size_mb = None,
        field_options = Some [''Red'', ''Blue'']\<rparr>,
      f_surcharge_type = NoSurcharge, f_surcharge = Dec 0 2, f_tenant = 1\<rparr>"

theorem accepted_customization_form_passes_the_server_witness:
  "\<forall>s. (f_id sample_choice, s) \<in> set (to_customization_value_dtos (\<lambda>_. 0) [sample_choice] (\<lambda>_. ''Blue'')) \<longrightarrow>
      vd_error (validate_field_shape sample_choice s) = None"
proof -
  have "customization_schema [sample_choice] (\<lambda>_. ''Blue'')" by code_simp
  moreover have "list_all (\<lambda>x. js_trim x = x) [''Red'', ''Blue'']" by code_simp
  then have "js_trim x = x" if "field_options (parse_field_constraints (f_constraints sample_choice)) = Some os" "x \<in> set os"
    for os x using that by (auto simp: sample_choice_def)
  ultimately show ?thesis
    using accepted_customization_form_passes_the_server [of "[sample_choice]" "\<lambda>_. ''Blue''" sample_choice] by simp
qed

section \<open>Amounts\<close>

lemma exact_half_even: "0 < d \<Longrightarrow> round_half_even (m * d) d = m"
  by (simp add: round_half_even_def Let_def)

lemmas double_simps =
  is_valid_decimal_def times_100_def to_double_def double_places_def compute_bitlen round_half_even_def Let_def

lemma whole_double: "0 < d \<Longrightarrow> 2 ^ snd (to_double (m * d) d) dvd fst (to_double (m * d) d)"
  using exact_half_even [of d "m * 2 ^ double_places (m * d) d"] by (simp add: to_double_def ac_simps)

lemma quarter_double:
  assumes "0 < q" "bitlen q \<le> 53"
  shows "\<exists>k. to_double (25 * q) 100 = (q * 2 ^ k, Suc (Suc k))"
proof -
  have "25 * q * 2 ^ 60 div 100 = q * 2 ^ 58" by simp
  then have "double_places (25 * q) 100 = nat (113 - (bitlen q + 58))"
    using bitlen_pow2 [OF assms(1), of 58] by (simp only: double_places_def of_nat_numeral)
  then have k: "double_places (25 * q) 100 = Suc (Suc (nat (53 - bitlen q)))" using assms(2) by simp
  define k where "k = nat (53 - bitlen q)"
  have "round_half_even (25 * q * 2 ^ Suc (Suc k)) 100 = q * 2 ^ k"
    using exact_half_even [of 100 "q * 2 ^ k"] by (simp add: ac_simps)
  then show ?thesis by (auto simp: to_double_def k k_def)
qed



end
