(* ===== verification/Credentials.thy ===== *)
theory Credentials
  imports Addresses
begin

text \<open>
  The credentials of a merchant's payment account: the master key
  (\<open>common/config/payment-credentials-master-key.ts\<close>), the envelope in which they are stored
  (\<open>payments/crypto/credential-encryption.service.ts\<close>), and what the Razorpay adapter reads from it and
  checks with it (\<open>payments/razorpay/razorpay-provider-adapter.ts\<close>). The cipher, the keyed hash, UTF-8 and
  the JSON parser are parameters; the initialisation vector is an argument.
\<close>

type_synonym bytes = "nat list"

section \<open>The master key\<close>

definition base64_char :: "char \<Rightarrow> bool" where
  "base64_char c \<longleftrightarrow> (let n = of_char c :: nat in
     65 \<le> n \<and> n \<le> 90 \<or> 97 \<le> n \<and> n \<le> 122 \<or> is_digit c) \<or> c \<in> set ''+/''"

definition base64_pattern :: "string \<Rightarrow> bool" where
  "base64_pattern s \<longleftrightarrow> takeWhile base64_char s \<noteq> [] \<and> dropWhile base64_char s \<in> {'''', ''='', ''==''}"

definition sextet :: "char \<Rightarrow> nat" where
  "sextet c =
     (let n = of_char c in
      if 65 \<le> n \<and> n \<le> 90 then n - 65
      else if 97 \<le> n \<and> n \<le> 122 then n - 71
      else if is_digit c then n + 4
      else if c = CHR ''+'' then 62 else 63)"

text \<open>Bits that fill no byte are dropped.\<close>

fun unpack_sextets :: "nat list \<Rightarrow> bytes" where
  "unpack_sextets (a # b # c # d # r) =
     (a * 4 + b div 16) # ((b mod 16) * 16 + c div 4) # ((c mod 4) * 64 + d) # unpack_sextets r"
| "unpack_sextets [a, b, c] = [a * 4 + b div 16, (b mod 16) * 16 + c div 4]"
| "unpack_sextets [a, b] = [a * 4 + b div 16]"
| "unpack_sextets _ = []"

definition base64_decode :: "string \<Rightarrow> bytes" where
  "base64_decode s = unpack_sextets (map sextet (takeWhile base64_char s))"

definition master_key_bytes :: nat where
  "master_key_bytes = 32"

definition resolve_master_key :: "string option \<Rightarrow> bytes result" where
  "resolve_master_key raw =
     (let v = (case raw of None \<Rightarrow> '''' | Some r \<Rightarrow> js_trim r) in
      then_do (require (v \<noteq> '''') (Thrown ''PAYMENT_CREDENTIALS_MASTER_KEY is not configured'')) (\<lambda>_.
      then_do (require (base64_pattern v) (Thrown ''PAYMENT_CREDENTIALS_MASTER_KEY must be base64-encoded'')) (\<lambda>_.
      then_do (require (length (base64_decode v) = master_key_bytes)
        (Thrown ''PAYMENT_CREDENTIALS_MASTER_KEY must decode to 32 bytes for AES-256-GCM'')) (\<lambda>_.
      Inr (base64_decode v)))))"

section \<open>The envelope\<close>

text \<open>
  AES-256-GCM: sealing gives the ciphertext and the tag of 16 bytes, opening checks the tag. What it
  promises is stated as \<open>cipher_ok\<close>: it opens exactly what it sealed.
\<close>

record cipher =
  seal :: "bytes \<Rightarrow> bytes \<Rightarrow> bytes \<Rightarrow> bytes \<times> bytes"
  unseal :: "bytes \<Rightarrow> bytes \<Rightarrow> bytes \<Rightarrow> bytes \<Rightarrow> bytes option"

definition cipher_ok :: "cipher \<Rightarrow> bool" where
  "cipher_ok c \<longleftrightarrow> (\<forall>k iv p ct tag.
     (unseal c k iv tag ct = Some p \<longleftrightarrow> seal c k iv p = (ct, tag)) \<and> length (snd (seal c k iv p)) = 16)"

definition iv_bytes :: nat where "iv_bytes = 12"

definition auth_tag_bytes :: nat where "auth_tag_bytes = 16"

definition envelope_version :: nat where "envelope_version = 1"

definition envelope_min_length :: nat where
  "envelope_min_length = 1 + iv_bytes + auth_tag_bytes"

record text_codec =
  utf8 :: "string \<Rightarrow> bytes"
  from_utf8 :: "bytes \<Rightarrow> string"

definition encrypt_text :: "cipher \<Rightarrow> text_codec \<Rightarrow> string option \<Rightarrow> bytes \<Rightarrow> string \<Rightarrow> bytes result" where
  "encrypt_text c t raw_key iv plaintext =
     then_do (resolve_master_key raw_key) (\<lambda>key.
     let (ct, tag) = seal c key iv (utf8 t plaintext)
     in Inr (envelope_version # iv @ tag @ ct))"

definition decrypt_text :: "cipher \<Rightarrow> text_codec \<Rightarrow> string option \<Rightarrow> bytes \<Rightarrow> string result" where
  "decrypt_text c t raw_key e =
     then_do (require (envelope_min_length \<le> length e) (Thrown ''Malformed credential ciphertext'')) (\<lambda>_.
     then_do (require (hd e = envelope_version)
       (Thrown (''Unsupported credential envelope version: '' @ nat_text (hd e)))) (\<lambda>_.
     then_do (resolve_master_key raw_key) (\<lambda>key.
     case unseal c key (take iv_bytes (drop 1 e)) (take auth_tag_bytes (drop (1 + iv_bytes) e)) (drop envelope_min_length e) of
       None \<Rightarrow> Inl (Thrown ''Credential ciphertext failed authentication - rejected'')
     | Some p \<Rightarrow> Inr (from_utf8 t p))))"

section \<open>The adapter's credentials\<close>

record merchant_credentials =
  mc_key_id :: string
  mc_key_secret :: string
  mc_webhook_secret :: "string option"

definition credential_error :: err where
  "credential_error = Thrown ''PaymentProviderCredentialError''"

definition read_credentials :: "json \<Rightarrow> merchant_credentials option" where
  "read_credentials j =
     (case (member_of ''keyId'' j, member_of ''keySecret'' j, member_of ''webhookSecret'' j) of
        (Some (JText i), Some (JText s), None) \<Rightarrow>
          Some \<lparr>mc_key_id = i, mc_key_secret = s, mc_webhook_secret = None\<rparr>
      | (Some (JText i), Some (JText s), Some (JText w)) \<Rightarrow>
          Some \<lparr>mc_key_id = i, mc_key_secret = s, mc_webhook_secret = Some w\<rparr>
      | _ \<Rightarrow> None)"

definition decrypt_credentials ::
  "cipher \<Rightarrow> text_codec \<Rightarrow> (string \<Rightarrow> json option) \<Rightarrow> string option \<Rightarrow> bytes \<Rightarrow> merchant_credentials result" where
  "decrypt_credentials c t parse raw_key e =
     (case decrypt_text c t raw_key e of
        Inl _ \<Rightarrow> Inl credential_error
      | Inr s \<Rightarrow> or_throw (Option.bind (parse s) read_credentials) credential_error)"

definition timing_safe_equal :: "string \<Rightarrow> string \<Rightarrow> bool" where
  "timing_safe_equal expected actual \<longleftrightarrow> length expected = length actual \<and> expected = actual"

definition payment_signature_ok ::
  "(string \<Rightarrow> string \<Rightarrow> string) \<Rightarrow> merchant_credentials \<Rightarrow> string \<Rightarrow> string \<Rightarrow> string \<Rightarrow> bool" where
  "payment_signature_ok hmac m order payment signature \<longleftrightarrow>
     timing_safe_equal (hmac (mc_key_secret m) (order @ ''|'' @ payment)) signature"

text \<open>Without a secret for webhooks every signature is refused.\<close>

definition webhook_signature_ok ::
  "(string \<Rightarrow> string \<Rightarrow> string) \<Rightarrow> merchant_credentials \<Rightarrow> string \<Rightarrow> string \<Rightarrow> bool" where
  "webhook_signature_ok hmac m raw signature \<longleftrightarrow>
     (case mc_webhook_secret m of
        None \<Rightarrow> False
      | Some w \<Rightarrow> w \<noteq> '''' \<and> timing_safe_equal (hmac w raw) signature)"

definition verify_payment_with ::
  "cipher \<Rightarrow> text_codec \<Rightarrow> (string \<Rightarrow> json option) \<Rightarrow> (string \<Rightarrow> string \<Rightarrow> string) \<Rightarrow> string option \<Rightarrow> bytes
     \<Rightarrow> string \<Rightarrow> string \<Rightarrow> string \<Rightarrow> bool result" where
  "verify_payment_with c t parse hmac raw_key e order payment signature =
     then_do (decrypt_credentials c t parse raw_key e) (\<lambda>m. Inr (payment_signature_ok hmac m order payment signature))"

definition verify_webhook_with ::
  "cipher \<Rightarrow> text_codec \<Rightarrow> (string \<Rightarrow> json option) \<Rightarrow> (string \<Rightarrow> string \<Rightarrow> string) \<Rightarrow> string option \<Rightarrow> bytes
     \<Rightarrow> string \<Rightarrow> string \<Rightarrow> bool result" where
  "verify_webhook_with c t parse hmac raw_key e raw signature =
     then_do (decrypt_credentials c t parse raw_key e) (\<lambda>m. Inr (webhook_signature_ok hmac m raw signature))"

section \<open>Exactness\<close>

lemma unpacked_length: "length (unpack_sextets xs) = length xs * 6 div 8"
  by (induction xs rule: unpack_sextets.induct) simp_all

text \<open>A key is accepted exactly when it is 43 characters of the alphabet and at most two signs of padding.\<close>

lemma master_key_length:
  "(\<exists>k. resolve_master_key (Some v) = Inr k) \<longleftrightarrow>
     (let s = js_trim v in length (takeWhile base64_char s) = 43 \<and> dropWhile base64_char s \<in> {'''', ''='', ''==''})"
proof -
  have "n * 6 div 8 = 32 \<longleftrightarrow> n = 43" for n :: nat by presburger
  moreover have "takeWhile base64_char s \<noteq> [] \<and> s \<noteq> ''''" if "length (takeWhile base64_char s) = 43" for s
    using that by auto
  ultimately show ?thesis
    by (auto simp: resolve_master_key_def Let_def base64_pattern_def base64_decode_def unpacked_length master_key_bytes_def)
qed

lemma envelope_parts:
  assumes "length iv = 12" "length tag = 16"
  shows "take 12 (drop 1 (v # iv @ tag @ ct)) = iv" "take 16 (drop (1 + 12) (v # iv @ tag @ ct)) = tag"
    "drop (1 + 12 + 16) (v # iv @ tag @ ct) = ct"
  using assms by simp_all

lemma encrypted_text:
  assumes "resolve_master_key raw_key = Inr key"
  shows "encrypt_text c t raw_key iv x =
    Inr (envelope_version # iv @ snd (seal c key iv (utf8 t x)) @ fst (seal c key iv (utf8 t x)))"
  using assms by (simp add: encrypt_text_def Let_def case_prod_beta)


definition sample_cipher :: cipher where
  "sample_cipher =
     \<lparr>seal = (\<lambda>k iv p. (p, replicate 15 0 @ [sum_list k + sum_list iv + sum_list p])),
      unseal = (\<lambda>k iv tag ct. if tag = replicate 15 0 @ [sum_list k + sum_list iv + sum_list ct] then Some ct else None)\<rparr>"

definition sample_codec :: text_codec where
  "sample_codec = \<lparr>utf8 = map of_char, from_utf8 = map char_of\<rparr>"


end
