(* ===== verification/Spec2Isabelle.thy ===== *)
theory Spec2Isabelle
  imports MoneyProperties RefundProperties PaymentProperties ShopProperties BillingScenarios
    QuotaProperties CatalogProperties DomainProperties AccessProperties SettingsProperties
    InvoiceProperties ReviewProperties PlatformProperties RazorpayProperties
    AdminProperties ClientProperties Credentials
begin

text \<open>
  PrintForge: a model of the backend (\<open>src/backend/src\<close>, TypeScript on NestJS and Prisma) of a
  multi-tenant shop for personalised products, and what holds of it. Paths below are relative to
  that directory; tables are those of \<open>prisma/schema.prisma\<close>.

  \<^bold>\<open>The program.\<close> A \<^emph>\<open>tenant\<close> sells through a \<^emph>\<open>store\<close>. Customers fill a cart with
  customised products, check out with a coupon, and pay through a payment provider, whose
  webhooks and whose reconciliation job move the order; orders are cancelled and refunded; an
  outbox sends the mails. The tenant itself pays for a \<^emph>\<open>subscription\<close>, whose plan gives it
  features and limits that the services enforce. A request of a browser finds its store by its
  host name. All services share one database; each keeps its state there only, but for two
  in-process caches (the lookups of host names, the resolution mode).

  \<^bold>\<open>How it is modelled.\<close> A table is a list of rows (records), the database a record of tables:
  \<open>shop\<close> (theory Shop) for orders, payments, refunds and events, \<open>billing_db\<close> (Subscriptions) for
  subscriptions, \<open>market\<close> (Market) for the whole commerce side, which holds both, and \<open>site\<close>
  (Domains), which adds the domains and the cache, and \<open>realm\<close> (Sessions), which adds users,
  refresh tokens, memberships and support sessions. A Prisma call is a function on rows with its
  constraints written out (unique indexes, foreign keys that a service can hit); \<open>updateMany\<close> with
  a condition is an update of the rows that meet it, with the count of hits. A transaction is a
  function from the database to an error or a result and a new database, and \<open>run_tx\<close> keeps the
  old one on an error; an operation that is several transactions, or that calls a provider in
  between, is several functions, and rows that the code read earlier are arguments, so stale
  reads are possible. Every exception is a value of \<open>err\<close> with its message. Amounts are exact
  integers of paise or decimals with a scale, times are integers, identifiers are fresh naturals.

  \<^bold>\<open>Theories, and the code each models.\<close>

  \<^item> Prelude: errors, transactions, rows, text, pages. Machines: the contracts of a transition table
    and of a log, as locales that OrderMachine, SubscriptionMachine and Accounts interpret.
  \<^item> Money: \<open>cart/pricing/money.util.ts\<close>, \<open>checkout/pricing\<close>, \<open>checkout/tax\<close>. MoneyProperties: the
    tax parts add up for every rate and mode; paise and text round trip.
  \<^item> OrderMachine, Tenancy, Shop, Orders: \<open>orders/\<close>, \<open>common/tenant/object-auth.ts\<close>, the audit rows.
    Accounts: \<open>payments/payment-accounts/\<close>. Payments, PaymentEvents: \<open>payments/payments.service.ts\<close>.
    Refunds: \<open>payments/refunds/\<close>. Pollers: \<open>payments/webhooks/\<close>, the reconciliation job and
    \<open>notifications/outbox/\<close>.
  \<^item> ShopInvariants, ShopReach: every operation of the order side as steps that interleave in any
    order, and the invariants of every reachable \<open>shop\<close>: the history of an order replays to its
    status, a paid order has a captured payment, an attempt belongs to its order.
    ShopProperties, PaymentProperties, RefundProperties: what webhooks, reconciliation, refunds and
    cancellation do, branch by branch.
  \<^item> SubscriptionMachine, Idempotency, Subscriptions, Billing, BillingJobs: \<open>subscriptions/\<close> and
    \<open>checkout/idempotency/\<close>. BillingInvariants, BillingReach: the same for subscriptions.
    BillingProperties, BillingScenarios: replays of a call, plans, expiry, and runs whose outcome is
    not the documented one.
  \<^item> Quota: \<open>entitlements/\<close>, \<open>usage/\<close>, \<open>limits/\<close>, the catalogue of plans; a locale states what the
    usage table promises as a counter per key. QuotaProperties: the refinement of that
    specification, the limit under interleaved statements, the precedence of overrides.
  \<^item> Market, Customization, Carts, Coupons, Checkout, Products, Uploads: \<open>cart/\<close>, \<open>coupons/\<close>,
    \<open>checkout/checkout.service.ts\<close>, \<open>products/\<close>, \<open>uploads/\<close>. CheckoutFacts: what a committed checkout
    did. MarketReach: every operation as a step; the shop inside a reachable market is a reachable
    shop, so the theorems of the order side hold there. CheckoutProperties, MarketProperties,
    CatalogProperties: amounts, idempotence, coupons, the category tree.
  \<^item> Hostnames, ResolutionMode, Domains, StoreDomains, PlatformDomains, StoreResolution:
    \<open>store-domains/\<close>, \<open>platform/platform-domains/\<close>, \<open>platform/platform-config/\<close> (the mode) and
    \<open>common/tenant/store-domain-resolution/\<close>. SiteReach: merchants, platform administrators, lookups
    and the rest of the program as steps, with planned removals as part of the state.
    DomainProperties: rows are well formed, an answer is that of the current row whatever the cache
    holds, revocation sticks and how it is evaded, the origin policy agrees with the resolver.
  \<^item> Sessions, Team, Gate: \<open>auth/\<close>, \<open>users/\<close>, \<open>team/\<close>, \<open>support-sessions/\<close> and the global guards.
    SessionReach: registrations, logins, refreshes, logouts and resets as steps that interleave
    between their reads and their writes. SessionProperties: reuse of a refresh token, what a logout
    ends and what survives it. AccessProperties: what an admitted request may rely on, owners.
  \<^item> Settings: \<open>app-setting/\<close>, the normal form of each key; SettingsProperties: whatever merchants write,
    checkout can read it. Invoices: \<open>invoices/\<close>, over \<open>ledger\<close>, the market with invoices and counters;
    InvoiceProperties: numbers without gaps, one unchanging invoice per order. Reviews: \<open>reviews/\<close>, over
    \<open>forum\<close>, the market with reviews; ReviewProperties: ratings are averages (an average passes through
    a double of 50 to 52 binary places, exact enough for 2^43 reviews), moderation holds.
  \<^item> PlatformPlans: \<open>platform/platform-plans/\<close> and \<open>platform/platform.service.ts\<close> on \<open>site\<close>, with the
    foreign key of plans as a condition on commits. PlatformProperties: overrides, the deletion of a
    plan, and suspension across the guard, the resolvers and checkout.
  \<^item> RazorpayBilling: \<open>subscriptions/razorpay-billing-provider.ts\<close>, the billing provider of Billing over
    the vendor's client; RazorpayProperties: what the flows of subscriptions decide with it. Admin:
    \<open>admin/admin.service.ts\<close>; AdminProperties: figures that add up, customers of the tenant only.
    Credentials: \<open>payments/crypto/\<close>, the master key, and what the payment adapter reads and checks.
  \<^item> Addresses: \<open>common/validation/indian-address.util.ts\<close>, the request of a checkout and \<open>postal/\<close>.
    ClientForms: the rules of \<open>frontend/src\<close> that mirror the server, with prices as doubles.
    ClientProperties: which accepted forms the server accepts, and valid values that a form refuses.

  \<^bold>\<open>Bounds and fuel.\<close> The only loops of the code are over lists, bounded retries (a counter in the
  row) and the category tree, which is built level by level: \<open>subtree\<close> takes fuel and the property
  of the tree says that the number of rows is enough. Integers of the code are JavaScript numbers or
  \<open>BigInt\<close>, modelled as \<open>int\<close>; the order and invoice counters are Postgres \<open>int4\<close> and stop at 2^31 - 1; the bytes
  of an uploaded file are \<open>8 word\<close>. The inclusive tax is the one division that \<open>decimal.js\<close> rounds to
  twenty digits; the hypothesis on it states that precision, and long division meets it.

  \<^bold>\<open>Parameters.\<close> Code outside the repository is an argument: the payment and billing providers,
  signature checks and JSON parsing of webhooks, password and token hashing, the division and parser of \<open>decimal.js\<close>, regular
  expressions kept in the database, storage of files, DNS, the hosting provider, text collation,
  delivery URLs, clocks and random tokens. Theorems that rely on one name what it must satisfy.

  \<^bold>\<open>Not modelled.\<close> The lists of tenants (projections of rows), the rate limiter, the calls of the
  payment adapter and of Vercel's (they translate arguments for code outside the repository), the
  seeds and backfills, and the pages of the frontend. Within modelled parts:
  the JSON metadata of audit rows and events (but for the flags and reasons the code reads back),
  logging, HTML bodies of mails, the text of the readiness report, most validators of request
  classes, product specifications, wildcards in searches, characters above code point 255 (a dash in
  a message is written \<open>-\<close>), int4 overflow of usage counts. Row-level security is not modelled: a
  query's own tenant condition is. A cache miss and the write of its entry are one step, and so are
  a commit and the removal of the names it changed from the cache.
\<close>

end
